(* ===== verification/Prelude.thy ===== *)
theory Prelude
  imports Main "HOL-Library.Char_ord" "HOL-Library.List_Lexorder"
begin

text \<open>
  Shared vocabulary of the development: the error values of the program, the propagation of
  errors that Rust writes with the question mark operator, the string functions of Rust's
  standard library that the sources use, and the generic lemmas on row lists that carry the
  proofs about the catalogue.

  A string is the list of its UTF-8 bytes, so \<open>length\<close> is Rust's \<open>len\<close>. The functions that
  depend on character classes (trimming, changing case) act on the ASCII characters, which is
  what they do on ASCII text; other bytes are left as they are.
\<close>

named_theorems andThen_rules \<open>unfolding and inversion of error propagation\<close>
named_theorems rows \<open>facts about updating, filtering and searching row lists\<close>

section \<open>Errors and their propagation\<close>

text \<open>
  The error numbers and kinds that the program tells apart, and the error enumeration of
  \<^verbatim>\<open>main.rs\<close>. A message is kept as an ASCII gloss; where the program inspects a message (a
  prefix or a substring), the gloss keeps the inspected part literally.
\<close>

datatype errno = ENOENT | EPERM | EIO | EACCES | EBUSY | EEXIST | EXDEV | ENODEV | EINVAL
  | ENOTTY | ENOSPC | EOPNOTSUPP | ENOMEM | EFAULT | EROFS

datatype io_kind = KNotFound | KPermissionDenied | KInvalidInput | KUnsupported | KOther

datatype io_error = OsError errno | KindError io_kind string

fun raw_os_error :: "io_error \<Rightarrow> errno option" where
  "raw_os_error (OsError n) = Some n"
| "raw_os_error (KindError k m) = None"

fun errno_kind :: "errno \<Rightarrow> io_kind" where
  "errno_kind ENOENT = KNotFound"
| "errno_kind EPERM = KPermissionDenied"
| "errno_kind EACCES = KPermissionDenied"
| "errno_kind EINVAL = KInvalidInput"
| "errno_kind EOPNOTSUPP = KUnsupported"
| "errno_kind _ = KOther"

fun error_kind :: "io_error \<Rightarrow> io_kind" where
  "error_kind (OsError n) = errno_kind n"
| "error_kind (KindError k m) = k"

datatype VtlError =
    DatabaseError string
  | IoError io_error
  | InvalidSize string
  | TapeNotFound string
  | SlotOccupied
  | SlotEmpty
  | DriveEmpty
  | DriveBusy
  | InvalidParameter string
  | PermissionDenied string
  | NoAvailableSlots
  | InvalidTapeName string
  | QuotaExceeded string
  | TagNotFound string
  | LibraryNotFound string
  | ShelfNotFound string
  | LibraryExists string
  | TapeInDrive
  | TapeNotOnShelf

text \<open>
  \<open>andThen r k\<close> is Rust's \<open>let x = r?; k(x)\<close>. A failing check is \<open>require\<close>.
\<close>

fun andThen :: "'e + 'a \<Rightarrow> ('a \<Rightarrow> 'e + 'b) \<Rightarrow> 'e + 'b" where
  "andThen (Inl e) k = Inl e"
| "andThen (Inr x) k = k x"

definition require :: "bool \<Rightarrow> 'e \<Rightarrow> 'e + unit" where
  "require b e = (if b then Inr () else Inl e)"

definition ok_or :: "'a option \<Rightarrow> 'e \<Rightarrow> 'e + 'a" where
  "ok_or x e = (case x of None \<Rightarrow> Inl e | Some v \<Rightarrow> Inr v)"

fun is_ok :: "'e + 'a \<Rightarrow> bool" where
  "is_ok (Inl e) = False"
| "is_ok (Inr x) = True"

text \<open>A loop that runs a fallible body over a list and threads a state.\<close>

fun fold_ok :: "('x \<Rightarrow> 's \<Rightarrow> 'e + 's) \<Rightarrow> 'x list \<Rightarrow> 's \<Rightarrow> 'e + 's" where
  "fold_ok f [] s = Inr s"
| "fold_ok f (x # xs) s = andThen (f x s) (fold_ok f xs)"

text \<open>A loop that only checks.\<close>

fun all_ok :: "('x \<Rightarrow> 'e + unit) \<Rightarrow> 'x list \<Rightarrow> 'e + unit" where
  "all_ok f [] = Inr ()"
| "all_ok f (x # xs) = andThen (f x) (\<lambda>_. all_ok f xs)"

lemma andThen_Inr_iff [andThen_rules, simp]:
  "andThen r k = Inr y \<longleftrightarrow> (\<exists>x. r = Inr x \<and> k x = Inr y)"
  by (cases r) auto

lemma andThen_Inl_iff [andThen_rules]:
  "andThen r k = Inl e \<longleftrightarrow> r = Inl e \<or> (\<exists>x. r = Inr x \<and> k x = Inl e)"
  by (cases r) auto

lemma require_Inr [andThen_rules, simp]: "require b e = Inr u \<longleftrightarrow> b"
  by (simp add: require_def)

lemma require_Inl [andThen_rules, simp]: "require b e = Inl e' \<longleftrightarrow> \<not> b \<and> e' = e"
  by (auto simp: require_def)

lemma ok_or_Inr [andThen_rules, simp]: "ok_or x e = Inr v \<longleftrightarrow> x = Some v"
  by (auto simp: ok_or_def split: option.splits)

lemma ok_or_Inl [andThen_rules, simp]: "ok_or x e = Inl e' \<longleftrightarrow> x = None \<and> e' = e"
  by (auto simp: ok_or_def split: option.splits)

lemma ok_or_simps [simp]: "ok_or None e = Inl e" "ok_or (Some v) e = Inr v"
  by (simp_all add: ok_or_def)

lemma require_True [simp]: "require True e = Inr ()"
  by (simp add: require_def)

lemma require_False [simp]: "require False e = Inl e"
  by (simp add: require_def)

lemma andThen_assoc: "andThen (andThen r k) l = andThen r (\<lambda>x. andThen (k x) l)"
  by (cases r) auto

lemma andThen_cong [fundef_cong]:
  "r = r' \<Longrightarrow> (\<And>x. r' = Inr x \<Longrightarrow> k x = k' x) \<Longrightarrow> andThen r k = andThen r' k'"
  by (cases r') auto

lemma all_ok_Inr [andThen_rules]: "all_ok f xs = Inr () \<longleftrightarrow> (\<forall>x \<in> set xs. f x = Inr ())"
  by (induction xs) auto

text \<open>What every round of a successful loop keeps, the whole loop keeps.\<close>

lemma fold_ok_invariant:
  assumes "fold_ok f xs s = Inr s'" and "P s"
    and "\<And>x s s'. x \<in> set xs \<Longrightarrow> P s \<Longrightarrow> f x s = Inr s' \<Longrightarrow> P s'"
  shows "P s'"
  using assms
proof (induction xs arbitrary: s)
  case Nil
  then show ?case by simp
next
  case (Cons x xs)
  then obtain t where "f x s = Inr t" "fold_ok f xs t = Inr s'" by auto
  with Cons show ?case by (metis list.set_intros(1,2))
qed

lemma fold_ok_append: "fold_ok f (xs @ ys) s = andThen (fold_ok f xs s) (fold_ok f ys)"
proof (induction xs arbitrary: s)
  case (Cons x xs)
  then show ?case by (cases "f x s") auto
qed simp

section \<open>Rows\<close>

text \<open>
  A table is the list of its rows. A query for one row is \<open>find\<close>, a count is the length of a
  filtered list, an update maps the rows that satisfy its condition.
\<close>

definition update_where :: "('r \<Rightarrow> bool) \<Rightarrow> ('r \<Rightarrow> 'r) \<Rightarrow> 'r list \<Rightarrow> 'r list" where
  "update_where P f = map (\<lambda>r. if P r then f r else r)"

definition delete_where :: "('r \<Rightarrow> bool) \<Rightarrow> 'r list \<Rightarrow> 'r list" where
  "delete_where P = filter (\<lambda>r. \<not> P r)"

definition count_where :: "('r \<Rightarrow> bool) \<Rightarrow> 'r list \<Rightarrow> nat" where
  "count_where P rs = length (filter P rs)"

lemma fold_keeps: "P a \<Longrightarrow> (\<And>x a. x \<in> set xs \<Longrightarrow> P a \<Longrightarrow> P (f x a)) \<Longrightarrow> P (fold f xs a)"
  by (induction xs arbitrary: a) auto

lemma find_Some_in [rows]: "List.find P xs = Some x \<Longrightarrow> x \<in> set xs \<and> P x"
  by (metis find_Some_iff nth_mem)

lemma find_None_all [rows]: "List.find P xs = None \<longleftrightarrow> (\<forall>x \<in> set xs. \<not> P x)"
  by (auto simp: find_None_iff)

lemma set_update_where:
  "set (update_where P f rs) = (\<lambda>r. if P r then f r else r) ` set rs"
  by (simp add: update_where_def)

lemma ball_update_where [rows]:
  "(\<forall>r \<in> set (update_where P f rs). Q r) \<longleftrightarrow> (\<forall>r \<in> set rs. Q (if P r then f r else r))"
  by (auto simp: update_where_def)

lemma bex_update_where [rows]:
  "(\<exists>r \<in> set (update_where P f rs). Q r) \<longleftrightarrow> (\<exists>r \<in> set rs. Q (if P r then f r else r))"
  by (auto simp: update_where_def)

lemma set_delete_where [rows]: "set (delete_where P rs) = {r \<in> set rs. \<not> P r}"
  by (simp add: delete_where_def)

lemma count_where_0 [rows]: "count_where P rs = 0 \<longleftrightarrow> (\<forall>r \<in> set rs. \<not> P r)"
  by (simp add: count_where_def filter_empty_conv)

lemma count_where_pos [rows]: "0 < count_where P rs \<longleftrightarrow> (\<exists>r \<in> set rs. P r)"
  by (auto simp: count_where_def filter_empty_conv)

lemma map_update_where [rows]:
  "(\<And>r. r \<in> set rs \<Longrightarrow> P r \<Longrightarrow> k (f r) = k r) \<Longrightarrow> map k (update_where P f rs) = map k rs"
  by (simp add: update_where_def)

lemma update_where_Nil [simp]: "update_where P f [] = []"
  by (simp add: update_where_def)

lemma update_where_Cons [simp]:
  "update_where P f (r # rs) = (if P r then f r else r) # update_where P f rs"
  by (simp add: update_where_def)

lemma delete_where_Nil [simp]: "delete_where P [] = []"
  by (simp add: delete_where_def)

lemma delete_where_Cons [simp]:
  "delete_where P (r # rs) = (if P r then delete_where P rs else r # delete_where P rs)"
  by (simp add: delete_where_def)

lemma count_where_Nil [simp]: "count_where P [] = 0"
  by (simp add: count_where_def)

lemma count_where_Cons [simp]:
  "count_where P (r # rs) = (if P r then Suc (count_where P rs) else count_where P rs)"
  by (simp add: count_where_def)

lemma count_where_append [simp]:
  "count_where P (xs @ ys) = count_where P xs + count_where P ys"
  by (simp add: count_where_def)

lemma distinct_map_delete_where [rows]:
  "distinct (map k rs) \<Longrightarrow> distinct (map k (delete_where P rs))"
  by (simp add: delete_where_def distinct_map_filter)

lemma distinct_map_eqD [rows]:
  "distinct (map k rs) \<Longrightarrow> r \<in> set rs \<Longrightarrow> r' \<in> set rs \<Longrightarrow> k r = k r' \<Longrightarrow> r = r'"
  by (meson distinct_map inj_onD)

lemma find_unique [rows]:
  assumes "distinct (map k rs)" and "r \<in> set rs" and "P r"
    and "\<And>r'. r' \<in> set rs \<Longrightarrow> P r' \<Longrightarrow> k r' = k r"
  shows "List.find P rs = Some r"
proof (cases "List.find P rs")
  case None
  with assms show ?thesis by (simp add: find_None_all)
next
  case (Some q)
  then have "q \<in> set rs" "P q" by (auto dest: find_Some_in)
  with assms have "q = r" by (metis distinct_map_eqD)
  with Some show ?thesis by simp
qed

text \<open>A loop over rows that are looked up by key: an association list without duplicates.\<close>

definition amap_put :: "'k \<Rightarrow> 'v \<Rightarrow> ('k \<times> 'v) list \<Rightarrow> ('k \<times> 'v) list" where
  "amap_put k v m = (k, v) # filter (\<lambda>p. fst p \<noteq> k) m"

lemma map_of_filter_other: "x \<noteq> k \<Longrightarrow> map_of (filter (\<lambda>p. fst p \<noteq> k) m) x = map_of m x"
  by (induction m) auto

lemma map_of_amap_put [simp]: "map_of (amap_put k v m) = (map_of m)(k \<mapsto> v)"
  by (auto simp: amap_put_def fun_eq_iff map_of_filter_other)

section \<open>Characters and strings\<close>

definition is_ascii_digit :: "char \<Rightarrow> bool" where
  "is_ascii_digit c = (CHR ''0'' \<le> c \<and> c \<le> CHR ''9'')"

definition is_ascii_alpha :: "char \<Rightarrow> bool" where
  "is_ascii_alpha c = ((CHR ''a'' \<le> c \<and> c \<le> CHR ''z'') \<or> (CHR ''A'' \<le> c \<and> c \<le> CHR ''Z''))"

definition is_ascii_alphanumeric :: "char \<Rightarrow> bool" where
  "is_ascii_alphanumeric c = (is_ascii_digit c \<or> is_ascii_alpha c)"

definition is_ws :: "char \<Rightarrow> bool" where
  "is_ws c = (c = CHR '' '' \<or> c = CHR 0x09 \<or> c = CHR 0x0A \<or> c = CHR 0x0B \<or> c = CHR 0x0C
     \<or> c = CHR 0x0D)"

definition char_lower :: "char \<Rightarrow> char" where
  "char_lower c = (if CHR ''A'' \<le> c \<and> c \<le> CHR ''Z'' then char_of ((of_char c :: nat) + 32) else c)"

definition char_upper :: "char \<Rightarrow> char" where
  "char_upper c = (if CHR ''a'' \<le> c \<and> c \<le> CHR ''z'' then char_of ((of_char c :: nat) - 32) else c)"

definition to_lower :: "string \<Rightarrow> string" where
  "to_lower = map char_lower"

definition to_upper :: "string \<Rightarrow> string" where
  "to_upper = map char_upper"

definition trim_start :: "string \<Rightarrow> string" where
  "trim_start = dropWhile is_ws"

definition trim_end :: "string \<Rightarrow> string" where
  "trim_end s = rev (dropWhile is_ws (rev s))"

definition trim :: "string \<Rightarrow> string" where
  "trim s = trim_end (trim_start s)"

fun strip_prefix :: "string \<Rightarrow> string \<Rightarrow> string option" where
  "strip_prefix [] s = Some s"
| "strip_prefix (p # ps) [] = None"
| "strip_prefix (p # ps) (c # cs) = (if p = c then strip_prefix ps cs else None)"

definition starts_with :: "string \<Rightarrow> string \<Rightarrow> bool" where
  "starts_with p s = (strip_prefix p s \<noteq> None)"

definition ends_with :: "string \<Rightarrow> string \<Rightarrow> bool" where
  "ends_with p s = starts_with (rev p) (rev s)"

text \<open>\<open>trim_start_matches\<close> strips every leading copy of a non-empty pattern.\<close>

lemma strip_prefix_length: "strip_prefix p s = Some r \<Longrightarrow> length s = length p + length r"
  by (induction p s rule: strip_prefix.induct) (auto split: if_splits)

lemma strip_prefix_append [simp]: "strip_prefix p (p @ s) = Some s"
  by (induction p) auto

lemma strip_prefix_SomeD: "strip_prefix p s = Some r \<Longrightarrow> s = p @ r"
  by (induction p s rule: strip_prefix.induct) (auto split: if_splits)

function trim_start_matches :: "string \<Rightarrow> string \<Rightarrow> string" where
  "trim_start_matches p s =
     (if p = [] then s
      else case strip_prefix p s of None \<Rightarrow> s | Some r \<Rightarrow> trim_start_matches p r)"
  by pat_completeness auto
termination
  by (relation "measure (\<lambda>(p, s). length s)") (auto dest: strip_prefix_length)

declare trim_start_matches.simps [simp del]

fun contains_sub :: "string \<Rightarrow> string \<Rightarrow> bool" where
  "contains_sub p [] = (p = [])"
| "contains_sub p (c # cs) = (starts_with p (c # cs) \<or> contains_sub p cs)"

text \<open>\<open>split\<close> by one character, keeping empty pieces.\<close>

fun split_on :: "char \<Rightarrow> string \<Rightarrow> string list" where
  "split_on d [] = [[]]"
| "split_on d (c # cs) =
     (if c = d then [] # split_on d cs
      else case split_on d cs of [] \<Rightarrow> [[c]] | w # ws \<Rightarrow> (c # w) # ws)"

text \<open>\<open>split_once\<close>: the parts before and after the first occurrence.\<close>

fun split_once :: "char \<Rightarrow> string \<Rightarrow> (string \<times> string) option" where
  "split_once d [] = None"
| "split_once d (c # cs) =
     (if c = d then Some ([], cs)
      else case split_once d cs of None \<Rightarrow> None | Some (a, b) \<Rightarrow> Some (c # a, b))"

fun join_with :: "char \<Rightarrow> string list \<Rightarrow> string" where
  "join_with d [] = []"
| "join_with d [w] = w"
| "join_with d (w # v # ws) = w @ d # join_with d (v # ws)"

section \<open>Decimal numbers\<close>

definition digit_char :: "nat \<Rightarrow> char" where
  "digit_char n = char_of (48 + n)"

definition digit_val :: "char \<Rightarrow> nat" where
  "digit_val c = of_char c - 48"

fun show_nat :: "nat \<Rightarrow> string" where
  "show_nat n = (if n < 10 then [digit_char n] else show_nat (n div 10) @ [digit_char (n mod 10)])"

declare show_nat.simps [simp del]

definition show_int :: "int \<Rightarrow> string" where
  "show_int i = (if i < 0 then CHR ''-'' # show_nat (nat (- i)) else show_nat (nat i))"

definition dec_val :: "string \<Rightarrow> nat" where
  "dec_val = foldl (\<lambda>a c. 10 * a + digit_val c) 0"

definition parse_dec :: "string \<Rightarrow> nat option" where
  "parse_dec s = (if s \<noteq> [] \<and> list_all is_ascii_digit s then Some (dec_val s) else None)"

definition u64_max :: nat where "u64_max = 2 ^ 64 - 1"
definition u32_max :: nat where "u32_max = 2 ^ 32 - 1"
definition i32_max :: int where "i32_max = 2 ^ 31 - 1"
definition i32_min :: int where "i32_min = - (2 ^ 31)"

text \<open>
  Rust's integer \<open>parse\<close>: an optional sign (minus only for signed types), at least one digit,
  nothing else, and the value in range.
\<close>

definition strip_plus :: "string \<Rightarrow> string" where
  "strip_plus s = (case s of [] \<Rightarrow> [] | c # cs \<Rightarrow> if c = CHR ''+'' then cs else s)"

definition parse_unsigned :: "nat \<Rightarrow> string \<Rightarrow> nat option" where
  "parse_unsigned mx s =
     (case parse_dec (strip_plus s) of None \<Rightarrow> None | Some n \<Rightarrow> if n \<le> mx then Some n else None)"

definition parse_i32 :: "string \<Rightarrow> int option" where
  "parse_i32 s =
     (case s of
        [] \<Rightarrow> None
      | c # cs \<Rightarrow>
          (case parse_dec (if c = CHR ''-'' then cs else strip_plus s) of
             None \<Rightarrow> None
           | Some n \<Rightarrow>
               let v = (if c = CHR ''-'' then - int n else int n)
               in if i32_min \<le> v \<and> v \<le> i32_max then Some v else None))"

text \<open>Wrap-around of 32-bit signed arithmetic in a release build.\<close>

definition wrap_i32 :: "int \<Rightarrow> int" where
  "wrap_i32 x = (x + 2 ^ 31) mod 2 ^ 32 - 2 ^ 31"

lemma wrap_i32_id: "i32_min \<le> x \<Longrightarrow> x \<le> i32_max \<Longrightarrow> wrap_i32 x = x"
  by (simp add: wrap_i32_def i32_min_def i32_max_def)

lemma of_char_digit_char [simp]: "n < 10 \<Longrightarrow> (of_char (digit_char n) :: nat) = 48 + n"
  by (simp add: digit_char_def)

lemma digit_val_digit_char [simp]: "n < 10 \<Longrightarrow> digit_val (digit_char n) = n"
  by (simp add: digit_val_def)

lemma is_ascii_digit_code: "is_ascii_digit c \<longleftrightarrow> 48 \<le> (of_char c :: nat) \<and> (of_char c :: nat) \<le> 57"
  by (simp add: is_ascii_digit_def less_eq_char_def)

lemma is_ascii_digit_digit_char [simp]: "n < 10 \<Longrightarrow> is_ascii_digit (digit_char n)"
  by (simp add: is_ascii_digit_code)

lemma show_nat_nonempty [simp]: "show_nat n \<noteq> []"
  by (subst show_nat.simps) simp

lemma show_nat_digits: "list_all is_ascii_digit (show_nat n)"
proof (induction n rule: show_nat.induct)
  case (1 n)
  then show ?case by (subst show_nat.simps) auto
qed

lemma dec_val_snoc: "dec_val (s @ [c]) = 10 * dec_val s + digit_val c"
  by (simp add: dec_val_def)

lemma dec_val_show_nat [simp]: "dec_val (show_nat n) = n"
proof (induction n rule: show_nat.induct)
  case (1 n)
  show ?case
  proof (cases "n < 10")
    case True
    then show ?thesis by (subst show_nat.simps) (simp add: dec_val_def)
  next
    case False
    with 1 have "dec_val (show_nat (n div 10)) = n div 10" by simp
    with False show ?thesis by (subst show_nat.simps) (simp add: dec_val_snoc)
  qed
qed

lemma parse_dec_show_nat [simp]: "parse_dec (show_nat n) = Some n"
  by (simp add: parse_dec_def show_nat_digits)

lemma show_nat_inj: "show_nat m = show_nat n \<Longrightarrow> m = n"
  by (metis dec_val_show_nat)

lemma digit_not_sign: "is_ascii_digit c \<Longrightarrow> c \<noteq> CHR ''-'' \<and> c \<noteq> CHR ''+'' \<and> c \<noteq> CHR ''x'' \<and> c \<noteq> CHR '',''"
  by (auto simp: is_ascii_digit_def less_eq_char_def)

lemma hd_show_nat_digit: "is_ascii_digit (hd (show_nat n))"
  using show_nat_digits [of n] show_nat_nonempty [of n] by (cases "show_nat n") auto

lemma strip_plus_show_nat [simp]: "strip_plus (show_nat n) = show_nat n"
  using hd_show_nat_digit [of n] by (cases "show_nat n") (auto simp: strip_plus_def dest: digit_not_sign)

lemma parse_unsigned_show_nat [simp]: "n \<le> mx \<Longrightarrow> parse_unsigned mx (show_nat n) = Some n"
  by (simp add: parse_unsigned_def)

lemma parse_i32_show_nat: "int n \<le> i32_max \<Longrightarrow> parse_i32 (show_nat n) = Some (int n)"
proof -
  assume le: "int n \<le> i32_max"
  obtain c cs where s: "show_nat n = c # cs" by (cases "show_nat n") auto
  then have c: "c \<noteq> CHR ''-''" using hd_show_nat_digit [of n] by (auto dest: digit_not_sign)
  have "strip_plus (c # cs) = c # cs" and "parse_dec (c # cs) = Some n"
    using strip_plus_show_nat [of n] parse_dec_show_nat [of n] s by simp_all
  with c le show ?thesis by (simp add: parse_i32_def s i32_min_def)
qed

end
