(* ===== verification/Names.thy ===== *)
theory Names
  imports Prelude "HOL-Library.Word"
begin

text \<open>
  The textual side of \<^verbatim>\<open>main.rs\<close>: library and tape names, slot and drive addresses typed by the
  user, sizes, barcodes, and the names that are generated for batches of tapes. None of these
  functions has a state; their lemmas are the round trips and the bounds that the catalogue
  operations rely on.
\<close>

section \<open>Reserved names and limits\<close>

definition LEGACY_DEFAULT_LIBRARY_NAME :: string where
  "LEGACY_DEFAULT_LIBRARY_NAME = ''default''"

definition DEFAULT_UNUSED_SHELF_NAME :: string where
  "DEFAULT_UNUSED_SHELF_NAME = ''unused''"

definition OFFLINE_LIBRARY_NAME :: string where
  "OFFLINE_LIBRARY_NAME = ''__offline__''"

definition is_test_only_library_name :: "string \<Rightarrow> bool" where
  "is_test_only_library_name name = (name = LEGACY_DEFAULT_LIBRARY_NAME)"

definition is_kernel_exported_library_name :: "string \<Rightarrow> bool" where
  "is_kernel_exported_library_name name =
     (\<not> is_test_only_library_name name \<and> name \<noteq> OFFLINE_LIBRARY_NAME)"

definition VTL_KERNEL_MAX_ONLINE_LIBRARIES :: nat where "VTL_KERNEL_MAX_ONLINE_LIBRARIES = 8"
definition VTL_KERNEL_MAX_DRIVES_PER_LIB :: int where "VTL_KERNEL_MAX_DRIVES_PER_LIB = 8"
definition VTL_KERNEL_MAX_DATA_SLOTS_PER_LIB :: int where "VTL_KERNEL_MAX_DATA_SLOTS_PER_LIB = 256"
definition MAILSLOT_OFFSET :: int where "MAILSLOT_OFFSET = 100"
definition MAX_SLOTS :: int where "MAX_SLOTS = 1000"
definition MAX_DRIVES :: int where "MAX_DRIVES = 100"

section \<open>Library and tape names\<close>

definition is_lib_char :: "char \<Rightarrow> bool" where
  "is_lib_char c = (is_ascii_alphanumeric c \<or> c = CHR ''-'' \<or> c = CHR ''_'')"

definition sanitize_lib_dir_component :: "string \<Rightarrow> string" where
  "sanitize_lib_dir_component = map (\<lambda>c. if is_lib_char c then c else CHR ''_'')"

definition validate_library_name :: "string \<Rightarrow> VtlError + unit" where
  "validate_library_name name =
     (if name = [] then Inl (InvalidParameter ''Library name cannot be empty'')
      else if 64 < length name then Inl (InvalidParameter ''Library name too long (max 64)'')
      else if \<not> list_all is_lib_char name
        then Inl (InvalidParameter ''library name allows only ASCII letters, digits, - and _'')
      else if sanitize_lib_dir_component name \<noteq> name
        then Inl (InvalidParameter ''library name is not its canonical form'')
      else Inr ())"

definition invalid_tape_chars :: "char list" where
  "invalid_tape_chars = [CHR ''/'', CHR 0x5C, CHR '':'', CHR ''*'', CHR ''?'', CHR 0x22, CHR ''<'',
     CHR ''>'', CHR 0x7C, CHR 0x00]"

definition validate_tape_name :: "string \<Rightarrow> VtlError + unit" where
  "validate_tape_name name =
     (if name = [] then Inl (InvalidTapeName ''Tape name cannot be empty'')
      else if 255 < length name
        then Inl (InvalidTapeName ''Tape name too long (max 255 characters)'')
      else case List.find (\<lambda>c. c \<in> set invalid_tape_chars) name of
          Some c \<Rightarrow> Inl (InvalidTapeName (''Invalid character in tape name: '' @ [c]))
        | None \<Rightarrow> Inr ())"

lemma sanitize_id: "list_all is_lib_char name \<Longrightarrow> sanitize_lib_dir_component name = name"
  by (simp add: sanitize_lib_dir_component_def list_all_iff map_idI)

lemma is_lib_char_underscore [simp]: "is_lib_char (CHR ''_'')"
  by (simp add: is_lib_char_def)

lemma sanitize_chars: "list_all is_lib_char (sanitize_lib_dir_component name)"
  by (auto simp: sanitize_lib_dir_component_def list_all_iff)

lemma sanitize_length [simp]: "length (sanitize_lib_dir_component name) = length name"
  by (simp add: sanitize_lib_dir_component_def)

lemma validate_library_name_iff:
  "validate_library_name name = Inr () \<longleftrightarrow>
     name \<noteq> [] \<and> length name \<le> 64 \<and> list_all is_lib_char name"
  by (auto simp: validate_library_name_def sanitize_id)

lemma validate_tape_name_iff:
  "validate_tape_name name = Inr () \<longleftrightarrow>
     name \<noteq> [] \<and> length name \<le> 255 \<and> set name \<inter> set invalid_tape_chars = {}"
proof -
  have "List.find (\<lambda>c. c \<in> set invalid_tape_chars) name = None \<longleftrightarrow>
      set name \<inter> set invalid_tape_chars = {}"
    by (auto simp: find_None_all)
  then show ?thesis by (auto simp: validate_tape_name_def split: option.splits)
qed

lemma not_lib_char_slash [simp]: "\<not> is_lib_char (CHR ''/'')" "\<not> is_lib_char (CHR ''.'')"
  by (simp_all add: is_lib_char_def is_ascii_alphanumeric_def is_ascii_alpha_def is_ascii_digit_def
      less_eq_char_def)

section \<open>Slot and drive addresses\<close>

definition parse_slot :: "string \<Rightarrow> int option" where
  "parse_slot slot_str =
     (let s = to_lower (trim slot_str)
      in if starts_with ''slot'' s then
           (case parse_i32 (trim_start_matches ''slot'' s) of
              None \<Rightarrow> None
            | Some v \<Rightarrow> if v < 0 \<or> v > MAX_SLOTS then None else Some v)
         else if starts_with ''mail'' s then
           (case parse_i32 (trim_start_matches ''mail'' s) of
              None \<Rightarrow> None
            | Some num \<Rightarrow> Some (wrap_i32 (MAILSLOT_OFFSET + num)))
         else
           (case parse_i32 s of
              None \<Rightarrow> None
            | Some v \<Rightarrow> if v < 0 \<or> v > MAX_SLOTS then None else Some v))"

definition parse_drive :: "string \<Rightarrow> int option" where
  "parse_drive drive_str =
     (let s = to_lower (trim drive_str)
      in case parse_i32 (if starts_with ''drive'' s then trim_start_matches ''drive'' s else s) of
           None \<Rightarrow> None
         | Some v \<Rightarrow> if v < 0 \<or> v > MAX_DRIVES then None else Some v)"

text \<open>Text without white space and capitals is what the normalisation leaves.\<close>

lemma trim_no_ws: "list_all (\<lambda>c. \<not> is_ws c) s \<Longrightarrow> trim s = s"
proof -
  assume ws: "list_all (\<lambda>c. \<not> is_ws c) s"
  have *: "dropWhile is_ws t = t" if "list_all (\<lambda>c. \<not> is_ws c) t" for t
    using that by (cases t) auto
  from ws have "list_all (\<lambda>c. \<not> is_ws c) (rev s)" by (simp add: list_all_iff)
  with ws show ?thesis by (simp add: trim_def trim_start_def trim_end_def *)
qed

lemma digit_not_ws: "is_ascii_digit c \<Longrightarrow> \<not> is_ws c"
  by (auto simp: is_ascii_digit_def is_ws_def less_eq_char_def)

lemma digit_lower: "is_ascii_digit c \<Longrightarrow> char_lower c = c"
  by (auto simp: is_ascii_digit_code char_lower_def less_eq_char_def)

lemma digit_upper: "is_ascii_digit c \<Longrightarrow> char_upper c = c"
  by (auto simp: is_ascii_digit_code char_upper_def less_eq_char_def)

lemma show_nat_no_ws: "list_all (\<lambda>c. \<not> is_ws c) (show_nat n)"
  using show_nat_digits [of n] by (auto simp: list_all_iff dest: digit_not_ws)

lemma to_lower_show_nat: "to_lower (show_nat n) = show_nat n"
  using show_nat_digits [of n] by (auto simp: to_lower_def list_all_iff digit_lower intro: map_idI)

lemma to_upper_show_nat: "to_upper (show_nat n) = show_nat n"
  using show_nat_digits [of n] by (auto simp: to_upper_def list_all_iff digit_upper intro: map_idI)

lemma to_lower_append: "to_lower (a @ b) = to_lower a @ to_lower b"
  by (simp add: to_lower_def)

lemma trim_start_matches_digits:
  assumes "p \<noteq> []" and "\<not> is_ascii_digit (hd p)"
  shows "trim_start_matches p (p @ show_nat n) = show_nat n"
proof -
  obtain q qs where p: "p = q # qs" using assms by (cases p) auto
  obtain c cs where s: "show_nat n = c # cs" by (cases "show_nat n") auto
  have "is_ascii_digit c" using hd_show_nat_digit [of n] s by simp
  with assms p have "strip_prefix p (show_nat n) = None" by (auto simp: s)
  then have "trim_start_matches p (show_nat n) = show_nat n"
    by (subst trim_start_matches.simps) (simp add: assms)
  then show ?thesis
    by (subst trim_start_matches.simps) (simp add: assms)
qed

lemma normalized_address:
  assumes "to_lower p = p" and "list_all (\<lambda>c. \<not> is_ws c) p"
  shows "to_lower (trim (p @ show_nat n)) = p @ show_nat n"
  using assms show_nat_no_ws [of n]
  by (simp add: trim_no_ws to_lower_append to_lower_show_nat)

lemma slot_prefix_normal: "to_lower ''slot'' = ''slot''" "list_all (\<lambda>c. \<not> is_ws c) ''slot''"
  "to_lower ''mail'' = ''mail''" "list_all (\<lambda>c. \<not> is_ws c) ''mail''"
  "to_lower ''drive'' = ''drive''" "list_all (\<lambda>c. \<not> is_ws c) ''drive''"
  by (simp_all add: to_lower_def char_lower_def is_ws_def less_eq_char_def)

lemma starts_with_append [simp]: "starts_with p (p @ s)"
  by (simp add: starts_with_def)

lemma starts_with_letters [simp]:
  "\<not> starts_with ''slot'' (''mail'' @ s)" "\<not> starts_with ''mail'' (''slot'' @ s)"
  by (simp_all add: starts_with_def)

section \<open>Sizes\<close>

text \<open>
  \<^verbatim>\<open>parse_size\<close> reads the number as an \<^verbatim>\<open>f64\<close>. The decimal \<open>n / 10 ^ k\<close> is rounded to the
  nearest number with a 53-bit significand (ties to even), multiplied by a power of two (exact
  in binary floating point), and cast with truncation and saturation. Values too large for the
  exponent range become infinite and saturate in the cast as they do here; values below the
  normal range are truncated to zero either way.
\<close>

fun bit_len :: "nat \<Rightarrow> nat" where
  "bit_len n = (if n = 0 then 0 else Suc (bit_len (n div 2)))"

declare bit_len.simps [simp del]

definition f64_mul_floor :: "nat \<Rightarrow> nat \<Rightarrow> nat \<Rightarrow> nat" where
  "f64_mul_floor n k s =
     (if n = 0 then 0
      else
        let b = 54 + 4 * k;
            q = n * 2 ^ b div 10 ^ k;
            sticky = (n * 2 ^ b mod 10 ^ k \<noteq> 0);
            t = bit_len q - 53;
            m = q div 2 ^ t;
            r = q mod 2 ^ t;
            half = 2 ^ (t - 1);
            up = (r > half \<or> (r = half \<and> (sticky \<or> odd m)))
        in (if up then Suc m else m) * 2 ^ (t + s) div 2 ^ b)"

text \<open>The digits of a number with at most one decimal point, and the places after the point.\<close>

definition parse_f64_decimal :: "string \<Rightarrow> (nat \<times> nat) option" where
  "parse_f64_decimal s =
     (if \<not> list_ex is_ascii_digit s \<or> 1 < count_where (\<lambda>c. c = CHR ''.'') s then None
      else case split_once (CHR ''.'') s of
          None \<Rightarrow> Some (dec_val s, 0)
        | Some (a, b) \<Rightarrow> Some (dec_val (a @ b), length b))"

definition size_exponent :: "string \<Rightarrow> nat option" where
  "size_exponent u =
     (if u = [] \<or> u = ''B'' then Some 0
      else if u = ''K'' \<or> u = ''KB'' then Some 10
      else if u = ''M'' \<or> u = ''MB'' then Some 20
      else if u = ''G'' \<or> u = ''GB'' then Some 30
      else if u = ''T'' \<or> u = ''TB'' then Some 40
      else None)"

definition parse_size :: "string \<Rightarrow> VtlError + nat" where
  "parse_size size_str =
     (let s = trim (to_upper size_str);
          num_str = filter (\<lambda>c. is_ascii_digit c \<or> c = CHR ''.'') s;
          unit_str = filter (\<lambda>c. \<not> (is_ascii_digit c \<or> c = CHR ''.'')) s
      in andThen (ok_or (parse_f64_decimal num_str) (InvalidSize (''Invalid number: '' @ num_str)))
           (\<lambda>(n, k). andThen (ok_or (size_exponent unit_str)
                                    (InvalidSize (''Unknown unit: '' @ unit_str)))
             (\<lambda>e. Inr (min (f64_mul_floor n k e) u64_max))))"

definition format_size :: "nat \<Rightarrow> string" where
  "format_size bytes =
     (if bytes < 1024 then show_nat bytes @ ''B''
      else if bytes < 1024 * 1024 then show_nat (bytes div 1024) @ ''K''
      else if bytes < 1024 * 1024 * 1024 then show_nat (bytes div (1024 * 1024)) @ ''M''
      else if bytes < 1024 * 1024 * 1024 * 1024
        then show_nat (bytes div (1024 * 1024 * 1024)) @ ''G''
      else show_nat (bytes div (1024 * 1024 * 1024 * 1024)) @ ''T'')"

lemma bit_len_double: "0 < n \<Longrightarrow> bit_len (2 * n) = Suc (bit_len n)"
  by (subst bit_len.simps) simp

lemma bit_len_shift: "0 < n \<Longrightarrow> bit_len (n * 2 ^ k) = bit_len n + k"
proof (induction k)
  case (Suc k)
  have "n * 2 ^ Suc k = 2 * (n * 2 ^ k)" by simp
  then have "bit_len (n * 2 ^ Suc k) = Suc (bit_len (n * 2 ^ k))"
    using Suc.prems bit_len_double [of "n * 2 ^ k"] by (simp only:) simp
  with Suc show ?case by simp
qed simp

lemma bit_len_bound: "n < 2 ^ k \<Longrightarrow> bit_len n \<le> k"
proof (induction k arbitrary: n)
  case 0
  then show ?case by (simp add: bit_len.simps)
next
  case (Suc k)
  then have "n div 2 < 2 ^ k" by auto
  with Suc.IH show ?case by (subst bit_len.simps) simp
qed

text \<open>A whole number below \<open>2 ^ 53\<close> is scaled without any rounding.\<close>

lemma f64_mul_floor_exact:
  assumes "n < 2 ^ 53"
  shows "f64_mul_floor n 0 s = n * 2 ^ s"
proof (cases "n = 0")
  case True
  then show ?thesis by (simp add: f64_mul_floor_def)
next
  case False
  define b where "b = bit_len n"
  have b: "b \<le> 53" unfolding b_def by (rule bit_len_bound [OF assms])
  have len: "bit_len (n * 2 ^ 54) - 53 = b + 1"
    using False bit_len_shift [of n 54] by (simp add: b_def)
  have split: "n * 2 ^ 54 = n * 2 ^ (53 - b) * 2 ^ (b + 1)"
    using b by (simp flip: power_add)
  have q: "n * 2 ^ 54 div 2 ^ (b + 1) = n * 2 ^ (53 - b)"
    by (subst split) simp
  have r: "n * 2 ^ 54 mod 2 ^ (b + 1) = 0"
    by (subst split) simp
  have "53 - b + (b + 1 + s) = s + 54" using b by simp
  then have "2 ^ (53 - b) * 2 ^ (b + 1 + s) = (2 ^ s * 2 ^ 54 :: nat)"
    by (simp only: flip: power_add)
  then have unscaled: "n * 2 ^ (53 - b) * 2 ^ (b + 1 + s) = n * 2 ^ s * 2 ^ 54"
    by (simp only: mult.assoc)
  have "f64_mul_floor n 0 s = n * 2 ^ (53 - b) * 2 ^ (b + 1 + s) div 2 ^ 54"
    using False
    unfolding f64_mul_floor_def Let_def mult_0_right add_0_right power_0 div_by_1 mod_by_1 len q r
    by simp
  also have "\<dots> = n * 2 ^ s" unfolding unscaled by simp
  finally show ?thesis .
qed

lemma filter_digits_show_nat [simp]:
  "filter (\<lambda>c. is_ascii_digit c \<or> c = CHR ''.'') (show_nat n) = show_nat n"
  "filter (\<lambda>c. \<not> (is_ascii_digit c \<or> c = CHR ''.'')) (show_nat n) = []"
  using show_nat_digits [of n] by (auto simp: list_all_iff filter_id_conv filter_empty_conv)

lemma digit_not_dot: "is_ascii_digit c \<Longrightarrow> c \<noteq> CHR ''.''"
  by (auto simp: is_ascii_digit_def less_eq_char_def)

lemma split_once_absent: "d \<notin> set s \<Longrightarrow> split_once d s = None"
  by (induction s) auto

lemma parse_f64_decimal_show_nat: "parse_f64_decimal (show_nat n) = Some (n, 0)"
proof -
  have dig: "\<forall>c \<in> set (show_nat n). is_ascii_digit c"
    using show_nat_digits [of n] by (simp add: list_all_iff)
  then have dot: "CHR ''.'' \<notin> set (show_nat n)" by (auto dest: digit_not_dot)
  then have "count_where (\<lambda>c. c = CHR ''.'') (show_nat n) = 0"
    by (auto simp: count_where_0)
  moreover have "list_ex is_ascii_digit (show_nat n)"
    using hd_show_nat_digit [of n] hd_in_set [OF show_nat_nonempty [of n]]
    by (auto simp: list_ex_iff)
  ultimately show ?thesis
    using dot by (simp add: parse_f64_decimal_def split_once_absent)
qed

lemma parse_size_unit:
  assumes "n < 2 ^ 53" and "u \<in> {''B'', ''K'', ''M'', ''G'', ''T''}" and "size_exponent u = Some e"
  shows "parse_size (show_nat n @ u) = Inr (min (n * 2 ^ e) u64_max)"
proof -
  have up: "to_upper u = u" and ws: "list_all (\<lambda>c. \<not> is_ws c) u"
    and f: "filter (\<lambda>c. is_ascii_digit c \<or> c = CHR ''.'') u = []"
           "filter (\<lambda>c. \<not> (is_ascii_digit c \<or> c = CHR ''.'')) u = u"
    using assms(2)
    by (auto simp: to_upper_def char_upper_def is_ws_def is_ascii_digit_def less_eq_char_def)
  have norm: "trim (to_upper (show_nat n @ u)) = show_nat n @ u"
    using up ws show_nat_no_ws [of n] to_upper_show_nat [of n]
    by (simp add: trim_no_ws to_upper_def)
  show ?thesis
    unfolding parse_size_def Let_def norm
    using f assms(3)
    by (simp only: filter_append filter_digits_show_nat parse_f64_decimal_show_nat append_Nil
        append_Nil2 ok_or_simps andThen.simps prod.case f64_mul_floor_exact [OF assms(1)])
qed

section \<open>Barcodes and generated names\<close>

definition hex_char :: "nat \<Rightarrow> char" where
  "hex_char n = (if n < 10 then char_of (48 + n) else char_of (55 + n))"

fun show_hex :: "nat \<Rightarrow> string" where
  "show_hex n = (if n < 16 then [hex_char n] else show_hex (n div 16) @ [hex_char (n mod 16)])"

declare show_hex.simps [simp del]

definition pad_zero :: "nat \<Rightarrow> string \<Rightarrow> string" where
  "pad_zero w s = replicate (w - length s) (CHR ''0'') @ s"

definition generate_barcode :: "32 word \<Rightarrow> string" where
  "generate_barcode r = ''VTL'' @ pad_zero 6 (show_hex (unat r))"

definition auto_tape_name_prefix :: "string \<Rightarrow> string" where
  "auto_tape_name_prefix library = sanitize_lib_dir_component library @ ''_tape''"

text \<open>The names of the library's tapes are the rows the query returns.\<close>

definition max_auto_tape_suffix_for_library :: "string list \<Rightarrow> string \<Rightarrow> nat" where
  "max_auto_tape_suffix_for_library names library =
     foldl (\<lambda>mx name.
       case strip_prefix (auto_tape_name_prefix library) name of
         None \<Rightarrow> mx
       | Some rest \<Rightarrow>
           if rest \<noteq> [] \<and> list_all is_ascii_digit rest
           then (case parse_unsigned u64_max rest of None \<Rightarrow> mx | Some n \<Rightarrow> max mx n)
           else mx) 0 names"

definition allocate_auto_tape_names :: "string \<Rightarrow> nat \<Rightarrow> nat \<Rightarrow> string list" where
  "allocate_auto_tape_names library start cnt =
     (if cnt = 0 then []
      else
        let prefix = auto_tape_name_prefix library;
            end_n = start + cnt - 1;
            width = max 2 (length (show_nat end_n))
        in map (\<lambda>n. prefix @ pad_zero width (show_nat n)) [start..<Suc end_n])"

lemma show_hex_length: "n < 16 ^ Suc k \<Longrightarrow> length (show_hex n) \<le> Suc k"
proof (induction k arbitrary: n)
  case 0
  then show ?case by (subst show_hex.simps) simp
next
  case (Suc k)
  then have "n div 16 < 16 ^ Suc k" by (simp add: div_less_iff_less_mult mult.commute)
  with Suc.IH show ?case by (subst show_hex.simps) simp
qed

lemma dec_val_zeros: "dec_val (replicate k (CHR ''0'') @ s) = dec_val s"
proof -
  have "foldl (\<lambda>a c. 10 * a + digit_val c) 0 (replicate k (CHR ''0'')) = 0"
    by (induction k) (simp_all add: digit_val_def)
  then show ?thesis by (simp add: dec_val_def)
qed

lemma is_ascii_digit_0 [simp]: "is_ascii_digit (CHR ''0'')"
  by (simp add: is_ascii_digit_def less_eq_char_def)

lemma pad_zero_digits: "list_all is_ascii_digit (pad_zero w (show_nat n))"
  using show_nat_digits [of n] by (auto simp: pad_zero_def list_all_iff)

lemma dec_val_pad [simp]: "dec_val (pad_zero w (show_nat n)) = n"
  by (simp add: pad_zero_def dec_val_zeros)

lemma strip_plus_digits: "list_all is_ascii_digit s \<Longrightarrow> strip_plus s = s"
  by (cases s) (auto simp: strip_plus_def dest: digit_not_sign)

lemma parse_unsigned_pad [simp]:
  assumes "n \<le> mx"
  shows "parse_unsigned mx (pad_zero w (show_nat n)) = Some n"
proof -
  have "pad_zero w (show_nat n) \<noteq> []" by (simp add: pad_zero_def)
  with assms show ?thesis
    by (simp add: parse_unsigned_def strip_plus_digits pad_zero_digits parse_dec_def)
qed

lemma max_suffix_foldl_ge:
  "mx \<le> foldl (\<lambda>mx name.
       case strip_prefix p name of
         None \<Rightarrow> mx
       | Some rest \<Rightarrow>
           if rest \<noteq> [] \<and> list_all is_ascii_digit rest
           then (case parse_unsigned u64_max rest of None \<Rightarrow> mx | Some n \<Rightarrow> max mx n)
           else mx) (mx :: nat) names"
proof (induction names arbitrary: mx)
  case (Cons a names)
  show ?case
    by (auto split: option.splits intro: le_trans [OF _ Cons.IH])
qed simp

text \<open>Every generated-looking name of the library has a suffix below the maximum.\<close>

lemma max_suffix_bound:
  assumes "auto_tape_name_prefix library @ rest \<in> set names" and "rest \<noteq> []"
    and "list_all is_ascii_digit rest" and "parse_unsigned u64_max rest = Some n"
  shows "n \<le> max_auto_tape_suffix_for_library names library"
proof -
  define p where "p = auto_tape_name_prefix library"
  define f where "f = (\<lambda>(mx::nat) name.
       case strip_prefix p name of
         None \<Rightarrow> mx
       | Some rest \<Rightarrow>
           if rest \<noteq> [] \<and> list_all is_ascii_digit rest
           then (case parse_unsigned u64_max rest of None \<Rightarrow> mx | Some n \<Rightarrow> max mx n)
           else mx)"
  obtain as bs where names: "names = as @ (p @ rest) # bs"
    using assms(1) p_def by (metis split_list)
  have "n \<le> f (foldl f 0 as) (p @ rest)"
    using assms by (simp add: f_def)
  also have "\<dots> \<le> foldl f (f (foldl f 0 as) (p @ rest)) bs"
    unfolding f_def by (rule max_suffix_foldl_ge)
  also have "\<dots> = max_auto_tape_suffix_for_library names library"
    by (simp add: max_auto_tape_suffix_for_library_def names f_def p_def)
  finally show ?thesis .
qed

lemma length_allocate [simp]: "length (allocate_auto_tape_names library start cnt) = cnt"
  by (auto simp: allocate_auto_tape_names_def Let_def)

lemma set_allocate:
  "set (allocate_auto_tape_names library start cnt) \<subseteq>
     {auto_tape_name_prefix library @ pad_zero w (show_nat n) | w n. start \<le> n \<and> n < start + cnt}"
proof (cases "cnt = 0")
  case False
  define w where "w = max 2 (length (show_nat (start + cnt - 1)))"
  from False have "{start..<Suc (start + cnt - 1)} = {start..<start + cnt}" by auto
  with False have "set (allocate_auto_tape_names library start cnt) =
      (\<lambda>n. auto_tape_name_prefix library @ pad_zero w (show_nat n)) ` {start..<start + cnt}"
    by (simp add: allocate_auto_tape_names_def Let_def w_def del: upt_Suc)
  then show ?thesis by force
qed (simp add: allocate_auto_tape_names_def)

lemma distinct_allocate: "distinct (allocate_auto_tape_names library start cnt)"
proof -
  have "inj (\<lambda>n. p @ pad_zero w (show_nat n))" for p w
    by (rule injI) (metis dec_val_pad same_append_eq)
  then show ?thesis
    by (auto simp: allocate_auto_tape_names_def Let_def distinct_map intro: inj_on_subset)
qed

end
