(* ===== verification/Catalog.thy ===== *)
theory Catalog
  imports Names
begin

text \<open>
  The SQLite catalogue (\<^verbatim>\<open>create_fresh_v2_schema\<close> in \<^verbatim>\<open>main.rs\<close>): one record per table row, the
  database as the lists of rows with the AUTOINCREMENT counters, the constraints the schema
  declares (UNIQUE, PRIMARY KEY, and REFERENCES with \<^verbatim>\<open>PRAGMA foreign_keys = ON\<close>) as checks of
  the inserting, re-keying and deleting statements, and the queries that every operation
  shares. The column \<^verbatim>\<open>image_path\<close> holds a path as its list of components.

  A database operation is a function \<open>db \<Rightarrow> VtlError + db\<close>: a transaction that fails leaves the
  caller with the database it started from, which is what dropping an uncommitted transaction
  does.
\<close>

section \<open>Tables\<close>

type_synonym path = "string list"

record lib_row =
  lib_id :: int
  lib_name :: string
  lib_created :: string

record shelf_row =
  shelf_id :: int
  shelf_lib :: int
  shelf_name :: string
  shelf_default :: int

record tape_row =
  tape_id :: int
  tape_lib :: int
  tape_shelf :: "int option"
  tape_barcode :: string
  tape_name :: string
  tape_slot :: "int option"
  tape_capacity :: nat
  tape_used :: nat
  tape_created :: string
  tape_image :: path

record slot_row =
  slot_lib :: int
  slot_no :: int
  slot_tape :: "int option"
  slot_ie :: int

record drive_row =
  drive_lib :: int
  drive_no :: int
  drive_tape :: "int option"

record export_row =
  export_lib :: int
  export_iqn :: string
  export_export_id :: string
  export_changer_sg :: string
  export_drive_sg_json :: string
  export_lun_map_json :: string
  export_portal_ip :: string
  export_portal_port :: int
  export_exported_at :: string

record db =
  libs :: "lib_row list"
  shelves :: "shelf_row list"
  lib_config :: "((int \<times> string) \<times> string) list"
  tapes :: "tape_row list"
  slots :: "slot_row list"
  drives :: "drive_row list"
  config :: "(string \<times> string) list"
  tags :: "(int \<times> string) list"
  tape_tags :: "(int \<times> int) list"
  exports :: "export_row list"
  seq_lib :: int
  seq_shelf :: int
  seq_tape :: int

definition create_fresh_v2_schema :: db where
  "create_fresh_v2_schema =
     \<lparr>libs = [], shelves = [], lib_config = [], tapes = [], slots = [], drives = [], config = [],
      tags = [], tape_tags = [], exports = [], seq_lib = 0, seq_shelf = 0, seq_tape = 0\<rparr>"

abbreviation constraint_failed :: "'a \<Rightarrow> VtlError" where
  "constraint_failed x \<equiv> DatabaseError ''constraint failed''"

section \<open>Queries\<close>

definition find_library :: "db \<Rightarrow> string \<Rightarrow> lib_row option" where
  "find_library d name = List.find (\<lambda>r. lib_name r = name) (libs d)"

definition resolve_library_id :: "db \<Rightarrow> string \<Rightarrow> VtlError + int" where
  "resolve_library_id d name =
     ok_or (map_option lib_id (find_library d name)) (LibraryNotFound name)"

definition default_shelf_id :: "db \<Rightarrow> int \<Rightarrow> VtlError + int" where
  "default_shelf_id d lib =
     ok_or (map_option shelf_id
              (List.find (\<lambda>r. shelf_lib r = lib \<and> shelf_default r = 1) (shelves d)))
           (ShelfNotFound ''default unused shelf'')"

definition resolve_shelf_id :: "db \<Rightarrow> int \<Rightarrow> string \<Rightarrow> VtlError + int" where
  "resolve_shelf_id d lib name =
     ok_or (map_option shelf_id
              (List.find (\<lambda>r. shelf_lib r = lib \<and> shelf_name r = name) (shelves d)))
           (ShelfNotFound name)"

definition lib_config_get :: "db \<Rightarrow> int \<Rightarrow> string \<Rightarrow> string option" where
  "lib_config_get d lib key = map_of (lib_config d) (lib, key)"

definition config_get :: "db \<Rightarrow> string \<Rightarrow> string option" where
  "config_get d key = map_of (config d) key"

definition find_tape :: "db \<Rightarrow> int \<Rightarrow> string \<Rightarrow> tape_row option" where
  "find_tape d lib name = List.find (\<lambda>r. tape_lib r = lib \<and> tape_name r = name) (tapes d)"

definition tape_by_id :: "db \<Rightarrow> int \<Rightarrow> tape_row option" where
  "tape_by_id d t = List.find (\<lambda>r. tape_id r = t) (tapes d)"

definition tape_by_name :: "db \<Rightarrow> int \<Rightarrow> string \<Rightarrow> VtlError + tape_row" where
  "tape_by_name d lib name = ok_or (find_tape d lib name) (TapeNotFound name)"

definition find_slot :: "db \<Rightarrow> int \<Rightarrow> int \<Rightarrow> slot_row option" where
  "find_slot d lib s = List.find (\<lambda>r. slot_lib r = lib \<and> slot_no r = s) (slots d)"

definition find_drive :: "db \<Rightarrow> int \<Rightarrow> int \<Rightarrow> drive_row option" where
  "find_drive d lib k = List.find (\<lambda>r. drive_lib r = lib \<and> drive_no r = k) (drives d)"

definition tape_in_drive :: "db \<Rightarrow> int \<Rightarrow> int \<Rightarrow> bool" where
  "tape_in_drive d lib t =
     (0 < count_where (\<lambda>r. drive_lib r = lib \<and> drive_tape r = Some t) (drives d))"

definition assert_tape_name_globally_unique :: "db \<Rightarrow> string \<Rightarrow> int \<Rightarrow> VtlError + unit" where
  "assert_tape_name_globally_unique d name lib =
     (case List.find (\<lambda>t. tape_name t = name \<and> tape_lib t \<noteq> lib \<and>
                          (\<exists>l \<in> set (libs d). lib_id l = tape_lib t)) (tapes d) of
        Some t \<Rightarrow> Inl (InvalidParameter ''tape name is used in another library'')
      | None \<Rightarrow> Inr ())"

definition online_libs :: "db \<Rightarrow> lib_row list" where
  "online_libs d =
     filter (\<lambda>r. lib_name r \<noteq> OFFLINE_LIBRARY_NAME \<and> lib_name r \<noteq> LEGACY_DEFAULT_LIBRARY_NAME)
       (libs d)"

text \<open>The ids in \<^verbatim>\<open>ORDER BY id ASC\<close>.\<close>

definition online_lib_ids :: "db \<Rightarrow> int list" where
  "online_lib_ids d = sort (map lib_id (online_libs d))"

definition count_exported_online_libraries :: "db \<Rightarrow> nat" where
  "count_exported_online_libraries d = length (online_libs d)"

definition first_online_library_name :: "db \<Rightarrow> VtlError + string" where
  "first_online_library_name d =
     (case online_lib_ids d of
        [] \<Rightarrow> Inl (InvalidParameter ''no online tape library'')
      | i # _ \<Rightarrow>
          ok_or (map_option lib_name (List.find (\<lambda>r. lib_id r = i) (online_libs d)))
                (InvalidParameter ''no online tape library''))"

text \<open>
  \<^verbatim>\<open>resolve_active_library_name\<close>: an explicit name wins, then the current library if it still
  exists, then the first online library.
\<close>

definition resolve_active_library_name :: "db \<Rightarrow> string \<Rightarrow> string option \<Rightarrow> VtlError + string" where
  "resolve_active_library_name d cur opt =
     (let fallback =
            (if cur \<noteq> [] \<and> is_ok (resolve_library_id d cur) then Inr cur
             else first_online_library_name d)
      in case opt of
           Some raw \<Rightarrow>
             (let name = trim raw
              in if name \<noteq> [] then
                   (if is_test_only_library_name name
                    then Inl (InvalidParameter ''library name is reserved for tests'')
                    else andThen (resolve_library_id d name) (\<lambda>_. Inr name))
                 else fallback)
         | None \<Rightarrow> fallback)"

text \<open>
  The position of a library among the online libraries, and the same position when the
  libraries without drives and slots are skipped (\<^verbatim>\<open>robot_sync.rs\<close>).
\<close>

definition position :: "int list \<Rightarrow> int \<Rightarrow> nat option" where
  "position xs x = (if x \<in> set xs then Some (length (takeWhile (\<lambda>y. y \<noteq> x) xs)) else None)"

definition online_library_export_index :: "db \<Rightarrow> int \<Rightarrow> VtlError + nat" where
  "online_library_export_index d lib =
     ok_or (position (online_lib_ids d) lib) (LibraryNotFound ''library_id'')"

definition drive_count :: "db \<Rightarrow> int \<Rightarrow> nat" where
  "drive_count d lib = count_where (\<lambda>r. drive_lib r = lib) (drives d)"

definition data_slot_count :: "db \<Rightarrow> int \<Rightarrow> nat" where
  "data_slot_count d lib = count_where (\<lambda>r. slot_lib r = lib \<and> slot_ie r = 0) (slots d)"

definition online_library_ids_for_kernel_sync :: "db \<Rightarrow> int list" where
  "online_library_ids_for_kernel_sync d =
     filter (\<lambda>i. \<not> (drive_count d i = 0 \<and> data_slot_count d i = 0)) (online_lib_ids d)"

definition library_kernel_instance_index :: "db \<Rightarrow> int \<Rightarrow> VtlError + nat" where
  "library_kernel_instance_index d lib =
     ok_or (position (online_library_ids_for_kernel_sync d) lib)
           (LibraryNotFound ''library has no kernel instance'')"

section \<open>Statements\<close>

definition set_slot_tape :: "int \<Rightarrow> int \<Rightarrow> int option \<Rightarrow> db \<Rightarrow> db" where
  "set_slot_tape lib s x d =
     d\<lparr>slots := update_where (\<lambda>r. slot_lib r = lib \<and> slot_no r = s) (\<lambda>r. r\<lparr>slot_tape := x\<rparr>)
                 (slots d)\<rparr>"

definition clear_slots_of :: "int \<Rightarrow> int \<Rightarrow> db \<Rightarrow> db" where
  "clear_slots_of lib t d =
     d\<lparr>slots := update_where (\<lambda>r. slot_lib r = lib \<and> slot_tape r = Some t)
                 (\<lambda>r. r\<lparr>slot_tape := None\<rparr>) (slots d)\<rparr>"

definition set_drive_tape :: "int \<Rightarrow> int \<Rightarrow> int option \<Rightarrow> db \<Rightarrow> db" where
  "set_drive_tape lib k x d =
     d\<lparr>drives := update_where (\<lambda>r. drive_lib r = lib \<and> drive_no r = k) (\<lambda>r. r\<lparr>drive_tape := x\<rparr>)
                  (drives d)\<rparr>"

definition clear_drives_of :: "int \<Rightarrow> int \<Rightarrow> db \<Rightarrow> db" where
  "clear_drives_of lib t d =
     d\<lparr>drives := update_where (\<lambda>r. drive_lib r = lib \<and> drive_tape r = Some t)
                  (\<lambda>r. r\<lparr>drive_tape := None\<rparr>) (drives d)\<rparr>"

definition update_tape :: "int \<Rightarrow> (tape_row \<Rightarrow> tape_row) \<Rightarrow> db \<Rightarrow> db" where
  "update_tape t f d = d\<lparr>tapes := update_where (\<lambda>r. tape_id r = t) f (tapes d)\<rparr>"

definition set_lib_config :: "int \<Rightarrow> string \<Rightarrow> string \<Rightarrow> db \<Rightarrow> db" where
  "set_lib_config lib key v d = d\<lparr>lib_config := amap_put (lib, key) v (lib_config d)\<rparr>"

definition insert_library :: "string \<Rightarrow> string \<Rightarrow> db \<Rightarrow> VtlError + (int \<times> db)" where
  "insert_library name now d =
     (if (\<exists>r \<in> set (libs d). lib_name r = name) then Inl (constraint_failed name)
      else let i = seq_lib d + 1
           in Inr (i, d\<lparr>libs := libs d @ [\<lparr>lib_id = i, lib_name = name, lib_created = now\<rparr>],
                        seq_lib := i\<rparr>))"

definition insert_shelf :: "int \<Rightarrow> string \<Rightarrow> int \<Rightarrow> db \<Rightarrow> VtlError + db" where
  "insert_shelf lib name def d =
     (if (\<exists>r \<in> set (shelves d). shelf_lib r = lib \<and> shelf_name r = name)
        \<or> \<not> (\<exists>l \<in> set (libs d). lib_id l = lib)
      then Inl (constraint_failed name)
      else let i = seq_shelf d + 1
           in Inr (d\<lparr>shelves := shelves d @ [\<lparr>shelf_id = i, shelf_lib = lib, shelf_name = name,
                                               shelf_default = def\<rparr>],
                     seq_shelf := i\<rparr>))"

text \<open>The row is given without its id, which the AUTOINCREMENT column supplies.\<close>

definition insert_tape :: "tape_row \<Rightarrow> db \<Rightarrow> VtlError + (int \<times> db)" where
  "insert_tape r d =
     (if (\<exists>q \<in> set (tapes d). tape_lib q = tape_lib r \<and>
             (tape_name q = tape_name r \<or> tape_barcode q = tape_barcode r))
        \<or> 2 ^ 63 \<le> tape_capacity r
        \<or> \<not> (\<exists>l \<in> set (libs d). lib_id l = tape_lib r)
      then Inl (constraint_failed r)
      else let i = seq_tape d + 1
           in Inr (i, d\<lparr>tapes := tapes d @ [r\<lparr>tape_id := i\<rparr>], seq_tape := i\<rparr>))"

definition insert_slot_or_ignore :: "int \<Rightarrow> int \<Rightarrow> int \<Rightarrow> db \<Rightarrow> db" where
  "insert_slot_or_ignore lib s ie d =
     (if (\<exists>r \<in> set (slots d). slot_lib r = lib \<and> slot_no r = s) then d
      else d\<lparr>slots := slots d @ [\<lparr>slot_lib = lib, slot_no = s, slot_tape = None, slot_ie = ie\<rparr>]\<rparr>)"

definition insert_drive_or_ignore :: "int \<Rightarrow> int \<Rightarrow> db \<Rightarrow> db" where
  "insert_drive_or_ignore lib k d =
     (if (\<exists>r \<in> set (drives d). drive_lib r = lib \<and> drive_no r = k) then d
      else d\<lparr>drives := drives d @ [\<lparr>drive_lib = lib, drive_no = k, drive_tape = None\<rparr>]\<rparr>)"

text \<open>Deleting tapes fails while a slot, a drive or a tag link still refers to one of them.\<close>

definition delete_tapes :: "(tape_row \<Rightarrow> bool) \<Rightarrow> db \<Rightarrow> VtlError + db" where
  "delete_tapes P d =
     (let gone = map tape_id (filter P (tapes d))
      in if (\<exists>r \<in> set (slots d). \<exists>t. slot_tape r = Some t \<and> t \<in> set gone)
           \<or> (\<exists>r \<in> set (drives d). \<exists>t. drive_tape r = Some t \<and> t \<in> set gone)
           \<or> (\<exists>p \<in> set (tape_tags d). fst p \<in> set gone)
         then Inl (constraint_failed gone)
         else Inr (d\<lparr>tapes := delete_where P (tapes d)\<rparr>))"

section \<open>Consistency of the catalogue\<close>

text \<open>What the schema itself enforces: the keys, and ids below the AUTOINCREMENT counters.\<close>

definition keys_ok :: "db \<Rightarrow> bool" where
  "keys_ok d \<longleftrightarrow>
     distinct (map lib_id (libs d)) \<and> distinct (map lib_name (libs d)) \<and>
     distinct (map shelf_id (shelves d)) \<and>
     distinct (map (\<lambda>r. (shelf_lib r, shelf_name r)) (shelves d)) \<and>
     distinct (map tape_id (tapes d)) \<and>
     distinct (map (\<lambda>r. (tape_lib r, tape_name r)) (tapes d)) \<and>
     distinct (map (\<lambda>r. (tape_lib r, tape_barcode r)) (tapes d)) \<and>
     distinct (map (\<lambda>r. (slot_lib r, slot_no r)) (slots d)) \<and>
     distinct (map (\<lambda>r. (drive_lib r, drive_no r)) (drives d)) \<and>
     (\<forall>r \<in> set (libs d). lib_id r \<le> seq_lib d) \<and>
     (\<forall>r \<in> set (shelves d). shelf_id r \<le> seq_shelf d) \<and>
     (\<forall>r \<in> set (tapes d). tape_id r \<le> seq_tape d)"

text \<open>
  What the operations are meant to keep beyond the schema: a tape that a slot row names is in
  that slot and on no shelf; a tape that a drive row names is in no slot and on no shelf; and no
  two drives name the same tape.
\<close>

definition slots_placed :: "db \<Rightarrow> bool" where
  "slots_placed d \<longleftrightarrow>
     (\<forall>s \<in> set (slots d). \<forall>t. slot_tape s = Some t \<longrightarrow>
        (\<exists>r \<in> set (tapes d). tape_id r = t \<and> tape_lib r = slot_lib s \<and>
             tape_slot r = Some (slot_no s) \<and> tape_shelf r = None))"

definition drives_placed :: "db \<Rightarrow> bool" where
  "drives_placed d \<longleftrightarrow>
     (\<forall>k \<in> set (drives d). \<forall>t. drive_tape k = Some t \<longrightarrow>
        (\<exists>r \<in> set (tapes d). tape_id r = t \<and> tape_lib r = drive_lib k \<and>
             tape_slot r = None \<and> tape_shelf r = None))"

definition drives_exclusive :: "db \<Rightarrow> bool" where
  "drives_exclusive d \<longleftrightarrow>
     (\<forall>k \<in> set (drives d). \<forall>k' \<in> set (drives d). \<forall>t.
        drive_tape k = Some t \<longrightarrow> drive_tape k' = Some t \<longrightarrow> k = k')"

text \<open>A tape never claims a shelf and a slot at once.\<close>

definition shelf_xor_slot :: "db \<Rightarrow> bool" where
  "shelf_xor_slot d \<longleftrightarrow> (\<forall>r \<in> set (tapes d). tape_shelf r = None \<or> tape_slot r = None)"

definition catalog_ok :: "db \<Rightarrow> bool" where
  "catalog_ok d \<longleftrightarrow> keys_ok d \<and> slots_placed d \<and> drives_placed d \<and> drives_exclusive d \<and>
     shelf_xor_slot d"

text \<open>Where a tape can be found: a shelf, a slot row of its library, or a drive row of it.\<close>

definition on_shelf :: "db \<Rightarrow> int \<Rightarrow> bool" where
  "on_shelf d t \<longleftrightarrow> (\<exists>r \<in> set (tapes d). tape_id r = t \<and> tape_shelf r \<noteq> None)"

definition in_slot :: "db \<Rightarrow> int \<Rightarrow> bool" where
  "in_slot d t \<longleftrightarrow> (\<exists>s \<in> set (slots d). slot_tape s = Some t)"

definition in_drive :: "db \<Rightarrow> int \<Rightarrow> bool" where
  "in_drive d t \<longleftrightarrow> (\<exists>k \<in> set (drives d). drive_tape k = Some t)"

definition located :: "db \<Rightarrow> int \<Rightarrow> bool" where
  "located d t \<longleftrightarrow> on_shelf d t \<or> in_slot d t \<or> in_drive d t"

section \<open>Lemmas\<close>

text \<open>The fields a statement leaves alone.\<close>

lemma statement_frames [simp]:
  "libs (set_slot_tape l s x d) = libs d" "shelves (set_slot_tape l s x d) = shelves d"
  "tapes (set_slot_tape l s x d) = tapes d" "drives (set_slot_tape l s x d) = drives d"
  "tape_tags (set_slot_tape l s x d) = tape_tags d" "seq_tape (set_slot_tape l s x d) = seq_tape d"
  "seq_lib (set_slot_tape l s x d) = seq_lib d" "seq_shelf (set_slot_tape l s x d) = seq_shelf d"
  "libs (clear_slots_of l t d) = libs d" "shelves (clear_slots_of l t d) = shelves d"
  "tapes (clear_slots_of l t d) = tapes d" "drives (clear_slots_of l t d) = drives d"
  "tape_tags (clear_slots_of l t d) = tape_tags d" "seq_tape (clear_slots_of l t d) = seq_tape d"
  "seq_lib (clear_slots_of l t d) = seq_lib d" "seq_shelf (clear_slots_of l t d) = seq_shelf d"
  "libs (set_drive_tape l k x d) = libs d" "shelves (set_drive_tape l k x d) = shelves d"
  "tapes (set_drive_tape l k x d) = tapes d" "slots (set_drive_tape l k x d) = slots d"
  "tape_tags (set_drive_tape l k x d) = tape_tags d" "seq_tape (set_drive_tape l k x d) = seq_tape d"
  "seq_lib (set_drive_tape l k x d) = seq_lib d" "seq_shelf (set_drive_tape l k x d) = seq_shelf d"
  "libs (clear_drives_of l t d) = libs d" "shelves (clear_drives_of l t d) = shelves d"
  "tapes (clear_drives_of l t d) = tapes d" "slots (clear_drives_of l t d) = slots d"
  "tape_tags (clear_drives_of l t d) = tape_tags d" "seq_tape (clear_drives_of l t d) = seq_tape d"
  "seq_lib (clear_drives_of l t d) = seq_lib d" "seq_shelf (clear_drives_of l t d) = seq_shelf d"
  "libs (update_tape t f d) = libs d" "shelves (update_tape t f d) = shelves d"
  "slots (update_tape t f d) = slots d" "drives (update_tape t f d) = drives d"
  "tape_tags (update_tape t f d) = tape_tags d" "seq_tape (update_tape t f d) = seq_tape d"
  "seq_lib (update_tape t f d) = seq_lib d" "seq_shelf (update_tape t f d) = seq_shelf d"
  by (simp_all add: set_slot_tape_def clear_slots_of_def set_drive_tape_def clear_drives_of_def
      update_tape_def)

text \<open>The statements that change rows, unfolded together.\<close>

lemmas statements = set_slot_tape_def clear_slots_of_def set_drive_tape_def clear_drives_of_def
  update_tape_def

text \<open>The statements that do not touch a key keep the keys.\<close>

lemma keys_ok_set_slot_tape [simp]: "keys_ok (set_slot_tape l s x d) = keys_ok d"
  unfolding keys_ok_def statement_frames by (simp add: set_slot_tape_def map_update_where)

lemma keys_ok_clear_slots_of [simp]: "keys_ok (clear_slots_of l t d) = keys_ok d"
  unfolding keys_ok_def statement_frames by (simp add: clear_slots_of_def map_update_where)

lemma keys_ok_set_drive_tape [simp]: "keys_ok (set_drive_tape l k x d) = keys_ok d"
  unfolding keys_ok_def statement_frames by (simp add: set_drive_tape_def map_update_where)

lemma keys_ok_clear_drives_of [simp]: "keys_ok (clear_drives_of l t d) = keys_ok d"
  unfolding keys_ok_def statement_frames by (simp add: clear_drives_of_def map_update_where)

lemma keys_ok_update_tape:
  assumes "\<And>r. tape_id (f r) = tape_id r \<and> tape_lib (f r) = tape_lib r \<and>
    tape_name (f r) = tape_name r \<and> tape_barcode (f r) = tape_barcode r"
  shows "keys_ok (update_tape t f d) = keys_ok d"
  using assms unfolding keys_ok_def statement_frames
  by (simp add: update_tape_def map_update_where ball_update_where if_distrib cong: if_cong)

text \<open>Rows are determined by their keys.\<close>

lemma tape_unique: "keys_ok d \<Longrightarrow> r \<in> set (tapes d) \<Longrightarrow> r' \<in> set (tapes d) \<Longrightarrow> tape_id r = tape_id r' \<Longrightarrow> r = r'"
  by (auto simp: keys_ok_def dest: distinct_map_eqD)

lemma slot_unique:
  "keys_ok d \<Longrightarrow> r \<in> set (slots d) \<Longrightarrow> r' \<in> set (slots d) \<Longrightarrow> slot_lib r = slot_lib r' \<Longrightarrow>
   slot_no r = slot_no r' \<Longrightarrow> r = r'"
  unfolding keys_ok_def by (metis (mono_tags, lifting) distinct_map_eqD)

lemma drive_unique:
  "keys_ok d \<Longrightarrow> r \<in> set (drives d) \<Longrightarrow> r' \<in> set (drives d) \<Longrightarrow> drive_lib r = drive_lib r' \<Longrightarrow>
   drive_no r = drive_no r' \<Longrightarrow> r = r'"
  unfolding keys_ok_def by (metis (mono_tags, lifting) distinct_map_eqD)

lemma tape_name_unique:
  "keys_ok d \<Longrightarrow> r \<in> set (tapes d) \<Longrightarrow> r' \<in> set (tapes d) \<Longrightarrow> tape_lib r = tape_lib r' \<Longrightarrow>
   tape_name r = tape_name r' \<Longrightarrow> r = r'"
  unfolding keys_ok_def by (metis (mono_tags, lifting) distinct_map_eqD)

lemma find_slot_Some: "find_slot d l s = Some r \<Longrightarrow> r \<in> set (slots d) \<and> slot_lib r = l \<and> slot_no r = s"
  by (auto simp: find_slot_def dest: find_Some_in)

lemma find_drive_Some: "find_drive d l k = Some r \<Longrightarrow> r \<in> set (drives d) \<and> drive_lib r = l \<and> drive_no r = k"
  by (auto simp: find_drive_def dest: find_Some_in)

lemma find_tape_Some: "find_tape d l n = Some r \<Longrightarrow> r \<in> set (tapes d) \<and> tape_lib r = l \<and> tape_name r = n"
  by (auto simp: find_tape_def dest: find_Some_in)

lemma tape_by_id_Some: "tape_by_id d t = Some r \<Longrightarrow> r \<in> set (tapes d) \<and> tape_id r = t"
  by (auto simp: tape_by_id_def dest: find_Some_in)

lemma tape_by_name_Inr: "tape_by_name d l n = Inr r \<longleftrightarrow> find_tape d l n = Some r"
  by (simp add: tape_by_name_def)

lemma find_slot_unique: "keys_ok d \<Longrightarrow> r \<in> set (slots d) \<Longrightarrow> find_slot d (slot_lib r) (slot_no r) = Some r"
  unfolding find_slot_def keys_ok_def by (rule find_unique [where k = "\<lambda>r. (slot_lib r, slot_no r)"]) auto

lemma find_drive_unique: "keys_ok d \<Longrightarrow> r \<in> set (drives d) \<Longrightarrow> find_drive d (drive_lib r) (drive_no r) = Some r"
  unfolding find_drive_def keys_ok_def by (rule find_unique [where k = "\<lambda>r. (drive_lib r, drive_no r)"]) auto

lemma tape_in_drive_iff:
  "tape_in_drive d l t \<longleftrightarrow> (\<exists>k \<in> set (drives d). drive_lib k = l \<and> drive_tape k = Some t)"
  by (auto simp: tape_in_drive_def count_where_pos)

lemma slots_placedD:
  assumes "slots_placed d" and "s \<in> set (slots d)" and "slot_tape s = Some t"
  obtains r where "r \<in> set (tapes d)" "tape_id r = t" "tape_lib r = slot_lib s"
    "tape_slot r = Some (slot_no s)" "tape_shelf r = None"
  using assms unfolding slots_placed_def by blast

lemma drives_placedD:
  assumes "drives_placed d" and "k \<in> set (drives d)" and "drive_tape k = Some t"
  obtains r where "r \<in> set (tapes d)" "tape_id r = t" "tape_lib r = drive_lib k"
    "tape_slot r = None" "tape_shelf r = None"
  using assms unfolding drives_placed_def by blast

text \<open>In a consistent catalogue no tape is in two places.\<close>

lemma catalog_tape_in_one_slot:
  assumes "catalog_ok d" "s \<in> set (slots d)" "s' \<in> set (slots d)"
    "slot_tape s = Some t" "slot_tape s' = Some t"
  shows "s = s'"
proof -
  obtain r where "r \<in> set (tapes d)" "tape_id r = t" "tape_lib r = slot_lib s" "tape_slot r = Some (slot_no s)"
    using assms slots_placedD [of d s t] by (auto simp: catalog_ok_def)
  moreover obtain r' where "r' \<in> set (tapes d)" "tape_id r' = t" "tape_lib r' = slot_lib s'"
    "tape_slot r' = Some (slot_no s')"
    using assms slots_placedD [of d s' t] by (auto simp: catalog_ok_def)
  ultimately show ?thesis
    using assms tape_unique [of d r r'] slot_unique [of d s s'] by (auto simp: catalog_ok_def)
qed

lemma catalog_not_slot_and_drive:
  assumes "catalog_ok d" "s \<in> set (slots d)" "k \<in> set (drives d)"
    "slot_tape s = Some t" "drive_tape k = Some t"
  shows False
proof -
  obtain r where "r \<in> set (tapes d)" "tape_id r = t" "tape_slot r = Some (slot_no s)"
    using assms slots_placedD [of d s t] by (auto simp: catalog_ok_def)
  moreover obtain r' where "r' \<in> set (tapes d)" "tape_id r' = t" "tape_slot r' = None"
    using assms drives_placedD [of d k t] by (auto simp: catalog_ok_def)
  ultimately show ?thesis
    using assms tape_unique [of d r r'] by (auto simp: catalog_ok_def)
qed

lemma catalog_ok_fresh: "catalog_ok create_fresh_v2_schema"
  by (simp add: catalog_ok_def create_fresh_v2_schema_def keys_ok_def slots_placed_def
      drives_placed_def drives_exclusive_def shelf_xor_slot_def)

end
