(* ===== verification/Files.thy ===== *)
theory Files
  imports Catalog
begin

text \<open>
  The operations of \<^verbatim>\<open>std::fs\<close> that the program uses, over an explicit file store: names are bound
  to directories, regular files (by inode, so that hard links share content) or symbolic links,
  and an inode has a length and its bytes. Every operation can also fail for a reason outside
  the program (permissions, a full disk, another device): \<open>fs_fault\<close> says for which operations it
  does, and all theorems hold for every choice of it. Directory listings come in the order of
  the store, which is arbitrary.
\<close>

datatype node = Dir | Reg nat | Sym path

record content =
  clen :: nat
  cbyte :: "nat \<Rightarrow> nat"

datatype fs_op =
    OpMkdir path
  | OpCreate path
  | OpOpenWrite path
  | OpSetLen path nat
  | OpSync path
  | OpRename path path
  | OpRemove path
  | OpRemoveDir path
  | OpCopy path path
  | OpHardLink path path
  | OpSymlink path path
  | OpReadDir path
  | OpMetadata path
  | OpRead path
  | OpAppend path

record fs =
  nodes :: "(path \<times> node) list"
  inodes :: "(nat \<times> content) list"
  next_ino :: nat
  fs_fault :: "fs_op \<Rightarrow> io_error option"

definition empty_content :: content where
  "empty_content = \<lparr>clen = 0, cbyte = (\<lambda>_. 0)\<rparr>"

definition resize_content :: "nat \<Rightarrow> content \<Rightarrow> content" where
  "resize_content n c = \<lparr>clen = n, cbyte = (\<lambda>i. if i < min n (clen c) then cbyte c i else 0)\<rparr>"

definition node_at :: "fs \<Rightarrow> path \<Rightarrow> node option" where
  "node_at f p = (if p = [] then Some Dir else map_of (nodes f) p)"

text \<open>Symbolic links are followed at the last component; the kernel gives up after 40.\<close>

fun resolve :: "nat \<Rightarrow> fs \<Rightarrow> path \<Rightarrow> path option" where
  "resolve 0 f p = None"
| "resolve (Suc n) f p = (case node_at f p of Some (Sym q) \<Rightarrow> resolve n f q | _ \<Rightarrow> Some p)"

definition target :: "fs \<Rightarrow> path \<Rightarrow> node option" where
  "target f p = (case resolve 40 f p of None \<Rightarrow> None | Some q \<Rightarrow> node_at f q)"

definition path_exists :: "fs \<Rightarrow> path \<Rightarrow> bool" where
  "path_exists f p = (target f p \<noteq> None)"

definition is_dir :: "fs \<Rightarrow> path \<Rightarrow> bool" where
  "is_dir f p = (target f p = Some Dir)"

definition is_file :: "fs \<Rightarrow> path \<Rightarrow> bool" where
  "is_file f p = (case target f p of Some (Reg i) \<Rightarrow> True | _ \<Rightarrow> False)"

definition is_symlink :: "fs \<Rightarrow> path \<Rightarrow> bool" where
  "is_symlink f p = (case node_at f p of Some (Sym q) \<Rightarrow> True | _ \<Rightarrow> False)"

definition inode_of :: "fs \<Rightarrow> path \<Rightarrow> nat option" where
  "inode_of f p = (case target f p of Some (Reg i) \<Rightarrow> Some i | _ \<Rightarrow> None)"

definition content_of :: "fs \<Rightarrow> nat \<Rightarrow> content" where
  "content_of f i = (case map_of (inodes f) i of None \<Rightarrow> empty_content | Some c \<Rightarrow> c)"

definition file_content :: "fs \<Rightarrow> path \<Rightarrow> content option" where
  "file_content f p = map_option (content_of f) (inode_of f p)"

definition canonicalize :: "fs \<Rightarrow> path \<Rightarrow> path option" where
  "canonicalize f p = (if path_exists f p then resolve 40 f p else None)"

definition with_fault :: "fs_op \<Rightarrow> fs \<Rightarrow> (io_error + 'a) \<Rightarrow> io_error + 'a" where
  "with_fault x f r = (case fs_fault f x of Some e \<Rightarrow> Inl e | None \<Rightarrow> r)"

definition put_node :: "path \<Rightarrow> node \<Rightarrow> fs \<Rightarrow> fs" where
  "put_node p n f = f\<lparr>nodes := amap_put p n (nodes f)\<rparr>"

definition drop_node :: "path \<Rightarrow> fs \<Rightarrow> fs" where
  "drop_node p f = f\<lparr>nodes := filter (\<lambda>x. fst x \<noteq> p) (nodes f)\<rparr>"

definition put_content :: "nat \<Rightarrow> content \<Rightarrow> fs \<Rightarrow> fs" where
  "put_content i c f = f\<lparr>inodes := amap_put i c (inodes f)\<rparr>"

definition mkdir_step :: "path \<Rightarrow> fs \<Rightarrow> io_error + fs" where
  "mkdir_step p f =
     (case target f p of
        Some Dir \<Rightarrow> Inr f
      | Some _ \<Rightarrow> Inl (KindError KOther ''not a directory'')
      | None \<Rightarrow> Inr (put_node p Dir f))"

definition prefixes_of :: "path \<Rightarrow> path list" where
  "prefixes_of p = map (\<lambda>n. take n p) [1..<Suc (length p)]"

definition create_dir_all :: "path \<Rightarrow> fs \<Rightarrow> io_error + fs" where
  "create_dir_all p f = with_fault (OpMkdir p) f (fold_ok mkdir_step (prefixes_of p) f)"

text \<open>\<^verbatim>\<open>File::create\<close> truncates an existing file and otherwise makes a new one.\<close>

definition create_file :: "path \<Rightarrow> fs \<Rightarrow> io_error + fs" where
  "create_file p f =
     with_fault (OpCreate p) f
       (case resolve 40 f p of
          None \<Rightarrow> Inl (KindError KOther ''too many levels of symbolic links'')
        | Some q \<Rightarrow>
            (case node_at f q of
               Some (Reg i) \<Rightarrow> Inr (put_content i empty_content f)
             | Some _ \<Rightarrow> Inl (KindError KOther ''is a directory'')
             | None \<Rightarrow>
                 if is_dir f (butlast q)
                 then Inr (put_node q (Reg (next_ino f))
                        (put_content (next_ino f) empty_content (f\<lparr>next_ino := Suc (next_ino f)\<rparr>)))
                 else Inl (OsError ENOENT)))"

definition open_write :: "path \<Rightarrow> fs \<Rightarrow> io_error + nat" where
  "open_write p f = with_fault (OpOpenWrite p) f (ok_or (inode_of f p) (OsError ENOENT))"

definition set_len :: "path \<Rightarrow> nat \<Rightarrow> nat \<Rightarrow> fs \<Rightarrow> io_error + fs" where
  "set_len p i n f =
     with_fault (OpSetLen p n) f (Inr (put_content i (resize_content n (content_of f i)) f))"

text \<open>
  \<^verbatim>\<open>rename\<close> replaces a file at the target; two names of one inode are left alone. The program
  renames files only.
\<close>

definition rename :: "path \<Rightarrow> path \<Rightarrow> fs \<Rightarrow> io_error + fs" where
  "rename a b f =
     with_fault (OpRename a b) f
       (case node_at f a of
          None \<Rightarrow> Inl (OsError ENOENT)
        | Some Dir \<Rightarrow> Inl (KindError KOther ''directory rename'')
        | Some n \<Rightarrow>
            if \<not> is_dir f (butlast b) then Inl (OsError ENOENT)
            else if node_at f b = Some Dir then Inl (KindError KOther ''is a directory'')
            else if node_at f b = Some n \<and> \<not> is_symlink f a then Inr f
            else Inr (put_node b n (drop_node a f)))"

definition remove_file :: "path \<Rightarrow> fs \<Rightarrow> io_error + fs" where
  "remove_file p f =
     with_fault (OpRemove p) f
       (case node_at f p of
          None \<Rightarrow> Inl (OsError ENOENT)
        | Some Dir \<Rightarrow> Inl (KindError KOther ''is a directory'')
        | Some _ \<Rightarrow> Inr (drop_node p f))"

definition remove_dir_all :: "path \<Rightarrow> fs \<Rightarrow> io_error + fs" where
  "remove_dir_all p f =
     with_fault (OpRemoveDir p) f
       (if node_at f p = None then Inl (OsError ENOENT)
        else Inr (f\<lparr>nodes := filter (\<lambda>x. take (length p) (fst x) \<noteq> p) (nodes f)\<rparr>))"

text \<open>
  \<^verbatim>\<open>fs::copy\<close> opens the source, then creates (truncating) the target, then copies what the source
  holds at that moment.
\<close>

definition copy_file :: "path \<Rightarrow> path \<Rightarrow> fs \<Rightarrow> io_error + fs" where
  "copy_file a b f =
     with_fault (OpCopy a b) f
       (case inode_of f a of
          None \<Rightarrow> Inl (OsError ENOENT)
        | Some i \<Rightarrow>
            andThen (create_file b f) (\<lambda>f1.
              andThen (ok_or (inode_of f1 b) (OsError ENOENT)) (\<lambda>j.
                Inr (put_content j (content_of f1 i) f1))))"

text \<open>\<^verbatim>\<open>fs::write\<close>: the whole content of a file.\<close>

definition string_content :: "string \<Rightarrow> content" where
  "string_content s = \<lparr>clen = length s, cbyte = (\<lambda>i. if i < length s then of_char (s ! i) else 0)\<rparr>"

definition write_file :: "path \<Rightarrow> string \<Rightarrow> fs \<Rightarrow> io_error + fs" where
  "write_file p s f =
     andThen (create_file p f) (\<lambda>f1.
     andThen (ok_or (inode_of f1 p) (OsError ENOENT)) (\<lambda>i.
       Inr (put_content i (string_content s) f1)))"

text \<open>\<^verbatim>\<open>fs::read_to_string\<close>; texts are their bytes, and every file that is read so is text.\<close>

definition content_string :: "content \<Rightarrow> string" where
  "content_string c = map (\<lambda>i. char_of (cbyte c i)) [0..<clen c]"

definition read_to_string :: "path \<Rightarrow> fs \<Rightarrow> io_error + string" where
  "read_to_string p f =
     with_fault (OpRead p) f (ok_or (map_option content_string (file_content f p)) (OsError ENOENT))"

text \<open>A file opened with \<^verbatim>\<open>append(true).create(true)\<close>, and one write to it.\<close>

definition append_content :: "content \<Rightarrow> string \<Rightarrow> content" where
  "append_content c s =
     \<lparr>clen = clen c + length s,
      cbyte = (\<lambda>i. if i < clen c then cbyte c i
                   else if i < clen c + length s then of_char (s ! (i - clen c)) else 0)\<rparr>"

definition append_file :: "path \<Rightarrow> string \<Rightarrow> fs \<Rightarrow> io_error + fs" where
  "append_file p s f =
     with_fault (OpAppend p) f
       (case inode_of f p of
          Some i \<Rightarrow> Inr (put_content i (append_content (content_of f i) s) f)
        | None \<Rightarrow>
            andThen (create_file p f) (\<lambda>f1.
            andThen (ok_or (inode_of f1 p) (OsError ENOENT)) (\<lambda>i.
              Inr (put_content i (append_content (content_of f1 i) s) f1))))"

definition hard_link :: "path \<Rightarrow> path \<Rightarrow> fs \<Rightarrow> io_error + fs" where
  "hard_link a b f =
     with_fault (OpHardLink a b) f
       (case node_at f a of
          None \<Rightarrow> Inl (OsError ENOENT)
        | Some Dir \<Rightarrow> Inl (OsError EPERM)
        | Some n \<Rightarrow>
            if node_at f b \<noteq> None then Inl (OsError EEXIST)
            else if \<not> is_dir f (butlast b) then Inl (OsError ENOENT)
            else Inr (put_node b n f))"

definition symlink :: "path \<Rightarrow> path \<Rightarrow> fs \<Rightarrow> io_error + fs" where
  "symlink a b f =
     with_fault (OpSymlink a b) f
       (if node_at f b \<noteq> None then Inl (OsError EEXIST)
        else if \<not> is_dir f (butlast b) then Inl (OsError ENOENT)
        else Inr (put_node b (Sym a) f))"

definition read_dir :: "path \<Rightarrow> fs \<Rightarrow> io_error + path list" where
  "read_dir p f =
     with_fault (OpReadDir p) f
       (if is_dir f p
        then Inr (map fst (filter (\<lambda>x. fst x \<noteq> [] \<and> butlast (fst x) = p) (nodes f)))
        else Inl (OsError ENOENT))"

definition file_len :: "path \<Rightarrow> fs \<Rightarrow> io_error + nat" where
  "file_len p f =
     with_fault (OpMetadata p) f (ok_or (map_option clen (file_content f p)) (OsError ENOENT))"

section \<open>Lemmas\<close>

lemma with_fault_Inr [simp]: "with_fault x f r = Inr y \<longleftrightarrow> fs_fault f x = None \<and> r = Inr y"
  by (auto simp: with_fault_def split: option.splits)

lemma node_at_put_node [simp]:
  "p \<noteq> [] \<Longrightarrow> node_at (put_node p n f) q = (if q = p then Some n else node_at f q)"
  by (auto simp: node_at_def put_node_def)

lemma node_at_drop_node [simp]:
  "p \<noteq> [] \<Longrightarrow> node_at (drop_node p f) q = (if q = p then None else node_at f q)"
proof -
  assume p: "p \<noteq> []"
  have "map_of (filter (\<lambda>x. fst x \<noteq> p) ns) p = (None :: node option)" for ns
    by (induction ns) auto
  with p show ?thesis by (auto simp: node_at_def drop_node_def map_of_filter_other)
qed

lemma node_at_put_content [simp]: "node_at (put_content i c f) q = node_at f q"
  by (simp add: node_at_def put_content_def)

lemma node_at_next_ino [simp]: "node_at (f\<lparr>next_ino := k\<rparr>) q = node_at f q"
  by (simp add: node_at_def)

lemma content_of_put_content [simp]:
  "content_of (put_content i c f) j = (if j = i then c else content_of f j)"
  by (simp add: content_of_def put_content_def)

lemma content_of_put_node [simp]: "content_of (put_node p n f) j = content_of f j"
  by (simp add: content_of_def put_node_def)

lemma content_of_drop_node [simp]: "content_of (drop_node p f) j = content_of f j"
  by (simp add: content_of_def drop_node_def)

lemma resolve_put_content [simp]: "resolve n (put_content i c f) p = resolve n f p"
  by (induction n arbitrary: p) (simp_all split: option.splits node.splits)

lemma target_put_content [simp]: "target (put_content i c f) p = target f p"
  by (simp add: target_def split: option.split)

lemma inode_of_put_content [simp]: "inode_of (put_content i c f) p = inode_of f p"
  by (simp add: inode_of_def)

lemma resolve_plain: "node_at f p = Some (Reg i) \<Longrightarrow> resolve (Suc n) f p = Some p"
  by simp

lemma inode_of_plain: "node_at f p = Some (Reg i) \<Longrightarrow> inode_of f p = Some i"
  using resolve_plain [of f p i 39] by (simp add: inode_of_def target_def eval_nat_numeral)

lemma node_at_Nil [simp]: "node_at f [] = Some Dir"
  by (simp add: node_at_def)

lemma resolve_not_sym:
  "resolve n f p = Some q \<Longrightarrow> node_at f q \<noteq> Some (Sym r)"
  by (induction n arbitrary: p) (auto split: option.splits node.splits)

lemma not_exists_node: "\<not> path_exists f p \<Longrightarrow> node_at f p \<noteq> Some (Reg i)"
  using inode_of_plain [of f p i]
  by (auto simp: path_exists_def inode_of_def split: option.splits)

text \<open>A successful rename moves the node and nothing else, and never touches any content.\<close>

lemma rename_nodes:
  assumes "rename a b f = Inr f'" and "node_at f b \<noteq> node_at f a"
  shows "node_at f' b = node_at f a \<and> node_at f' a = (if a = b then node_at f a else None) \<and>
    (\<forall>q. q \<noteq> a \<longrightarrow> q \<noteq> b \<longrightarrow> node_at f' q = node_at f q)"
proof -
  have a: "a \<noteq> []" using assms(1) by (cases a) (auto simp: rename_def split: option.splits node.splits)
  have b: "b \<noteq> []" using assms(1) by (cases b) (auto simp: rename_def split: option.splits node.splits if_splits)
  show ?thesis
    using assms a b by (auto simp: rename_def split: option.splits node.splits if_splits)
qed

lemma rename_content [simp]: "rename a b f = Inr f' \<Longrightarrow> content_of f' i = content_of f i"
  by (auto simp: rename_def split: option.splits node.splits if_splits)

lemma resize_same_bytes:
  "i < min n (clen c) \<Longrightarrow> cbyte (resize_content n c) i = cbyte c i"
  by (simp add: resize_content_def)

lemma resolve_Suc_no_symlink: "\<not> is_symlink f p \<Longrightarrow> resolve (Suc n) f p = Some p"
  by (simp add: is_symlink_def split: option.splits node.splits)

lemma resolve_no_symlink: "\<not> is_symlink f p \<Longrightarrow> resolve 40 f p = Some p"
  using resolve_Suc_no_symlink [of f p 39] by simp

lemma inode_of_plain_iff: "\<not> is_symlink f p \<Longrightarrow> inode_of f p = Some i \<longleftrightarrow> node_at f p = Some (Reg i)"
  by (auto simp: inode_of_def target_def resolve_no_symlink split: option.splits node.splits)

lemma content_string_string_content [simp]: "content_string (string_content s) = s"
  by (auto simp: content_string_def string_content_def intro: nth_equalityI)

lemma write_file_content: "write_file p s f = Inr f' \<Longrightarrow> file_content f' p = Some (string_content s)"
  by (auto simp: write_file_def file_content_def)

lemma create_file_symlink:
  "create_file p f = Inr f' \<Longrightarrow> \<not> is_symlink f p \<Longrightarrow> \<not> is_symlink f' p"
  by (cases "p = []")
    (auto simp: create_file_def resolve_no_symlink is_symlink_def split: option.splits node.splits if_splits)

lemma write_file_plain:
  assumes "write_file p s f = Inr f'" and "\<not> is_symlink f p"
  shows "\<exists>i. node_at f' p = Some (Reg i) \<and> content_of f' i = string_content s"
proof -
  obtain f1 i where f1: "create_file p f = Inr f1" "inode_of f1 p = Some i"
    and f': "f' = put_content i (string_content s) f1"
    using assms(1) by (auto simp: write_file_def)
  have "node_at f1 p = Some (Reg i)"
    using f1 create_file_symlink [OF f1(1) assms(2)] inode_of_plain_iff by blast
  with f' show ?thesis by auto
qed

lemma rename_plain:
  assumes "rename a b f = Inr f'" and "node_at f a = Some (Reg i)" and "a \<noteq> b"
  shows "node_at f' b = Some (Reg i)"
proof -
  have a: "a \<noteq> []" using assms(1) by (cases a) (auto simp: rename_def)
  have b: "b \<noteq> []" using assms(1,2) by (cases b) (auto simp: rename_def split: if_splits)
  show ?thesis using assms a b by (auto simp: rename_def split: if_splits)
qed

lemma read_plain:
  "fs_fault f (OpRead p) = None \<Longrightarrow> node_at f p = Some (Reg i) \<Longrightarrow>
   read_to_string p f = Inr (content_string (content_of f i))"
  by (simp add: read_to_string_def with_fault_def file_content_def inode_of_plain ok_or_def)

text \<open>What fails for a reason outside the program is decided outside it.\<close>

lemma fault_frames [simp]:
  "fs_fault (put_node p n f) = fs_fault f" "fs_fault (drop_node p f) = fs_fault f"
  "fs_fault (put_content i c f) = fs_fault f"
  by (simp_all add: put_node_def drop_node_def put_content_def)

lemma fault_create_file: "create_file p f = Inr f' \<Longrightarrow> fs_fault f' = fs_fault f"
  by (auto simp: create_file_def split: option.splits node.splits if_splits)

lemma fault_write_file: "write_file p s f = Inr f' \<Longrightarrow> fs_fault f' = fs_fault f"
  by (auto simp: write_file_def dest!: fault_create_file)

lemma fault_rename: "rename a b f = Inr f' \<Longrightarrow> fs_fault f' = fs_fault f"
  by (auto simp: rename_def split: option.splits node.splits if_splits)

text \<open>A file replaced through a temporary one reads as what was written.\<close>

lemma read_replaced:
  assumes "write_file t s f = Inr f1" "rename t p f1 = Inr f2"
    and "\<not> is_symlink f t" "t \<noteq> p" "fs_fault f (OpRead p) = None"
  shows "read_to_string p f2 = Inr s"
proof -
  obtain i where i: "node_at f1 t = Some (Reg i)" "content_of f1 i = string_content s"
    using write_file_plain [OF assms(1,3)] by blast
  have "node_at f2 p = Some (Reg i)" by (rule rename_plain [OF assms(2) i(1) assms(4)])
  moreover have "content_of f2 i = string_content s" using i(2) rename_content [OF assms(2)] by simp
  ultimately show ?thesis
    using read_plain [of f2 p i] assms(5) fault_write_file [OF assms(1)] fault_rename [OF assms(2)] by simp
qed

end
