(* ===== verification/Effects.thy ===== *)
theory Effects
  imports Prelude
begin

text \<open>
  Programs with effects: a function from a state to a result and the state it leaves. An error
  does not undo the effects before it, exactly as an early return of the sources does not.
  Database transactions, which do undo, are functions to a result alone, and enter as
  \<open>from_result\<close> followed by a write.

  A property that every effect of a program keeps is kept by the whole program; the rules for it
  are collected in \<open>keeps_intros\<close>.
\<close>

type_synonym ('s, 'e, 'a) prog = "'s \<Rightarrow> ('e + 'a) \<times> 's"

named_theorems keeps_intros \<open>rules that take the preservation of a property apart\<close>

definition ret :: "'a \<Rightarrow> ('s, 'e, 'a) prog" where
  "ret x s = (Inr x, s)"

definition fail :: "'e \<Rightarrow> ('s, 'e, 'a) prog" where
  "fail e s = (Inl e, s)"

definition bindp :: "('s, 'e, 'a) prog \<Rightarrow> ('a \<Rightarrow> ('s, 'e, 'b) prog) \<Rightarrow> ('s, 'e, 'b) prog" where
  "bindp m k s = (case m s of (r, s') \<Rightarrow> (case r of Inl e \<Rightarrow> (Inl e, s') | Inr x \<Rightarrow> k x s'))"

definition thenp :: "('s, 'e, 'a) prog \<Rightarrow> ('s, 'e, 'b) prog \<Rightarrow> ('s, 'e, 'b) prog" where
  "thenp m k = bindp m (\<lambda>_. k)"

definition gets :: "('s \<Rightarrow> 'a) \<Rightarrow> ('s, 'e, 'a) prog" where
  "gets f s = (Inr (f s), s)"

definition modify :: "('s \<Rightarrow> 's) \<Rightarrow> ('s, 'e, unit) prog" where
  "modify f s = (Inr (), f s)"

definition from_result :: "('s \<Rightarrow> 'e + 'a) \<Rightarrow> ('s, 'e, 'a) prog" where
  "from_result f s = (f s, s)"

text \<open>A fallible update: the state changes only on success.\<close>

definition updating :: "('s \<Rightarrow> 'e + 's) \<Rightarrow> ('s, 'e, unit) prog" where
  "updating f s = (case f s of Inl e \<Rightarrow> (Inl e, s) | Inr s' \<Rightarrow> (Inr (), s'))"

text \<open>The result as a value, which the caller inspects or drops.\<close>

definition attempt :: "('s, 'e, 'a) prog \<Rightarrow> ('s, 'f, 'e + 'a) prog" where
  "attempt m s = (case m s of (r, s') \<Rightarrow> (Inr r, s'))"

definition map_err :: "('e \<Rightarrow> 'f) \<Rightarrow> ('s, 'e, 'a) prog \<Rightarrow> ('s, 'f, 'a) prog" where
  "map_err g m s = (case m s of (r, s') \<Rightarrow> (case r of Inl e \<Rightarrow> Inl (g e) | Inr x \<Rightarrow> Inr x, s'))"

definition checkp :: "bool \<Rightarrow> 'e \<Rightarrow> ('s, 'e, unit) prog" where
  "checkp b e = (if b then ret () else fail e)"

fun foldp :: "('x \<Rightarrow> 'a \<Rightarrow> ('s, 'e, 'a) prog) \<Rightarrow> 'x list \<Rightarrow> 'a \<Rightarrow> ('s, 'e, 'a) prog" where
  "foldp f [] a = ret a"
| "foldp f (x # xs) a = bindp (f x a) (foldp f xs)"

definition forp :: "('x \<Rightarrow> ('s, 'e, unit) prog) \<Rightarrow> 'x list \<Rightarrow> ('s, 'e, unit) prog" where
  "forp f xs = foldp (\<lambda>x _. f x) xs ()"

text \<open>A program on a part of the state.\<close>

definition on_part :: "('s \<Rightarrow> 'p) \<Rightarrow> ('p \<Rightarrow> 's \<Rightarrow> 's) \<Rightarrow> ('p, 'e, 'a) prog \<Rightarrow> ('s, 'e, 'a) prog" where
  "on_part get put m s = (case m (get s) of (r, p) \<Rightarrow> (r, put p s))"

section \<open>Running\<close>

lemma ret_run [simp]: "ret x s = (Inr x, s)"
  by (simp add: ret_def)

lemma fail_run [simp]: "fail e s = (Inl e, s)"
  by (simp add: fail_def)

lemma gets_run [simp]: "gets f s = (Inr (f s), s)"
  by (simp add: gets_def)

lemma modify_run [simp]: "modify f s = (Inr (), f s)"
  by (simp add: modify_def)

lemma from_result_run [simp]: "from_result f s = (f s, s)"
  by (simp add: from_result_def)

lemma bindp_ret [simp]: "bindp (ret x) k = k x"
  by (simp add: fun_eq_iff bindp_def)

lemma bindp_gets_run [simp]: "bindp (gets f) k s = k (f s) s"
  by (simp add: bindp_def)

lemma bindp_modify_run [simp]: "bindp (modify f) k s = k () (f s)"
  by (simp add: bindp_def)

lemma thenp_modify_run [simp]: "thenp (modify f) k s = k (f s)"
  by (simp add: thenp_def)

lemma bindp_run_Inr: "m s = (Inr x, s') \<Longrightarrow> bindp m k s = k x s'"
  by (simp add: bindp_def)

lemma bindp_run_Inl: "m s = (Inl e, s') \<Longrightarrow> bindp m k s = (Inl e, s')"
  by (simp add: bindp_def)

lemma bindp_eq_Inr:
  "bindp m k s = (Inr y, t) \<longleftrightarrow> (\<exists>x s'. m s = (Inr x, s') \<and> k x s' = (Inr y, t))"
  by (auto simp: bindp_def split: prod.splits sum.splits)

lemma checkp_run: "checkp b e s = (if b then Inr () else Inl e, s)"
  by (simp add: checkp_def)

lemma checkp_True [simp]: "checkp True e = ret ()"
  by (simp add: checkp_def)

lemma checkp_False [simp]: "checkp False e = fail e"
  by (simp add: checkp_def)

lemma bindp_fail [simp]: "bindp (fail e) k = fail e"
  by (simp add: fun_eq_iff bindp_def)

lemma attempt_run: "attempt m s = (Inr (fst (m s)), snd (m s))"
  by (simp add: attempt_def split: prod.split)

section \<open>What programs keep\<close>

definition keeps :: "('s \<Rightarrow> bool) \<Rightarrow> ('s, 'e, 'a) prog \<Rightarrow> bool" where
  "keeps P m \<longleftrightarrow> (\<forall>s. P s \<longrightarrow> P (snd (m s)))"

lemma keepsD: "keeps P m \<Longrightarrow> P s \<Longrightarrow> P (snd (m s))"
  by (simp add: keeps_def)

lemma keeps_ret [keeps_intros]: "keeps P (ret x)"
  by (simp add: keeps_def)

lemma keeps_fail [keeps_intros]: "keeps P (fail e)"
  by (simp add: keeps_def)

lemma keeps_gets [keeps_intros]: "keeps P (gets f)"
  by (simp add: keeps_def)

lemma keeps_from_result [keeps_intros]: "keeps P (from_result f)"
  by (simp add: keeps_def)

lemma keeps_checkp [keeps_intros]: "keeps P (checkp b e)"
  by (simp add: keeps_def checkp_run)

lemma keeps_modify: "(\<And>s. P s \<Longrightarrow> P (f s)) \<Longrightarrow> keeps P (modify f)"
  by (simp add: keeps_def)

lemma keeps_updating: "(\<And>s s'. P s \<Longrightarrow> f s = Inr s' \<Longrightarrow> P s') \<Longrightarrow> keeps P (updating f)"
  by (simp add: keeps_def updating_def split: sum.split)

lemma keeps_bindp [keeps_intros]: "keeps P m \<Longrightarrow> (\<And>x. keeps P (k x)) \<Longrightarrow> keeps P (bindp m k)"
  by (auto simp: keeps_def bindp_def split: prod.split sum.split)

lemma keeps_thenp [keeps_intros]: "keeps P m \<Longrightarrow> keeps P k \<Longrightarrow> keeps P (thenp m k)"
  by (simp add: thenp_def keeps_bindp)

lemma keeps_attempt [keeps_intros]: "keeps P m \<Longrightarrow> keeps P (attempt m)"
  by (simp add: keeps_def attempt_run)

lemma keeps_map_err [keeps_intros]: "keeps P m \<Longrightarrow> keeps P (map_err g m)"
  by (auto simp: keeps_def map_err_def split: prod.split)

lemma keeps_if [keeps_intros]: "keeps P a \<Longrightarrow> keeps P b \<Longrightarrow> keeps P (if c then a else b)"
  by simp

lemma keeps_option [keeps_intros]:
  "keeps P a \<Longrightarrow> (\<And>v. keeps P (b v)) \<Longrightarrow> keeps P (case x of None \<Rightarrow> a | Some v \<Rightarrow> b v)"
  by (simp split: option.split)

lemma keeps_sum [keeps_intros]:
  "(\<And>e. keeps P (a e)) \<Longrightarrow> (\<And>v. keeps P (b v)) \<Longrightarrow> keeps P (case x of Inl e \<Rightarrow> a e | Inr v \<Rightarrow> b v)"
  by (simp split: sum.split)

lemma keeps_prod [keeps_intros]: "(\<And>a b. keeps P (f a b)) \<Longrightarrow> keeps P (case x of (a, b) \<Rightarrow> f a b)"
  by (simp split: prod.split)

lemma keeps_Let [keeps_intros]: "keeps P (f x) \<Longrightarrow> keeps P (let y = x in f y)"
  by simp

lemma keeps_foldp [keeps_intros]: "(\<And>x a. keeps P (f x a)) \<Longrightarrow> keeps P (foldp f xs a)"
  by (induction xs arbitrary: a) (simp_all add: keeps_intros)

lemma keeps_forp [keeps_intros]: "(\<And>x. keeps P (f x)) \<Longrightarrow> keeps P (forp f xs)"
  by (simp add: forp_def keeps_foldp)

lemma keeps_on_part: "(\<And>p s. P s \<Longrightarrow> P (put p s)) \<Longrightarrow> keeps P (on_part get put m)"
  by (auto simp: keeps_def on_part_def split: prod.split)

text \<open>After a read the rest of the program may rely on what was read.\<close>

lemma keeps_bind_gets:
  "(\<And>s. P s \<Longrightarrow> P (snd (k (f s) s))) \<Longrightarrow> keeps P (bindp (gets f) k)"
  by (simp add: keeps_def)

section \<open>Pre- and postconditions\<close>

text \<open>
  \<open>ensures P m Q E\<close>: started where \<open>P\<close> holds, \<open>m\<close> either returns \<open>x\<close> in a state with \<open>Q x\<close>, or fails
  in a state with \<open>E\<close>. The rules work backwards through a program.
\<close>

named_theorems ensures_intros \<open>rules that take a triple apart\<close>

definition ensures :: "('s \<Rightarrow> bool) \<Rightarrow> ('s, 'e, 'a) prog \<Rightarrow> ('a \<Rightarrow> 's \<Rightarrow> bool) \<Rightarrow> ('s \<Rightarrow> bool) \<Rightarrow> bool" where
  "ensures P m Q E \<longleftrightarrow>
     (\<forall>s. P s \<longrightarrow> (case m s of (r, s') \<Rightarrow> (case r of Inl e \<Rightarrow> E s' | Inr x \<Rightarrow> Q x s')))"

lemma ensures_weaken:
  "ensures P m Q E \<Longrightarrow> (\<And>s. P' s \<Longrightarrow> P s) \<Longrightarrow> (\<And>x s. Q x s \<Longrightarrow> Q' x s) \<Longrightarrow> (\<And>s. E s \<Longrightarrow> E' s) \<Longrightarrow>
   ensures P' m Q' E'"
  by (fastforce simp: ensures_def split: prod.splits sum.splits)

lemma ensures_bindp [ensures_intros]:
  "ensures P m Q E \<Longrightarrow> (\<And>x. ensures (Q x) (k x) R E) \<Longrightarrow> ensures P (bindp m k) R E"
  unfolding ensures_def bindp_def by (fastforce split: prod.splits sum.splits)

lemma ensures_thenp [ensures_intros]:
  "ensures P m (\<lambda>_. Q) E \<Longrightarrow> ensures Q k R E \<Longrightarrow> ensures P (thenp m k) R E"
  unfolding thenp_def by (rule ensures_bindp)

lemma ensures_ret: "(\<And>s. P s \<Longrightarrow> Q x s) \<Longrightarrow> ensures P (ret x) Q E"
  by (simp add: ensures_def)

lemma ensures_fail: "(\<And>s. P s \<Longrightarrow> E s) \<Longrightarrow> ensures P (fail e) Q E"
  by (simp add: ensures_def)

lemma ensures_gets: "(\<And>s. P s \<Longrightarrow> Q (f s) s) \<Longrightarrow> ensures P (gets f) Q E"
  by (simp add: ensures_def)

lemma ensures_keeps: "keeps P m \<Longrightarrow> (\<And>s. P s \<Longrightarrow> E s) \<Longrightarrow> ensures P m (\<lambda>_. P) E"
  by (auto simp: ensures_def keeps_def split: prod.splits sum.splits)

lemma ensures_keeps_from: "ensures P m (\<lambda>_. E) E \<Longrightarrow> P s \<Longrightarrow> E (snd (m s))"
  by (cases "m s"; cases "fst (m s)") (auto simp: ensures_def split: prod.splits sum.splits)

section \<open>Programs that always return\<close>

text \<open>\<open>returns m Q\<close>: from every state \<open>m\<close> returns, and what it returns satisfies \<open>Q\<close>.\<close>

named_theorems returns_intros \<open>rules for programs that always return\<close>

definition returns :: "('s, 'e, 'a) prog \<Rightarrow> ('a \<Rightarrow> bool) \<Rightarrow> bool" where
  "returns m Q \<longleftrightarrow> (\<forall>s. \<exists>x s'. m s = (Inr x, s') \<and> Q x)"

lemma returns_bindp: "returns m P \<Longrightarrow> (\<And>x. P x \<Longrightarrow> returns (k x) Q) \<Longrightarrow> returns (bindp m k) Q"
proof -
  assume m: "returns m P" and k: "\<And>x. P x \<Longrightarrow> returns (k x) Q"
  show "returns (bindp m k) Q" unfolding returns_def
  proof
    fix s
    obtain x t where "m s = (Inr x, t)" "P x" using m unfolding returns_def by blast
    then show "\<exists>y s'. bindp m k s = (Inr y, s') \<and> Q y" using k unfolding returns_def by (simp add: bindp_def)
  qed
qed

lemma returns_any [returns_intros]:
  "returns m (\<lambda>_. True) \<Longrightarrow> (\<And>x. returns (k x) Q) \<Longrightarrow> returns (bindp m k) Q"
  by (rule returns_bindp)

lemma returns_thenp [returns_intros]: "returns m (\<lambda>_. True) \<Longrightarrow> returns k Q \<Longrightarrow> returns (thenp m k) Q"
  by (simp add: thenp_def returns_any)

lemma returns_ret [returns_intros]: "Q x \<Longrightarrow> returns (ret x) Q"
  by (simp add: returns_def)

lemma returns_gets [returns_intros]: "(\<And>s. Q (f s)) \<Longrightarrow> returns (gets f) Q"
  by (simp add: returns_def)

lemma returns_modify [returns_intros]: "returns (modify f) (\<lambda>_. True)"
  by (simp add: returns_def)

lemma returns_attempt [returns_intros]: "returns (attempt m) (\<lambda>_. True)"
  by (simp add: returns_def attempt_run)

lemma returns_if [returns_intros]:
  "(c \<Longrightarrow> returns a Q) \<Longrightarrow> (\<not> c \<Longrightarrow> returns b Q) \<Longrightarrow> returns (if c then a else b) Q"
  by simp

lemma returns_sum [returns_intros]:
  "(\<And>e. returns (a e) Q) \<Longrightarrow> (\<And>v. returns (b v) Q) \<Longrightarrow> returns (case x of Inl e \<Rightarrow> a e | Inr v \<Rightarrow> b v) Q"
  by (simp split: sum.split)

lemma returnsD: "returns m Q \<Longrightarrow> m s = (r, s') \<Longrightarrow> \<exists>x. r = Inr x \<and> Q x"
  unfolding returns_def by (metis prod.inject)

end
