(* ===== verification/Links.thy ===== *)
theory Links
  imports Files Effects
begin

text \<open>
  The flat view of the tape images that the kernel opens (\<^verbatim>\<open>link_kernel_tapes\<close> and
  \<^verbatim>\<open>link_tape_root_alias\<close> in \<^verbatim>\<open>main.rs\<close>): for every image below a library directory, a hard link
  \<^verbatim>\<open>tape_dir/name.vtltape\<close> at the root. Images at the root that belong to no library are moved to
  \<^verbatim>\<open>_orphaned_root\<close>, and symbolic links that lead nowhere are removed.

  Names of images are found in the order of the directory listings; the code keeps them in a hash
  map, whose order is arbitrary too. Symbolic links hold absolute paths, as the program makes
  them.
\<close>

definition file_name :: "path \<Rightarrow> string" where
  "file_name p = last p"

definition is_vtltape :: "string \<Rightarrow> bool" where
  "is_vtltape b = ends_with ''.vtltape'' b"

definition same_inode_file :: "fs \<Rightarrow> path \<Rightarrow> path \<Rightarrow> bool" where
  "same_inode_file f a b =
     (case (target f a, target f b) of
        (Some (Reg i), Some (Reg j)) \<Rightarrow> i = j
      | _ \<Rightarrow> canonicalize f a = canonicalize f b)"

definition alias_points_to :: "fs \<Rightarrow> path \<Rightarrow> path \<Rightarrow> bool" where
  "alias_points_to f dest src =
     (if \<not> path_exists f dest then False
      else case node_at f dest of
          Some (Sym q) \<Rightarrow> same_inode_file f q src
        | _ \<Rightarrow> same_inode_file f dest src)"

text \<open>\<open>None\<close>: the alias is taken by something else; \<open>Some b\<close>: linked, \<open>b\<close> if newly so.\<close>

definition new_alias :: "path \<Rightarrow> path \<Rightarrow> (fs, io_error, bool option) prog" where
  "new_alias src dest =
     bindp (attempt (updating (hard_link src dest))) (\<lambda>r.
       case r of
         Inr _ \<Rightarrow> ret (Some True)
       | Inl e \<Rightarrow>
           if raw_os_error e = Some EXDEV
           then thenp (updating (symlink src dest)) (ret (Some True))
           else fail e)"

definition link_tape_root_alias :: "path \<Rightarrow> path \<Rightarrow> (fs, io_error, bool option) prog" where
  "link_tape_root_alias dest src0 =
     bindp (from_result (\<lambda>f. ok_or (canonicalize f src0) (OsError ENOENT))) (\<lambda>src.
     bindp (gets (\<lambda>f. (path_exists f dest, alias_points_to f dest src, is_symlink f dest,
                       is_file f dest))) (\<lambda>(ex, pts, sym, isf).
       if ex then
         (if \<not> pts then
            (if isf \<and> \<not> sym
             then thenp (updating (remove_file dest)) (new_alias src dest)
             else ret None)
          else if sym then
            thenp (updating (remove_file dest))
              (bindp (attempt (updating (hard_link src dest))) (\<lambda>r.
                 if is_ok r then ret (Some True)
                 else thenp (updating (symlink src dest)) (ret (Some True))))
          else ret (Some False))
       else new_alias src dest))"

text \<open>The images wanted at the root, with the number of conflicting names.\<close>

type_synonym wanted = "(string \<times> path) list"

definition want_file :: "fs \<Rightarrow> path \<Rightarrow> wanted \<times> nat \<Rightarrow> wanted \<times> nat" where
  "want_file f p wc =
     (let (want, conflicts) = wc; base = file_name p
      in if \<not> is_file f p \<or> \<not> is_vtltape base then (want, conflicts)
         else case map_of want base of
             Some prev \<Rightarrow> if same_inode_file f prev p then (want, conflicts)
                          else (want, Suc conflicts)
           | None \<Rightarrow>
               (want @ [(base, case canonicalize f p of Some c \<Rightarrow> c | None \<Rightarrow> p)], conflicts))"

definition want_library :: "fs \<Rightarrow> path \<Rightarrow> wanted \<times> nat \<Rightarrow> wanted \<times> nat" where
  "want_library f p wc =
     (if node_at f p \<noteq> Some Dir \<or> file_name p = OFFLINE_LIBRARY_NAME then wc
      else fold (\<lambda>sub wc. case read_dir sub f of
                            Inl _ \<Rightarrow> wc
                          | Inr ps \<Rightarrow> fold (want_file f) ps wc)
             [p, p @ [''tape'']] wc)"

record link_report =
  lr_linked :: nat
  lr_removed_stale :: nat
  lr_relocated_flat :: nat
  lr_conflicts :: nat

definition count_link :: "path \<Rightarrow> (string \<times> path) \<Rightarrow> link_report \<Rightarrow> (fs, VtlError, link_report) prog" where
  "count_link root bs r =
     bindp (map_err IoError (link_tape_root_alias (root @ [fst bs]) (snd bs))) (\<lambda>x.
       ret (case x of
              Some True \<Rightarrow> r\<lparr>lr_linked := Suc (lr_linked r)\<rparr>
            | Some False \<Rightarrow> r
            | None \<Rightarrow> r\<lparr>lr_conflicts := Suc (lr_conflicts r)\<rparr>))"

definition ORPHAN_ROOT :: string where "ORPHAN_ROOT = ''_orphaned_root''"

definition clean_root_entry ::
    "path \<Rightarrow> wanted \<Rightarrow> path \<Rightarrow> link_report \<Rightarrow> (fs, VtlError, link_report) prog" where
  "clean_root_entry root want p r =
     bindp (gets (\<lambda>f. (node_at f p, f))) (\<lambda>(n, f).
       let base = file_name p
       in if \<not> is_vtltape base then ret r
          else case n of
              Some (Reg i) \<Rightarrow>
                (case map_of want base of
                   Some w \<Rightarrow>
                     ret (if same_inode_file f p w then r
                          else r\<lparr>lr_conflicts := Suc (lr_conflicts r)\<rparr>)
                 | None \<Rightarrow>
                     thenp (map_err IoError (updating (create_dir_all (root @ [ORPHAN_ROOT]))))
                       (bindp (gets (\<lambda>f. path_exists f (root @ [ORPHAN_ROOT, base]))) (\<lambda>ex.
                          if ex then ret (r\<lparr>lr_conflicts := Suc (lr_conflicts r)\<rparr>)
                          else thenp (map_err IoError
                                        (updating (rename p (root @ [ORPHAN_ROOT, base]))))
                                 (ret (r\<lparr>lr_relocated_flat := Suc (lr_relocated_flat r)\<rparr>)))))
            | Some (Sym q) \<Rightarrow>
                if map_of want base = None \<or> \<not> path_exists f q
                then thenp (map_err IoError (updating (remove_file p)))
                       (ret (r\<lparr>lr_removed_stale := Suc (lr_removed_stale r)\<rparr>))
                else ret r
            | _ \<Rightarrow> ret r)"

text \<open>The scan itself; the caller then tells the module its directory and refuses conflicts.\<close>

definition link_tapes_below :: "path \<Rightarrow> (fs, VtlError, link_report) prog" where
  "link_tapes_below root =
     bindp (gets (\<lambda>f. is_dir f root)) (\<lambda>ok.
     thenp (checkp ok (InvalidParameter ''tape_dir does not exist'')) (
     bindp (map_err IoError (from_result (read_dir root))) (\<lambda>es.
     bindp (gets (\<lambda>f. fold (want_library f) es ([], 0))) (\<lambda>(want, conflicts).
     bindp (foldp (count_link root) want
              \<lparr>lr_linked = 0, lr_removed_stale = 0, lr_relocated_flat = 0,
               lr_conflicts = conflicts\<rparr>) (\<lambda>r1.
     bindp (map_err IoError (from_result (read_dir root))) (\<lambda>es2.
       foldp (clean_root_entry root want) es2 r1))))))"

section \<open>Lemmas\<close>

text \<open>The images that are wanted are images of libraries, and each name is wanted once.\<close>

lemma want_file_distinct:
  "distinct (map fst (fst wc)) \<Longrightarrow> distinct (map fst (fst (want_file f p wc)))"
  by (cases wc) (auto simp: want_file_def Let_def map_of_eq_None_iff split: option.splits)

lemma want_library_distinct:
  "distinct (map fst (fst wc)) \<Longrightarrow> distinct (map fst (fst (want_library f p wc)))"
  unfolding want_library_def
  by (auto intro!: fold_keeps [where P = "\<lambda>wc. distinct (map fst (fst wc))"] want_file_distinct
      split: sum.split)

lemma wanted_distinct: "distinct (map fst (fst (fold (want_library f) es ([], 0))))"
  by (rule fold_keeps [where P = "\<lambda>wc. distinct (map fst (fst wc))"]) (auto intro: want_library_distinct)

text \<open>An alias that names the wanted inode already is left alone.\<close>

lemma link_alias_idle:
  assumes "canonicalize f src = Some c" and "node_at f dest = Some (Reg i)" and "inode_of f c = Some i"
  shows "link_tape_root_alias dest src f = (Inr (Some False), f)"
proof -
  have d: "target f dest = Some (Reg i)"
    using inode_of_plain [OF assms(2)] by (auto simp: inode_of_def split: option.splits node.splits)
  have c: "target f c = Some (Reg i)"
    using assms(3) by (auto simp: inode_of_def split: option.splits node.splits)
  have "path_exists f dest" "alias_points_to f dest c" "\<not> is_symlink f dest"
    using d c assms(2) by (simp_all add: path_exists_def alias_points_to_def same_inode_file_def is_symlink_def)
  then show ?thesis
    by (simp add: link_tape_root_alias_def bindp_def assms(1))
qed

text \<open>A symbolic link at the root that leads nowhere makes the new alias fail.\<close>

lemma link_alias_dangling:
  assumes "canonicalize f src = Some c" and "node_at f c = Some (Reg i)"
    and "node_at f dest = Some (Sym q)" and "\<not> path_exists f dest"
    and "fs_fault f (OpHardLink c dest) = None"
  shows "link_tape_root_alias dest src f = (Inl (OsError EEXIST), f)"
proof -
  have "hard_link c dest f = Inl (OsError EEXIST)"
    using assms by (simp add: hard_link_def with_fault_def)
  then show ?thesis
    using assms
    by (simp add: link_tape_root_alias_def new_alias_def bindp_def attempt_run updating_def)
qed

end
