(* ===== verification/Config.thy ===== *)
theory Config
  imports Files
begin

text \<open>
  Configuration (\<^verbatim>\<open>main.rs\<close>, \<^verbatim>\<open>fab_transport.rs\<close>): the record \<^verbatim>\<open>VtlConfig\<close>, the lines of
  \<^verbatim>\<open>vtl.conf\<close>, and the environment variables that override them. The environment is a partial
  function from variable names to values. Paths in the configuration are strings, as they are
  written in the file; \<open>path_of\<close> gives their components.
\<close>

type_synonym env = "string \<Rightarrow> string option"

datatype FabTransport = LocalScsi | Iscsi | Fc

datatype KernelGeometryMode = Fixed | Legacy

record VtlConfig =
  cfg_db_path :: string
  cfg_tape_dir :: string
  cfg_log_dir :: string
  cfg_log_max_bytes :: nat
  cfg_transport :: FabTransport
  cfg_iscsi_iqn :: "string option"
  cfg_iscsi_portals :: "string option"
  cfg_fc_wwpn :: "string option"
  cfg_kernel_vtl_reload_script :: "string option"
  cfg_kernel_reload_on_db_change :: bool
  cfg_kernel_geom_prefer_ioctl :: bool
  cfg_kernel_geometry_mode :: KernelGeometryMode
  cfg_vtl_ko :: "string option"
  cfg_vtl_reload_scan_delay_ms :: "nat option"
  cfg_robot_sync :: bool
  cfg_auto_reconcile_pull :: bool
  cfg_auto_sync_db_from_kernel :: bool
  cfg_kernel_personality :: string

definition path_of :: "string \<Rightarrow> path" where
  "path_of s = filter (\<lambda>c. c \<noteq> [] \<and> c \<noteq> ''.'') (split_on (CHR ''/'') s)"

definition is_absolute :: "string \<Rightarrow> bool" where
  "is_absolute s = starts_with ''/'' s"

definition DEFAULT_INIT_DB_PATH :: string where
  "DEFAULT_INIT_DB_PATH = ''/opt/vtladm/var/vtl.db''"
definition DEFAULT_INIT_TAPE_DIR :: string where
  "DEFAULT_INIT_TAPE_DIR = ''/opt/vtladm/var/tapes''"
definition DEFAULT_INIT_LOG_DIR :: string where
  "DEFAULT_INIT_LOG_DIR = ''/opt/vtladm/var/log/vtl''"
definition PRIMARY_VTL_CONF :: string where
  "PRIMARY_VTL_CONF = ''/opt/vtladm/var/vtl.conf''"
definition DEFAULT_LOG_MAX_BYTES :: nat where
  "DEFAULT_LOG_MAX_BYTES = 10 * 1024 * 1024"

section \<open>Values\<close>

definition parse_fab_transport :: "string \<Rightarrow> FabTransport option" where
  "parse_fab_transport s =
     (let t = to_lower (trim s)
      in if t \<in> {''local'', ''scsi'', ''local_scsi'', ''localscsi''} then Some LocalScsi
         else if t = ''iscsi'' then Some Iscsi
         else if t \<in> {''fc'', ''fibre'', ''fiber'', ''fcp''} then Some Fc
         else None)"

fun as_conf_str :: "FabTransport \<Rightarrow> string" where
  "as_conf_str LocalScsi = ''local''"
| "as_conf_str Iscsi = ''iscsi''"
| "as_conf_str Fc = ''fc''"

definition KernelGeometryMode_parse :: "string \<Rightarrow> KernelGeometryMode option" where
  "KernelGeometryMode_parse s =
     (let t = to_lower (trim s)
      in if t \<in> {''fixed'', ''plan_b'', ''semi_thin''} then Some Fixed
         else if t \<in> {''legacy'', ''dynamic'', ''hot''} then Some Legacy
         else None)"

definition bool_word :: "string \<Rightarrow> bool option" where
  "bool_word s =
     (let t = to_lower (trim s)
      in if t \<in> {''0'', ''false'', ''no'', ''off''} then Some False
         else if t \<in> {''1'', ''true'', ''yes'', ''on''} then Some True
         else None)"

text \<open>\<open>apply_opt f x c\<close> updates the configuration with a value that parsed.\<close>

definition apply_opt :: "('a \<Rightarrow> VtlConfig \<Rightarrow> VtlConfig) \<Rightarrow> 'a option \<Rightarrow> VtlConfig \<Rightarrow> VtlConfig" where
  "apply_opt f x c = (case x of None \<Rightarrow> c | Some v \<Rightarrow> f v c)"

definition nonempty_path :: "string \<Rightarrow> string option" where
  "nonempty_path s = (if trim s = [] then None else Some (trim s))"

section \<open>Environment and file\<close>

definition merge_env_transport_and_log :: "env \<Rightarrow> VtlConfig \<Rightarrow> VtlConfig" where
  "merge_env_transport_and_log e =
     apply_opt (\<lambda>m c. c\<lparr>cfg_kernel_geometry_mode := m\<rparr>)
       (Option.bind (e ''VTL_KERNEL_GEOMETRY_MODE'') KernelGeometryMode_parse) \<circ>
     apply_opt (\<lambda>b c. c\<lparr>cfg_kernel_geom_prefer_ioctl := b\<rparr>)
       (Option.bind (e ''VTL_KERNEL_GEOM_IOCTL'') bool_word) \<circ>
     apply_opt (\<lambda>b c. c\<lparr>cfg_kernel_reload_on_db_change := b\<rparr>)
       (Option.bind (e ''VTL_KERNEL_RELOAD_ON_DB_CHANGE'') bool_word) \<circ>
     apply_opt (\<lambda>v c. c\<lparr>cfg_vtl_reload_scan_delay_ms := Some (min v 600000)\<rparr>)
       (Option.bind (e ''VTL_SCAN_DELAY_MS'') (parse_unsigned u32_max)) \<circ>
     apply_opt (\<lambda>p c. c\<lparr>cfg_vtl_ko := Some p\<rparr>)
       (Option.bind (e ''VTL_KO'') nonempty_path) \<circ>
     apply_opt (\<lambda>p c. c\<lparr>cfg_kernel_vtl_reload_script := Some p\<rparr>)
       (Option.bind (e ''VTL_KERNEL_VTL_RELOAD_SCRIPT'') nonempty_path) \<circ>
     apply_opt (\<lambda>s c. c\<lparr>cfg_fc_wwpn := Some s\<rparr>) (e ''VTL_FC_WWPN'') \<circ>
     apply_opt (\<lambda>s c. c\<lparr>cfg_iscsi_portals := Some s\<rparr>) (e ''VTL_ISCSI_PORTALS'') \<circ>
     apply_opt (\<lambda>s c. c\<lparr>cfg_iscsi_iqn := Some s\<rparr>) (e ''VTL_ISCSI_IQN'') \<circ>
     apply_opt (\<lambda>t c. c\<lparr>cfg_transport := t\<rparr>)
       (Option.bind (e ''VTL_TRANSPORT'') parse_fab_transport) \<circ>
     apply_opt (\<lambda>v c. c\<lparr>cfg_log_max_bytes := max v 4096\<rparr>)
       (Option.bind (e ''VTL_LOG_MAX_BYTES'') (parse_unsigned u64_max))"

text \<open>\<open>unless_env e v c d\<close> takes \<open>d\<close> only when the variable \<open>v\<close> is not set.\<close>

definition unless_env :: "env \<Rightarrow> string \<Rightarrow> VtlConfig \<Rightarrow> VtlConfig \<Rightarrow> VtlConfig" where
  "unless_env e v c c' = (if e v = None then c' else c)"

definition apply_vtl_conf_kv :: "env \<Rightarrow> string \<Rightarrow> string \<Rightarrow> VtlConfig \<Rightarrow> VtlConfig" where
  "apply_vtl_conf_kv e key value c =
     (if key = ''db_path'' then unless_env e ''VTL_DB_PATH'' c (c\<lparr>cfg_db_path := value\<rparr>)
      else if key = ''tape_dir'' then unless_env e ''VTL_TAPE_DIR'' c (c\<lparr>cfg_tape_dir := value\<rparr>)
      else if key = ''log_dir'' then unless_env e ''VTL_LOG_DIR'' c (c\<lparr>cfg_log_dir := value\<rparr>)
      else if key = ''log_max_bytes'' then
        unless_env e ''VTL_LOG_MAX_BYTES'' c
          (apply_opt (\<lambda>v c. c\<lparr>cfg_log_max_bytes := max v 4096\<rparr>) (parse_unsigned u64_max value) c)
      else if key = ''transport'' then
        unless_env e ''VTL_TRANSPORT'' c
          (apply_opt (\<lambda>t c. c\<lparr>cfg_transport := t\<rparr>) (parse_fab_transport value) c)
      else if key = ''iscsi_iqn'' then
        unless_env e ''VTL_ISCSI_IQN'' c (c\<lparr>cfg_iscsi_iqn := Some value\<rparr>)
      else if key = ''iscsi_portals'' then
        unless_env e ''VTL_ISCSI_PORTALS'' c (c\<lparr>cfg_iscsi_portals := Some value\<rparr>)
      else if key = ''fc_wwpn'' then
        unless_env e ''VTL_FC_WWPN'' c (c\<lparr>cfg_fc_wwpn := Some value\<rparr>)
      else if key = ''kernel_vtl_reload_script'' then
        unless_env e ''VTL_KERNEL_VTL_RELOAD_SCRIPT'' c
          (c\<lparr>cfg_kernel_vtl_reload_script := nonempty_path value\<rparr>)
      else if key = ''vtl_ko'' then
        unless_env e ''VTL_KO'' c (c\<lparr>cfg_vtl_ko := nonempty_path value\<rparr>)
      else if key = ''vtl_reload_scan_delay_ms'' then
        unless_env e ''VTL_SCAN_DELAY_MS'' c
          (apply_opt (\<lambda>v c. c\<lparr>cfg_vtl_reload_scan_delay_ms := Some (min v 600000)\<rparr>)
             (parse_unsigned u32_max (trim value)) c)
      else if key = ''kernel_reload_on_db_change'' then
        unless_env e ''VTL_KERNEL_RELOAD_ON_DB_CHANGE'' c
          (apply_opt (\<lambda>b c. c\<lparr>cfg_kernel_reload_on_db_change := b\<rparr>) (bool_word value) c)
      else if key = ''kernel_geom_prefer_ioctl'' then
        unless_env e ''VTL_KERNEL_GEOM_IOCTL'' c
          (apply_opt (\<lambda>b c. c\<lparr>cfg_kernel_geom_prefer_ioctl := b\<rparr>) (bool_word value) c)
      else if key = ''kernel_geometry_mode'' then
        unless_env e ''VTL_KERNEL_GEOMETRY_MODE'' c
          (apply_opt (\<lambda>m c. c\<lparr>cfg_kernel_geometry_mode := m\<rparr>) (KernelGeometryMode_parse value) c)
      else if key = ''robot_sync'' then
        unless_env e ''VTL_ROBOT_SYNC'' c
          (apply_opt (\<lambda>b c. c\<lparr>cfg_robot_sync := b\<rparr>) (bool_word value) c)
      else if key \<in> {''robot_authority'', ''auto_reconcile_apply''} then c
      else if key = ''auto_reconcile_pull'' then
        unless_env e ''VTL_AUTO_RECONCILE_PULL'' c
          (apply_opt (\<lambda>b c. c\<lparr>cfg_auto_reconcile_pull := b\<rparr>) (bool_word value) c)
      else if key = ''auto_sync_db_from_kernel'' then
        unless_env e ''VTL_AUTO_SYNC_DB_FROM_KERNEL'' c
          (apply_opt (\<lambda>b c. c\<lparr>cfg_auto_sync_db_from_kernel := b\<rparr>) (bool_word value) c)
      else if key \<in> {''personality'', ''kernel_personality''} then
        unless_env e ''VTL_PERSONALITY'' c
          (if trim value \<noteq> [] then c\<lparr>cfg_kernel_personality := trim value\<rparr> else c)
      else c)"

text \<open>One line of \<^verbatim>\<open>vtl.conf\<close>: comments, empty lines and lines without \<open>=\<close> are skipped.\<close>

definition conf_line_kv :: "string \<Rightarrow> (string \<times> string) option" where
  "conf_line_kv line =
     (let l = trim line
      in if l = [] \<or> starts_with ''#'' l then None
         else case split_once (CHR ''='') l of
             None \<Rightarrow> None
           | Some (k, v) \<Rightarrow> Some (trim k, trim v))"

definition apply_conf_line :: "env \<Rightarrow> string \<Rightarrow> VtlConfig \<Rightarrow> VtlConfig" where
  "apply_conf_line e line c =
     (case conf_line_kv line of None \<Rightarrow> c | Some (k, v) \<Rightarrow> apply_vtl_conf_kv e k v c)"

definition default_config :: VtlConfig where
  "default_config =
     \<lparr>cfg_db_path = DEFAULT_INIT_DB_PATH, cfg_tape_dir = DEFAULT_INIT_TAPE_DIR,
      cfg_log_dir = DEFAULT_INIT_LOG_DIR, cfg_log_max_bytes = DEFAULT_LOG_MAX_BYTES,
      cfg_transport = LocalScsi, cfg_iscsi_iqn = None, cfg_iscsi_portals = None,
      cfg_fc_wwpn = None, cfg_kernel_vtl_reload_script = None,
      cfg_kernel_reload_on_db_change = False, cfg_kernel_geom_prefer_ioctl = True,
      cfg_kernel_geometry_mode = Legacy, cfg_vtl_ko = None, cfg_vtl_reload_scan_delay_ms = None,
      cfg_robot_sync = True, cfg_auto_reconcile_pull = True, cfg_auto_sync_db_from_kernel = True,
      cfg_kernel_personality = ''vtl''\<rparr>"

definition merge_env_paths :: "env \<Rightarrow> VtlConfig \<Rightarrow> VtlConfig" where
  "merge_env_paths e =
     apply_opt (\<lambda>p c. c\<lparr>cfg_log_dir := p\<rparr>) (e ''VTL_LOG_DIR'') \<circ>
     apply_opt (\<lambda>p c. c\<lparr>cfg_tape_dir := p\<rparr>) (e ''VTL_TAPE_DIR'') \<circ>
     apply_opt (\<lambda>p c. c\<lparr>cfg_db_path := p\<rparr>) (e ''VTL_DB_PATH'')"

definition under_tmp :: "string \<Rightarrow> bool" where
  "under_tmp s = (is_absolute s \<and> take 1 (path_of s) = [''tmp''])"

text \<open>
  \<^verbatim>\<open>get_config_uncached\<close>, given the lines of the configuration file if it exists and can be
  read.
\<close>

definition get_config_uncached :: "env \<Rightarrow> string list option \<Rightarrow> VtlConfig" where
  "get_config_uncached e file =
     (let c = merge_env_transport_and_log e (merge_env_paths e default_config)
      in if under_tmp (cfg_db_path c) then c
         else if e ''VTL_USE_ENV_ONLY'' = Some ''1'' then c
         else merge_env_transport_and_log e
                (case file of None \<Rightarrow> c | Some ls \<Rightarrow> fold (apply_conf_line e) ls c))"

definition primary_vtl_conf_path :: "env \<Rightarrow> string" where
  "primary_vtl_conf_path e =
     (case e ''VTL_CONF_PATH'' of
        Some p \<Rightarrow> if trim p \<noteq> [] then trim p else PRIMARY_VTL_CONF
      | None \<Rightarrow> PRIMARY_VTL_CONF)"

text \<open>The switches of the robot synchronisation: an environment word wins over the file.\<close>

definition switch :: "env \<Rightarrow> string \<Rightarrow> bool \<Rightarrow> bool" where
  "switch e v d = (case Option.bind (e v) bool_word of Some b \<Rightarrow> b | None \<Rightarrow> d)"

definition robot_sync_enabled :: "env \<Rightarrow> VtlConfig \<Rightarrow> bool" where
  "robot_sync_enabled e c = switch e ''VTL_ROBOT_SYNC'' (cfg_robot_sync c)"

definition auto_sync_db_from_kernel_enabled :: "env \<Rightarrow> VtlConfig \<Rightarrow> bool" where
  "auto_sync_db_from_kernel_enabled e c =
     switch e ''VTL_AUTO_SYNC_DB_FROM_KERNEL'' (cfg_auto_sync_db_from_kernel c)"

definition auto_reconcile_pull_enabled :: "env \<Rightarrow> VtlConfig \<Rightarrow> bool" where
  "auto_reconcile_pull_enabled e c =
     switch e ''VTL_AUTO_RECONCILE_PULL'' (cfg_auto_reconcile_pull c)"

section \<open>Changing the file\<close>

text \<open>
  \<^verbatim>\<open>update_primary_vtl_conf_kv\<close> on the lines of the file: the first line whose trimmed text
  starts with \<open>key=\<close> is replaced; without one a line is appended.
\<close>

definition conf_line_is_key :: "string \<Rightarrow> string \<Rightarrow> bool" where
  "conf_line_is_key key line =
     (let t = trim line
      in \<not> (starts_with ''#'' t \<or> t = []) \<and> starts_with (key @ ''='') t)"

fun update_conf_lines :: "string \<Rightarrow> string \<Rightarrow> string list \<Rightarrow> string list" where
  "update_conf_lines key value [] = [key @ ''='' @ value]"
| "update_conf_lines key value (l # ls) =
     (if conf_line_is_key key l then (key @ ''='' @ value) # ls
      else l # update_conf_lines key value ls)"

definition apply_vtl_conf_set_kv :: "string \<Rightarrow> string \<Rightarrow> string list \<Rightarrow> VtlError + string list" where
  "apply_vtl_conf_set_kv key value ls =
     (if key \<in> {''robot_authority'', ''auto_reconcile_apply''}
      then Inl (InvalidParameter ''vtl.conf key removed (runtime robot is always vtl.ko)'')
      else if key \<in> {''robot_sync'', ''auto_sync_db_from_kernel'', ''auto_reconcile_pull''} then
        (case bool_word value of
           None \<Rightarrow> Inl (InvalidParameter (key @ '': expected true/false''))
         | Some b \<Rightarrow> Inr (update_conf_lines key (if b then ''true'' else ''false'') ls))
      else Inl (InvalidParameter (''unknown vtl.conf key: '' @ key)))"

text \<open>Values typed into the setup wizard.\<close>

definition normalize_setup_path :: "string \<Rightarrow> string \<Rightarrow> string + string" where
  "normalize_setup_path input def =
     (let t = trim input
      in if t = [] then Inr def
         else if \<not> is_absolute t then Inl (''path must be absolute: '' @ t)
         else Inr t)"

definition optional_abs_path :: "string \<Rightarrow> string + string option" where
  "optional_abs_path input =
     (let t = trim input
      in if t = [] then Inr None
         else if \<not> is_absolute t then Inl (''path must be absolute: '' @ t)
         else Inr (Some t))"

definition optional_scan_delay_ms :: "string \<Rightarrow> string + nat option" where
  "optional_scan_delay_ms input =
     (let t = trim input
      in if t = [] then Inr None
         else case parse_unsigned u32_max t of
             None \<Rightarrow> Inl (''vtl_reload_scan_delay_ms must be a non-negative integer: '' @ t)
           | Some v \<Rightarrow>
               if 600000 < v then Inl ''vtl_reload_scan_delay_ms exceeds 600000''
               else Inr (Some v))"

section \<open>Lemmas\<close>

text \<open>
  A predicate on the configuration that every single assignment keeps is kept by the chains of
  assignments. The rules are applied with \<open>intro\<close>, so that a chain is taken apart once and no
  case distinction multiplies.
\<close>

lemma apply_opt_keeps: "P c \<Longrightarrow> (\<And>v c. P c \<Longrightarrow> P (f v c)) \<Longrightarrow> P (apply_opt f x c)"
  by (auto simp: apply_opt_def split: option.splits)

lemma unless_env_keeps: "P c \<Longrightarrow> P c' \<Longrightarrow> P (unless_env e v c c')"
  by (simp add: unless_env_def)

lemma if_keeps: "(b \<Longrightarrow> P x) \<Longrightarrow> (\<not> b \<Longrightarrow> P y) \<Longrightarrow> P (if b then x else y)"
  by simp

lemma if_keeps_all: "P x \<Longrightarrow> P y \<Longrightarrow> P (if b then x else y)"
  by simp

definition config_bounds :: "VtlConfig \<Rightarrow> bool" where
  "config_bounds c \<longleftrightarrow> 4096 \<le> cfg_log_max_bytes c \<and>
     (\<forall>ms. cfg_vtl_reload_scan_delay_ms c = Some ms \<longrightarrow> ms \<le> 600000)"

lemmas config_bounds_intros = apply_opt_keeps [where P = config_bounds]
  unless_env_keeps [where P = config_bounds] if_keeps_all [where P = config_bounds]

lemma config_bounds_merge_env: "config_bounds c \<Longrightarrow> config_bounds (merge_env_transport_and_log e c)"
  unfolding merge_env_transport_and_log_def comp_def
  by (intro config_bounds_intros; simp add: config_bounds_def)

lemma config_bounds_merge_paths: "config_bounds c \<Longrightarrow> config_bounds (merge_env_paths e c)"
  unfolding merge_env_paths_def comp_def
  by (intro config_bounds_intros; simp add: config_bounds_def)

lemma config_bounds_kv: "config_bounds c \<Longrightarrow> config_bounds (apply_vtl_conf_kv e k v c)"
  unfolding apply_vtl_conf_kv_def
  by (intro config_bounds_intros; simp add: config_bounds_def)

lemma config_bounds_line: "config_bounds c \<Longrightarrow> config_bounds (apply_conf_line e l c)"
  by (auto simp: apply_conf_line_def config_bounds_kv split: option.splits)

lemma config_bounds_lines: "config_bounds c \<Longrightarrow> config_bounds (fold (apply_conf_line e) ls c)"
  by (induction ls arbitrary: c) (simp_all add: config_bounds_line)

lemma config_bounds_default: "config_bounds default_config"
  by (simp add: config_bounds_def default_config_def DEFAULT_LOG_MAX_BYTES_def)

text \<open>What the last merge of the environment decides, and the fields it leaves alone.\<close>

lemma apply_opt_sel: "(\<And>v c. g (f v c) = g c) \<Longrightarrow> g (apply_opt f x c) = g c"
  by (simp add: apply_opt_def split: option.split)

lemma merge_env_transport:
  assumes "Option.bind (e ''VTL_TRANSPORT'') parse_fab_transport = Some t"
  shows "cfg_transport (merge_env_transport_and_log e c) = t"
  unfolding merge_env_transport_and_log_def comp_def
  by (simp add: assms apply_opt_sel [where g = cfg_transport])
     (simp add: apply_opt_def)

lemma merge_env_frames [simp]:
  "cfg_db_path (merge_env_transport_and_log e c) = cfg_db_path c"
  "cfg_tape_dir (merge_env_transport_and_log e c) = cfg_tape_dir c"
  "cfg_log_dir (merge_env_transport_and_log e c) = cfg_log_dir c"
  "cfg_robot_sync (merge_env_transport_and_log e c) = cfg_robot_sync c"
  unfolding merge_env_transport_and_log_def comp_def
  by (simp_all add: apply_opt_sel [where g = cfg_db_path] apply_opt_sel [where g = cfg_tape_dir]
      apply_opt_sel [where g = cfg_log_dir] apply_opt_sel [where g = cfg_robot_sync])

lemma merge_env_paths_robot [simp]: "cfg_robot_sync (merge_env_paths e c) = cfg_robot_sync c"
  unfolding merge_env_paths_def comp_def
  by (simp add: apply_opt_sel [where g = cfg_robot_sync])

text \<open>A key of the file changes its own field only, and only when its variable is not set.\<close>

lemma unless_env_set: "e v = Some x \<Longrightarrow> unless_env e v c c' = c"
  by (simp add: unless_env_def)

lemma apply_kv_robot_sync:
  "cfg_robot_sync (apply_vtl_conf_kv e k v c) =
     (if k = ''robot_sync'' \<and> e ''VTL_ROBOT_SYNC'' = None
      then (case bool_word v of None \<Rightarrow> cfg_robot_sync c | Some b \<Rightarrow> b)
      else cfg_robot_sync c)"
proof (cases "k = ''robot_sync''")
  case True
  then show ?thesis
    by (simp add: apply_vtl_conf_kv_def unless_env_def apply_opt_def split: option.split)
next
  case False
  define P where "P = (\<lambda>c' :: VtlConfig. cfg_robot_sync c' = cfg_robot_sync c)"
  have "P (apply_vtl_conf_kv e k v c)"
    unfolding apply_vtl_conf_kv_def
    by (intro apply_opt_keeps [where P = P] unless_env_keeps [where P = P] if_keeps [where P = P];
        (erule notE [OF False] | simp (no_asm_use) add: P_def | simp (no_asm) add: P_def))
  with False show ?thesis by (simp add: P_def)
qed

lemma apply_kv_tape_dir:
  "cfg_tape_dir (apply_vtl_conf_kv e k v c) =
     (if k = ''tape_dir'' \<and> e ''VTL_TAPE_DIR'' = None then v else cfg_tape_dir c)"
proof (cases "k = ''tape_dir''")
  case True
  then show ?thesis by (simp add: apply_vtl_conf_kv_def unless_env_def)
next
  case False
  define P where "P = (\<lambda>c' :: VtlConfig. cfg_tape_dir c' = cfg_tape_dir c)"
  have "P (apply_vtl_conf_kv e k v c)"
    unfolding apply_vtl_conf_kv_def
    by (intro apply_opt_keeps [where P = P] unless_env_keeps [where P = P] if_keeps [where P = P];
        (erule notE [OF False] | simp (no_asm_use) add: P_def | simp (no_asm) add: P_def))
  with False show ?thesis by (simp add: P_def)
qed

lemma apply_conf_line_robot_sync:
  "cfg_robot_sync (apply_conf_line e l c) =
     (case conf_line_kv l of
        None \<Rightarrow> cfg_robot_sync c
      | Some (k, v) \<Rightarrow>
          if k = ''robot_sync'' \<and> e ''VTL_ROBOT_SYNC'' = None
          then (case bool_word v of None \<Rightarrow> cfg_robot_sync c | Some b \<Rightarrow> b)
          else cfg_robot_sync c)"
  by (cases "conf_line_kv l") (simp_all add: apply_conf_line_def apply_kv_robot_sync split_beta)

lemma conf_lines_robot_sync_env:
  assumes "e ''VTL_ROBOT_SYNC'' = Some x"
  shows "cfg_robot_sync (fold (apply_conf_line e) ls c) = cfg_robot_sync c"
proof -
  have "cfg_robot_sync (apply_conf_line e l c) = cfg_robot_sync c" for l c
    using assms by (cases "conf_line_kv l") (auto simp: apply_conf_line_robot_sync)
  then show ?thesis by (induction ls arbitrary: c) simp_all
qed

text \<open>The value of a switch in the file is that of the last line that sets it.\<close>

lemma conf_lines_robot_sync_last:
  assumes "e ''VTL_ROBOT_SYNC'' = None" and "conf_line_kv l = Some (''robot_sync'', v)"
    and "bool_word v = Some b" and "\<forall>l' \<in> set bs. \<forall>v'. conf_line_kv l' \<noteq> Some (''robot_sync'', v')"
  shows "cfg_robot_sync (fold (apply_conf_line e) (as @ l # bs) c) = b"
proof -
  have other: "cfg_robot_sync (apply_conf_line e l' c') = cfg_robot_sync c'" if "l' \<in> set bs" for l' c'
    using assms(4) that by (cases "conf_line_kv l'") (auto simp: apply_conf_line_robot_sync)
  have "cfg_robot_sync (fold (apply_conf_line e) bs c') = cfg_robot_sync c'" for c'
    using other by (induction bs arbitrary: c') simp_all
  then show ?thesis
    using assms(1-3) by (simp add: apply_conf_line_robot_sync)
qed

lemma split_once_prefix: "d \<notin> set k \<Longrightarrow> split_once d (k @ d # v) = Some (k, v)"
  by (induction k) auto

text \<open>Lookup of one key in a file changed by \<open>update_conf_lines\<close>.\<close>

lemma update_conf_lines_split:
  "\<exists>as bs. update_conf_lines key value ls = as @ (key @ ''='' @ value) # bs \<and>
     (ls = as \<and> bs = [] \<or> (\<exists>l. conf_line_is_key key l \<and> ls = as @ l # bs))"
proof (induction ls)
  case Nil
  show ?case by auto
next
  case (Cons l ls)
  show ?case
  proof (cases "conf_line_is_key key l")
    case True
    then show ?thesis by (intro exI [of _ "[]"] exI [of _ ls]) auto
  next
    case False
    from Cons.IH obtain as bs where
      "update_conf_lines key value ls = as @ (key @ ''='' @ value) # bs"
      "ls = as \<and> bs = [] \<or> (\<exists>l. conf_line_is_key key l \<and> ls = as @ l # bs)" by blast
    with False show ?thesis by (intro exI [of _ "l # as"] exI [of _ bs]) auto
  qed
qed

end
