(* ===== verification/Changer.thy ===== *)
theory Changer
  imports Prelude
begin

text \<open>
  The medium changer of the kernel module (\<^verbatim>\<open>vtl_tape.c\<close>, \<^verbatim>\<open>vtl_main.c\<close>, \<^verbatim>\<open>vtl_misc.c\<close>), as far as
  the ioctls of \<^verbatim>\<open>robot_sync.rs\<close> see it. A changer is three arrays of elements, each holding at
  most one tape; SCSI element addresses are \<open>0..\<close> for the data slots, \<open>1000 + i\<close> for the drives
  and \<open>2000 + i\<close> for the import/export slots. The kernel's tape objects are found by name
  (\<open>vtl_tape_find_by_name\<close>), so a tape is modelled by its name.

  The interface of a changer is the locale \<open>medium_changer\<close>: the laws of a move, from which
  follows that no medium is lost or duplicated. The kernel's own moves satisfy it.
\<close>

section \<open>State\<close>

record changer =
  ch_slots :: "string option list"
  ch_drives :: "string option list"
  ch_mail :: "string option list"

definition VTL_ELEM_DRIVE_BASE :: int where "VTL_ELEM_DRIVE_BASE = 1000"
definition VTL_ELEM_IE_BASE :: int where "VTL_ELEM_IE_BASE = 2000"
definition VTL_INV_MAX_ITEMS :: nat where "VTL_INV_MAX_ITEMS = 128"
definition VTL_MAX_SLOTS :: nat where "VTL_MAX_SLOTS = 256"

lemmas element_bases = VTL_ELEM_DRIVE_BASE_def VTL_ELEM_IE_BASE_def

datatype elem = ESlot nat | EDrive nat | EMail nat

text \<open>The range checks that \<open>vtl_changer_move_medium\<close> and its relatives make on an address.\<close>

definition element :: "changer \<Rightarrow> int \<Rightarrow> elem option" where
  "element c e =
     (if e < 1000 then
        (if e < 0 \<or> int (length (ch_slots c)) \<le> e then None else Some (ESlot (nat e)))
      else if e < VTL_ELEM_IE_BASE then
        (let di = e - VTL_ELEM_DRIVE_BASE
         in if di < 0 \<or> int (length (ch_drives c)) \<le> di then None else Some (EDrive (nat di)))
      else if e < VTL_ELEM_IE_BASE + int (length (ch_mail c)) then
        Some (EMail (nat (e - VTL_ELEM_IE_BASE)))
      else None)"

fun elem_get :: "elem \<Rightarrow> changer \<Rightarrow> string option" where
  "elem_get (ESlot i) c = ch_slots c ! i"
| "elem_get (EDrive i) c = ch_drives c ! i"
| "elem_get (EMail i) c = ch_mail c ! i"

fun elem_put :: "elem \<Rightarrow> string option \<Rightarrow> changer \<Rightarrow> changer" where
  "elem_put (ESlot i) x c = c\<lparr>ch_slots := (ch_slots c)[i := x]\<rparr>"
| "elem_put (EDrive i) x c = c\<lparr>ch_drives := (ch_drives c)[i := x]\<rparr>"
| "elem_put (EMail i) x c = c\<lparr>ch_mail := (ch_mail c)[i := x]\<rparr>"

section \<open>Operations\<close>

text \<open>
  A kernel function returns its error number (\<open>None\<close> for 0) and leaves a state. A move takes the
  tape out of the source, and puts it back when the destination is refused.
\<close>

definition move_medium :: "int \<Rightarrow> int \<Rightarrow> changer \<Rightarrow> errno option \<times> changer" where
  "move_medium src dst c =
     (case element c src of
        None \<Rightarrow> (Some EINVAL, c)
      | Some a \<Rightarrow>
          (case elem_get a c of
             None \<Rightarrow> (Some ENODEV, c)
           | Some t \<Rightarrow>
               let c1 = elem_put a None c
               in case element c1 dst of
                    None \<Rightarrow> (Some EINVAL, elem_put a (Some t) c1)
                  | Some b \<Rightarrow>
                      (case elem_get b c1 of
                         Some u \<Rightarrow> (Some EBUSY, elem_put a (Some t) c1)
                       | None \<Rightarrow> (None, elem_put b (Some t) c1))))"

definition remove_medium :: "int \<Rightarrow> changer \<Rightarrow> errno option \<times> changer" where
  "remove_medium e c =
     (case element c e of
        None \<Rightarrow> (Some EINVAL, c)
      | Some a \<Rightarrow>
          (case elem_get a c of
             None \<Rightarrow> (Some ENODEV, c)
           | Some t \<Rightarrow> (None, elem_put a None c)))"

definition slot_place :: "int \<Rightarrow> string \<Rightarrow> changer \<Rightarrow> errno option \<times> changer" where
  "slot_place s t c =
     (if s < 0 \<or> int (length (ch_slots c)) \<le> s then (Some EINVAL, c)
      else if ch_slots c ! nat s \<notin> {None, Some t} then (Some EBUSY, c)
      else (None, c\<lparr>ch_slots := (ch_slots c)[nat s := Some t]\<rparr>))"

definition unload_drive_to_slot :: "int \<Rightarrow> int \<Rightarrow> changer \<Rightarrow> errno option \<times> changer" where
  "unload_drive_to_slot d s c =
     (if d < 0 \<or> int (length (ch_drives c)) \<le> d then (Some EINVAL, c)
      else if s < 0 \<or> int (length (ch_slots c)) \<le> s then (Some EINVAL, c)
      else move_medium (VTL_ELEM_DRIVE_BASE + d) s c)"

text \<open>
  \<open>vtl_tape_open_existing\<close>: the tape table holds the names the kernel has opened; a new name
  needs a file that the kernel can open (\<open>openable\<close> gives the error when it cannot) and a free
  place in the table.
\<close>

definition tape_open_existing ::
    "(string \<Rightarrow> errno option) \<Rightarrow> string \<Rightarrow> string list \<Rightarrow> errno + string list" where
  "tape_open_existing openable t tab =
     (if t = [] then Inl ENODEV
      else if t \<in> set tab then Inr tab
      else case openable t of
          Some e \<Rightarrow> Inl e
        | None \<Rightarrow> if VTL_MAX_SLOTS \<le> length tab then Inl ENOSPC else Inr (tab @ [t]))"

definition load_slot_to_drive ::
    "(string \<Rightarrow> errno option) \<Rightarrow> int \<Rightarrow> int \<Rightarrow> string \<Rightarrow> string list \<times> changer
      \<Rightarrow> errno option \<times> string list \<times> changer" where
  "load_slot_to_drive openable s d t st =
     (let (tab, c) = st
      in if s < 0 \<or> int (length (ch_slots c)) \<le> s \<or> d < 0 \<or> int (length (ch_drives c)) \<le> d
         then (Some EINVAL, tab, c)
         else case ch_slots c ! nat s of
             Some u \<Rightarrow>
               if t \<noteq> [] \<and> u \<noteq> t then (Some EBUSY, tab, c)
               else let (r, c1) = move_medium s (VTL_ELEM_DRIVE_BASE + d) c in (r, tab, c1)
           | None \<Rightarrow>
               (case tape_open_existing openable t tab of
                  Inl e \<Rightarrow> (Some e, tab, c)
                | Inr tab1 \<Rightarrow>
                    (case slot_place s t c of
                       (Some e, c1) \<Rightarrow> (Some e, tab1, c1)
                     | (None, c1) \<Rightarrow>
                         let (r, c2) = move_medium s (VTL_ELEM_DRIVE_BASE + d) c1
                         in (r, tab1, c2))))"

text \<open>
  \<open>vtl_changer_collect_inventory\<close>: the occupied elements in the order slots, drives, mail slots,
  cut after \<open>VTL_INV_MAX_ITEMS\<close>, and whether something was cut.
\<close>

definition occupied_from :: "int \<Rightarrow> string option list \<Rightarrow> (int \<times> string) list" where
  "occupied_from base xs =
     List.map_filter (\<lambda>i. map_option (Pair (base + int i)) (xs ! i)) [0..<length xs]"

definition all_items :: "changer \<Rightarrow> (int \<times> string) list" where
  "all_items c = occupied_from 0 (ch_slots c) @ occupied_from VTL_ELEM_DRIVE_BASE (ch_drives c)
     @ occupied_from VTL_ELEM_IE_BASE (ch_mail c)"

definition collect_inventory :: "changer \<Rightarrow> (int \<times> string) list \<times> bool" where
  "collect_inventory c =
     (take VTL_INV_MAX_ITEMS (all_items c), VTL_INV_MAX_ITEMS < length (all_items c))"

section \<open>The contract of a changer\<close>

locale medium_changer =
  fixes medium_at :: "'s \<Rightarrow> 'a \<Rightarrow> 'm option"
    and valid :: "'s \<Rightarrow> 'a \<Rightarrow> bool"
    and move :: "'a \<Rightarrow> 'a \<Rightarrow> 's \<Rightarrow> 'e option \<times> 's"
  assumes at_valid: "medium_at s a = Some m \<Longrightarrow> valid s a"
    and move_success:
      "move a b s = (None, s') \<Longrightarrow>
       valid s b \<and> medium_at s a \<noteq> None \<and> (a = b \<or> medium_at s b = None) \<and>
       medium_at s' = (medium_at s)(a := None, b := medium_at s a) \<and> valid s' = valid s"
    and move_failure: "move a b s = (Some e, s') \<Longrightarrow> s' = s"
    and move_enabled:
      "medium_at s a \<noteq> None \<Longrightarrow> valid s b \<Longrightarrow> a = b \<or> medium_at s b = None \<Longrightarrow>
       fst (move a b s) = None"
begin

lemma move_cases:
  obtains (moved) s' where "move a b s = (None, s')"
    "medium_at s' = (medium_at s)(a := None, b := medium_at s a)" "valid s' = valid s"
    "medium_at s a \<noteq> None" "a = b \<or> medium_at s b = None"
  | (refused) e where "move a b s = (Some e, s)"
proof (cases "move a b s")
  case (Pair r s')
  show ?thesis
  proof (cases r)
    case None
    with Pair have m: "move a b s = (None, s')" by simp
    show ?thesis by (rule moved [OF m]) (use move_success [OF m] in auto)
  next
    case (Some e)
    with Pair have m: "move a b s = (Some e, s')" by simp
    with move_failure [OF m] show ?thesis using refused by simp
  qed
qed

lemma valid_move [simp]: "valid (snd (move a b s)) = valid s"
  by (cases rule: move_cases [of a b s]) simp_all

text \<open>No move loses a medium or brings a new one.\<close>

lemma ran_move: "ran (medium_at (snd (move a b s))) = ran (medium_at s)"
proof (cases rule: move_cases [of a b s])
  case (moved s')
  obtain m where m: "medium_at s a = Some m" using moved by auto
  have "ran ((medium_at s)(a := None, b := medium_at s a)) = ran (medium_at s)"
  proof (intro equalityI subsetI)
    fix x assume "x \<in> ran ((medium_at s)(a := None, b := medium_at s a))"
    then show "x \<in> ran (medium_at s)" by (auto simp: ran_def split: if_splits)
  next
    fix x assume "x \<in> ran (medium_at s)"
    then obtain e where e: "medium_at s e = Some x" by (auto simp: ran_def)
    show "x \<in> ran ((medium_at s)(a := None, b := medium_at s a))"
    proof (cases "e = a \<or> e = b")
      case True
      with e moved(5) m have "medium_at s a = Some x" by auto
      then show ?thesis by (auto simp: ran_def)
    next
      case False
      with e show ?thesis by (auto simp: ran_def intro!: exI [of _ e])
    qed
  qed
  with moved show ?thesis by simp
qed simp

text \<open>No move puts one medium into two elements.\<close>

definition one_place :: "'s \<Rightarrow> bool" where
  "one_place s \<longleftrightarrow> (\<forall>x y m. medium_at s x = Some m \<longrightarrow> medium_at s y = Some m \<longrightarrow> x = y)"

lemma one_place_move: "one_place s \<Longrightarrow> one_place (snd (move a b s))"
proof (cases rule: move_cases [of a b s])
  case (moved s')
  assume "one_place s"
  with moved show ?thesis by (auto simp: one_place_def split: if_splits)
qed simp

text \<open>The same for every sequence of moves.\<close>

lemma moves_ran_one_place:
  "one_place s \<Longrightarrow>
   one_place (fold (\<lambda>(a, b) s. snd (move a b s)) ms s) \<and>
   ran (medium_at (fold (\<lambda>(a, b) s. snd (move a b s)) ms s)) = ran (medium_at s)"
proof (induction ms arbitrary: s)
  case (Cons p ms)
  obtain a b where p: "p = (a, b)" by (cases p)
  show ?case
    using Cons.IH [OF one_place_move [OF Cons.prems, of a b]] by (simp add: p ran_move)
qed simp

text \<open>A move can be undone.\<close>

lemma move_back:
  assumes "move a b s = (None, s')"
  shows "fst (move b a s') = None \<and> medium_at (snd (move b a s')) = medium_at s"
proof -
  note s' = move_success [OF assms]
  have va: "valid s' a" using s' at_valid [of s a] by auto
  have "fst (move b a s') = None" using s' va by (intro move_enabled) auto
  then obtain s2 where s2: "move b a s' = (None, s2)" by (cases "move b a s'") auto
  have "medium_at s2 = medium_at s"
    using s' move_success [OF s2] by (auto simp: fun_eq_iff)
  with s2 show ?thesis by simp
qed

end

text \<open>Some changers can also give up a medium.\<close>

locale open_changer = medium_changer medium_at valid move
  for medium_at :: "'s \<Rightarrow> 'a \<Rightarrow> 'm option"
    and valid :: "'s \<Rightarrow> 'a \<Rightarrow> bool"
    and move :: "'a \<Rightarrow> 'a \<Rightarrow> 's \<Rightarrow> 'e option \<times> 's" +
  fixes remove :: "'a \<Rightarrow> 's \<Rightarrow> 'e option \<times> 's"
  assumes remove_success:
      "remove a s = (None, s') \<Longrightarrow> medium_at s a \<noteq> None \<and> medium_at s' = (medium_at s)(a := None)"
    and remove_failure: "remove a s = (Some e, s') \<Longrightarrow> s' = s"
begin

lemma one_place_remove: "one_place s \<Longrightarrow> one_place (snd (remove a s))"
proof -
  assume one: "one_place s"
  obtain r s' where rs: "remove a s = (r, s')" by (cases "remove a s")
  show "one_place (snd (remove a s))"
  proof (cases r)
    case None
    with rs have "medium_at s' = (medium_at s)(a := None)" using remove_success by auto
    with one rs show ?thesis by (simp add: one_place_def)
  next
    case (Some e)
    with rs one show ?thesis using remove_failure by auto
  qed
qed

text \<open>A removed medium is gone, if it was in one place, and every other one stays.\<close>

lemma ran_remove:
  assumes "one_place s" and "remove a s = (None, s')" and "medium_at s a = Some m"
  shows "ran (medium_at s') = ran (medium_at s) - {m}"
proof -
  have "medium_at s' = (medium_at s)(a := None)" using remove_success [OF assms(2)] by simp
  then have s': "medium_at s' b = (if b = a then None else medium_at s b)" for b by simp
  show ?thesis
  proof (intro equalityI subsetI)
    fix x assume "x \<in> ran (medium_at s')"
    then obtain b where b: "b \<noteq> a" "medium_at s b = Some x" by (auto simp: ran_def s' split: if_splits)
    with assms(1,3) have "x \<noteq> m" unfolding one_place_def by blast
    with b show "x \<in> ran (medium_at s) - {m}" by (auto simp: ran_def)
  next
    fix x assume "x \<in> ran (medium_at s) - {m}"
    then obtain b where "medium_at s b = Some x" "x \<noteq> m" by (auto simp: ran_def)
    with assms(3) have "medium_at s' b = Some x" by (auto simp: s')
    then show "x \<in> ran (medium_at s')" by (auto simp: ran_def)
  qed
qed

end

section \<open>The kernel's changer satisfies the contract\<close>

definition changer_at :: "changer \<Rightarrow> int \<Rightarrow> string option" where
  "changer_at c e = (case element c e of None \<Rightarrow> None | Some a \<Rightarrow> elem_get a c)"

definition changer_valid :: "changer \<Rightarrow> int \<Rightarrow> bool" where
  "changer_valid c e = (element c e \<noteq> None)"

lemma element_elem_put [simp]: "element (elem_put a x c) e = element c e"
  by (cases a) (simp_all add: element_def)

fun elem_within :: "elem \<Rightarrow> changer \<Rightarrow> bool" where
  "elem_within (ESlot i) c = (i < length (ch_slots c))"
| "elem_within (EDrive i) c = (i < length (ch_drives c))"
| "elem_within (EMail i) c = (i < length (ch_mail c))"

lemma element_within: "element c e = Some a \<Longrightarrow> elem_within a c"
  by (auto simp: element_def Let_def split: if_splits)

lemma elem_get_put_within:
  "elem_within a c \<Longrightarrow> elem_get b (elem_put a x c) = (if b = a then x else elem_get b c)"
  by (cases a; cases b) (simp_all add: nth_list_update)

lemma elem_get_put:
  "element c e = Some a \<Longrightarrow> elem_get b (elem_put a x c) = (if b = a then x else elem_get b c)"
  by (rule elem_get_put_within [OF element_within])

lemma elem_put_put [simp]: "elem_put a x (elem_put a y c) = elem_put a x c"
  by (cases a) simp_all

lemma elem_put_same: "elem_get a c = x \<Longrightarrow> elem_put a x c = c"
  by (cases a) auto

lemma element_inj: "element c e = Some a \<Longrightarrow> element c e' = Some a \<Longrightarrow> e = e'"
  by (auto simp: element_def element_bases Let_def split: if_splits)

lemma changer_at_put:
  assumes "element c e = Some a"
  shows "changer_at (elem_put a x c) = (changer_at c)(e := x)"
proof
  fix e'
  show "changer_at (elem_put a x c) e' = ((changer_at c)(e := x)) e'"
  proof (cases "element c e'")
    case None
    with assms have "e' \<noteq> e" by auto
    with None show ?thesis by (simp add: changer_at_def)
  next
    case (Some b)
    have "b = a \<longleftrightarrow> e' = e"
      using Some assms by (auto intro: element_inj)
    with Some show ?thesis by (simp add: changer_at_def elem_get_put [OF assms])
  qed
qed

lemma move_medium_success:
  "move_medium s d c = (None, c') \<Longrightarrow>
   changer_valid c d \<and> changer_at c s \<noteq> None \<and> (s = d \<or> changer_at c d = None) \<and>
   changer_at c' = (changer_at c)(s := None, d := changer_at c s) \<and> changer_valid c' = changer_valid c"
proof -
  assume "move_medium s d c = (None, c')"
  then obtain a t b where *: "element c s = Some a" "elem_get a c = Some t" "element c d = Some b"
    "elem_get b (elem_put a None c) = None" "c' = elem_put b (Some t) (elem_put a None c)"
    by (auto simp: move_medium_def Let_def split: option.splits)
  have at: "changer_at c s = Some t" using * by (simp add: changer_at_def)
  have v: "changer_at c' = (changer_at c)(s := None, d := Some t)"
    using * by (simp add: changer_at_put)
  have free: "s = d \<or> changer_at c d = None"
    using * elem_get_put [of c s a b None] element_inj [of c s a d]
    by (auto simp: changer_at_def split: if_splits)
  show ?thesis using * at v free by (auto simp: changer_valid_def fun_eq_iff)
qed

lemma move_medium_failure: "move_medium s d c = (Some e, c') \<Longrightarrow> c' = c"
  by (auto simp: move_medium_def Let_def elem_put_same split: option.splits)

lemma move_medium_enabled:
  "changer_at c s \<noteq> None \<Longrightarrow> changer_valid c d \<Longrightarrow> s = d \<or> changer_at c d = None \<Longrightarrow>
   fst (move_medium s d c) = None"
  by (auto simp: move_medium_def changer_at_def changer_valid_def Let_def elem_get_put
      split: option.splits)

lemma changer_at_valid: "changer_at c e = Some m \<Longrightarrow> changer_valid c e"
  by (auto simp: changer_at_def changer_valid_def split: option.splits)

interpretation kc: medium_changer changer_at changer_valid move_medium
  by (unfold_locales; (rule changer_at_valid move_medium_success move_medium_failure
        move_medium_enabled; assumption)?)

interpretation kr: open_changer changer_at changer_valid move_medium remove_medium
proof unfold_locales
  fix e c c'
  assume "remove_medium e c = (None, c')"
  then obtain a t where "element c e = Some a" "elem_get a c = Some t" "c' = elem_put a None c"
    by (auto simp: remove_medium_def split: option.splits)
  then show "changer_at c e \<noteq> None \<and> changer_at c' = (changer_at c)(e := None)"
    by (simp add: changer_at_put) (simp add: changer_at_def)
next
  show "remove_medium e c = (Some x, c') \<Longrightarrow> c' = c" for e c c' x
    by (auto simp: remove_medium_def split: option.splits)
qed

end
