(* ===== verification/Placement.thy ===== *)
theory Placement
  imports Catalog
begin

text \<open>
  The transactions that move one tape between the shelves, the slots, the mail slots and the
  drives of a library: the database part of \<^verbatim>\<open>load_tape\<close>, \<^verbatim>\<open>unload_tape\<close>, \<^verbatim>\<open>eject_tape\<close>,
  \<^verbatim>\<open>assign_one_tape_to_slot\<close> and \<^verbatim>\<open>shelf_place_tape\<close> (all in \<^verbatim>\<open>main.rs\<close>), and the checks that a
  batch assignment makes first. Each is a function of the database; its error leaves the
  database as it was, because the transaction is dropped.

  The lemmas rest on one fact, \<open>relocate\<close>: a transaction that touches the rows of one tape only,
  and leaves them consistent, keeps the whole catalogue consistent.
\<close>

section \<open>Transactions\<close>

definition slot_occupant :: "db \<Rightarrow> int \<Rightarrow> int \<Rightarrow> int option" where
  "slot_occupant d lib s = Option.bind (find_slot d lib s) slot_tape"

definition drive_occupant :: "db \<Rightarrow> int \<Rightarrow> int \<Rightarrow> int option" where
  "drive_occupant d lib k = Option.bind (find_drive d lib k) drive_tape"

definition in_slot_row :: "int option \<Rightarrow> tape_row \<Rightarrow> tape_row" where
  "in_slot_row s r = r\<lparr>tape_slot := s, tape_shelf := None\<rparr>"

definition load_tape_tx :: "int \<Rightarrow> int \<Rightarrow> int \<Rightarrow> db \<Rightarrow> VtlError + (int \<times> db)" where
  "load_tape_tx lib slot drive d =
     andThen (ok_or (slot_occupant d lib slot) SlotEmpty) (\<lambda>t.
     andThen (require (drive_occupant d lib drive = None) DriveBusy) (\<lambda>_.
       Inr (t, set_slot_tape lib slot None
                 (update_tape t (in_slot_row None)
                   (set_drive_tape lib drive (Some t) d)))))"

text \<open>The first free row of a query ordered by \<open>slot_id\<close>.\<close>

definition free_slot_ids :: "db \<Rightarrow> int \<Rightarrow> bool \<Rightarrow> int list" where
  "free_slot_ids d lib ie =
     sort (map slot_no
       (filter (\<lambda>r. slot_lib r = lib \<and> slot_tape r = None \<and> (slot_ie r \<noteq> 0) = ie) (slots d)))"

definition first_free_slot :: "db \<Rightarrow> int \<Rightarrow> bool \<Rightarrow> int option" where
  "first_free_slot d lib ie = (case free_slot_ids d lib ie of [] \<Rightarrow> None | s # _ \<Rightarrow> Some s)"

definition unload_tape_tx :: "int \<Rightarrow> int \<Rightarrow> db \<Rightarrow> VtlError + (int \<times> int \<times> db)" where
  "unload_tape_tx lib drive d =
     andThen (ok_or (drive_occupant d lib drive) DriveEmpty) (\<lambda>t.
     andThen (case Option.bind (tape_by_id d t) tape_slot of
                Some s \<Rightarrow> Inr s
              | None \<Rightarrow> ok_or (first_free_slot d lib False) NoAvailableSlots) (\<lambda>s.
       Inr (t, s, set_drive_tape lib drive None
                    (set_slot_tape lib s (Some t)
                      (update_tape t (in_slot_row (Some s)) d)))))"

definition eject_tape_tx :: "int \<Rightarrow> int \<Rightarrow> db \<Rightarrow> VtlError + (int \<times> int \<times> db)" where
  "eject_tape_tx lib slot d =
     andThen (ok_or (slot_occupant d lib slot) SlotEmpty) (\<lambda>t.
     andThen (ok_or (first_free_slot d lib True) NoAvailableSlots) (\<lambda>m.
       Inr (t, m, set_slot_tape lib m (Some t)
                    (set_slot_tape lib slot None
                      (update_tape t (in_slot_row (Some m)) d)))))"

definition slot_occupied :: "db \<Rightarrow> int \<Rightarrow> int \<Rightarrow> bool" where
  "slot_occupied d lib s =
     (0 < count_where (\<lambda>r. slot_lib r = lib \<and> slot_no r = s \<and> slot_tape r \<noteq> None) (slots d))"

definition assert_data_slot_empty :: "db \<Rightarrow> int \<Rightarrow> int \<Rightarrow> VtlError + unit" where
  "assert_data_slot_empty d lib s =
     require (\<not> slot_occupied d lib s) (InvalidParameter ''Slot is not empty'')"

text \<open>A tape that may go into a slot: known, in no drive, in no slot, and on a shelf.\<close>

definition tape_ready :: "db \<Rightarrow> int \<Rightarrow> string \<Rightarrow> VtlError + tape_row" where
  "tape_ready d lib name =
     andThen (tape_by_name d lib name) (\<lambda>r.
     andThen (require (\<not> tape_in_drive d lib (tape_id r)) TapeInDrive) (\<lambda>_.
     andThen (require (tape_slot r = None)
                (InvalidParameter ''Tape is already in a robot slot'')) (\<lambda>_.
     andThen (require (tape_shelf r \<noteq> None) TapeNotOnShelf) (\<lambda>_. Inr r))))"

definition assign_one_tape_to_slot :: "int \<Rightarrow> string \<Rightarrow> int \<Rightarrow> db \<Rightarrow> VtlError + db" where
  "assign_one_tape_to_slot lib name s d =
     andThen (tape_ready d lib name) (\<lambda>r.
     andThen (require (\<not> slot_occupied d lib s) (InvalidParameter ''Slot is not empty'')) (\<lambda>_.
       Inr (set_slot_tape lib s (Some (tape_id r))
              (update_tape (tape_id r) (in_slot_row (Some s)) d))))"

text \<open>
  \<^verbatim>\<open>validate_tape_ready_for_online_slot\<close>. The checks of an offline tape come in another order
  than those of an online one.
\<close>

definition validate_tape_ready_for_online_slot ::
    "db \<Rightarrow> int \<Rightarrow> int \<Rightarrow> string \<Rightarrow> int \<Rightarrow> bool \<Rightarrow> VtlError + unit" where
  "validate_tape_ready_for_online_slot d online offline name s from_offline =
     andThen (assert_data_slot_empty d online s) (\<lambda>_.
       if from_offline then
         andThen (tape_by_name d offline name) (\<lambda>r.
         andThen (require (tape_slot r = None)
                    (InvalidParameter ''offline tape is already bound to a slot'')) (\<lambda>_.
         andThen (require (tape_shelf r \<noteq> None) TapeNotOnShelf) (\<lambda>_.
         andThen (require (\<not> tape_in_drive d offline (tape_id r)) TapeInDrive) (\<lambda>_.
           require (find_tape d online name = None)
             (InvalidParameter ''target library already has a tape of this name'')))))
       else andThen (tape_ready d online name) (\<lambda>_. Inr ()))"

definition shelf_place_tx :: "int \<Rightarrow> string \<Rightarrow> string option \<Rightarrow> db \<Rightarrow> VtlError + db" where
  "shelf_place_tx lib name shelf d =
     andThen (tape_by_name d lib name) (\<lambda>r.
     andThen (require (\<not> tape_in_drive d lib (tape_id r)) TapeInDrive) (\<lambda>_.
     andThen (case shelf of Some n \<Rightarrow> resolve_shelf_id d lib n | None \<Rightarrow> default_shelf_id d lib)
       (\<lambda>sh.
         let d1 = (case tape_slot r of None \<Rightarrow> d | Some s \<Rightarrow> set_slot_tape lib s None d);
             d2 = clear_slots_of lib (tape_id r) d1
         in Inr (update_tape (tape_id r) (\<lambda>q. q\<lparr>tape_slot := None, tape_shelf := Some sh\<rparr>) d2))))"

section \<open>The relocation lemma\<close>

lemma in_slot_row_simps [simp]:
  "tape_id (in_slot_row s r) = tape_id r" "tape_lib (in_slot_row s r) = tape_lib r"
  "tape_name (in_slot_row s r) = tape_name r" "tape_slot (in_slot_row s r) = s"
  "tape_shelf (in_slot_row s r) = None" "tape_barcode (in_slot_row s r) = tape_barcode r"
  "tape_image (in_slot_row s r) = tape_image r" "tape_capacity (in_slot_row s r) = tape_capacity r"
  by (simp_all add: in_slot_row_def)

text \<open>The rows that name another tape than \<open>t\<close> are unchanged.\<close>

definition others_kept :: "int \<Rightarrow> db \<Rightarrow> db \<Rightarrow> bool" where
  "others_kept t d d' \<longleftrightarrow>
     (\<forall>s \<in> set (slots d'). slot_tape s \<noteq> None \<longrightarrow> slot_tape s \<noteq> Some t \<longrightarrow> s \<in> set (slots d)) \<and>
     (\<forall>k \<in> set (drives d'). drive_tape k \<noteq> None \<longrightarrow> drive_tape k \<noteq> Some t \<longrightarrow> k \<in> set (drives d))"

lemma relocate:
  assumes ok: "catalog_ok d" and keys: "keys_ok d'"
    and tapes: "tapes d' = update_where (\<lambda>r. tape_id r = t) f (tapes d)"
    and ids: "\<And>r. tape_id (f r) = tape_id r"
    and others: "others_kept t d d'"
    and slot: "\<And>s. s \<in> set (slots d') \<Longrightarrow> slot_tape s = Some t \<Longrightarrow>
      \<exists>r \<in> set (tapes d). tape_id r = t \<and> tape_lib (f r) = slot_lib s \<and>
        tape_slot (f r) = Some (slot_no s) \<and> tape_shelf (f r) = None"
    and drive: "\<And>k. k \<in> set (drives d') \<Longrightarrow> drive_tape k = Some t \<Longrightarrow>
      \<exists>r \<in> set (tapes d). tape_id r = t \<and> tape_lib (f r) = drive_lib k \<and>
        tape_slot (f r) = None \<and> tape_shelf (f r) = None"
    and one: "\<And>k k'. k \<in> set (drives d') \<Longrightarrow> k' \<in> set (drives d') \<Longrightarrow>
      drive_tape k = Some t \<Longrightarrow> drive_tape k' = Some t \<Longrightarrow> k = k'"
    and xor: "\<And>r. r \<in> set (tapes d) \<Longrightarrow> tape_id r = t \<Longrightarrow>
      tape_shelf (f r) = None \<or> tape_slot (f r) = None"
  shows "catalog_ok d'"
proof -
  have mine: "f r \<in> set (tapes d')" if "r \<in> set (tapes d)" "tape_id r = t" for r
    using that by (auto simp: tapes set_update_where image_iff intro!: bexI [of _ r])
  have theirs: "r \<in> set (tapes d')" if "r \<in> set (tapes d)" "tape_id r \<noteq> t" for r
    using that by (auto simp: tapes set_update_where image_iff intro!: bexI [of _ r])
  have "slots_placed d'"
    unfolding slots_placed_def
  proof (intro ballI allI impI)
    fix s u assume s: "s \<in> set (slots d')" "slot_tape s = Some u"
    show "\<exists>r \<in> set (tapes d'). tape_id r = u \<and> tape_lib r = slot_lib s \<and>
        tape_slot r = Some (slot_no s) \<and> tape_shelf r = None"
    proof (cases "u = t")
      case True
      with s slot obtain r where "r \<in> set (tapes d)" "tape_id r = t" "tape_lib (f r) = slot_lib s"
        "tape_slot (f r) = Some (slot_no s)" "tape_shelf (f r) = None" by blast
      with True mine show ?thesis by (intro bexI [of _ "f r"]) (auto simp: ids)
    next
      case False
      with s others have "s \<in> set (slots d)" by (auto simp: others_kept_def)
      with ok s obtain r where "r \<in> set (tapes d)" "tape_id r = u" "tape_lib r = slot_lib s"
        "tape_slot r = Some (slot_no s)" "tape_shelf r = None"
        using slots_placedD [of d s u] by (auto simp: catalog_ok_def)
      with False theirs show ?thesis by (intro bexI [of _ r]) auto
    qed
  qed
  moreover have "drives_placed d'"
    unfolding drives_placed_def
  proof (intro ballI allI impI)
    fix k u assume k: "k \<in> set (drives d')" "drive_tape k = Some u"
    show "\<exists>r \<in> set (tapes d'). tape_id r = u \<and> tape_lib r = drive_lib k \<and>
        tape_slot r = None \<and> tape_shelf r = None"
    proof (cases "u = t")
      case True
      with k drive obtain r where "r \<in> set (tapes d)" "tape_id r = t" "tape_lib (f r) = drive_lib k"
        "tape_slot (f r) = None" "tape_shelf (f r) = None" by blast
      with True mine show ?thesis by (intro bexI [of _ "f r"]) (auto simp: ids)
    next
      case False
      with k others have "k \<in> set (drives d)" by (auto simp: others_kept_def)
      with ok k obtain r where "r \<in> set (tapes d)" "tape_id r = u" "tape_lib r = drive_lib k"
        "tape_slot r = None" "tape_shelf r = None"
        using drives_placedD [of d k u] by (auto simp: catalog_ok_def)
      with False theirs show ?thesis by (intro bexI [of _ r]) auto
    qed
  qed
  moreover have "drives_exclusive d'"
    unfolding drives_exclusive_def
  proof (intro ballI allI impI)
    fix k k' u
    assume k: "k \<in> set (drives d')" "k' \<in> set (drives d')" "drive_tape k = Some u" "drive_tape k' = Some u"
    show "k = k'"
    proof (cases "u = t")
      case True
      with k one show ?thesis by blast
    next
      case False
      with k others have "k \<in> set (drives d)" "k' \<in> set (drives d)" by (auto simp: others_kept_def)
      with k ok show ?thesis unfolding catalog_ok_def drives_exclusive_def by blast
    qed
  qed
  moreover have "shelf_xor_slot d'"
    using ok xor by (auto simp: catalog_ok_def shelf_xor_slot_def tapes ball_update_where)
  ultimately show ?thesis using keys by (simp add: catalog_ok_def)
qed

section \<open>The transactions keep the catalogue consistent\<close>

lemma catalog_slot_row:
  "catalog_ok d \<Longrightarrow> s \<in> set (slots d) \<Longrightarrow> slot_tape s = Some t \<Longrightarrow>
   \<exists>r \<in> set (tapes d). tape_id r = t \<and> tape_lib r = slot_lib s \<and>
     tape_slot r = Some (slot_no s) \<and> tape_shelf r = None"
  unfolding catalog_ok_def slots_placed_def by blast

lemma catalog_drive_row:
  "catalog_ok d \<Longrightarrow> k \<in> set (drives d) \<Longrightarrow> drive_tape k = Some t \<Longrightarrow>
   \<exists>r \<in> set (tapes d). tape_id r = t \<and> tape_lib r = drive_lib k \<and>
     tape_slot r = None \<and> tape_shelf r = None"
  unfolding catalog_ok_def drives_placed_def by blast

lemma slot_occupant_SomeE:
  assumes "slot_occupant d l n = Some t"
  obtains s where "s \<in> set (slots d)" "slot_lib s = l" "slot_no s = n" "slot_tape s = Some t"
  using assms by (auto simp: slot_occupant_def dest: find_slot_Some split: bind_splits)

lemma drive_occupant_SomeE:
  assumes "drive_occupant d l n = Some t"
  obtains k where "k \<in> set (drives d)" "drive_lib k = l" "drive_no k = n" "drive_tape k = Some t"
  using assms by (auto simp: drive_occupant_def dest: find_drive_Some split: bind_splits)

lemma drive_occupant_NoneD:
  "keys_ok d \<Longrightarrow> drive_occupant d (drive_lib k) (drive_no k) = None \<Longrightarrow> k \<in> set (drives d) \<Longrightarrow>
   drive_tape k = None"
  by (simp add: drive_occupant_def find_drive_unique)

lemma keys_ok_in_slot_row [simp]: "keys_ok (update_tape t (in_slot_row s) d) = keys_ok d"
  by (rule keys_ok_update_tape) simp

text \<open>An occupied row after a statement: the one just written, or one that was there before.\<close>

lemma slot_row_set:
  "x \<in> set (slots (set_slot_tape l n v d)) \<Longrightarrow> slot_tape x = Some u \<Longrightarrow>
   slot_lib x = l \<and> slot_no x = n \<and> v = Some u \<or>
   x \<in> set (slots d) \<and> \<not> (slot_lib x = l \<and> slot_no x = n)"
  by (auto simp: set_slot_tape_def set_update_where split: if_splits)

lemma slot_row_clear:
  "x \<in> set (slots (clear_slots_of l t d)) \<Longrightarrow> slot_tape x = Some u \<Longrightarrow>
   x \<in> set (slots d) \<and> \<not> (slot_lib x = l \<and> u = t)"
  by (auto simp: clear_slots_of_def set_update_where split: if_splits)

lemma drive_row_set:
  "x \<in> set (drives (set_drive_tape l n v d)) \<Longrightarrow> drive_tape x = Some u \<Longrightarrow>
   drive_lib x = l \<and> drive_no x = n \<and> v = Some u \<or>
   x \<in> set (drives d) \<and> \<not> (drive_lib x = l \<and> drive_no x = n)"
  by (auto simp: set_drive_tape_def set_update_where split: if_splits)

lemmas rows_written = slot_row_set slot_row_clear drive_row_set

lemma load_tape_tx_Inr:
  "load_tape_tx l s k d = Inr (t, d') \<longleftrightarrow>
     slot_occupant d l s = Some t \<and> drive_occupant d l k = None \<and>
     d' = set_slot_tape l s None (update_tape t (in_slot_row None) (set_drive_tape l k (Some t) d))"
  by (auto simp: load_tape_tx_def)

lemma load_tape_tx_ok:
  assumes ok: "catalog_ok d" and run: "load_tape_tx l s k d = Inr (t, d')"
  shows "catalog_ok d'"
proof -
  have keys: "keys_ok d" using ok by (simp add: catalog_ok_def)
  from run have occ: "slot_occupant d l s = Some t" "drive_occupant d l k = None"
    and d': "d' = set_slot_tape l s None (update_tape t (in_slot_row None) (set_drive_tape l k (Some t) d))"
    by (auto simp: load_tape_tx_Inr)
  from occ(1) obtain src where src: "src \<in> set (slots d)" "slot_lib src = l" "slot_no src = s"
    "slot_tape src = Some t" by (rule slot_occupant_SomeE)
  obtain r where r: "r \<in> set (tapes d)" "tape_id r = t" "tape_lib r = l"
    using ok src slots_placedD [of d src t] by (auto simp: catalog_ok_def)
  have noslot: "slot_tape x \<noteq> Some t" if "x \<in> set (slots d')" for x
  proof
    assume x: "slot_tape x = Some t"
    with that have "x \<in> set (slots d)" "\<not> (slot_lib x = l \<and> slot_no x = s)"
      by (auto simp: d' dest!: rows_written)
    with src catalog_tape_in_one_slot [OF ok _ src(1) x src(4)] show False by blast
  qed
  have nodrive: "drive_tape k0 \<noteq> Some t" if "k0 \<in> set (drives d)" for k0
    using catalog_not_slot_and_drive [OF ok src(1) that src(4)] by blast
  have keys': "keys_ok d'" using keys by (simp add: d')
  show ?thesis
  proof (rule relocate [OF ok, where t = t and f = "in_slot_row None"])
    show "keys_ok d'" by (rule keys')
    show "tapes d' = update_where (\<lambda>r. tape_id r = t) (in_slot_row None) (tapes d)"
      by (simp add: d' update_tape_def)
    show "others_kept t d d'" by (auto simp: d' others_kept_def dest!: rows_written)
    show "\<exists>r\<in>set (tapes d). tape_id r = t \<and> tape_lib (in_slot_row None r) = slot_lib x \<and>
        tape_slot (in_slot_row None r) = Some (slot_no x) \<and> tape_shelf (in_slot_row None r) = None"
      if "x \<in> set (slots d')" "slot_tape x = Some t" for x
      using noslot that by blast
    show "\<exists>r\<in>set (tapes d). tape_id r = t \<and> tape_lib (in_slot_row None r) = drive_lib x \<and>
        tape_slot (in_slot_row None r) = None \<and> tape_shelf (in_slot_row None r) = None"
      if "x \<in> set (drives d')" "drive_tape x = Some t" for x
      using that r nodrive by (auto simp: d' dest!: rows_written)
    show "x = y" if x: "x \<in> set (drives d')" "drive_tape x = Some t" and
      y: "y \<in> set (drives d')" "drive_tape y = Some t" for x y
    proof (rule drive_unique [OF keys' x(1) y(1)])
      have "drive_lib z = l \<and> drive_no z = k" if "z \<in> set (drives d')" "drive_tape z = Some t" for z
        using that nodrive by (auto simp: d' dest!: rows_written)
      with x y show "drive_lib x = drive_lib y" "drive_no x = drive_no y" by simp_all
    qed
  qed simp_all
qed

text \<open>The free rows a query returns, and the smallest of them.\<close>

lemma first_free_slot_Some:
  assumes "first_free_slot d l ie = Some s"
  shows "\<exists>r \<in> set (slots d). slot_lib r = l \<and> slot_no r = s \<and> slot_tape r = None \<and> (slot_ie r \<noteq> 0) = ie"
proof -
  have "s \<in> set (free_slot_ids d l ie)"
    using assms by (auto simp: first_free_slot_def split: list.splits)
  then show ?thesis by (auto simp: free_slot_ids_def)
qed

lemma first_free_slot_least:
  assumes "first_free_slot d l ie = Some s" and "r \<in> set (slots d)" "slot_lib r = l"
    "slot_tape r = None" "(slot_ie r \<noteq> 0) = ie"
  shows "s \<le> slot_no r"
proof -
  have in_ids: "slot_no r \<in> set (free_slot_ids d l ie)" using assms by (auto simp: free_slot_ids_def)
  have "sorted (free_slot_ids d l ie)" by (simp add: free_slot_ids_def)
  with assms(1) in_ids show ?thesis
    by (auto simp: first_free_slot_def split: list.splits)
qed

lemma first_free_slot_None:
  "first_free_slot d l ie = None \<longleftrightarrow>
     (\<forall>r \<in> set (slots d). slot_lib r = l \<longrightarrow> (slot_ie r \<noteq> 0) = ie \<longrightarrow> slot_tape r \<noteq> None)"
proof -
  have "first_free_slot d l ie = None \<longleftrightarrow> set (free_slot_ids d l ie) = {}"
    by (simp add: first_free_slot_def split: list.split)
  also have "\<dots> \<longleftrightarrow> (\<forall>r \<in> set (slots d). slot_lib r = l \<longrightarrow> (slot_ie r \<noteq> 0) = ie \<longrightarrow> slot_tape r \<noteq> None)"
    by (auto simp: free_slot_ids_def)
  finally show ?thesis .
qed

text \<open>The transactions that put a tape into a slot share one argument.\<close>

lemma relocate_to_slot:
  assumes "catalog_ok d" "keys_ok d'" "others_kept t d d'"
    and "tapes d' = update_where (\<lambda>r. tape_id r = t) (in_slot_row (Some s)) (tapes d)"
    and r: "r \<in> set (tapes d)" "tape_id r = t" "tape_lib r = l"
    and "\<And>x. x \<in> set (slots d') \<Longrightarrow> slot_tape x = Some t \<Longrightarrow> slot_lib x = l \<and> slot_no x = s"
    and "\<And>k. k \<in> set (drives d') \<Longrightarrow> drive_tape k \<noteq> Some t"
  shows "catalog_ok d'"
proof (rule relocate [where t = t and f = "in_slot_row (Some s)"])
  show "\<exists>r \<in> set (tapes d). tape_id r = t \<and> tape_lib (in_slot_row (Some s) r) = slot_lib x \<and>
      tape_slot (in_slot_row (Some s) r) = Some (slot_no x) \<and>
      tape_shelf (in_slot_row (Some s) r) = None"
    if "x \<in> set (slots d')" "slot_tape x = Some t" for x
    using assms(8) [OF that] r by (intro bexI [of _ r]) auto
qed (use assms in \<open>simp_all\<close>)

lemma unload_tape_tx_Inr:
  "unload_tape_tx l k d = Inr (t, s, d') \<longleftrightarrow>
     drive_occupant d l k = Some t \<and>
     (case Option.bind (tape_by_id d t) tape_slot of
        Some s' \<Rightarrow> s = s' | None \<Rightarrow> first_free_slot d l False = Some s) \<and>
     d' = set_drive_tape l k None
            (set_slot_tape l s (Some t) (update_tape t (in_slot_row (Some s)) d))"
  by (auto simp: unload_tape_tx_def split: option.splits)

text \<open>In a consistent catalogue a loaded tape has forgotten its slot, so a free one is taken.\<close>

lemma loaded_tape_row:
  assumes "catalog_ok d" "drive_occupant d l k = Some t"
  shows "\<exists>r \<in> set (tapes d). tape_id r = t \<and> tape_lib r = l \<and> tape_slot r = None \<and> tape_by_id d t = Some r"
proof -
  from assms(2) obtain q where q: "q \<in> set (drives d)" "drive_lib q = l" "drive_tape q = Some t"
    by (rule drive_occupant_SomeE)
  then obtain r where r: "r \<in> set (tapes d)" "tape_id r = t" "tape_lib r = l" "tape_slot r = None"
    using assms(1) drives_placedD [of d q t] by (auto simp: catalog_ok_def)
  moreover have "tape_by_id d t = Some r"
    unfolding tape_by_id_def
    by (rule find_unique [where k = tape_id]) (use assms(1) r in \<open>auto simp: catalog_ok_def keys_ok_def\<close>)
  ultimately show ?thesis by blast
qed

lemma unload_tape_tx_target:
  assumes "catalog_ok d" "unload_tape_tx l k d = Inr (t, s, d')"
  shows "first_free_slot d l False = Some s"
  using assms loaded_tape_row [of d l k t] by (auto simp: unload_tape_tx_Inr)

lemma unload_tape_tx_ok:
  assumes ok: "catalog_ok d" and run: "unload_tape_tx l k d = Inr (t, s, d')"
  shows "catalog_ok d'"
proof -
  have keys: "keys_ok d" using ok by (simp add: catalog_ok_def)
  from run have occ: "drive_occupant d l k = Some t"
    and d': "d' = set_drive_tape l k None
      (set_slot_tape l s (Some t) (update_tape t (in_slot_row (Some s)) d))"
    by (auto simp: unload_tape_tx_Inr)
  from occ obtain src where src: "src \<in> set (drives d)" "drive_lib src = l" "drive_no src = k"
    "drive_tape src = Some t" by (rule drive_occupant_SomeE)
  obtain r where r: "r \<in> set (tapes d)" "tape_id r = t" "tape_lib r = l"
    using loaded_tape_row [OF ok occ] by blast
  show ?thesis
  proof (rule relocate_to_slot [OF ok])
    show "keys_ok d'" using keys by (simp add: d')
    show "others_kept t d d'" by (auto simp: d' others_kept_def dest!: rows_written)
    show "tapes d' = update_where (\<lambda>r. tape_id r = t) (in_slot_row (Some s)) (tapes d)"
      by (simp add: d' update_tape_def)
    show "slot_lib x = l \<and> slot_no x = s" if x: "x \<in> set (slots d')" "slot_tape x = Some t" for x
      using x catalog_not_slot_and_drive [OF ok _ src(1) x(2) src(4)]
      by (auto simp: d' dest!: rows_written)
    show "drive_tape x \<noteq> Some t" if "x \<in> set (drives d')" for x
    proof
      assume x: "drive_tape x = Some t"
      with that have *: "x \<in> set (drives d)" "\<not> (drive_lib x = l \<and> drive_no x = k)"
        by (auto simp: d' dest!: rows_written)
      with x src ok have "x = src" unfolding catalog_ok_def drives_exclusive_def by blast
      with * src show False by simp
    qed
  qed (rule r)+
qed

lemma eject_tape_tx_Inr:
  "eject_tape_tx l s d = Inr (t, m, d') \<longleftrightarrow>
     slot_occupant d l s = Some t \<and> first_free_slot d l True = Some m \<and>
     d' = set_slot_tape l m (Some t) (set_slot_tape l s None (update_tape t (in_slot_row (Some m)) d))"
  by (auto simp: eject_tape_tx_def)

lemma eject_tape_tx_ok:
  assumes ok: "catalog_ok d" and run: "eject_tape_tx l s d = Inr (t, m, d')"
  shows "catalog_ok d'"
proof -
  have keys: "keys_ok d" using ok by (simp add: catalog_ok_def)
  from run have occ: "slot_occupant d l s = Some t"
    and d': "d' = set_slot_tape l m (Some t) (set_slot_tape l s None (update_tape t (in_slot_row (Some m)) d))"
    by (auto simp: eject_tape_tx_Inr)
  from occ obtain src where src: "src \<in> set (slots d)" "slot_lib src = l" "slot_no src = s"
    "slot_tape src = Some t" by (rule slot_occupant_SomeE)
  obtain r where r: "r \<in> set (tapes d)" "tape_id r = t" "tape_lib r = l"
    using ok src slots_placedD [of d src t] by (auto simp: catalog_ok_def)
  show ?thesis
  proof (rule relocate_to_slot [OF ok])
    show "keys_ok d'" using keys by (simp add: d')
    show "others_kept t d d'" by (auto simp: d' others_kept_def dest!: rows_written)
    show "tapes d' = update_where (\<lambda>r. tape_id r = t) (in_slot_row (Some m)) (tapes d)"
      by (simp add: d' update_tape_def)
    show "slot_lib x = l \<and> slot_no x = m" if x: "x \<in> set (slots d')" "slot_tape x = Some t" for x
    proof (rule ccontr)
      assume "\<not> (slot_lib x = l \<and> slot_no x = m)"
      with x have "x \<in> set (slots d)" "\<not> (slot_lib x = l \<and> slot_no x = s)"
        by (auto simp: d' dest!: rows_written)
      with src catalog_tape_in_one_slot [OF ok _ src(1) x(2) src(4)] show False by blast
    qed
    show "drive_tape x \<noteq> Some t" if "x \<in> set (drives d')" for x
      using catalog_not_slot_and_drive [OF ok src(1) _ src(4)] that by (auto simp: d')
  qed (rule r)+
qed

lemma tape_ready_Inr:
  "tape_ready d l n = Inr r \<longleftrightarrow>
     find_tape d l n = Some r \<and> \<not> tape_in_drive d l (tape_id r) \<and> tape_slot r = None \<and> tape_shelf r \<noteq> None"
  by (auto simp: tape_ready_def tape_by_name_Inr)

lemma assign_one_tape_to_slot_Inr:
  "assign_one_tape_to_slot l n s d = Inr d' \<longleftrightarrow>
     (\<exists>r. tape_ready d l n = Inr r \<and> \<not> slot_occupied d l s \<and>
        d' = set_slot_tape l s (Some (tape_id r)) (update_tape (tape_id r) (in_slot_row (Some s)) d))"
  by (auto simp: assign_one_tape_to_slot_def)

text \<open>A tape on a shelf is in no slot and in no drive.\<close>

lemma shelved_nowhere_else:
  assumes ok: "catalog_ok d" and r: "r \<in> set (tapes d)" "tape_shelf r \<noteq> None"
  shows "\<And>x. x \<in> set (slots d) \<Longrightarrow> slot_tape x \<noteq> Some (tape_id r)"
    and "\<And>k. k \<in> set (drives d) \<Longrightarrow> drive_tape k \<noteq> Some (tape_id r)"
proof -
  have u: "r' = r" if "r' \<in> set (tapes d)" "tape_id r' = tape_id r" for r'
    using ok r that tape_unique [of d r' r] by (simp add: catalog_ok_def)
  show "slot_tape x \<noteq> Some (tape_id r)" if mem: "x \<in> set (slots d)" for x
  proof
    assume "slot_tape x = Some (tape_id r)"
    then obtain r' where "r' \<in> set (tapes d)" "tape_id r' = tape_id r" "tape_shelf r' = None"
      using catalog_slot_row [OF ok mem] by blast
    with u [of r'] r show False by simp
  qed
  show "drive_tape k \<noteq> Some (tape_id r)" if mem: "k \<in> set (drives d)" for k
  proof
    assume "drive_tape k = Some (tape_id r)"
    then obtain r' where "r' \<in> set (tapes d)" "tape_id r' = tape_id r" "tape_shelf r' = None"
      using catalog_drive_row [OF ok mem] by blast
    with u [of r'] r show False by simp
  qed
qed

lemma assign_one_tape_to_slot_ok:
  assumes ok: "catalog_ok d" and run: "assign_one_tape_to_slot l n s d = Inr d'"
  shows "catalog_ok d'"
proof -
  from run obtain r where ready: "tape_ready d l n = Inr r"
    and d': "d' = set_slot_tape l s (Some (tape_id r)) (update_tape (tape_id r) (in_slot_row (Some s)) d)"
    by (auto simp: assign_one_tape_to_slot_Inr)
  from ready have r: "r \<in> set (tapes d)" "tape_lib r = l" "tape_shelf r \<noteq> None"
    by (auto simp: tape_ready_Inr dest: find_tape_Some)
  note nowhere = shelved_nowhere_else [OF ok r(1,3)]
  show ?thesis
  proof (rule relocate_to_slot [OF ok])
    show "keys_ok d'" using ok by (simp add: d' catalog_ok_def)
    show "others_kept (tape_id r) d d'" by (auto simp: d' others_kept_def dest!: rows_written)
    show "tapes d' = update_where (\<lambda>q. tape_id q = tape_id r) (in_slot_row (Some s)) (tapes d)"
      by (simp add: d' update_tape_def)
    show "slot_lib x = l \<and> slot_no x = s" if "x \<in> set (slots d')" "slot_tape x = Some (tape_id r)" for x
      using that nowhere(1) [of x] by (auto simp: d' dest!: rows_written)
    show "drive_tape x \<noteq> Some (tape_id r)" if "x \<in> set (drives d')" for x
      using that nowhere(2) by (simp add: d')
  qed (use r in simp_all)
qed

lemma shelf_place_tx_Inr:
  "shelf_place_tx l n sh d = Inr d' \<longleftrightarrow>
     (\<exists>r i. find_tape d l n = Some r \<and> \<not> tape_in_drive d l (tape_id r) \<and>
        (case sh of Some m \<Rightarrow> resolve_shelf_id d l m | None \<Rightarrow> default_shelf_id d l) = Inr i \<and>
        d' = update_tape (tape_id r) (\<lambda>q. q\<lparr>tape_slot := None, tape_shelf := Some i\<rparr>)
               (clear_slots_of l (tape_id r)
                 (case tape_slot r of None \<Rightarrow> d | Some s \<Rightarrow> set_slot_tape l s None d)))"
  unfolding shelf_place_tx_def Let_def by (auto simp: tape_by_name_Inr)

lemma shelf_place_tx_ok:
  assumes ok: "catalog_ok d" and run: "shelf_place_tx l n sh d = Inr d'"
  shows "catalog_ok d'"
proof -
  have keys: "keys_ok d" using ok by (simp add: catalog_ok_def)
  define d0 where "d0 s = (case s of None \<Rightarrow> d | Some s \<Rightarrow> set_slot_tape l s None d)" for s
  from run obtain r i where r: "find_tape d l n = Some r" and free: "\<not> tape_in_drive d l (tape_id r)"
    and d': "d' = update_tape (tape_id r) (\<lambda>q. q\<lparr>tape_slot := None, tape_shelf := Some i\<rparr>)
               (clear_slots_of l (tape_id r) (d0 (tape_slot r)))"
    unfolding shelf_place_tx_Inr d0_def by blast
  have mem: "r \<in> set (tapes d)" "tape_lib r = l" using find_tape_Some [OF r] by simp_all
  have tp: "tapes (d0 x) = tapes d" "drives (d0 x) = drives d" "keys_ok (d0 x) = keys_ok d" for x
    by (simp_all add: d0_def split: option.split)
  have old: "x \<in> set (slots d)" if "x \<in> set (slots (d0 s))" "slot_tape x = Some u" for x s u
    using that by (auto simp: d0_def split: option.splits dest!: rows_written)
  have mine: "r' = r" if "r' \<in> set (tapes d)" "tape_id r' = tape_id r" for r'
    using tape_unique [OF keys that(1) mem(1) that(2)] .
  have noslot: "slot_tape x \<noteq> Some (tape_id r)" if x: "x \<in> set (slots d')" for x
  proof
    assume s: "slot_tape x = Some (tape_id r)"
    with x have *: "x \<in> set (slots d)" "slot_lib x \<noteq> l"
      by (auto simp: d' dest!: rows_written intro: old)
    then obtain q where "q \<in> set (tapes d)" "tape_id q = tape_id r" "tape_lib q \<noteq> l"
      using catalog_slot_row [OF ok *(1) s] by force
    with mine [of q] mem show False by simp
  qed
  have nodrive: "drive_tape k \<noteq> Some (tape_id r)" if k: "k \<in> set (drives d')" for k
  proof
    assume s: "drive_tape k = Some (tape_id r)"
    from k have *: "k \<in> set (drives d)" by (simp add: d' tp)
    with free s have "drive_lib k \<noteq> l" by (auto simp: tape_in_drive_iff)
    then obtain q where "q \<in> set (tapes d)" "tape_id q = tape_id r" "tape_lib q \<noteq> l"
      using catalog_drive_row [OF ok * s] by force
    with mine [of q] mem show False by simp
  qed
  show ?thesis
  proof (rule relocate [OF ok, where t = "tape_id r" and
        f = "\<lambda>q. q\<lparr>tape_slot := None, tape_shelf := Some i\<rparr>"])
    show "keys_ok d'" unfolding d' using keys by (subst keys_ok_update_tape) (simp_all add: tp)
    show "tapes d' = update_where (\<lambda>q. tape_id q = tape_id r)
        (\<lambda>q. q\<lparr>tape_slot := None, tape_shelf := Some i\<rparr>) (tapes d)"
      by (simp add: d' update_tape_def tp)
    show "others_kept (tape_id r) d d'"
      by (auto simp: d' others_kept_def tp dest!: rows_written intro: old)
  qed (use noslot nodrive in auto)
qed

end
