(* ===== verification/World.thy ===== *)
theory World
  imports Links Config Changer Placement
begin

text \<open>
  The state that the commands of \<^verbatim>\<open>vtladm\<close> work on: the catalogue, the file store, the
  configuration and the environment, the current library, and the loaded kernel module with its
  hosts. Faults outside the program are parameters of the state: \<open>fs_fault\<close> for the files,
  \<open>w_fault\<close> for the database (\<open>''init_db''\<close>: it cannot be opened, \<open>''commit''\<close>: a commit fails),
  \<open>k_dev\<close> for opening \<^verbatim>\<open>/dev/vtl\<close>. Log lines and terminal output are not part of the state.
\<close>

section \<open>The kernel module\<close>

record kernel =
  k_hosts :: "changer list"
  k_tapes :: "string list"
  k_dir :: path
  k_sysfs :: bool
  k_dev :: "errno option"
  k_admin :: bool

definition changer_get_instance :: "kernel \<Rightarrow> int \<Rightarrow> nat option" where
  "changer_get_instance k i =
     (if i < 0 \<or> int (length (k_hosts k)) \<le> i then None else Some (nat i))"

definition kernel_openable :: "fs \<Rightarrow> kernel \<Rightarrow> string \<Rightarrow> errno option" where
  "kernel_openable f k t =
     (case open_write (k_dir k @ [t @ ''.vtltape'']) f of
        Inr _ \<Rightarrow> None
      | Inl e \<Rightarrow> Some (case raw_os_error e of Some n \<Rightarrow> n | None \<Rightarrow> EIO))"

definition put_host :: "nat \<Rightarrow> changer \<Rightarrow> kernel \<Rightarrow> kernel" where
  "put_host i c k = k\<lparr>k_hosts := (k_hosts k)[i := c]\<rparr>"

text \<open>Each ioctl checks the capability, finds the changer, and runs one operation on it.\<close>

definition with_changer ::
    "int \<Rightarrow> (nat \<Rightarrow> changer \<Rightarrow> kernel \<Rightarrow> (errno + 'a) \<times> kernel) \<Rightarrow> kernel \<Rightarrow> (errno + 'a) \<times> kernel" where
  "with_changer inst f k =
     (if \<not> k_admin k then (Inl EPERM, k)
      else case changer_get_instance k inst of
          None \<Rightarrow> (Inl ENODEV, k)
        | Some i \<Rightarrow> f i (k_hosts k ! i) k)"

definition errno_result :: "errno option \<Rightarrow> errno + unit" where
  "errno_result r = (case r of None \<Rightarrow> Inr () | Some e \<Rightarrow> Inl e)"

definition ioctl_move_medium :: "int \<Rightarrow> int \<Rightarrow> int \<Rightarrow> kernel \<Rightarrow> (errno + unit) \<times> kernel" where
  "ioctl_move_medium inst src dst =
     with_changer inst (\<lambda>i c k. let (r, c') = move_medium src dst c in (errno_result r, put_host i c' k))"

definition ioctl_elem_remove :: "int \<Rightarrow> int \<Rightarrow> kernel \<Rightarrow> (errno + unit) \<times> kernel" where
  "ioctl_elem_remove inst e =
     with_changer inst (\<lambda>i c k. let (r, c') = remove_medium e c in (errno_result r, put_host i c' k))"

definition ioctl_unload_tape :: "int \<Rightarrow> int \<Rightarrow> int \<Rightarrow> kernel \<Rightarrow> (errno + unit) \<times> kernel" where
  "ioctl_unload_tape inst d s =
     with_changer inst (\<lambda>i c k.
       if s < 0 then (Inl EINVAL, k)
       else let (r, c') = unload_drive_to_slot d s c in (errno_result r, put_host i c' k))"

definition ioctl_load_tape :: "fs \<Rightarrow> int \<Rightarrow> int \<Rightarrow> int \<Rightarrow> string \<Rightarrow> kernel \<Rightarrow> (errno + unit) \<times> kernel" where
  "ioctl_load_tape f inst s d t =
     with_changer inst (\<lambda>i c k.
       let (r, tab, c') = load_slot_to_drive (kernel_openable f k) s d t (k_tapes k, c)
       in (errno_result r, put_host i c' (k\<lparr>k_tapes := tab\<rparr>)))"

definition ioctl_slot_place :: "fs \<Rightarrow> int \<Rightarrow> int \<Rightarrow> string \<Rightarrow> kernel \<Rightarrow> (errno + unit) \<times> kernel" where
  "ioctl_slot_place f inst s t =
     with_changer inst (\<lambda>i c k.
       case tape_open_existing (kernel_openable f k) t (k_tapes k) of
         Inl e \<Rightarrow> (Inl (if t = [] then EINVAL else e), k)
       | Inr tab \<Rightarrow>
           let (r, c') = slot_place s t c
           in (errno_result r, put_host i c' (k\<lparr>k_tapes := tab\<rparr>)))"

definition ioctl_get_inventory :: "int \<Rightarrow> kernel \<Rightarrow> (errno + (int \<times> string) list \<times> bool) \<times> kernel" where
  "ioctl_get_inventory inst = with_changer inst (\<lambda>i c k. (Inr (collect_inventory c), k))"

section \<open>The world\<close>

record world =
  w_db :: db
  w_tables :: bool
  w_fs :: fs
  w_cfg :: VtlConfig
  w_conf_file :: "string list option"
  w_env :: env
  w_lib :: string
  w_kernel :: kernel
  w_now :: string
  w_random :: "nat \<Rightarrow> 32 word"
  w_draws :: nat
  w_fault :: "string \<Rightarrow> bool"

type_synonym 'a cmd = "(world, VtlError, 'a) prog"

definition db_read :: "(db \<Rightarrow> VtlError + 'a) \<Rightarrow> 'a cmd" where
  "db_read f = from_result (\<lambda>w. f (w_db w))"

text \<open>A statement outside a transaction commits itself.\<close>

definition db_write :: "(db \<Rightarrow> VtlError + 'a \<times> db) \<Rightarrow> 'a cmd" where
  "db_write f w = (case f (w_db w) of Inl e \<Rightarrow> (Inl e, w) | Inr (x, d) \<Rightarrow> (Inr x, w\<lparr>w_db := d\<rparr>))"

text \<open>A transaction: its statements, then the commit.\<close>

definition db_tx :: "(db \<Rightarrow> VtlError + 'a \<times> db) \<Rightarrow> 'a cmd" where
  "db_tx f w =
     (case f (w_db w) of
        Inl e \<Rightarrow> (Inl e, w)
      | Inr (x, d) \<Rightarrow>
          if w_fault w ''commit'' then (Inl (DatabaseError ''commit''), w)
          else (Inr x, w\<lparr>w_db := d\<rparr>))"

definition fs_run :: "(fs, 'e, 'a) prog \<Rightarrow> (world, 'e, 'a) prog" where
  "fs_run = on_part w_fs (\<lambda>f w. w\<lparr>w_fs := f\<rparr>)"

definition fs_try :: "(fs \<Rightarrow> io_error + fs) \<Rightarrow> unit cmd" where
  "fs_try f = fs_run (map_err IoError (updating f))"

definition get_tape_dir :: "world \<Rightarrow> path" where
  "get_tape_dir w = path_of (cfg_tape_dir (w_cfg w))"

definition tape_image_path :: "world \<Rightarrow> string \<Rightarrow> string \<Rightarrow> path" where
  "tape_image_path w lib name =
     get_tape_dir w @ [sanitize_lib_dir_component lib, name @ ''.vtltape'']"

definition ensure_offline_library :: "int cmd" where
  "ensure_offline_library =
     bindp (bindp (gets (\<lambda>w. (find_library (w_db w) OFFLINE_LIBRARY_NAME, w_now w)))
              (\<lambda>(r, now). case r of
                  Some l \<Rightarrow> ret (lib_id l)
                | None \<Rightarrow> db_write (insert_library OFFLINE_LIBRARY_NAME now))) (\<lambda>lib.
     thenp (bindp (gets (\<lambda>w. count_where (\<lambda>r. shelf_lib r = lib \<and> shelf_default r = 1) (shelves (w_db w))))
              (\<lambda>n. if n = 0
                   then db_write (\<lambda>d. andThen (insert_shelf lib DEFAULT_UNUSED_SHELF_NAME 1 d)
                                        (\<lambda>d'. Inr ((), d')))
                   else ret ()))
     (bindp (gets (\<lambda>w. get_tape_dir w @ [sanitize_lib_dir_component OFFLINE_LIBRARY_NAME])) (\<lambda>dir.
      thenp (fs_try (create_dir_all dir)) (ret lib))))"

text \<open>
  \<^verbatim>\<open>init_db\<close> on a database of the current schema or an empty one: it creates the tables if there
  are none, and the offline library. (A database of the first schema is
  migrated before; that is modelled on its own, in theory Migration.)
\<close>

definition init_db :: "unit cmd" where
  "init_db =
     bindp (gets (\<lambda>w. (w_fault w ''init_db'', w_tables w))) (\<lambda>(bad, tables).
     thenp (checkp (\<not> bad) (DatabaseError ''unable to open database file'')) (
     thenp (if tables then bindp (attempt ensure_offline_library) (\<lambda>_. ret ())
            else thenp (modify (\<lambda>w. w\<lparr>w_db := create_fresh_v2_schema, w_tables := True\<rparr>))
                   (bindp ensure_offline_library (\<lambda>_. ret ()))) (
     bindp ensure_offline_library (\<lambda>_. ret ()))))"

definition current_library_id :: "int cmd" where
  "current_library_id = bindp (gets w_lib) (\<lambda>l. db_read (\<lambda>d. resolve_library_id d l))"

text \<open>
  \<^verbatim>\<open>link_kernel_tapes\<close>: the scan, then the module parameter \<^verbatim>\<open>tape_dir\<close> (when the module is
  loaded), then the refusal of conflicts.
\<close>

definition sync_module_tape_dir :: "unit cmd" where
  "sync_module_tape_dir =
     modify (\<lambda>w. if k_sysfs (w_kernel w) \<and> get_tape_dir w \<noteq> []
                 then w\<lparr>w_kernel := (w_kernel w)\<lparr>k_dir := get_tape_dir w\<rparr>\<rparr> else w)"

definition link_kernel_tapes :: "link_report cmd" where
  "link_kernel_tapes =
     bindp (gets get_tape_dir) (\<lambda>root.
     bindp (fs_run (link_tapes_below root)) (\<lambda>r.
     thenp sync_module_tape_dir
     (thenp (checkp (lr_conflicts r = 0)
               (InvalidParameter ''link_kernel_tapes: conflicting tape names at the root''))
        (ret r))))"

end
