(* ===== verification/ScsiTools.thy ===== *)
theory ScsiTools
  imports World
begin

text \<open>
  The probes and commands around the kernel module that leave the program: the SCSI device
  listing, \<^verbatim>\<open>fuser\<close>, the LIO configuration tree and \<^verbatim>\<open>targetcli\<close> (\<^verbatim>\<open>scsi_tape_holders.rs\<close>,
  \<^verbatim>\<open>lio_hold.rs\<close>), and the rescan of SCSI hosts (\<^verbatim>\<open>scsi_rescan_vtl.rs\<close>).

  What the world outside answers is the record \<open>outside\<close>: each answer may depend on everything
  that happened before, which is the history of events. The answers of the two probes are
  recorded in the history as well, so that a property can say what was known when an action was
  taken.
\<close>

section \<open>Text\<close>

definition strip_cr :: "string \<Rightarrow> string" where
  "strip_cr l = (if l \<noteq> [] \<and> last l = CHR 0x0D then butlast l else l)"

definition text_lines :: "string \<Rightarrow> string list" where
  "text_lines s =
     (let ls = split_on (CHR 0x0A) s
      in map strip_cr (if last ls = [] then butlast ls else ls))"

fun split_whitespace_acc :: "string \<Rightarrow> string \<Rightarrow> string list" where
  "split_whitespace_acc w [] = (if w = [] then [] else [rev w])"
| "split_whitespace_acc w (c # cs) =
     (if is_ws c then (if w = [] then [] else [rev w]) @ split_whitespace_acc [] cs
      else split_whitespace_acc (c # w) cs)"

definition split_whitespace :: "string \<Rightarrow> string list" where
  "split_whitespace = split_whitespace_acc []"

fun dedup_by :: "('a \<Rightarrow> 'b) \<Rightarrow> 'a list \<Rightarrow> 'a list" where
  "dedup_by f [] = []"
| "dedup_by f [x] = [x]"
| "dedup_by f (x # y # xs) = (if f x = f y then dedup_by f (x # xs) else x # dedup_by f (y # xs))"

section \<open>Events and answers\<close>

datatype VtlHoldersProbe = Clear | Busy | FuserUnavailable

datatype geom_event =
    Asked
  | Probed VtlHoldersProbe
  | LioChecked bool
  | ScanWrite nat
  | SetInstances string
  | ResizeGeometry string
  | KernelctlReload
  | ReloadScript string string "(string \<times> string) list"
  | CacheWrite string

datatype conf_tree = ConfDir "conf_tree list" | ConfFile "string option"

record scsi_host =
  host_name :: string
  host_scan :: bool
  host_proc :: "string option"

record outside =
  o_sysfs_spec :: "geom_event list \<Rightarrow> string option"
  o_fuser :: "geom_event list \<Rightarrow> bool"
  o_lsscsi :: "geom_event list \<Rightarrow> string option"
  o_held :: "geom_event list \<Rightarrow> string \<Rightarrow> bool"
  o_configfs :: "geom_event list \<Rightarrow> conf_tree list option"
  o_targetcli :: "geom_event list \<Rightarrow> string option"
  o_scsi_hosts :: "geom_event list \<Rightarrow> scsi_host list option"
  o_scan_write :: "geom_event list \<Rightarrow> nat \<Rightarrow> bool"
  o_cache_write :: "geom_event list \<Rightarrow> bool"
  o_set_instances :: "geom_event list \<Rightarrow> string \<Rightarrow> kernel \<Rightarrow> errno option \<times> kernel"
  o_reload :: "geom_event list \<Rightarrow> kernel \<Rightarrow> bool \<times> kernel"
  o_script :: "geom_event list \<Rightarrow> kernel \<Rightarrow> bool \<times> kernel"

record site =
  st_world :: world
  st_hist :: "geom_event list"
  st_cache :: "string option"

type_synonym ('e, 'a) site_prog = "(site, 'e, 'a) prog"

definition note_event :: "geom_event \<Rightarrow> site \<Rightarrow> site" where
  "note_event ev s = s\<lparr>st_hist := st_hist s @ [ev]\<rparr>"

definition emit :: "geom_event \<Rightarrow> ('e, unit) site_prog" where
  "emit ev = modify (note_event ev)"

definition ask :: "(geom_event list \<Rightarrow> 'a) \<Rightarrow> ('e, 'a) site_prog" where
  "ask f = bindp (gets (\<lambda>s. f (st_hist s))) (\<lambda>x. thenp (emit Asked) (ret x))"

section \<open>Holders of device nodes\<close>

definition dev_tokens :: "string \<Rightarrow> string list" where
  "dev_tokens line =
     filter (\<lambda>t. case strip_prefix ''/dev/'' t of None \<Rightarrow> False | Some r \<Rightarrow> r \<noteq> [])
       (split_whitespace line)"

definition parse_vtl_paths_from_lsscsi :: "string \<Rightarrow> string list" where
  "parse_vtl_paths_from_lsscsi text =
     dedup_by path_of
       (sort_key path_of
          (concat (map dev_tokens (filter (contains_sub ''VTL'') (text_lines text)))))"

definition vtl_scsi_device_paths :: "outside \<Rightarrow> ('e, string list) site_prog" where
  "vtl_scsi_device_paths out =
     bindp (ask (o_lsscsi out)) (\<lambda>t.
       ret (case t of None \<Rightarrow> [] | Some text \<Rightarrow> parse_vtl_paths_from_lsscsi text))"

fun any_held :: "outside \<Rightarrow> string list \<Rightarrow> ('e, bool) site_prog" where
  "any_held out [] = ret False"
| "any_held out (p # ps) =
     bindp (ask (\<lambda>h. o_held out h p)) (\<lambda>b. if b then ret True else any_held out ps)"

definition probe_vtl_device_holders :: "outside \<Rightarrow> ('e, VtlHoldersProbe) site_prog" where
  "probe_vtl_device_holders out =
     bindp (bindp (ask (o_fuser out)) (\<lambda>f.
              if \<not> f then ret FuserUnavailable
              else bindp (vtl_scsi_device_paths out) (\<lambda>ps.
                     if ps = [] then ret Clear
                     else bindp (any_held out ps) (\<lambda>b. ret (if b then Busy else Clear)))))
       (\<lambda>v. thenp (emit (Probed v)) (ret v))"

text \<open>True when a reload of the module must not run.\<close>

definition refuse_rmmod_for_safety :: "env \<Rightarrow> outside \<Rightarrow> ('e, bool) site_prog" where
  "refuse_rmmod_for_safety e out =
     (if e ''VTL_FORCE_RMMOD'' = Some ''1'' then ret False
      else bindp (probe_vtl_device_holders out) (\<lambda>v. ret (v = Busy \<or> v = FuserUnavailable)))"

section \<open>Exports through LIO\<close>

fun tree_mentions :: "string \<Rightarrow> conf_tree \<Rightarrow> bool" where
  "tree_mentions needle (ConfDir ts) = list_ex (tree_mentions needle) ts"
| "tree_mentions needle (ConfFile c) = (case c of None \<Rightarrow> False | Some s \<Rightarrow> contains_sub needle s)"

definition lio_pscsi_references_vtl_sg :: "outside \<Rightarrow> ('e, bool) site_prog" where
  "lio_pscsi_references_vtl_sg out =
     bindp (bindp (vtl_scsi_device_paths out) (\<lambda>ps.
              if ps = [] then ret False
              else bindp (ask (o_configfs out)) (\<lambda>cfs.
                     if (case cfs of None \<Rightarrow> False
                         | Some ts \<Rightarrow> list_ex (\<lambda>p. list_ex (tree_mentions p) ts) ps)
                     then ret True
                     else bindp (ask (o_targetcli out)) (\<lambda>t.
                            ret (case t of None \<Rightarrow> False
                                 | Some text \<Rightarrow> list_ex (\<lambda>p. contains_sub p text) ps)))))
       (\<lambda>b. thenp (emit (LioChecked b)) (ret b))"

section \<open>Rescanning the SCSI hosts\<close>

definition scsi_host_dir_index :: "string \<Rightarrow> nat option" where
  "scsi_host_dir_index name =
     Option.bind (strip_prefix ''host'' name) (parse_unsigned u32_max)"

text \<open>The hosts of the driver \<open>vtl\<close>, as positions in the listing, in the order of their numbers.\<close>

definition is_vtl_host :: "scsi_host \<Rightarrow> bool" where
  "is_vtl_host h \<longleftrightarrow> starts_with ''host'' (host_name h) \<and> host_scan h \<and>
     trim (case host_proc h of None \<Rightarrow> [] | Some s \<Rightarrow> s) = ''vtl''"

definition host_sort_index :: "scsi_host \<Rightarrow> nat" where
  "host_sort_index h = (case scsi_host_dir_index (host_name h) of None \<Rightarrow> u32_max | Some n \<Rightarrow> n)"

definition scan_targets :: "scsi_host list \<Rightarrow> (nat \<times> scsi_host) list" where
  "scan_targets hs =
     sort_key (\<lambda>p. host_sort_index (snd p)) (filter (\<lambda>p. is_vtl_host (snd p)) (enumerate 0 hs))"

fun write_scans :: "outside \<Rightarrow> nat list \<Rightarrow> ('e, bool) site_prog" where
  "write_scans out [] = ret True"
| "write_scans out (i # is) =
     bindp (gets (\<lambda>s. o_scan_write out (st_hist s) i)) (\<lambda>ok.
       if ok then thenp (emit (ScanWrite i)) (write_scans out is) else ret False)"

definition scsi_rescan_vtl_hosts :: "outside \<Rightarrow> ('e, bool) site_prog" where
  "scsi_rescan_vtl_hosts out =
     bindp (ask (o_scsi_hosts out)) (\<lambda>hs.
       case hs of
         None \<Rightarrow> ret False
       | Some l \<Rightarrow> if scan_targets l = [] then ret False else write_scans out (map fst (scan_targets l)))"

definition try_scsi_rescan_after_geom_change :: "env \<Rightarrow> outside \<Rightarrow> ('e, string) site_prog" where
  "try_scsi_rescan_after_geom_change e out =
     (if e ''VTL_NO_SCSI_RESCAN_AFTER_GEOM'' = Some ''1'' then ret ''skipped''
      else bindp (scsi_rescan_vtl_hosts out) (\<lambda>ok. ret (if ok then ''ok'' else ''failed'')))"

section \<open>Lemmas\<close>

lemma note_event_sel [simp]:
  "st_hist (note_event ev s) = st_hist s @ [ev]" "st_world (note_event ev s) = st_world s"
  "st_cache (note_event ev s) = st_cache s"
  by (simp_all add: note_event_def)

lemma emit_run [simp]: "emit ev s = (Inr (), note_event ev s)"
  by (simp add: emit_def)

lemma dedup_by_ne [simp]: "dedup_by f (x # xs) \<noteq> []"
  by (induction xs arbitrary: x) auto

lemma hd_dedup_by [simp]: "hd (dedup_by f (x # xs)) = x"
proof (induction xs arbitrary: x)
  case (Cons y ys)
  then show ?case by (cases "f x = f y") auto
qed simp

lemma set_dedup_by: "set (dedup_by f xs) \<subseteq> set xs"
  by (induction f xs rule: dedup_by.induct) auto

lemma dedup_by_covers: "x \<in> set xs \<Longrightarrow> \<exists>y \<in> set (dedup_by f xs). f y = f x"
proof (induction f xs arbitrary: x rule: dedup_by.induct)
  case (3 f u v vs)
  show ?case
  proof (cases "f u = f v")
    case True
    have "(if x = v then u else x) \<in> set (u # vs)" using "3.prems" by auto
    from "3.IH"(1) [OF True this] True show ?thesis by (auto split: if_splits)
  next
    case False
    with 3 show ?thesis by auto
  qed
qed auto

lemma dedup_by_sorted:
  fixes f :: "'a \<Rightarrow> 'b :: linorder"
  assumes "sorted (map f xs)"
  shows "sorted (map f (dedup_by f xs)) \<and> distinct (map f (dedup_by f xs))"
  using assms
proof (induction f xs rule: dedup_by.induct)
  case (3 f x y xs)
  show ?case
  proof (cases "f x = f y")
    case True
    with 3 show ?thesis by auto
  next
    case False
    with 3 have IH: "sorted (map f (dedup_by f (y # xs)))" "distinct (map f (dedup_by f (y # xs)))"
      by auto
    have lt: "f x < f z" if "z \<in> set (dedup_by f (y # xs))" for z
    proof -
      from that have "z \<in> set (y # xs)" using set_dedup_by [of f "y # xs"] by blast
      then have "f y \<le> f z" and "f x \<le> f y" using "3.prems" by auto
      with False show ?thesis by auto
    qed
    from False have "dedup_by f (x # y # xs) = x # dedup_by f (y # xs)" by simp
    moreover have "f x \<notin> f ` set (dedup_by f (y # xs))" using lt by (metis imageE less_irrefl)
    ultimately show ?thesis using IH lt by (auto simp: less_imp_le)
  qed
qed auto

text \<open>The listing: exactly the device tokens of the lines that mention VTL, each path once, sorted.\<close>

lemma vtl_paths_sorted_distinct:
  "sorted (map path_of (parse_vtl_paths_from_lsscsi t)) \<and>
   distinct (map path_of (parse_vtl_paths_from_lsscsi t))"
  unfolding parse_vtl_paths_from_lsscsi_def by (rule dedup_by_sorted) simp

lemma vtl_paths_sound:
  "p \<in> set (parse_vtl_paths_from_lsscsi t) \<Longrightarrow>
   \<exists>l \<in> set (text_lines t). contains_sub ''VTL'' l \<and> p \<in> set (dev_tokens l)"
  unfolding parse_vtl_paths_from_lsscsi_def by (auto dest!: subsetD [OF set_dedup_by])

lemma vtl_paths_complete:
  "l \<in> set (text_lines t) \<Longrightarrow> contains_sub ''VTL'' l \<Longrightarrow> p \<in> set (dev_tokens l) \<Longrightarrow>
   \<exists>q \<in> set (parse_vtl_paths_from_lsscsi t). path_of q = path_of p"
  unfolding parse_vtl_paths_from_lsscsi_def by (rule dedup_by_covers) auto

text \<open>The scan goes over exactly the \<open>vtl\<close> hosts, in the order of their numbers.\<close>

lemma set_scan_targets:
  "set (scan_targets hs) = {(i, hs ! i) | i. i < length hs \<and> is_vtl_host (hs ! i)}"
  by (auto simp: scan_targets_def in_set_enumerate_eq)

lemma sorted_scan_targets: "sorted (map (\<lambda>p. host_sort_index (snd p)) (scan_targets hs))"
  by (simp add: scan_targets_def)

lemma distinct_scan_targets: "distinct (map fst (scan_targets hs))"
  by (auto simp: scan_targets_def distinct_map inj_on_def in_set_enumerate_eq intro: distinct_filter
      distinct_enumerate)

end
