(* ===== verification/KernelGeom.thy ===== *)
theory KernelGeom
  imports World
begin

text \<open>
  The geometry of the kernel module: the parser of the \<^verbatim>\<open>vtl_instances\<close> string
  (\<^verbatim>\<open>vtl_parse_spec_tokens\<close> in \<^verbatim>\<open>vtl_main.c\<close>) and the resize of live hosts
  (\<^verbatim>\<open>vtl_apply_geom_resize_only\<close>). A host's geometry is the lengths of its drive and slot arrays.
  The arrays of the module have their full size always, and the elements beyond the current
  geometry are empty; here they are not in the lists, and reappear empty when a host grows. The module is not being removed:
  a process that has \<^verbatim>\<open>/dev/vtl\<close> open holds a reference to it.
\<close>

definition VTL_MAX_DRIVES :: int where "VTL_MAX_DRIVES = 8"
definition VTL_MAX_SCSI_INSTANCES :: nat where "VTL_MAX_SCSI_INSTANCES = 8"

text \<open>The kernel's \<open>sscanf\<close> conversion \<open>%d\<close>: white space, a minus sign, digits.\<close>

definition scan_d :: "string \<Rightarrow> (int \<times> string) option" where
  "scan_d s =
     (let t = dropWhile is_ws s;
          neg = (t \<noteq> [] \<and> hd t = CHR ''-'');
          u = (if neg then tl t else t);
          ds = takeWhile is_ascii_digit u
      in if ds = [] then None
         else Some (wrap_i32 (if neg then - int (dec_val ds) else int (dec_val ds)),
                    dropWhile is_ascii_digit u))"

definition scan_dxd :: "string \<Rightarrow> (int \<times> int) option" where
  "scan_dxd s =
     (case scan_d s of
        Some (d, CHR ''x'' # r) \<Rightarrow> (case scan_d r of Some (n, _) \<Rightarrow> Some (d, n) | None \<Rightarrow> None)
      | _ \<Rightarrow> None)"

definition clamp :: "int \<Rightarrow> int \<Rightarrow> int \<Rightarrow> int" where
  "clamp lo hi x = (if x < lo then lo else if hi < x then hi else x)"

definition is_blank :: "char \<Rightarrow> bool" where
  "is_blank c = (c = CHR '' '' \<or> c = CHR 0x09)"

fun parse_tokens :: "string list \<Rightarrow> (int \<times> int) list \<Rightarrow> errno + (int \<times> int) list" where
  "parse_tokens [] out = Inr out"
| "parse_tokens (tok # toks) out =
     (let t = dropWhile is_blank tok
      in if t = [] then parse_tokens toks out
         else case scan_dxd t of
             None \<Rightarrow> Inl EINVAL
           | Some (d, s) \<Rightarrow>
               if VTL_MAX_SCSI_INSTANCES \<le> length out then Inl EINVAL
               else parse_tokens toks
                      (out @ [(clamp 1 VTL_MAX_DRIVES d, clamp 1 (int VTL_MAX_SLOTS) s)]))"

definition vtl_parse_spec_tokens :: "string \<Rightarrow> errno + (int \<times> int) list" where
  "vtl_parse_spec_tokens spec =
     (if spec = [] then Inl EINVAL
      else case parse_tokens (split_on (CHR '','') spec) [] of
          Inl e \<Rightarrow> Inl e
        | Inr out \<Rightarrow> if out = [] then Inl EINVAL else Inr out)"

section \<open>Resizing\<close>

definition geometry :: "changer \<Rightarrow> int \<times> int" where
  "geometry c = (int (length (ch_drives c)), int (length (ch_slots c)))"

definition prepare_shrink :: "int \<Rightarrow> int \<Rightarrow> changer \<Rightarrow> errno option" where
  "prepare_shrink nd ns c =
     (if list_ex (\<lambda>x. x \<noteq> None) (drop (nat nd) (ch_drives c)) then Some EBUSY
      else if list_ex (\<lambda>x. x \<noteq> None) (drop (nat ns) (ch_slots c)) then Some EBUSY
      else None)"

definition resize_elems :: "nat \<Rightarrow> string option list \<Rightarrow> string option list" where
  "resize_elems n xs = take n xs @ replicate (n - length xs) None"

definition resize_host :: "int \<times> int \<Rightarrow> changer \<Rightarrow> errno option \<times> changer" where
  "resize_host g c =
     (let d = clamp 1 VTL_MAX_DRIVES (fst g); s = clamp 1 (int VTL_MAX_SLOTS) (snd g)
      in if (d, s) = geometry c then (None, c)
         else case (if d < fst (geometry c) \<or> s < snd (geometry c) then prepare_shrink d s c else None) of
             Some e \<Rightarrow> (Some e, c)
           | None \<Rightarrow> (None, c\<lparr>ch_drives := resize_elems (nat d) (ch_drives c),
                               ch_slots := resize_elems (nat s) (ch_slots c)\<rparr>))"

text \<open>
  The loop over the hosts. When a host refuses, the hosts before it are set back to the saved
  geometry (\<open>snap\<close>), and the call fails with \<open>EIO\<close>.
\<close>

fun resize_loop :: "(int \<times> int) list \<Rightarrow> (int \<times> int) list \<Rightarrow> changer list \<Rightarrow> changer list
    \<Rightarrow> errno option \<times> changer list" where
  "resize_loop (g # gs) snap acc (c # cs) =
     (case resize_host g c of
        (Some e, c') \<Rightarrow>
          (Some EIO, map2 (\<lambda>g0 c0. snd (resize_host g0 c0)) (take (length acc) snap) acc @ c' # cs)
      | (None, c') \<Rightarrow> resize_loop gs snap (acc @ [c']) cs)"
| "resize_loop gs snap acc cs = (None, acc @ cs)"

definition vtl_apply_geom_resize_only :: "string \<Rightarrow> kernel \<Rightarrow> errno option \<times> kernel" where
  "vtl_apply_geom_resize_only spec k =
     (case vtl_parse_spec_tokens spec of
        Inl e \<Rightarrow> (Some e, k)
      | Inr gs \<Rightarrow>
          if length gs \<noteq> length (k_hosts k) then (Some EINVAL, k)
          else if gs = map geometry (k_hosts k) then (None, k)
          else let (r, hs) = resize_loop gs (map geometry (k_hosts k)) [] (k_hosts k)
               in (r, k\<lparr>k_hosts := hs\<rparr>))"

definition ioctl_resize_geometry :: "string \<Rightarrow> kernel \<Rightarrow> errno option \<times> kernel" where
  "ioctl_resize_geometry spec k =
     (if \<not> k_admin k then (Some EPERM, k) else vtl_apply_geom_resize_only spec k)"

section \<open>Lemmas\<close>

lemma clamp_range: "lo \<le> hi \<Longrightarrow> lo \<le> clamp lo hi x \<and> clamp lo hi x \<le> hi"
  by (simp add: clamp_def)

lemma clamp_id: "lo \<le> x \<Longrightarrow> x \<le> hi \<Longrightarrow> clamp lo hi x = x"
  by (simp add: clamp_def)

text \<open>A geometry the module can have.\<close>

definition geometry_valid :: "int \<times> int \<Rightarrow> bool" where
  "geometry_valid g \<longleftrightarrow> 1 \<le> fst g \<and> fst g \<le> VTL_MAX_DRIVES \<and> 1 \<le> snd g \<and> snd g \<le> int VTL_MAX_SLOTS"

lemma clamp_valid: "geometry_valid (clamp 1 VTL_MAX_DRIVES d, clamp 1 (int VTL_MAX_SLOTS) s)"
  by (simp add: geometry_valid_def clamp_def VTL_MAX_DRIVES_def VTL_MAX_SLOTS_def)

lemma clamp_of_valid:
  "geometry_valid g \<Longrightarrow> clamp 1 VTL_MAX_DRIVES (fst g) = fst g \<and> clamp 1 (int VTL_MAX_SLOTS) (snd g) = snd g"
  by (simp add: geometry_valid_def clamp_def)

lemma parse_tokens_valid:
  "parse_tokens toks out = Inr gs \<Longrightarrow> list_all geometry_valid out \<Longrightarrow> length out \<le> VTL_MAX_SCSI_INSTANCES \<Longrightarrow>
   list_all geometry_valid gs \<and> length gs \<le> VTL_MAX_SCSI_INSTANCES"
proof (induction toks arbitrary: out)
  case (Cons tok toks)
  show ?case
  proof (cases "dropWhile is_blank tok = []")
    case True
    with Cons show ?thesis by (simp del: dropWhile_eq_Nil_conv)
  next
    case False
    with Cons.prems obtain d s where "\<not> VTL_MAX_SCSI_INSTANCES \<le> length out"
      "parse_tokens toks (out @ [(clamp 1 VTL_MAX_DRIVES d, clamp 1 (int VTL_MAX_SLOTS) s)]) = Inr gs"
      by (auto simp del: dropWhile_eq_Nil_conv split: if_splits option.splits)
    with Cons show ?thesis by (simp add: clamp_valid)
  qed
qed simp

lemma vtl_parse_spec_tokens_valid:
  "vtl_parse_spec_tokens spec = Inr gs \<Longrightarrow>
   list_all geometry_valid gs \<and> gs \<noteq> [] \<and> length gs \<le> VTL_MAX_SCSI_INSTANCES"
  by (auto simp: vtl_parse_spec_tokens_def dest: parse_tokens_valid split: if_splits sum.splits)

lemma resize_elems_length [simp]: "length (resize_elems n xs) = n"
  by (simp add: resize_elems_def)

lemma resize_elems_same [simp]: "resize_elems (length xs) xs = xs"
  by (simp add: resize_elems_def)

text \<open>What the media of a host are, in the order of the elements.\<close>

definition media :: "changer \<Rightarrow> string list" where
  "media c = List.map_filter id (ch_drives c) @ List.map_filter id (ch_slots c) @
     List.map_filter id (ch_mail c)"

lemma map_filter_all_None [simp]: "list_all (\<lambda>x. x = None) xs \<Longrightarrow> List.map_filter id xs = []"
  by (induction xs) (auto simp: List.map_filter_def)

lemma map_filter_append: "List.map_filter f (xs @ ys) = List.map_filter f xs @ List.map_filter f ys"
  by (simp add: List.map_filter_def)

lemma map_filter_resize:
  assumes "\<not> list_ex (\<lambda>x. x \<noteq> None) (drop n xs)"
  shows "List.map_filter id (resize_elems n xs) = List.map_filter id xs"
proof -
  have "List.map_filter id (drop n xs) = []"
    using assms by (intro map_filter_all_None) (simp add: list_all_iff list_ex_iff)
  then have "List.map_filter id xs = List.map_filter id (take n xs)"
    by (metis append_take_drop_id map_filter_append append_Nil2)
  then show ?thesis
    by (simp add: resize_elems_def map_filter_append list_all_iff)
qed

text \<open>Resizing there and back is the identity when the growth or shrinkage was allowed.\<close>

lemma resize_elems_back:
  assumes "\<not> list_ex (\<lambda>x. x \<noteq> None) (drop n xs)"
  shows "resize_elems (length xs) (resize_elems n xs) = xs"
proof -
  have all: "drop n xs = replicate (length xs - n) None"
    using assms by (simp add: list_ex_iff replicate_eqI)
  show ?thesis
  proof (cases "n \<le> length xs")
    case True
    then have "resize_elems (length xs) (resize_elems n xs) = take n xs @ drop n xs"
      unfolding all by (simp add: resize_elems_def min_def)
    then show ?thesis by simp
  next
    case False
    then show ?thesis by (simp add: resize_elems_def)
  qed
qed

lemma no_occupied_beyond: "length xs \<le> n \<Longrightarrow> \<not> list_ex (\<lambda>x. x \<noteq> None) (drop n xs)"
  by simp

lemma not_occupied_resized:
  "\<not> list_ex (\<lambda>x. x \<noteq> None) (drop (length xs) (resize_elems n xs))"
  by (simp add: resize_elems_def list_ex_iff)

text \<open>The cases of one host's resize.\<close>

lemma resize_host_cases:
  assumes "resize_host g c = (r, c')" and "geometry_valid g"
  obtains (refused) e where "r = Some e" "c' = c"
  | (resized) "r = None"
      "\<not> list_ex (\<lambda>x. x \<noteq> None) (drop (nat (fst g)) (ch_drives c))"
      "\<not> list_ex (\<lambda>x. x \<noteq> None) (drop (nat (snd g)) (ch_slots c))"
      "c' = c\<lparr>ch_drives := resize_elems (nat (fst g)) (ch_drives c),
              ch_slots := resize_elems (nat (snd g)) (ch_slots c)\<rparr>"
proof (cases r)
  case (Some e)
  with assms have "c' = c"
    by (auto simp: resize_host_def Let_def split: if_splits option.splits)
  with Some refused show ?thesis by blast
next
  case None
  note g = clamp_of_valid [OF assms(2)]
  show ?thesis
  proof (cases "(fst g, snd g) = geometry c")
    case True
    then have "nat (fst g) = length (ch_drives c)" "nat (snd g) = length (ch_slots c)"
      by (simp_all add: geometry_def)
    moreover from True assms(1) g have "c' = c" by (simp add: resize_host_def)
    ultimately show ?thesis using None resized by simp
  next
    case False
    define chk where "chk = (if fst g < fst (geometry c) \<or> snd g < snd (geometry c)
      then prepare_shrink (fst g) (snd g) c else None)"
    from assms(1) g False None have chk: "chk = None" and
      c': "c' = c\<lparr>ch_drives := resize_elems (nat (fst g)) (ch_drives c),
              ch_slots := resize_elems (nat (snd g)) (ch_slots c)\<rparr>"
      by (auto simp: resize_host_def Let_def chk_def split: option.splits if_splits)
    have "\<not> list_ex (\<lambda>x. x \<noteq> None) (drop (nat (fst g)) (ch_drives c)) \<and>
          \<not> list_ex (\<lambda>x. x \<noteq> None) (drop (nat (snd g)) (ch_slots c))"
    proof (cases "fst g < fst (geometry c) \<or> snd g < snd (geometry c)")
      case True
      with chk show ?thesis by (auto simp: chk_def prepare_shrink_def split: if_splits)
    next
      case False
      then show ?thesis by (intro conjI no_occupied_beyond) (auto simp: geometry_def)
    qed
    with c' None resized show ?thesis by blast
  qed
qed

lemma resize_host_media:
  assumes "resize_host g c = (r, c')" and "geometry_valid g"
  shows "media c' = media c"
  using assms by (cases rule: resize_host_cases) (auto simp: media_def map_filter_resize)

lemma resize_host_geometry:
  assumes "resize_host g c = (None, c')" and "geometry_valid g"
  shows "geometry c' = g"
  using assms
proof (cases rule: resize_host_cases)
  case resized
  with assms(2) show ?thesis by (simp add: geometry_def geometry_valid_def prod_eq_iff)
qed auto

text \<open>Setting a host back to its former geometry undoes an allowed resize.\<close>

lemma resize_host_back:
  assumes "resize_host g c = (None, c')" and "geometry_valid g" and "geometry_valid (geometry c)"
  shows "snd (resize_host (geometry c) c') = c"
  using assms(1,2)
proof (cases rule: resize_host_cases)
  case resized
  define e where "e = geometry c"
  have e: "clamp 1 VTL_MAX_DRIVES (fst e) = fst e" "clamp 1 (int VTL_MAX_SLOTS) (snd e) = snd e"
    using clamp_of_valid [OF assms(3)] by (simp_all add: e_def)
  have n: "nat (fst e) = length (ch_drives c)" "nat (snd e) = length (ch_slots c)"
    by (simp_all add: e_def geometry_def)
  have free: "prepare_shrink (fst e) (snd e) c' = None"
    using resized(4) not_occupied_resized by (simp add: prepare_shrink_def n)
  have "c'\<lparr>ch_drives := resize_elems (nat (fst e)) (ch_drives c'),
           ch_slots := resize_elems (nat (snd e)) (ch_slots c')\<rparr> = c"
    using resized by (simp add: n resize_elems_back)
  moreover have "geometry c' = e \<Longrightarrow> c' = c"
  proof -
    assume "geometry c' = e"
    then have "length (ch_drives c') = length (ch_drives c)" "length (ch_slots c') = length (ch_slots c)"
      by (simp_all add: e_def geometry_def)
    with resized(4) show "c' = c" by simp
  qed
  ultimately have "snd (resize_host e c') = c"
    using free e by (simp add: resize_host_def Let_def)
  then show ?thesis by (simp add: e_def)
qed auto

text \<open>
  The whole loop: either every host has its new geometry and the media it had, or one refused
  and all hosts are what they were.
\<close>

lemma resize_loop_spec:
  assumes "resize_loop gs (map geometry (cs0 @ cs)) acc cs = (r, hs)"
    and "list_all2 (\<lambda>c0 a. snd (resize_host (geometry c0) a) = c0 \<and> media a = media c0) cs0 acc"
    and "length gs = length cs" and "list_all geometry_valid gs"
    and "list_all (\<lambda>c. geometry_valid (geometry c)) cs"
  shows "r = None \<and> map geometry hs = map geometry acc @ gs \<and> map media hs = map media (cs0 @ cs) \<or>
         r = Some EIO \<and> hs = cs0 @ cs"
  using assms
proof (induction gs arbitrary: cs0 cs acc)
  case Nil
  have "map media acc = map media cs0"
    using Nil.prems(2) by (induction rule: list_all2_induct) auto
  with Nil show ?case by auto
next
  case (Cons g gs)
  then obtain c cs' where cs: "cs = c # cs'" by (cases cs) auto
  obtain r1 c' where step: "resize_host g c = (r1, c')" by (cases "resize_host g c")
  have valid: "geometry_valid g" "geometry_valid (geometry c)" using Cons.prems cs by auto
  show ?case
  proof (cases r1)
    case (Some e)
    have "c' = c" using step valid Some by (cases rule: resize_host_cases) auto
    moreover have "map2 (\<lambda>g0 c0. snd (resize_host g0 c0)) (map geometry cs0) acc = cs0"
      using Cons.prems(2) by (induction rule: list_all2_induct) auto
    ultimately show ?thesis
      using Cons.prems Some step cs list_all2_lengthD [OF Cons.prems(2)] by auto
  next
    case None
    have "snd (resize_host (geometry c) c') = c" and m: "media c' = media c" and g: "geometry c' = g"
      using step None valid by (auto dest: resize_host_back resize_host_media resize_host_geometry)
    then have "list_all2 (\<lambda>c0 a. snd (resize_host (geometry c0) a) = c0 \<and> media a = media c0)
        (cs0 @ [c]) (acc @ [c'])"
      using Cons.prems(2) by (simp add: list_all2_appendI)
    then show ?thesis
      using Cons.IH [of "cs0 @ [c]" cs' "acc @ [c']"] Cons.prems None step cs g by simp
  qed
qed

lemma geom_resize_only_spec:
  assumes "vtl_apply_geom_resize_only spec k = (r, k')"
    and "list_all (\<lambda>c. geometry_valid (geometry c)) (k_hosts k)"
  shows "map media (k_hosts k') = map media (k_hosts k) \<and>
    (r = None \<longrightarrow> vtl_parse_spec_tokens spec = Inr (map geometry (k_hosts k'))) \<and>
    (r \<noteq> None \<longrightarrow> k' = k)"
proof (cases "vtl_parse_spec_tokens spec")
  case (Inl e)
  with assms show ?thesis by (auto simp: vtl_apply_geom_resize_only_def)
next
  case (Inr gs)
  have valid: "list_all geometry_valid gs" using Inr vtl_parse_spec_tokens_valid by blast
  show ?thesis
  proof (cases "length gs \<noteq> length (k_hosts k) \<or> gs = map geometry (k_hosts k)")
    case True
    with assms Inr show ?thesis by (auto simp: vtl_apply_geom_resize_only_def split: if_splits)
  next
    case False
    obtain hs where loop: "resize_loop gs (map geometry (k_hosts k)) [] (k_hosts k) = (r, hs)"
      and k': "k' = k\<lparr>k_hosts := hs\<rparr>"
      using assms(1) Inr False by (auto simp: vtl_apply_geom_resize_only_def split: prod.splits)
    from resize_loop_spec [of gs "[]" "k_hosts k" "[]" r hs] loop False valid assms(2)
    show ?thesis using k' Inr by auto
  qed
qed

end
