(* ===== verification/Places.thy ===== *)
theory Places
  imports Placement
begin

text \<open>
  The abstract view of the catalogue: each tape has at most one place. The transactions of the
  theory \<open>Placement\<close> refine single updates of this map, so that moving one tape leaves the place
  of every other tape alone, and a tape is never left without a place as long as the addressed
  slot or drive exists.
\<close>

datatype place = OnShelf int | InSlot int int | InDrive int int

definition slot_addr_of :: "db \<Rightarrow> int \<Rightarrow> (int \<times> int) option" where
  "slot_addr_of d t =
     map_option (\<lambda>r. (slot_lib r, slot_no r)) (List.find (\<lambda>r. slot_tape r = Some t) (slots d))"

definition drive_addr_of :: "db \<Rightarrow> int \<Rightarrow> (int \<times> int) option" where
  "drive_addr_of d t =
     map_option (\<lambda>r. (drive_lib r, drive_no r)) (List.find (\<lambda>r. drive_tape r = Some t) (drives d))"

definition shelf_of :: "db \<Rightarrow> int \<Rightarrow> int option" where
  "shelf_of d t = Option.bind (tape_by_id d t) tape_shelf"

definition places :: "db \<Rightarrow> int \<Rightarrow> place option" where
  "places d t =
     (case drive_addr_of d t of
        Some (l, k) \<Rightarrow> Some (InDrive l k)
      | None \<Rightarrow>
          (case slot_addr_of d t of
             Some (l, s) \<Rightarrow> Some (InSlot l s)
           | None \<Rightarrow> map_option OnShelf (shelf_of d t)))"

definition has_slot :: "db \<Rightarrow> int \<Rightarrow> int \<Rightarrow> bool" where
  "has_slot d l s = (\<exists>r \<in> set (slots d). slot_lib r = l \<and> slot_no r = s)"

definition has_drive :: "db \<Rightarrow> int \<Rightarrow> int \<Rightarrow> bool" where
  "has_drive d l k = (\<exists>r \<in> set (drives d). drive_lib r = l \<and> drive_no r = k)"

definition all_located :: "db \<Rightarrow> bool" where
  "all_located d \<longleftrightarrow> (\<forall>r \<in> set (tapes d). located d (tape_id r))"

section \<open>The parts of the view after each statement\<close>

lemma find_update_where_other:
  "(\<And>r. r \<in> set rs \<Longrightarrow> P r \<Longrightarrow> \<not> Q r \<and> \<not> Q (f r)) \<Longrightarrow>
   List.find Q (update_where P f rs) = List.find Q rs"
  by (induction rs) auto

lemma slot_addr_set_other:
  assumes "v \<noteq> Some u" and "\<And>x. x \<in> set (slots d) \<Longrightarrow> slot_lib x = l \<Longrightarrow> slot_no x = n \<Longrightarrow> slot_tape x \<noteq> Some u"
  shows "slot_addr_of (set_slot_tape l n v d) u = slot_addr_of d u"
  unfolding slot_addr_of_def set_slot_tape_def
  by (simp, subst find_update_where_other) (use assms in auto)

lemma drive_addr_set_other:
  assumes "v \<noteq> Some u" and "\<And>x. x \<in> set (drives d) \<Longrightarrow> drive_lib x = l \<Longrightarrow> drive_no x = n \<Longrightarrow> drive_tape x \<noteq> Some u"
  shows "drive_addr_of (set_drive_tape l n v d) u = drive_addr_of d u"
  unfolding drive_addr_of_def set_drive_tape_def
  by (simp, subst find_update_where_other) (use assms in auto)

lemma slot_addr_clear_other: "u \<noteq> t \<Longrightarrow> slot_addr_of (clear_slots_of l t d) u = slot_addr_of d u"
  unfolding slot_addr_of_def clear_slots_of_def
  by (simp, subst find_update_where_other) auto

lemma slot_addr_None: "slot_addr_of d u = None \<longleftrightarrow> (\<forall>x \<in> set (slots d). slot_tape x \<noteq> Some u)"
  by (simp add: slot_addr_of_def find_None_all)

lemma drive_addr_None: "drive_addr_of d u = None \<longleftrightarrow> (\<forall>x \<in> set (drives d). drive_tape x \<noteq> Some u)"
  by (simp add: drive_addr_of_def find_None_all)

lemma slot_addr_SomeD: "slot_addr_of d u = Some (l, n) \<Longrightarrow> \<exists>x \<in> set (slots d). slot_lib x = l \<and> slot_no x = n \<and> slot_tape x = Some u"
  by (auto simp: slot_addr_of_def dest!: find_Some_in)

lemma drive_addr_SomeD: "drive_addr_of d u = Some (l, n) \<Longrightarrow> \<exists>x \<in> set (drives d). drive_lib x = l \<and> drive_no x = n \<and> drive_tape x = Some u"
  by (auto simp: drive_addr_of_def dest!: find_Some_in)

text \<open>A statement that writes the tape into an existing row is found again there.\<close>

lemma slot_addr_set_here:
  assumes "has_slot d l n" and "\<And>x. x \<in> set (slots d) \<Longrightarrow> slot_tape x \<noteq> Some u"
  shows "slot_addr_of (set_slot_tape l n (Some u) d) u = Some (l, n)"
proof -
  have "slot_addr_of (set_slot_tape l n (Some u) d) u \<noteq> None"
    using assms(1) unfolding slot_addr_None has_slot_def
    by (auto simp: set_slot_tape_def ball_update_where)
  then obtain a b where ab: "slot_addr_of (set_slot_tape l n (Some u) d) u = Some (a, b)" by auto
  then obtain x where "x \<in> set (slots (set_slot_tape l n (Some u) d))" "slot_lib x = a" "slot_no x = b"
    "slot_tape x = Some u" by (auto dest: slot_addr_SomeD)
  with assms(2) ab show ?thesis by (auto dest!: slot_row_set)
qed

lemma drive_addr_set_here:
  assumes "has_drive d l n" and "\<And>x. x \<in> set (drives d) \<Longrightarrow> drive_tape x \<noteq> Some u"
  shows "drive_addr_of (set_drive_tape l n (Some u) d) u = Some (l, n)"
proof -
  have "drive_addr_of (set_drive_tape l n (Some u) d) u \<noteq> None"
    using assms(1) unfolding drive_addr_None has_drive_def
    by (auto simp: set_drive_tape_def ball_update_where)
  then obtain a b where ab: "drive_addr_of (set_drive_tape l n (Some u) d) u = Some (a, b)" by auto
  then obtain x where "x \<in> set (drives (set_drive_tape l n (Some u) d))" "drive_lib x = a" "drive_no x = b"
    "drive_tape x = Some u" by (auto dest: drive_addr_SomeD)
  with assms(2) ab show ?thesis by (auto dest!: drive_row_set)
qed

lemma tape_by_id_update:
  assumes "\<And>r. tape_id (f r) = tape_id r"
  shows "tape_by_id (update_tape t f d) u =
     (if u = t then map_option f (tape_by_id d u) else tape_by_id d u)"
proof -
  have "List.find (\<lambda>r. tape_id r = u) (update_where (\<lambda>r. tape_id r = t) f rs) =
      (if u = t then map_option f (List.find (\<lambda>r. tape_id r = u) rs)
       else List.find (\<lambda>r. tape_id r = u) rs)" for rs
    using assms by (induction rs) auto
  then show ?thesis by (simp add: tape_by_id_def update_tape_def)
qed

lemma shelf_of_in_slot_row: "shelf_of (update_tape t (in_slot_row s) d) u = (if u = t then None else shelf_of d u)"
  unfolding shelf_of_def
  by (subst tape_by_id_update) (auto split: bind_splits simp: bind_map_option comp_def)

lemma view_frames [simp]:
  "slot_addr_of (update_tape t f d) = slot_addr_of d" "drive_addr_of (update_tape t f d) = drive_addr_of d"
  "slot_addr_of (set_drive_tape l k x d) = slot_addr_of d" "drive_addr_of (set_slot_tape l s x d) = drive_addr_of d"
  "drive_addr_of (clear_slots_of l t d) = drive_addr_of d"
  "shelf_of (set_slot_tape l s x d) = shelf_of d" "shelf_of (set_drive_tape l k x d) = shelf_of d"
  "shelf_of (clear_slots_of l t d) = shelf_of d"
  by (simp_all add: fun_eq_iff slot_addr_of_def drive_addr_of_def shelf_of_def tape_by_id_def)

lemma has_frames [simp]:
  "has_slot (update_tape t f d) = has_slot d" "has_drive (update_tape t f d) = has_drive d"
  "has_slot (set_slot_tape l s x d) = has_slot d" "has_slot (set_drive_tape l s x d) = has_slot d"
  "has_drive (set_slot_tape l s x d) = has_drive d" "has_drive (set_drive_tape l s x d) = has_drive d"
  by (auto simp: fun_eq_iff has_slot_def has_drive_def set_slot_tape_def set_drive_tape_def
      bex_update_where split: if_splits)

section \<open>Refinement\<close>

lemma slot_row_occupant:
  "keys_ok d \<Longrightarrow> slot_occupant d l n = y \<Longrightarrow> x \<in> set (slots d) \<Longrightarrow> slot_lib x = l \<Longrightarrow> slot_no x = n \<Longrightarrow>
   slot_tape x = y"
  using find_slot_unique [of d x] by (auto simp: slot_occupant_def)

lemma drive_row_occupant:
  "keys_ok d \<Longrightarrow> drive_occupant d l n = y \<Longrightarrow> x \<in> set (drives d) \<Longrightarrow> drive_lib x = l \<Longrightarrow> drive_no x = n \<Longrightarrow>
   drive_tape x = y"
  using find_drive_unique [of d x] by (auto simp: drive_occupant_def)

lemma occupant_frames [simp]:
  "slot_occupant (update_tape t f d) = slot_occupant d" "drive_occupant (update_tape t f d) = drive_occupant d"
  "slot_occupant (set_drive_tape l k x d) = slot_occupant d"
  "drive_occupant (set_slot_tape l s x d) = drive_occupant d"
  by (simp_all add: fun_eq_iff slot_occupant_def find_slot_def drive_occupant_def find_drive_def)

lemma slot_occupant_set:
  "(l', n') \<noteq> (l, n) \<Longrightarrow> slot_occupant (set_slot_tape l n x d) l' n' = slot_occupant d l' n'"
  unfolding slot_occupant_def find_slot_def set_slot_tape_def
  by (simp, subst find_update_where_other) auto

lemma slot_addr_set_occupied:
  assumes "keys_ok d" "slot_occupant d l n = y" "y \<noteq> Some u" "v \<noteq> Some u"
  shows "slot_addr_of (set_slot_tape l n v d) u = slot_addr_of d u"
  using assms(3) by (intro slot_addr_set_other assms(4)) (simp add: slot_row_occupant [OF assms(1,2)])

lemma drive_addr_set_occupied:
  assumes "keys_ok d" "drive_occupant d l n = y" "y \<noteq> Some u" "v \<noteq> Some u"
  shows "drive_addr_of (set_drive_tape l n v d) u = drive_addr_of d u"
  using assms(3) by (intro drive_addr_set_other assms(4)) (simp add: drive_row_occupant [OF assms(1,2)])

lemma places_cong:
  "drive_addr_of d' u = drive_addr_of d u \<Longrightarrow> slot_addr_of d' u = slot_addr_of d u \<Longrightarrow>
   shelf_of d' u = shelf_of d u \<Longrightarrow> places d' u = places d u"
  by (auto simp: places_def split: option.splits)

lemma load_tape_tx_places:
  assumes ok: "catalog_ok d" and run: "load_tape_tx l s k d = Inr (t, d')" and dr: "has_drive d l k"
  shows "places d' = (places d)(t \<mapsto> InDrive l k)"
proof
  fix u
  have keys: "keys_ok d" using ok by (simp add: catalog_ok_def)
  from run have occ: "slot_occupant d l s = Some t" "drive_occupant d l k = None"
    and d': "d' = set_slot_tape l s None (update_tape t (in_slot_row None) (set_drive_tape l k (Some t) d))"
    by (auto simp: load_tape_tx_Inr)
  from occ(1) obtain src where src: "src \<in> set (slots d)" "slot_tape src = Some t"
    by (rule slot_occupant_SomeE)
  show "places d' u = ((places d)(t \<mapsto> InDrive l k)) u"
  proof (cases "u = t")
    case True
    have "drive_addr_of d' t = Some (l, k)"
      using dr catalog_not_slot_and_drive [OF ok src(1) _ src(2)]
      by (auto simp: d' intro!: drive_addr_set_here)
    with True show ?thesis by (simp add: places_def)
  next
    case False
    then have "places d' u = places d u"
      by (intro places_cong)
         (simp_all add: d' keys occ slot_addr_set_occupied drive_addr_set_occupied shelf_of_in_slot_row)
    with False show ?thesis by simp
  qed
qed

lemma free_slot_occupant:
  assumes "keys_ok d" "first_free_slot d l ie = Some s"
  shows "slot_occupant d l s = None" "has_slot d l s"
proof -
  obtain r where r: "r \<in> set (slots d)" "slot_lib r = l" "slot_no r = s" "slot_tape r = None"
    using first_free_slot_Some [OF assms(2)] by blast
  with find_slot_unique [OF assms(1) r(1)] show "slot_occupant d l s = None"
    by (simp add: slot_occupant_def)
  show "has_slot d l s" using r by (auto simp: has_slot_def)
qed

lemma unload_tape_tx_places:
  assumes ok: "catalog_ok d" and run: "unload_tape_tx l k d = Inr (t, s, d')"
  shows "places d' = (places d)(t \<mapsto> InSlot l s)"
proof
  fix u
  have keys: "keys_ok d" using ok by (simp add: catalog_ok_def)
  from run have occ: "drive_occupant d l k = Some t"
    and d': "d' = set_drive_tape l k None
      (set_slot_tape l s (Some t) (update_tape t (in_slot_row (Some s)) d))"
    by (auto simp: unload_tape_tx_Inr)
  note free = free_slot_occupant [OF keys unload_tape_tx_target [OF ok run]]
  from occ obtain src where src: "src \<in> set (drives d)" "drive_lib src = l" "drive_no src = k"
    "drive_tape src = Some t" by (rule drive_occupant_SomeE)
  show "places d' u = ((places d)(t \<mapsto> InSlot l s)) u"
  proof (cases "u = t")
    case True
    have "slot_addr_of d' t = Some (l, s)"
      using free(2) catalog_not_slot_and_drive [OF ok _ src(1) _ src(4)]
      by (auto simp: d' intro!: slot_addr_set_here)
    moreover have "drive_addr_of d' t = None"
      unfolding drive_addr_None
    proof (intro ballI notI)
      fix x assume x: "x \<in> set (drives d')" "drive_tape x = Some t"
      then have *: "x \<in> set (drives d)" "\<not> (drive_lib x = l \<and> drive_no x = k)"
        by (auto simp: d' dest!: rows_written)
      with x src ok have "x = src" unfolding catalog_ok_def drives_exclusive_def by blast
      with * src show False by simp
    qed
    ultimately show ?thesis using True by (simp add: places_def)
  next
    case False
    then have "places d' u = places d u"
      by (intro places_cong)
         (simp_all add: d' keys occ free slot_addr_set_occupied drive_addr_set_occupied shelf_of_in_slot_row)
    with False show ?thesis by simp
  qed
qed

lemma eject_tape_tx_places:
  assumes ok: "catalog_ok d" and run: "eject_tape_tx l s d = Inr (t, m, d')"
  shows "places d' = (places d)(t \<mapsto> InSlot l m)"
proof
  fix u
  have keys: "keys_ok d" using ok by (simp add: catalog_ok_def)
  from run have occ: "slot_occupant d l s = Some t" and mail: "first_free_slot d l True = Some m"
    and d': "d' = set_slot_tape l m (Some t) (set_slot_tape l s None (update_tape t (in_slot_row (Some m)) d))"
    by (auto simp: eject_tape_tx_Inr)
  note free = free_slot_occupant [OF keys mail]
  have ms: "(l, m) \<noteq> (l, s)" using occ free by auto
  from occ obtain src where src: "src \<in> set (slots d)" "slot_lib src = l" "slot_no src = s"
    "slot_tape src = Some t" by (rule slot_occupant_SomeE)
  show "places d' u = ((places d)(t \<mapsto> InSlot l m)) u"
  proof (cases "u = t")
    case True
    have "slot_tape x \<noteq> Some t" if x: "x \<in> set (slots (set_slot_tape l s None (update_tape t (in_slot_row (Some m)) d)))" for x
    proof
      assume xt: "slot_tape x = Some t"
      with x have "x \<in> set (slots d)" "\<not> (slot_lib x = l \<and> slot_no x = s)" by (auto dest!: rows_written)
      with src catalog_tape_in_one_slot [OF ok _ src(1) xt src(4)] show False by blast
    qed
    then have "slot_addr_of d' t = Some (l, m)"
      unfolding d' using free(2) by (intro slot_addr_set_here) simp_all
    moreover have "drive_addr_of d' t = None"
      using catalog_not_slot_and_drive [OF ok src(1) _ src(4)] by (auto simp: d' drive_addr_None)
    ultimately show ?thesis using True by (simp add: places_def)
  next
    case False
    then have "places d' u = places d u"
      using ms by (intro places_cong)
         (simp_all add: d' keys occ free slot_addr_set_occupied slot_occupant_set shelf_of_in_slot_row)
    with False show ?thesis by simp
  qed
qed

lemma assign_one_tape_to_slot_places:
  assumes ok: "catalog_ok d" and run: "assign_one_tape_to_slot l n s d = Inr d'" and sl: "has_slot d l s"
  shows "\<exists>r. find_tape d l n = Some r \<and> places d' = (places d)(tape_id r \<mapsto> InSlot l s)"
proof -
  have keys: "keys_ok d" using ok by (simp add: catalog_ok_def)
  from run obtain r where ready: "tape_ready d l n = Inr r" and emp: "\<not> slot_occupied d l s"
    and d': "d' = set_slot_tape l s (Some (tape_id r)) (update_tape (tape_id r) (in_slot_row (Some s)) d)"
    by (auto simp: assign_one_tape_to_slot_Inr)
  from ready have f: "find_tape d l n = Some r" and r: "r \<in> set (tapes d)" "tape_shelf r \<noteq> None"
    by (auto simp: tape_ready_Inr dest: find_tape_Some)
  note nowhere = shelved_nowhere_else [OF ok r]
  have none: "slot_occupant d l s = None"
    using emp by (auto simp: slot_occupied_def count_where_pos slot_occupant_def
        dest: find_slot_Some split: bind_splits)
  have "places d' u = ((places d)(tape_id r \<mapsto> InSlot l s)) u" for u
  proof (cases "u = tape_id r")
    case True
    have "slot_addr_of d' (tape_id r) = Some (l, s)"
      unfolding d' using sl nowhere(1) by (intro slot_addr_set_here) simp_all
    moreover have "drive_addr_of d' (tape_id r) = None"
      using nowhere(2) by (simp add: d' drive_addr_None)
    ultimately show ?thesis using True by (simp add: places_def)
  next
    case False
    then have "places d' u = places d u"
      by (intro places_cong)
         (simp_all add: d' keys none slot_addr_set_occupied shelf_of_in_slot_row)
    with False show ?thesis by simp
  qed
  with f show ?thesis by blast
qed

section \<open>No tape is lost\<close>

lemma shelf_of_Some: "keys_ok d \<Longrightarrow> r \<in> set (tapes d) \<Longrightarrow> shelf_of d (tape_id r) = tape_shelf r"
proof -
  assume k: "keys_ok d" and r: "r \<in> set (tapes d)"
  then have "tape_by_id d (tape_id r) = Some r"
    unfolding tape_by_id_def by (intro find_unique [where k = tape_id]) (auto simp: keys_ok_def)
  then show ?thesis by (simp add: shelf_of_def)
qed

lemma located_iff_places: "keys_ok d \<Longrightarrow> located d t \<longleftrightarrow> places d t \<noteq> None"
proof -
  assume k: "keys_ok d"
  have "on_shelf d t \<longleftrightarrow> shelf_of d t \<noteq> None"
  proof
    assume "on_shelf d t"
    then show "shelf_of d t \<noteq> None" using shelf_of_Some [OF k] by (auto simp: on_shelf_def)
  next
    assume "shelf_of d t \<noteq> None"
    then show "on_shelf d t"
      by (auto simp: shelf_of_def on_shelf_def dest: tape_by_id_Some split: bind_splits)
  qed
  moreover have "in_slot d t \<longleftrightarrow> slot_addr_of d t \<noteq> None"
    unfolding in_slot_def slot_addr_None by auto
  moreover have "in_drive d t \<longleftrightarrow> drive_addr_of d t \<noteq> None"
    unfolding in_drive_def drive_addr_None by auto
  ultimately show ?thesis by (auto simp: located_def places_def split: option.split)
qed

text \<open>If one tape gets a place and the others keep theirs, all tapes have a place.\<close>

lemma all_located_update:
  assumes "all_located d" "keys_ok d" "keys_ok d'" "places d' = (places d)(t \<mapsto> p)"
    and "map tape_id (tapes d') = map tape_id (tapes d)"
  shows "all_located d'"
proof -
  have "tape_id ` set (tapes d') = tape_id ` set (tapes d)"
    using assms(5) by (metis list.set_map)
  then have ids: "\<exists>q \<in> set (tapes d). tape_id q = tape_id r" if "r \<in> set (tapes d')" for r
    using that by (metis imageE imageI)
  show ?thesis
    unfolding all_located_def
  proof
    fix r assume r: "r \<in> set (tapes d')"
    with ids obtain q where "q \<in> set (tapes d)" "tape_id q = tape_id r" by blast
    with assms(1) have "located d (tape_id r)" by (auto simp: all_located_def)
    then show "located d' (tape_id r)"
      using assms(2-4) by (simp add: located_iff_places)
  qed
qed

lemma update_tape_ids [simp]:
  "(\<And>r. tape_id (f r) = tape_id r) \<Longrightarrow> map tape_id (tapes (update_tape t f d)) = map tape_id (tapes d)"
  by (simp add: update_tape_def map_update_where)

text \<open>When the addressed drive does not exist, the loaded tape is lost.\<close>

lemma load_tape_tx_missing_drive:
  assumes ok: "catalog_ok d" and run: "load_tape_tx l s k d = Inr (t, d')" and dr: "\<not> has_drive d l k"
  shows "\<not> located d' t"
proof -
  have keys: "keys_ok d" using ok by (simp add: catalog_ok_def)
  from run have occ: "slot_occupant d l s = Some t"
    and d': "d' = set_slot_tape l s None (update_tape t (in_slot_row None) (set_drive_tape l k (Some t) d))"
    by (auto simp: load_tape_tx_Inr)
  from occ obtain src where src: "src \<in> set (slots d)" "slot_lib src = l" "slot_no src = s"
    "slot_tape src = Some t" by (rule slot_occupant_SomeE)
  have "slot_tape x \<noteq> Some t" if x: "x \<in> set (slots d')" for x
  proof
    assume xt: "slot_tape x = Some t"
    with x have "x \<in> set (slots d)" "\<not> (slot_lib x = l \<and> slot_no x = s)"
      by (auto simp: d' dest!: rows_written)
    with src catalog_tape_in_one_slot [OF ok _ src(1) xt src(4)] show False by blast
  qed
  then have "slot_addr_of d' t = None" by (simp add: slot_addr_None)
  moreover have "drive_tape x \<noteq> Some t" if x: "x \<in> set (drives d')" for x
    using x catalog_not_slot_and_drive [OF ok src(1) _ src(4)] dr
    by (auto simp: d' has_drive_def set_drive_tape_def set_update_where split: if_splits)
  then have "drive_addr_of d' t = None" by (simp add: drive_addr_None)
  moreover have "shelf_of d' t = None" by (simp add: d' shelf_of_in_slot_row)
  moreover have "keys_ok d'" using keys by (simp add: d')
  ultimately show ?thesis by (simp add: located_iff_places places_def)
qed

end
