(* ===== verification/RobotSync.thy ===== *)
theory RobotSync
  imports World Places
begin

text \<open>
  The bridge between the catalogue and the kernel's changer (\<^verbatim>\<open>robot_sync.rs\<close>): element addresses,
  request fields, the ioctl wrappers, the two inventories (tape name to location), evacuation of
  media, and the inventory that is displayed. An inventory is an association list with distinct
  names; the code keeps it in a hash map.
\<close>

section \<open>Locations\<close>

datatype MediumLocation = DataSlot int | Drive int | MailSlot int

definition db_mailslot_to_element :: "int \<Rightarrow> int" where
  "db_mailslot_to_element s = VTL_ELEM_IE_BASE + (s - MAILSLOT_OFFSET)"

definition from_element :: "int \<Rightarrow> MediumLocation option" where
  "from_element e =
     (if 0 \<le> e \<and> e < VTL_ELEM_IE_BASE then Some (DataSlot e)
      else if VTL_ELEM_DRIVE_BASE \<le> e \<and> e < VTL_ELEM_IE_BASE then Some (Drive (e - VTL_ELEM_DRIVE_BASE))
      else if VTL_ELEM_IE_BASE \<le> e then Some (MailSlot (MAILSLOT_OFFSET + (e - VTL_ELEM_IE_BASE)))
      else None)"

fun to_element :: "MediumLocation \<Rightarrow> int" where
  "to_element (DataSlot s) = s"
| "to_element (Drive d) = VTL_ELEM_DRIVE_BASE + d"
| "to_element (MailSlot m) = db_mailslot_to_element m"

text \<open>Locations are ordered by kind, then by number.\<close>

fun location_key :: "MediumLocation \<Rightarrow> nat \<times> int" where
  "location_key (DataSlot s) = (0, s)"
| "location_key (Drive d) = (1, d)"
| "location_key (MailSlot m) = (2, m)"

instantiation MediumLocation :: linorder
begin

definition less_eq_MediumLocation :: "MediumLocation \<Rightarrow> MediumLocation \<Rightarrow> bool" where
  "less_eq_MediumLocation a b =
     (fst (location_key a) < fst (location_key b) \<or>
      fst (location_key a) = fst (location_key b) \<and> snd (location_key a) \<le> snd (location_key b))"

definition less_MediumLocation :: "MediumLocation \<Rightarrow> MediumLocation \<Rightarrow> bool" where
  "less_MediumLocation a b = (a \<le> b \<and> \<not> b \<le> a)"

instance
proof
  fix a b c :: MediumLocation
  have inj: "location_key a = location_key b \<Longrightarrow> a = b" for a b
    by (cases a; cases b) auto
  show "a < b \<longleftrightarrow> a \<le> b \<and> \<not> b \<le> a" by (rule less_MediumLocation_def)
  show "a \<le> a" by (simp add: less_eq_MediumLocation_def)
  show "a \<le> b \<Longrightarrow> b \<le> c \<Longrightarrow> a \<le> c" by (auto simp: less_eq_MediumLocation_def)
  show "a \<le> b \<Longrightarrow> b \<le> a \<Longrightarrow> a = b"
    using inj by (auto simp: less_eq_MediumLocation_def prod_eq_iff)
  show "a \<le> b \<or> b \<le> a" by (auto simp: less_eq_MediumLocation_def)
qed

end

type_synonym inventory = "(string \<times> MediumLocation) list"

section \<open>Request fields\<close>

definition NUL :: char where "NUL = CHR 0x00"

definition cstr_to_string :: "string \<Rightarrow> string" where
  "cstr_to_string buf = takeWhile (\<lambda>c. c \<noteq> NUL) buf"

definition copy_name_field :: "string \<Rightarrow> io_error + string" where
  "copy_name_field name =
     (if 64 \<le> length name then Inl (KindError KInvalidInput ''tape name exceeds 63 bytes'')
      else Inr (name @ replicate (64 - length name) NUL))"

definition copy_barcode_field :: "string option \<Rightarrow> io_error + string" where
  "copy_barcode_field barcode =
     (case barcode of
        None \<Rightarrow> Inr (replicate 16 NUL)
      | Some bc \<Rightarrow>
          if bc = [] then Inr (replicate 16 NUL)
          else if 16 \<le> length bc then Inl (KindError KInvalidInput ''barcode exceeds 15 bytes'')
          else Inr (bc @ replicate (16 - length bc) NUL))"

section \<open>Ioctls\<close>

definition prepare_kernel_tape_dir_for_ioctl :: "unit cmd" where
  "prepare_kernel_tape_dir_for_ioctl = bindp link_kernel_tapes (\<lambda>_. sync_module_tape_dir)"

definition ioctl_vtl :: "(fs \<Rightarrow> kernel \<Rightarrow> (errno + 'a) \<times> kernel) \<Rightarrow> (world, io_error, 'a) prog" where
  "ioctl_vtl f =
     thenp (map_err (\<lambda>_. KindError KOther ''prepare_kernel_tape_dir'') prepare_kernel_tape_dir_for_ioctl)
     (bindp (gets (\<lambda>w. (k_dev (w_kernel w), w_fs w))) (\<lambda>(dev, fs).
        case dev of
          Some e \<Rightarrow> fail (OsError e)
        | None \<Rightarrow> map_err OsError (on_part w_kernel (\<lambda>k w. w\<lparr>w_kernel := k\<rparr>) (f fs))))"

definition library_instance_i32 :: "int \<Rightarrow> (world, io_error, int) prog" where
  "library_instance_i32 lib =
     map_err (\<lambda>_. KindError KOther ''library has no kernel instance'')
       (from_result (\<lambda>w. andThen (library_kernel_instance_index (w_db w) lib) (\<lambda>i. Inr (int i))))"

definition kernel_slot_place :: "int \<Rightarrow> int \<Rightarrow> string \<Rightarrow> string option \<Rightarrow> (world, io_error, unit) prog" where
  "kernel_slot_place lib s name barcode =
     bindp (library_instance_i32 lib) (\<lambda>inst.
     bindp (from_result (\<lambda>_. copy_name_field name)) (\<lambda>nf.
     bindp (from_result (\<lambda>_. copy_barcode_field barcode)) (\<lambda>bf.
       ioctl_vtl (\<lambda>fs. ioctl_slot_place fs inst s (cstr_to_string nf)))))"

definition kernel_load :: "int \<Rightarrow> int \<Rightarrow> int \<Rightarrow> string \<Rightarrow> string option \<Rightarrow> (world, io_error, unit) prog" where
  "kernel_load lib s d name barcode =
     bindp (library_instance_i32 lib) (\<lambda>inst.
     bindp (from_result (\<lambda>_. copy_name_field name)) (\<lambda>nf.
     bindp (from_result (\<lambda>_. copy_barcode_field barcode)) (\<lambda>bf.
       ioctl_vtl (\<lambda>fs. ioctl_load_tape fs inst s d (cstr_to_string nf)))))"

definition kernel_unload :: "int \<Rightarrow> int \<Rightarrow> int \<Rightarrow> (world, io_error, unit) prog" where
  "kernel_unload lib d s =
     bindp (library_instance_i32 lib) (\<lambda>inst. ioctl_vtl (\<lambda>_. ioctl_unload_tape inst d s))"

definition kernel_move_medium :: "int \<Rightarrow> int \<Rightarrow> int \<Rightarrow> (world, io_error, unit) prog" where
  "kernel_move_medium lib src dst =
     bindp (library_instance_i32 lib) (\<lambda>inst. ioctl_vtl (\<lambda>_. ioctl_move_medium inst src dst))"

definition kernel_elem_remove :: "int \<Rightarrow> int \<Rightarrow> (world, io_error, unit) prog" where
  "kernel_elem_remove lib e =
     bindp (library_instance_i32 lib) (\<lambda>inst. ioctl_vtl (\<lambda>_. ioctl_elem_remove inst e))"

definition tape_barcode_for_name :: "db \<Rightarrow> int \<Rightarrow> string \<Rightarrow> string option" where
  "tape_barcode_for_name d lib name = map_option tape_barcode (find_tape d lib name)"

definition map_ioctl_error :: "io_error \<Rightarrow> VtlError" where
  "map_ioctl_error e =
     (if raw_os_error e = Some ENOTTY \<or> error_kind e = KNotFound
      then InvalidParameter ''RECONCILE_IOCTL_ERROR'' else IoError e)"

section \<open>Inventories\<close>

record KernelInventory =
  inv_locations :: inventory
  inv_truncated :: bool

definition add_item :: "string \<Rightarrow> int \<times> string \<Rightarrow> inventory \<Rightarrow> VtlError + inventory" where
  "add_item msg item locs =
     (let name = cstr_to_string (snd item)
      in if name = [] then Inr locs
         else case from_element (fst item) of
             None \<Rightarrow> Inr locs
           | Some loc \<Rightarrow>
               if map_of locs name \<noteq> None then Inl (InvalidParameter msg)
               else Inr (locs @ [(name, loc)]))"

definition kernel_inventory_snapshot :: "int \<Rightarrow> KernelInventory cmd" where
  "kernel_inventory_snapshot lib =
     bindp (map_err map_ioctl_error (library_instance_i32 lib)) (\<lambda>inst.
     bindp (map_err map_ioctl_error (ioctl_vtl (\<lambda>_. ioctl_get_inventory inst))) (\<lambda>(items, truncated).
     bindp (from_result (\<lambda>_. fold_ok (add_item ''kernel inventory: duplicate tape name'')
                               (take VTL_INV_MAX_ITEMS items) [])) (\<lambda>locs.
       ret \<lparr>inv_locations = locs, inv_truncated = truncated\<rparr>)))"

text \<open>The rows of the three joins of \<open>db_inventory\<close>, in turn.\<close>

definition inventory_rows :: "db \<Rightarrow> int \<Rightarrow> inventory" where
  "inventory_rows d lib =
     List.map_filter (\<lambda>s. map_option (\<lambda>t. (tape_name t, DataSlot (slot_no s)))
                            (Option.bind (slot_tape s) (tape_by_id d)))
       (filter (\<lambda>s. slot_lib s = lib \<and> slot_ie s = 0) (slots d)) @
     List.map_filter (\<lambda>k. map_option (\<lambda>t. (tape_name t, Drive (drive_no k)))
                            (Option.bind (drive_tape k) (tape_by_id d)))
       (filter (\<lambda>k. drive_lib k = lib) (drives d)) @
     List.map_filter (\<lambda>s. map_option (\<lambda>t. (tape_name t, MailSlot (slot_no s)))
                            (Option.bind (slot_tape s) (tape_by_id d)))
       (filter (\<lambda>s. slot_lib s = lib \<and> slot_ie s \<noteq> 0) (slots d))"

definition insert_fresh :: "string \<times> MediumLocation \<Rightarrow> inventory \<Rightarrow> VtlError + inventory" where
  "insert_fresh p locs =
     (if map_of locs (fst p) \<noteq> None
      then Inl (InvalidParameter ''DB inventory: tape assigned to multiple locations'')
      else Inr (locs @ [p]))"

definition db_inventory :: "db \<Rightarrow> int \<Rightarrow> VtlError + inventory" where
  "db_inventory d lib = fold_ok insert_fresh (inventory_rows d lib) []"

definition ensure_inventory_complete :: "KernelInventory \<Rightarrow> VtlError + unit" where
  "ensure_inventory_complete snap =
     require (\<not> inv_truncated snap) (InvalidParameter ''kernel GET_INVENTORY truncated'')"

section \<open>Evacuation\<close>

definition evacuate_element :: "int \<Rightarrow> int \<Rightarrow> (world, io_error, unit) prog" where
  "evacuate_element lib e =
     bindp (attempt (kernel_elem_remove lib e)) (\<lambda>r.
       case r of
         Inr _ \<Rightarrow> ret ()
       | Inl err \<Rightarrow>
           if raw_os_error err = Some ENODEV then ret ()
           else if raw_os_error err \<in> {Some ENOTTY, Some EINVAL} then
             bindp (gets (\<lambda>w. first_free_slot (w_db w) lib True)) (\<lambda>m.
               case m of
                 Some s \<Rightarrow> kernel_move_medium lib e (db_mailslot_to_element s)
               | None \<Rightarrow> fail err)
           else fail err)"

definition evacuate_tape_from_changer :: "int \<Rightarrow> string \<Rightarrow> unit cmd" where
  "evacuate_tape_from_changer lib name =
     bindp (kernel_inventory_snapshot lib) (\<lambda>snap.
       case map_of (inv_locations snap) name of
         None \<Rightarrow> ret ()
       | Some loc \<Rightarrow> map_err IoError (evacuate_element lib (to_element loc)))"

definition evacuate_shelved_tapes_from_kernel :: "int \<Rightarrow> nat cmd" where
  "evacuate_shelved_tapes_from_kernel lib =
     bindp (gets (\<lambda>w. map tape_name (filter (\<lambda>t. tape_lib t = lib \<and> tape_shelf t \<noteq> None)
                                       (tapes (w_db w))))) (\<lambda>names.
     bindp (kernel_inventory_snapshot lib) (\<lambda>snap.
       foldp (\<lambda>name n.
         if map_of (inv_locations snap) name = None then ret n
         else bindp (attempt (evacuate_tape_from_changer lib name)) (\<lambda>r.
                ret (if is_ok r then Suc n else n))) names 0))"

section \<open>The displayed inventory\<close>

record ChangerRow =
  row_label :: string
  row_tape :: "string option"
  row_code :: "string option"

record ChangerInventoryDisplay =
  disp_source :: string
  disp_slots :: "ChangerRow list"
  disp_drives :: "ChangerRow list"
  disp_mail :: "ChangerRow list"

definition slot_rows :: "db \<Rightarrow> int \<Rightarrow> bool \<Rightarrow> slot_row list" where
  "slot_rows d lib ie =
     sort_key slot_no (filter (\<lambda>r. slot_lib r = lib \<and> (slot_ie r \<noteq> 0) = ie) (slots d))"

definition drive_rows :: "db \<Rightarrow> int \<Rightarrow> drive_row list" where
  "drive_rows d lib = sort_key drive_no (filter (\<lambda>r. drive_lib r = lib) (drives d))"

definition display_row :: "db \<Rightarrow> string \<Rightarrow> int \<Rightarrow> int option \<Rightarrow> ChangerRow" where
  "display_row d label i x =
     (let t = Option.bind x (tape_by_id d)
      in \<lparr>row_label = label @ show_int i, row_tape = map_option tape_name t,
          row_code = map_option tape_barcode t\<rparr>)"

definition changer_inventory_from_db :: "db \<Rightarrow> int \<Rightarrow> ChangerInventoryDisplay" where
  "changer_inventory_from_db d lib =
     \<lparr>disp_source = ''db'',
      disp_slots = map (\<lambda>s. display_row d ''slot'' (slot_no s) (slot_tape s)) (slot_rows d lib False),
      disp_drives = map (\<lambda>k. display_row d ''drive'' (drive_no k) (drive_tape k)) (drive_rows d lib),
      disp_mail = map (\<lambda>s. display_row d ''mail'' (slot_no s - MAILSLOT_OFFSET) (slot_tape s))
                    (slot_rows d lib True)\<rparr>"

text \<open>
  Two names at one location cannot come from a changer; the code would keep the one its hash map
  lists last, the model the first.
\<close>

definition kernel_row :: "db \<Rightarrow> int \<Rightarrow> inventory \<Rightarrow> string \<Rightarrow> int \<Rightarrow> MediumLocation \<Rightarrow> ChangerRow" where
  "kernel_row d lib locs label i loc =
     (let t = map_option fst (List.find (\<lambda>p. snd p = loc) locs)
      in \<lparr>row_label = label @ show_int i, row_tape = t,
          row_code = Option.bind t (tape_barcode_for_name d lib)\<rparr>)"

definition changer_inventory_from_kernel :: "int \<Rightarrow> ChangerInventoryDisplay cmd" where
  "changer_inventory_from_kernel lib =
     bindp (kernel_inventory_snapshot lib) (\<lambda>snap.
     bindp (gets w_db) (\<lambda>d.
       let locs = inv_locations snap
       in ret \<lparr>disp_source = ''kernel'',
            disp_slots = map (\<lambda>s. kernel_row d lib locs ''slot'' (slot_no s) (DataSlot (slot_no s)))
                           (slot_rows d lib False),
            disp_drives = map (\<lambda>k. kernel_row d lib locs ''drive'' (drive_no k) (Drive (drive_no k)))
                            (drive_rows d lib),
            disp_mail = map (\<lambda>s. kernel_row d lib locs ''mail'' (slot_no s - MAILSLOT_OFFSET)
                                   (MailSlot (slot_no s))) (slot_rows d lib True)\<rparr>))"

definition changer_inventory_display :: "int \<Rightarrow> ChangerInventoryDisplay cmd" where
  "changer_inventory_display lib =
     bindp (gets (\<lambda>w. robot_sync_enabled (w_env w) (w_cfg w))) (\<lambda>k.
       if k then
         bindp (attempt (changer_inventory_from_kernel lib)) (\<lambda>r.
           case r of
             Inr x \<Rightarrow> ret x
           | Inl e \<Rightarrow> gets (\<lambda>w. changer_inventory_from_db (w_db w) lib))
       else gets (\<lambda>w. changer_inventory_from_db (w_db w) lib))"

end
