(* ===== verification/Reconcile.thy ===== *)
theory Reconcile
  imports RobotSync
begin

text \<open>
  Comparing the catalogue with the kernel's changer, and repairing the difference
  (\<^verbatim>\<open>reconcile.rs\<close>): the list of drifts, the pull of the kernel's inventory into the catalogue, the
  mirror of slot hints, and the automatic alignment that follows every robot command.
\<close>

section \<open>Drifts\<close>

record DriftItem =
  drift_tape :: string
  drift_db :: "MediumLocation option"
  drift_kernel :: "MediumLocation option"

record ReconcileReport =
  rep_drifts :: "DriftItem list"
  rep_fixes :: nat
  rep_pulls :: nat
  rep_truncated :: bool

definition find_drifts :: "inventory \<Rightarrow> inventory \<Rightarrow> DriftItem list" where
  "find_drifts d k =
     map (\<lambda>t. \<lparr>drift_tape = t, drift_db = map_of d t, drift_kernel = map_of k t\<rparr>)
       (filter (\<lambda>t. map_of d t \<noteq> map_of k t) (sort (remdups (map fst d @ map fst k))))"

definition drifts_safe_for_pull :: "DriftItem list \<Rightarrow> bool" where
  "drifts_safe_for_pull ds =
     list_all (\<lambda>x. drift_db x \<noteq> None \<and> drift_kernel x \<noteq> None \<and> drift_db x \<noteq> drift_kernel x) ds"

section \<open>Pulling\<close>

definition clear_changer :: "int \<Rightarrow> db \<Rightarrow> db" where
  "clear_changer lib d =
     d\<lparr>slots := update_where (\<lambda>r. slot_lib r = lib) (\<lambda>r. r\<lparr>slot_tape := None\<rparr>) (slots d),
       drives := update_where (\<lambda>r. drive_lib r = lib) (\<lambda>r. r\<lparr>drive_tape := None\<rparr>) (drives d)\<rparr>"

definition pull_one :: "int \<Rightarrow> string \<times> MediumLocation \<Rightarrow> nat \<times> db \<Rightarrow> nat \<times> db" where
  "pull_one lib p nd =
     (case find_tape (snd nd) lib (fst p) of
        None \<Rightarrow> nd
      | Some r \<Rightarrow>
          (Suc (fst nd),
           case snd p of
             DataSlot s \<Rightarrow> update_tape (tape_id r) (in_slot_row (Some s))
                            (set_slot_tape lib s (Some (tape_id r)) (snd nd))
           | Drive k \<Rightarrow> update_tape (tape_id r) (in_slot_row None)
                          (set_drive_tape lib k (Some (tape_id r)) (snd nd))
           | MailSlot s \<Rightarrow> update_tape (tape_id r) (in_slot_row (Some s))
                            (set_slot_tape lib s (Some (tape_id r)) (snd nd))))"

text \<open>The last statement forgets the slot of every tape that no slot and no drive names.\<close>

definition in_changer_of :: "db \<Rightarrow> int \<Rightarrow> int \<Rightarrow> bool" where
  "in_changer_of d lib t \<longleftrightarrow>
     (\<exists>s \<in> set (slots d). slot_lib s = lib \<and> slot_tape s = Some t) \<or>
     (\<exists>k \<in> set (drives d). drive_lib k = lib \<and> drive_tape k = Some t)"

definition forget_orphan_slots :: "int \<Rightarrow> db \<Rightarrow> db" where
  "forget_orphan_slots lib d =
     d\<lparr>tapes := update_where
         (\<lambda>r. tape_lib r = lib \<and> tape_shelf r = None \<and> \<not> in_changer_of d lib (tape_id r))
         (\<lambda>r. r\<lparr>tape_slot := None\<rparr>) (tapes d)\<rparr>"

definition apply_kernel_to_db :: "int \<Rightarrow> inventory \<Rightarrow> db \<Rightarrow> nat \<times> db" where
  "apply_kernel_to_db lib ks d =
     (let (n, d1) = fold (pull_one lib) ks (0, clear_changer lib d)
      in (n, forget_orphan_slots lib d1))"

definition robot_on :: "world \<Rightarrow> bool" where
  "robot_on w = robot_sync_enabled (w_env w) (w_cfg w)"

definition pull_library_inventory_from_kernel :: "int \<Rightarrow> nat cmd" where
  "pull_library_inventory_from_kernel lib =
     bindp (gets robot_on) (\<lambda>on.
       if \<not> on then ret 0
       else thenp init_db
         (bindp (kernel_inventory_snapshot lib) (\<lambda>snap.
          bindp (from_result (\<lambda>_. ensure_inventory_complete snap)) (\<lambda>_.
            db_tx (\<lambda>d. Inr (apply_kernel_to_db lib (inv_locations snap) d))))))"

definition DB_TO_KERNEL_DISABLED :: string where
  "DB_TO_KERNEL_DISABLED = ''DB->kernel mechanical sync removed''"

definition push_db_to_kernel :: "int \<Rightarrow> nat cmd" where
  "push_db_to_kernel lib = fail (InvalidParameter DB_TO_KERNEL_DISABLED)"

text \<open>
  \<^verbatim>\<open>reconcile_library\<close>. With \<open>apply_db\<close> it returns before the code that would push.
\<close>

definition reconcile_library :: "int \<Rightarrow> bool \<Rightarrow> bool \<Rightarrow> ReconcileReport cmd" where
  "reconcile_library lib apply_db pull_kernel =
     bindp (gets robot_on) (\<lambda>on.
       if pull_kernel \<and> apply_db
         then fail (InvalidParameter ''use either --apply (DB->kernel) or --pull (kernel->DB), not both'')
       else if apply_db then fail (InvalidParameter DB_TO_KERNEL_DISABLED)
       else if \<not> on then fail (InvalidParameter ''robot_sync is disabled in vtl.conf'')
       else
         thenp init_db
         (bindp (db_read (\<lambda>d. db_inventory d lib)) (\<lambda>d.
          bindp (kernel_inventory_snapshot lib) (\<lambda>snap.
          let drifts = find_drifts d (inv_locations snap);
              report = \<lparr>rep_drifts = drifts, rep_fixes = 0, rep_pulls = 0,
                        rep_truncated = inv_truncated snap\<rparr>
          in if inv_truncated snap \<and> pull_kernel
               then fail (InvalidParameter ''kernel GET_INVENTORY truncated; refuse --apply/--pull'')
             else if drifts = [] then ret report
             else if pull_kernel then
               bindp (from_result (\<lambda>_. ensure_inventory_complete snap)) (\<lambda>_.
               bindp (db_tx (\<lambda>d. Inr (apply_kernel_to_db lib (inv_locations snap) d))) (\<lambda>n.
                 ret (report\<lparr>rep_pulls := n\<rparr>)))
             else ret report))))"

section \<open>Automatic alignment\<close>

record AutoAlignReport =
  al_evacuated :: nat
  al_fixes :: nat
  al_pulls :: nat
  al_remaining :: nat

definition no_align :: AutoAlignReport where
  "no_align = \<lparr>al_evacuated = 0, al_fixes = 0, al_pulls = 0, al_remaining = 0\<rparr>"

definition evacuate_unknown :: "int \<Rightarrow> DriftItem list \<Rightarrow> nat \<Rightarrow> nat cmd" where
  "evacuate_unknown lib drifts =
     foldp (\<lambda>x n.
       if drift_db x = None \<and> drift_kernel x \<noteq> None
       then bindp (attempt (evacuate_tape_from_changer lib (drift_tape x))) (\<lambda>r.
              ret (if is_ok r then Suc n else n))
       else ret n) drifts"

definition auto_align_library_inner :: "int \<Rightarrow> bool \<Rightarrow> AutoAlignReport cmd" where
  "auto_align_library_inner lib allow_pull =
     bindp (gets robot_on) (\<lambda>on.
       if \<not> on then ret no_align
       else
         thenp init_db
         (bindp (evacuate_shelved_tapes_from_kernel lib) (\<lambda>n0.
          bindp (kernel_inventory_snapshot lib) (\<lambda>snap.
          thenp (checkp (\<not> inv_truncated snap)
                   (InvalidParameter ''kernel GET_INVENTORY truncated; refuse auto-align''))
          (bindp (db_read (\<lambda>d. db_inventory d lib)) (\<lambda>d.
           let drifts0 = find_drifts d (inv_locations snap)
           in bindp (evacuate_unknown lib drifts0 n0) (\<lambda>n.
              bindp (if 0 < n
                     then bindp (kernel_inventory_snapshot lib) (\<lambda>after.
                            ret (find_drifts d (inv_locations after)))
                     else ret drifts0) (\<lambda>drifts.
              if drifts = [] then ret (no_align\<lparr>al_evacuated := n\<rparr>)
              else
                bindp (gets (\<lambda>w. auto_reconcile_pull_enabled (w_env w) (w_cfg w))) (\<lambda>pull.
                if allow_pull \<and> pull \<and> drifts_safe_for_pull drifts then
                  bindp (from_result (\<lambda>_. ensure_inventory_complete snap)) (\<lambda>_.
                  bindp (kernel_inventory_snapshot lib) (\<lambda>fresh.
                  bindp (from_result (\<lambda>_. ensure_inventory_complete fresh)) (\<lambda>_.
                  bindp (db_tx (\<lambda>d. Inr (apply_kernel_to_db lib (inv_locations fresh) d))) (\<lambda>p.
                    ret \<lparr>al_evacuated = n, al_fixes = 0, al_pulls = p, al_remaining = 0\<rparr>))))
                else ret \<lparr>al_evacuated = n, al_fixes = 0, al_pulls = 0,
                           al_remaining = length drifts\<rparr>)))))))))"

definition auto_align_library :: "int \<Rightarrow> AutoAlignReport cmd" where
  "auto_align_library lib = auto_align_library_inner lib True"

text \<open>The commands that run after a robot command report failures as warnings only.\<close>

definition try_post_op_evacuate_only :: "int \<Rightarrow> unit cmd" where
  "try_post_op_evacuate_only lib =
     bindp (gets robot_on) (\<lambda>on.
       if \<not> on then ret ()
       else bindp (attempt init_db) (\<lambda>r.
         if \<not> is_ok r then ret ()
         else bindp (attempt (evacuate_shelved_tapes_from_kernel lib)) (\<lambda>_.
              bindp (attempt (kernel_inventory_snapshot lib)) (\<lambda>s.
                case s of
                  Inl e \<Rightarrow> ret ()
                | Inr snap \<Rightarrow>
                    if inv_truncated snap then ret ()
                    else bindp (attempt (db_read (\<lambda>d. db_inventory d lib))) (\<lambda>di.
                      case di of
                        Inl e \<Rightarrow> ret ()
                      | Inr d \<Rightarrow>
                          forp (\<lambda>p. if map_of d (fst p) = None
                                    then bindp (attempt (evacuate_tape_from_changer lib (fst p)))
                                           (\<lambda>_. ret ())
                                    else ret ()) (inv_locations snap))))))"

definition try_post_op_auto_align :: "int \<Rightarrow> unit cmd" where
  "try_post_op_auto_align lib =
     bindp (gets robot_on) (\<lambda>on.
       if \<not> on then ret ()
       else thenp (try_post_op_evacuate_only lib)
         (bindp (gets (\<lambda>w. auto_reconcile_pull_enabled (w_env w) (w_cfg w))) (\<lambda>pull.
            if \<not> pull then ret ()
            else bindp (attempt (auto_align_library_inner lib False)) (\<lambda>_. ret ()))))"

section \<open>Mirroring slot hints\<close>

definition forget_slots :: "int \<Rightarrow> db \<Rightarrow> db" where
  "forget_slots lib d =
     d\<lparr>tapes := update_where (\<lambda>r. tape_lib r = lib) (\<lambda>r. r\<lparr>tape_slot := None\<rparr>) (tapes d)\<rparr>"

definition hint_one :: "int \<Rightarrow> string \<times> MediumLocation \<Rightarrow> nat \<times> db \<Rightarrow> nat \<times> db" where
  "hint_one lib p nd =
     (case snd p of
        DataSlot s \<Rightarrow>
          (case find_tape (snd nd) lib (fst p) of
             None \<Rightarrow> nd
           | Some r \<Rightarrow> (Suc (fst nd), update_tape (tape_id r) (in_slot_row (Some s)) (snd nd)))
      | _ \<Rightarrow> nd)"

definition mirror_tx :: "int \<Rightarrow> inventory \<Rightarrow> db \<Rightarrow> nat \<times> db" where
  "mirror_tx lib ks d = fold (hint_one lib) ks (0, forget_slots lib d)"

definition mirror_kernel_catalog_hints_only :: "int \<Rightarrow> nat cmd" where
  "mirror_kernel_catalog_hints_only lib =
     bindp (kernel_inventory_snapshot lib) (\<lambda>snap.
     bindp (from_result (\<lambda>_. ensure_inventory_complete snap)) (\<lambda>_.
       db_tx (\<lambda>d. Inr (mirror_tx lib (inv_locations snap) d))))"

record SyncDbFromKernelReport =
  sync_libraries :: nat
  sync_updated :: nat

definition sync_db_from_kernel_all_libraries :: "SyncDbFromKernelReport cmd" where
  "sync_db_from_kernel_all_libraries =
     bindp (gets robot_on) (\<lambda>on.
       if \<not> on then ret \<lparr>sync_libraries = 0, sync_updated = 0\<rparr>
       else thenp init_db
         (bindp (gets (\<lambda>w. online_library_ids_for_kernel_sync (w_db w))) (\<lambda>ids.
          bindp (foldp (\<lambda>lib n. bindp (mirror_kernel_catalog_hints_only lib) (\<lambda>k. ret (n + k))) ids 0)
            (\<lambda>n. ret \<lparr>sync_libraries = length ids, sync_updated = n\<rparr>))))"

definition sync_db_from_kernel_library :: "string \<Rightarrow> nat cmd" where
  "sync_db_from_kernel_library name =
     bindp (gets robot_on) (\<lambda>on.
       if \<not> on then ret 0
       else thenp init_db (bindp (db_read (\<lambda>d. resolve_library_id d name))
              mirror_kernel_catalog_hints_only))"

definition pull_all_online_libraries_from_kernel :: "unit cmd" where
  "pull_all_online_libraries_from_kernel =
     bindp (gets robot_on) (\<lambda>on.
       if \<not> on then ret ()
       else bindp (attempt init_db) (\<lambda>r.
         if \<not> is_ok r then ret ()
         else bindp (gets (\<lambda>w. online_library_ids_for_kernel_sync (w_db w)))
                (forp (\<lambda>lib. bindp (attempt (pull_library_inventory_from_kernel lib)) (\<lambda>_. ret ())))))"

definition auto_align_all_online_libraries :: "unit cmd" where
  "auto_align_all_online_libraries =
     thenp init_db
     (bindp (gets (\<lambda>w. online_library_ids_for_kernel_sync (w_db w)))
        (forp (\<lambda>lib. bindp (attempt (auto_align_library lib)) (\<lambda>_. ret ()))))"

definition warn_if_reconcile_drift :: "int \<Rightarrow> bool cmd" where
  "warn_if_reconcile_drift lib =
     bindp (gets robot_on) (\<lambda>on.
       if \<not> on then ret False
       else bindp (attempt init_db) (\<lambda>r.
         if \<not> is_ok r then ret False
         else bindp (attempt (db_read (\<lambda>d. db_inventory d lib))) (\<lambda>di.
           case di of
             Inl e \<Rightarrow> ret False
           | Inr d \<Rightarrow>
               bindp (attempt (kernel_inventory_snapshot lib)) (\<lambda>s.
                 case s of
                   Inl e \<Rightarrow> ret False
                 | Inr snap \<Rightarrow>
                     if find_drifts d (inv_locations snap) = [] then ret False
                     else bindp (gets (\<lambda>w. auto_reconcile_pull_enabled (w_env w) (w_cfg w))) (\<lambda>pull.
                       if pull then
                         bindp (attempt (auto_align_library lib)) (\<lambda>a.
                           case a of
                             Inr rep \<Rightarrow> ret (al_remaining rep \<noteq> 0)
                           | Inl e \<Rightarrow> ret True)
                       else ret True)))))"

end
