(* ===== verification/Geometry.thy ===== *)
theory Geometry
  imports ScsiTools KernelGeom Reconcile
begin

text \<open>
  Keeping the kernel's geometry in step with the catalogue (\<^verbatim>\<open>main.rs\<close>, \<^verbatim>\<open>kernel_geom_ioctl.rs\<close>):
  the \<^verbatim>\<open>vtl_instances\<close> string that is built from the catalogue, and
  \<^verbatim>\<open>maybe_reload_kernel_vtl_after_db_change\<close>, which rescans, asks the kernel with an ioctl, or
  reloads the module, each only when the probes of the theory \<open>ScsiTools\<close> allow it.
\<close>

section \<open>The specification string\<close>

definition library_segment :: "db \<Rightarrow> int \<Rightarrow> int \<times> int" where
  "library_segment d lib =
     (clamp 1 VTL_KERNEL_MAX_DRIVES_PER_LIB (wrap_i32 (int (drive_count d lib))),
      clamp 1 VTL_KERNEL_MAX_DATA_SLOTS_PER_LIB (wrap_i32 (int (data_slot_count d lib))))"

definition show_segment :: "int \<times> int \<Rightarrow> string" where
  "show_segment g = show_int (fst g) @ CHR ''x'' # show_int (snd g)"

definition show_segments :: "(int \<times> int) list \<Rightarrow> string" where
  "show_segments gs = join_with (CHR '','') (map show_segment gs)"

text \<open>The libraries that get a segment: of the first eight online libraries, those with elements.\<close>

definition exported_ids :: "db \<Rightarrow> int list" where
  "exported_ids d =
     filter (\<lambda>i. \<not> (drive_count d i = 0 \<and> data_slot_count d i = 0))
       (take VTL_KERNEL_MAX_ONLINE_LIBRARIES (online_lib_ids d))"

definition instances_spec :: "db \<Rightarrow> VtlError + string" where
  "instances_spec d =
     (if online_lib_ids d = [] then Inl (InvalidParameter ''no online tape library'')
      else if exported_ids d = [] then Inl (InvalidParameter ''no library with geometry'')
      else Inr (show_segments (map (library_segment d) (exported_ids d))))"

definition build_vtl_instances_kernel_spec :: "string cmd" where
  "build_vtl_instances_kernel_spec = thenp init_db (db_read instances_spec)"

definition build_plan_b_insmod_spec :: string where
  "build_plan_b_insmod_spec =
     join_with (CHR '','') (replicate VTL_KERNEL_MAX_ONLINE_LIBRARIES ''8x256'')"

definition count_vtl_instances_segments :: "string \<Rightarrow> nat" where
  "count_vtl_instances_segments spec =
     length (filter (\<lambda>t. trim t \<noteq> []) (split_on (CHR '','') spec))"

definition parse_segment :: "string \<Rightarrow> (int \<times> int) option" where
  "parse_segment tok =
     (let t = trim tok
      in if t = [] then None
         else case split_once (CHR ''x'') t of
             None \<Rightarrow> None
           | Some (a, b) \<Rightarrow>
               (case parse_i32 (trim a) of
                  None \<Rightarrow> None
                | Some d \<Rightarrow>
                    (case parse_i32 (trim b) of
                       None \<Rightarrow> None
                     | Some s \<Rightarrow> Some (clamp 1 VTL_KERNEL_MAX_DRIVES_PER_LIB d,
                                       clamp 1 VTL_KERNEL_MAX_DATA_SLOTS_PER_LIB s))))"

definition parse_vtl_instances_segments :: "string \<Rightarrow> (int \<times> int) list" where
  "parse_vtl_instances_segments spec = List.map_filter parse_segment (split_on (CHR '','') spec)"

definition read_loaded_kernel_vtl_host_count :: "string option \<Rightarrow> nat option" where
  "read_loaded_kernel_vtl_host_count param =
     Option.bind param (\<lambda>s.
       let t = trim s; n = count_vtl_instances_segments t
       in if t = [] \<or> n = 0 then None else Some n)"

definition read_live_kernel_vtl_instances_segments :: "string option \<Rightarrow> (int \<times> int) list option" where
  "read_live_kernel_vtl_instances_segments param =
     Option.bind param (\<lambda>s.
       let segs = parse_vtl_instances_segments (trim s) in if segs = [] then None else Some segs)"

definition plan_b_idle_host_segment :: "int \<times> int" where
  "plan_b_idle_host_segment = (VTL_KERNEL_MAX_DRIVES_PER_LIB, VTL_KERNEL_MAX_DATA_SLOTS_PER_LIB)"

definition pad_parts :: "nat \<Rightarrow> string list \<Rightarrow> (int \<times> int) list \<Rightarrow> string list" where
  "pad_parts n db_parts live0 =
     (let live = (if length live0 < n
                  then live0 @ replicate (n - length live0) plan_b_idle_host_segment else live0)
      in map (\<lambda>i. if i < length db_parts then db_parts ! i
                  else if i < length live then show_segment (live ! i)
                  else show_segment plan_b_idle_host_segment) [0..<n])"

definition pad_spec :: "nat \<Rightarrow> string \<Rightarrow> string option \<Rightarrow> string" where
  "pad_spec n compact param =
     join_with (CHR '','')
       (pad_parts n (filter (\<lambda>t. t \<noteq> []) (map trim (split_on (CHR '','') compact)))
          (case read_live_kernel_vtl_instances_segments param of None \<Rightarrow> [] | Some l \<Rightarrow> l))"

section \<open>Steps\<close>

record KernelGeomSync =
  kernel_geom :: string
  kernel_geom_detail :: string
  scsi_rescan :: "string option"

definition status :: "string \<Rightarrow> string \<Rightarrow> KernelGeomSync" where
  "status st detail = \<lparr>kernel_geom = st, kernel_geom_detail = detail, scsi_rescan = None\<rparr>"

definition on_world :: "(world, 'e, 'a) prog \<Rightarrow> ('e, 'a) site_prog" where
  "on_world = on_part st_world (\<lambda>w s. s\<lparr>st_world := w\<rparr>)"

definition on_kernel :: "(kernel \<Rightarrow> errno option \<times> kernel) \<Rightarrow> (io_error, unit) site_prog" where
  "on_kernel f = on_world (on_part w_kernel (\<lambda>k w. w\<lparr>w_kernel := k\<rparr>)
     (\<lambda>k. case f k of (r, k') \<Rightarrow> (case r of None \<Rightarrow> Inr () | Some e \<Rightarrow> Inl (OsError e), k')))"

definition VTL_INST_SPEC_MAX :: nat where "VTL_INST_SPEC_MAX = 384"

definition apply_spec_ioctl :: "bool \<Rightarrow> outside \<Rightarrow> string \<Rightarrow> (io_error, unit) site_prog" where
  "apply_spec_ioctl resize out spec =
     thenp (checkp (length spec < VTL_INST_SPEC_MAX)
              (KindError KInvalidInput ''vtl_instances spec exceeds ioctl buffer''))
     (bindp (gets (\<lambda>s. k_dev (w_kernel (st_world s)))) (\<lambda>dev.
        case dev of
          Some e \<Rightarrow> fail (OsError e)
        | None \<Rightarrow>
            bindp (gets st_hist) (\<lambda>h.
            thenp (emit (if resize then ResizeGeometry spec else SetInstances spec))
              (on_kernel (if resize then ioctl_resize_geometry spec else o_set_instances out h spec)))))"

definition ioctl_error_benign :: "io_error \<Rightarrow> bool" where
  "ioctl_error_benign e \<longleftrightarrow>
     raw_os_error e \<in> {Some ENOTTY, Some ENODEV, Some ENOENT} \<or> error_kind e = KUnsupported"

definition refuse_ioctl_before_hot_geom :: "env \<Rightarrow> outside \<Rightarrow> ('e, string option) site_prog" where
  "refuse_ioctl_before_hot_geom e out =
     (if e ''VTL_ALLOW_GEOM_IOCTL_WITH_LIO'' = Some ''1'' then ret None
      else bindp (lio_pscsi_references_vtl_sg out) (\<lambda>b.
             ret (if b then Some ''LIO pscsi still references VTL /dev/sg'' else None)))"

definition refuse_ioctl_if_vtl_holders_busy :: "env \<Rightarrow> outside \<Rightarrow> ('e, string option) site_prog" where
  "refuse_ioctl_if_vtl_holders_busy e out =
     (if e ''VTL_FORCE_GEOM_IOCTL'' = Some ''1'' then ret None
      else bindp (probe_vtl_device_holders out) (\<lambda>v.
             ret (case v of
                    Busy \<Rightarrow> Some ''VTL device nodes in use''
                  | FuserUnavailable \<Rightarrow> Some ''fuser not installed''
                  | Clear \<Rightarrow> None)))"

text \<open>Both refusals in turn; a refusal ends the run with its status.\<close>

definition refuse_unsafe :: "env \<Rightarrow> outside \<Rightarrow> (KernelGeomSync, unit) site_prog" where
  "refuse_unsafe e out =
     bindp (refuse_ioctl_before_hot_geom e out) (\<lambda>m.
       case m of
         Some msg \<Rightarrow> fail (status ''lio_exported'' msg)
       | None \<Rightarrow>
           bindp (refuse_ioctl_if_vtl_holders_busy e out) (\<lambda>m.
             case m of
               Some msg \<Rightarrow> fail (status ''holders_busy'' msg)
             | None \<Rightarrow> ret ()))"

definition write_vtl_inst_spec_cache :: "outside \<Rightarrow> string \<Rightarrow> ('e, unit) site_prog" where
  "write_vtl_inst_spec_cache out spec =
     bindp (gets (\<lambda>s. o_cache_write out (st_hist s))) (\<lambda>ok.
     thenp (emit (CacheWrite spec))
       (if ok then modify (\<lambda>s. s\<lparr>st_cache := Some (trim spec)\<rparr>) else ret ()))"

definition sync_all_online_libraries_after_geom :: "(world, 'e, unit) prog" where
  "sync_all_online_libraries_after_geom =
     bindp (attempt pull_all_online_libraries_from_kernel) (\<lambda>_. ret ())"

definition sync_if_enabled :: "('e, unit) site_prog" where
  "sync_if_enabled =
     bindp (gets (\<lambda>s. robot_on (st_world s))) (\<lambda>on.
       if on then on_world sync_all_online_libraries_after_geom else ret ())"

definition with_post_geom_rescan :: "env \<Rightarrow> outside \<Rightarrow> KernelGeomSync \<Rightarrow> ('e, KernelGeomSync) site_prog" where
  "with_post_geom_rescan e out g =
     (if kernel_geom g \<notin> {''ioctl_ok'', ''reload_ok'', ''script_ok''} then ret g
      else bindp (try_scsi_rescan_after_geom_change e out) (\<lambda>r.
        let g1 = g\<lparr>scsi_rescan := Some r\<rparr>
        in ret (if r = ''failed''
                then g1\<lparr>kernel_geom_detail :=
                    (if trim (kernel_geom_detail g) = [] then ''SCSI rescan failed''
                     else trim (kernel_geom_detail g) @ ''; SCSI rescan failed'')\<rparr>
                else g1)))"

text \<open>What follows every successful change of geometry.\<close>

definition geometry_applied :: "env \<Rightarrow> outside \<Rightarrow> string \<Rightarrow> string \<Rightarrow> (KernelGeomSync, 'a) site_prog" where
  "geometry_applied e out st spec =
     thenp (write_vtl_inst_spec_cache out spec)
     (thenp sync_if_enabled
      (bindp (with_post_geom_rescan e out (status st spec)) fail))"

section \<open>The run\<close>

definition geom_spec :: "outside \<Rightarrow> bool \<Rightarrow> (KernelGeomSync, string) site_prog" where
  "geom_spec out plan_b =
     bindp (if plan_b then
              bindp (ask (o_sysfs_spec out)) (\<lambda>p1.
              bindp (case read_loaded_kernel_vtl_host_count p1 of
                       None \<Rightarrow> ret None
                     | Some n \<Rightarrow>
                         bindp (attempt (on_world build_vtl_instances_kernel_spec)) (\<lambda>c.
                           case c of
                             Inl _ \<Rightarrow> ret None
                           | Inr compact \<Rightarrow>
                               bindp (ask (o_sysfs_spec out)) (\<lambda>p2. ret (Some (pad_spec n compact p2)))))
                (\<lambda>s. case s of
                   Some spec \<Rightarrow> ret (Some spec)
                 | None \<Rightarrow> bindp (attempt (on_world build_vtl_instances_kernel_spec)) (\<lambda>c.
                             ret (case c of Inl _ \<Rightarrow> None | Inr spec \<Rightarrow> Some spec))))
            else bindp (attempt (on_world build_vtl_instances_kernel_spec)) (\<lambda>c.
                   ret (case c of Inl _ \<Rightarrow> None | Inr spec \<Rightarrow> Some spec)))
       (\<lambda>s. case s of
          Some spec \<Rightarrow> ret spec
        | None \<Rightarrow> map_err (\<lambda>_. status ''spec_error'' ''build spec'')
                    (on_world build_vtl_instances_kernel_spec))"

definition rescan_if_unchanged :: "env \<Rightarrow> outside \<Rightarrow> string \<Rightarrow> (KernelGeomSync, unit) site_prog" where
  "rescan_if_unchanged e out spec =
     (if e ''VTL_SKIP_SPEC_CACHE'' = Some ''1'' \<or> e ''VTL_NO_SCSI_RESCAN_ON_UNCHANGED_SPEC'' = Some ''1''
      then ret ()
      else bindp (gets st_cache) (\<lambda>c.
        case c of
          None \<Rightarrow> ret ()
        | Some cached \<Rightarrow>
            if trim cached \<noteq> trim spec then ret ()
            else bindp (scsi_rescan_vtl_hosts out) (\<lambda>ok.
                   if ok then thenp sync_if_enabled
                     (fail (status ''rescan_only'' spec\<lparr>scsi_rescan := Some ''ok''\<rparr>))
                   else ret ())))"

text \<open>Returns whether the module refuses a change while it is loaded.\<close>

definition try_ioctl :: "env \<Rightarrow> outside \<Rightarrow> VtlConfig \<Rightarrow> bool \<Rightarrow> string \<Rightarrow> (KernelGeomSync, bool) site_prog" where
  "try_ioctl e out cfg plan_b spec =
     thenp (refuse_unsafe e out)
     (bindp (attempt (apply_spec_ioctl plan_b out spec)) (\<lambda>r.
        case r of
          Inr _ \<Rightarrow> geometry_applied e out ''ioctl_ok'' spec
        | Inl err \<Rightarrow>
            if raw_os_error err = Some EINVAL \<and> plan_b
              then fail (status ''need_reload'' ''library count changed; run vtl-kernelctl reload'')
            else
              bindp (if \<not> plan_b \<and> raw_os_error err = Some EBUSY
                     then attempt (apply_spec_ioctl True out spec) else ret (Inl err)) (\<lambda>r2.
              if is_ok r2 then geometry_applied e out ''ioctl_ok'' spec
              else if raw_os_error err = Some EBUSY then ret True
              else if \<not> cfg_kernel_reload_on_db_change cfg then
                fail (status (if ioctl_error_benign err then ''ioctl_unavailable'' else ''ioctl_failed'')
                        ''geometry ioctl'')
              else ret False)))"

definition run_reload :: "geom_event \<Rightarrow> (geom_event list \<Rightarrow> kernel \<Rightarrow> bool \<times> kernel) \<Rightarrow> ('e, bool) site_prog" where
  "run_reload ev f =
     bindp (gets st_hist) (\<lambda>h.
     thenp (emit ev)
       (on_world (on_part w_kernel (\<lambda>k w. w\<lparr>w_kernel := k\<rparr>)
          (\<lambda>k. case f h k of (ok, k') \<Rightarrow> (Inr ok, k')))))"

definition no_script :: "env \<Rightarrow> outside \<Rightarrow> bool \<Rightarrow> string \<Rightarrow> (KernelGeomSync, KernelGeomSync) site_prog" where
  "no_script e out hot_disabled spec =
     (if hot_disabled then
        thenp (refuse_unsafe e out)
        (bindp (run_reload KernelctlReload (o_reload out)) (\<lambda>ok.
           if ok then geometry_applied e out ''reload_ok'' spec
           else ret (status ''hot_geom_disabled'' ''vtl-kernelctl reload failed'')))
      else ret (status ''no_fallback'' ''ioctl failed or disabled; no kernel_vtl_reload_script''))"

definition script_env :: "VtlConfig \<Rightarrow> (string \<times> string) list" where
  "script_env cfg =
     (case cfg_vtl_ko cfg of None \<Rightarrow> [] | Some ko \<Rightarrow> [(''VTL_KO'', ko)]) @
     (case cfg_vtl_reload_scan_delay_ms cfg of None \<Rightarrow> [] | Some ms \<Rightarrow> [(''VTL_SCAN_DELAY_MS'', show_nat ms)])"

definition run_script :: "env \<Rightarrow> outside \<Rightarrow> VtlConfig \<Rightarrow> string \<Rightarrow> string \<Rightarrow> (KernelGeomSync, KernelGeomSync) site_prog" where
  "run_script e out cfg script spec =
     bindp (refuse_rmmod_for_safety e out) (\<lambda>refuse.
       if refuse then
         bindp (probe_vtl_device_holders out) (\<lambda>v1.
         bindp (probe_vtl_device_holders out) (\<lambda>v2.
           ret (status (if v2 = FuserUnavailable then ''script_refused_no_fuser'' else ''script_refused_holders'')
                  (case v1 of FuserUnavailable \<Rightarrow> ''fuser not installed''
                   | Busy \<Rightarrow> ''VTL device nodes in use'' | Clear \<Rightarrow> ''holder check''))))
       else
         bindp (run_reload (ReloadScript script spec (script_env cfg)) (o_script out)) (\<lambda>ok.
           if ok then geometry_applied e out ''script_ok'' spec
           else ret (status ''script_failed'' script)))"

definition geom_run :: "outside \<Rightarrow> env \<Rightarrow> (KernelGeomSync, KernelGeomSync) site_prog" where
  "geom_run out e =
     thenp (checkp (e ''VTL_SKIP_KERNEL_RELOAD'' \<noteq> Some ''1'') (status ''skipped'' ''VTL_SKIP_KERNEL_RELOAD=1''))
     (bindp (gets (\<lambda>s. get_config_uncached e (w_conf_file (st_world s)))) (\<lambda>cfg.
      let plan_b = (cfg_kernel_geometry_mode cfg = Fixed)
      in bindp (geom_spec out plan_b) (\<lambda>spec.
         thenp (rescan_if_unchanged e out spec)
         (bindp (if cfg_kernel_geom_prefer_ioctl cfg then try_ioctl e out cfg plan_b spec
                 else if \<not> cfg_kernel_reload_on_db_change cfg
                 then fail (status ''skipped'' ''ioctl and script disabled in vtl.conf'')
                 else ret False) (\<lambda>hot_disabled.
          case cfg_kernel_vtl_reload_script cfg of
            None \<Rightarrow> no_script e out hot_disabled spec
          | Some script \<Rightarrow> run_script e out cfg script spec)))))"

definition maybe_reload_kernel_vtl_after_db_change :: "outside \<Rightarrow> ('e, KernelGeomSync) site_prog" where
  "maybe_reload_kernel_vtl_after_db_change out s =
     (case geom_run out (w_env (st_world s)) s of
        (Inl g, s') \<Rightarrow> (Inr g, s')
      | (Inr g, s') \<Rightarrow> (Inr g, s'))"

end
