(* ===== verification/GeometryFacts.thy ===== *)
theory GeometryFacts
  imports Geometry
begin

text \<open>
  Properties of the geometry string (both parsers read back what was written, and it fits the
  ioctl's buffer) and of the run that applies it (nothing dangerous happens unless the last
  probes allow it).
\<close>

section \<open>Reading the string back\<close>

lemma split_on_absent: "d \<notin> set w \<Longrightarrow> split_on d w = [w]"
  by (induction w) auto

lemma split_on_nonempty [simp]: "split_on d w \<noteq> []"
  by (cases w) (auto split: list.split)

lemma split_on_append: "d \<notin> set w \<Longrightarrow> split_on d (w @ d # s) = w # split_on d s"
  by (induction w) auto

lemma split_on_join:
  "ws \<noteq> [] \<Longrightarrow> \<forall>w \<in> set ws. d \<notin> set w \<Longrightarrow> split_on d (join_with d ws) = ws"
proof (induction d ws rule: join_with.induct)
  case (3 d w v ws)
  then show ?case by (simp add: split_on_append)
qed (auto simp: split_on_absent)

definition seg_char :: "char \<Rightarrow> bool" where
  "seg_char c \<longleftrightarrow> is_ascii_digit c \<or> c = CHR ''x''"

lemma seg_char_plain: "seg_char c \<Longrightarrow> \<not> is_ws c \<and> \<not> is_blank c \<and> c \<noteq> CHR '',''"
  by (auto simp: seg_char_def is_blank_def is_ascii_digit_def is_ws_def less_eq_char_def)

lemma show_int_digits: "0 \<le> i \<Longrightarrow> list_all is_ascii_digit (show_int i)"
  by (simp add: show_int_def show_nat_digits)

lemma show_int_nonempty [simp]: "show_int i \<noteq> []"
  by (simp add: show_int_def)

lemma dec_val_show_int: "0 \<le> i \<Longrightarrow> int (dec_val (show_int i)) = i"
  by (simp add: show_int_def)

lemma parse_i32_show_int: "0 \<le> i \<Longrightarrow> i \<le> i32_max \<Longrightarrow> parse_i32 (show_int i) = Some i"
  using parse_i32_show_nat [of "nat i"] by (simp add: show_int_def)

lemma show_int_no_x: "0 \<le> i \<Longrightarrow> CHR ''x'' \<notin> set (show_int i)"
  using show_int_digits [of i] digit_not_sign by (auto simp: list_all_iff)

lemma show_segment_chars: "geometry_valid g \<Longrightarrow> list_all seg_char (show_segment g)"
  using show_int_digits [of "fst g"] show_int_digits [of "snd g"]
  by (auto simp: show_segment_def seg_char_def geometry_valid_def list_all_iff)

lemma show_segment_plain:
  assumes "geometry_valid g"
  shows "trim (show_segment g) = show_segment g" "dropWhile is_blank (show_segment g) = show_segment g"
    "CHR '','' \<notin> set (show_segment g)" "show_segment g \<noteq> []"
proof -
  note plain = show_segment_chars [OF assms]
  show "trim (show_segment g) = show_segment g"
    using plain seg_char_plain by (intro trim_no_ws) (auto simp: list_all_iff)
  show "show_segment g \<noteq> []" by (simp add: show_segment_def)
  then show "dropWhile is_blank (show_segment g) = show_segment g"
    using plain seg_char_plain by (cases "show_segment g") auto
  show "CHR '','' \<notin> set (show_segment g)" using plain seg_char_plain by (auto simp: list_all_iff)
qed

lemma trim_digits: "list_all is_ascii_digit s \<Longrightarrow> trim s = s"
  using digit_not_ws by (intro trim_no_ws) (auto simp: list_all_iff)

lemma valid_in_i32: "geometry_valid g \<Longrightarrow> 0 \<le> fst g \<and> fst g \<le> i32_max \<and> 0 \<le> snd g \<and> snd g \<le> i32_max"
  by (simp add: geometry_valid_def VTL_MAX_DRIVES_def VTL_MAX_SLOTS_def i32_max_def)

lemma userspace_clamp_valid:
  "geometry_valid g \<Longrightarrow> clamp 1 VTL_KERNEL_MAX_DRIVES_PER_LIB (fst g) = fst g \<and>
     clamp 1 VTL_KERNEL_MAX_DATA_SLOTS_PER_LIB (snd g) = snd g"
  by (simp add: geometry_valid_def clamp_def VTL_KERNEL_MAX_DRIVES_PER_LIB_def
      VTL_KERNEL_MAX_DATA_SLOTS_PER_LIB_def VTL_MAX_DRIVES_def VTL_MAX_SLOTS_def)

lemma parse_segment_show:
  assumes "geometry_valid g"
  shows "parse_segment (show_segment g) = Some g"
proof -
  have "split_once (CHR ''x'') (show_segment g) = Some (show_int (fst g), show_int (snd g))"
    unfolding show_segment_def using assms by (intro split_once_prefix show_int_no_x) (simp add: geometry_valid_def)
  then show ?thesis
    using assms valid_in_i32 [OF assms] userspace_clamp_valid [OF assms]
    by (simp add: parse_segment_def Let_def show_segment_plain trim_digits show_int_digits
        parse_i32_show_int)
qed

lemma map_filter_all_Some: "(\<And>x. x \<in> set xs \<Longrightarrow> f x = Some (g x)) \<Longrightarrow> List.map_filter f xs = map g xs"
  by (induction xs) (auto simp: List.map_filter_def)

text \<open>The segments of a written string, unless there are none.\<close>

lemma split_show_segments:
  "gs \<noteq> [] \<Longrightarrow> list_all geometry_valid gs \<Longrightarrow>
   split_on (CHR '','') (show_segments gs) = map show_segment gs"
  unfolding show_segments_def by (rule split_on_join) (auto simp: list_all_iff show_segment_plain)

lemma parse_show_segments:
  assumes "gs \<noteq> []" and "list_all geometry_valid gs"
  shows "parse_vtl_instances_segments (show_segments gs) = gs"
proof -
  have "List.map_filter parse_segment (map show_segment gs) = List.map_filter (parse_segment \<circ> show_segment) gs"
    by (simp add: List.map_filter_def comp_def filter_map)
  also have "\<dots> = map id gs"
    using assms(2) by (intro map_filter_all_Some) (simp add: list_all_iff parse_segment_show)
  finally show ?thesis using assms by (simp add: parse_vtl_instances_segments_def split_show_segments)
qed

text \<open>The kernel's parser.\<close>

lemma takeWhile_digits:
  "list_all is_ascii_digit ds \<Longrightarrow> r = [] \<or> \<not> is_ascii_digit (hd r) \<Longrightarrow>
   takeWhile is_ascii_digit (ds @ r) = ds \<and> dropWhile is_ascii_digit (ds @ r) = r"
  by (induction ds) (simp_all, (cases r; simp)?)

lemma scan_d_show_int:
  assumes "0 \<le> i" and "i \<le> i32_max" and "r = [] \<or> \<not> is_ascii_digit (hd r)"
  shows "scan_d (show_int i @ r) = Some (i, r)"
proof -
  have ds: "list_all is_ascii_digit (show_int i)" using assms(1) by (rule show_int_digits)
  then have hd: "is_ascii_digit (hd (show_int i))"
    using show_int_nonempty [of i] by (cases "show_int i") auto
  have ws: "dropWhile is_ws (show_int i @ r) = show_int i @ r"
    using hd show_int_nonempty [of i] digit_not_ws by (cases "show_int i") auto
  have neg: "hd (show_int i) \<noteq> CHR ''-''" using hd digit_not_sign by blast
  have "wrap_i32 (int (dec_val (show_int i))) = i"
    using assms dec_val_show_int wrap_i32_id [of i] by (simp add: i32_min_def)
  then show ?thesis
    using ds neg takeWhile_digits [OF ds assms(3)] by (simp add: scan_d_def ws)
qed

lemma scan_dxd_show_segment:
  assumes "geometry_valid g"
  shows "scan_dxd (show_segment g) = Some g"
proof -
  have x: "\<not> is_ascii_digit (CHR ''x'')" by (simp add: is_ascii_digit_def less_eq_char_def)
  have "scan_d (show_segment g) = Some (fst g, CHR ''x'' # show_int (snd g))"
    unfolding show_segment_def using valid_in_i32 [OF assms] x by (intro scan_d_show_int) auto
  moreover have "scan_d (show_int (snd g)) = Some (snd g, [])"
    using scan_d_show_int [of "snd g" "[]"] valid_in_i32 [OF assms] by simp
  ultimately show ?thesis by (simp add: scan_dxd_def)
qed

lemma parse_tokens_show:
  "list_all geometry_valid gs \<Longrightarrow> length out + length gs \<le> VTL_MAX_SCSI_INSTANCES \<Longrightarrow>
   parse_tokens (map show_segment gs) out = Inr (out @ gs)"
  by (induction gs arbitrary: out)
     (simp_all add: show_segment_plain scan_dxd_show_segment clamp_of_valid split_beta
       del: dropWhile_eq_Nil_conv)

lemma show_segments_nonempty: "gs \<noteq> [] \<Longrightarrow> show_segments gs \<noteq> []"
  by (cases gs rule: remdups_adj.cases) (auto simp: show_segments_def show_segment_def)

lemma kernel_parse_show_segments:
  assumes "gs \<noteq> []" and "list_all geometry_valid gs" and "length gs \<le> VTL_MAX_SCSI_INSTANCES"
  shows "vtl_parse_spec_tokens (show_segments gs) = Inr gs"
  using assms parse_tokens_show [of gs "[]"]
  by (simp add: vtl_parse_spec_tokens_def split_show_segments show_segments_nonempty)

section \<open>The string of a catalogue\<close>

lemma wrap_count: "length xs < 2 ^ 31 \<Longrightarrow> wrap_i32 (int (length (filter P xs))) = int (length (filter P xs))"
  by (rule wrap_i32_id) (use le_less_trans [OF length_filter_le] in \<open>simp_all add: i32_min_def i32_max_def less_Suc_eq_le [symmetric]\<close>)

lemma clamp_max_min: "lo \<le> hi \<Longrightarrow> clamp lo hi x = max lo (min hi x)"
  by (simp add: clamp_def max_def min_def)

lemma library_segment_counts:
  assumes "length (drives d) < 2 ^ 31 \<and> length (slots d) < 2 ^ 31"
  shows "library_segment d l =
    (max 1 (min 8 (int (length (filter (\<lambda>r. drive_lib r = l) (drives d))))),
     max 1 (min 256 (int (length (filter (\<lambda>r. slot_lib r = l \<and> slot_ie r = 0) (slots d))))))"
  using wrap_count [of "drives d"] wrap_count [of "slots d"] assms
  by (simp add: library_segment_def drive_count_def data_slot_count_def count_where_def clamp_max_min
      VTL_KERNEL_MAX_DRIVES_PER_LIB_def VTL_KERNEL_MAX_DATA_SLOTS_PER_LIB_def)

lemma library_segment_valid: "geometry_valid (library_segment d lib)"
  using clamp_valid by (simp add: library_segment_def VTL_KERNEL_MAX_DRIVES_PER_LIB_def
      VTL_KERNEL_MAX_DATA_SLOTS_PER_LIB_def VTL_MAX_DRIVES_def VTL_MAX_SLOTS_def)

lemma exported_ids_le: "length (exported_ids d) \<le> 8"
proof -
  have "length (exported_ids d) \<le> length (take VTL_KERNEL_MAX_ONLINE_LIBRARIES (online_lib_ids d))"
    unfolding exported_ids_def by (rule length_filter_le)
  then show ?thesis by (simp add: VTL_KERNEL_MAX_ONLINE_LIBRARIES_def)
qed

lemma instances_spec_Inr:
  "instances_spec d = Inr spec \<longleftrightarrow>
     exported_ids d \<noteq> [] \<and> spec = show_segments (map (library_segment d) (exported_ids d))"
  by (auto simp: instances_spec_def exported_ids_def)

lemma show_nat_length: "n < 10 ^ Suc k \<Longrightarrow> length (show_nat n) \<le> Suc k"
proof (induction k arbitrary: n)
  case 0
  then show ?case by (subst show_nat.simps) simp
next
  case (Suc k)
  show ?case
  proof (cases "n < 10")
    case True
    then show ?thesis by (subst show_nat.simps) simp
  next
    case False
    have "n div 10 < 10 ^ Suc k" using Suc.prems by (simp add: less_mult_imp_div_less mult.commute)
    with Suc.IH have "length (show_nat (n div 10)) \<le> Suc k" by blast
    with False show ?thesis by (subst show_nat.simps) simp
  qed
qed

lemma show_segment_length:
  assumes "geometry_valid g"
  shows "length (show_segment g) \<le> 5"
proof -
  have "nat (fst g) < 10 ^ Suc 0" "nat (snd g) < 10 ^ Suc 2"
    using assms by (auto simp: geometry_valid_def VTL_MAX_DRIVES_def VTL_MAX_SLOTS_def)
  from this [THEN show_nat_length]
  have "length (show_nat (nat (fst g))) \<le> Suc 0" "length (show_nat (nat (snd g))) \<le> Suc 2" .
  with assms show ?thesis by (simp add: show_segment_def show_int_def geometry_valid_def)
qed

lemma join_length: "\<forall>w \<in> set ws. length w \<le> k \<Longrightarrow> length (join_with d ws) \<le> length ws * Suc k"
  by (induction d ws rule: join_with.induct) auto

lemma show_segments_length:
  "list_all geometry_valid gs \<Longrightarrow> length (show_segments gs) \<le> length gs * 6"
  unfolding show_segments_def
  using join_length [of "map show_segment gs" 5] by (simp add: list_all_iff show_segment_length)

text \<open>
  The instance index that the robot commands use is the position of the library's segment, for
  the libraries among the first eight.
\<close>

lemma position_Some: "position xs x = Some n \<Longrightarrow> n < length xs \<and> xs ! n = x"
  by (induction xs arbitrary: n) (auto simp: position_def split: if_splits)

lemma position_append: "x \<in> set xs \<Longrightarrow> position (xs @ ys) x = position xs x"
  by (simp add: position_def)

lemma position_exported:
  assumes "lib \<in> set (take VTL_KERNEL_MAX_ONLINE_LIBRARIES (online_lib_ids d))"
  shows "position (online_library_ids_for_kernel_sync d) lib = position (exported_ids d) lib"
proof -
  let ?n = VTL_KERNEL_MAX_ONLINE_LIBRARIES
  let ?P = "\<lambda>i. \<not> (drive_count d i = 0 \<and> data_slot_count d i = 0)"
  have split: "online_library_ids_for_kernel_sync d =
      exported_ids d @ filter ?P (drop ?n (online_lib_ids d))"
    unfolding online_library_ids_for_kernel_sync_def exported_ids_def
    by (simp flip: filter_append)
  show ?thesis
  proof (cases "?P lib")
    case True
    with assms show ?thesis unfolding split by (intro position_append) (simp add: exported_ids_def)
  next
    case False
    then show ?thesis by (simp add: position_def online_library_ids_for_kernel_sync_def exported_ids_def)
  qed
qed

end
