(* ===== verification/GeometrySafety.thy ===== *)
theory GeometrySafety
  imports GeometryFacts
begin

text \<open>
  The order of the events of a run: an ioctl that changes the geometry, a reload of the module
  and the reload script only happen after probes that allow them.
\<close>

section \<open>What a history allows\<close>

fun note_probe :: "geom_event \<Rightarrow> VtlHoldersProbe option \<Rightarrow> VtlHoldersProbe option" where
  "note_probe (Probed v) a = Some v"
| "note_probe ev a = a"

fun note_lio :: "geom_event \<Rightarrow> bool option \<Rightarrow> bool option" where
  "note_lio (LioChecked b) a = Some b"
| "note_lio ev a = a"

definition last_probe :: "geom_event list \<Rightarrow> VtlHoldersProbe option" where
  "last_probe h = fold note_probe h None"

definition last_lio :: "geom_event list \<Rightarrow> bool option" where
  "last_lio h = fold note_lio h None"

definition lio_allows :: "env \<Rightarrow> geom_event list \<Rightarrow> bool" where
  "lio_allows e h \<longleftrightarrow> e ''VTL_ALLOW_GEOM_IOCTL_WITH_LIO'' = Some ''1'' \<or> last_lio h = Some False"

definition holders_allow :: "env \<Rightarrow> geom_event list \<Rightarrow> bool" where
  "holders_allow e h \<longleftrightarrow> e ''VTL_FORCE_GEOM_IOCTL'' = Some ''1'' \<or> last_probe h = Some Clear"

fun event_allowed :: "env \<Rightarrow> geom_event list \<Rightarrow> geom_event \<Rightarrow> bool" where
  "event_allowed e h (SetInstances s) = (lio_allows e h \<and> holders_allow e h)"
| "event_allowed e h (ResizeGeometry s) = (lio_allows e h \<and> holders_allow e h)"
| "event_allowed e h KernelctlReload = (lio_allows e h \<and> holders_allow e h)"
| "event_allowed e h (ReloadScript p s v) =
     (e ''VTL_FORCE_RMMOD'' = Some ''1'' \<or> last_probe h = Some Clear)"
| "event_allowed e h ev = True"

definition history_ok :: "env \<Rightarrow> geom_event list \<Rightarrow> bool" where
  "history_ok e h \<longleftrightarrow> (\<forall>p ev q. h = p @ ev # q \<longrightarrow> event_allowed e p ev)"

lemma last_probe_snoc [simp]: "last_probe (h @ [ev]) = note_probe ev (last_probe h)"
  by (simp add: last_probe_def)

lemma last_lio_snoc [simp]: "last_lio (h @ [ev]) = note_lio ev (last_lio h)"
  by (simp add: last_lio_def)

lemma history_ok_Nil [simp]: "history_ok e []"
  by (simp add: history_ok_def)

lemma history_ok_snoc [simp]: "history_ok e (h @ [ev]) \<longleftrightarrow> history_ok e h \<and> event_allowed e h ev"
proof
  assume "history_ok e (h @ [ev])"
  then show "history_ok e h \<and> event_allowed e h ev"
    unfolding history_ok_def by (metis append.assoc append_Cons)
next
  assume ok: "history_ok e h \<and> event_allowed e h ev"
  show "history_ok e (h @ [ev])"
    unfolding history_ok_def
  proof (intro allI impI)
    fix p ev' q assume "h @ [ev] = p @ ev' # q"
    then show "event_allowed e p ev'"
      using ok by (cases q rule: rev_cases) (auto simp: history_ok_def)
  qed
qed

section \<open>Programs that only look\<close>

text \<open>
  A site program is harmless when it keeps every predicate of the history that harmless events
  keep; which events those are is a parameter of the rules.
\<close>

lemma quiet_emit: "(\<And>h. P h \<Longrightarrow> P (h @ [ev])) \<Longrightarrow> keeps (\<lambda>s. P (st_hist s)) (emit ev)"
  unfolding emit_def by (rule keeps_modify) simp

lemma quiet_ask: "(\<And>h. P h \<Longrightarrow> P (h @ [Asked])) \<Longrightarrow> keeps (\<lambda>s. P (st_hist s)) (ask f)"
  unfolding ask_def by (intro keeps_intros quiet_emit)

lemma keeps_on_world: "keeps (\<lambda>s. P (st_hist s)) (on_world m)"
  unfolding on_world_def by (rule keeps_on_part) simp

lemma quiet_device_paths:
  "(\<And>h. P h \<Longrightarrow> P (h @ [Asked])) \<Longrightarrow> keeps (\<lambda>s. P (st_hist s)) (vtl_scsi_device_paths out)"
  unfolding vtl_scsi_device_paths_def by (intro keeps_intros quiet_ask)

lemma quiet_any_held:
  "(\<And>h. P h \<Longrightarrow> P (h @ [Asked])) \<Longrightarrow> keeps (\<lambda>s. P (st_hist s)) (any_held out ps)"
  by (induction ps) (simp_all add: keeps_ret keeps_bindp quiet_ask keeps_if)

lemma quiet_probe:
  assumes "\<And>h. P h \<Longrightarrow> P (h @ [Asked])" and "\<And>h v. P h \<Longrightarrow> P (h @ [Probed v])"
  shows "keeps (\<lambda>s. P (st_hist s)) (probe_vtl_device_holders out)"
  unfolding probe_vtl_device_holders_def
  by (intro keeps_intros quiet_ask quiet_emit quiet_device_paths quiet_any_held) (simp_all add: assms)

lemma quiet_lio:
  assumes "\<And>h. P h \<Longrightarrow> P (h @ [Asked])" and "\<And>h b. P h \<Longrightarrow> P (h @ [LioChecked b])"
  shows "keeps (\<lambda>s. P (st_hist s)) (lio_pscsi_references_vtl_sg out)"
  unfolding lio_pscsi_references_vtl_sg_def
  by (intro keeps_intros quiet_ask quiet_emit quiet_device_paths) (simp_all add: assms)

lemma quiet_write_scans:
  "(\<And>h i. P h \<Longrightarrow> P (h @ [ScanWrite i])) \<Longrightarrow> keeps (\<lambda>s. P (st_hist s)) (write_scans out is)"
  by (induction "is") (auto intro!: keeps_intros quiet_emit)

lemma quiet_rescan:
  assumes "\<And>h. P h \<Longrightarrow> P (h @ [Asked])" and "\<And>h i. P h \<Longrightarrow> P (h @ [ScanWrite i])"
  shows "keeps (\<lambda>s. P (st_hist s)) (scsi_rescan_vtl_hosts out)"
  unfolding scsi_rescan_vtl_hosts_def
  by (intro keeps_intros quiet_ask quiet_write_scans) (simp_all add: assms)

text \<open>The run after a change of geometry emits only cache writes and scans.\<close>

lemma keeps_geometry_applied:
  assumes "\<And>h. P h \<Longrightarrow> P (h @ [Asked])" and "\<And>h i. P h \<Longrightarrow> P (h @ [ScanWrite i])"
    and "\<And>h s. P h \<Longrightarrow> P (h @ [CacheWrite s])"
  shows "keeps (\<lambda>s. P (st_hist s)) (geometry_applied e out st spec)"
  unfolding geometry_applied_def write_vtl_inst_spec_cache_def sync_if_enabled_def
    with_post_geom_rescan_def try_scsi_rescan_after_geom_change_def Let_def
  by (intro keeps_intros quiet_emit keeps_on_world quiet_rescan)
     (simp_all add: assms keeps_def)

lemma quiet_geom_spec:
  assumes "\<And>h. P h \<Longrightarrow> P (h @ [Asked])"
  shows "keeps (\<lambda>s. P (st_hist s)) (geom_spec out plan_b)"
  unfolding geom_spec_def
  by (intro keeps_intros quiet_ask keeps_on_world assms)

lemma keeps_rescan_if_unchanged:
  assumes "\<And>h. P h \<Longrightarrow> P (h @ [Asked])" and "\<And>h i. P h \<Longrightarrow> P (h @ [ScanWrite i])"
  shows "keeps (\<lambda>s. P (st_hist s)) (rescan_if_unchanged e out spec)"
  unfolding rescan_if_unchanged_def sync_if_enabled_def
  by (intro keeps_intros quiet_rescan keeps_on_world assms)

section \<open>The run\<close>

text \<open>A predicate of the history and the steps that establish it.\<close>

abbreviation hist_ok :: "env \<Rightarrow> site \<Rightarrow> bool" where
  "hist_ok e s \<equiv> history_ok e (st_hist s)"

definition cleared :: "env \<Rightarrow> geom_event list \<Rightarrow> bool" where
  "cleared e h \<longleftrightarrow> history_ok e h \<and> lio_allows e h \<and> holders_allow e h"

lemma ensures_probe:
  assumes "\<And>h. P h \<Longrightarrow> P (h @ [Asked])" and "\<And>h v. P h \<Longrightarrow> P (h @ [Probed v])"
  shows "ensures (\<lambda>s. P (st_hist s)) (probe_vtl_device_holders out)
           (\<lambda>v s. P (st_hist s) \<and> last_probe (st_hist s) = Some v) (\<lambda>s. P (st_hist s))"
  unfolding probe_vtl_device_holders_def
proof (rule ensures_bindp)
  show "ensures (\<lambda>s. P (st_hist s))
     (bindp (ask (o_fuser out)) (\<lambda>f.
        if \<not> f then ret FuserUnavailable
        else bindp (vtl_scsi_device_paths out) (\<lambda>ps.
               if ps = [] then ret Clear
               else bindp (any_held out ps) (\<lambda>b. ret (if b then Busy else Clear)))))
     (\<lambda>_ s. P (st_hist s)) (\<lambda>s. P (st_hist s))"
    by (intro ensures_keeps keeps_intros quiet_ask quiet_device_paths quiet_any_held assms(1))
  show "ensures (\<lambda>s. P (st_hist s)) (thenp (emit (Probed v)) (ret v))
     (\<lambda>x s. P (st_hist s) \<and> last_probe (st_hist s) = Some x) (\<lambda>s. P (st_hist s))" for v
    by (simp add: ensures_def thenp_def bindp_def assms(2))
qed

lemma ensures_lio:
  assumes "\<And>h. P h \<Longrightarrow> P (h @ [Asked])" and "\<And>h b. P h \<Longrightarrow> P (h @ [LioChecked b])"
  shows "ensures (\<lambda>s. P (st_hist s)) (lio_pscsi_references_vtl_sg out)
           (\<lambda>b s. P (st_hist s) \<and> last_lio (st_hist s) = Some b) (\<lambda>s. P (st_hist s))"
  unfolding lio_pscsi_references_vtl_sg_def
proof (rule ensures_bindp)
  show "ensures (\<lambda>s. P (st_hist s))
     (bindp (vtl_scsi_device_paths out) (\<lambda>ps.
        if ps = [] then ret False
        else bindp (ask (o_configfs out)) (\<lambda>cfs.
               if (case cfs of None \<Rightarrow> False | Some ts \<Rightarrow> list_ex (\<lambda>p. list_ex (tree_mentions p) ts) ps)
               then ret True
               else bindp (ask (o_targetcli out)) (\<lambda>t.
                      ret (case t of None \<Rightarrow> False | Some text \<Rightarrow> list_ex (\<lambda>p. contains_sub p text) ps)))))
     (\<lambda>_ s. P (st_hist s)) (\<lambda>s. P (st_hist s))"
    by (intro ensures_keeps keeps_intros quiet_ask quiet_device_paths assms(1))
  show "ensures (\<lambda>s. P (st_hist s)) (thenp (emit (LioChecked b)) (ret b))
     (\<lambda>x s. P (st_hist s) \<and> last_lio (st_hist s) = Some x) (\<lambda>s. P (st_hist s))" for b
    by (simp add: ensures_def thenp_def bindp_def assms(2))
qed

lemma refuse_unsafe_clears:
  "ensures (hist_ok e) (refuse_unsafe e out) (\<lambda>_ s. cleared e (st_hist s)) (hist_ok e)"
proof -
  have lio: "ensures (hist_ok e) (refuse_ioctl_before_hot_geom e out)
      (\<lambda>m s. hist_ok e s \<and> (m = None \<longrightarrow> lio_allows e (st_hist s))) (hist_ok e)"
  proof (cases "e ''VTL_ALLOW_GEOM_IOCTL_WITH_LIO'' = Some ''1''")
    case True
    then show ?thesis
      by (simp add: refuse_ioctl_before_hot_geom_def lio_allows_def ensures_ret)
  next
    case False
    show ?thesis
      unfolding refuse_ioctl_before_hot_geom_def if_not_P [OF False]
      by (rule ensures_bindp, rule ensures_lio [where P = "history_ok e"], simp, simp,
          rule ensures_ret, simp add: lio_allows_def)
  qed
  have holders: "ensures (\<lambda>s. hist_ok e s \<and> lio_allows e (st_hist s))
      (refuse_ioctl_if_vtl_holders_busy e out)
      (\<lambda>m s. hist_ok e s \<and> (m = None \<longrightarrow> cleared e (st_hist s))) (hist_ok e)"
  proof (cases "e ''VTL_FORCE_GEOM_IOCTL'' = Some ''1''")
    case True
    then show ?thesis
      by (simp add: refuse_ioctl_if_vtl_holders_busy_def holders_allow_def cleared_def ensures_ret)
  next
    case False
    have "ensures (\<lambda>s. hist_ok e s \<and> lio_allows e (st_hist s)) (probe_vtl_device_holders out)
      (\<lambda>v s. (hist_ok e s \<and> lio_allows e (st_hist s)) \<and> last_probe (st_hist s) = Some v)
      (\<lambda>s. hist_ok e s \<and> lio_allows e (st_hist s))"
      by (rule ensures_probe [where P = "\<lambda>h. history_ok e h \<and> lio_allows e h"])
         (simp_all add: lio_allows_def)
    then have "ensures (\<lambda>s. hist_ok e s \<and> lio_allows e (st_hist s)) (probe_vtl_device_holders out)
      (\<lambda>v s. hist_ok e s \<and> lio_allows e (st_hist s) \<and> last_probe (st_hist s) = Some v) (hist_ok e)"
      by (rule ensures_weaken) auto
    then show ?thesis
      unfolding refuse_ioctl_if_vtl_holders_busy_def if_not_P [OF False]
      by (rule ensures_bindp)
         (rule ensures_ret, simp add: cleared_def holders_allow_def split: VtlHoldersProbe.split)
  qed
  show ?thesis
    unfolding refuse_unsafe_def
  proof (rule ensures_bindp [OF lio])
    fix m
    show "ensures (\<lambda>s. hist_ok e s \<and> (m = None \<longrightarrow> lio_allows e (st_hist s)))
       (case m of Some msg \<Rightarrow> fail (status ''lio_exported'' msg)
        | None \<Rightarrow> bindp (refuse_ioctl_if_vtl_holders_busy e out)
            (\<lambda>m. case m of Some msg \<Rightarrow> fail (status ''holders_busy'' msg) | None \<Rightarrow> ret ()))
       (\<lambda>_ s. cleared e (st_hist s)) (hist_ok e)"
      using holders by (cases m)
        (auto intro!: ensures_bindp [OF holders] ensures_fail ensures_ret split: option.split)
  qed
qed

lemma cleared_keeps:
  "cleared e h \<Longrightarrow> cleared e (h @ [SetInstances s])" "cleared e h \<Longrightarrow> cleared e (h @ [ResizeGeometry s])"
  "cleared e h \<Longrightarrow> cleared e (h @ [Asked])" "cleared e h \<Longrightarrow> cleared e (h @ [ScanWrite i])"
  "cleared e h \<Longrightarrow> cleared e (h @ [CacheWrite s])" "cleared e h \<Longrightarrow> cleared e (h @ [KernelctlReload])"
  by (simp_all add: cleared_def lio_allows_def holders_allow_def)

lemma cleared_ok: "cleared e h \<Longrightarrow> history_ok e h"
  by (simp add: cleared_def)

lemma keeps_apply_spec_ioctl:
  "keeps (\<lambda>s. cleared e (st_hist s)) (apply_spec_ioctl resize out spec)"
  unfolding apply_spec_ioctl_def on_kernel_def
  by (intro keeps_intros quiet_emit keeps_on_world) (simp_all add: cleared_keeps)

lemma ensures_from_keeps:
  "keeps (\<lambda>s. cleared e (st_hist s)) m \<Longrightarrow>
   ensures (\<lambda>s. cleared e (st_hist s)) m (\<lambda>_. hist_ok e) (hist_ok e)"
  unfolding ensures_def keeps_def by (fastforce dest: cleared_ok split: prod.splits sum.splits)

lemma try_ioctl_ok: "ensures (hist_ok e) (try_ioctl e out cfg plan_b spec) (\<lambda>_. hist_ok e) (hist_ok e)"
  unfolding try_ioctl_def
  by (rule ensures_thenp [OF refuse_unsafe_clears], rule ensures_from_keeps)
     (intro keeps_intros keeps_apply_spec_ioctl keeps_geometry_applied; simp add: cleared_keeps)

lemma no_script_ok: "ensures (hist_ok e) (no_script e out hot spec) (\<lambda>_. hist_ok e) (hist_ok e)"
proof (cases hot)
  case True
  show ?thesis
    unfolding no_script_def if_P [OF True] run_reload_def
    by (rule ensures_thenp [OF refuse_unsafe_clears], rule ensures_from_keeps)
       (intro keeps_intros quiet_emit keeps_on_world keeps_geometry_applied; simp add: cleared_keeps)
next
  case False
  then show ?thesis by (simp add: no_script_def ensures_ret)
qed

lemma refuse_rmmod_ok:
  "ensures (hist_ok e) (refuse_rmmod_for_safety e out)
     (\<lambda>b s. hist_ok e s \<and> (\<not> b \<longrightarrow> e ''VTL_FORCE_RMMOD'' = Some ''1'' \<or> last_probe (st_hist s) = Some Clear))
     (hist_ok e)"
proof (cases "e ''VTL_FORCE_RMMOD'' = Some ''1''")
  case True
  then show ?thesis by (simp add: refuse_rmmod_for_safety_def ensures_ret)
next
  case False
  show ?thesis
    unfolding refuse_rmmod_for_safety_def if_not_P [OF False]
    by (rule ensures_bindp, rule ensures_probe [where P = "history_ok e"], simp, simp,
        rule ensures_ret) (metis VtlHoldersProbe.exhaust)
qed

lemma run_script_ok: "ensures (hist_ok e) (run_script e out cfg p spec) (\<lambda>_. hist_ok e) (hist_ok e)"
  unfolding run_script_def
proof (rule ensures_bindp [OF refuse_rmmod_ok])
  fix refuse
  let ?P = "\<lambda>s. hist_ok e s \<and> (\<not> refuse \<longrightarrow> e ''VTL_FORCE_RMMOD'' = Some ''1'' \<or> last_probe (st_hist s) = Some Clear)"
  let ?tail = "\<lambda>ok. if ok then geometry_applied e out ''script_ok'' spec else ret (status ''script_failed'' p)"
  have tail: "ensures (hist_ok e) (?tail ok) (\<lambda>_. hist_ok e) (hist_ok e)" for ok
    by (intro ensures_keeps keeps_intros keeps_geometry_applied) auto
  have refused: "ensures (hist_ok e) (bindp (probe_vtl_device_holders out) (\<lambda>v1.
       bindp (probe_vtl_device_holders out) (\<lambda>v2. ret (f v1 v2)))) (\<lambda>_. hist_ok e) (hist_ok e)" for f
    by (intro ensures_keeps keeps_intros quiet_probe) auto
  have script: "ensures ?P (run_reload (ReloadScript p spec (script_env cfg)) (o_script out))
      (\<lambda>_. hist_ok e) (hist_ok e)" if "\<not> refuse"
    unfolding run_reload_def
    by (rule ensures_bindp [where Q = "\<lambda>_. ?P"], rule ensures_gets, assumption,
        rule ensures_thenp [where Q = "hist_ok e"], use that in \<open>simp add: ensures_def\<close>,
        intro ensures_keeps keeps_on_world)
  show "ensures ?P
     (if refuse then bindp (probe_vtl_device_holders out) (\<lambda>v1. bindp (probe_vtl_device_holders out) (\<lambda>v2.
        ret (status (if v2 = FuserUnavailable then ''script_refused_no_fuser'' else ''script_refused_holders'')
          (case v1 of FuserUnavailable \<Rightarrow> ''fuser not installed'' | Busy \<Rightarrow> ''VTL device nodes in use''
           | Clear \<Rightarrow> ''holder check''))))
      else bindp (run_reload (ReloadScript p spec (script_env cfg)) (o_script out)) ?tail)
     (\<lambda>_. hist_ok e) (hist_ok e)"
  proof (cases refuse)
    case True
    show ?thesis unfolding if_P [OF True] by (rule ensures_weaken [OF refused]) auto
  next
    case False
    show ?thesis unfolding if_not_P [OF False] by (rule ensures_bindp [OF script [OF False] tail])
  qed
qed

lemma geom_run_ok: "ensures (hist_ok e) (geom_run out e) (\<lambda>_. hist_ok e) (hist_ok e)"
proof -
  have check: "ensures (hist_ok e) (checkp b err) (\<lambda>_. hist_ok e) (hist_ok e)" for b and err :: KernelGeomSync
    by (rule ensures_keeps [OF keeps_checkp])
  have cfg: "ensures (hist_ok e) (gets f) (\<lambda>_. hist_ok e) (hist_ok e)" for f :: "site \<Rightarrow> 'x"
    by (rule ensures_keeps [OF keeps_gets])
  have spec: "ensures (hist_ok e) (geom_spec out p) (\<lambda>_. hist_ok e) (hist_ok e)" for p
    by (rule ensures_keeps [OF quiet_geom_spec]) auto
  have rescan: "ensures (hist_ok e) (rescan_if_unchanged e out s) (\<lambda>_. hist_ok e) (hist_ok e)" for s
    by (rule ensures_keeps [OF keeps_rescan_if_unchanged]) auto
  have mid: "ensures (hist_ok e)
     (if a then try_ioctl e out cfg p s else if b then fail g else ret False) (\<lambda>_. hist_ok e) (hist_ok e)"
    for a b cfg p s g
    by (simp add: try_ioctl_ok ensures_fail ensures_ret)
  have last: "ensures (hist_ok e)
     (case x of None \<Rightarrow> no_script e out hot s | Some scr \<Rightarrow> run_script e out cfg scr s)
     (\<lambda>_. hist_ok e) (hist_ok e)" for x hot s cfg
    by (simp add: no_script_ok run_script_ok split: option.split)
  show ?thesis
    unfolding geom_run_def Let_def
    by (intro ensures_thenp [OF check] ensures_bindp [OF cfg] ensures_bindp [OF spec]
        ensures_thenp [OF rescan] ensures_bindp [OF mid] last)
qed

lemma maybe_reload_history_ok:
  assumes "history_ok (w_env (st_world s)) (st_hist s)"
  shows "history_ok (w_env (st_world s)) (st_hist (snd (maybe_reload_kernel_vtl_after_db_change out s)))"
proof -
  from geom_run_ok assms have "history_ok (w_env (st_world s)) (st_hist (snd (geom_run out (w_env (st_world s)) s)))"
    by (rule ensures_keeps_from)
  then show ?thesis
    by (auto simp: maybe_reload_kernel_vtl_after_db_change_def split: prod.splits sum.splits)
qed

end
