(* ===== verification/Robot.thy ===== *)
theory Robot
  imports Reconcile
begin

text \<open>
  The robot commands of \<^verbatim>\<open>main.rs\<close>: each runs one transaction of the theory \<open>Placement\<close>, then asks
  the kernel to do the same move (a failure there is only a warning), and then aligns the two
  inventories. The commands work on the current library; the \<open>in_library\<close> variants set it for the
  duration of the call.
\<close>

section \<open>Commands\<close>

definition tape_row_by_id :: "int \<Rightarrow> tape_row cmd" where
  "tape_row_by_id t = db_read (\<lambda>d. ok_or (tape_by_id d t) (DatabaseError ''query returned no rows''))"

text \<open>The ioctl when the robot is enabled; its failure is logged.\<close>

definition robot_ioctl :: "(world, io_error, unit) prog \<Rightarrow> unit cmd" where
  "robot_ioctl m =
     bindp (gets robot_on) (\<lambda>on. if on then bindp (attempt m) (\<lambda>_. ret ()) else ret ())"

definition load_tape :: "int \<Rightarrow> int \<Rightarrow> unit cmd" where
  "load_tape s k =
     thenp init_db
     (bindp current_library_id (\<lambda>lib.
      bindp (db_tx (load_tape_tx lib s k)) (\<lambda>t.
      bindp (tape_row_by_id t) (\<lambda>r.
      thenp (robot_ioctl (kernel_load lib s k (tape_name r) (Some (tape_barcode r))))
        (try_post_op_auto_align lib)))))"

definition unload_tape :: "int \<Rightarrow> int cmd" where
  "unload_tape k =
     thenp init_db
     (bindp current_library_id (\<lambda>lib.
      bindp (db_tx (\<lambda>d. andThen (unload_tape_tx lib k d) (\<lambda>(t, s, d'). Inr ((t, s), d')))) (\<lambda>(t, s).
      bindp (tape_row_by_id t) (\<lambda>r.
      thenp (robot_ioctl (kernel_unload lib k s))
        (thenp (try_post_op_auto_align lib) (ret s))))))"

definition eject_tape :: "int \<Rightarrow> int cmd" where
  "eject_tape s =
     thenp init_db
     (bindp current_library_id (\<lambda>lib.
      bindp (db_tx (\<lambda>d. andThen (eject_tape_tx lib s d) (\<lambda>(t, m, d'). Inr ((t, m), d')))) (\<lambda>(t, m).
      bindp (tape_row_by_id t) (\<lambda>r.
      thenp (robot_ioctl (kernel_move_medium lib s (db_mailslot_to_element m)))
        (thenp (try_post_op_auto_align lib) (ret m))))))"

definition unit_tx :: "(db \<Rightarrow> VtlError + db) \<Rightarrow> unit cmd" where
  "unit_tx f = db_tx (\<lambda>d. andThen (f d) (\<lambda>d'. Inr ((), d')))"

definition assign_tape_to_slot :: "string \<Rightarrow> int \<Rightarrow> unit cmd" where
  "assign_tape_to_slot name s =
     thenp init_db
     (bindp current_library_id (\<lambda>lib.
      thenp (unit_tx (assign_one_tape_to_slot lib name s))
      (bindp (gets (\<lambda>w. tape_barcode_for_name (w_db w) lib name)) (\<lambda>bc.
       thenp (robot_ioctl (kernel_slot_place lib s name bc))
         (try_post_op_auto_align lib)))))"

definition shelf_place_tape :: "string \<Rightarrow> string option \<Rightarrow> unit cmd" where
  "shelf_place_tape name shelf =
     thenp init_db
     (bindp current_library_id (\<lambda>lib.
      thenp (unit_tx (shelf_place_tx lib name shelf))
      (bindp (gets robot_on) (\<lambda>on.
         if on then bindp (attempt (evacuate_tape_from_changer lib name)) (\<lambda>_.
                      try_post_op_auto_align lib)
         else ret ()))))"

text \<open>The previous library is restored whatever the outcome.\<close>

definition in_library :: "string \<Rightarrow> 'a cmd \<Rightarrow> 'a cmd" where
  "in_library lib m =
     bindp (gets w_lib) (\<lambda>prev.
     thenp (modify (\<lambda>w. w\<lparr>w_lib := lib\<rparr>))
     (bindp (attempt m) (\<lambda>r.
      thenp (modify (\<lambda>w. w\<lparr>w_lib := prev\<rparr>)) (from_result (\<lambda>_. r)))))"

definition load_tape_in_library :: "string \<Rightarrow> int \<Rightarrow> int \<Rightarrow> unit cmd" where
  "load_tape_in_library lib s k = in_library lib (load_tape s k)"

definition unload_tape_in_library :: "string \<Rightarrow> int \<Rightarrow> int cmd" where
  "unload_tape_in_library lib k = in_library lib (unload_tape k)"

definition eject_tape_in_library :: "string \<Rightarrow> int \<Rightarrow> int cmd" where
  "eject_tape_in_library lib s = in_library lib (eject_tape s)"

section \<open>The robot subcommands\<close>

definition robot_auto_align_library :: "unit cmd" where
  "robot_auto_align_library =
     thenp init_db
     (bindp current_library_id (\<lambda>lib.
      bindp (auto_align_library lib) (\<lambda>r.
        checkp (al_remaining r = 0) (InvalidParameter ''AUTO_ALIGN_DRIFT''))))"

definition robot_reconcile_library :: "bool \<Rightarrow> bool \<Rightarrow> unit cmd" where
  "robot_reconcile_library apply_db pull =
     thenp init_db
     (bindp current_library_id (\<lambda>lib.
      bindp (reconcile_library lib apply_db pull) (\<lambda>rep.
        checkp (apply_db \<or> pull \<or> rep_drifts rep = []) (InvalidParameter ''RECONCILE_DRIFT''))))"

definition robot_sync_library :: "nat cmd" where
  "robot_sync_library = thenp init_db (bindp current_library_id push_db_to_kernel)"

section \<open>What the machinery around a transaction keeps\<close>

text \<open>
  Everything except the transactions themselves changes the catalogue only by creating the
  offline library and its shelf. The locale states what a property of the catalogue needs for
  that; all lemmas in it say that a program keeps the property.
\<close>

locale db_invariant =
  fixes P :: "db \<Rightarrow> bool"
  assumes fresh: "P create_fresh_v2_schema"
    and add_library: "P d \<Longrightarrow> insert_library n now d = Inr (i, d') \<Longrightarrow> P d'"
    and add_shelf: "P d \<Longrightarrow> insert_shelf l n def d = Inr d' \<Longrightarrow> P d'"
begin

abbreviation holds :: "world \<Rightarrow> bool" where
  "holds w \<equiv> P (w_db w)"

lemma keeps_db_read: "keeps holds (db_read f)"
  by (simp add: db_read_def keeps_intros)

lemma keeps_db_write: "(\<And>d x d'. P d \<Longrightarrow> f d = Inr (x, d') \<Longrightarrow> P d') \<Longrightarrow> keeps holds (db_write f)"
  by (auto simp: keeps_def db_write_def split: sum.split prod.split)

lemma keeps_db_tx: "(\<And>d x d'. P d \<Longrightarrow> f d = Inr (x, d') \<Longrightarrow> P d') \<Longrightarrow> keeps holds (db_tx f)"
  by (auto simp: keeps_def db_tx_def split: sum.split prod.split)

lemma keeps_unit_tx: "(\<And>d d'. P d \<Longrightarrow> f d = Inr d' \<Longrightarrow> P d') \<Longrightarrow> keeps holds (unit_tx f)"
  unfolding unit_tx_def by (rule keeps_db_tx) auto

lemma keeps_fs_run: "keeps holds (fs_run m)"
  unfolding fs_run_def by (rule keeps_on_part) simp

lemma keeps_fs_try: "keeps holds (fs_try f)"
  unfolding fs_try_def by (rule keeps_fs_run)

lemma keeps_kernel: "keeps holds (on_part w_kernel (\<lambda>k w. w\<lparr>w_kernel := k\<rparr>) m)"
  by (rule keeps_on_part) simp

lemmas machinery = keeps_db_read keeps_fs_run keeps_fs_try keeps_kernel

lemma keeps_ensure_offline_library: "keeps holds ensure_offline_library"
  unfolding ensure_offline_library_def
  by (intro keeps_intros machinery keeps_db_write) (auto dest: add_library add_shelf)

lemma keeps_init_db: "keeps holds init_db"
  unfolding init_db_def
  by (intro keeps_intros keeps_ensure_offline_library keeps_modify) (simp add: fresh)

lemma keeps_current_library_id: "keeps holds current_library_id"
  unfolding current_library_id_def by (intro keeps_intros machinery)

lemma keeps_link_kernel_tapes: "keeps holds link_kernel_tapes"
  unfolding link_kernel_tapes_def sync_module_tape_dir_def
  by (intro keeps_intros machinery keeps_modify) simp

lemma keeps_ioctl_vtl: "keeps holds (ioctl_vtl f)"
  unfolding ioctl_vtl_def prepare_kernel_tape_dir_for_ioctl_def sync_module_tape_dir_def
  by (intro keeps_intros machinery keeps_link_kernel_tapes keeps_modify) simp

lemma keeps_kernel_ops:
  "keeps holds (kernel_slot_place l s n b)" "keeps holds (kernel_load l s k n b)"
  "keeps holds (kernel_unload l k s)" "keeps holds (kernel_move_medium l a c)"
  "keeps holds (kernel_elem_remove l a)"
  unfolding kernel_slot_place_def kernel_load_def kernel_unload_def kernel_move_medium_def
    kernel_elem_remove_def library_instance_i32_def
  by (intro keeps_intros keeps_ioctl_vtl)+

lemma keeps_snapshot: "keeps holds (kernel_inventory_snapshot l)"
  unfolding kernel_inventory_snapshot_def library_instance_i32_def
  by (intro keeps_intros keeps_ioctl_vtl)

lemma keeps_evacuate_tape: "keeps holds (evacuate_tape_from_changer l n)"
  unfolding evacuate_tape_from_changer_def evacuate_element_def
  by (intro keeps_intros keeps_snapshot keeps_kernel_ops)

lemma keeps_evacuate_shelved: "keeps holds (evacuate_shelved_tapes_from_kernel l)"
  unfolding evacuate_shelved_tapes_from_kernel_def
  by (intro keeps_intros keeps_snapshot keeps_evacuate_tape)

lemma keeps_robot_ioctl: "keeps holds m \<Longrightarrow> keeps holds (robot_ioctl m)"
  unfolding robot_ioctl_def by (intro keeps_intros)

lemma keeps_evacuate_only: "keeps holds (try_post_op_evacuate_only l)"
  unfolding try_post_op_evacuate_only_def
  by (intro keeps_intros machinery keeps_init_db keeps_evacuate_shelved keeps_snapshot
      keeps_evacuate_tape)

text \<open>After a robot command the alignment never pulls, so it keeps the catalogue as it is.\<close>

lemma keeps_align_no_pull: "keeps holds (auto_align_library_inner l False)"
  unfolding auto_align_library_inner_def evacuate_unknown_def Let_def
  by (simp add: split del: if_split cong: if_cong)
     (intro keeps_intros machinery keeps_init_db keeps_evacuate_shelved keeps_snapshot
      keeps_evacuate_tape)

lemma keeps_post_op: "keeps holds (try_post_op_auto_align l)"
  unfolding try_post_op_auto_align_def
  by (intro keeps_intros keeps_evacuate_only keeps_align_no_pull)

lemma keeps_in_library: "keeps holds m \<Longrightarrow> keeps holds (in_library n m)"
  unfolding in_library_def by (intro keeps_intros keeps_modify) simp_all

end

text \<open>A property that the robot's transactions keep as well is kept by the commands.\<close>

locale robot_invariant = db_invariant +
  assumes load_keeps: "P d \<Longrightarrow> load_tape_tx l s k d = Inr (t, d') \<Longrightarrow> P d'"
    and unload_keeps: "P d \<Longrightarrow> unload_tape_tx l k d = Inr (t, s, d') \<Longrightarrow> P d'"
    and eject_keeps: "P d \<Longrightarrow> eject_tape_tx l s d = Inr (t, m, d') \<Longrightarrow> P d'"
    and assign_keeps: "P d \<Longrightarrow> assign_one_tape_to_slot l n s d = Inr d' \<Longrightarrow> P d'"
    and shelf_keeps: "P d \<Longrightarrow> shelf_place_tx l n sh d = Inr d' \<Longrightarrow> P d'"
begin

lemmas robot_machinery = keeps_init_db keeps_current_library_id keeps_post_op keeps_kernel_ops
  keeps_evacuate_tape keeps_robot_ioctl keeps_db_read

lemma keeps_load_tape: "keeps holds (load_tape s k)"
  unfolding load_tape_def tape_row_by_id_def
  by (intro keeps_intros robot_machinery keeps_db_tx) (rule load_keeps)

lemma keeps_unload_tape: "keeps holds (unload_tape k)"
  unfolding unload_tape_def tape_row_by_id_def
  by (intro keeps_intros robot_machinery keeps_db_tx) (auto dest: unload_keeps)

lemma keeps_eject_tape: "keeps holds (eject_tape s)"
  unfolding eject_tape_def tape_row_by_id_def
  by (intro keeps_intros robot_machinery keeps_db_tx) (auto dest: eject_keeps)

lemma keeps_assign_tape_to_slot: "keeps holds (assign_tape_to_slot n s)"
  unfolding assign_tape_to_slot_def
  by (intro keeps_intros robot_machinery keeps_unit_tx) (rule assign_keeps)

lemma keeps_shelf_place_tape: "keeps holds (shelf_place_tape n sh)"
  unfolding shelf_place_tape_def
  by (intro keeps_intros robot_machinery keeps_unit_tx) (rule shelf_keeps)

end

section \<open>The consistent catalogue is such a property\<close>

lemma insert_library_ok:
  assumes "catalog_ok d" "insert_library n now d = Inr (i, d')"
  shows "catalog_ok d'"
  using assms
  by (force simp: insert_library_def Let_def catalog_ok_def keys_ok_def slots_placed_def
      drives_placed_def drives_exclusive_def shelf_xor_slot_def split: if_splits)

lemma insert_shelf_ok:
  assumes "catalog_ok d" "insert_shelf l n def d = Inr d'"
  shows "catalog_ok d'"
  using assms
  by (force simp: insert_shelf_def Let_def catalog_ok_def keys_ok_def slots_placed_def
      drives_placed_def drives_exclusive_def shelf_xor_slot_def split: if_splits)

interpretation catalog: robot_invariant catalog_ok
  by unfold_locales
     (fact catalog_ok_fresh insert_library_ok insert_shelf_ok load_tape_tx_ok unload_tape_tx_ok
       eject_tape_tx_ok assign_one_tape_to_slot_ok shelf_place_tx_ok)+

end
