(* ===== verification/Digest.thy ===== *)
theory Digest
  imports World
begin

text \<open>
  The copy of an exported tape and its digest (\<^verbatim>\<open>export_tape\<close> in \<^verbatim>\<open>main.rs\<close>). The hash function comes
  from the crate \<^verbatim>\<open>sha2\<close> and is a parameter: its state, which is opaque, starts at \<open>sh_new\<close>, takes bytes
  by \<open>sh_update\<close> and gives hexadecimal digits at the end. How many bytes one read gives is up to the
  system: at most a buffer full, at least one before the end of the file; reading an open file does not
  fail. The loop of the code has no
  bound of its own; it is a partial function here, and it is shown to end.
\<close>

record sha_crate =
  sh_new :: "nat list"
  sh_update :: "nat list \<Rightarrow> nat list \<Rightarrow> nat list"
  sh_hex :: "nat list \<Rightarrow> string"

definition content_bytes :: "content \<Rightarrow> nat \<Rightarrow> nat \<Rightarrow> nat list" where
  "content_bytes c pos n = map (cbyte c) [pos..<pos + n]"

definition file_read :: "(nat \<Rightarrow> nat) \<Rightarrow> content \<Rightarrow> nat \<Rightarrow> nat" where
  "file_read given c pos = (if clen c \<le> pos then 0 else max 1 (min (given pos) (min 65536 (clen c - pos))))"

partial_function (option) hash_loop ::
    "sha_crate \<Rightarrow> (nat \<Rightarrow> nat) \<Rightarrow> content \<Rightarrow> nat \<Rightarrow> nat list \<Rightarrow> nat list option" where
  "hash_loop sh given c pos h =
     (let n = file_read given c pos
      in if n = 0 then Some h else hash_loop sh given c (pos + n) (sh_update sh h (content_bytes c pos n)))"

definition sidecar_of :: "path \<Rightarrow> path" where
  "sidecar_of out = butlast out @ [last out @ ''.sha256'']"

definition sidecar_text :: "sha_crate \<Rightarrow> path \<Rightarrow> nat list \<Rightarrow> string" where
  "sidecar_text sh out h = sh_hex sh h @ ''  '' @ file_name out @ [CHR 0x0A]"

text \<open>The loop ends (see below), so \<open>the\<close> is the value that it returns.\<close>

definition write_checksum :: "sha_crate \<Rightarrow> (nat \<Rightarrow> nat) \<Rightarrow> path \<Rightarrow> unit cmd" where
  "write_checksum sh given out =
     bindp (fs_run (map_err IoError (from_result (\<lambda>f. ok_or (file_content f out) (OsError ENOENT))))) (\<lambda>c.
       fs_try (write_file (sidecar_of out) (sidecar_text sh out (the (hash_loop sh given c 0 (sh_new sh))))))"

definition export_to :: "sha_crate \<Rightarrow> (nat \<Rightarrow> nat) \<Rightarrow> path \<Rightarrow> path \<Rightarrow> bool \<Rightarrow> unit cmd" where
  "export_to sh given img out checksum =
     thenp (fs_try (copy_file img out)) (if checksum then write_checksum sh given out else ret ())"

section \<open>The loop\<close>

text \<open>\<open>update\<close> may be given the input in pieces.\<close>

definition hasher_ok :: "sha_crate \<Rightarrow> bool" where
  "hasher_ok sh \<longleftrightarrow> (\<forall>h a b. sh_update sh (sh_update sh h a) b = sh_update sh h (a @ b)) \<and> (\<forall>h. sh_update sh h [] = h)"

lemma file_read_bounds:
  "pos < clen c \<Longrightarrow> 0 < file_read given c pos \<and> pos + file_read given c pos \<le> clen c \<and> file_read given c pos \<le> 65536"
  "clen c \<le> pos \<Longrightarrow> file_read given c pos = 0"
  by (auto simp: file_read_def)

lemma content_bytes_append: "content_bytes c pos n @ content_bytes c (pos + n) m = content_bytes c pos (n + m)"
  using upt_add_eq_append [of pos "pos + n" m]
  by (simp add: content_bytes_def add.assoc flip: map_append)

lemma hash_loop_ends:
  assumes "hasher_ok sh" "pos \<le> clen c"
  shows "hash_loop sh given c pos h = Some (sh_update sh h (content_bytes c pos (clen c - pos)))"
  using assms(2)
proof (induction "clen c - pos" arbitrary: pos h rule: less_induct)
  case less
  show ?case
  proof (cases "pos < clen c")
    case True
    let ?n = "file_read given c pos"
    note n = file_read_bounds(1) [OF True, of given]
    then have "clen c - (pos + ?n) < clen c - pos" using True by (intro diff_less_mono2) simp_all
    from less.hyps [OF this, of "sh_update sh h (content_bytes c pos ?n)"] n
    have "hash_loop sh given c (pos + ?n) (sh_update sh h (content_bytes c pos ?n)) =
        Some (sh_update sh (sh_update sh h (content_bytes c pos ?n)) (content_bytes c (pos + ?n) (clen c - (pos + ?n))))"
      by simp
    also have "sh_update sh (sh_update sh h (content_bytes c pos ?n)) (content_bytes c (pos + ?n) (clen c - (pos + ?n))) =
        sh_update sh h (content_bytes c pos ?n @ content_bytes c (pos + ?n) (clen c - (pos + ?n)))"
      using assms(1) by (simp add: hasher_ok_def)
    also have "content_bytes c pos ?n @ content_bytes c (pos + ?n) (clen c - (pos + ?n)) = content_bytes c pos (clen c - pos)"
      using n by (simp add: content_bytes_append)
    finally show ?thesis using n by (subst hash_loop.simps) (simp add: Let_def)
  next
    case False
    with less.prems have "pos = clen c" by simp
    then show ?thesis
      using assms(1) by (subst hash_loop.simps) (simp add: file_read_bounds(2) content_bytes_def hasher_ok_def)
  qed
qed

section \<open>The files\<close>

lemma create_file_plain:
  assumes "create_file p f = Inr f'" "\<not> is_symlink f p"
  shows "\<exists>j. node_at f' p = Some (Reg j) \<and> (\<forall>q. q \<noteq> p \<longrightarrow> node_at f' q = node_at f q) \<and>
    (\<forall>k. k \<noteq> j \<longrightarrow> content_of f' k = content_of f k) \<and> (node_at f p = Some (Reg j) \<or> node_at f p = None \<and> j = next_ino f)"
proof -
  have p: "p \<noteq> []" using assms(1) by (cases p) (auto simp: create_file_def resolve_no_symlink is_symlink_def)
  let ?g = "put_content (next_ino f) empty_content (f\<lparr>next_ino := Suc (next_ino f)\<rparr>)"
  from assms(1) resolve_no_symlink [OF assms(2)]
  have "(\<exists>i. node_at f p = Some (Reg i) \<and> f' = put_content i empty_content f) \<or>
      node_at f p = None \<and> f' = put_node p (Reg (next_ino f)) ?g"
    by (auto simp: create_file_def split: option.splits node.splits if_splits)
  then show ?thesis
  proof (elim disjE exE conjE)
    assume f': "f' = put_node p (Reg (next_ino f)) ?g" and "node_at f p = None"
    moreover have "content_of ?g k = content_of f k" if "k \<noteq> next_ino f" for k
      using that by (simp add: content_of_def put_content_def)
    ultimately show ?thesis using p by (intro exI [of _ "next_ino f"]) simp
  qed auto
qed

text \<open>A file store in which no name refers to an inode that is not yet given out.\<close>

definition inodes_given :: "fs \<Rightarrow> bool" where
  "inodes_given f \<longleftrightarrow> (\<forall>p i. node_at f p = Some (Reg i) \<longrightarrow> i < next_ino f)"

lemma inodes_given_put_content [simp]: "inodes_given (put_content i c f) = inodes_given f"
  by (simp add: inodes_given_def put_content_def node_at_def)

lemma next_ino_frames [simp]: "next_ino (put_content i c f) = next_ino f" "next_ino (put_node p n f) = next_ino f"
  by (simp_all add: put_content_def put_node_def)

lemma inodes_given_create:
  assumes "create_file p f = Inr f'" "inodes_given f"
  shows "inodes_given f' \<and> next_ino f \<le> next_ino f'"
proof (cases "p = []")
  case True
  with assms(1) show ?thesis by (auto simp: create_file_def resolve_no_symlink is_symlink_def)
next
  case False
  let ?g = "put_content (next_ino f) empty_content (f\<lparr>next_ino := Suc (next_ino f)\<rparr>)"
  obtain q where "f' = put_node q (Reg (next_ino f)) ?g \<and> q \<noteq> [] \<or> (\<exists>i. f' = put_content i empty_content f)"
    using assms(1) by (auto simp: create_file_def split: option.splits node.splits if_splits) (metis node_at_Nil option.distinct(1))
  then show ?thesis
    using assms(2) by (auto simp: inodes_given_def less_Suc_eq split: if_splits)
qed

lemma inode_given: "inode_of f p = Some i \<Longrightarrow> inodes_given f \<Longrightarrow> i < next_ino f"
  by (auto simp: inode_of_def target_def inodes_given_def split: option.splits node.splits)

lemma copy_file_plain:
  assumes "copy_file a b f = Inr f'" "\<not> is_symlink f b" "inode_of f a = Some i" "node_at f b \<noteq> Some (Reg i)" "inodes_given f"
  shows "\<exists>j. j \<noteq> i \<and> node_at f' b = Some (Reg j) \<and> content_of f' j = content_of f i \<and> content_of f' i = content_of f i \<and>
    (\<forall>q. q \<noteq> b \<longrightarrow> node_at f' q = node_at f q) \<and> inodes_given f' \<and> i < next_ino f' \<and> j < next_ino f'"
proof -
  obtain f1 k where f1: "create_file b f = Inr f1" and k: "inode_of f1 b = Some k" and f': "f' = put_content k (content_of f1 i) f1"
    using assms(1,3) by (auto simp: copy_file_def)
  obtain j where j: "node_at f1 b = Some (Reg j)" "\<forall>q. q \<noteq> b \<longrightarrow> node_at f1 q = node_at f q"
      "\<forall>k. k \<noteq> j \<longrightarrow> content_of f1 k = content_of f k" "node_at f b = Some (Reg j) \<or> node_at f b = None \<and> j = next_ino f"
    using create_file_plain [OF f1 assms(2)] by blast
  have "k = j" using inode_of_plain [OF j(1)] k by simp
  moreover have i: "i < next_ino f" by (rule inode_given [OF assms(3,5)])
  then have "j \<noteq> i" using j(4) assms(4) by auto
  moreover have "inodes_given f1 \<and> next_ino f \<le> next_ino f1" by (rule inodes_given_create [OF f1 assms(5)])
  moreover from this j(1) have "j < next_ino f1" by (auto simp: inodes_given_def)
  ultimately show ?thesis using f' j i by (intro exI [of _ j]) auto
qed

lemma write_file_new:
  assumes "write_file p s f = Inr f'" "node_at f p = None" "inodes_given f"
  shows "node_at f' p = Some (Reg (next_ino f)) \<and> content_of f' (next_ino f) = string_content s \<and>
    (\<forall>q. q \<noteq> p \<longrightarrow> node_at f' q = node_at f q) \<and> (\<forall>k. k < next_ino f \<longrightarrow> content_of f' k = content_of f k)"
proof -
  have plain: "\<not> is_symlink f p" using assms(2) by (simp add: is_symlink_def)
  obtain f1 i where f1: "create_file p f = Inr f1" and i: "inode_of f1 p = Some i" and f': "f' = put_content i (string_content s) f1"
    using assms(1) by (auto simp: write_file_def)
  obtain j where j: "node_at f1 p = Some (Reg j)" "\<forall>q. q \<noteq> p \<longrightarrow> node_at f1 q = node_at f q"
      "\<forall>k. k \<noteq> j \<longrightarrow> content_of f1 k = content_of f k" "j = next_ino f"
    using create_file_plain [OF f1 plain] assms(2) by auto
  have "i = j" using inode_of_plain [OF j(1)] i by simp
  with f' j show ?thesis by auto
qed

lemma sidecar_other: "sidecar_of out \<noteq> out"
proof (cases out rule: rev_cases)
  case (snoc xs x)
  then show ?thesis by (simp add: sidecar_of_def)
qed (simp add: sidecar_of_def)

lemma fs_try_Inr: "fs_try g w = (Inr u, w') \<longleftrightarrow> (\<exists>f'. g (w_fs w) = Inr f' \<and> w' = w\<lparr>w_fs := f'\<rparr>)"
  by (cases "g (w_fs w)") (auto simp: fs_try_def fs_run_def on_part_def map_err_def updating_def)

lemma fs_result_Inr:
  "fs_run (map_err e (from_result g)) w = (Inr x, w') \<longleftrightarrow> g (w_fs w) = Inr x \<and> w' = w"
  by (cases "g (w_fs w)") (auto simp: fs_run_def on_part_def map_err_def from_result_def)

lemma create_file_new:
  assumes "\<forall>x. fs_fault f x = None" "p \<noteq> []" "node_at f p = None" "node_at f (butlast p) = Some Dir"
  shows "\<exists>f'. create_file p f = Inr f' \<and> fs_fault f' = fs_fault f"
proof -
  have r: "resolve 40 f p = Some p" by (rule resolve_no_symlink) (simp add: is_symlink_def assms(3))
  have "resolve 40 f (butlast p) = Some (butlast p)"
    by (rule resolve_no_symlink) (simp add: is_symlink_def assms(4))
  then have "is_dir f (butlast p)" by (simp add: is_dir_def target_def assms(4))
  with r show ?thesis by (simp add: create_file_def with_fault_def assms put_node_def put_content_def)
qed

lemma copy_file_new:
  assumes "\<forall>x. fs_fault f x = None" "b \<noteq> []" "node_at f b = None" "node_at f (butlast b) = Some Dir" "inode_of f a = Some i"
  shows "\<exists>f'. copy_file a b f = Inr f' \<and> fs_fault f' = fs_fault f"
proof -
  obtain f1 where f1: "create_file b f = Inr f1" "fs_fault f1 = fs_fault f" using create_file_new [OF assms(1-4)] by blast
  have "\<not> is_symlink f b" by (simp add: is_symlink_def assms(3))
  from create_file_plain [OF f1(1) this] obtain j where "node_at f1 b = Some (Reg j)" by blast
  then have "inode_of f1 b = Some j" by (rule inode_of_plain)
  with f1 show ?thesis by (simp add: copy_file_def with_fault_def assms ok_or_def put_content_def)
qed

lemma write_file_succeeds:
  assumes "\<forall>x. fs_fault f x = None" "p \<noteq> []" "node_at f p = None" "node_at f (butlast p) = Some Dir"
  shows "\<exists>f'. write_file p s f = Inr f'"
proof -
  obtain f1 where f1: "create_file p f = Inr f1" "fs_fault f1 = fs_fault f" using create_file_new [OF assms] by blast
  have "\<not> is_symlink f p" by (simp add: is_symlink_def assms(3))
  from create_file_plain [OF f1(1) this] obtain j where "node_at f1 p = Some (Reg j)" by blast
  then have "inode_of f1 p = Some j" by (rule inode_of_plain)
  with f1 show ?thesis by (simp add: write_file_def ok_or_def)
qed

lemma sidecar_parent: "out \<noteq> [] \<Longrightarrow> sidecar_of out \<noteq> [] \<and> butlast (sidecar_of out) = butlast out"
  by (simp add: sidecar_of_def)

lemma butlast_other: "out \<noteq> [] \<Longrightarrow> butlast out \<noteq> out"
  by (metis append_butlast_last_id not_Cons_self2 self_append_conv)

end
