(* ===== verification/Tapes.thy ===== *)
theory Tapes
  imports Robot Digest
begin

text \<open>
  The commands on single tapes (\<^verbatim>\<open>main.rs\<close>): creation with its quota check, initialisation,
  deletion, snapshots, import and export, the batches built from them, quotas and tags.
\<close>

section \<open>Shared steps\<close>

definition draw_barcode :: "string cmd" where
  "draw_barcode =
     bindp (gets (\<lambda>w. generate_barcode (w_random w (w_draws w)))) (\<lambda>bc.
     thenp (modify (\<lambda>w. w\<lparr>w_draws := Suc (w_draws w)\<rparr>)) (ret bc))"

definition strip_suffix :: "string \<Rightarrow> string \<Rightarrow> string" where
  "strip_suffix suf s = (if ends_with suf s then take (length s - length suf) s else s)"

text \<open>The length of the file behind a path is set through a handle on it.\<close>

definition set_len_of :: "path \<Rightarrow> nat \<Rightarrow> fs \<Rightarrow> io_error + fs" where
  "set_len_of p n f = andThen (ok_or (inode_of f p) (OsError ENOENT)) (\<lambda>i. set_len p i n f)"

text \<open>An error of a directory creation, with the permission case told apart.\<close>

definition dir_error :: "io_error \<Rightarrow> VtlError" where
  "dir_error e =
     (if error_kind e = KPermissionDenied
      then PermissionDenied ''Cannot create tape directory'' else IoError e)"

section \<open>Quotas\<close>

definition quota_value :: "db \<Rightarrow> int \<Rightarrow> string \<Rightarrow> string option" where
  "quota_value d lib key =
     (case lib_config_get d lib key of Some v \<Rightarrow> Some v | None \<Rightarrow> config_get d key)"

text \<open>SQLite's SUM fails when it leaves 64 bits, and the code then takes 0.\<close>

definition current_total :: "db \<Rightarrow> int \<Rightarrow> nat" where
  "current_total d lib =
     (let s = sum_list (map tape_capacity (filter (\<lambda>r. tape_lib r = lib) (tapes d)))
      in if s < 2 ^ 63 then s else 0)"

definition tape_count :: "db \<Rightarrow> int \<Rightarrow> nat" where
  "tape_count d lib = count_where (\<lambda>r. tape_lib r = lib) (tapes d)"

definition current_count :: "db \<Rightarrow> int \<Rightarrow> int" where
  "current_count d lib =
     (let n = int (tape_count d lib) in if n \<le> i32_max then n else 0)"

text \<open>The addition is of \<^verbatim>\<open>u64\<close> values and wraps in a release build.\<close>

definition check_quota_db :: "nat \<Rightarrow> int \<Rightarrow> db \<Rightarrow> VtlError + unit" where
  "check_quota_db sz lib d =
     andThen
       (case quota_value d lib ''quota_max_total_size'' of
          None \<Rightarrow> Inr ()
        | Some s \<Rightarrow>
            andThen (parse_size s) (\<lambda>mx.
              require ((current_total d lib + sz) mod 2 ^ 64 \<le> mx)
                (QuotaExceeded ''Total size limit exceeded'')))
       (\<lambda>_. case Option.bind (quota_value d lib ''quota_max_tapes'') parse_i32 of
              None \<Rightarrow> Inr ()
            | Some mx \<Rightarrow> require (current_count d lib < mx) (QuotaExceeded ''Maximum tape count exceeded''))"

definition check_quota :: "nat \<Rightarrow> unit cmd" where
  "check_quota sz =
     thenp init_db (bindp current_library_id (\<lambda>lib. db_read (check_quota_db sz lib)))"

definition quota_set_tx :: "int \<Rightarrow> string option \<Rightarrow> int option \<Rightarrow> db \<Rightarrow> VtlError + db" where
  "quota_set_tx lib mx_size mx_tapes d =
     andThen (case mx_size of
                None \<Rightarrow> Inr d
              | Some s \<Rightarrow> andThen (parse_size s) (\<lambda>_. Inr (set_lib_config lib ''quota_max_total_size'' s d)))
       (\<lambda>d1. Inr (case mx_tapes of
                    None \<Rightarrow> d1
                  | Some n \<Rightarrow> set_lib_config lib ''quota_max_tapes'' (show_int n) d1))"

definition quota_set :: "string option \<Rightarrow> int option \<Rightarrow> unit cmd" where
  "quota_set mx_size mx_tapes =
     thenp init_db (bindp current_library_id (\<lambda>lib. unit_tx (quota_set_tx lib mx_size mx_tapes)))"

text \<open>What \<^verbatim>\<open>quota_show\<close> prints, and whether \<^verbatim>\<open>quota_check\<close> reports an excess.\<close>

record QuotaReport =
  qr_max_size :: string
  qr_max_tapes :: string
  qr_total :: nat
  qr_count :: int

definition quota_show :: "QuotaReport cmd" where
  "quota_show =
     thenp init_db (bindp current_library_id (\<lambda>lib. gets (\<lambda>w.
       let d = w_db w; show_limit = (\<lambda>v. case v of None \<Rightarrow> ''Unlimited'' | Some s \<Rightarrow> s)
       in \<lparr>qr_max_size = show_limit (quota_value d lib ''quota_max_total_size''),
           qr_max_tapes = show_limit (quota_value d lib ''quota_max_tapes''),
           qr_total = current_total d lib, qr_count = current_count d lib\<rparr>)))"

definition quota_exceeded :: "int \<Rightarrow> db \<Rightarrow> VtlError + bool" where
  "quota_exceeded lib d =
     andThen
       (case quota_value d lib ''quota_max_total_size'' of
          None \<Rightarrow> Inr False
        | Some s \<Rightarrow> andThen (parse_size s) (\<lambda>mx. Inr (mx < current_total d lib)))
       (\<lambda>over. Inr (over \<or>
          (case quota_value d lib ''quota_max_tapes'' of
             None \<Rightarrow> False
           | Some s \<Rightarrow>
               (case parse_i32 s of None \<Rightarrow> i32_max | Some n \<Rightarrow> n) < current_count d lib)))"

definition quota_check :: "bool cmd" where
  "quota_check = thenp init_db (bindp current_library_id (\<lambda>lib. db_read (quota_exceeded lib)))"

section \<open>Creating\<close>

definition create_tape :: "string \<Rightarrow> nat \<Rightarrow> string option \<Rightarrow> unit cmd" where
  "create_tape name sz shelf =
     thenp (from_result (\<lambda>_. validate_tape_name name))
     (thenp (check_quota sz)
     (bindp (gets w_lib) (\<lambda>lname.
      thenp init_db
     (bindp current_library_id (\<lambda>lib.
      thenp (db_read (\<lambda>d. assert_tape_name_globally_unique d name lib))
     (thenp (db_read (\<lambda>d. require (find_tape d lib name = None)
                             (InvalidParameter ''tape name exists in this library'')))
     (bindp (db_read (\<lambda>d. case shelf of Some s \<Rightarrow> resolve_shelf_id d lib s
                                     | None \<Rightarrow> default_shelf_id d lib)) (\<lambda>sh.
      bindp (gets (\<lambda>w. (get_tape_dir w @ [sanitize_lib_dir_component lname],
                        tape_image_path w lname name))) (\<lambda>(dir, img).
      thenp (fs_run (map_err dir_error (updating (create_dir_all dir))))
     (thenp (fs_try (create_file img))
     (thenp (fs_try (set_len_of img sz))
     (bindp draw_barcode (\<lambda>bc.
      bindp (gets w_now) (\<lambda>now.
        unit_tx (\<lambda>d. andThen
          (insert_tape \<lparr>tape_id = 0, tape_lib = lib, tape_shelf = Some sh, tape_barcode = bc,
                        tape_name = name, tape_slot = None, tape_capacity = sz, tape_used = 0,
                        tape_created = now, tape_image = img\<rparr> d)
          (\<lambda>(i, d'). Inr d'))))))))))))))))"

text \<open>The library is set for the whole batch and restored after it, also after an error.\<close>

definition create_tapes_batch :: "string \<Rightarrow> string option \<Rightarrow> (string \<times> string) list \<Rightarrow> unit cmd" where
  "create_tapes_batch lib shelf items =
     thenp (checkp (items \<noteq> []) (InvalidParameter ''batch items cannot be empty''))
       (in_library lib (forp (\<lambda>(name, size_s).
          bindp (from_result (\<lambda>_. parse_size size_s)) (\<lambda>sz. create_tape name sz shelf)) items))"

definition create_auto_named_tapes_batch :: "string \<Rightarrow> string option \<Rightarrow> nat \<Rightarrow> nat \<Rightarrow> string list cmd" where
  "create_auto_named_tapes_batch lib shelf cnt sz =
     thenp (checkp (cnt \<noteq> 0) (InvalidParameter ''count must be at least 1''))
     (thenp (checkp (cnt \<le> 10000) (InvalidParameter ''count cannot exceed 10000''))
     (thenp init_db
     (bindp (db_read (\<lambda>d. resolve_library_id d lib)) (\<lambda>i.
      bindp (gets (\<lambda>w. max_auto_tape_suffix_for_library
                         (map tape_name (filter (\<lambda>r. tape_lib r = i) (tapes (w_db w)))) lib)) (\<lambda>mx.
      let names = allocate_auto_tape_names lib (mx + 1) cnt
      in thenp (in_library lib (forp (\<lambda>name. create_tape name sz shelf) names)) (ret names))))))"

section \<open>Tags\<close>

definition tag_id_of :: "db \<Rightarrow> string \<Rightarrow> int option" where
  "tag_id_of d name = map_option fst (List.find (\<lambda>p. snd p = name) (tags d))"

text \<open>A rowid table without AUTOINCREMENT takes the largest id plus one.\<close>

definition next_tag_id :: "db \<Rightarrow> int" where
  "next_tag_id d = fold (\<lambda>p m. max (fst p) m) (tags d) 0 + 1"

definition add_tag :: "int \<Rightarrow> string \<Rightarrow> db \<Rightarrow> db" where
  "add_tag t name d =
     (let (g, d1) = (case tag_id_of d name of
                       Some g \<Rightarrow> (g, d)
                     | None \<Rightarrow> (next_tag_id d, d\<lparr>tags := tags d @ [(next_tag_id d, name)]\<rparr>))
      in if (t, g) \<in> set (tape_tags d1) then d1
         else d1\<lparr>tape_tags := tape_tags d1 @ [(t, g)]\<rparr>)"

definition add_tags_to_tape :: "int \<Rightarrow> string list \<Rightarrow> unit cmd" where
  "add_tags_to_tape t names = unit_tx (\<lambda>d. Inr (fold (add_tag t) names d))"

definition tag_add :: "string \<Rightarrow> string list \<Rightarrow> unit cmd" where
  "tag_add name names =
     thenp init_db (bindp current_library_id (\<lambda>lib.
     bindp (db_read (\<lambda>d. tape_by_name d lib name)) (\<lambda>r. add_tags_to_tape (tape_id r) names)))"

definition remove_tag :: "int \<Rightarrow> string \<Rightarrow> db \<Rightarrow> db" where
  "remove_tag t name d =
     (case tag_id_of d name of
        None \<Rightarrow> d
      | Some g \<Rightarrow> d\<lparr>tape_tags := delete_where (\<lambda>p. p = (t, g)) (tape_tags d)\<rparr>)"

definition tag_remove :: "string \<Rightarrow> string list \<Rightarrow> unit cmd" where
  "tag_remove name names =
     thenp init_db (bindp current_library_id (\<lambda>lib.
     bindp (db_read (\<lambda>d. tape_by_name d lib name)) (\<lambda>r.
       unit_tx (\<lambda>d. Inr (fold (remove_tag (tape_id r)) names d)))))"

definition tag_list :: "string option \<Rightarrow> string list cmd" where
  "tag_list name =
     thenp init_db (bindp current_library_id (\<lambda>lib. db_read (\<lambda>d.
       case name of
         Some n \<Rightarrow> andThen (tape_by_name d lib n) (\<lambda>r.
           Inr (map snd (filter (\<lambda>g. (tape_id r, fst g) \<in> set (tape_tags d)) (tags d))))
       | None \<Rightarrow> Inr (sort (map snd (tags d))))))"

definition tag_delete :: "string \<Rightarrow> unit cmd" where
  "tag_delete name =
     thenp init_db
     (bindp (db_read (\<lambda>d. ok_or (tag_id_of d name) (TagNotFound name))) (\<lambda>g.
        unit_tx (\<lambda>d. Inr (d\<lparr>tape_tags := delete_where (\<lambda>p. snd p = g) (tape_tags d),
                             tags := delete_where (\<lambda>p. fst p = g) (tags d)\<rparr>))))"

text \<open>A batch of tapes named by a counter of four digits.\<close>

definition batch_create_tapes :: "int \<Rightarrow> nat \<Rightarrow> string \<Rightarrow> string list \<Rightarrow> unit cmd" where
  "batch_create_tapes cnt sz prefix names =
     forp (\<lambda>i. let name = prefix @ ''_'' @ pad_zero 4 (show_nat i)
               in thenp (create_tape name sz None)
                 (thenp init_db
                 (bindp current_library_id (\<lambda>lib.
                  bindp (db_read (\<lambda>d. tape_by_name d lib name)) (\<lambda>r.
                    if names = [] then ret () else add_tags_to_tape (tape_id r) names)))))
       [0..<nat cnt]"

section \<open>Deleting and initialising\<close>

definition delete_tape_tx :: "int \<Rightarrow> int \<Rightarrow> db \<Rightarrow> VtlError + db" where
  "delete_tape_tx lib t d =
     (let d1 = clear_drives_of lib t (clear_slots_of lib t d);
          d2 = d1\<lparr>tape_tags := delete_where (\<lambda>p. fst p = t) (tape_tags d1)\<rparr>
      in delete_tapes (\<lambda>r. tape_id r = t) d2)"

definition delete_tape_in_library :: "string \<Rightarrow> string \<Rightarrow> unit cmd" where
  "delete_tape_in_library lname name =
     thenp init_db
     (bindp (db_read (\<lambda>d. resolve_library_id d lname)) (\<lambda>lib.
      bindp (db_read (\<lambda>d. tape_by_name d lib name)) (\<lambda>r.
      thenp (unit_tx (delete_tape_tx lib (tape_id r)))
        (fs_try (remove_file (tape_image r))))))"

definition set_used_zero :: "int \<Rightarrow> db \<Rightarrow> db" where
  "set_used_zero t d = update_tape t (\<lambda>r. r\<lparr>tape_used := 0\<rparr>) d"

text \<open>
  The image is set to its capacity, then the row is updated; when the update fails the old length
  is restored. A failing sync is only logged.
\<close>

definition init_tape_in_library :: "string \<Rightarrow> string \<Rightarrow> unit cmd" where
  "init_tape_in_library lname name =
     thenp init_db
     (bindp (db_read (\<lambda>d. resolve_library_id d lname)) (\<lambda>lib.
      bindp (db_read (\<lambda>d. tape_by_name d lib name)) (\<lambda>r.
      thenp (db_read (\<lambda>d. require (\<not> tape_in_drive d lib (tape_id r)) TapeInDrive))
     (thenp (checkp (tape_slot r = None) TapeNotOnShelf)
     (thenp (checkp (tape_shelf r \<noteq> None) TapeNotOnShelf)
     (bindp (fs_run (map_err IoError (from_result (open_write (tape_image r))))) (\<lambda>i.
      bindp (fs_run (map_err IoError (from_result (file_len (tape_image r))))) (\<lambda>prev_len.
      thenp (fs_try (set_len (tape_image r) i (tape_capacity r)))
     (bindp (attempt (unit_tx (\<lambda>d. Inr (set_used_zero (tape_id r) d)))) (\<lambda>u.
      case u of
        Inr _ \<Rightarrow> ret ()
      | Inl e \<Rightarrow>
          bindp (attempt (fs_try (set_len (tape_image r) i prev_len))) (\<lambda>_. fail e)))))))))))"

section \<open>Snapshot, import and export\<close>

definition snapshot_path :: "world \<Rightarrow> string \<Rightarrow> string \<Rightarrow> path" where
  "snapshot_path w tape snap =
     get_tape_dir w @ [sanitize_lib_dir_component (w_lib w), tape @ ''_'' @ snap @ ''.vtltape'']"

definition snapshot_tape :: "string \<Rightarrow> string \<Rightarrow> unit cmd" where
  "snapshot_tape tape snap =
     thenp init_db
     (bindp current_library_id (\<lambda>lib.
      bindp (db_read (\<lambda>d. tape_by_name d lib tape)) (\<lambda>r.
      bindp (gets (\<lambda>w. snapshot_path w tape snap)) (\<lambda>p.
        fs_try (copy_file (tape_image r) p)))))"

definition import_tx ::
    "int \<Rightarrow> string \<Rightarrow> int option \<Rightarrow> int \<Rightarrow> nat \<Rightarrow> string \<Rightarrow> string \<Rightarrow> path \<Rightarrow> db \<Rightarrow> VtlError + db" where
  "import_tx lib name existing s len bc now img d =
     andThen
       (case existing of
          Some t \<Rightarrow> Inr (t, update_tape t (\<lambda>r. r\<lparr>tape_slot := Some s, tape_shelf := None, tape_image := img\<rparr>) d)
        | None \<Rightarrow>
            insert_tape \<lparr>tape_id = 0, tape_lib = lib, tape_shelf = None, tape_barcode = bc,
                         tape_name = name, tape_slot = Some s, tape_capacity = len,
                         tape_used = len, tape_created = now, tape_image = img\<rparr> d)
       (\<lambda>(t, d1). Inr (set_slot_tape lib s (Some t) d1))"

definition import_tape :: "path \<Rightarrow> int \<Rightarrow> unit cmd" where
  "import_tape src s =
     thenp init_db
     (bindp (gets w_lib) (\<lambda>lname.
      bindp current_library_id (\<lambda>lib.
      bindp (gets (\<lambda>w. path_exists (w_fs w) src)) (\<lambda>ex.
      thenp (checkp ex (IoError (KindError KNotFound ''File not found'')))
     (let name = strip_suffix ''.vtltape'' (file_name src) in
      thenp (from_result (\<lambda>_. validate_tape_name name))
     (bindp (gets (\<lambda>w. map_option tape_id (find_tape (w_db w) lib name))) (\<lambda>existing.
      thenp (if existing = None then db_read (\<lambda>d. assert_tape_name_globally_unique d name lib) else ret ())
     (bindp (gets (\<lambda>w. (get_tape_dir w @ [sanitize_lib_dir_component lname],
                        tape_image_path w lname name))) (\<lambda>(dir, img).
      thenp (fs_try (create_dir_all dir))
     (thenp (fs_try (copy_file src img))
     (bindp (fs_run (map_err IoError (from_result (file_len src)))) (\<lambda>len.
      bindp draw_barcode (\<lambda>bc.
      thenp (if existing = None then check_quota len else ret ())
     (bindp (gets w_now) (\<lambda>now.
        unit_tx (import_tx lib name existing s len bc now img))))))))))))))))"

definition has_vtltape_extension :: "string \<Rightarrow> bool" where
  "has_vtltape_extension b = (ends_with ''.vtltape'' b \<and> b \<noteq> ''.vtltape'')"

definition batch_import_tapes :: "path \<Rightarrow> int \<Rightarrow> unit cmd" where
  "batch_import_tapes dir start =
     bindp (gets (\<lambda>w. is_dir (w_fs w) dir)) (\<lambda>ok.
     thenp (checkp ok (InvalidParameter ''Directory not found''))
     (bindp (fs_run (map_err IoError (from_result (read_dir dir)))) (\<lambda>ps.
        bindp (foldp (\<lambda>p s.
           bindp (gets (\<lambda>w. is_file (w_fs w) p)) (\<lambda>isf.
             if isf \<and> has_vtltape_extension (file_name p)
             then thenp (import_tape p s) (ret (s + 1)) else ret s)) ps start) (\<lambda>_. ret ()))))"

text \<open>
  The hash function comes from another crate and is a parameter: \<open>sha256_hex\<close> gives the digest of a
  content as hexadecimal digits.
\<close>

definition export_tape :: "sha_crate \<Rightarrow> (nat \<Rightarrow> nat) \<Rightarrow> int \<Rightarrow> path \<Rightarrow> bool \<Rightarrow> unit cmd" where
  "export_tape sh given s out checksum =
     thenp init_db
     (bindp current_library_id (\<lambda>lib.
      bindp (db_read (\<lambda>d.
        if (\<exists>q \<in> set (slots d). slot_lib q = lib \<and> slot_no q = s)
        then ok_or (List.find (\<lambda>t. tape_lib t = lib \<and> tape_slot t = Some s) (tapes d)) SlotEmpty
        else Inl SlotEmpty)) (\<lambda>r.
      export_to sh given (tape_image r) out checksum)))"

end
