(* ===== verification/TapeFacts.thy ===== *)
theory TapeFacts
  imports Tapes
begin

text \<open>
  What the commands of the theory \<open>Tapes\<close> guarantee: they keep the catalogue consistent, quotas
  hold after every creation, and a failed creation or deletion leaves what the comments of the
  code say. The interface \<open>tape_invariant\<close> extends the one of the robot by the transactions on
  tapes.
\<close>

section \<open>Creating and deleting rows\<close>

lemma insert_tape_Inr:
  "insert_tape r d = Inr (i, d') \<longleftrightarrow>
     (\<forall>q \<in> set (tapes d). tape_lib q = tape_lib r \<longrightarrow>
        tape_name q \<noteq> tape_name r \<and> tape_barcode q \<noteq> tape_barcode r) \<and>
     tape_capacity r < 2 ^ 63 \<and> (\<exists>l \<in> set (libs d). lib_id l = tape_lib r) \<and>
     i = seq_tape d + 1 \<and> d' = d\<lparr>tapes := tapes d @ [r\<lparr>tape_id := i\<rparr>], seq_tape := i\<rparr>"
  unfolding insert_tape_def Let_def by auto

lemma insert_tape_ok:
  assumes ok: "catalog_ok d" and run: "insert_tape r d = Inr (i, d')"
    and xor: "tape_shelf r = None \<or> tape_slot r = None"
  shows "catalog_ok d'"
proof -
  let ?r = "r\<lparr>tape_id := i\<rparr>"
  have d': "tapes d' = tapes d @ [?r]" "slots d' = slots d" "drives d' = drives d"
    "libs d' = libs d" "shelves d' = shelves d" "seq_lib d' = seq_lib d" "seq_shelf d' = seq_shelf d"
    "seq_tape d' = i" "i = seq_tape d + 1"
    using run by (auto simp: insert_tape_Inr)
  have keys: "keys_ok d" using ok by (simp add: catalog_ok_def)
  have old: "tape_id q \<le> seq_tape d" if "q \<in> set (tapes d)" for q
    using keys that by (simp add: keys_ok_def)
  have new: "tape_name q \<noteq> tape_name r" "tape_barcode q \<noteq> tape_barcode r"
    if "q \<in> set (tapes d)" "tape_lib q = tape_lib r" for q
    using run that by (auto simp: insert_tape_Inr)
  have "keys_ok d'"
    using keys old new unfolding keys_ok_def d'(1,2,3,4,5,6,7,8)
    by (auto simp: d'(9)) (force dest: old)+
  moreover have "slots_placed d'" "drives_placed d'" "drives_exclusive d'"
    using ok by (fastforce simp: catalog_ok_def slots_placed_def drives_placed_def
        drives_exclusive_def d'(1,2,3))+
  moreover have "shelf_xor_slot d'"
    using ok xor by (auto simp: catalog_ok_def shelf_xor_slot_def d'(1))
  ultimately show ?thesis by (simp add: catalog_ok_def)
qed

lemma clear_drives_row:
  "x \<in> set (drives (clear_drives_of l t d)) \<Longrightarrow> drive_tape x = Some u \<Longrightarrow>
   x \<in> set (drives d) \<and> \<not> (drive_lib x = l \<and> u = t)"
  by (auto simp: clear_drives_of_def set_update_where split: if_splits)

lemma delete_tapes_Inr:
  "delete_tapes Q d = Inr d' \<longleftrightarrow>
     (\<forall>r \<in> set (tapes d). Q r \<longrightarrow>
        (\<forall>s \<in> set (slots d). slot_tape s \<noteq> Some (tape_id r)) \<and>
        (\<forall>k \<in> set (drives d). drive_tape k \<noteq> Some (tape_id r)) \<and>
        (\<forall>p \<in> set (tape_tags d). fst p \<noteq> tape_id r)) \<and>
     d' = d\<lparr>tapes := delete_where Q (tapes d)\<rparr>"
  unfolding delete_tapes_def Let_def by auto

text \<open>Deleting rows that nothing names keeps the catalogue consistent.\<close>

lemma delete_tapes_ok:
  assumes ok: "catalog_ok d" and run: "delete_tapes Q d = Inr d'"
  shows "catalog_ok d'"
proof -
  have d': "tapes d' = delete_where Q (tapes d)" "slots d' = slots d" "drives d' = drives d"
    "libs d' = libs d" "shelves d' = shelves d" "seq_lib d' = seq_lib d" "seq_shelf d' = seq_shelf d"
    "seq_tape d' = seq_tape d"
    and free: "\<And>r s. r \<in> set (tapes d) \<Longrightarrow> Q r \<Longrightarrow> s \<in> set (slots d) \<Longrightarrow> slot_tape s \<noteq> Some (tape_id r)"
      "\<And>r k. r \<in> set (tapes d) \<Longrightarrow> Q r \<Longrightarrow> k \<in> set (drives d) \<Longrightarrow> drive_tape k \<noteq> Some (tape_id r)"
    using run by (auto simp: delete_tapes_Inr)
  have "keys_ok d'"
    using ok unfolding catalog_ok_def keys_ok_def d'
    by (auto simp: distinct_map_delete_where set_delete_where)
  moreover have "slots_placed d'"
    using ok free(1) unfolding catalog_ok_def slots_placed_def d' set_delete_where by fastforce
  moreover have "drives_placed d'"
    using ok free(2) unfolding catalog_ok_def drives_placed_def d' set_delete_where by fastforce
  moreover have "drives_exclusive d'" "shelf_xor_slot d'"
    using ok by (auto simp: catalog_ok_def drives_exclusive_def shelf_xor_slot_def d' set_delete_where)
  ultimately show ?thesis by (simp add: catalog_ok_def)
qed

text \<open>Statements that only clear rows of the changer keep it too.\<close>

lemma clear_rows_ok:
  assumes ok: "catalog_ok d" and keys: "keys_ok d'" and t: "tapes d' = tapes d"
    and s: "\<And>x u. x \<in> set (slots d') \<Longrightarrow> slot_tape x = Some u \<Longrightarrow> x \<in> set (slots d)"
    and k: "\<And>x u. x \<in> set (drives d') \<Longrightarrow> drive_tape x = Some u \<Longrightarrow> x \<in> set (drives d)"
  shows "catalog_ok d'"
proof -
  have "slots_placed d'"
    unfolding slots_placed_def t
  proof (intro ballI allI impI)
    fix x u assume "x \<in> set (slots d')" "slot_tape x = Some u"
    with s catalog_slot_row [OF ok] show "\<exists>r \<in> set (tapes d). tape_id r = u \<and>
        tape_lib r = slot_lib x \<and> tape_slot r = Some (slot_no x) \<and> tape_shelf r = None" by blast
  qed
  moreover have "drives_placed d'"
    unfolding drives_placed_def t
  proof (intro ballI allI impI)
    fix x u assume "x \<in> set (drives d')" "drive_tape x = Some u"
    with k catalog_drive_row [OF ok] show "\<exists>r \<in> set (tapes d). tape_id r = u \<and>
        tape_lib r = drive_lib x \<and> tape_slot r = None \<and> tape_shelf r = None" by blast
  qed
  moreover have "drives_exclusive d'"
    unfolding drives_exclusive_def
  proof (intro ballI allI impI)
    fix x y u
    assume "x \<in> set (drives d')" "y \<in> set (drives d')" "drive_tape x = Some u" "drive_tape y = Some u"
    with k ok show "x = y" unfolding catalog_ok_def drives_exclusive_def by blast
  qed
  moreover have "shelf_xor_slot d'" using ok by (simp add: catalog_ok_def shelf_xor_slot_def t)
  ultimately show ?thesis using keys by (simp add: catalog_ok_def)
qed

lemma catalog_ok_frames:
  "catalog_ok (d\<lparr>tape_tags := x\<rparr>) = catalog_ok d" "catalog_ok (d\<lparr>tags := y\<rparr>) = catalog_ok d"
  "catalog_ok (d\<lparr>lib_config := z\<rparr>) = catalog_ok d"
  by (simp_all add: catalog_ok_def keys_ok_def slots_placed_def drives_placed_def
      drives_exclusive_def shelf_xor_slot_def)

lemma delete_tape_tx_ok:
  assumes ok: "catalog_ok d" and run: "delete_tape_tx l t d = Inr d'"
  shows "catalog_ok d'"
proof -
  let ?d1 = "clear_drives_of l t (clear_slots_of l t d)"
  have "catalog_ok ?d1"
  proof (rule clear_rows_ok [OF ok])
    show "keys_ok ?d1" using ok by (simp add: catalog_ok_def)
  qed (auto dest!: clear_drives_row rows_written)
  then have "catalog_ok (?d1\<lparr>tape_tags := delete_where (\<lambda>p. fst p = t) (tape_tags ?d1)\<rparr>)"
    by (simp only: catalog_ok_frames)
  from delete_tapes_ok [OF this] run show ?thesis by (simp add: delete_tape_tx_def Let_def)
qed

text \<open>In a consistent catalogue a tape of the library can always be deleted.\<close>

lemma delete_tape_tx_succeeds:
  assumes ok: "catalog_ok d" and r: "r \<in> set (tapes d)" "tape_lib r = l"
  shows "\<exists>d'. delete_tape_tx l (tape_id r) d = Inr d' \<and> r \<notin> set (tapes d')"
proof -
  let ?t = "tape_id r"
  have keys: "keys_ok d" using ok by (simp add: catalog_ok_def)
  have mine: "q = r" if "q \<in> set (tapes d)" "tape_id q = ?t" for q
    using tape_unique [OF keys that(1) r(1) that(2)] .
  have s: "slot_tape x \<noteq> Some ?t" if x: "x \<in> set (slots (clear_slots_of l ?t d))" for x
  proof
    assume xt: "slot_tape x = Some ?t"
    with x have *: "x \<in> set (slots d)" "slot_lib x \<noteq> l" by (auto dest!: rows_written)
    obtain q where "q \<in> set (tapes d)" "tape_id q = ?t" "tape_lib q = slot_lib x"
      using catalog_slot_row [OF ok *(1) xt] by blast
    with mine [of q] r * show False by simp
  qed
  have k: "drive_tape x \<noteq> Some ?t" if x: "x \<in> set (drives (clear_drives_of l ?t d))" for x
  proof
    assume xt: "drive_tape x = Some ?t"
    with x have *: "x \<in> set (drives d)" "drive_lib x \<noteq> l" by (auto dest!: clear_drives_row)
    obtain q where "q \<in> set (tapes d)" "tape_id q = ?t" "tape_lib q = drive_lib x"
      using catalog_drive_row [OF ok *(1) xt] by blast
    with mine [of q] r * show False by simp
  qed
  have "drives (clear_drives_of l ?t (clear_slots_of l ?t d)) = drives (clear_drives_of l ?t d)"
    by (simp add: clear_drives_of_def clear_slots_of_def)
  with s k show ?thesis
    by (auto simp: delete_tape_tx_def Let_def delete_tapes_Inr set_delete_where)
qed

lemma update_tape_same_place_ok:
  assumes "catalog_ok d"
    and f: "\<And>r. tape_id (f r) = tape_id r" "\<And>r. tape_lib (f r) = tape_lib r" "\<And>r. tape_name (f r) = tape_name r"
      "\<And>r. tape_barcode (f r) = tape_barcode r" "\<And>r. tape_slot (f r) = tape_slot r" "\<And>r. tape_shelf (f r) = tape_shelf r"
  shows "catalog_ok (update_tape t f d)"
  using assms(1)
  by (simp add: catalog_ok_def keys_ok_update_tape f slots_placed_def drives_placed_def
      drives_exclusive_def shelf_xor_slot_def)
     (simp add: update_tape_def bex_update_where ball_update_where if_distrib f cong: if_cong)

section \<open>The commands keep the catalogue\<close>

locale tape_invariant = robot_invariant +
  assumes create_keeps: "P d \<Longrightarrow> insert_tape r d = Inr (i, d') \<Longrightarrow> tape_slot r = None \<Longrightarrow> P d'"
    and delete_keeps: "P d \<Longrightarrow> delete_tape_tx l t d = Inr d' \<Longrightarrow> P d'"
    and used_keeps: "P d \<Longrightarrow> P (set_used_zero t d)"
    and tag_keeps: "P d \<Longrightarrow> P (add_tag t n d)" "P d \<Longrightarrow> P (remove_tag t n d)"
    and quota_keeps: "P d \<Longrightarrow> quota_set_tx l a b d = Inr d' \<Longrightarrow> P d'"
begin

lemmas tape_machinery = robot_machinery keeps_fs_run keeps_fs_try

lemma keeps_draw_barcode: "keeps holds draw_barcode"
  unfolding draw_barcode_def by (intro keeps_intros keeps_modify) simp

lemma keeps_check_quota: "keeps holds (check_quota sz)"
  unfolding check_quota_def by (intro keeps_intros tape_machinery)

lemma keeps_create_tape: "keeps holds (create_tape name sz shelf)"
  unfolding create_tape_def
  by (intro keeps_intros tape_machinery keeps_check_quota keeps_draw_barcode keeps_unit_tx)
     (auto intro: create_keeps)

lemma keeps_create_tapes_batch: "keeps holds (create_tapes_batch lib shelf items)"
  unfolding create_tapes_batch_def by (intro keeps_intros keeps_in_library keeps_create_tape)

lemma keeps_create_auto_named: "keeps holds (create_auto_named_tapes_batch lib shelf n sz)"
  unfolding create_auto_named_tapes_batch_def Let_def
  by (intro keeps_intros tape_machinery keeps_in_library keeps_create_tape)

lemma fold_add_tag: "P d \<Longrightarrow> P (fold (add_tag t) names d)"
  by (induction names arbitrary: d) (simp_all add: tag_keeps)

lemma fold_remove_tag: "P d \<Longrightarrow> P (fold (remove_tag t) names d)"
  by (induction names arbitrary: d) (simp_all add: tag_keeps)

lemma keeps_add_tags: "keeps holds (add_tags_to_tape t names)"
  unfolding add_tags_to_tape_def by (rule keeps_unit_tx) (auto intro: fold_add_tag)

lemma keeps_tag_add: "keeps holds (tag_add name names)"
  unfolding tag_add_def by (intro keeps_intros tape_machinery keeps_add_tags)

lemma keeps_tag_remove: "keeps holds (tag_remove name names)"
  unfolding tag_remove_def
  by (intro keeps_intros tape_machinery keeps_unit_tx) (auto intro: fold_remove_tag)

lemma keeps_batch_create: "keeps holds (batch_create_tapes n sz prefix names)"
  unfolding batch_create_tapes_def Let_def
  by (intro keeps_intros tape_machinery keeps_create_tape keeps_add_tags)

lemma keeps_delete_tape: "keeps holds (delete_tape_in_library lname name)"
  unfolding delete_tape_in_library_def
  by (intro keeps_intros tape_machinery keeps_unit_tx) (rule delete_keeps)

lemma keeps_init_tape: "keeps holds (init_tape_in_library lname name)"
  unfolding init_tape_in_library_def
  by (intro keeps_intros tape_machinery keeps_unit_tx) (auto intro: used_keeps)

lemma keeps_quota_set: "keeps holds (quota_set a b)"
  unfolding quota_set_def by (intro keeps_intros tape_machinery keeps_unit_tx) (rule quota_keeps)

end

lemma tag_frames:
  "catalog_ok d \<Longrightarrow> catalog_ok (add_tag t n d)" "catalog_ok d \<Longrightarrow> catalog_ok (remove_tag t n d)"
  by (auto simp: add_tag_def remove_tag_def catalog_ok_frames Let_def split: option.split)

lemma quota_set_tx_ok: "catalog_ok d \<Longrightarrow> quota_set_tx l a b d = Inr d' \<Longrightarrow> catalog_ok d'"
  by (auto simp: quota_set_tx_def set_lib_config_def catalog_ok_frames split: option.splits)

lemma set_used_zero_ok: "catalog_ok d \<Longrightarrow> catalog_ok (set_used_zero t d)"
  unfolding set_used_zero_def by (rule update_tape_same_place_ok) simp_all

interpretation tape_catalog: tape_invariant catalog_ok
  by unfold_locales
     (fact tag_frames quota_set_tx_ok set_used_zero_ok delete_tape_tx_ok
      | blast intro: insert_tape_ok)+

section \<open>Quotas\<close>

text \<open>The quota of a library, as the check reads it.\<close>

definition within_quota :: "int \<Rightarrow> db \<Rightarrow> bool" where
  "within_quota lib d \<longleftrightarrow>
     (\<forall>s mx. quota_value d lib ''quota_max_total_size'' = Some s \<longrightarrow> parse_size s = Inr mx \<longrightarrow>
        sum_list (map tape_capacity (filter (\<lambda>r. tape_lib r = lib) (tapes d))) \<le> mx) \<and>
     (\<forall>s n. quota_value d lib ''quota_max_tapes'' = Some s \<longrightarrow> parse_i32 s = Some n \<longrightarrow>
        int (tape_count d lib) \<le> n)"

lemma check_quota_db_Inr:
  "check_quota_db sz lib d = Inr () \<longleftrightarrow>
     (\<forall>s. quota_value d lib ''quota_max_total_size'' = Some s \<longrightarrow>
        (\<exists>mx. parse_size s = Inr mx \<and> (current_total d lib + sz) mod 2 ^ 64 \<le> mx)) \<and>
     (\<forall>s n. quota_value d lib ''quota_max_tapes'' = Some s \<longrightarrow> parse_i32 s = Some n \<longrightarrow>
        current_count d lib < n)"
  by (auto simp: check_quota_db_def split: option.splits bind_splits)

text \<open>
  A tape that passed the check and went into the table keeps the quota, if the capacities of the
  library still fit SQLite's integers and its tapes are countable in 32 bits.
\<close>

lemma check_quota_insert:
  assumes chk: "check_quota_db (tape_capacity r) lib d = Inr ()"
    and ins: "insert_tape r d = Inr (i, d')" and lib: "tape_lib r = lib"
    and fits: "sum_list (map tape_capacity (filter (\<lambda>r. tape_lib r = lib) (tapes d))) < 2 ^ 63"
    and cnt: "int (tape_count d lib) \<le> i32_max"
  shows "within_quota lib d'"
proof -
  let ?s = "sum_list (map tape_capacity (filter (\<lambda>r. tape_lib r = lib) (tapes d)))"
  have d': "quota_value d' lib k = quota_value d lib k" for k
    using ins by (auto simp: insert_tape_Inr quota_value_def lib_config_get_def config_get_def split: option.split)
  have sum: "sum_list (map tape_capacity (filter (\<lambda>r. tape_lib r = lib) (tapes d'))) = ?s + tape_capacity r"
    and count: "tape_count d' lib = Suc (tape_count d lib)"
    using ins lib by (auto simp: insert_tape_Inr tape_count_def)
  have cap: "tape_capacity r < 2 ^ 63" using ins by (simp add: insert_tape_Inr)
  have "(current_total d lib + tape_capacity r) mod 2 ^ 64 = ?s + tape_capacity r"
    using fits cap by (simp add: current_total_def Let_def)
  moreover have "current_count d lib = int (tape_count d lib)"
    using cnt by (simp add: current_count_def Let_def)
  ultimately show ?thesis
    using chk unfolding within_quota_def d' sum count check_quota_db_Inr by auto
qed

section \<open>Importing\<close>

lemma import_tx_new_ok:
  assumes "catalog_ok d" and "import_tx lib name None s len bc now img d = Inr d'"
  shows "catalog_ok d'"
proof -
  from assms(2) obtain t d1 where
    ins: "insert_tape \<lparr>tape_id = 0, tape_lib = lib, tape_shelf = None, tape_barcode = bc,
        tape_name = name, tape_slot = Some s, tape_capacity = len, tape_used = len,
        tape_created = now, tape_image = img\<rparr> d = Inr (t, d1)"
    and d': "d' = set_slot_tape lib s (Some t) d1"
    by (auto simp: import_tx_def)
  have ok1: "catalog_ok d1" by (rule insert_tape_ok [OF assms(1) ins]) simp
  have row: "\<exists>r \<in> set (tapes d1). tape_id r = t \<and> tape_lib r = lib \<and> tape_slot r = Some s \<and> tape_shelf r = None"
    and same: "drives d1 = drives d" and t: "t = seq_tape d + 1"
    using ins by (auto simp: insert_tape_Inr)
  have fresh: "drive_tape k \<noteq> Some t" if "k \<in> set (drives d1)" for k
  proof
    assume k: "drive_tape k = Some t"
    with that same obtain r where "r \<in> set (tapes d)" "tape_id r = t"
      using catalog_drive_row [OF assms(1)] by metis
    with assms(1) t show False by (force simp: catalog_ok_def keys_ok_def)
  qed
  have "slots_placed d'"
    unfolding slots_placed_def d' statement_frames
  proof (intro ballI allI impI)
    fix x u assume x: "x \<in> set (slots (set_slot_tape lib s (Some t) d1))" "slot_tape x = Some u"
    from slot_row_set [OF this] show "\<exists>r \<in> set (tapes d1). tape_id r = u \<and> tape_lib r = slot_lib x \<and>
        tape_slot r = Some (slot_no x) \<and> tape_shelf r = None"
      using row catalog_slot_row [OF ok1 _ x(2)] by auto
  qed
  with ok1 show ?thesis
    by (simp add: catalog_ok_def drives_placed_def drives_exclusive_def shelf_xor_slot_def d')
qed

text \<open>
  Importing over a tape that is already in the changer puts it into a second slot: the old row
  still names it.
\<close>

lemma import_tx_existing_duplicates:
  assumes "keys_ok d" and r: "r \<in> set (tapes d)" "tape_id r = t"
    and x: "x \<in> set (slots d)" "slot_lib x = lib" "slot_tape x = Some t" "slot_no x \<noteq> s"
    and "has_slot d lib s" and "import_tx lib name (Some t) s len bc now img d = Inr d'"
  shows "\<not> catalog_ok d'"
proof
  assume ok: "catalog_ok d'"
  have d': "d' = set_slot_tape lib s (Some t)
      (update_tape t (\<lambda>r. r\<lparr>tape_slot := Some s, tape_shelf := None, tape_image := img\<rparr>) d)"
    using assms(9) by (simp add: import_tx_def)
  have x': "x \<in> set (slots d')"
    using x by (force simp: d' set_slot_tape_def set_update_where)
  from \<open>has_slot d lib s\<close> obtain y where y: "y \<in> set (slots d)" "slot_lib y = lib" "slot_no y = s"
    by (auto simp: has_slot_def)
  then have y': "y\<lparr>slot_tape := Some t\<rparr> \<in> set (slots d')"
    by (force simp: d' set_slot_tape_def set_update_where)
  have "x = y\<lparr>slot_tape := Some t\<rparr>"
    by (rule catalog_tape_in_one_slot [OF ok x' y' x(3)]) simp
  with x(4) y(3) show False by (cases y) auto
qed

end
