(* ===== verification/ReconcileFacts.thy ===== *)
theory ReconcileFacts
  imports TapeFacts
begin

text \<open>
  Properties of the bridge to the kernel: request fields and element addresses, the inventories,
  the list of drifts, and what pulling and mirroring do to the catalogue.
\<close>

section \<open>Fields and addresses\<close>

lemma cstr_to_string_pad: "NUL \<notin> set s \<Longrightarrow> cstr_to_string (s @ replicate n NUL) = s"
  by (induction s) (auto simp: cstr_to_string_def NUL_def takeWhile_eq_Nil_iff)

lemma copy_name_field_roundtrip:
  assumes "copy_name_field name = Inr buf" and "NUL \<notin> set name"
  shows "length buf = 64 \<and> cstr_to_string buf = name \<and> last buf = NUL"
  using assms cstr_to_string_pad
  by (auto simp: copy_name_field_def split: if_splits)

lemma copy_name_field_Inl: "copy_name_field name = Inl e \<longleftrightarrow>
    64 \<le> length name \<and> e = KindError KInvalidInput ''tape name exceeds 63 bytes''"
  by (auto simp: copy_name_field_def)

text \<open>Decoding an address: the branch for drives is never reached.\<close>

lemma from_element_cases:
  "from_element e =
     (if e < 0 then None else if e < VTL_ELEM_IE_BASE then Some (DataSlot e)
      else Some (MailSlot (MAILSLOT_OFFSET + (e - VTL_ELEM_IE_BASE))))"
  by (auto simp: from_element_def element_bases)

lemma to_element_from_element: "from_element e = Some l \<Longrightarrow> to_element l = e"
  by (auto simp: from_element_cases db_mailslot_to_element_def split: if_splits)

lemma from_element_to_element:
  "0 \<le> s \<Longrightarrow> s < VTL_ELEM_IE_BASE \<Longrightarrow> from_element (to_element (DataSlot s)) = Some (DataSlot s)"
  "MAILSLOT_OFFSET \<le> m \<Longrightarrow> from_element (to_element (MailSlot m)) = Some (MailSlot m)"
  by (simp_all add: from_element_cases db_mailslot_to_element_def VTL_ELEM_IE_BASE_def)

lemma from_element_drive:
  "0 \<le> i \<Longrightarrow> i < 1000 \<Longrightarrow> from_element (to_element (Drive i)) = Some (DataSlot (1000 + i))"
  by (simp add: from_element_cases element_bases)

lemma from_element_inj: "from_element a = Some l \<Longrightarrow> from_element b = Some l \<Longrightarrow> a = b"
  using to_element_from_element by metis

section \<open>Inventories\<close>

lemma add_item_distinct:
  assumes "add_item msg item locs = Inr locs'" and "distinct (map fst locs)"
  shows "distinct (map fst locs')"
  using assms by (auto simp: add_item_def Let_def map_of_eq_None_iff split: if_splits option.splits)

lemma fold_add_item_distinct:
  "fold_ok (add_item msg) items [] = Inr locs \<Longrightarrow> distinct (map fst locs)"
  by (rule fold_ok_invariant [where P = "\<lambda>l. distinct (map fst l)"]) (auto intro: add_item_distinct)

lemma insert_fresh_distinct:
  "insert_fresh p locs = Inr locs' \<Longrightarrow> distinct (map fst locs) \<Longrightarrow> distinct (map fst locs')"
  by (auto simp: insert_fresh_def map_of_eq_None_iff split: if_splits)

lemma db_inventory_distinct: "db_inventory d lib = Inr iv \<Longrightarrow> distinct (map fst iv)"
  unfolding db_inventory_def
  by (erule fold_ok_invariant [where P = "\<lambda>l. distinct (map fst l)"]) (auto intro: insert_fresh_distinct)

lemma fold_insert_fresh:
  "fold_ok insert_fresh rows iv = Inr iv' \<longleftrightarrow>
     iv' = iv @ rows \<and> distinct (map fst rows) \<and> set (map fst rows) \<inter> set (map fst iv) = {}"
proof (induction rows arbitrary: iv)
  case (Cons p rows)
  then show ?case by (auto simp: insert_fresh_def map_of_eq_None_iff)
qed auto

text \<open>The database inventory is the rows of the three queries, and fails exactly on a clash.\<close>

lemma db_inventory_Inr:
  "db_inventory d lib = Inr iv \<longleftrightarrow> iv = inventory_rows d lib \<and> distinct (map fst (inventory_rows d lib))"
  by (auto simp: db_inventory_def fold_insert_fresh)

text \<open>What the snapshot says of a name is where the kernel reports it.\<close>

lemma fold_add_item_locations:
  assumes "fold_ok (add_item msg) items locs = Inr locs'"
  shows "map_of locs' n = Some loc \<longleftrightarrow>
    map_of locs n = Some loc \<or>
    (n \<noteq> [] \<and> (\<exists>item \<in> set items. cstr_to_string (snd item) = n \<and> from_element (fst item) = Some loc))"
  using assms
proof (induction items arbitrary: locs)
  case (Cons item items)
  then obtain l1 where one: "add_item msg item locs = Inr l1"
    and rest: "fold_ok (add_item msg) items l1 = Inr locs'" by auto
  have "map_of l1 n = Some loc \<longleftrightarrow> map_of locs n = Some loc \<or>
     (n \<noteq> [] \<and> cstr_to_string (snd item) = n \<and> from_element (fst item) = Some loc)"
    using one by (auto simp: add_item_def Let_def map_add_def split: if_splits option.splits)
  with Cons.IH [OF rest] show ?case by auto
qed simp

section \<open>Drifts\<close>

lemma find_drifts_Nil: "find_drifts d k = [] \<longleftrightarrow> (\<forall>t. map_of d t = map_of k t)"
proof
  assume "find_drifts d k = []"
  then have eq: "map_of d t = map_of k t" if "t \<in> fst ` set d \<union> fst ` set k" for t
    using that by (auto simp: find_drifts_def filter_empty_conv)
  show "\<forall>t. map_of d t = map_of k t"
  proof
    fix t show "map_of d t = map_of k t"
      using eq [of t] by (cases "t \<in> fst ` set d \<union> fst ` set k")
        (simp, metis UnI1 UnI2 map_of_eq_None_iff)
  qed
next
  assume "\<forall>t. map_of d t = map_of k t"
  then show "find_drifts d k = []" by (simp add: find_drifts_def)
qed

lemma find_drifts_exact:
  "x \<in> set (find_drifts d k) \<longleftrightarrow>
     drift_db x = map_of d (drift_tape x) \<and> drift_kernel x = map_of k (drift_tape x) \<and>
     drift_db x \<noteq> drift_kernel x"
proof -
  have "t \<in> fst ` set d \<union> fst ` set k" if "map_of d t \<noteq> map_of k t" for t
    using that by (metis UnCI map_of_eq_None_iff)
  then show ?thesis by (cases x) (auto simp: find_drifts_def)
qed

lemma find_drifts_sorted:
  "sorted (map drift_tape (find_drifts d k)) \<and> distinct (map drift_tape (find_drifts d k))"
  by (simp add: find_drifts_def comp_def sorted_wrt_filter)

section \<open>Pulling keeps the catalogue consistent\<close>

lemma clear_changer_row:
  "x \<in> set (slots (clear_changer lib d)) \<Longrightarrow> slot_tape x = Some t \<Longrightarrow> x \<in> set (slots d) \<and> slot_lib x \<noteq> lib"
  "y \<in> set (drives (clear_changer lib d)) \<Longrightarrow> drive_tape y = Some t \<Longrightarrow> y \<in> set (drives d) \<and> drive_lib y \<noteq> lib"
  by (auto simp: clear_changer_def set_update_where split: if_splits)

lemma clear_changer_ok: "catalog_ok d \<Longrightarrow> catalog_ok (clear_changer lib d)"
proof (rule clear_rows_ok [of d])
  assume "catalog_ok d"
  then show "keys_ok (clear_changer lib d)"
    by (simp add: catalog_ok_def keys_ok_def clear_changer_def map_update_where)
  show "tapes (clear_changer lib d) = tapes d" by (simp add: clear_changer_def)
qed (blast dest: clear_changer_row)+

text \<open>During the pull the changer's rows of the library only name tapes already treated.\<close>

definition pulled :: "int \<Rightarrow> string set \<Rightarrow> db \<Rightarrow> bool" where
  "pulled lib names d \<longleftrightarrow> catalog_ok d \<and>
     (\<forall>x \<in> set (slots d). \<forall>t r. slot_lib x = lib \<longrightarrow> slot_tape x = Some t \<longrightarrow> r \<in> set (tapes d) \<longrightarrow>
        tape_id r = t \<longrightarrow> tape_name r \<in> names) \<and>
     (\<forall>x \<in> set (drives d). \<forall>t r. drive_lib x = lib \<longrightarrow> drive_tape x = Some t \<longrightarrow> r \<in> set (tapes d) \<longrightarrow>
        tape_id r = t \<longrightarrow> tape_name r \<in> names)"

lemma pulled_nowhere:
  assumes "pulled lib names d" and "r \<in> set (tapes d)" "tape_lib r = lib" "tape_name r \<notin> names"
  shows "x \<in> set (slots d) \<Longrightarrow> slot_tape x \<noteq> Some (tape_id r)"
    and "y \<in> set (drives d) \<Longrightarrow> drive_tape y \<noteq> Some (tape_id r)"
proof -
  have ok: "catalog_ok d" and keys: "keys_ok d" using assms(1) by (auto simp: pulled_def catalog_ok_def)
  show "slot_tape x \<noteq> Some (tape_id r)" if "x \<in> set (slots d)"
  proof
    assume x: "slot_tape x = Some (tape_id r)"
    from catalog_slot_row [OF ok that x] obtain q where q: "q \<in> set (tapes d)" "tape_id q = tape_id r"
      "tape_lib q = slot_lib x" by blast
    with tape_unique [OF keys q(1) assms(2) q(2)] assms(3) have "slot_lib x = lib" by simp
    with assms(1,2,4) x that show False unfolding pulled_def by blast
  qed
  show "drive_tape y \<noteq> Some (tape_id r)" if "y \<in> set (drives d)"
  proof
    assume y: "drive_tape y = Some (tape_id r)"
    from catalog_drive_row [OF ok that y] obtain q where q: "q \<in> set (tapes d)" "tape_id q = tape_id r"
      "tape_lib q = drive_lib y" by blast
    with tape_unique [OF keys q(1) assms(2) q(2)] assms(3) have "drive_lib y = lib" by simp
    with assms(1,2,4) y that show False unfolding pulled_def by blast
  qed
qed

text \<open>The names of the tapes do not change.\<close>

lemma tape_name_in_updated:
  assumes "q \<in> set (tapes (update_tape t (in_slot_row s) d))"
  shows "\<exists>q0 \<in> set (tapes d). tape_id q0 = tape_id q \<and> tape_name q0 = tape_name q"
  using assms by (auto simp: update_tape_def set_update_where)

lemma pulled_step:
  assumes p: "pulled lib names d" and ok': "catalog_ok d'" and r: "r \<in> set (tapes d)" "tape_id r = t"
    and tapes': "tapes d' = tapes (update_tape t (in_slot_row s) d)" and o: "others_kept t d d'"
  shows "pulled lib (insert (tape_name r) names) d'"
proof -
  have keys: "keys_ok d" using p by (simp add: pulled_def catalog_ok_def)
  have name: "tape_name q \<in> insert (tape_name r) names"
    if "q \<in> set (tapes d')" "tape_id q = u" and "u \<noteq> t \<Longrightarrow> \<forall>q0 \<in> set (tapes d). tape_id q0 = u \<longrightarrow> tape_name q0 \<in> names"
    for q u
  proof -
    obtain q0 where q0: "q0 \<in> set (tapes d)" "tape_id q0 = tape_id q" "tape_name q0 = tape_name q"
      using \<open>q \<in> set (tapes d')\<close> tape_name_in_updated unfolding tapes' by blast
    show ?thesis
    proof (cases "u = t")
      case True
      then have "q0 = r" using tape_unique [OF keys q0(1) r(1)] q0 r that by simp
      with q0 show ?thesis by simp
    next
      case False
      with that q0 show ?thesis by auto
    qed
  qed
  show ?thesis
    unfolding pulled_def
  proof (intro conjI ballI allI impI)
    show "catalog_ok d'" by (rule ok')
    fix x u q assume "x \<in> set (slots d')" "slot_lib x = lib" "slot_tape x = Some u" "q \<in> set (tapes d')" "tape_id q = u"
    then show "tape_name q \<in> insert (tape_name r) names"
      using o p by (intro name) (auto simp: others_kept_def pulled_def)
  next
    fix x u q assume "x \<in> set (drives d')" "drive_lib x = lib" "drive_tape x = Some u" "q \<in> set (tapes d')" "tape_id q = u"
    then show "tape_name q \<in> insert (tape_name r) names"
      using o p by (intro name) (auto simp: others_kept_def pulled_def)
  qed
qed

lemma pull_slot_ok:
  assumes p: "pulled lib names d" and r: "r \<in> set (tapes d)" "tape_lib r = lib" "tape_name r \<notin> names"
  shows "pulled lib (insert (tape_name r) names)
    (update_tape (tape_id r) (in_slot_row (Some s)) (set_slot_tape lib s (Some (tape_id r)) d))"
    (is "pulled _ _ ?d'")
proof -
  have ok: "catalog_ok d" using p by (simp add: pulled_def)
  note nowhere = pulled_nowhere [OF p r]
  have o: "others_kept (tape_id r) d ?d'" by (auto simp: others_kept_def dest!: rows_written)
  have "catalog_ok ?d'"
  proof (rule relocate_to_slot [OF ok _ o])
    show "keys_ok ?d'" using ok by (simp add: catalog_ok_def)
    show "slot_lib x = lib \<and> slot_no x = s" if "x \<in> set (slots ?d')" "slot_tape x = Some (tape_id r)" for x
      using that nowhere(1) [of x] by (auto dest!: rows_written)
    show "drive_tape x \<noteq> Some (tape_id r)" if "x \<in> set (drives ?d')" for x
      using that nowhere(2) by simp
  qed (use r in \<open>simp_all add: update_tape_def\<close>)
  then show ?thesis by (rule pulled_step [OF p _ r(1) refl _ o]) (simp add: update_tape_def)
qed

lemma pull_drive_ok:
  assumes p: "pulled lib names d" and r: "r \<in> set (tapes d)" "tape_lib r = lib" "tape_name r \<notin> names"
  shows "pulled lib (insert (tape_name r) names)
    (update_tape (tape_id r) (in_slot_row None) (set_drive_tape lib k (Some (tape_id r)) d))"
    (is "pulled _ _ ?d'")
proof -
  have ok: "catalog_ok d" using p by (simp add: pulled_def)
  note nowhere = pulled_nowhere [OF p r]
  have o: "others_kept (tape_id r) d ?d'" by (auto simp: others_kept_def dest!: rows_written)
  have keys: "keys_ok ?d'" using ok by (simp add: catalog_ok_def)
  have here: "drive_lib x = lib \<and> drive_no x = k" if "x \<in> set (drives ?d')" "drive_tape x = Some (tape_id r)" for x
    using that nowhere(2) [of x] by (auto dest!: rows_written)
  have "catalog_ok ?d'"
  proof (rule relocate [OF ok keys _ _ o])
    show "tapes ?d' = update_where (\<lambda>q. tape_id q = tape_id r) (in_slot_row None) (tapes d)"
      by (simp add: update_tape_def)
    show "\<exists>q\<in>set (tapes d). tape_id q = tape_id r \<and> tape_lib (in_slot_row None q) = slot_lib x \<and>
        tape_slot (in_slot_row None q) = Some (slot_no x) \<and> tape_shelf (in_slot_row None q) = None"
      if "x \<in> set (slots ?d')" "slot_tape x = Some (tape_id r)" for x
      using that nowhere(1) [of x] by simp
    show "\<exists>q\<in>set (tapes d). tape_id q = tape_id r \<and> tape_lib (in_slot_row None q) = drive_lib x \<and>
        tape_slot (in_slot_row None q) = None \<and> tape_shelf (in_slot_row None q) = None"
      if "x \<in> set (drives ?d')" "drive_tape x = Some (tape_id r)" for x
      using here [OF that] r by (intro bexI [of _ r]) auto
    show "x = y" if "x \<in> set (drives ?d')" "y \<in> set (drives ?d')" "drive_tape x = Some (tape_id r)"
        "drive_tape y = Some (tape_id r)" for x y
      using here that by (intro drive_unique [OF keys]) auto
  qed simp_all
  then show ?thesis by (rule pulled_step [OF p _ r(1) refl _ o]) (simp add: update_tape_def)
qed

lemma pulled_mono: "pulled lib names d \<Longrightarrow> names \<subseteq> names' \<Longrightarrow> pulled lib names' d"
  unfolding pulled_def by (meson subsetD)

lemma pull_one_pulled:
  assumes p: "pulled lib names (snd nd)" and fresh: "fst q \<notin> names"
  shows "pulled lib (insert (fst q) names) (snd (pull_one lib q nd))"
proof (cases "find_tape (snd nd) lib (fst q)")
  case None
  with p show ?thesis by (auto simp: pull_one_def intro: pulled_mono)
next
  case (Some r)
  then have r: "r \<in> set (tapes (snd nd))" "tape_lib r = lib" "tape_name r = fst q"
    by (auto dest: find_tape_Some)
  with fresh have "tape_name r \<notin> names" by simp
  with p r pull_slot_ok [OF p r(1,2)] pull_drive_ok [OF p r(1,2)] Some show ?thesis
    by (simp add: pull_one_def split: MediumLocation.split)
qed

lemma fold_pull_pulled:
  "pulled lib names (snd nd) \<Longrightarrow> distinct (map fst ks) \<Longrightarrow> fst ` set ks \<inter> names = {} \<Longrightarrow>
   pulled lib (names \<union> fst ` set ks) (snd (fold (pull_one lib) ks nd))"
proof (induction ks arbitrary: nd names)
  case (Cons q ks)
  have "pulled lib (insert (fst q) names) (snd (pull_one lib q nd))"
    using Cons.prems by (intro pull_one_pulled) auto
  from Cons.IH [OF this] Cons.prems show ?case by auto
qed simp

lemma forget_orphan_slots_ok:
  assumes ok: "catalog_ok d"
  shows "catalog_ok (forget_orphan_slots lib d)"
proof -
  define Q where "Q = (\<lambda>r :: tape_row. tape_lib r = lib \<and> tape_shelf r = None \<and> \<not> in_changer_of d lib (tape_id r))"
  have d': "forget_orphan_slots lib d = d\<lparr>tapes := update_where Q (\<lambda>r. r\<lparr>tape_slot := None\<rparr>) (tapes d)\<rparr>"
    by (simp add: forget_orphan_slots_def Q_def)
  have kept: "r \<in> set (tapes (forget_orphan_slots lib d))" if "r \<in> set (tapes d)" "\<not> Q r" for r
    using that by (auto simp: d' set_update_where image_iff intro!: bexI [of _ r])
  have "keys_ok (forget_orphan_slots lib d)"
    using ok by (simp add: d' catalog_ok_def keys_ok_def map_update_where ball_update_where)
  moreover have "slots_placed (forget_orphan_slots lib d)"
    unfolding slots_placed_def
  proof (intro ballI allI impI)
    fix x t assume x: "x \<in> set (slots (forget_orphan_slots lib d))" "slot_tape x = Some t"
    then have x': "x \<in> set (slots d)" by (simp add: d')
    from catalog_slot_row [OF ok x' x(2)] obtain r where r: "r \<in> set (tapes d)" "tape_id r = t"
      "tape_lib r = slot_lib x" "tape_slot r = Some (slot_no x)" "tape_shelf r = None" by blast
    then have "\<not> Q r" using x x' by (auto simp: Q_def in_changer_of_def)
    with kept r show "\<exists>r \<in> set (tapes (forget_orphan_slots lib d)). tape_id r = t \<and> tape_lib r = slot_lib x \<and>
        tape_slot r = Some (slot_no x) \<and> tape_shelf r = None" by blast
  qed
  moreover have "drives_placed (forget_orphan_slots lib d)"
    unfolding drives_placed_def
  proof (intro ballI allI impI)
    fix x t assume x: "x \<in> set (drives (forget_orphan_slots lib d))" "drive_tape x = Some t"
    then have x': "x \<in> set (drives d)" by (simp add: d')
    from catalog_drive_row [OF ok x' x(2)] obtain r where r: "r \<in> set (tapes d)" "tape_id r = t"
      "tape_lib r = drive_lib x" "tape_slot r = None" "tape_shelf r = None" by blast
    then have "\<not> Q r" using x x' by (auto simp: Q_def in_changer_of_def)
    with kept r show "\<exists>r \<in> set (tapes (forget_orphan_slots lib d)). tape_id r = t \<and> tape_lib r = drive_lib x \<and>
        tape_slot r = None \<and> tape_shelf r = None" by blast
  qed
  moreover have "drives_exclusive (forget_orphan_slots lib d)"
    using ok by (simp add: d' catalog_ok_def drives_exclusive_def)
  moreover have "shelf_xor_slot (forget_orphan_slots lib d)"
    using ok by (simp add: d' catalog_ok_def shelf_xor_slot_def ball_update_where)
  ultimately show ?thesis by (simp add: catalog_ok_def)
qed

lemma apply_kernel_to_db_ok:
  assumes "catalog_ok d" and "distinct (map fst ks)"
  shows "catalog_ok (snd (apply_kernel_to_db lib ks d))"
proof -
  have "pulled lib {} (clear_changer lib d)"
    using clear_changer_ok [OF assms(1)] by (auto simp: pulled_def clear_changer_row dest: clear_changer_row)
  from fold_pull_pulled [of lib "{}" "(0, clear_changer lib d)" ks] this assms(2)
  have "catalog_ok (snd (fold (pull_one lib) ks (0, clear_changer lib d)))"
    by (simp add: pulled_def)
  then show ?thesis by (simp add: apply_kernel_to_db_def split_beta forget_orphan_slots_ok)
qed

end
