(* ===== verification/Alignment.thy ===== *)
theory Alignment
  imports ReconcileFacts
begin

text \<open>
  What the commands that follow the kernel's inventory do to the catalogue: a pull puts every
  reported tape into the reported slot, the last one when several tapes are reported there, and keeps the catalogue consistent, and so do the commands
  built on it. A tape that the kernel reports in a drive is the exception: its address is decoded
  as a data slot that does not exist.
\<close>

section \<open>Pulling commands keep the catalogue consistent\<close>

text \<open>A program whose result satisfies a condition, and what may rely on it.\<close>

definition yields :: "('s, 'e, 'a) prog \<Rightarrow> ('a \<Rightarrow> bool) \<Rightarrow> bool" where
  "yields m Q \<longleftrightarrow> (\<forall>s x s'. m s = (Inr x, s') \<longrightarrow> Q x)"

lemma keeps_bindp_yields:
  "keeps P m \<Longrightarrow> yields m Q \<Longrightarrow> (\<And>x. Q x \<Longrightarrow> keeps P (k x)) \<Longrightarrow> keeps P (bindp m k)"
  unfolding keeps_def yields_def bindp_def by (fastforce split: prod.split sum.split)

lemma yields_bindp: "(\<And>x. yields (k x) Q) \<Longrightarrow> yields (bindp m k) Q"
  unfolding yields_def by (auto simp: bindp_eq_Inr)

lemma snapshot_yields: "yields (kernel_inventory_snapshot lib) (\<lambda>s. distinct (map fst (inv_locations s)))"
  unfolding kernel_inventory_snapshot_def
  by (intro yields_bindp)
     (auto simp: yields_def bindp_eq_Inr split: prod.splits dest: fold_add_item_distinct)

lemma keeps_pull_tx:
  "distinct (map fst ks) \<Longrightarrow> keeps catalog.holds (db_tx (\<lambda>d. Inr (apply_kernel_to_db lib ks d)))"
  by (rule catalog.keeps_db_tx) (metis apply_kernel_to_db_ok prod.sel(2) sum.inject(2))

lemmas pull_machinery = catalog.machinery catalog.keeps_init_db catalog.keeps_snapshot
  catalog.keeps_evacuate_shelved catalog.keeps_evacuate_tape

lemma keeps_pull_library: "keeps catalog.holds (pull_library_inventory_from_kernel lib)"
  unfolding pull_library_inventory_from_kernel_def
  by (intro keeps_gets [THEN keeps_bindp] keeps_if keeps_ret keeps_thenp catalog.keeps_init_db
      keeps_bindp_yields [OF catalog.keeps_snapshot snapshot_yields] keeps_from_result [THEN keeps_bindp]
      keeps_pull_tx)

lemma keeps_reconcile_library: "keeps catalog.holds (reconcile_library lib a p)"
  unfolding reconcile_library_def Let_def
  by (intro keeps_gets [THEN keeps_bindp] keeps_if keeps_ret keeps_fail keeps_thenp catalog.keeps_init_db
      catalog.keeps_db_read [THEN keeps_bindp]
      keeps_bindp_yields [OF catalog.keeps_snapshot snapshot_yields] keeps_from_result [THEN keeps_bindp]
      keeps_pull_tx [THEN keeps_bindp])

lemma keeps_auto_align: "keeps catalog.holds (auto_align_library_inner lib b)"
  unfolding auto_align_library_inner_def evacuate_unknown_def Let_def
  by (intro keeps_gets [THEN keeps_bindp] keeps_if keeps_ret keeps_fail keeps_thenp keeps_checkp
      catalog.keeps_init_db catalog.keeps_db_read [THEN keeps_bindp]
      catalog.keeps_evacuate_shelved [THEN keeps_bindp]
      keeps_foldp [THEN keeps_bindp] catalog.keeps_evacuate_tape [THEN keeps_attempt, THEN keeps_bindp]
      keeps_from_result [THEN keeps_bindp] keeps_pull_tx [THEN keeps_bindp]
      keeps_bindp_yields [OF catalog.keeps_snapshot snapshot_yields]
      keeps_bindp)

lemma keeps_pull_all: "keeps catalog.holds pull_all_online_libraries_from_kernel"
  unfolding pull_all_online_libraries_from_kernel_def
  by (intro keeps_intros pull_machinery keeps_pull_library)

lemma keeps_align_all: "keeps catalog.holds auto_align_all_online_libraries"
  unfolding auto_align_all_online_libraries_def auto_align_library_def
  by (intro keeps_intros pull_machinery keeps_auto_align)

lemma keeps_warn: "keeps catalog.holds (warn_if_reconcile_drift lib)"
  unfolding warn_if_reconcile_drift_def auto_align_library_def
  by (intro keeps_intros pull_machinery keeps_auto_align)

lemma keeps_robot_commands:
  "keeps catalog.holds robot_auto_align_library" "keeps catalog.holds (robot_reconcile_library a p)"
  "keeps catalog.holds robot_sync_library"
  unfolding robot_auto_align_library_def robot_reconcile_library_def robot_sync_library_def
    push_db_to_kernel_def auto_align_library_def
  by (intro keeps_intros pull_machinery catalog.keeps_current_library_id keeps_auto_align
      keeps_reconcile_library)+

section \<open>What a pull writes\<close>

text \<open>The row that a location addresses: slots and mail slots share the numbers of the slot rows.\<close>

fun slot_row_of :: "MediumLocation \<Rightarrow> int option" where
  "slot_row_of (DataSlot s) = Some s"
| "slot_row_of (MailSlot s) = Some s"
| "slot_row_of (Drive k) = None"

definition tape_id_of :: "db \<Rightarrow> int \<Rightarrow> string \<Rightarrow> int option" where
  "tape_id_of d lib name = map_option tape_id (find_tape d lib name)"

lemma find_map_id:
  "(\<And>r. P (f r) = P r) \<Longrightarrow> (\<And>r. g (f r) = g r) \<Longrightarrow>
   map_option g (List.find P (map f rs)) = map_option g (List.find P rs)"
  by (induction rs) auto

lemma tape_id_of_frames [simp]:
  "tape_id_of (set_slot_tape l s x d) = tape_id_of d" "tape_id_of (set_drive_tape l k x d) = tape_id_of d"
  "tape_id_of (clear_changer l d) = tape_id_of d"
  by (simp_all add: fun_eq_iff tape_id_of_def find_tape_def clear_changer_def)

lemma tape_id_of_update [simp]: "tape_id_of (update_tape t (in_slot_row s) d) = tape_id_of d"
  unfolding tape_id_of_def find_tape_def update_tape_def update_where_def
  by (intro ext) (simp, intro find_map_id; simp)

lemma tape_id_of_pull [simp]: "tape_id_of (snd (pull_one lib p nd)) = tape_id_of (snd nd)"
  by (simp add: pull_one_def split: option.split MediumLocation.split)

lemma has_slot_pull [simp]: "has_slot (snd (pull_one lib p nd)) l s = has_slot (snd nd) l s"
  by (simp add: pull_one_def split: option.split MediumLocation.split)

lemma has_slot_clear [simp]: "has_slot (clear_changer lib d) l s = has_slot d l s"
  by (auto simp: has_slot_def clear_changer_def bex_update_where)

lemma has_slot_forget [simp]: "has_slot (forget_orphan_slots lib d) l s = has_slot d l s"
  by (simp add: has_slot_def forget_orphan_slots_def)

lemma slot_occupant_pull_other:
  "slot_row_of (snd p) \<noteq> Some s \<Longrightarrow> slot_occupant (snd (pull_one lib p nd)) lib s = slot_occupant (snd nd) lib s"
  by (auto simp: pull_one_def slot_occupant_set split: option.split MediumLocation.split)

lemma find_update_where_here:
  "\<exists>x \<in> set rs. P x \<Longrightarrow> (\<And>r. P (f r) = P r) \<Longrightarrow>
   List.find P (update_where P f rs) = map_option f (List.find P rs)"
  by (induction rs) auto

lemma slot_occupant_set_here:
  assumes "has_slot d l s"
  shows "slot_occupant (set_slot_tape l s (Some t) d) l s = Some t"
proof -
  let ?P = "\<lambda>r. slot_lib r = l \<and> slot_no r = s"
  have "\<exists>x \<in> set (slots d). ?P x" using assms by (auto simp: has_slot_def)
  moreover from this have "List.find ?P (slots d) \<noteq> None" by (auto simp: find_None_iff)
  ultimately show ?thesis
    by (auto simp: slot_occupant_def find_slot_def set_slot_tape_def find_update_where_here)
qed

lemma slot_occupant_pull_here:
  "slot_row_of (snd p) = Some s \<Longrightarrow> tape_id_of (snd nd) lib (fst p) = Some t \<Longrightarrow> has_slot (snd nd) lib s \<Longrightarrow>
   slot_occupant (snd (pull_one lib p nd)) lib s = Some t"
  by (cases "snd p") (auto simp: pull_one_def tape_id_of_def slot_occupant_set_here)

text \<open>The tapes of the library that a report places in a slot row, in the order of the report.\<close>

definition reported_in :: "db \<Rightarrow> int \<Rightarrow> inventory \<Rightarrow> int \<Rightarrow> int list" where
  "reported_in d lib ks s =
     List.map_filter (\<lambda>p. tape_id_of d lib (fst p)) (filter (\<lambda>p. slot_row_of (snd p) = Some s) ks)"

definition last_of :: "'a list \<Rightarrow> 'a option \<Rightarrow> 'a option" where
  "last_of xs z = (if xs = [] then z else Some (last xs))"

lemma slot_occupant_pull_unknown:
  "tape_id_of (snd nd) lib (fst p) = None \<Longrightarrow> snd (pull_one lib p nd) = snd nd"
  by (simp add: pull_one_def tape_id_of_def)

lemma slot_occupant_fold:
  "has_slot (snd nd) lib s \<Longrightarrow>
   slot_occupant (snd (fold (pull_one lib) ks nd)) lib s = last_of (reported_in (snd nd) lib ks s) (slot_occupant (snd nd) lib s)"
proof (induction ks arbitrary: nd)
  case Nil
  then show ?case by (simp add: reported_in_def List.map_filter_def last_of_def)
next
  case (Cons p ks)
  have "reported_in (snd (pull_one lib p nd)) lib ks s = reported_in (snd nd) lib ks s" by (simp add: reported_in_def)
  with Cons.IH [of "pull_one lib p nd"] Cons.prems have
    "slot_occupant (snd (fold (pull_one lib) (p # ks) nd)) lib s =
       last_of (reported_in (snd nd) lib ks s) (slot_occupant (snd (pull_one lib p nd)) lib s)" by simp
  also have "\<dots> = last_of (reported_in (snd nd) lib (p # ks) s) (slot_occupant (snd nd) lib s)"
  proof (cases "slot_row_of (snd p) = Some s")
    case False
    then show ?thesis by (simp add: slot_occupant_pull_other reported_in_def List.map_filter_def split_beta)
  next
    case True
    then show ?thesis
      using slot_occupant_pull_unknown [of nd lib p] slot_occupant_pull_here [OF True _ Cons.prems]
      by (cases "tape_id_of (snd nd) lib (fst p)")
        (simp_all add: reported_in_def List.map_filter_def split_beta last_of_def)
  qed
  finally show ?case .
qed

lemma forget_orphan_occupant [simp]:
  "slot_occupant (forget_orphan_slots lib d) = slot_occupant d"
  by (simp add: fun_eq_iff slot_occupant_def find_slot_def forget_orphan_slots_def)

lemma slot_occupant_clear: "has_slot d lib s \<Longrightarrow> slot_occupant (clear_changer lib d) lib s = None"
  by (auto elim!: slot_occupant_SomeE dest: clear_changer_row(1) intro: ccontr simp flip: not_Some_eq)

lemma apply_kernel_to_db_exact:
  assumes "has_slot d lib s"
  shows "slot_occupant (snd (apply_kernel_to_db lib ks d)) lib s = last_of (reported_in d lib ks s) None"
  using slot_occupant_fold [of "(0, clear_changer lib d)" lib s ks] assms
  by (simp add: apply_kernel_to_db_def split_beta slot_occupant_clear reported_in_def)

lemma slot_occupant_fold_other_library:
  "l \<noteq> lib \<Longrightarrow> slot_occupant (snd (fold (pull_one lib) ks nd)) l = slot_occupant (snd nd) l"
proof (induction ks arbitrary: nd)
  case (Cons p ks)
  then have "slot_occupant (snd (pull_one lib p nd)) l = slot_occupant (snd nd) l"
    by (auto simp: fun_eq_iff pull_one_def slot_occupant_set split: option.split MediumLocation.split)
  with Cons show ?case by simp
qed simp

lemma apply_kernel_to_db_other:
  assumes "l \<noteq> lib"
  shows "slot_occupant (snd (apply_kernel_to_db lib ks d)) l = slot_occupant d l"
proof -
  have "slot_occupant (clear_changer lib d) l = slot_occupant d l"
    unfolding slot_occupant_def find_slot_def clear_changer_def using assms
    by (intro ext) (simp, subst find_update_where_other, auto)
  with assms show ?thesis by (simp add: apply_kernel_to_db_def split_beta slot_occupant_fold_other_library)
qed

lemma fold_pull_count:
  "fst (fold (pull_one lib) ks nd) = fst nd + length (filter (\<lambda>p. tape_id_of (snd nd) lib (fst p) \<noteq> None) ks)"
proof (induction ks arbitrary: nd)
  case (Cons p ks)
  have "fst (pull_one lib p nd) = fst nd + (if tape_id_of (snd nd) lib (fst p) \<noteq> None then 1 else 0)"
    by (simp add: pull_one_def tape_id_of_def split: option.split)
  with Cons.IH [of "pull_one lib p nd"] show ?case by simp
qed simp

lemma apply_kernel_to_db_count:
  "fst (apply_kernel_to_db lib ks d) = length (filter (\<lambda>p. tape_id_of d lib (fst p) \<noteq> None) ks)"
  using fold_pull_count [of lib ks "(0, clear_changer lib d)"] by (simp add: apply_kernel_to_db_def split_beta)

text \<open>A tape that the kernel does not report in an existing slot of the library is in no slot and drive.\<close>

lemma pull_one_rows:
  assumes "x \<in> set (slots (snd (pull_one lib p nd)))" "slot_tape x = Some t"
  shows "x \<in> set (slots (snd nd)) \<or>
    slot_lib x = lib \<and> slot_row_of (snd p) = Some (slot_no x) \<and> tape_id_of (snd nd) lib (fst p) = Some t"
proof (cases "find_tape (snd nd) lib (fst p)")
  case None
  with assms show ?thesis by (simp add: pull_one_def)
next
  case (Some r)
  with assms show ?thesis
    by (cases "snd p") (auto simp: pull_one_def tape_id_of_def dest: slot_row_set)
qed

lemma pull_one_drive_rows:
  assumes "x \<in> set (drives (snd (pull_one lib p nd)))" "drive_tape x = Some t"
  shows "x \<in> set (drives (snd nd)) \<or> (\<exists>k. snd p = Drive k)"
  using assms by (cases "snd p") (auto simp: pull_one_def split: option.splits)

lemma fold_pull_rows:
  "x \<in> set (slots (snd (fold (pull_one lib) ks nd))) \<Longrightarrow> slot_tape x = Some t \<Longrightarrow>
   x \<in> set (slots (snd nd)) \<or>
   slot_lib x = lib \<and> (\<exists>p \<in> set ks. slot_row_of (snd p) = Some (slot_no x) \<and> tape_id_of (snd nd) lib (fst p) = Some t)"
proof (induction ks arbitrary: nd)
  case (Cons q ks)
  then show ?case using Cons.IH [of "pull_one lib q nd"] pull_one_rows [of x lib q nd t] by auto
qed simp

lemma fold_pull_drive_rows:
  "x \<in> set (drives (snd (fold (pull_one lib) ks nd))) \<Longrightarrow> drive_tape x = Some t \<Longrightarrow>
   x \<in> set (drives (snd nd)) \<or> (\<exists>p \<in> set ks. \<exists>k. snd p = Drive k)"
proof (induction ks arbitrary: nd)
  case (Cons q ks)
  then have "x \<in> set (drives (snd (pull_one lib q nd))) \<or> (\<exists>p \<in> set ks. \<exists>k. snd p = Drive k)"
    by (metis fold_simps(2))
  then show ?case using pull_one_drive_rows [OF _ Cons.prems(2), of lib q nd] by auto
qed simp

lemma apply_kernel_to_db_rows:
  assumes "x \<in> set (slots (snd (apply_kernel_to_db lib ks d)))" "slot_tape x = Some t" "slot_lib x = lib"
  shows "\<exists>p \<in> set ks. slot_row_of (snd p) = Some (slot_no x) \<and> tape_id_of d lib (fst p) = Some t"
proof -
  have "x \<in> set (slots (snd (fold (pull_one lib) ks (0, clear_changer lib d))))"
    using assms(1) by (simp add: apply_kernel_to_db_def split_beta forget_orphan_slots_def)
  from fold_pull_rows [OF this assms(2)] clear_changer_row(1) [of x lib d t] assms show ?thesis by auto
qed

lemma apply_kernel_to_db_no_drive:
  assumes "x \<in> set (drives (snd (apply_kernel_to_db lib ks d)))" "drive_lib x = lib"
    and "\<forall>p \<in> set ks. \<forall>k. snd p \<noteq> Drive k"
  shows "drive_tape x = None"
proof (rule ccontr)
  assume "drive_tape x \<noteq> None"
  then obtain t where t: "drive_tape x = Some t" by auto
  have "x \<in> set (drives (snd (fold (pull_one lib) ks (0, clear_changer lib d))))"
    using assms(1) by (simp add: apply_kernel_to_db_def split_beta forget_orphan_slots_def)
  from fold_pull_drive_rows [OF this t] clear_changer_row(2) [of x lib d t] assms t show False by auto
qed

text \<open>No inventory read from the kernel has a drive in it.\<close>

lemma from_element_not_drive: "from_element e \<noteq> Some (Drive k)"
  by (simp add: from_element_cases)

section \<open>Tapes in drives\<close>

lemma clear_changer_shelf: "shelf_of (clear_changer lib d) t = shelf_of d t"
  by (simp add: shelf_of_def tape_by_id_def clear_changer_def)

lemma forget_orphan_shelf:
  "keys_ok d \<Longrightarrow> on_shelf (forget_orphan_slots lib d) t \<Longrightarrow> on_shelf d t"
  by (auto simp: on_shelf_def forget_orphan_slots_def set_update_where split: if_splits)

text \<open>
  A tape that is in a drive, in the catalogue and in the kernel alike: the pull leaves it nowhere.
\<close>

lemma pull_loses_loaded_tape:
  assumes ok: "catalog_ok d" and dr: "drive_occupant d lib k = Some t" and r: "tape_by_id d t = Some r"
    and loc: "from_element (to_element (Drive k)) = Some loc" and k: "0 \<le> k" "k < 1000"
    and no_slot: "\<not> has_slot d lib (1000 + k)"
  shows "\<not> located (snd (apply_kernel_to_db lib [(tape_name r, loc)] d)) t"
proof -
  have keys: "keys_ok d" using ok by (simp add: catalog_ok_def)
  let ?d' = "snd (apply_kernel_to_db lib [(tape_name r, loc)] d)"
  have loc': "loc = DataSlot (1000 + k)" using from_element_drive [OF k] loc by simp
  have ok': "catalog_ok ?d'" by (rule apply_kernel_to_db_ok [OF ok]) simp
  obtain kr where kr: "kr \<in> set (drives d)" "drive_lib kr = lib" "drive_no kr = k" "drive_tape kr = Some t"
    using dr by (rule drive_occupant_SomeE)
  from tape_by_id_Some [OF r] have r1: "r \<in> set (tapes d)" "tape_id r = t" by auto
  from catalog_drive_row [OF ok kr(1,4)] obtain r' where r': "r' \<in> set (tapes d)" "tape_id r' = t" "tape_lib r' = lib"
    "tape_shelf r' = None" using kr by auto
  with tape_unique [OF keys r1(1) r'(1)] r1 have lib: "tape_lib r = lib" "tape_shelf r = None" by auto
  have no_has: "\<not> has_slot ?d' lib (1000 + k)"
    using no_slot by (simp add: apply_kernel_to_db_def split_beta)
  have "\<not> in_slot ?d' t"
  proof
    assume "in_slot ?d' t"
    then obtain x where x: "x \<in> set (slots ?d')" "slot_tape x = Some t" by (auto simp: in_slot_def)
    from catalog_slot_row [OF ok' x] obtain q where q: "q \<in> set (tapes ?d')" "tape_id q = t" "tape_lib q = slot_lib x"
      by blast
    have "\<exists>q0 \<in> set (tapes d). tape_id q0 = t \<and> tape_lib q0 = slot_lib x"
      using q by (auto simp: apply_kernel_to_db_def split_beta forget_orphan_slots_def set_update_where
          pull_one_def loc' clear_changer_def update_tape_def set_slot_tape_def split: option.splits if_splits)
    with tape_unique [OF keys r1(1)] r1 lib have "slot_lib x = lib" by metis
    with apply_kernel_to_db_rows [OF x(1,2)] x no_has show False by (auto simp: loc' has_slot_def)
  qed
  moreover have "\<not> in_drive ?d' t"
  proof
    assume "in_drive ?d' t"
    then obtain x where x: "x \<in> set (drives ?d')" "drive_tape x = Some t" by (auto simp: in_drive_def)
    then have x': "x \<in> set (drives d)" "drive_lib x \<noteq> lib"
      using clear_changer_row(2) [of x lib d t]
      by (auto simp: apply_kernel_to_db_def split_beta forget_orphan_slots_def pull_one_def loc' split: option.splits)
    from catalog_drive_row [OF ok x'(1) x(2)] tape_unique [OF keys r1(1)] r1 lib x'(2) show False by metis
  qed
  moreover have "\<not> on_shelf ?d' t"
  proof
    assume "on_shelf ?d' t"
    then obtain q where "q \<in> set (tapes d)" "tape_id q = t" "tape_shelf q \<noteq> None"
      by (auto simp: on_shelf_def apply_kernel_to_db_def split_beta forget_orphan_slots_def set_update_where
          pull_one_def loc' clear_changer_def update_tape_def set_slot_tape_def in_slot_row_def
          split: option.splits if_splits)
    with tape_unique [OF keys r1(1), of q] r1 lib show False by auto
  qed
  ultimately show ?thesis by (simp add: located_def)
qed

end
