(* ===== verification/Shelves.thy ===== *)
theory Shelves
  imports TapeFacts
begin

text \<open>
  Shelves and the offline storage (\<^verbatim>\<open>main.rs\<close>): creating and deleting shelves, moving tapes between
  the shelves of a library, out of it into the offline library and back into a slot, and the
  batch assignment. Moves to and from the offline storage rename the image first and then change
  the row, and try to rename back when the row cannot be changed.
\<close>

section \<open>Shelves\<close>

definition check_shelf_name :: "string \<Rightarrow> VtlError + unit" where
  "check_shelf_name name =
     (if name = [] then Inl (InvalidParameter ''Shelf name cannot be empty'')
      else if name = DEFAULT_UNUSED_SHELF_NAME
        then Inl (InvalidParameter ''Shelf name is reserved for the default unused shelf'')
      else Inr ())"

definition insert_user_shelf :: "int \<Rightarrow> string \<Rightarrow> unit cmd" where
  "insert_user_shelf lib name =
     map_err (\<lambda>_. InvalidParameter ''Shelf may already exist'')
       (db_write (\<lambda>d. andThen (insert_shelf lib name 0 d) (\<lambda>d'. Inr ((), d'))))"

definition create_shelf :: "string \<Rightarrow> unit cmd" where
  "create_shelf name =
     thenp (from_result (\<lambda>_. check_shelf_name name))
     (thenp init_db (bindp current_library_id (\<lambda>lib. insert_user_shelf lib name)))"

definition create_offline_shelf :: "string \<Rightarrow> unit cmd" where
  "create_offline_shelf name =
     thenp (from_result (\<lambda>_. check_shelf_name name))
     (thenp init_db (bindp ensure_offline_library (\<lambda>lib. insert_user_shelf lib name)))"

text \<open>The default shelf stays, and a shelf with tapes stays.\<close>

definition delete_shelf_db :: "int \<Rightarrow> string \<Rightarrow> db \<Rightarrow> VtlError + (unit \<times> db)" where
  "delete_shelf_db lib name d =
     (case List.find (\<lambda>r. shelf_lib r = lib \<and> shelf_name r = name) (shelves d) of
        None \<Rightarrow> Inl (ShelfNotFound name)
      | Some r \<Rightarrow>
          if shelf_default r \<noteq> 0 then Inl (InvalidParameter ''default shelf cannot be deleted'')
          else if 0 < count_where (\<lambda>t. tape_shelf t = Some (shelf_id r)) (tapes d)
            then Inl (InvalidParameter ''shelf still holds tapes'')
          else Inr ((), d\<lparr>shelves := delete_where (\<lambda>q. shelf_id q = shelf_id r \<and> shelf_lib q = lib)
                                      (shelves d)\<rparr>))"

definition delete_shelf_in_library :: "string \<Rightarrow> string \<Rightarrow> unit cmd" where
  "delete_shelf_in_library lname name =
     thenp init_db
     (bindp (db_read (\<lambda>d. resolve_library_id d lname)) (\<lambda>lib. db_write (delete_shelf_db lib name)))"

definition migrate_one :: "int \<Rightarrow> int \<Rightarrow> int \<Rightarrow> string \<Rightarrow> db \<Rightarrow> VtlError + db" where
  "migrate_one lib from_id to_id name d =
     andThen (tape_by_name d lib name) (\<lambda>r.
     andThen (require (tape_shelf r = Some from_id)
                (InvalidParameter ''tape is not on source shelf'')) (\<lambda>_.
     andThen (require (tape_slot r = None)
                (InvalidParameter ''tape is in a robot slot; move to shelf first'')) (\<lambda>_.
     andThen (require (\<not> tape_in_drive d lib (tape_id r)) TapeInDrive) (\<lambda>_.
       Inr (update_tape (tape_id r) (\<lambda>q. q\<lparr>tape_shelf := Some to_id\<rparr>) d)))))"

definition migrate_tapes_between_shelves :: "string \<Rightarrow> string \<Rightarrow> string \<Rightarrow> string list \<Rightarrow> unit cmd" where
  "migrate_tapes_between_shelves lname from_shelf to_shelf names =
     thenp (checkp (names \<noteq> []) (InvalidParameter ''tape list cannot be empty''))
     (thenp (checkp (from_shelf \<noteq> to_shelf) (InvalidParameter ''source and target shelf must differ''))
     (thenp (checkp (distinct names) (InvalidParameter ''duplicate tape name in batch''))
     (thenp init_db
     (bindp (db_read (\<lambda>d. resolve_library_id d lname)) (\<lambda>lib.
      bindp (db_read (\<lambda>d. resolve_shelf_id d lib from_shelf)) (\<lambda>f.
      bindp (db_read (\<lambda>d. resolve_shelf_id d lib to_shelf)) (\<lambda>t.
        unit_tx (fold_ok (migrate_one lib f t) names))))))))"

section \<open>To the offline storage\<close>

text \<open>An update that changes the library of a tape must respect the keys of the table.\<close>

definition rehome_tape :: "int \<Rightarrow> int \<Rightarrow> int option \<Rightarrow> int option \<Rightarrow> path \<Rightarrow> db \<Rightarrow> VtlError + db" where
  "rehome_tape t lib sh s img d =
     (if (\<exists>r \<in> set (tapes d). \<exists>q \<in> set (tapes d). tape_id r = t \<and> tape_id q \<noteq> t \<and> tape_lib q = lib \<and>
            (tape_name q = tape_name r \<or> tape_barcode q = tape_barcode r))
        \<or> \<not> (\<exists>l \<in> set (libs d). lib_id l = lib)
      then Inl (constraint_failed t)
      else Inr (update_tape t (\<lambda>r. r\<lparr>tape_lib := lib, tape_shelf := sh, tape_slot := s,
                                      tape_image := img\<rparr>) d))"

definition offline_tx :: "int \<Rightarrow> int \<Rightarrow> int \<Rightarrow> tape_row \<Rightarrow> path \<Rightarrow> db \<Rightarrow> VtlError + db" where
  "offline_tx from_lib offline sh r img d =
     rehome_tape (tape_id r) offline (Some sh) None img
       (case tape_slot r of None \<Rightarrow> d | Some s \<Rightarrow> set_slot_tape from_lib s None d)"

definition checked_rename :: "path \<Rightarrow> path \<Rightarrow> unit cmd" where
  "checked_rename old new =
     bindp (gets (\<lambda>w. path_exists (w_fs w) new)) (\<lambda>ex.
     thenp (checkp (\<not> ex) (InvalidParameter ''target path already exists''))
     (thenp (fs_try (create_dir_all (butlast new)))
        (fs_try (rename old new))))"

text \<open>
  A failing update renames back and reports the error; the failing commit, which drops the
  transaction, is reported without renaming back.
\<close>

definition offline_ready :: "int \<Rightarrow> int \<Rightarrow> string \<Rightarrow> db \<Rightarrow> VtlError + tape_row" where
  "offline_ready from_lib offline name d =
     andThen (tape_by_name d from_lib name) (\<lambda>r.
     andThen (require (\<not> tape_in_drive d from_lib (tape_id r)) TapeInDrive) (\<lambda>_.
     andThen (require (find_tape d offline name = None)
                (InvalidParameter ''offline storage already has this tape'')) (\<lambda>_. Inr r)))"

definition move_one_offline :: "int \<Rightarrow> int \<Rightarrow> int \<Rightarrow> string \<Rightarrow> unit cmd" where
  "move_one_offline from_lib offline sh name =
     bindp (db_read (offline_ready from_lib offline name)) (\<lambda>r.
     bindp (gets (\<lambda>w. tape_image_path w OFFLINE_LIBRARY_NAME name)) (\<lambda>new.
     thenp (checked_rename (tape_image r) new)
     (bindp (gets (\<lambda>w. offline_tx from_lib offline sh r new (w_db w))) (\<lambda>u.
        case u of
          Inl e \<Rightarrow> bindp (attempt (fs_try (rename new (tape_image r)))) (\<lambda>_. fail e)
        | Inr d' \<Rightarrow> unit_tx (\<lambda>_. Inr d')))))"

definition move_tapes_to_offline_shelf :: "string \<Rightarrow> string list \<Rightarrow> string \<Rightarrow> unit cmd" where
  "move_tapes_to_offline_shelf lname names shelf =
     thenp (checkp (names \<noteq> []) (InvalidParameter ''tape list cannot be empty''))
     (thenp (checkp (distinct names) (InvalidParameter ''duplicate tape name in batch''))
     (thenp init_db
     (bindp (db_read (\<lambda>d. resolve_library_id d lname)) (\<lambda>from_lib.
      bindp ensure_offline_library (\<lambda>offline.
      bindp (db_read (\<lambda>d. resolve_shelf_id d offline shelf)) (\<lambda>sh.
        forp (move_one_offline from_lib offline sh) names))))))"

section \<open>From the offline storage into a slot\<close>

definition online_tx :: "int \<Rightarrow> tape_row \<Rightarrow> int \<Rightarrow> path \<Rightarrow> db \<Rightarrow> VtlError + db" where
  "online_tx lib r s img d =
     andThen (rehome_tape (tape_id r) lib None (Some s) img d) (\<lambda>d1.
       Inr (set_slot_tape lib s (Some (tape_id r)) d1))"

definition online_ready :: "int \<Rightarrow> int \<Rightarrow> string \<Rightarrow> int \<Rightarrow> db \<Rightarrow> VtlError + tape_row" where
  "online_ready lib offline name s d =
     andThen (tape_by_name d offline name) (\<lambda>r.
     andThen (require (\<not> tape_in_drive d offline (tape_id r)) TapeInDrive) (\<lambda>_.
     andThen (require (tape_slot r = None)
                (InvalidParameter ''offline tape is already in a slot'')) (\<lambda>_.
     andThen (require (tape_shelf r \<noteq> None) TapeNotOnShelf) (\<lambda>_.
     andThen (require (find_tape d lib name = None)
                (InvalidParameter ''target library already has a tape of this name'')) (\<lambda>_.
     andThen (assert_data_slot_empty d lib s) (\<lambda>_. Inr r))))))"

definition import_offline_tape_to_online_slot :: "string \<Rightarrow> int \<Rightarrow> int \<Rightarrow> string \<Rightarrow> int \<Rightarrow> unit cmd" where
  "import_offline_tape_to_online_slot lname lib offline name s =
     bindp (db_read (online_ready lib offline name s)) (\<lambda>r.
     bindp (gets (\<lambda>w. tape_image_path w lname name)) (\<lambda>new.
     thenp (checked_rename (tape_image r) new)
     (bindp (attempt (unit_tx (online_tx lib r s new))) (\<lambda>u.
        case u of
          Inl e \<Rightarrow> bindp (attempt (fs_try (rename new (tape_image r)))) (\<lambda>_. fail e)
        | Inr _ \<Rightarrow> ret ()))))"

text \<open>One round of the batch, after the checks.\<close>

definition assign_pair :: "string \<Rightarrow> int \<Rightarrow> int \<Rightarrow> string \<times> int \<times> bool \<Rightarrow> unit cmd" where
  "assign_pair lname lib offline p =
     (case p of (name, s, from_offline) \<Rightarrow>
        if from_offline then import_offline_tape_to_online_slot lname lib offline name s
        else thenp (unit_tx (assign_one_tape_to_slot lib name s))
               (bindp (gets (\<lambda>w. tape_barcode_for_name (w_db w) lib name)) (\<lambda>bc.
                  robot_ioctl (kernel_slot_place lib s name bc))))"

definition empty_data_slots :: "db \<Rightarrow> int \<Rightarrow> nat" where
  "empty_data_slots d lib =
     count_where (\<lambda>r. slot_lib r = lib \<and> slot_tape r = None \<and> slot_ie r = 0) (slots d)"

definition assign_tapes_to_slots_batch :: "string \<Rightarrow> (string \<times> int \<times> bool) list \<Rightarrow> unit cmd" where
  "assign_tapes_to_slots_batch lname pairs =
     thenp (checkp (pairs \<noteq> []) (InvalidParameter ''batch pairs cannot be empty''))
     (thenp (checkp (lname \<noteq> OFFLINE_LIBRARY_NAME)
               (InvalidParameter ''cannot assign robot slots in offline storage library''))
     (thenp init_db
     (bindp (db_read (\<lambda>d. resolve_library_id d lname)) (\<lambda>lib.
      bindp ensure_offline_library (\<lambda>offline.
      thenp (db_read (\<lambda>d. require (length pairs \<le> empty_data_slots d lib)
               (InvalidParameter ''batch size exceeds available empty data slots'')))
     (thenp (checkp (distinct (map (\<lambda>(_, s, _). s) pairs)) (InvalidParameter ''duplicate slot in batch''))
     (thenp (checkp (distinct (map fst pairs)) (InvalidParameter ''duplicate tape in batch''))
     (thenp (db_read (\<lambda>d. all_ok (\<lambda>(name, s, off).
               validate_tape_ready_for_online_slot d lib offline name s off) pairs))
     (thenp (forp (assign_pair lname lib offline) pairs)
        (try_post_op_auto_align lib))))))))))"

section \<open>The moves keep the catalogue consistent\<close>

lemma distinct_map_update_one:
  assumes "distinct (map k rs)" and "distinct (map i rs)" and "\<And>r. i (f r) = i r"
    and "\<And>r q. r \<in> set rs \<Longrightarrow> q \<in> set rs \<Longrightarrow> i r = t \<Longrightarrow> i q \<noteq> t \<Longrightarrow> k q \<noteq> k (f r)"
  shows "distinct (map k (update_where (\<lambda>r. i r = t) f rs))"
  using assms
proof (induction rs)
  case (Cons r rs)
  have IH: "distinct (map k (update_where (\<lambda>r. i r = t) f rs))"
    using Cons.prems by (intro Cons.IH) auto
  have "(if i r = t then k (f r) else k r) \<notin> k ` set (update_where (\<lambda>r. i r = t) f rs)"
  proof
    assume "(if i r = t then k (f r) else k r) \<in> k ` set (update_where (\<lambda>r. i r = t) f rs)"
    then obtain q where q: "q \<in> set rs"
      "(if i r = t then k (f r) else k r) = (if i q = t then k (f q) else k q)"
      by (auto simp: set_update_where split: if_splits)
    have "i r \<noteq> i q" and "k r \<noteq> k q" using Cons.prems(1,2) q(1) by auto
    with q Cons.prems(4) [of r q] Cons.prems(4) [of q r] show False by (auto split: if_splits)
  qed
  with IH show ?case by (simp split: if_splits)
qed simp

lemma rehome_tape_Inr:
  "rehome_tape t lib sh s img d = Inr d' \<longleftrightarrow>
     (\<forall>r \<in> set (tapes d). \<forall>q \<in> set (tapes d). tape_id r = t \<longrightarrow> tape_id q \<noteq> t \<longrightarrow> tape_lib q = lib \<longrightarrow>
        tape_name q \<noteq> tape_name r \<and> tape_barcode q \<noteq> tape_barcode r) \<and>
     (\<exists>l \<in> set (libs d). lib_id l = lib) \<and>
     d' = update_tape t (\<lambda>r. r\<lparr>tape_lib := lib, tape_shelf := sh, tape_slot := s, tape_image := img\<rparr>) d"
  unfolding rehome_tape_def by auto

lemma rehome_tape_keys:
  assumes keys: "keys_ok d" and run: "rehome_tape t lib sh s img d = Inr d'"
  shows "keys_ok d'"
proof -
  let ?f = "\<lambda>r. r\<lparr>tape_lib := lib, tape_shelf := sh, tape_slot := s, tape_image := img\<rparr>"
  have d': "d' = update_tape t ?f d"
    and free: "\<And>r q. r \<in> set (tapes d) \<Longrightarrow> q \<in> set (tapes d) \<Longrightarrow> tape_id r = t \<Longrightarrow> tape_id q \<noteq> t \<Longrightarrow>
      tape_lib q = lib \<Longrightarrow> tape_name q \<noteq> tape_name r \<and> tape_barcode q \<noteq> tape_barcode r"
    using run by (auto simp: rehome_tape_Inr)
  have "distinct (map (\<lambda>r. (tape_lib r, tape_name r)) (update_where (\<lambda>r. tape_id r = t) ?f (tapes d)))"
    "distinct (map (\<lambda>r. (tape_lib r, tape_barcode r)) (update_where (\<lambda>r. tape_id r = t) ?f (tapes d)))"
    using keys free by (auto simp: keys_ok_def intro!: distinct_map_update_one)
  with keys show ?thesis
    unfolding d' keys_ok_def statement_frames
    by (simp add: update_tape_def map_update_where ball_update_where) auto
qed

lemma set_slot_none_ok: "catalog_ok d \<Longrightarrow> catalog_ok (set_slot_tape l s None d)"
  by (rule clear_rows_ok [of d]) (auto simp: catalog_ok_def dest!: rows_written)

lemma offline_tx_ok:
  assumes ok: "catalog_ok d" and f: "find_tape d from_lib name = Some r"
    and nd: "\<not> tape_in_drive d from_lib (tape_id r)"
    and run: "offline_tx from_lib offline sh r img d = Inr d'"
  shows "catalog_ok d'"
proof -
  let ?f = "\<lambda>r. r\<lparr>tape_lib := offline, tape_shelf := Some sh, tape_slot := None, tape_image := img\<rparr>"
  define d1 where "d1 = (case tape_slot r of None \<Rightarrow> d | Some s \<Rightarrow> set_slot_tape from_lib s None d)"
  have ok1: "catalog_ok d1" using ok by (simp add: d1_def set_slot_none_ok split: option.split)
  have t1: "tapes d1 = tapes d" "drives d1 = drives d" by (simp_all add: d1_def split: option.split)
  have r: "r \<in> set (tapes d1)" "tape_lib r = from_lib" using find_tape_Some [OF f] t1 by simp_all
  from run have run1: "rehome_tape (tape_id r) offline (Some sh) None img d1 = Inr d'"
    by (simp add: offline_tx_def d1_def)
  then have d': "d' = update_tape (tape_id r) ?f d1" by (simp add: rehome_tape_Inr)
  have mine: "q = r" if "q \<in> set (tapes d1)" "tape_id q = tape_id r" for q
    using tape_unique [OF _ that(1) r(1) that(2)] ok1 by (simp add: catalog_ok_def)
  have noslot: "slot_tape x \<noteq> Some (tape_id r)" if x: "x \<in> set (slots d1)" for x
  proof
    assume xt: "slot_tape x = Some (tape_id r)"
    obtain q where "q \<in> set (tapes d1)" "tape_id q = tape_id r" "tape_lib q = slot_lib x"
      "tape_slot q = Some (slot_no x)" using catalog_slot_row [OF ok1 x xt] by blast
    with mine [of q] r have "slot_lib x = from_lib" "tape_slot r = Some (slot_no x)" by simp_all
    with x xt show False by (auto simp: d1_def dest: slot_row_set)
  qed
  have nodrive: "drive_tape k \<noteq> Some (tape_id r)" if k: "k \<in> set (drives d1)" for k
  proof
    assume kt: "drive_tape k = Some (tape_id r)"
    obtain q where "q \<in> set (tapes d1)" "tape_id q = tape_id r" "tape_lib q = drive_lib k"
      using catalog_drive_row [OF ok1 k kt] by blast
    with mine [of q] r nd k kt t1 show False by (auto simp: tape_in_drive_iff)
  qed
  show ?thesis
  proof (rule relocate [OF ok1, where t = "tape_id r" and f = ?f])
    show "keys_ok d'" using rehome_tape_keys [OF _ run1] ok1 by (simp add: catalog_ok_def)
    show "tapes d' = update_where (\<lambda>q. tape_id q = tape_id r) ?f (tapes d1)"
      by (simp add: d' update_tape_def)
    show "others_kept (tape_id r) d1 d'" by (simp add: d' others_kept_def)
  qed (use noslot nodrive in \<open>auto simp: d'\<close>)
qed

lemma online_tx_ok:
  assumes ok: "catalog_ok d" and r: "r \<in> set (tapes d)" "tape_shelf r \<noteq> None"
    and run: "online_tx lib r s img d = Inr d'"
  shows "catalog_ok d'"
proof -
  let ?f = "\<lambda>r. r\<lparr>tape_lib := lib, tape_shelf := None, tape_slot := Some s, tape_image := img\<rparr>"
  from run obtain d1 where run1: "rehome_tape (tape_id r) lib None (Some s) img d = Inr d1"
    and d': "d' = set_slot_tape lib s (Some (tape_id r)) d1" by (auto simp: online_tx_def)
  from run1 have d1: "d1 = update_tape (tape_id r) ?f d" by (simp add: rehome_tape_Inr)
  note nowhere = shelved_nowhere_else [OF ok r]
  show ?thesis
  proof (rule relocate [OF ok, where t = "tape_id r" and f = ?f])
    show "keys_ok d'" using rehome_tape_keys [OF _ run1] ok by (simp add: catalog_ok_def d')
    show "tapes d' = update_where (\<lambda>q. tape_id q = tape_id r) ?f (tapes d)"
      by (simp add: d' d1 update_tape_def)
    show "others_kept (tape_id r) d d'"
      by (auto simp: d' d1 others_kept_def dest!: rows_written)
    show "\<exists>q \<in> set (tapes d). tape_id q = tape_id r \<and> tape_lib (?f q) = slot_lib x \<and>
        tape_slot (?f q) = Some (slot_no x) \<and> tape_shelf (?f q) = None"
      if "x \<in> set (slots d')" "slot_tape x = Some (tape_id r)" for x
      using that nowhere(1) [of x] r by (auto simp: d' d1 dest!: rows_written)
  qed (use nowhere(2) in \<open>auto simp: d' d1\<close>)
qed

section \<open>The commands keep the catalogue consistent\<close>

text \<open>Reading the catalogue, and steps that do not touch it.\<close>

abbreviation db_is :: "db \<Rightarrow> world \<Rightarrow> bool" where
  "db_is d w \<equiv> w_db w = d"

abbreviation consistent :: "world \<Rightarrow> bool" where
  "consistent w \<equiv> catalog_ok (w_db w)"

lemma keeps_db_is_fs_run: "keeps (db_is d) (fs_run m)"
  unfolding fs_run_def by (rule keeps_on_part) simp

lemma keeps_db_is_checked_rename: "keeps (db_is d) (checked_rename a b)"
  unfolding checked_rename_def fs_try_def by (intro keeps_intros keeps_db_is_fs_run)

text \<open>A command that reads the catalogue and then goes on from what it read.\<close>

lemma keeps_read_then:
  assumes "\<And>d r. catalog_ok d \<Longrightarrow> f d = Inr r \<Longrightarrow> ensures (db_is d) (k r) (\<lambda>_. consistent) consistent"
  shows "keeps consistent (bindp (db_read f) k)"
  unfolding keeps_def
proof (intro allI impI)
  fix w assume ok: "consistent w"
  show "consistent (snd (bindp (db_read f) k w))"
  proof (cases "f (w_db w)")
    case (Inl e)
    with ok show ?thesis by (simp add: bindp_def db_read_def)
  next
    case (Inr r)
    have "consistent (snd (k r w))"
      using ensures_keeps_from [OF assms [OF ok Inr], of w] by simp
    with Inr show ?thesis by (simp add: bindp_def db_read_def)
  qed
qed

lemma ensures_unit_tx:
  assumes "catalog_ok d" and "\<And>d'. f d = Inr d' \<Longrightarrow> catalog_ok d'"
  shows "ensures (db_is d) (unit_tx f) (\<lambda>_. consistent) consistent"
  using assms by (auto simp: ensures_def unit_tx_def db_tx_def split: sum.splits prod.splits)

lemma ensures_db_is_keeps:
  "catalog_ok d \<Longrightarrow> keeps (db_is d) m \<Longrightarrow> ensures (db_is d) m (\<lambda>_. db_is d) consistent"
  by (rule ensures_keeps) auto

lemma keeps_move_one_offline: "keeps consistent (move_one_offline l off sh name)"
  unfolding move_one_offline_def
proof (rule keeps_read_then)
  fix d r
  assume ok: "catalog_ok d" and ready: "offline_ready l off name d = Inr r"
  then have f: "find_tape d l name = Some r" and nd: "\<not> tape_in_drive d l (tape_id r)"
    by (auto simp: offline_ready_def tape_by_name_Inr)
  show "ensures (db_is d) (bindp (gets (\<lambda>w. tape_image_path w OFFLINE_LIBRARY_NAME name)) (\<lambda>new.
      thenp (checked_rename (tape_image r) new)
      (bindp (gets (\<lambda>w. offline_tx l off sh r new (w_db w))) (\<lambda>u.
        case u of
          Inl e \<Rightarrow> bindp (attempt (fs_try (rename new (tape_image r)))) (\<lambda>_. fail e)
        | Inr d' \<Rightarrow> unit_tx (\<lambda>_. Inr d'))))) (\<lambda>_. consistent) consistent"
  proof (intro ensures_bindp ensures_thenp)
    fix new u
    show "ensures (db_is d) (gets (\<lambda>w. tape_image_path w OFFLINE_LIBRARY_NAME name)) (\<lambda>_. db_is d) consistent"
      by (rule ensures_gets)
    show "ensures (db_is d) (checked_rename (tape_image r) new) (\<lambda>_. db_is d) consistent"
      by (rule ensures_db_is_keeps [OF ok keeps_db_is_checked_rename])
    show "ensures (db_is d) (gets (\<lambda>w. offline_tx l off sh r new (w_db w)))
        (\<lambda>u w. db_is d w \<and> u = offline_tx l off sh r new d) consistent"
      by (rule ensures_gets) simp
    show "ensures (\<lambda>w. db_is d w \<and> u = offline_tx l off sh r new d)
        (case u of Inl e \<Rightarrow> bindp (attempt (fs_try (rename new (tape_image r)))) (\<lambda>_. fail e)
         | Inr d' \<Rightarrow> unit_tx (\<lambda>_. Inr d')) (\<lambda>_. consistent) consistent"
    proof (cases u)
      case (Inl e)
      have k: "keeps consistent (bindp (attempt (fs_try (rename new (tape_image r)))) (\<lambda>_. fail e))"
        unfolding fs_try_def by (intro keeps_intros catalog.keeps_fs_run)
      have "ensures consistent (bindp (attempt (fs_try (rename new (tape_image r)))) (\<lambda>_. fail e))
          (\<lambda>_. consistent) consistent"
        by (rule ensures_keeps [OF k])
      with ok Inl show ?thesis by (auto intro: ensures_weaken)
    next
      case (Inr d')
      show ?thesis
      proof (cases "offline_tx l off sh r new d = Inr d'")
        case True
        have "ensures (db_is d) (unit_tx (\<lambda>_. Inr d')) (\<lambda>_. consistent) consistent"
          by (rule ensures_unit_tx [OF ok]) (use offline_tx_ok [OF ok f nd True] in simp)
        with Inr show ?thesis by (auto intro: ensures_weaken)
      next
        case False
        with Inr show ?thesis by (auto simp: ensures_def)
      qed
    qed
  qed
qed

lemma keeps_move_tapes_to_offline_shelf: "keeps consistent (move_tapes_to_offline_shelf n ts sh)"
  unfolding move_tapes_to_offline_shelf_def
  by (intro keeps_intros catalog.robot_machinery catalog.keeps_ensure_offline_library
      keeps_move_one_offline)

lemma keeps_import_offline: "keeps consistent (import_offline_tape_to_online_slot n l off name s)"
  unfolding import_offline_tape_to_online_slot_def
proof (rule keeps_read_then)
  fix d r
  assume ok: "catalog_ok d" and ready: "online_ready l off name s d = Inr r"
  then have r: "r \<in> set (tapes d)" "tape_shelf r \<noteq> None"
    by (auto simp: online_ready_def tape_by_name_Inr dest: find_tape_Some)
  show "ensures (db_is d) (bindp (gets (\<lambda>w. tape_image_path w n name)) (\<lambda>new.
      thenp (checked_rename (tape_image r) new)
      (bindp (attempt (unit_tx (online_tx l r s new))) (\<lambda>u.
        case u of
          Inl e \<Rightarrow> bindp (attempt (fs_try (rename new (tape_image r)))) (\<lambda>_. fail e)
        | Inr _ \<Rightarrow> ret ())))) (\<lambda>_. consistent) consistent"
  proof (intro ensures_bindp ensures_thenp)
    fix new u
    show "ensures (db_is d) (gets (\<lambda>w. tape_image_path w n name)) (\<lambda>_. db_is d) consistent"
      by (rule ensures_gets)
    show "ensures (db_is d) (checked_rename (tape_image r) new) (\<lambda>_. db_is d) consistent"
      by (rule ensures_db_is_keeps [OF ok keeps_db_is_checked_rename])
    have "ensures (db_is d) (unit_tx (online_tx l r s new)) (\<lambda>_. consistent) consistent"
      by (rule ensures_unit_tx [OF ok online_tx_ok [OF ok r]])
    from ensures_keeps_from [OF this]
    show "ensures (db_is d) (attempt (unit_tx (online_tx l r s new))) (\<lambda>_. consistent) consistent"
      by (simp add: ensures_def attempt_run)
    have "keeps consistent (case u of
        Inl e \<Rightarrow> bindp (attempt (fs_try (rename new (tape_image r)))) (\<lambda>_. fail e) | Inr _ \<Rightarrow> ret ())"
      unfolding fs_try_def by (intro keeps_intros catalog.keeps_fs_run)
    then show "ensures consistent (case u of
        Inl e \<Rightarrow> bindp (attempt (fs_try (rename new (tape_image r)))) (\<lambda>_. fail e) | Inr _ \<Rightarrow> ret ())
        (\<lambda>_. consistent) consistent"
      by (rule ensures_keeps)
  qed
qed

lemma keeps_assign_tapes_to_slots_batch: "keeps consistent (assign_tapes_to_slots_batch n ps)"
  unfolding assign_tapes_to_slots_batch_def assign_pair_def
  by (intro keeps_intros catalog.robot_machinery catalog.keeps_ensure_offline_library
      keeps_import_offline catalog.keeps_unit_tx) (rule assign_one_tape_to_slot_ok)

lemma migrate_one_ok:
  assumes ok: "catalog_ok d" and run: "migrate_one l a b name d = Inr d'"
  shows "catalog_ok d'"
proof -
  let ?f = "\<lambda>q. q\<lparr>tape_shelf := Some b\<rparr>"
  from run obtain r where r: "find_tape d l name = Some r" "tape_shelf r = Some a" "tape_slot r = None"
    and d': "d' = update_tape (tape_id r) ?f d"
    by (auto simp: migrate_one_def tape_by_name_Inr)
  have mem: "r \<in> set (tapes d)" using find_tape_Some [OF r(1)] by simp
  have mine: "q = r" if "q \<in> set (tapes d)" "tape_id q = tape_id r" for q
    using tape_unique [OF _ that(1) mem that(2)] ok by (simp add: catalog_ok_def)
  note nowhere = shelved_nowhere_else [OF ok mem]
  show ?thesis
  proof (rule relocate [OF ok, where t = "tape_id r" and f = ?f])
    show "keys_ok d'" unfolding d' using ok by (subst keys_ok_update_tape) (simp_all add: catalog_ok_def)
    show "others_kept (tape_id r) d d'" by (simp add: d' others_kept_def)
  qed (use nowhere r mine in \<open>auto simp: d' update_tape_def\<close>)
qed

lemma keeps_migrate: "keeps consistent (migrate_tapes_between_shelves n a b ts)"
  unfolding migrate_tapes_between_shelves_def
proof (intro keeps_intros catalog.robot_machinery catalog.keeps_unit_tx)
  fix lib f t d d'
  assume "catalog_ok d" "fold_ok (migrate_one lib f t) ts d = Inr d'"
  then show "catalog_ok d'"
    by (auto elim: fold_ok_invariant [where P = catalog_ok] intro: migrate_one_ok)
qed

lemma keeps_delete_shelf: "keeps consistent (delete_shelf_in_library n name)"
  unfolding delete_shelf_in_library_def
  by (intro keeps_intros catalog.robot_machinery catalog.keeps_db_write)
     (auto simp: delete_shelf_db_def catalog_ok_def keys_ok_def slots_placed_def drives_placed_def
       drives_exclusive_def shelf_xor_slot_def distinct_map_delete_where set_delete_where
       split: option.splits if_splits)

lemma keeps_create_shelf: "keeps consistent (create_shelf name)" "keeps consistent (create_offline_shelf name)"
  unfolding create_shelf_def create_offline_shelf_def insert_user_shelf_def
  by (intro keeps_intros catalog.robot_machinery catalog.keeps_ensure_offline_library
      catalog.keeps_db_write; auto dest: insert_shelf_ok)+

end
