(* ===== verification/Libraries.thy ===== *)
theory Libraries
  imports GeometrySafety Alignment Shelves
begin

text \<open>
  Creating and deleting tape libraries and changing their size (\<^verbatim>\<open>create_named_library\<close>,
  \<^verbatim>\<open>delete_named_library\<close>, \<^verbatim>\<open>config_set\<close> in \<^verbatim>\<open>main.rs\<close>). Each is a transaction on the catalogue,
  then work on the files, then a run of the geometry synchronisation.
\<close>

section \<open>Creating\<close>

definition library_slot_rows :: "db \<Rightarrow> int \<Rightarrow> nat" where
  "library_slot_rows d lib = count_where (\<lambda>r. slot_lib r = lib) (slots d)"

definition add_drives :: "int \<Rightarrow> int \<Rightarrow> int \<Rightarrow> db \<Rightarrow> db" where
  "add_drives lib a b = fold (insert_drive_or_ignore lib) [a..b - 1]"

definition add_slots :: "int \<Rightarrow> int \<Rightarrow> int \<Rightarrow> int \<Rightarrow> db \<Rightarrow> db" where
  "add_slots lib a b ie = fold (\<lambda>i. insert_slot_or_ignore lib i ie) [a..b - 1]"

definition new_library :: "string \<Rightarrow> string \<Rightarrow> db \<Rightarrow> VtlError + (int \<times> db)" where
  "new_library name now d =
     andThen (require (count_exported_online_libraries d < VTL_KERNEL_MAX_ONLINE_LIBRARIES)
                (InvalidParameter ''too many online libraries'')) (\<lambda>_.
     andThen (insert_library name now d) (\<lambda>(lib, d1).
     andThen (insert_shelf lib DEFAULT_UNUSED_SHELF_NAME 1 d1) (\<lambda>d2. Inr (lib, d2))))"

definition create_library_tx :: "string \<Rightarrow> int \<Rightarrow> int \<Rightarrow> string \<Rightarrow> db \<Rightarrow> VtlError + db" where
  "create_library_tx name drv slt now d =
     andThen (case resolve_library_id d name of
                Inr lib \<Rightarrow> Inr (lib, d)
              | Inl _ \<Rightarrow> new_library name now d) (\<lambda>(lib, d1).
       Inr (add_slots lib MAILSLOT_OFFSET (MAILSLOT_OFFSET + 4) 1
             (add_slots lib 0 slt 0
               (add_drives lib 0 drv
                 (set_lib_config lib ''slots'' (show_int slt)
                   (set_lib_config lib ''max_drives'' (show_int drv) d1))))))"

definition create_library_checks :: "string \<Rightarrow> int \<Rightarrow> int \<Rightarrow> VtlError + unit" where
  "create_library_checks name drv slt =
     andThen (require (name \<noteq> []) (InvalidParameter ''Library name cannot be empty'')) (\<lambda>_.
     andThen (validate_library_name name) (\<lambda>_.
     andThen (require (name \<noteq> OFFLINE_LIBRARY_NAME) (InvalidParameter ''name is reserved'')) (\<lambda>_.
     andThen (require (name \<noteq> LEGACY_DEFAULT_LIBRARY_NAME) (InvalidParameter ''name is obsolete'')) (\<lambda>_.
     andThen (require (1 \<le> drv \<and> drv \<le> VTL_KERNEL_MAX_DRIVES_PER_LIB)
                (InvalidParameter ''number of drives'')) (\<lambda>_.
       require (1 \<le> slt \<and> slt \<le> VTL_KERNEL_MAX_DATA_SLOTS_PER_LIB)
         (InvalidParameter ''number of data slots''))))))"

definition library_is_new :: "string \<Rightarrow> db \<Rightarrow> VtlError + unit" where
  "library_is_new name d =
     (case resolve_library_id d name of
        Inr lib \<Rightarrow> require (library_slot_rows d lib = 0) (LibraryExists name)
      | Inl _ \<Rightarrow> Inr ())"

definition create_named_library :: "outside \<Rightarrow> string \<Rightarrow> int \<Rightarrow> int \<Rightarrow> (VtlError, KernelGeomSync) site_prog" where
  "create_named_library out name drv slt =
     thenp (from_result (\<lambda>_. create_library_checks name drv slt))
     (thenp (on_world
        (thenp init_db
        (thenp (db_read (library_is_new name))
        (bindp (gets w_now) (\<lambda>now.
         thenp (unit_tx (create_library_tx name drv slt now))
         (bindp (gets (\<lambda>w. get_tape_dir w @ [sanitize_lib_dir_component name])) (\<lambda>dir.
            fs_try (create_dir_all dir))))))))
      (maybe_reload_kernel_vtl_after_db_change out))"

section \<open>Deleting\<close>

definition delete_library_checks :: "string \<Rightarrow> db \<Rightarrow> VtlError + int" where
  "delete_library_checks name d =
     andThen (resolve_library_id d name) (\<lambda>lib.
     andThen (require (1 < count_exported_online_libraries d \<or>
                       (name = LEGACY_DEFAULT_LIBRARY_NAME \<and>
                        count_where (\<lambda>t. tape_lib t = lib) (tapes d) = 0))
                (InvalidParameter ''the last online library cannot be deleted'')) (\<lambda>_. Inr lib))"

definition delete_library_tx :: "int \<Rightarrow> db \<Rightarrow> VtlError + db" where
  "delete_library_tx lib d =
     (let gone = map tape_id (filter (\<lambda>t. tape_lib t = lib) (tapes d));
          d1 = clear_changer lib (d\<lparr>tape_tags := delete_where (\<lambda>p. fst p \<in> set gone) (tape_tags d)\<rparr>)
      in andThen (delete_tapes (\<lambda>t. tape_lib t = lib) d1) (\<lambda>d2.
         let d3 = d2\<lparr>lib_config := delete_where (\<lambda>p. fst (fst p) = lib) (lib_config d2),
                      drives := delete_where (\<lambda>r. drive_lib r = lib) (drives d2),
                      slots := delete_where (\<lambda>r. slot_lib r = lib) (slots d2)\<rparr>;
             ids = map shelf_id (filter (\<lambda>s. shelf_lib s = lib) (shelves d3))
         in andThen (require (\<forall>t \<in> set (tapes d3). \<forall>i \<in> set ids. tape_shelf t \<noteq> Some i) (constraint_failed ids)) (\<lambda>_.
            Inr (d3\<lparr>shelves := delete_where (\<lambda>s. shelf_lib s = lib) (shelves d3),
                     libs := delete_where (\<lambda>l. lib_id l = lib) (libs d3),
                     exports := delete_where (\<lambda>x. export_lib x = lib) (exports d3)\<rparr>))))"

text \<open>The images are removed after the commit; each failure is a warning.\<close>

definition remove_images :: "path list \<Rightarrow> (world, 'e, path list) prog" where
  "remove_images ps =
     foldp (\<lambda>p ws. bindp (attempt (fs_try (remove_file p))) (\<lambda>r. ret (if is_ok r then ws else ws @ [p]))) ps []"

definition remove_library_dir :: "path \<Rightarrow> path list \<Rightarrow> (world, 'e, path list) prog" where
  "remove_library_dir dir ws =
     bindp (gets (\<lambda>w. path_exists (w_fs w) dir)) (\<lambda>ex.
       if ex then bindp (attempt (fs_try (remove_dir_all dir))) (\<lambda>r. ret (if is_ok r then ws else ws @ [dir]))
       else ret ws)"

definition leave_library :: "string \<Rightarrow> (world, 'e, unit) prog" where
  "leave_library name =
     bindp (gets w_lib) (\<lambda>cur.
       if cur \<noteq> name then ret ()
       else bindp (attempt init_db) (\<lambda>r.
         modify (\<lambda>w. w\<lparr>w_lib :=
           (if is_ok r then (case first_online_library_name (w_db w) of Inr n \<Rightarrow> n | Inl _ \<Rightarrow> []) else [])\<rparr>)))"

definition delete_named_library :: "outside \<Rightarrow> string \<Rightarrow> (VtlError, path list \<times> KernelGeomSync) site_prog" where
  "delete_named_library out name =
     thenp (checkp (name \<noteq> OFFLINE_LIBRARY_NAME) (InvalidParameter ''reserved library''))
     (bindp (on_world
        (thenp init_db
        (bindp (db_read (delete_library_checks name)) (\<lambda>lib.
         bindp (gets (\<lambda>w. map tape_image (filter (\<lambda>t. tape_lib t = lib) (tapes (w_db w))))) (\<lambda>paths.
         thenp (unit_tx (delete_library_tx lib))
         (bindp (remove_images paths) (\<lambda>ws1.
          bindp (gets (\<lambda>w. get_tape_dir w @ [sanitize_lib_dir_component name])) (\<lambda>dir.
          bindp (remove_library_dir dir ws1) (\<lambda>ws2.
          thenp (leave_library name) (ret ws2)))))))))) (\<lambda>ws.
      bindp (maybe_reload_kernel_vtl_after_db_change out) (\<lambda>g. ret (ws, g))))"

section \<open>Changing settings\<close>

record config_params =
  cp_drives :: "int option"
  cp_slots :: "int option"
  cp_conf :: "(string \<times> string) list"

definition parse_config_param :: "string \<Rightarrow> config_params \<Rightarrow> VtlError + config_params" where
  "parse_config_param param c =
     (case split_once (CHR ''='') param of
        None \<Rightarrow> Inl (InvalidParameter (''Invalid format: '' @ param))
      | Some (k, v) \<Rightarrow>
          let key = trim k; value = trim v
          in if key \<in> {''robot_sync'', ''auto_sync_db_from_kernel'', ''auto_reconcile_pull''}
               then Inr (c\<lparr>cp_conf := cp_conf c @ [(key, value)]\<rparr>)
             else if key = ''max_drives'' then
               andThen (ok_or (parse_i32 value) (InvalidParameter (''Invalid max_drives: '' @ value)))
                 (\<lambda>n. Inr (c\<lparr>cp_drives := Some n\<rparr>))
             else if key = ''slots'' then
               andThen (ok_or (parse_i32 value) (InvalidParameter (''Invalid slots: '' @ value)))
                 (\<lambda>n. Inr (c\<lparr>cp_slots := Some n\<rparr>))
             else Inl (InvalidParameter (''Unknown parameter: '' @ key)))"

text \<open>Writing the configuration file also drops the cached configuration.\<close>

definition set_conf :: "string \<times> string \<Rightarrow> unit cmd" where
  "set_conf p =
     bindp (gets (\<lambda>w. case w_conf_file w of None \<Rightarrow> [] | Some ls \<Rightarrow> ls)) (\<lambda>ls.
     bindp (from_result (\<lambda>_. apply_vtl_conf_set_kv (fst p) (snd p) ls)) (\<lambda>ls'.
     bindp (gets (\<lambda>w. w_fault w ''write_conf'')) (\<lambda>bad.
     thenp (checkp (\<not> bad) (IoError (OsError EIO)))
       (modify (\<lambda>w. w\<lparr>w_conf_file := Some ls', w_cfg := get_config_uncached (w_env w) (Some ls')\<rparr>)))))"

definition grow_drives :: "int \<Rightarrow> int \<Rightarrow> db \<Rightarrow> VtlError + db" where
  "grow_drives lib n d =
     andThen (require (1 \<le> n \<and> n \<le> VTL_KERNEL_MAX_DRIVES_PER_LIB) (InvalidParameter ''max_drives'')) (\<lambda>_.
       let d1 = set_lib_config lib ''max_drives'' (show_int n) d;
           cur = int (drive_count d lib)
       in Inr (if cur < n then add_drives lib cur n d1 else d1))"

definition grow_slots :: "int \<Rightarrow> int \<Rightarrow> db \<Rightarrow> VtlError + db" where
  "grow_slots lib n d =
     andThen (require (1 \<le> n \<and> n \<le> VTL_KERNEL_MAX_DATA_SLOTS_PER_LIB) (InvalidParameter ''slots'')) (\<lambda>_.
       let d1 = set_lib_config lib ''slots'' (show_int n) d;
           cur = int (data_slot_count d lib)
       in Inr (if cur < n then add_slots lib cur n 0 d1 else d1))"

definition config_tx :: "int \<Rightarrow> int option \<Rightarrow> int option \<Rightarrow> db \<Rightarrow> VtlError + db" where
  "config_tx lib dr sl d =
     andThen (case dr of None \<Rightarrow> Inr d | Some n \<Rightarrow> grow_drives lib n d) (\<lambda>d1.
       case sl of None \<Rightarrow> Inr d1 | Some n \<Rightarrow> grow_slots lib n d1)"

definition config_set :: "outside \<Rightarrow> string list \<Rightarrow> (VtlError, unit) site_prog" where
  "config_set out params =
     bindp (from_result (\<lambda>_. fold_ok parse_config_param params
              \<lparr>cp_drives = None, cp_slots = None, cp_conf = []\<rparr>)) (\<lambda>c.
     thenp (on_world (forp set_conf (cp_conf c)))
     (thenp (checkp (cp_drives c \<noteq> None \<or> cp_slots c \<noteq> None \<or> cp_conf c \<noteq> []) (InvalidParameter ''no parameters given''))
      (if cp_drives c = None \<and> cp_slots c = None then ret ()
       else thenp (on_world (thenp init_db (bindp current_library_id (\<lambda>lib.
                     unit_tx (config_tx lib (cp_drives c) (cp_slots c))))))
              (bindp (maybe_reload_kernel_vtl_after_db_change out) (\<lambda>_. ret ())))))"

end
