(* ===== verification/LibraryFacts.thy ===== *)
theory LibraryFacts
  imports Libraries
begin

text \<open>
  Properties of the library commands: the rows that a new library gets, what a deletion removes
  and leaves, and that all of them, with the geometry run behind them, keep the catalogue
  consistent.
\<close>

section \<open>Rows that are added\<close>

lemma insert_drive_ok: "catalog_ok d \<Longrightarrow> catalog_ok (insert_drive_or_ignore lib k d)"
  by (auto simp: insert_drive_or_ignore_def catalog_ok_def keys_ok_def slots_placed_def
      drives_placed_def drives_exclusive_def shelf_xor_slot_def)

lemma insert_slot_ok: "catalog_ok d \<Longrightarrow> catalog_ok (insert_slot_or_ignore lib s ie d)"
  by (auto simp: insert_slot_or_ignore_def catalog_ok_def keys_ok_def slots_placed_def
      drives_placed_def drives_exclusive_def shelf_xor_slot_def)

lemma add_drives_ok: "catalog_ok d \<Longrightarrow> catalog_ok (add_drives lib a b d)"
  unfolding add_drives_def by (rule fold_keeps) (auto intro: insert_drive_ok)

lemma add_slots_ok: "catalog_ok d \<Longrightarrow> catalog_ok (add_slots lib a b ie d)"
  unfolding add_slots_def by (rule fold_keeps) (auto intro: insert_slot_ok)

lemma set_lib_config_ok [simp]: "catalog_ok (set_lib_config lib k v d) = catalog_ok d"
  by (simp add: set_lib_config_def catalog_ok_frames)

text \<open>The slot rows as triples of library, number and kind.\<close>

definition slot_kinds :: "db \<Rightarrow> (int \<times> int \<times> int) set" where
  "slot_kinds d = (\<lambda>r. (slot_lib r, slot_no r, slot_ie r)) ` set (slots d)"

definition drive_keys :: "db \<Rightarrow> (int \<times> int) set" where
  "drive_keys d = (\<lambda>r. (drive_lib r, drive_no r)) ` set (drives d)"

lemma slot_kinds_insert:
  "slot_kinds (insert_slot_or_ignore lib s ie d) =
     (if has_slot d lib s then slot_kinds d else insert (lib, s, ie) (slot_kinds d))"
  by (auto simp: slot_kinds_def insert_slot_or_ignore_def has_slot_def)

lemma has_slot_kinds: "has_slot d lib s \<longleftrightarrow> (\<exists>ie. (lib, s, ie) \<in> slot_kinds d)"
  by (auto simp: has_slot_def slot_kinds_def image_iff)

lemma slot_kinds_add_slots:
  "slot_kinds (fold (\<lambda>i. insert_slot_or_ignore lib i ie) xs d) =
     slot_kinds d \<union> {(lib, s, ie) | s. s \<in> set xs \<and> \<not> has_slot d lib s}"
proof (induction xs arbitrary: d)
  case (Cons x xs)
  have "has_slot (insert_slot_or_ignore lib x ie d) lib s \<longleftrightarrow> has_slot d lib s \<or> s = x" for s
    by (auto simp: has_slot_kinds slot_kinds_insert)
  with Cons.IH [of "insert_slot_or_ignore lib x ie d"] show ?case
    by (auto simp: slot_kinds_insert)
qed simp

lemma drive_keys_add_drives:
  "drive_keys (fold (insert_drive_or_ignore lib) xs d) = drive_keys d \<union> {(lib, k) | k. k \<in> set xs}"
proof (induction xs arbitrary: d)
  case (Cons x xs)
  have "drive_keys (insert_drive_or_ignore lib x d) = insert (lib, x) (drive_keys d)"
    by (auto simp: drive_keys_def insert_drive_or_ignore_def)
  with Cons.IH [of "insert_drive_or_ignore lib x d"] show ?case by auto
qed simp

lemma library_frames [simp]:
  "slot_kinds (set_lib_config l k v d) = slot_kinds d" "drive_keys (set_lib_config l k v d) = drive_keys d"
  "has_slot (set_lib_config l k v d) = has_slot d" "libs (set_lib_config l k v d) = libs d"
  "shelves (set_lib_config l k v d) = shelves d" "tapes (set_lib_config l k v d) = tapes d"
  "slots (set_lib_config l k v d) = slots d" "drives (set_lib_config l k v d) = drives d"
  by (simp_all add: set_lib_config_def slot_kinds_def drive_keys_def has_slot_def fun_eq_iff)

lemma insert_row_frames [simp]:
  "libs (insert_slot_or_ignore l s ie d) = libs d" "libs (insert_drive_or_ignore l k d) = libs d"
  "tapes (insert_slot_or_ignore l s ie d) = tapes d" "tapes (insert_drive_or_ignore l k d) = tapes d"
  "shelves (insert_slot_or_ignore l s ie d) = shelves d" "shelves (insert_drive_or_ignore l k d) = shelves d"
  "drives (insert_slot_or_ignore l s ie d) = drives d" "slots (insert_drive_or_ignore l k d) = slots d"
  by (simp_all add: insert_slot_or_ignore_def insert_drive_or_ignore_def)

lemma fold_frame: "(\<And>i x. g (f i x) = g x) \<Longrightarrow> g (fold f xs x) = g x"
  by (induction xs arbitrary: x) auto

lemma add_rows_frames [simp]:
  "libs (add_slots l a b ie d) = libs d" "libs (add_drives l a b d) = libs d"
  "tapes (add_slots l a b ie d) = tapes d" "tapes (add_drives l a b d) = tapes d"
  "shelves (add_slots l a b ie d) = shelves d" "shelves (add_drives l a b d) = shelves d"
  "drives (add_slots l a b ie d) = drives d" "slots (add_drives l a b d) = slots d"
  unfolding add_slots_def add_drives_def by (rule fold_frame; simp)+

lemma find_append_None: "List.find P xs = None \<Longrightarrow> P y \<Longrightarrow> List.find P (xs @ [y]) = Some y"
  by (induction xs) (auto split: if_splits)

section \<open>A new library\<close>

lemma new_library_Inr:
  assumes "new_library name now d = Inr (lib, d2)"
  shows "count_exported_online_libraries d < 8" "lib = seq_lib d + 1"
    "libs d2 = libs d @ [\<lparr>lib_id = lib, lib_name = name, lib_created = now\<rparr>]"
    "tapes d2 = tapes d" "slots d2 = slots d" "drives d2 = drives d"
    "shelves d2 = shelves d @ [\<lparr>shelf_id = seq_shelf d + 1, shelf_lib = lib,
       shelf_name = DEFAULT_UNUSED_SHELF_NAME, shelf_default = 1\<rparr>]"
  using assms
  by (auto simp: new_library_def insert_library_def insert_shelf_def Let_def
      VTL_KERNEL_MAX_ONLINE_LIBRARIES_def split: if_splits)

lemma new_library_ok: "catalog_ok d \<Longrightarrow> new_library name now d = Inr (lib, d2) \<Longrightarrow> catalog_ok d2"
  unfolding new_library_def by (auto dest: insert_library_ok insert_shelf_ok)

lemma create_library_tx_ok:
  assumes "catalog_ok d" and "create_library_tx name drv slt now d = Inr d'"
  shows "catalog_ok d'"
  using assms
  by (auto simp: create_library_tx_def intro!: add_slots_ok add_drives_ok dest: new_library_ok split: sum.splits)

text \<open>The rows of a library that is created afresh: the mail slots yield to the data slots.\<close>

lemma create_library_tx_rows:
  assumes run: "create_library_tx name drv slt now d = Inr d'" and new: "resolve_library_id d name = Inl e"
    and fresh: "\<forall>x \<in> set (slots d). slot_lib x \<le> seq_lib d" "\<forall>x \<in> set (drives d). drive_lib x \<le> seq_lib d"
  shows "\<exists>lib. resolve_library_id d' name = Inr lib \<and>
     slot_kinds d' = slot_kinds d \<union> {(lib, s, 0) | s. 0 \<le> s \<and> s < slt} \<union>
                     {(lib, s, 1) | s. 100 \<le> s \<and> s < 104 \<and> slt \<le> s} \<and>
     drive_keys d' = drive_keys d \<union> {(lib, k) | k. 0 \<le> k \<and> k < drv} \<and> tapes d' = tapes d"
proof -
  obtain lib d1 where d1: "new_library name now d = Inr (lib, d1)"
    and d': "d' = add_slots lib MAILSLOT_OFFSET (MAILSLOT_OFFSET + 4) 1
             (add_slots lib 0 slt 0
               (add_drives lib 0 drv
                 (set_lib_config lib ''slots'' (show_int slt)
                   (set_lib_config lib ''max_drives'' (show_int drv) d1))))"
    using run new by (auto simp: create_library_tx_def)
  note n = new_library_Inr [OF d1]
  let ?a = "add_drives lib 0 drv (set_lib_config lib ''slots'' (show_int slt)
                   (set_lib_config lib ''max_drives'' (show_int drv) d1))"
  have slots_a: "slots ?a = slots d" by (simp add: n)
  then have kinds_a: "slot_kinds ?a = slot_kinds d" and has_a: "has_slot ?a = has_slot d"
    unfolding slot_kinds_def has_slot_def fun_eq_iff by simp_all
  have none: "\<not> has_slot d lib s" for s using fresh n(2) by (auto simp: has_slot_def)
  let ?b = "add_slots lib 0 slt 0 ?a"
  have kinds_b: "slot_kinds ?b = slot_kinds d \<union> {(lib, s, 0) | s. 0 \<le> s \<and> s < slt}"
    unfolding add_slots_def slot_kinds_add_slots using none by (auto simp: kinds_a has_a)
  have has_b: "has_slot ?b lib s \<longleftrightarrow> 0 \<le> s \<and> s < slt" for s
    unfolding has_slot_kinds kinds_b using none by (auto simp: has_slot_kinds)
  have "slot_kinds d' = slot_kinds ?b \<union> {(lib, s, 1) | s. 100 \<le> s \<and> s < 104 \<and> slt \<le> s}"
    unfolding d' unfolding add_slots_def [of lib MAILSLOT_OFFSET] slot_kinds_add_slots has_b
    by (auto simp: MAILSLOT_OFFSET_def)
  moreover have "drive_keys d' = drive_keys d \<union> {(lib, k) | k. 0 \<le> k \<and> k < drv}"
  proof -
    have "drive_keys d' = drive_keys ?a" by (simp add: d' drive_keys_def)
    also have "\<dots> = drive_keys d1 \<union> {(lib, k) | k. k \<in> set [0..drv - 1]}"
      unfolding add_drives_def drive_keys_add_drives by simp
    also have "drive_keys d1 = drive_keys d" by (simp add: drive_keys_def n)
    finally show ?thesis by auto
  qed
  moreover have "resolve_library_id d' name = Inr lib"
  proof -
    have "List.find (\<lambda>r. lib_name r = name) (libs d) = None"
      using new by (simp add: resolve_library_id_def find_library_def ok_or_def split: option.splits)
    then have "List.find (\<lambda>r. lib_name r = name)
        (libs d @ [\<lparr>lib_id = lib, lib_name = name, lib_created = now\<rparr>]) =
        Some \<lparr>lib_id = lib, lib_name = name, lib_created = now\<rparr>"
      by (rule find_append_None) simp
    then show ?thesis by (simp add: d' n resolve_library_id_def find_library_def)
  qed
  moreover have "tapes d' = tapes d" by (simp add: d' n)
  ultimately show ?thesis unfolding kinds_b by (intro exI [of _ lib] conjI)
qed

section \<open>Deleting a library\<close>

lemma delete_library_tx_Inr:
  assumes "delete_library_tx lib d = Inr d'"
  shows "tapes d' = delete_where (\<lambda>t. tape_lib t = lib) (tapes d)"
    "slots d' = delete_where (\<lambda>r. slot_lib r = lib) (slots d)"
    "drives d' = delete_where (\<lambda>r. drive_lib r = lib) (drives d)"
    "shelves d' = delete_where (\<lambda>s. shelf_lib s = lib) (shelves d)"
    "libs d' = delete_where (\<lambda>l. lib_id l = lib) (libs d)"
    "exports d' = delete_where (\<lambda>x. export_lib x = lib) (exports d)"
    "lib_config d' = delete_where (\<lambda>p. fst (fst p) = lib) (lib_config d)"
    "seq_lib d' = seq_lib d" "seq_shelf d' = seq_shelf d" "seq_tape d' = seq_tape d"
proof -
  have upd: "delete_where P (update_where P f rs) = delete_where P rs"
    if "\<And>r. P (f r) = P r" for P and f :: "'x \<Rightarrow> 'x" and rs
    using that by (induction rs) auto
  show "tapes d' = delete_where (\<lambda>t. tape_lib t = lib) (tapes d)"
    "slots d' = delete_where (\<lambda>r. slot_lib r = lib) (slots d)"
    "drives d' = delete_where (\<lambda>r. drive_lib r = lib) (drives d)"
    "shelves d' = delete_where (\<lambda>s. shelf_lib s = lib) (shelves d)"
    "libs d' = delete_where (\<lambda>l. lib_id l = lib) (libs d)"
    "exports d' = delete_where (\<lambda>x. export_lib x = lib) (exports d)"
    "lib_config d' = delete_where (\<lambda>p. fst (fst p) = lib) (lib_config d)"
    "seq_lib d' = seq_lib d" "seq_shelf d' = seq_shelf d" "seq_tape d' = seq_tape d"
    using assms by (auto simp: delete_library_tx_def Let_def delete_tapes_Inr clear_changer_def upd)
qed

lemma delete_library_tx_ok:
  assumes ok: "catalog_ok d" and run: "delete_library_tx lib d = Inr d'"
  shows "catalog_ok d'"
proof -
  note d' = delete_library_tx_Inr [OF run]
  have "keys_ok d'"
    using ok unfolding catalog_ok_def keys_ok_def d'
    by (auto simp: distinct_map_delete_where set_delete_where)
  moreover have "slots_placed d'"
    unfolding slots_placed_def d' set_delete_where
  proof (intro ballI allI impI)
    fix x t assume "x \<in> {r \<in> set (slots d). slot_lib r \<noteq> lib}" "slot_tape x = Some t"
    with catalog_slot_row [OF ok, of x t] show "\<exists>r \<in> {t \<in> set (tapes d). tape_lib t \<noteq> lib}. tape_id r = t \<and>
        tape_lib r = slot_lib x \<and> tape_slot r = Some (slot_no x) \<and> tape_shelf r = None" by auto
  qed
  moreover have "drives_placed d'"
    unfolding drives_placed_def d' set_delete_where
  proof (intro ballI allI impI)
    fix x t assume "x \<in> {r \<in> set (drives d). drive_lib r \<noteq> lib}" "drive_tape x = Some t"
    with catalog_drive_row [OF ok, of x t] show "\<exists>r \<in> {t \<in> set (tapes d). tape_lib t \<noteq> lib}. tape_id r = t \<and>
        tape_lib r = drive_lib x \<and> tape_slot r = None \<and> tape_shelf r = None" by auto
  qed
  moreover have "drives_exclusive d'" "shelf_xor_slot d'"
    using ok by (auto simp: catalog_ok_def drives_exclusive_def shelf_xor_slot_def d' set_delete_where)
  ultimately show ?thesis by (simp add: catalog_ok_def)
qed

text \<open>In a consistent catalogue the constraints never stop a deletion.\<close>

definition shelves_local :: "db \<Rightarrow> bool" where
  "shelves_local d \<longleftrightarrow> (\<forall>t \<in> set (tapes d). \<forall>s \<in> set (shelves d). tape_shelf t = Some (shelf_id s) \<longrightarrow> shelf_lib s = tape_lib t)"

lemma delete_library_tx_succeeds:
  assumes ok: "catalog_ok d" and sh: "shelves_local d"
  shows "\<exists>d'. delete_library_tx lib d = Inr d'"
proof -
  define gone where "gone = map tape_id (filter (\<lambda>t. tape_lib t = lib) (tapes d))"
  define d1 where "d1 = clear_changer lib (d\<lparr>tape_tags := delete_where (\<lambda>p. fst p \<in> set gone) (tape_tags d)\<rparr>)"
  have keys: "keys_ok d" using ok by (simp add: catalog_ok_def)
  have t1: "tapes d1 = tapes d" "shelves d1 = shelves d" by (simp_all add: d1_def clear_changer_def)
  have noslot: "slot_tape x \<noteq> Some (tape_id r)" if r: "r \<in> set (tapes d)" "tape_lib r = lib" and x: "x \<in> set (slots d1)" for r x
  proof
    assume xt: "slot_tape x = Some (tape_id r)"
    have x': "x \<in> set (slots d)" "slot_lib x \<noteq> lib"
      using x xt clear_changer_row(1) [of x lib _ "tape_id r"] unfolding d1_def by force+
    from catalog_slot_row [OF ok x'(1) xt] tape_unique [OF keys _ r(1)] x'(2) r(2) show False by metis
  qed
  have nodrive: "drive_tape x \<noteq> Some (tape_id r)" if r: "r \<in> set (tapes d)" "tape_lib r = lib" and x: "x \<in> set (drives d1)" for r x
  proof
    assume xt: "drive_tape x = Some (tape_id r)"
    have x': "x \<in> set (drives d)" "drive_lib x \<noteq> lib"
      using x xt clear_changer_row(2) [of x lib _ "tape_id r"] unfolding d1_def by force+
    from catalog_drive_row [OF ok x'(1) xt] tape_unique [OF keys _ r(1)] x'(2) r(2) show False by metis
  qed
  have "delete_tapes (\<lambda>t. tape_lib t = lib) d1 = Inr (d1\<lparr>tapes := delete_where (\<lambda>t. tape_lib t = lib) (tapes d1)\<rparr>)"
    unfolding delete_tapes_Inr t1 using noslot nodrive
    by (auto simp: d1_def clear_changer_def set_delete_where gone_def)
  moreover have "tape_shelf t \<noteq> Some (shelf_id s)"
    if "t \<in> set (tapes d)" "tape_lib t \<noteq> lib" "s \<in> set (shelves d)" "shelf_lib s = lib" for t s
    using sh that by (auto simp: shelves_local_def)
  ultimately show ?thesis
    by (auto simp: delete_library_tx_def Let_def gone_def [symmetric] d1_def [symmetric] t1 set_delete_where)
qed

text \<open>An online library remains.\<close>

lemma online_count_delete:
  assumes "distinct (map lib_id (libs d))"
  shows "length (online_libs d) \<le> Suc (length (online_libs (d\<lparr>libs := delete_where (\<lambda>l. lib_id l = lib) (libs d)\<rparr>)))"
proof -
  let ?on = "\<lambda>r. lib_name r \<noteq> OFFLINE_LIBRARY_NAME \<and> lib_name r \<noteq> LEGACY_DEFAULT_LIBRARY_NAME"
  have "length (filter ?on rs) \<le> Suc (length (filter ?on (filter (\<lambda>l. lib_id l \<noteq> lib) rs)))"
    if "distinct (map lib_id rs)" for rs :: "lib_row list"
    using that
  proof (induction rs)
    case (Cons r rs)
    show ?case
    proof (cases "lib_id r = lib")
      case True
      with Cons.prems have "filter (\<lambda>l. lib_id l \<noteq> lib) rs = rs"
        by (intro filter_True) (auto simp: rev_image_eqI)
      with True show ?thesis by simp
    qed (use Cons in auto)
  qed simp
  with assms show ?thesis by (simp add: online_libs_def delete_where_def)
qed

lemma delete_library_keeps_one:
  assumes "keys_ok d" and "delete_library_checks name d = Inr lib" and "delete_library_tx lib d = Inr d'"
    and "0 < count_exported_online_libraries d"
  shows "0 < count_exported_online_libraries d'"
proof -
  have distinct: "distinct (map lib_id (libs d))" using assms(1) by (simp add: keys_ok_def)
  have on: "online_libs d' = online_libs (d\<lparr>libs := delete_where (\<lambda>l. lib_id l = lib) (libs d)\<rparr>)"
    by (simp add: online_libs_def delete_library_tx_Inr [OF assms(3)])
  show ?thesis
  proof (cases "1 < count_exported_online_libraries d")
    case True
    then show ?thesis using online_count_delete [OF distinct, of lib]
      unfolding count_exported_online_libraries_def on by linarith
  next
    case False
    with assms(2) have name: "name = LEGACY_DEFAULT_LIBRARY_NAME" and lib: "resolve_library_id d name = Inr lib"
      by (auto simp: delete_library_checks_def)
    then obtain r where r: "r \<in> set (libs d)" "lib_name r = name" "lib_id r = lib"
      by (auto simp: resolve_library_id_def find_library_def dest: find_Some_in)
    have "lib_id q \<noteq> lib" if "q \<in> set (libs d)" "lib_name q \<noteq> LEGACY_DEFAULT_LIBRARY_NAME" for q
      using distinct_map_eqD [OF distinct that(1) r(1)] r name that(2) by auto
    then have "online_libs d' = online_libs d"
      unfolding on by (auto simp: online_libs_def delete_where_def filter_filter intro: filter_cong)
    with assms(4) show ?thesis by (simp add: count_exported_online_libraries_def)
  qed
qed

end
