(* ===== verification/LibraryKeeps.thy ===== *)
theory LibraryKeeps
  imports LibraryFacts
begin

text \<open>
  The geometry run touches the catalogue only through the programs it calls. The locale states
  what a property of the world needs so that the whole run keeps it; the consistency of the
  catalogue is such a property, and so the library commands keep it.
\<close>

locale geometry_invariant =
  fixes W :: "world \<Rightarrow> bool"
  assumes spec_keeps: "keeps W build_vtl_instances_kernel_spec"
    and pull_keeps: "keeps W pull_all_online_libraries_from_kernel"
    and kernel_keeps: "W w \<Longrightarrow> W (w\<lparr>w_kernel := k\<rparr>)"
begin

abbreviation at_site :: "site \<Rightarrow> bool" where
  "at_site s \<equiv> W (st_world s)"

lemma keeps_emit: "keeps at_site (emit ev)"
  unfolding emit_def by (rule keeps_modify) simp

lemma keeps_ask: "keeps at_site (ask f)"
  unfolding ask_def by (intro keeps_intros keeps_emit)

lemma keeps_world: "keeps W m \<Longrightarrow> keeps at_site (on_world m)"
  by (auto simp: keeps_def on_world_def on_part_def split: prod.split)

lemma keeps_kernel_part: "keeps W (on_part w_kernel (\<lambda>k w. w\<lparr>w_kernel := k\<rparr>) m)"
  by (rule keeps_on_part) (rule kernel_keeps)

lemma keeps_device_paths: "keeps at_site (vtl_scsi_device_paths out)"
  unfolding vtl_scsi_device_paths_def by (intro keeps_intros keeps_ask)

lemma keeps_any_held: "keeps at_site (any_held out ps)"
proof (induction ps)
  case (Cons p ps)
  then show ?case unfolding any_held.simps by (intro keeps_intros keeps_ask)
qed (simp only: any_held.simps keeps_ret)

lemma keeps_probe: "keeps at_site (probe_vtl_device_holders out)"
  unfolding probe_vtl_device_holders_def
  by (intro keeps_intros keeps_ask keeps_emit keeps_device_paths keeps_any_held)

lemma keeps_lio: "keeps at_site (lio_pscsi_references_vtl_sg out)"
  unfolding lio_pscsi_references_vtl_sg_def
  by (intro keeps_intros keeps_ask keeps_emit keeps_device_paths)

lemma keeps_write_scans: "keeps at_site (write_scans out is)"
proof (induction "is")
  case (Cons i "is")
  then show ?case unfolding write_scans.simps by (intro keeps_intros keeps_emit)
qed (simp only: write_scans.simps keeps_ret)

lemma keeps_rescan: "keeps at_site (scsi_rescan_vtl_hosts out)"
  unfolding scsi_rescan_vtl_hosts_def by (intro keeps_intros keeps_ask keeps_write_scans)

lemma keeps_sync: "keeps at_site sync_if_enabled"
  unfolding sync_if_enabled_def sync_all_online_libraries_after_geom_def
  by (intro keeps_intros keeps_world pull_keeps)

lemma keeps_cache: "keeps at_site (modify (\<lambda>s. s\<lparr>st_cache := c\<rparr>))"
  by (rule keeps_modify) simp

lemma keeps_applied: "keeps at_site (geometry_applied e out st spec)"
  unfolding geometry_applied_def write_vtl_inst_spec_cache_def with_post_geom_rescan_def
    try_scsi_rescan_after_geom_change_def Let_def
  by (intro keeps_intros keeps_emit keeps_sync keeps_rescan keeps_cache)

lemma keeps_refuse: "keeps at_site (refuse_unsafe e out)"
  unfolding refuse_unsafe_def refuse_ioctl_before_hot_geom_def refuse_ioctl_if_vtl_holders_busy_def
  by (intro keeps_intros keeps_lio keeps_probe)

lemma keeps_spec_ioctl: "keeps at_site (apply_spec_ioctl resize out spec)"
  unfolding apply_spec_ioctl_def on_kernel_def
  by (intro keeps_intros keeps_emit keeps_world keeps_kernel_part)

lemma keeps_run_reload: "keeps at_site (run_reload ev f)"
  unfolding run_reload_def by (intro keeps_intros keeps_emit keeps_world keeps_kernel_part)

lemma keeps_geom_spec: "keeps at_site (geom_spec out plan_b)"
  unfolding geom_spec_def by (intro keeps_intros keeps_ask keeps_world spec_keeps)

lemma keeps_geom_run: "keeps at_site (geom_run out e)"
  unfolding geom_run_def rescan_if_unchanged_def try_ioctl_def no_script_def run_script_def
    refuse_rmmod_for_safety_def Let_def
  by (intro keeps_intros keeps_geom_spec keeps_rescan keeps_sync keeps_refuse keeps_spec_ioctl
      keeps_applied keeps_probe keeps_run_reload)

lemma keeps_maybe_reload: "keeps at_site (maybe_reload_kernel_vtl_after_db_change out)"
  unfolding keeps_def
proof (intro allI impI)
  fix s assume "at_site s"
  with keepsD [OF keeps_geom_run] have "at_site (snd (geom_run out (w_env (st_world s)) s))" by blast
  then show "at_site (snd (maybe_reload_kernel_vtl_after_db_change out s))"
    by (auto simp: maybe_reload_kernel_vtl_after_db_change_def split: prod.split sum.split)
qed

end

interpretation geometry_catalog: geometry_invariant "\<lambda>w. catalog_ok (w_db w)"
proof unfold_locales
  show "keeps catalog.holds build_vtl_instances_kernel_spec"
    unfolding build_vtl_instances_kernel_spec_def
    by (intro keeps_intros catalog.keeps_init_db catalog.keeps_db_read)
  show "keeps catalog.holds pull_all_online_libraries_from_kernel" by (rule keeps_pull_all)
qed simp

abbreviation site_consistent :: "site \<Rightarrow> bool" where
  "site_consistent s \<equiv> catalog_ok (w_db (st_world s))"

section \<open>The library commands\<close>

lemma keeps_create_named_library: "keeps site_consistent (create_named_library out name drv slt)"
  unfolding create_named_library_def
  by (intro keeps_intros geometry_catalog.keeps_world geometry_catalog.keeps_maybe_reload
      catalog.keeps_init_db catalog.keeps_db_read catalog.keeps_unit_tx catalog.keeps_fs_try)
     (rule create_library_tx_ok)

lemma keeps_remove_images: "keeps catalog.holds (remove_images ps)"
  unfolding remove_images_def by (intro keeps_intros catalog.keeps_fs_try)

lemma keeps_remove_library_dir: "keeps catalog.holds (remove_library_dir p ws)"
  unfolding remove_library_dir_def by (intro keeps_intros catalog.keeps_fs_try)

lemma keeps_leave_library: "keeps catalog.holds (leave_library name)"
  unfolding leave_library_def by (intro keeps_intros catalog.keeps_init_db keeps_modify) simp

lemma keeps_delete_named_library: "keeps site_consistent (delete_named_library out name)"
  unfolding delete_named_library_def
  by (intro keeps_intros geometry_catalog.keeps_world geometry_catalog.keeps_maybe_reload
      catalog.keeps_init_db catalog.keeps_db_read catalog.keeps_unit_tx keeps_remove_images
      keeps_remove_library_dir keeps_leave_library)
     (rule delete_library_tx_ok)

lemma grow_ok:
  "catalog_ok d \<Longrightarrow> grow_drives lib n d = Inr d' \<Longrightarrow> catalog_ok d'"
  "catalog_ok d \<Longrightarrow> grow_slots lib n d = Inr d' \<Longrightarrow> catalog_ok d'"
  by (auto simp: grow_drives_def grow_slots_def Let_def intro!: add_drives_ok add_slots_ok)

lemma config_tx_ok: "catalog_ok d \<Longrightarrow> config_tx lib a b d = Inr d' \<Longrightarrow> catalog_ok d'"
  by (auto simp: config_tx_def split: option.splits intro: grow_ok)

lemma keeps_set_conf: "keeps catalog.holds (set_conf p)"
  unfolding set_conf_def by (intro keeps_intros keeps_modify) simp

lemma keeps_config_set: "keeps site_consistent (config_set out params)"
  unfolding config_set_def
  by (intro keeps_intros geometry_catalog.keeps_world geometry_catalog.keeps_maybe_reload
      catalog.keeps_init_db catalog.keeps_current_library_id catalog.keeps_unit_tx keeps_set_conf)
     (rule config_tx_ok)

end
