(* ===== verification/Agreement.thy ===== *)
theory Agreement
  imports Alignment
begin

text \<open>
  The catalogue as a specification of the kernel's changer. \<open>agrees d lib c\<close> says that every element
  of the changer holds the tape that the catalogue of the library records there. The robot
  transactions and the kernel operations that the commands pair with them simulate each other: from
  agreeing states the kernel accepts the move and the states agree again, except that a mail slot as the
  source is accepted by the catalogue only.
\<close>

definition name_of :: "db \<Rightarrow> int \<Rightarrow> string option" where
  "name_of d t = map_option tape_name (tape_by_id d t)"

definition kind_of :: "db \<Rightarrow> int \<Rightarrow> int \<Rightarrow> int option" where
  "kind_of d lib s = map_option slot_ie (find_slot d lib s)"

definition db_at :: "db \<Rightarrow> int \<Rightarrow> int \<Rightarrow> string option" where
  "db_at d lib e =
     (if 0 \<le> e \<and> e < VTL_ELEM_DRIVE_BASE then
        (if kind_of d lib e = Some 0 then Option.bind (slot_occupant d lib e) (name_of d) else None)
      else if VTL_ELEM_DRIVE_BASE \<le> e \<and> e < VTL_ELEM_IE_BASE then
        Option.bind (drive_occupant d lib (e - VTL_ELEM_DRIVE_BASE)) (name_of d)
      else if VTL_ELEM_IE_BASE \<le> e then
        (let m = MAILSLOT_OFFSET + (e - VTL_ELEM_IE_BASE)
         in if kind_of d lib m \<notin> {None, Some 0} then Option.bind (slot_occupant d lib m) (name_of d) else None)
      else None)"

definition agrees :: "db \<Rightarrow> int \<Rightarrow> changer \<Rightarrow> bool" where
  "agrees d lib c \<longleftrightarrow> db_at d lib = changer_at c"

section \<open>How the statements change the view\<close>

lemma kind_of_frames [simp]:
  "kind_of (update_tape t f d) = kind_of d" "kind_of (set_drive_tape l k x d) = kind_of d"
  "kind_of (set_slot_tape l s x d) = kind_of d"
proof -
  show "kind_of (update_tape t f d) = kind_of d" "kind_of (set_drive_tape l k x d) = kind_of d"
    by (simp_all add: fun_eq_iff kind_of_def find_slot_def)
  show "kind_of (set_slot_tape l s x d) = kind_of d"
    unfolding kind_of_def find_slot_def set_slot_tape_def update_where_def
    by (intro ext) (simp, intro find_map_id; simp)
qed

lemma name_of_frames [simp]:
  "name_of (set_drive_tape l k x d) = name_of d" "name_of (set_slot_tape l s x d) = name_of d"
  "name_of (update_tape t (in_slot_row v) d) = name_of d"
proof -
  show "name_of (set_drive_tape l k x d) = name_of d" "name_of (set_slot_tape l s x d) = name_of d"
    by (simp_all add: fun_eq_iff name_of_def tape_by_id_def)
  show "name_of (update_tape t (in_slot_row v) d) = name_of d"
    unfolding name_of_def tape_by_id_def update_tape_def update_where_def
    by (intro ext) (simp, intro find_map_id; simp)
qed

lemma slot_occupant_set_iff:
  assumes "has_slot d l s"
  shows "slot_occupant (set_slot_tape l s x d) l' s' = (if l' = l \<and> s' = s then x else slot_occupant d l' s')"
proof (cases "l' = l \<and> s' = s")
  case True
  let ?P = "\<lambda>r. slot_lib r = l \<and> slot_no r = s"
  have "\<exists>r \<in> set (slots d). ?P r" using assms by (auto simp: has_slot_def)
  moreover from this have "List.find ?P (slots d) \<noteq> None" by (auto simp: find_None_iff)
  ultimately show ?thesis using True
    by (auto simp: slot_occupant_def find_slot_def set_slot_tape_def find_update_where_here)
next
  case False
  then show ?thesis using slot_occupant_set [of l' s' l s x d] by auto
qed

lemma drive_occupant_set_iff:
  assumes "has_drive d l k"
  shows "drive_occupant (set_drive_tape l k x d) l' k' = (if l' = l \<and> k' = k then x else drive_occupant d l' k')"
proof (cases "l' = l \<and> k' = k")
  case True
  let ?P = "\<lambda>r. drive_lib r = l \<and> drive_no r = k"
  have "\<exists>r \<in> set (drives d). ?P r" using assms by (auto simp: has_drive_def)
  moreover from this have "List.find ?P (drives d) \<noteq> None" by (auto simp: find_None_iff)
  ultimately show ?thesis using True
    by (auto simp: drive_occupant_def find_drive_def set_drive_tape_def find_update_where_here)
next
  case False
  then show ?thesis
    unfolding drive_occupant_def find_drive_def set_drive_tape_def
    by (simp, subst find_update_where_other) auto
qed

lemma occupant_has:
  "slot_occupant d l s = Some t \<Longrightarrow> has_slot d l s" "drive_occupant d l k = Some t \<Longrightarrow> has_drive d l k"
  "kind_of d l s = Some i \<Longrightarrow> has_slot d l s"
  by (auto simp: slot_occupant_def drive_occupant_def kind_of_def has_slot_def has_drive_def
      dest: find_slot_Some find_drive_Some split: bind_splits)

text \<open>The tape that a row of a consistent catalogue names exists.\<close>

lemma tape_by_id_unique: "keys_ok d \<Longrightarrow> r \<in> set (tapes d) \<Longrightarrow> tape_by_id d (tape_id r) = Some r"
  unfolding tape_by_id_def keys_ok_def by (rule find_unique [where k = tape_id]) auto

lemma occupant_named:
  assumes "catalog_ok d"
  shows "slot_occupant d l s = Some t \<Longrightarrow> name_of d t \<noteq> None" "drive_occupant d l k = Some t \<Longrightarrow> name_of d t \<noteq> None"
proof -
  have keys: "keys_ok d" using assms by (simp add: catalog_ok_def)
  show "name_of d t \<noteq> None" if "slot_occupant d l s = Some t"
  proof -
    from that obtain x where "x \<in> set (slots d)" "slot_tape x = Some t" by (rule slot_occupant_SomeE)
    with catalog_slot_row [OF assms] obtain r where "r \<in> set (tapes d)" "tape_id r = t" by blast
    with tape_by_id_unique [OF keys] show ?thesis by (auto simp: name_of_def)
  qed
  show "name_of d t \<noteq> None" if "drive_occupant d l k = Some t"
  proof -
    from that obtain x where "x \<in> set (drives d)" "drive_tape x = Some t" by (rule drive_occupant_SomeE)
    with catalog_drive_row [OF assms] obtain r where "r \<in> set (tapes d)" "tape_id r = t" by blast
    with tape_by_id_unique [OF keys] show ?thesis by (auto simp: name_of_def)
  qed
qed

section \<open>Load\<close>

lemma load_tape_tx_view:
  assumes run: "load_tape_tx lib s k d = Inr (t, d')" and dr: "has_drive d lib k"
    and s: "0 \<le> s" "s < 1000" "kind_of d lib s = Some 0" and k: "0 \<le> k" "k < 1000"
  shows "db_at d' lib = (db_at d lib)(s := None, 1000 + k := db_at d lib s)"
proof
  fix e
  from run have occ: "slot_occupant d lib s = Some t"
    and d': "d' = set_slot_tape lib s None (update_tape t (in_slot_row None) (set_drive_tape lib k (Some t) d))"
    by (auto simp: load_tape_tx_Inr)
  have slot': "slot_occupant d' lib n = (if n = s then None else slot_occupant d lib n)" for n
    using occupant_has(1) [OF occ] by (simp add: d' slot_occupant_set_iff)
  have drive': "drive_occupant d' lib n = (if n = k then Some t else drive_occupant d lib n)" for n
    using dr by (simp add: d' drive_occupant_set_iff)
  have frames: "kind_of d' = kind_of d" "name_of d' = name_of d" by (simp_all add: d')
  show "db_at d' lib e = ((db_at d lib)(s := None, 1000 + k := db_at d lib s)) e"
    using s k occ by (auto simp: db_at_def slot' drive' frames Let_def element_bases)
qed

text \<open>A move in the view is a move of the changer, which accepts it.\<close>

lemma move_agrees:
  assumes ag: "agrees d lib c" and view: "db_at d' lib = (db_at d lib)(a := None, b := db_at d lib a)"
    and src: "db_at d lib a = Some n" and dst: "db_at d lib b = None" "changer_valid c b"
  shows "\<exists>c'. move_medium a b c = (None, c') \<and> agrees d' lib c'"
proof -
  have at: "changer_at c a = Some n" "changer_at c b = None" using ag src dst by (simp_all add: agrees_def)
  obtain r c' where move: "move_medium a b c = (r, c')" by (cases "move_medium a b c")
  have "r = None" using kc.move_enabled [of c a b] at dst move by simp
  with move have moved: "move_medium a b c = (None, c')" by simp
  with kc.move_success [OF moved] ag view show ?thesis by (auto simp: agrees_def)
qed

lemma load_agrees:
  assumes ok: "catalog_ok d" and ag: "agrees d lib c" and run: "load_tape_tx lib s k d = Inr (t, d')"
    and dr: "has_drive d lib k" and s: "0 \<le> s" "s < 1000" "kind_of d lib s = Some 0"
    and k: "0 \<le> k" "k < 1000" "changer_valid c (1000 + k)" and n: "name_of d t = Some n"
  shows "\<exists>c'. load_slot_to_drive op s k n (tab, c) = (None, tab, c') \<and> agrees d' lib c'"
proof -
  from run have occ: "slot_occupant d lib s = Some t" "drive_occupant d lib k = None" by (auto simp: load_tape_tx_Inr)
  have at_s: "db_at d lib s = Some n" using occ n s by (simp add: db_at_def element_bases)
  have at_k: "db_at d lib (1000 + k) = None" using occ k by (simp add: db_at_def element_bases)
  from move_agrees [OF ag load_tape_tx_view [OF run dr s k(1,2)] at_s at_k k(3)]
  obtain c' where c': "move_medium s (1000 + k) c = (None, c')" "agrees d' lib c'" by blast
  have "changer_at c s = Some n" using ag at_s by (simp add: agrees_def)
  then have "s < int (length (ch_slots c))" "ch_slots c ! nat s = Some n"
    using s by (auto simp: changer_at_def element_def split: if_splits)
  moreover have "k < int (length (ch_drives c))"
    using k by (auto simp: changer_valid_def element_def element_bases split: if_splits)
  ultimately show ?thesis
    using s k c' by (simp add: load_slot_to_drive_def VTL_ELEM_DRIVE_BASE_def)
qed

section \<open>Unload and eject\<close>

lemma free_slot_view:
  assumes "keys_ok d" and "first_free_slot d lib ie = Some s"
  shows "slot_occupant d lib s = None" "has_slot d lib s" "(kind_of d lib s \<noteq> Some 0) = ie"
proof -
  from first_free_slot_Some [OF assms(2)] obtain r where r: "r \<in> set (slots d)" "slot_lib r = lib" "slot_no r = s"
    "slot_tape r = None" "(slot_ie r \<noteq> 0) = ie" by blast
  with find_slot_unique [OF assms(1) r(1)] show "slot_occupant d lib s = None" "has_slot d lib s"
    "(kind_of d lib s \<noteq> Some 0) = ie"
    by (auto simp: slot_occupant_def kind_of_def has_slot_def)
qed

lemma unload_tape_tx_view:
  assumes ok: "catalog_ok d" and run: "unload_tape_tx lib k d = Inr (t, s, d')"
    and s: "0 \<le> s" "s < 1000" and k: "0 \<le> k" "k < 1000"
  shows "db_at d' lib = (db_at d lib)(1000 + k := None, s := db_at d lib (1000 + k))"
proof
  fix e
  have keys: "keys_ok d" using ok by (simp add: catalog_ok_def)
  note free = free_slot_view [OF keys unload_tape_tx_target [OF ok run]]
  from run have occ: "drive_occupant d lib k = Some t"
    and d': "d' = set_drive_tape lib k None (set_slot_tape lib s (Some t) (update_tape t (in_slot_row (Some s)) d))"
    by (auto simp: unload_tape_tx_Inr)
  have slot': "slot_occupant d' lib n = (if n = s then Some t else slot_occupant d lib n)" for n
    using free(2) by (simp add: d' slot_occupant_set_iff)
  have drive': "drive_occupant d' lib n = (if n = k then None else drive_occupant d lib n)" for n
    using occupant_has(2) [OF occ] by (simp add: d' drive_occupant_set_iff)
  have frames: "kind_of d' = kind_of d" "name_of d' = name_of d" by (simp_all add: d')
  show "db_at d' lib e = ((db_at d lib)(1000 + k := None, s := db_at d lib (1000 + k))) e"
    using s k occ free by (auto simp: db_at_def slot' drive' frames Let_def element_bases)
qed

lemma unload_agrees:
  assumes ok: "catalog_ok d" and ag: "agrees d lib c" and run: "unload_tape_tx lib k d = Inr (t, s, d')"
    and s: "0 \<le> s" "s < 1000" "changer_valid c s" and k: "0 \<le> k" "k < 1000"
  shows "\<exists>c'. unload_drive_to_slot k s c = (None, c') \<and> agrees d' lib c'"
proof -
  have keys: "keys_ok d" using ok by (simp add: catalog_ok_def)
  note free = free_slot_view [OF keys unload_tape_tx_target [OF ok run]]
  from run have occ: "drive_occupant d lib k = Some t" by (auto simp: unload_tape_tx_Inr)
  obtain n where n: "name_of d t = Some n" using occupant_named(2) [OF ok occ] by auto
  have at_k: "db_at d lib (1000 + k) = Some n" using occ n k by (simp add: db_at_def element_bases)
  have at_s: "db_at d lib s = None" using free s by (simp add: db_at_def element_bases)
  from move_agrees [OF ag unload_tape_tx_view [OF ok run s(1,2) k] at_k at_s s(3)]
  obtain c' where c': "move_medium (1000 + k) s c = (None, c')" "agrees d' lib c'" by blast
  have "changer_valid c (1000 + k)"
    using ag at_k kc.at_valid [of c "1000 + k" n] by (simp add: agrees_def)
  then have "k < int (length (ch_drives c))" "s < int (length (ch_slots c))"
    using k s by (auto simp: changer_valid_def element_def element_bases split: if_splits)
  with c' s k show ?thesis by (simp add: unload_drive_to_slot_def VTL_ELEM_DRIVE_BASE_def)
qed

lemma eject_agrees:
  assumes ok: "catalog_ok d" and ag: "agrees d lib c" and run: "eject_tape_tx lib s d = Inr (t, m, d')"
    and s: "0 \<le> s" "s < 1000" "kind_of d lib s = Some 0"
    and m: "MAILSLOT_OFFSET \<le> m" "changer_valid c (db_mailslot_to_element m)"
  shows "\<exists>c'. move_medium s (db_mailslot_to_element m) c = (None, c') \<and> agrees d' lib c'"
proof -
  have keys: "keys_ok d" using ok by (simp add: catalog_ok_def)
  from run have occ: "slot_occupant d lib s = Some t" and free_m: "first_free_slot d lib True = Some m"
    and d': "d' = set_slot_tape lib m (Some t) (set_slot_tape lib s None (update_tape t (in_slot_row (Some m)) d))"
    by (auto simp: eject_tape_tx_Inr)
  note free = free_slot_view [OF keys free_m]
  have ms: "m \<noteq> s" using free occ by auto
  obtain i where i: "kind_of d lib m = Some i" "i \<noteq> 0"
    using free(2,3) find_slot_unique [OF keys] by (auto simp: kind_of_def has_slot_def)
  have slot': "slot_occupant d' lib n = (if n = m then Some t else if n = s then None else slot_occupant d lib n)" for n
    using free(2) occupant_has(1) [OF occ] by (simp add: d' slot_occupant_set_iff)
  have frames: "kind_of d' = kind_of d" "name_of d' = name_of d" "drive_occupant d' = drive_occupant d"
    by (simp_all add: d')
  have el: "db_mailslot_to_element m = 2000 + (m - 100)"
    by (simp add: db_mailslot_to_element_def MAILSLOT_OFFSET_def VTL_ELEM_IE_BASE_def)
  have view: "db_at d' lib = (db_at d lib)(s := None, db_mailslot_to_element m := db_at d lib s)"
  proof
    fix e
    show "db_at d' lib e = ((db_at d lib)(s := None, db_mailslot_to_element m := db_at d lib s)) e"
      using s m occ free ms i unfolding el
      by (auto simp: db_at_def slot' frames Let_def element_bases MAILSLOT_OFFSET_def)
  qed
  obtain n where n: "name_of d t = Some n" using occupant_named(1) [OF ok occ] by auto
  have at_s: "db_at d lib s = Some n" using occ n s by (simp add: db_at_def element_bases)
  have at_m: "db_at d lib (db_mailslot_to_element m) = None"
    using free m unfolding el by (simp add: db_at_def Let_def element_bases MAILSLOT_OFFSET_def)
  show ?thesis by (rule move_agrees [OF ag view at_s at_m m(2)])
qed

section \<open>From a mail slot\<close>

text \<open>
  The commands accept the name of a mail slot as a source and pass its number to the kernel unchanged,
  as if it were the address of a data slot. The kernel's mail slots, which are elsewhere, keep what
  they have, and the two do not agree any more.
\<close>

lemma mail_view:
  assumes "MAILSLOT_OFFSET \<le> s" "kind_of d lib s \<notin> {None, Some 0}"
  shows "db_at d lib (db_mailslot_to_element s) = Option.bind (slot_occupant d lib s) (name_of d)"
  using assms by (simp add: db_at_def db_mailslot_to_element_def element_bases MAILSLOT_OFFSET_def)

lemma mail_at: "changer_at c (VTL_ELEM_IE_BASE + i) =
    (if 0 \<le> i \<and> i < int (length (ch_mail c)) then ch_mail c ! nat i else None)" if "0 \<le> i"
  using that by (simp add: changer_at_def element_def element_bases)

lemma load_keeps_mail:
  assumes "0 \<le> k" "k < 1000" "s < 1000"
  shows "ch_mail (snd (snd (load_slot_to_drive op s k n (tab, c)))) = ch_mail c"
  using assms
  by (auto simp: load_slot_to_drive_def move_medium_def slot_place_def element_def element_bases Let_def
      split: option.splits prod.splits sum.splits if_splits)

lemma mail_source_disagrees:
  assumes ok: "catalog_ok d" and ag: "agrees d lib c" and s: "MAILSLOT_OFFSET \<le> s" "kind_of d lib s \<noteq> Some 0"
    and occ: "slot_occupant d lib s = Some t" and left: "slot_occupant d' lib s = None"
    and mail: "ch_mail c' = ch_mail c" and kind: "kind_of d' = kind_of d"
  shows "\<not> agrees d' lib c'"
proof
  assume ag': "agrees d' lib c'"
  obtain n where n: "name_of d t = Some n" using occupant_named(1) [OF ok occ] by auto
  have "has_slot d lib s" by (rule occupant_has(1) [OF occ])
  then have ie: "kind_of d lib s \<notin> {None, Some 0}"
    using s(2) find_slot_unique ok by (auto simp: kind_of_def has_slot_def catalog_ok_def)
  have "db_at d lib (db_mailslot_to_element s) = Some n" "db_at d' lib (db_mailslot_to_element s) = None"
    using mail_view [OF s(1) ie] mail_view [OF s(1), of d' lib] ie by (simp_all add: kind occ n left)
  moreover have "changer_at c' (db_mailslot_to_element s) = changer_at c (db_mailslot_to_element s)"
    using s(1) mail_at [of "s - MAILSLOT_OFFSET"] by (simp add: db_mailslot_to_element_def mail)
  ultimately show False using ag ag' by (simp add: agrees_def)
qed

lemma load_from_mail_disagrees:
  assumes ok: "catalog_ok d" and ag: "agrees d lib c" and run: "load_tape_tx lib s k d = Inr (t, d')"
    and s: "MAILSLOT_OFFSET \<le> s" "s < 1000" "kind_of d lib s \<noteq> Some 0" and k: "0 \<le> k" "k < 1000"
  shows "\<not> agrees d' lib (snd (snd (load_slot_to_drive op s k n (tab, c))))"
proof (rule mail_source_disagrees [OF ok ag s(1,3)])
  from run have occ: "slot_occupant d lib s = Some t"
    and d': "d' = set_slot_tape lib s None (update_tape t (in_slot_row None) (set_drive_tape lib k (Some t) d))"
    by (auto simp: load_tape_tx_Inr)
  show "slot_occupant d lib s = Some t" by (rule occ)
  show "slot_occupant d' lib s = None" using occupant_has(1) [OF occ] by (simp add: d' slot_occupant_set_iff)
  show "kind_of d' = kind_of d" by (simp add: d')
  show "ch_mail (snd (snd (load_slot_to_drive op s k n (tab, c)))) = ch_mail c" by (rule load_keeps_mail [OF k s(2)])
qed

lemma eject_from_mail_refused:
  assumes ok: "catalog_ok d" and ag: "agrees d lib c" and run: "eject_tape_tx lib s d = Inr (t, m, d')"
    and s: "MAILSLOT_OFFSET \<le> s" "s < 1000" "kind_of d lib s \<noteq> Some 0"
  shows "\<exists>e. move_medium s a c = (Some e, c)" and "\<not> agrees d' lib c"
proof -
  have keys: "keys_ok d" using ok by (simp add: catalog_ok_def)
  from run have occ: "slot_occupant d lib s = Some t" and free_m: "first_free_slot d lib True = Some m"
    and d': "d' = set_slot_tape lib m (Some t) (set_slot_tape lib s None (update_tape t (in_slot_row (Some m)) d))"
    by (auto simp: eject_tape_tx_Inr)
  note free = free_slot_view [OF keys free_m]
  have "changer_at c s = None"
    using ag s by (auto simp: agrees_def fun_eq_iff db_at_def element_bases MAILSLOT_OFFSET_def dest!: spec [of _ s])
  then have "fst (move_medium s a c) \<noteq> None" using kc.move_success [of s a c "snd (move_medium s a c)"]
    by (auto simp: prod_eq_iff)
  then show "\<exists>e. move_medium s a c = (Some e, c)" by (cases rule: kc.move_cases [of s a c]) simp_all
  have "m \<noteq> s" using free occ by auto
  then show "\<not> agrees d' lib c"
    using free(2) occupant_has(1) [OF occ]
    by (intro mail_source_disagrees [OF ok ag s(1,3) occ]) (simp_all add: d' slot_occupant_set_iff)
qed

lemma load_beyond_slots:
  "int (length (ch_slots c)) \<le> s \<Longrightarrow> load_slot_to_drive op s k n (tab, c) = (Some EINVAL, tab, c)"
  by (simp add: load_slot_to_drive_def)

end
