(* ===== verification/Samples.thy ===== *)
theory Samples
  imports LibraryKeeps Agreement
begin

text \<open>
  A concrete site for the witnesses: a library with two data slots, one mail slot and one drive,
  three tapes (one in a slot, one on the shelf, one in the slot of a second library), the image
  files at the default tape directory, and a kernel module whose changer agrees with the catalogue.
\<close>

definition sample_tape :: "int \<Rightarrow> string \<Rightarrow> int option \<Rightarrow> int option \<Rightarrow> tape_row" where
  "sample_tape i n sh s =
     \<lparr>tape_id = i, tape_lib = 1, tape_shelf = sh, tape_barcode = ''VTL'' @ n, tape_name = n,
      tape_slot = s, tape_capacity = 1024, tape_used = 0, tape_created = [],
      tape_image = [''opt'', ''vtladm'', ''var'', ''tapes'', ''lib'', n @ ''.vtltape'']\<rparr>"

definition sample_db :: db where
  "sample_db =
     \<lparr>libs = [\<lparr>lib_id = 1, lib_name = ''lib'', lib_created = []\<rparr>,
              \<lparr>lib_id = 2, lib_name = ''__offline__'', lib_created = []\<rparr>],
      shelves = [\<lparr>shelf_id = 1, shelf_lib = 1, shelf_name = ''unused'', shelf_default = 1\<rparr>,
                 \<lparr>shelf_id = 2, shelf_lib = 2, shelf_name = ''unused'', shelf_default = 1\<rparr>],
      lib_config = [],
      tapes = [sample_tape 1 ''t1'' None (Some 0), sample_tape 2 ''t2'' (Some 1) None],
      slots = [\<lparr>slot_lib = 1, slot_no = 0, slot_tape = Some 1, slot_ie = 0\<rparr>,
               \<lparr>slot_lib = 1, slot_no = 1, slot_tape = None, slot_ie = 0\<rparr>,
               \<lparr>slot_lib = 1, slot_no = 100, slot_tape = None, slot_ie = 1\<rparr>],
      drives = [\<lparr>drive_lib = 1, drive_no = 0, drive_tape = None\<rparr>],
      config = [], tags = [], tape_tags = [], exports = [],
      seq_lib = 2, seq_shelf = 2, seq_tape = 2\<rparr>"

text \<open>The same catalogue after the first tape has been loaded.\<close>

definition sample_loaded :: db where
  "sample_loaded =
     sample_db\<lparr>tapes := [sample_tape 1 ''t1'' None None, sample_tape 2 ''t2'' (Some 1) None],
               slots := [\<lparr>slot_lib = 1, slot_no = 0, slot_tape = None, slot_ie = 0\<rparr>,
                         \<lparr>slot_lib = 1, slot_no = 1, slot_tape = None, slot_ie = 0\<rparr>,
                         \<lparr>slot_lib = 1, slot_no = 100, slot_tape = None, slot_ie = 1\<rparr>],
               drives := [\<lparr>drive_lib = 1, drive_no = 0, drive_tape = Some 1\<rparr>]\<rparr>"

definition sample_changer :: changer where
  "sample_changer = \<lparr>ch_slots = [Some ''t1'', None], ch_drives = [None], ch_mail = [None]\<rparr>"

definition sample_fs :: fs where
  "sample_fs =
     \<lparr>nodes = [([''opt''], Dir), ([''opt'', ''vtladm''], Dir), ([''opt'', ''vtladm'', ''var''], Dir),
               ([''opt'', ''vtladm'', ''var'', ''tapes''], Dir),
               ([''opt'', ''vtladm'', ''var'', ''tapes'', ''lib''], Dir),
               ([''opt'', ''vtladm'', ''var'', ''tapes'', ''lib'', ''t1.vtltape''], Reg 1),
               ([''opt'', ''vtladm'', ''var'', ''tapes'', ''lib'', ''t2.vtltape''], Reg 2)],
      inodes = [], next_ino = 3, fs_fault = (\<lambda>_. None)\<rparr>"

definition sample_world :: world where
  "sample_world =
     \<lparr>w_db = sample_db, w_tables = True, w_fs = sample_fs, w_cfg = default_config, w_conf_file = None,
      w_env = (\<lambda>_. None), w_lib = ''lib'',
      w_kernel = \<lparr>k_hosts = [sample_changer], k_tapes = [''t1''],
                  k_dir = [''opt'', ''vtladm'', ''var'', ''tapes''], k_sysfs = True, k_dev = None, k_admin = True\<rparr>,
      w_now = [], w_random = (\<lambda>_. 0), w_draws = 0, w_fault = (\<lambda>_. False)\<rparr>"

definition sample_site :: site where
  "sample_site = \<lparr>st_world = sample_world, st_hist = [], st_cache = None\<rparr>"

definition sample_outside :: outside where
  "sample_outside =
     \<lparr>o_sysfs_spec = (\<lambda>_. None), o_fuser = (\<lambda>_. True), o_lsscsi = (\<lambda>_. Some []), o_held = (\<lambda>_ _. False),
      o_configfs = (\<lambda>_. None), o_targetcli = (\<lambda>_. None), o_scsi_hosts = (\<lambda>_. None),
      o_scan_write = (\<lambda>_ _. True), o_cache_write = (\<lambda>_. True),
      o_set_instances = (\<lambda>_ _ k. (None, k)), o_reload = (\<lambda>_ k. (True, k)),
      o_script = (\<lambda>_ k. (True, k))\<rparr>"

lemmas sample_defs = sample_db_def sample_tape_def sample_loaded_def sample_changer_def

lemma sample_db_ok: "catalog_ok sample_db"
  by (simp add: sample_defs catalog_ok_def keys_ok_def slots_placed_def drives_placed_def
      drives_exclusive_def shelf_xor_slot_def)

lemma sample_loaded_ok: "catalog_ok sample_loaded"
  by (simp add: sample_defs catalog_ok_def keys_ok_def slots_placed_def drives_placed_def
      drives_exclusive_def shelf_xor_slot_def)

end
