(* ===== verification/CatalogProperties.thy ===== *)
theory CatalogProperties
  imports Samples
begin

text \<open>
  The properties of the catalogue: each robot transaction refines one update of the map from tapes
  to places, the commands keep the catalogue consistent, no transaction loses a tape whose target
  exists, and the transactions that may fail for reasons of the schema do not.
\<close>

section \<open>One move at a time\<close>

text \<open>C2: loading moves exactly one tape. When the drive exists, the abstract map from tapes to
  places changes at the tape of the addressed slot only, which is then in the drive.\<close>

theorem load_moves_one_tape:
  assumes "catalog_ok d" and "load_tape_tx lib s k d = Inr (t, d')" and "has_drive d lib k"
  shows "slot_occupant d lib s = Some t \<and> places d' = (places d)(t \<mapsto> InDrive lib k)"
  using assms load_tape_tx_places by (auto simp: load_tape_tx_Inr)

theorem load_moves_one_tape_witness:
  "load_tape_tx 1 0 0 sample_db = Inr (1, sample_loaded) \<and>
   places sample_loaded = (places sample_db)(1 \<mapsto> InDrive 1 0)"
proof -
  have run: "load_tape_tx 1 0 0 sample_db = Inr (1, sample_loaded)" by code_simp
  have "has_drive sample_db 1 0" by code_simp
  with load_moves_one_tape [OF sample_db_ok run] run show ?thesis by simp
qed

text \<open>C3: unloading moves exactly one tape, from the drive into the free data slot with the
  smallest number.\<close>

theorem unload_moves_one_tape:
  assumes "catalog_ok d" and "unload_tape_tx lib k d = Inr (t, s, d')"
  shows "drive_occupant d lib k = Some t \<and> first_free_slot d lib False = Some s \<and>
    places d' = (places d)(t \<mapsto> InSlot lib s)"
  using assms unload_tape_tx_places unload_tape_tx_target by (auto simp: unload_tape_tx_Inr)

definition sample_unloaded :: db where
  "sample_unloaded =
     (case unload_tape_tx 1 0 sample_loaded of Inr (t, s, d) \<Rightarrow> d | Inl e \<Rightarrow> sample_db)"

theorem unload_moves_one_tape_witness:
  "unload_tape_tx 1 0 sample_loaded = Inr (1, 0, sample_unloaded) \<and>
   places sample_unloaded = (places sample_loaded)(1 \<mapsto> InSlot 1 0)"
proof -
  have run: "unload_tape_tx 1 0 sample_loaded = Inr (1, 0, sample_unloaded)" by code_simp
  from unload_moves_one_tape [OF sample_loaded_ok run] run show ?thesis by simp
qed

text \<open>C40: ejecting moves exactly one tape, from the addressed slot into the free mail slot with
  the smallest number, and no other tape.\<close>

theorem eject_moves_one_tape:
  assumes "catalog_ok d" and "eject_tape_tx lib s d = Inr (t, m, d')"
  shows "slot_occupant d lib s = Some t \<and> first_free_slot d lib True = Some m \<and>
    places d' = (places d)(t \<mapsto> InSlot lib m)"
  using assms eject_tape_tx_places by (auto simp: eject_tape_tx_Inr)

definition sample_ejected :: db where
  "sample_ejected = (case eject_tape_tx 1 0 sample_db of Inr (t, m, d) \<Rightarrow> d | Inl e \<Rightarrow> sample_db)"

theorem eject_moves_one_tape_witness:
  "eject_tape_tx 1 0 sample_db = Inr (1, 100, sample_ejected) \<and>
   places sample_ejected = (places sample_db)(1 \<mapsto> InSlot 1 100)"
proof -
  have run: "eject_tape_tx 1 0 sample_db = Inr (1, 100, sample_ejected)" by code_simp
  from eject_moves_one_tape [OF sample_db_ok run] run show ?thesis by simp
qed

text \<open>C4: assigning moves exactly one tape, from its shelf into the addressed slot, when the slot
  exists; the slot was empty before.\<close>

theorem assign_moves_one_tape:
  assumes "catalog_ok d" and "assign_one_tape_to_slot lib n s d = Inr d'" and "has_slot d lib s"
  shows "\<exists>r. find_tape d lib n = Some r \<and> tape_shelf r \<noteq> None \<and> slot_occupant d lib s = None \<and>
    places d' = (places d)(tape_id r \<mapsto> InSlot lib s)"
proof -
  from assms(2) obtain r where r: "tape_ready d lib n = Inr r" "\<not> slot_occupied d lib s"
    by (auto simp: assign_one_tape_to_slot_Inr)
  have "slot_occupant d lib s = None"
    using r(2) by (auto simp: slot_occupant_def slot_occupied_def count_where_0 split: bind_splits
        dest: find_slot_Some)
  with r(1) assign_one_tape_to_slot_places [OF assms] show ?thesis by (auto simp: tape_ready_Inr)
qed

definition sample_assigned :: db where
  "sample_assigned = (case assign_one_tape_to_slot 1 ''t2'' 1 sample_db of Inr d \<Rightarrow> d | Inl e \<Rightarrow> sample_db)"

theorem assign_moves_one_tape_witness:
  "assign_one_tape_to_slot 1 ''t2'' 1 sample_db = Inr sample_assigned \<and>
   places sample_assigned = (places sample_db)(2 \<mapsto> InSlot 1 1)"
proof -
  have run: "assign_one_tape_to_slot 1 ''t2'' 1 sample_db = Inr sample_assigned" by code_simp
  have "has_slot sample_db 1 1" by code_simp
  from assign_moves_one_tape [OF sample_db_ok run this] obtain r where
    "find_tape sample_db 1 ''t2'' = Some r" "places sample_assigned = (places sample_db)(tape_id r \<mapsto> InSlot 1 1)"
    by blast
  moreover have "map_option tape_id (find_tape sample_db 1 ''t2'') = Some 2" by code_simp
  ultimately show ?thesis using run by simp
qed

section \<open>No tape is lost, and no tape is stuck\<close>

lemma move_keeps_located:
  assumes "catalog_ok d" "all_located d" "catalog_ok d'" "places d' = (places d)(t \<mapsto> p)"
    and "map tape_id (tapes d') = map tape_id (tapes d)"
  shows "all_located d'"
  using all_located_update [OF assms(2) _ _ assms(4,5)] assms(1,3) by (simp add: catalog_ok_def)

lemma assign_keeps_located:
  assumes ok: "catalog_ok d" and all: "all_located d"
    and run: "assign_one_tape_to_slot lib n s d = Inr d'" and sl: "has_slot d lib s"
  shows "all_located d'"
proof -
  obtain r :: tape_row where r: "places d' = (places d)(tape_id r \<mapsto> InSlot lib s)"
    using assign_one_tape_to_slot_places [OF ok run sl] by metis
  show ?thesis
    by (rule move_keeps_located [OF ok all assign_one_tape_to_slot_ok [OF ok run] r])
       (use run in \<open>auto simp: assign_one_tape_to_slot_Inr\<close>)
qed

text \<open>C5: as long as the addressed drive and slot exist, no robot transaction loses a tape: if
  every tape of the catalogue is on a shelf, in a slot or in a drive, the same holds afterwards.\<close>

theorem robot_transactions_lose_no_tape:
  assumes ok: "catalog_ok d" and all: "all_located d"
  shows "(load_tape_tx lib s k d = Inr (t, d1) \<longrightarrow> has_drive d lib k \<longrightarrow> all_located d1) \<and>
    (unload_tape_tx lib k d = Inr (t, m, d2) \<longrightarrow> all_located d2) \<and>
    (eject_tape_tx lib s d = Inr (t, m, d3) \<longrightarrow> all_located d3) \<and>
    (assign_one_tape_to_slot lib n s d = Inr d4 \<longrightarrow> has_slot d lib s \<longrightarrow> all_located d4)"
proof (intro conjI impI)
  show "all_located d1" if run: "load_tape_tx lib s k d = Inr (t, d1)" and dr: "has_drive d lib k"
    by (rule move_keeps_located [OF ok all load_tape_tx_ok [OF ok run] load_tape_tx_places [OF ok run dr]])
       (use run in \<open>auto simp: load_tape_tx_Inr\<close>)
  show "all_located d2" if run: "unload_tape_tx lib k d = Inr (t, m, d2)"
    by (rule move_keeps_located [OF ok all unload_tape_tx_ok [OF ok run] unload_tape_tx_places [OF ok run]])
       (use run in \<open>auto simp: unload_tape_tx_Inr\<close>)
  show "all_located d3" if run: "eject_tape_tx lib s d = Inr (t, m, d3)"
    by (rule move_keeps_located [OF ok all eject_tape_tx_ok [OF ok run] eject_tape_tx_places [OF ok run]])
       (use run in \<open>auto simp: eject_tape_tx_Inr\<close>)
  show "all_located d4" if run: "assign_one_tape_to_slot lib n s d = Inr d4" and sl: "has_slot d lib s"
    by (rule assign_keeps_located [OF ok all run sl])
qed

theorem robot_transactions_lose_no_tape_witness:
  "all_located sample_db \<and> all_located sample_loaded \<and> all_located sample_ejected \<and> all_located sample_assigned"
proof -
  have all: "all_located sample_db" by code_simp
  have "load_tape_tx 1 0 0 sample_db = Inr (1, sample_loaded)" "has_drive sample_db 1 0" by code_simp+
  moreover have "eject_tape_tx 1 0 sample_db = Inr (1, 100, sample_ejected)" by code_simp
  moreover have "assign_one_tape_to_slot 1 ''t2'' 1 sample_db = Inr sample_assigned" "has_slot sample_db 1 1"
    by code_simp+
  ultimately show ?thesis using all robot_transactions_lose_no_tape [OF sample_db_ok all] by blast
qed

text \<open>C27: in a consistent catalogue, the deletion of a tape of the library never meets a foreign key
  that refuses it, removes exactly the row of that tape, and keeps the catalogue consistent.\<close>

theorem delete_tape_never_refused:
  assumes ok: "catalog_ok d" and "r \<in> set (tapes d)" and "tape_lib r = lib"
  shows "\<exists>d'. delete_tape_tx lib (tape_id r) d = Inr d' \<and> catalog_ok d' \<and>
    set (tapes d') = {q \<in> set (tapes d). tape_id q \<noteq> tape_id r}"
proof -
  from delete_tape_tx_succeeds [OF assms] obtain d' where run: "delete_tape_tx lib (tape_id r) d = Inr d'" by blast
  moreover have "set (tapes d') = {q \<in> set (tapes d). tape_id q \<noteq> tape_id r}"
    using run by (auto simp: delete_tape_tx_def Let_def delete_tapes_Inr set_delete_where)
  ultimately show ?thesis using delete_tape_tx_ok [OF ok run] by blast
qed

theorem delete_tape_never_refused_witness:
  "\<exists>d'. delete_tape_tx 1 1 sample_loaded = Inr d' \<and> catalog_ok d' \<and>
    set (tapes d') = {q \<in> set (tapes sample_loaded). tape_id q \<noteq> 1}"
  using delete_tape_never_refused [OF sample_loaded_ok, of "sample_tape 1 ''t1'' None None" 1]
  by (simp add: sample_defs)

text \<open>C30: the quota is enforced. A tape that passed the quota check and went into the table leaves
  the library within both of its limits, provided that the capacities so far fit a 64-bit sum and
  the tapes a 32-bit count.\<close>

theorem quota_is_enforced:
  assumes "check_quota_db (tape_capacity r) lib d = Inr ()" and "insert_tape r d = Inr (i, d')"
    and "tape_lib r = lib"
    and "sum_list (map tape_capacity (filter (\<lambda>r. tape_lib r = lib) (tapes d))) < 2 ^ 63"
    and "int (tape_count d lib) \<le> i32_max"
  shows "within_quota lib d'"
  by (rule check_quota_insert [OF assms])

definition sample_limited :: db where
  "sample_limited = sample_db\<lparr>lib_config := [((1, ''quota_max_tapes''), ''3''), ((1, ''quota_max_total_size''), ''4K'')]\<rparr>"

definition sample_third :: tape_row where
  "sample_third = (sample_tape 0 ''t3'' (Some 1) None)\<lparr>tape_capacity := 2048\<rparr>"

theorem quota_is_enforced_witness:
  "check_quota_db 2048 1 sample_limited = Inr () \<and>
   (\<exists>d'. insert_tape sample_third sample_limited = Inr (3, d') \<and> within_quota 1 d') \<and>
   is_ok (check_quota_db 2049 1 sample_limited) = False"
proof -
  have "show_nat 4 @ ''K'' = ''4K''" by code_simp
  then have size: "parse_size ''4K'' = Inr 4096"
    using parse_size_unit [of 4 "''K''" 10] by (simp add: size_exponent_def u64_max_def)
  have count: "parse_i32 ''3'' = Some 3" by code_simp
  have chk: "check_quota_db n 1 sample_limited = Inr () \<longleftrightarrow> n \<le> 2048" if "n < 4096" for n
    using that
    by (simp add: check_quota_db_def quota_value_def lib_config_get_def sample_limited_def sample_defs size count
        current_total_def current_count_def tape_count_def i32_max_def)
  obtain d' where ins: "insert_tape sample_third sample_limited = Inr (3, d')"
    by (simp add: insert_tape_def sample_third_def sample_limited_def sample_defs Let_def)
  have "within_quota 1 d'"
  proof (rule quota_is_enforced [OF _ ins])
    show "check_quota_db (tape_capacity sample_third) 1 sample_limited = Inr ()"
      using chk [of 2048] by (simp add: sample_third_def)
  qed (simp_all add: sample_third_def sample_limited_def sample_defs tape_count_def i32_max_def)
  with chk [of 2048] chk [of 2049] ins show ?thesis
    by (cases "check_quota_db 2049 1 sample_limited") auto
qed

section \<open>Libraries\<close>

text \<open>C29: a library that is created afresh gets the rows \<open>0 .. slots - 1\<close> as data slots, the drives
  \<open>0 .. drives - 1\<close>, and of the mail slots \<open>100 .. 103\<close> exactly those that no data slot has taken.\<close>

theorem create_library_rows:
  assumes "create_library_tx name drv slt now d = Inr d'" and "resolve_library_id d name = Inl e"
    and "\<forall>x \<in> set (slots d). slot_lib x \<le> seq_lib d" and "\<forall>x \<in> set (drives d). drive_lib x \<le> seq_lib d"
  shows "\<exists>lib. resolve_library_id d' name = Inr lib \<and>
     slot_kinds d' = slot_kinds d \<union> {(lib, s, 0) | s. 0 \<le> s \<and> s < slt} \<union>
                     {(lib, s, 1) | s. 100 \<le> s \<and> s < 104 \<and> slt \<le> s} \<and>
     drive_keys d' = drive_keys d \<union> {(lib, k) | k. 0 \<le> k \<and> k < drv} \<and> tapes d' = tapes d"
  by (rule create_library_tx_rows [OF assms])

lemma fresh_library:
  assumes run: "create_library_tx name drv slt now d = Inr d'" and "resolve_library_id d name = Inl e"
    and "resolve_library_id d' name = Inr lib"
  shows "lib = seq_lib d + 1"
proof -
  obtain lib' d1 where d1: "new_library name now d = Inr (lib', d1)" "libs d' = libs d1"
    using run assms(2) by (auto simp: create_library_tx_def)
  note n = new_library_Inr [OF d1(1)]
  have "List.find (\<lambda>r. lib_name r = name) (libs d) = None"
    using assms(2) by (auto simp: resolve_library_id_def find_library_def)
  then have "find_library d' name = Some \<lparr>lib_id = lib', lib_name = name, lib_created = now\<rparr>"
    using d1(2) n(3) by (simp add: find_library_def find_append_None)
  with assms(3) n(2) show ?thesis by (simp add: resolve_library_id_def)
qed

definition sample_created :: "int \<Rightarrow> db" where
  "sample_created slt = (case create_library_tx ''new'' 2 slt [] sample_db of Inr d \<Rightarrow> d | Inl e \<Rightarrow> sample_db)"

lemma sample_create_run:
  "create_library_tx ''new'' 2 slt [] sample_db = Inr (sample_created slt)"
  "resolve_library_id sample_db ''new'' = Inl (LibraryNotFound ''new'')"
  "\<forall>x \<in> set (slots sample_db). slot_lib x \<le> seq_lib sample_db"
  "\<forall>x \<in> set (drives sample_db). drive_lib x \<le> seq_lib sample_db"
proof -
  have is_ok_new: "is_ok (new_library ''new'' [] sample_db)" by code_simp
  have lib: "resolve_library_id sample_db ''new'' = Inl (LibraryNotFound ''new'')" by code_simp
  obtain p where "new_library ''new'' [] sample_db = Inr p"
    using is_ok_new by (cases "new_library ''new'' [] sample_db") auto
  then show "create_library_tx ''new'' 2 slt [] sample_db = Inr (sample_created slt)"
    by (cases p) (auto simp: sample_created_def create_library_tx_def lib)
  show "resolve_library_id sample_db ''new'' = Inl (LibraryNotFound ''new'')" by (rule lib)
qed code_simp+

theorem create_library_rows_witness:
  "\<exists>lib. resolve_library_id (sample_created 10) ''new'' = Inr lib \<and>
     slot_kinds (sample_created 10) = slot_kinds sample_db \<union> {(lib, s, 0) | s. 0 \<le> s \<and> s < 10} \<union>
                     {(lib, s, 1) | s. 100 \<le> s \<and> s < 104 \<and> 10 \<le> s}"
  using create_library_rows [OF sample_create_run] by blast

text \<open>A library with at least 104 data slots has no mail slot, so no tape of it can ever be
  ejected: whatever the catalogue holds later, as long as its slot rows are those of the creation,
  an eject fails.\<close>

theorem large_library_cannot_eject:
  assumes run: "create_library_tx name drv slt now d = Inr d'" and "resolve_library_id d name = Inl e"
    and fresh: "\<forall>x \<in> set (slots d). slot_lib x \<le> seq_lib d" "\<forall>x \<in> set (drives d). drive_lib x \<le> seq_lib d"
    and "104 \<le> slt" and "resolve_library_id d' name = Inr lib" and same: "slot_kinds d'' = slot_kinds d'"
  shows "eject_tape_tx lib s d'' \<in> {Inl SlotEmpty, Inl NoAvailableSlots}"
proof -
  obtain e where "resolve_library_id d name = Inl e" using assms(2) by blast
  from create_library_tx_rows [OF run this fresh] assms(5,6)
  have kinds: "slot_kinds d' = slot_kinds d \<union> {(lib, s, 0) | s. 0 \<le> s \<and> s < slt}" by auto
  have none: "(lib, a, b) \<notin> slot_kinds d" for a b
    using fresh_library [OF assms(1,2) assms(6)] fresh(1) by (auto simp: slot_kinds_def)
  have "\<not> (slot_ie x \<noteq> 0)" if x: "x \<in> set (slots d'')" "slot_lib x = lib" for x
  proof -
    have "(lib, slot_no x, slot_ie x) \<in> slot_kinds d''" using x by (force simp: slot_kinds_def)
    with none show ?thesis by (simp add: same kinds)
  qed
  then have "first_free_slot d'' lib True = None" by (auto simp: first_free_slot_None)
  then show ?thesis
    by (cases "slot_occupant d'' lib s") (auto simp: eject_tape_tx_def)
qed

theorem large_library_cannot_eject_witness:
  "resolve_library_id (sample_created 104) ''new'' = Inr 3 \<and>
   eject_tape_tx 3 0 (sample_created 104) \<in> {Inl SlotEmpty, Inl NoAvailableSlots}"
proof -
  obtain lib where lib: "resolve_library_id (sample_created 104) ''new'' = Inr lib"
    using create_library_tx_rows [OF sample_create_run] by blast
  moreover have "lib = 3" using fresh_library [OF sample_create_run(1,2) lib] by (simp add: sample_db_def)
  ultimately show ?thesis
    using large_library_cannot_eject [OF sample_create_run, of 104 lib "sample_created 104" 0] by simp
qed

text \<open>C28: deleting a library is never refused by a foreign key, as long as the tapes lie on shelves
  of their own library, and leaves the rows of the other libraries as they are; the checks before
  it make sure that an online library remains.\<close>

theorem delete_library_leaves_the_others:
  assumes "catalog_ok d" and "shelves_local d"
  shows "\<exists>d'. delete_library_tx lib d = Inr d' \<and> catalog_ok d' \<and>
    set (tapes d') = {t \<in> set (tapes d). tape_lib t \<noteq> lib} \<and>
    set (slots d') = {r \<in> set (slots d). slot_lib r \<noteq> lib} \<and>
    set (drives d') = {r \<in> set (drives d). drive_lib r \<noteq> lib} \<and>
    set (libs d') = {r \<in> set (libs d). lib_id r \<noteq> lib} \<and>
    (delete_library_checks name d = Inr lib \<longrightarrow> 0 < count_exported_online_libraries d \<longrightarrow>
       0 < count_exported_online_libraries d')"
proof -
  obtain d' where run: "delete_library_tx lib d = Inr d'" using delete_library_tx_succeeds [OF assms] by blast
  have keys: "keys_ok d" using assms(1) by (simp add: catalog_ok_def)
  note rows = delete_library_tx_Inr [OF run] set_delete_where
  have one: "0 < count_exported_online_libraries d'"
    if "delete_library_checks name d = Inr lib" "0 < count_exported_online_libraries d"
    using delete_library_keeps_one [OF keys that(1) run that(2)] .
  show ?thesis
  proof (intro exI [of _ d'] conjI impI)
    show "delete_library_tx lib d = Inr d'" "catalog_ok d'"
      using run delete_library_tx_ok [OF assms(1) run] by simp_all
  qed (use one in \<open>auto simp: rows\<close>)
qed

theorem delete_library_leaves_the_others_witness:
  "\<exists>d'. delete_library_tx 1 sample_loaded = Inr d' \<and> catalog_ok d' \<and> tapes d' = []"
proof -
  have loc: "shelves_local sample_loaded" by (simp add: shelves_local_def sample_defs)
  have mine: "{t \<in> set (tapes sample_loaded). tape_lib t \<noteq> 1} = {}" by (auto simp: sample_defs)
  show ?thesis
    using delete_library_leaves_the_others [OF sample_loaded_ok loc, of 1 "''lib''"]
    unfolding mine by (elim exE conjE) (intro exI conjI, assumption+, simp)
qed

section \<open>Where tapes are lost\<close>

text \<open>The database part of a load does not check that the drive exists: loading into a drive
  number without a row takes the tape out of its slot and leaves it nowhere.\<close>

theorem load_into_missing_drive_loses_tape:
  assumes "catalog_ok d" and "load_tape_tx lib s k d = Inr (t, d')" and "\<not> has_drive d lib k"
  shows "located d t \<and> \<not> located d' t"
proof -
  have "slot_occupant d lib s = Some t" using assms(2) by (auto simp: load_tape_tx_Inr)
  then have "located d t" by (rule slot_occupant_SomeE) (auto simp: located_def in_slot_def)
  with load_tape_tx_missing_drive [OF assms] show ?thesis by simp
qed

theorem load_into_missing_drive_loses_tape_witness:
  "\<exists>d'. load_tape_tx 1 0 7 sample_db = Inr (1, d') \<and> located sample_db 1 \<and> \<not> located d' 1"
proof -
  have "map_option fst (case load_tape_tx 1 0 7 sample_db of Inr p \<Rightarrow> Some p | Inl e \<Rightarrow> None) = Some 1" by code_simp
  then obtain d' where run: "load_tape_tx 1 0 7 sample_db = Inr (1, d')" by (auto split: sum.splits)
  have "\<not> has_drive sample_db 1 7" by code_simp
  from load_into_missing_drive_loses_tape [OF sample_db_ok run this] run show ?thesis by blast
qed

text \<open>Importing an image under the name of a tape that is already in a slot puts the tape into
  a second slot: the catalogue is not consistent any more.\<close>

theorem import_of_slotted_tape_duplicates_it:
  assumes "catalog_ok d" and "r \<in> set (tapes d)" "tape_id r = t"
    and "x \<in> set (slots d)" "slot_lib x = lib" "slot_tape x = Some t" "slot_no x \<noteq> s"
    and "has_slot d lib s" and "import_tx lib name (Some t) s len bc now img d = Inr d'"
  shows "\<not> catalog_ok d'"
  using import_tx_existing_duplicates [OF _ assms(2-9)] assms(1) by (simp add: catalog_ok_def)

theorem import_of_slotted_tape_duplicates_it_witness:
  "\<exists>d'. import_tx 1 ''t1'' (Some 1) 1 5 [] [] [] sample_db = Inr d' \<and> \<not> catalog_ok d'"
proof -
  obtain d' where run: "import_tx 1 ''t1'' (Some 1) 1 5 [] [] [] sample_db = Inr d'" by (simp add: import_tx_def)
  have "\<not> catalog_ok d'"
    by (rule import_of_slotted_tape_duplicates_it [OF sample_db_ok, of "sample_tape 1 ''t1'' None (Some 0)" 1
          "\<lparr>slot_lib = 1, slot_no = 0, slot_tape = Some 1, slot_ie = 0\<rparr>", OF _ _ _ _ _ _ _ run])
       (simp_all add: sample_defs has_slot_def)
  with run show ?thesis by blast
qed

end
