(* ===== verification/KernelProperties.thy ===== *)
theory KernelProperties
  imports CatalogProperties
begin

text \<open>
  The properties of the bridge to the kernel: the moves that the commands pair simulate each other,
  the changer loses no medium, the geometry is changed only as the catalogue says and only after the
  probes allow it, and what a pull of the kernel's inventory does to the catalogue.
\<close>

section \<open>The catalogue as a specification of the changer\<close>

lemma sample_agrees: "agrees sample_db 1 sample_changer"
proof -
  have "db_at sample_db 1 e = changer_at sample_changer e" for e
  proof -
    consider "e = 0" | "e = 1" | "e = 1000" | "e = 2000" | "e \<notin> {0, 1, 1000, 2000}" by blast
    then show ?thesis
      by cases (auto simp: db_at_def changer_at_def element_def element_bases kind_of_def name_of_def
        slot_occupant_def drive_occupant_def find_slot_def find_drive_def tape_by_id_def sample_defs
        MAILSLOT_OFFSET_def Let_def nth_Cons' split: option.splits)
  qed
  then show ?thesis by (simp add: agrees_def fun_eq_iff)
qed

lemma sample_load_conditions:
  "has_drive sample_db 1 0" "(0::int) \<le> 0" "(0::int) < 1000" "kind_of sample_db 1 0 = Some 0"
  "changer_valid sample_changer (1000 + 0)" "name_of sample_db 1 = Some ''t1''"
  by code_simp+

lemma sample_eject_conditions [simp]:
  "MAILSLOT_OFFSET \<le> 100" "changer_valid sample_changer 2000" "kind_of sample_db 1 0 = Some 0"
  by code_simp+

text \<open>A library whose tape has been ejected into the first of two mail slots.\<close>

definition sample_mail_db :: db where
  "sample_mail_db = sample_db
     \<lparr>tapes := [sample_tape 1 ''t1'' None (Some 100), sample_tape 2 ''t2'' (Some 1) None],
      slots := [\<lparr>slot_lib = 1, slot_no = 0, slot_tape = None, slot_ie = 0\<rparr>,
                \<lparr>slot_lib = 1, slot_no = 100, slot_tape = Some 1, slot_ie = 1\<rparr>,
                \<lparr>slot_lib = 1, slot_no = 101, slot_tape = None, slot_ie = 1\<rparr>]\<rparr>"

definition sample_mail_changer :: changer where
  "sample_mail_changer = \<lparr>ch_slots = [None], ch_drives = [None], ch_mail = [Some ''t1'', None]\<rparr>"

lemma sample_mail_ok: "catalog_ok sample_mail_db"
  by (simp add: sample_mail_db_def sample_defs catalog_ok_def keys_ok_def slots_placed_def drives_placed_def
      drives_exclusive_def shelf_xor_slot_def)

lemma sample_mail_agrees: "agrees sample_mail_db 1 sample_mail_changer"
proof -
  have "db_at sample_mail_db 1 e = changer_at sample_mail_changer e" for e
  proof -
    consider "e = 0" | "e = 1000" | "e = 2000" | "e = 2001" | "e \<notin> {0, 1000, 2000, 2001}" by blast
    then show ?thesis
      by cases (auto simp: db_at_def changer_at_def element_def element_bases kind_of_def name_of_def
        slot_occupant_def drive_occupant_def find_slot_def find_drive_def tape_by_id_def sample_mail_db_def sample_defs
        sample_mail_changer_def MAILSLOT_OFFSET_def Let_def nth_Cons' split: option.splits)
  qed
  then show ?thesis by (simp add: agrees_def fun_eq_iff)
qed

text \<open>C6: loading from a data slot is a simulation. When the catalogue and the changer agree, both have
  the drive, and the numbers are addresses below 1000, the ioctl that the command sends after its transaction is accepted by the kernel, opens
  no further tape, and the two agree again. A mail slot as the source, which the command accepts and the
  transaction takes like a slot, is the exception: its number is sent to the kernel unchanged, the two
  do not agree afterwards, and the kernel refuses the request with EINVAL and stays as it was when it
  has no data slot of that number.\<close>

theorem load_simulates_kernel:
  assumes "catalog_ok d" and "agrees d lib c" and "load_tape_tx lib s k d = Inr (t, d')"
    and "has_drive d lib k" and "0 \<le> s" "s < 1000" "kind_of d lib s = Some 0 \<or> MAILSLOT_OFFSET \<le> s"
    and "0 \<le> k" "k < 1000" "changer_valid c (1000 + k)" and "name_of d t = Some n"
    and "load_slot_to_drive op s k n (tab, c) = (r, tab', c')"
  shows "if kind_of d lib s = Some 0 then r = None \<and> tab' = tab \<and> agrees d' lib c'
    else \<not> agrees d' lib c' \<and> (int (length (ch_slots c)) \<le> s \<longrightarrow> r = Some EINVAL \<and> tab' = tab \<and> c' = c)"
proof (cases "kind_of d lib s = Some 0")
  case True
  with load_agrees [OF assms(1-6) _ assms(8-11), of op tab] assms(12) show ?thesis by simp
next
  case False
  with assms(7) have "MAILSLOT_OFFSET \<le> s" by simp
  from load_from_mail_disagrees [OF assms(1-3) this assms(6) False assms(8,9), of op n tab]
    load_beyond_slots [of c s op k n tab] False assms(12) show ?thesis by auto
qed

theorem load_simulates_kernel_witness:
  "(\<exists>c'. load_slot_to_drive (\<lambda>_. Some EIO) 0 0 ''t1'' ([], sample_changer) = (None, [], c') \<and> agrees sample_loaded 1 c') \<and>
   (\<exists>d'. load_tape_tx 1 100 0 sample_mail_db = Inr (1, d') \<and> \<not> agrees d' 1 sample_mail_changer \<and>
      load_slot_to_drive (\<lambda>_. None) 100 0 ''t1'' ([], sample_mail_changer) = (Some EINVAL, [], sample_mail_changer))"
proof (rule conjI)
  obtain r tab c' where run: "load_slot_to_drive (\<lambda>_. Some EIO) 0 0 ''t1'' ([], sample_changer) = (r, tab, c')"
    by (cases "load_slot_to_drive (\<lambda>_. Some EIO) 0 0 ''t1'' ([], sample_changer)")
  have "load_tape_tx 1 0 0 sample_db = Inr (1, sample_loaded)" by code_simp
  from load_simulates_kernel [OF sample_db_ok sample_agrees this _ _ _ _ _ _ _ _ run] run
  show "\<exists>c'. load_slot_to_drive (\<lambda>_. Some EIO) 0 0 ''t1'' ([], sample_changer) = (None, [], c') \<and> agrees sample_loaded 1 c'"
    using sample_load_conditions by simp
next
  obtain d' where tx: "load_tape_tx 1 100 0 sample_mail_db = Inr (1, d')"
  proof -
    have "map_sum id fst (load_tape_tx 1 100 0 sample_mail_db) = Inr 1" by code_simp
    with that show ?thesis by (cases "load_tape_tx 1 100 0 sample_mail_db") auto
  qed
  have mail: "has_drive sample_mail_db 1 0" "kind_of sample_mail_db 1 100 = Some 1" "MAILSLOT_OFFSET \<le> 100"
    "changer_valid sample_mail_changer (1000 + 0)" "name_of sample_mail_db 1 = Some ''t1''"
    "length (ch_slots sample_mail_changer) = 1"
    by code_simp+
  obtain r tab c' where run: "load_slot_to_drive (\<lambda>_. None) 100 0 ''t1'' ([], sample_mail_changer) = (r, tab, c')"
    by (cases "load_slot_to_drive (\<lambda>_. None) 100 0 ''t1'' ([], sample_mail_changer)")
  from load_simulates_kernel [OF sample_mail_ok sample_mail_agrees tx _ _ _ _ _ _ _ _ run] run tx mail
  show "\<exists>d'. load_tape_tx 1 100 0 sample_mail_db = Inr (1, d') \<and> \<not> agrees d' 1 sample_mail_changer \<and>
      load_slot_to_drive (\<lambda>_. None) 100 0 ''t1'' ([], sample_mail_changer) = (Some EINVAL, [], sample_mail_changer)"
    by auto
qed

text \<open>C7: unloading is a simulation in the same sense.\<close>

theorem unload_simulates_kernel:
  assumes "catalog_ok d" and "agrees d lib c" and "unload_tape_tx lib k d = Inr (t, s, d')"
    and "0 \<le> s" "s < 1000" "changer_valid c s" and "0 \<le> k" "k < 1000"
  shows "\<exists>c'. unload_drive_to_slot k s c = (None, c') \<and> agrees d' lib c'"
  by (rule unload_agrees [OF assms])

theorem unload_simulates_kernel_witness:
  "\<exists>c c'. agrees sample_loaded 1 c \<and> unload_drive_to_slot 0 0 c = (None, c') \<and> agrees sample_unloaded 1 c'"
proof -
  have "load_tape_tx 1 0 0 sample_db = Inr (1, sample_loaded)" by code_simp
  from load_agrees [OF sample_db_ok sample_agrees this, of "''t1''" "\<lambda>_. None" "[]"] obtain c where
    c: "load_slot_to_drive (\<lambda>_. None) 0 0 ''t1'' ([], sample_changer) = (None, [], c)" "agrees sample_loaded 1 c"
    by (metis sample_load_conditions)
  have v: "changer_valid c 0"
    using c(1) by (auto simp: load_slot_to_drive_def sample_changer_def move_medium_def element_def element_bases
        changer_valid_def Let_def)
  have "unload_tape_tx 1 0 sample_loaded = Inr (1, 0, sample_unloaded)" by code_simp
  from unload_simulates_kernel [OF sample_loaded_ok c(2) this] c(2) v show ?thesis by auto
qed

text \<open>C8: ejecting from a data slot is a simulation of the move to the mail slot's element address, when
  the changer has that element and the slot has an address below 1000: the kernel accepts it and the two agree again. Ejecting from a mail slot into another one succeeds in the
  catalogue only: the kernel refuses the move, stays as it was, and the two do not agree any more.\<close>

theorem eject_simulates_kernel:
  assumes "catalog_ok d" and "agrees d lib c" and "eject_tape_tx lib s d = Inr (t, m, d')"
    and "0 \<le> s" "s < 1000" "kind_of d lib s = Some 0 \<or> MAILSLOT_OFFSET \<le> s"
    and "MAILSLOT_OFFSET \<le> m" "changer_valid c (db_mailslot_to_element m)"
    and "move_medium s (db_mailslot_to_element m) c = (r, c')"
  shows "if kind_of d lib s = Some 0 then r = None \<and> agrees d' lib c'
    else r \<noteq> None \<and> c' = c \<and> \<not> agrees d' lib c'"
proof (cases "kind_of d lib s = Some 0")
  case True
  with eject_agrees [OF assms(1-5) _ assms(7,8)] assms(9) show ?thesis by simp
next
  case False
  with assms(6) have "MAILSLOT_OFFSET \<le> s" by simp
  note refused = eject_from_mail_refused [OF assms(1-3) this assms(5) False]
  from refused(1) [of "db_mailslot_to_element m"] refused(2) False assms(9) show ?thesis by auto
qed
theorem eject_simulates_kernel_witness:
  "(\<exists>c'. move_medium 0 2000 sample_changer = (None, c') \<and> agrees sample_ejected 1 c') \<and>
   (\<exists>d' e. eject_tape_tx 1 100 sample_mail_db = Inr (1, 101, d') \<and> \<not> agrees d' 1 sample_mail_changer \<and>
      move_medium 100 2001 sample_mail_changer = (Some e, sample_mail_changer))"
proof (rule conjI)
  obtain r c' where run: "move_medium 0 (db_mailslot_to_element 100) sample_changer = (r, c')" by fastforce
  have "eject_tape_tx 1 0 sample_db = Inr (1, 100, sample_ejected)" by code_simp
  moreover have "db_mailslot_to_element 100 = 2000" by code_simp
  ultimately show "\<exists>c'. move_medium 0 2000 sample_changer = (None, c') \<and> agrees sample_ejected 1 c'"
    using eject_simulates_kernel [OF sample_db_ok sample_agrees _ _ _ _ _ _ run] run by (simp add: sample_eject_conditions)
next
  obtain d' where tx: "eject_tape_tx 1 100 sample_mail_db = Inr (1, 101, d')"
  proof -
    have "map_sum id (\<lambda>(t, m, d). (t, m)) (eject_tape_tx 1 100 sample_mail_db) = Inr (1, 101)" by code_simp
    with that show ?thesis by (cases "eject_tape_tx 1 100 sample_mail_db") auto
  qed
  have mail: "kind_of sample_mail_db 1 100 = Some 1" "MAILSLOT_OFFSET \<le> 100" "MAILSLOT_OFFSET \<le> 101"
    "changer_valid sample_mail_changer 2001" "db_mailslot_to_element 101 = 2001"
    by code_simp+
  obtain r c' where run: "move_medium 100 (db_mailslot_to_element 101) sample_mail_changer = (r, c')" by fastforce
  from eject_simulates_kernel [OF sample_mail_ok sample_mail_agrees tx _ _ _ _ _ run] run tx mail
  show "\<exists>d' e. eject_tape_tx 1 100 sample_mail_db = Inr (1, 101, d') \<and> \<not> agrees d' 1 sample_mail_changer \<and>
      move_medium 100 2001 sample_mail_changer = (Some e, sample_mail_changer)"
    by auto
qed

section \<open>The changer and its geometry\<close>

text \<open>No sequence of moves, accepted or refused, loses a medium, invents one or puts one into
  two elements.\<close>

theorem kernel_moves_keep_media:
  assumes "\<forall>x y m. changer_at c x = Some m \<longrightarrow> changer_at c y = Some m \<longrightarrow> x = y"
  shows "ran (changer_at (fold (\<lambda>(a, b) c. snd (move_medium a b c)) ms c)) = ran (changer_at c) \<and>
    (\<forall>x y m. changer_at (fold (\<lambda>(a, b) c. snd (move_medium a b c)) ms c) x = Some m \<longrightarrow>
       changer_at (fold (\<lambda>(a, b) c. snd (move_medium a b c)) ms c) y = Some m \<longrightarrow> x = y)"
  using kc.moves_ran_one_place [of c ms] assms by (simp add: kc.one_place_def)

theorem kernel_moves_keep_media_witness:
  "ran (changer_at (fold (\<lambda>(a, b) c. snd (move_medium a b c)) [(0, 1000), (1000, 2000), (1000, 1), (7, 3)]
     sample_changer)) = ran (changer_at sample_changer)"
proof -
  have only: "changer_at sample_changer x = (if x = 0 then Some ''t1'' else None)" for x
    by (auto simp: changer_at_def element_def element_bases sample_changer_def Let_def nth_Cons'
        split: option.splits)
  have "\<forall>x y m. changer_at sample_changer x = Some m \<longrightarrow> changer_at sample_changer y = Some m \<longrightarrow> x = y"
    by (simp add: only)
  from kernel_moves_keep_media [OF this] show ?thesis by blast
qed

text \<open>C13: resizing is all or nothing. The ioctl either gives every host the geometry that the string
  asks for, or leaves the kernel exactly as it was; in both cases no medium moves.\<close>

theorem resize_geometry_all_or_nothing:
  assumes "ioctl_resize_geometry spec k = (r, k')"
    and "list_all (\<lambda>c. geometry_valid (geometry c)) (k_hosts k)"
  shows "map media (k_hosts k') = map media (k_hosts k) \<and>
    (r = None \<longrightarrow> vtl_parse_spec_tokens spec = Inr (map geometry (k_hosts k'))) \<and>
    (r \<noteq> None \<longrightarrow> k' = k)"
  using assms geom_resize_only_spec [of spec k r k'] by (auto simp: ioctl_resize_geometry_def split: if_splits)

definition sample_kernel :: "changer list \<Rightarrow> kernel" where
  "sample_kernel hs = \<lparr>k_hosts = hs, k_tapes = [], k_dir = [], k_sysfs = True, k_dev = None, k_admin = True\<rparr>"

theorem resize_geometry_all_or_nothing_witness:
  "\<exists>k'. ioctl_resize_geometry ''2x3'' (sample_kernel [sample_changer]) = (None, k') \<and>
     map media (k_hosts k') = [[''t1'']] \<and> map geometry (k_hosts k') = [(2, 3)]"
proof -
  obtain r k' where run: "ioctl_resize_geometry ''2x3'' (sample_kernel [sample_changer]) = (r, k')"
    by (cases "ioctl_resize_geometry ''2x3'' (sample_kernel [sample_changer])")
  have none: "fst (ioctl_resize_geometry ''2x3'' (sample_kernel [sample_changer])) = None" by code_simp
  have valid: "list_all (\<lambda>c. geometry_valid (geometry c)) (k_hosts (sample_kernel [sample_changer]))" by code_simp
  have parsed: "vtl_parse_spec_tokens ''2x3'' = Inr [(2, 3)]" by code_simp
  have "map media (k_hosts (sample_kernel [sample_changer])) = [[''t1'']]" by code_simp
  with resize_geometry_all_or_nothing [OF run valid] none run parsed show ?thesis by auto
qed

text \<open>C11: the string that is built from a catalogue fits the ioctl's buffer and is read back by both
  parsers, the kernel's and the program's own, as the geometries of the exported libraries. The geometry
  of a library is the number of its drives, from 1 to 8, and of its data slots, from 1 to 256.\<close>

theorem instances_spec_is_understood:
  assumes "instances_spec d = Inr spec"
  shows "vtl_parse_spec_tokens spec = Inr (map (library_segment d) (exported_ids d)) \<and>
    parse_vtl_instances_segments spec = map (library_segment d) (exported_ids d) \<and>
    length spec < VTL_INST_SPEC_MAX \<and>
    (length (drives d) < 2 ^ 31 \<and> length (slots d) < 2 ^ 31 \<longrightarrow>
     (\<forall>l. library_segment d l =
        (max 1 (min 8 (int (length (filter (\<lambda>r. drive_lib r = l) (drives d))))),
         max 1 (min 256 (int (length (filter (\<lambda>r. slot_lib r = l \<and> slot_ie r = 0) (slots d))))))))"
proof -
  let ?gs = "map (library_segment d) (exported_ids d)"
  have ne: "?gs \<noteq> []" and spec: "spec = show_segments ?gs" using assms by (simp_all add: instances_spec_Inr)
  have valid: "list_all geometry_valid ?gs" by (simp add: list_all_iff library_segment_valid)
  have len: "length ?gs \<le> VTL_MAX_SCSI_INSTANCES" using exported_ids_le [of d] by (simp add: VTL_MAX_SCSI_INSTANCES_def)
  show ?thesis
    using kernel_parse_show_segments [OF ne valid len] parse_show_segments [OF ne valid]
      show_segments_length [OF valid] len library_segment_counts [of d]
    by (simp add: spec VTL_INST_SPEC_MAX_def VTL_MAX_SCSI_INSTANCES_def)
qed

theorem instances_spec_is_understood_witness:
  "vtl_parse_spec_tokens ''1x2'' = Inr (map (library_segment sample_db) (exported_ids sample_db)) \<and>
   exported_ids sample_db = [1] \<and> library_segment sample_db 1 = (1, 2)"
proof -
  have "instances_spec sample_db = Inr ''1x2''" by code_simp
  note understood = instances_spec_is_understood [OF this]
  from understood have
    "vtl_parse_spec_tokens ''1x2'' = Inr (map (library_segment sample_db) (exported_ids sample_db))" by blast
  moreover have "exported_ids sample_db = [1]" by code_simp
  moreover have "library_segment sample_db 1 = (1, 2)"
    using understood by (simp add: sample_db_def)
  ultimately show ?thesis by blast
qed

text \<open>The instance index that the robot commands send for a library is the position of that
  library's segment in the string, so that the kernel's host of that index has its geometry.\<close>

theorem instance_index_is_segment:
  assumes "library_kernel_instance_index d lib = Inr i" and "instances_spec d = Inr spec"
    and "lib \<in> set (take VTL_KERNEL_MAX_ONLINE_LIBRARIES (online_lib_ids d))"
  shows "\<exists>gs. vtl_parse_spec_tokens spec = Inr gs \<and> i < length gs \<and> gs ! i = library_segment d lib"
proof -
  have "position (exported_ids d) lib = Some i"
    using assms(1) position_exported [OF assms(3)] by (simp add: library_kernel_instance_index_def)
  with position_Some have i: "i < length (exported_ids d)" "exported_ids d ! i = lib" by blast+
  let ?gs = "map (library_segment d) (exported_ids d)"
  have ne: "?gs \<noteq> []" and spec: "spec = show_segments ?gs" using assms(2) by (simp_all add: instances_spec_Inr)
  have valid: "list_all geometry_valid ?gs" by (simp add: list_all_iff library_segment_valid)
  have "vtl_parse_spec_tokens spec = Inr ?gs"
    unfolding spec by (rule kernel_parse_show_segments [OF ne valid])
      (use exported_ids_le [of d] in \<open>simp add: VTL_MAX_SCSI_INSTANCES_def\<close>)
  with i show ?thesis by auto
qed

theorem instance_index_is_segment_witness:
  "\<exists>gs. vtl_parse_spec_tokens ''1x2'' = Inr gs \<and> 0 < length gs \<and> gs ! 0 = library_segment sample_db 1"
  by (rule instance_index_is_segment) code_simp+

text \<open>C10: a run of the geometry synchronisation changes the kernel only after the probes allow it:
  in the history of events, every geometry ioctl and every module reload comes after a check that LIO
  does not export the devices and after a probe that found no holder (or the variables that override
  the checks), and every run of the reload script after a probe that found none.\<close>

theorem geometry_changes_are_probed:
  assumes "history_ok (w_env (st_world s)) (st_hist s)"
  shows "history_ok (w_env (st_world s)) (st_hist (snd (maybe_reload_kernel_vtl_after_db_change out s)))"
  by (rule maybe_reload_history_ok [OF assms])

theorem geometry_changes_are_probed_witness:
  "history_ok (w_env (st_world sample_site))
     (st_hist (snd (maybe_reload_kernel_vtl_after_db_change sample_outside sample_site)))"
  by (rule geometry_changes_are_probed) (simp add: sample_site_def)

section \<open>The two inventories\<close>

text \<open>C19: what a pull leaves, for an inventory in which every tape name occurs once, as in the hash map
  that the program makes of the report. The catalogue is consistent. A slot row of the library holds the
  tape that the report places in it, the last one in the order of the report when it places several
  there, and nothing when it places none. No drive of the library holds a tape when the places were
  decoded from element addresses. The slots of the other libraries are as before. The count is that of the
  reported names that the library knows. Two tapes are placed in one row when the kernel has more than a
  hundred data slots: data slot 100 and the first mail slot are both row 100.\<close>

theorem pull_writes_what_the_kernel_reports:
  assumes "catalog_ok d" and "distinct (map fst ks)" and "has_slot d lib s"
  defines "d' \<equiv> snd (apply_kernel_to_db lib ks d)"
  shows "catalog_ok d' \<and>
    slot_occupant d' lib s = (if reported_in d lib ks s = [] then None else Some (last (reported_in d lib ks s))) \<and>
    ((\<forall>p \<in> set ks. \<exists>e. from_element e = Some (snd p)) \<longrightarrow> (\<forall>k. drive_occupant d' lib k = None)) \<and>
    (\<forall>l. l \<noteq> lib \<longrightarrow> slot_occupant d' l = slot_occupant d l) \<and>
    fst (apply_kernel_to_db lib ks d) = length (filter (\<lambda>p. tape_id_of d lib (fst p) \<noteq> None) ks)"
proof -
  have "catalog_ok d'" unfolding d'_def by (rule apply_kernel_to_db_ok [OF assms(1,2)])
  moreover have "drive_occupant d' lib k = None" if "\<forall>p \<in> set ks. \<exists>e. from_element e = Some (snd p)" for k
  proof (rule ccontr)
    assume "drive_occupant d' lib k \<noteq> None"
    then obtain t where "drive_occupant d' lib k = Some t" by auto
    then obtain x where x: "x \<in> set (drives d')" "drive_lib x = lib" "drive_tape x = Some t" by (rule drive_occupant_SomeE)
    have "\<forall>p \<in> set ks. \<forall>k. snd p \<noteq> Drive k" using that from_element_not_drive by metis
    with apply_kernel_to_db_no_drive [of x lib ks d] x show False by (simp add: d'_def)
  qed
  ultimately show ?thesis
    using apply_kernel_to_db_exact [OF assms(3), of ks] apply_kernel_to_db_other [of _ lib ks d]
    by (simp add: d'_def last_of_def apply_kernel_to_db_count)
qed

theorem pull_writes_what_the_kernel_reports_witness:
  "slot_occupant (snd (apply_kernel_to_db 1 [(''t1'', DataSlot 100), (''t2'', MailSlot 100)] sample_db)) 1 100 = Some 2 \<and>
   slot_occupant (snd (apply_kernel_to_db 1 [(''t2'', MailSlot 100), (''t1'', DataSlot 100)] sample_db)) 1 100 = Some 1 \<and>
   slot_occupant (snd (apply_kernel_to_db 1 [(''t1'', DataSlot 100), (''t2'', MailSlot 100)] sample_db)) 1 0 = None"
proof -
  have has: "has_slot sample_db 1 100" "has_slot sample_db 1 0" by code_simp+
  have "reported_in sample_db 1 [(''t1'', DataSlot 100), (''t2'', MailSlot 100)] 100 = [1, 2]"
    "reported_in sample_db 1 [(''t2'', MailSlot 100), (''t1'', DataSlot 100)] 100 = [2, 1]"
    "reported_in sample_db 1 [(''t1'', DataSlot 100), (''t2'', MailSlot 100)] 0 = []"
    by code_simp+
  with pull_writes_what_the_kernel_reports [OF sample_db_ok _ has(1), of "[(''t1'', DataSlot 100), (''t2'', MailSlot 100)]"]
    pull_writes_what_the_kernel_reports [OF sample_db_ok _ has(1), of "[(''t2'', MailSlot 100), (''t1'', DataSlot 100)]"]
    pull_writes_what_the_kernel_reports [OF sample_db_ok _ has(2), of "[(''t1'', DataSlot 100), (''t2'', MailSlot 100)]"]
  show ?thesis by simp
qed
text \<open>The mirror of slot hints forgets the slot of every tape that the kernel does not report in a data
  slot, and leaves the slot rows alone. So it makes a consistent catalogue that agrees with the kernel
  inconsistent when a tape is in a mail slot.\<close>

lemma mirror_forgets_mail_slots:
  "catalog_ok sample_mail_db" "agrees sample_mail_db 1 sample_mail_changer"
  "\<not> catalog_ok (snd (mirror_tx 1 [(''t1'', MailSlot 100)] sample_mail_db))"
proof -
  show "catalog_ok sample_mail_db" "agrees sample_mail_db 1 sample_mail_changer"
    by (rule sample_mail_ok sample_mail_agrees)+
  show "\<not> catalog_ok (snd (mirror_tx 1 [(''t1'', MailSlot 100)] sample_mail_db))"
    by (auto simp: mirror_tx_def hint_one_def forget_slots_def update_where_def catalog_ok_def slots_placed_def
        sample_mail_db_def sample_defs)
qed

text \<open>C20: the list of drifts is exact: it names a tape, once and in the order of the names, exactly when
  the two inventories place it differently, with both of its places, and is empty exactly when the
  inventories are the same map.\<close>

theorem drifts_are_exact:
  "(x \<in> set (find_drifts d k) \<longleftrightarrow>
     drift_db x = map_of d (drift_tape x) \<and> drift_kernel x = map_of k (drift_tape x) \<and> drift_db x \<noteq> drift_kernel x) \<and>
   sorted (map drift_tape (find_drifts d k)) \<and> distinct (map drift_tape (find_drifts d k)) \<and>
   (find_drifts d k = [] \<longleftrightarrow> map_of d = map_of k)"
  using find_drifts_exact [of x d k] find_drifts_sorted [of d k] find_drifts_Nil [of d k] by (simp add: fun_eq_iff)

text \<open>The program decodes the address of a drive as a data slot. So a pull loses a loaded tape:
  the kernel reports it at the drive's address, and afterwards the catalogue has it nowhere.\<close>

theorem pull_loses_the_loaded_tape:
  assumes "catalog_ok d" and "drive_occupant d lib k = Some t" and "tape_by_id d t = Some r"
    and "from_element (to_element (Drive k)) = Some loc" and "0 \<le> k" "k < 1000"
    and "\<not> has_slot d lib (1000 + k)"
  shows "located d t \<and> \<not> located (snd (apply_kernel_to_db lib [(tape_name r, loc)] d)) t"
proof -
  have "located d t"
    using assms(2) by (rule drive_occupant_SomeE) (auto simp: located_def in_drive_def)
  with pull_loses_loaded_tape [OF assms] show ?thesis by simp
qed

theorem pull_loses_the_loaded_tape_witness:
  "located sample_loaded 1 \<and>
   \<not> located (snd (apply_kernel_to_db 1 [(''t1'', DataSlot 1000)] sample_loaded)) 1"
proof -
  have "drive_occupant sample_loaded 1 0 = Some 1" by code_simp
  moreover have "tape_by_id sample_loaded 1 = Some (sample_tape 1 ''t1'' None None)"
    by (simp add: tape_by_id_def sample_defs)
  moreover have "from_element (to_element (Drive 0)) = Some (DataSlot 1000)" by code_simp
  moreover have "\<not> has_slot sample_loaded 1 (1000 + 0)" by code_simp
  ultimately show ?thesis
    using pull_loses_the_loaded_tape [OF sample_loaded_ok, of 1 0 1 "sample_tape 1 ''t1'' None None" "DataSlot 1000"]
    by (simp add: sample_tape_def)
qed

text \<open>The devices that the holder probe asks about are exactly those of the listing's lines that
  mention VTL: each device token of such a line is covered, nothing else is, and every path is asked
  once, in order.\<close>

theorem probed_devices_are_exact:
  "(\<forall>p \<in> set (parse_vtl_paths_from_lsscsi t).
      \<exists>l \<in> set (text_lines t). contains_sub ''VTL'' l \<and> p \<in> set (dev_tokens l)) \<and>
   (\<forall>l \<in> set (text_lines t). contains_sub ''VTL'' l \<longrightarrow>
      path_of ` set (dev_tokens l) \<subseteq> path_of ` set (parse_vtl_paths_from_lsscsi t)) \<and>
   sorted (map path_of (parse_vtl_paths_from_lsscsi t)) \<and>
   distinct (map path_of (parse_vtl_paths_from_lsscsi t))"
proof (intro conjI ballI impI)
  show "\<exists>l \<in> set (text_lines t). contains_sub ''VTL'' l \<and> p \<in> set (dev_tokens l)"
    if "p \<in> set (parse_vtl_paths_from_lsscsi t)" for p by (rule vtl_paths_sound [OF that])
  show "path_of ` set (dev_tokens l) \<subseteq> path_of ` set (parse_vtl_paths_from_lsscsi t)"
    if "l \<in> set (text_lines t)" "contains_sub ''VTL'' l" for l
  proof
    fix q assume "q \<in> path_of ` set (dev_tokens l)"
    then obtain p where "q = path_of p" "p \<in> set (dev_tokens l)" by (rule imageE)
    with vtl_paths_complete [OF that] obtain r where "r \<in> set (parse_vtl_paths_from_lsscsi t)" "path_of r = q" by metis
    then show "q \<in> path_of ` set (parse_vtl_paths_from_lsscsi t)" by (metis imageI)
  qed
qed (simp_all add: vtl_paths_sorted_distinct)

theorem probed_devices_are_exact_witness:
  "path_of ''/dev/sg4'' \<in> path_of ` set (parse_vtl_paths_from_lsscsi ''VTL /dev/sg4'')"
proof -
  have "text_lines ''VTL /dev/sg4'' = [''VTL /dev/sg4'']" "contains_sub ''VTL'' ''VTL /dev/sg4''"
    "dev_tokens ''VTL /dev/sg4'' = [''/dev/sg4'']" by code_simp+
  with probed_devices_are_exact [of "''VTL /dev/sg4''"] show ?thesis by (simp del: contains_sub.simps)
qed

end
