(* ===== verification/TextProperties.thy ===== *)
theory TextProperties
  imports Samples
begin

text \<open>
  The properties of the textual functions: addresses, sizes, names and request fields, and of the
  configuration file with the environment variables that override it.
\<close>

section \<open>Addresses, sizes and names\<close>

lemma show_nat_not_prefix:
  "\<not> starts_with ''slot'' (show_nat n)" "\<not> starts_with ''mail'' (show_nat n)" "\<not> starts_with ''drive'' (show_nat n)"
proof -
  obtain c cs where s: "show_nat n = c # cs" by (cases "show_nat n") auto
  have "is_ascii_digit c" using hd_show_nat_digit [of n] s by simp
  then have "c \<noteq> CHR ''s''" "c \<noteq> CHR ''m''" "c \<noteq> CHR ''d''"
    by (auto simp: is_ascii_digit_def less_eq_char_def)
  then show "\<not> starts_with ''slot'' (show_nat n)" "\<not> starts_with ''mail'' (show_nat n)"
    "\<not> starts_with ''drive'' (show_nat n)"
    by (simp_all add: s starts_with_def)
qed

lemma normal_digits: "to_lower (trim (show_nat n)) = show_nat n"
  using show_nat_no_ws [of n] by (simp add: trim_no_ws to_lower_show_nat)

text \<open>The printed addresses are read back: every slot number up to 1000 and every drive number
  up to 100, with its prefix or without, and every mail slot as the row that stands for it.\<close>

theorem addresses_round_trip:
  "(n \<le> 1000 \<longrightarrow> parse_slot (''slot'' @ show_nat n) = Some (int n) \<and> parse_slot (show_nat n) = Some (int n)) \<and>
   (n \<le> 1000 \<longrightarrow> parse_slot (''mail'' @ show_nat n) = Some (MAILSLOT_OFFSET + int n)) \<and>
   (n \<le> 100 \<longrightarrow> parse_drive (''drive'' @ show_nat n) = Some (int n) \<and> parse_drive (show_nat n) = Some (int n))"
proof -
  have i32: "parse_i32 (show_nat n) = Some (int n)" if "n \<le> 1000"
    using that by (intro parse_i32_show_nat) (simp add: i32_max_def)
  have strip: "trim_start_matches p (p @ show_nat n) = show_nat n"
    if "p = ''slot'' \<or> p = ''mail'' \<or> p = ''drive''" for p
    using that by (intro trim_start_matches_digits) (auto simp: is_ascii_digit_def less_eq_char_def)
  show ?thesis
    unfolding parse_slot_def parse_drive_def Let_def normal_digits
      normalized_address [OF slot_prefix_normal(1,2)] normalized_address [OF slot_prefix_normal(3,4)]
      normalized_address [OF slot_prefix_normal(5,6)]
    using i32
    by (simp only: starts_with_append starts_with_letters show_nat_not_prefix strip if_True if_False simp_thms)
       (auto simp: MAX_SLOTS_def MAX_DRIVES_def MAILSLOT_OFFSET_def wrap_i32_id i32_min_def i32_max_def)
qed

theorem addresses_round_trip_witness:
  "parse_slot ''slot7'' = Some 7 \<and> parse_slot ''mail3'' = Some 103 \<and> parse_drive ''drive2'' = Some 2"
proof -
  have "show_nat 7 = ''7''" "show_nat 3 = ''3''" "show_nat 2 = ''2''" by code_simp+
  with addresses_round_trip [of 7] addresses_round_trip [of 3] addresses_round_trip [of 2]
  show ?thesis by (simp add: MAILSLOT_OFFSET_def)
qed

text \<open>Sizes are read in powers of 1024, exactly for every whole number below \<open>2 ^ 53\<close>, and
  saturate at the largest 64-bit number.\<close>

theorem sizes_are_exact:
  assumes "n < 2 ^ 53" and "u \<in> {''B'', ''K'', ''M'', ''G'', ''T''}" and "size_exponent u = Some e"
  shows "parse_size (show_nat n @ u) = Inr (min (n * 2 ^ e) u64_max)"
  by (rule parse_size_unit [OF assms])

theorem sizes_are_exact_witness:
  "parse_size (show_nat 100 @ ''G'') = Inr (100 * 2 ^ 30) \<and>
   parse_size (show_nat (2 ^ 52) @ ''T'') = Inr u64_max"
proof -
  have g: "(100::nat) < 2 ^ 53" and t: "(2::nat) ^ 52 < 2 ^ 53" by simp_all
  have e: "size_exponent ''G'' = Some 30" "size_exponent ''T'' = Some 40" by (simp_all add: size_exponent_def)
  have u: "''G'' \<in> {''B'', ''K'', ''M'', ''G'', ''T''}" "''T'' \<in> {''B'', ''K'', ''M'', ''G'', ''T''}" by simp_all
  show ?thesis
    using sizes_are_exact [OF g u(1) e(1)] sizes_are_exact [OF t u(2) e(2)] by (simp add: u64_max_def)
qed

text \<open>The generated names of a batch are as many as asked for, pairwise different, and different
  from every name that the library has, as long as the counter stays within 64 bits.\<close>

theorem auto_names_are_fresh:
  assumes "max_auto_tape_suffix_for_library names library + cnt \<le> u64_max"
  defines "new \<equiv> allocate_auto_tape_names library (max_auto_tape_suffix_for_library names library + 1) cnt"
  shows "length new = cnt \<and> distinct new \<and> set new \<inter> set names = {}"
proof (intro conjI)
  show "set new \<inter> set names = {}"
  proof (rule ccontr)
    let ?mx = "max_auto_tape_suffix_for_library names library"
    assume "set new \<inter> set names \<noteq> {}"
    then obtain x where x: "x \<in> set new" "x \<in> set names" by blast
    then obtain w n where n: "x = auto_tape_name_prefix library @ pad_zero w (show_nat n)" "?mx + 1 \<le> n" "n < ?mx + 1 + cnt"
      using set_allocate [of library "?mx + 1" cnt] unfolding new_def by blast
    have "n \<le> ?mx"
    proof (rule max_suffix_bound)
      show "auto_tape_name_prefix library @ pad_zero w (show_nat n) \<in> set names" using x(2) n(1) by simp
      show "pad_zero w (show_nat n) \<noteq> []" by (simp add: pad_zero_def)
      show "parse_unsigned u64_max (pad_zero w (show_nat n)) = Some n" using n(3) assms(1) by simp
    qed (rule pad_zero_digits)
    with n(2) show False by simp
  qed
qed (simp_all add: new_def distinct_allocate)

theorem auto_names_are_fresh_witness:
  "set (allocate_auto_tape_names ''lib'' 8 2) \<inter> {''lib_tape07'', ''x''} = {} \<and>
   allocate_auto_tape_names ''lib'' 8 2 = [''lib_tape08'', ''lib_tape09'']"
proof -
  have mx: "max_auto_tape_suffix_for_library [''lib_tape07'', ''x''] ''lib'' = 7"
    by (simp add: max_auto_tape_suffix_for_library_def auto_tape_name_prefix_def sanitize_lib_dir_component_def
        is_lib_char_def is_ascii_alphanumeric_def is_ascii_alpha_def is_ascii_digit_def less_eq_char_def
        parse_unsigned_def strip_plus_def parse_dec_def dec_val_def digit_val_def u64_max_def)
  have "allocate_auto_tape_names ''lib'' 8 2 = [''lib_tape08'', ''lib_tape09'']" by code_simp
  with auto_names_are_fresh [of "[''lib_tape07'', ''x'']" "''lib''" 2] mx show ?thesis
    by (simp add: u64_max_def)
qed

text \<open>A library name that passes validation is used unchanged as a directory name below the tape
  directory, and neither it nor the file name of a validated tape can leave that directory.\<close>

theorem validated_names_stay_below:
  "(validate_library_name lib = Inr () \<longrightarrow>
      sanitize_lib_dir_component lib = lib \<and> CHR ''/'' \<notin> set lib \<and> lib \<notin> {[], ''.'', ''..''}) \<and>
   (validate_tape_name name = Inr () \<longrightarrow>
      CHR ''/'' \<notin> set (name @ ''.vtltape'') \<and> CHR 0x00 \<notin> set (name @ ''.vtltape'') \<and>
      name @ ''.vtltape'' \<notin> {[], ''.'', ''..''} \<and> name \<noteq> [])"
proof (intro conjI impI)
  assume "validate_library_name lib = Inr ()"
  then have l: "lib \<noteq> []" "list_all is_lib_char lib" by (simp_all add: validate_library_name_iff)
  then show "sanitize_lib_dir_component lib = lib" by (simp add: sanitize_id)
  show "CHR ''/'' \<notin> set lib" "lib \<notin> {[], ''.'', ''..''}" using l by (auto simp: list_all_iff)
next
  assume "validate_tape_name name = Inr ()"
  then have n: "name \<noteq> []" "set name \<inter> set invalid_tape_chars = {}" by (simp_all add: validate_tape_name_iff)
  then show "CHR ''/'' \<notin> set (name @ ''.vtltape'')" "CHR 0x00 \<notin> set (name @ ''.vtltape'')" "name \<noteq> []"
    by (auto simp: invalid_tape_chars_def)
  show "name @ ''.vtltape'' \<notin> {[], ''.'', ''..''}" by (cases name) auto
qed

theorem validated_names_stay_below_witness:
  "sanitize_lib_dir_component ''lib-1'' = ''lib-1'' \<and> CHR ''/'' \<notin> set (''t1'' @ ''.vtltape'')"
proof -
  have "validate_library_name ''lib-1'' = Inr ()" "validate_tape_name ''t1'' = Inr ()" by code_simp+
  with validated_names_stay_below [of "''lib-1''" "''t1''"] show ?thesis by blast
qed

text \<open>A tape name that the request field accepts arrives in the kernel unchanged: the field has
  64 bytes, ends with a null byte, and reading it back up to the first null byte gives the name.\<close>

theorem name_field_round_trip:
  assumes "copy_name_field name = Inr buf" and "NUL \<notin> set name"
  shows "length buf = 64 \<and> last buf = NUL \<and> cstr_to_string buf = name"
  using copy_name_field_roundtrip [OF assms] by simp

theorem name_field_round_trip_witness:
  "\<exists>buf. copy_name_field ''t1'' = Inr buf \<and> cstr_to_string buf = ''t1'' \<and> length buf = 64"
proof -
  obtain buf where buf: "copy_name_field ''t1'' = Inr buf" by (simp add: copy_name_field_def)
  have "NUL \<notin> set ''t1''" by (simp add: NUL_def)
  from name_field_round_trip [OF buf this] buf show ?thesis by blast
qed

section \<open>Configuration\<close>

text \<open>Whatever the environment and the file say, the log size limit is at least 4096 and the scan
  delay at most ten minutes.\<close>

theorem configuration_stays_in_bounds:
  "config_bounds (get_config_uncached e file)"
proof -
  have start: "config_bounds (merge_env_transport_and_log e (merge_env_paths e default_config))"
    by (intro config_bounds_merge_env config_bounds_merge_paths config_bounds_default)
  then show ?thesis
    by (simp add: get_config_uncached_def Let_def config_bounds_merge_env config_bounds_lines split: option.split)
qed

text \<open>The switch for the robot synchronisation comes from the environment when that has a usable
  word, and otherwise, when the variable is not set, from the last line of the file that sets it.\<close>

theorem robot_switch_precedence:
  assumes "e ''VTL_USE_ENV_ONLY'' \<noteq> Some ''1''"
    and "\<not> under_tmp (cfg_db_path (merge_env_transport_and_log e (merge_env_paths e default_config)))"
  shows "(Option.bind (e ''VTL_ROBOT_SYNC'') bool_word = Some b \<longrightarrow>
            robot_sync_enabled e (get_config_uncached e file) = b) \<and>
    (e ''VTL_ROBOT_SYNC'' = None \<longrightarrow> file = Some (as @ l # bs) \<longrightarrow>
       conf_line_kv l = Some (''robot_sync'', v) \<longrightarrow> bool_word v = Some b \<longrightarrow>
       (\<forall>l' \<in> set bs. \<forall>v'. conf_line_kv l' \<noteq> Some (''robot_sync'', v')) \<longrightarrow>
       robot_sync_enabled e (get_config_uncached e file) = b)"
proof (intro conjI impI)
  assume "Option.bind (e ''VTL_ROBOT_SYNC'') bool_word = Some b"
  then show "robot_sync_enabled e (get_config_uncached e file) = b"
    by (simp add: robot_sync_enabled_def switch_def)
next
  assume h: "e ''VTL_ROBOT_SYNC'' = None" "file = Some (as @ l # bs)" "conf_line_kv l = Some (''robot_sync'', v)"
    "bool_word v = Some b" "\<forall>l' \<in> set bs. \<forall>v'. conf_line_kv l' \<noteq> Some (''robot_sync'', v')"
  then show "robot_sync_enabled e (get_config_uncached e file) = b"
    using conf_lines_robot_sync_last [where e = e and l = l and v = v and b = b and bs = bs] assms
    by (simp add: get_config_uncached_def Let_def robot_sync_enabled_def switch_def)
qed

lemma sample_no_tmp:
  "\<not> under_tmp (cfg_db_path (merge_env_transport_and_log (\<lambda>_. None) (merge_env_paths (\<lambda>_. None) default_config)))"
proof -
  have "\<not> under_tmp DEFAULT_INIT_DB_PATH" by code_simp
  then show ?thesis by (simp add: merge_env_paths_def apply_opt_def default_config_def)
qed

theorem robot_switch_precedence_witness:
  "\<not> robot_sync_enabled (\<lambda>_. None) (get_config_uncached (\<lambda>_. None) (Some [''robot_sync=yes'', '' robot_sync = off '']))"
proof -
  have "conf_line_kv '' robot_sync = off '' = Some (''robot_sync'', ''off'')" "bool_word ''off'' = Some False"
    by code_simp+
  moreover have "\<not> under_tmp (cfg_db_path (merge_env_transport_and_log (\<lambda>_. None) (merge_env_paths (\<lambda>_. None) default_config)))"
    by (rule sample_no_tmp)
  ultimately show ?thesis
    using robot_switch_precedence [of "\<lambda>_. None" False "Some [''robot_sync=yes'', '' robot_sync = off '']"
        "[''robot_sync=yes'']" "'' robot_sync = off ''" "[]" "''off''"] by simp
qed

text \<open>The text before the first delimiter is the key of a line.\<close>

lemma conf_line_kv_of_key:
  assumes "conf_line_is_key ''robot_sync'' l"
  shows "\<exists>v. conf_line_kv l = Some (''robot_sync'', v)"
proof -
  obtain r where r: "trim l = ''robot_sync='' @ r" and "\<not> starts_with ''#'' (trim l)" "trim l \<noteq> []"
    using assms by (auto simp: conf_line_is_key_def Let_def starts_with_def split: option.splits dest: strip_prefix_SomeD)
  moreover have "split_once (CHR ''='') (''robot_sync'' @ CHR ''='' # r) = Some (''robot_sync'', r)"
    by (rule split_once_prefix) simp
  moreover have "trim ''robot_sync'' = ''robot_sync''" by code_simp
  ultimately show ?thesis by (simp add: conf_line_kv_def Let_def)
qed

text \<open>Setting the switch with \<^verbatim>\<open>config set\<close> takes effect at the next reading of the file, as long as
  the file did not set it more than once before; every other key keeps its line.\<close>

theorem config_set_takes_effect:
  assumes set: "apply_vtl_conf_set_kv ''robot_sync'' value ls = Inr ls'"
    and once: "count_where (\<lambda>l. \<exists>v. conf_line_kv l = Some (''robot_sync'', v)) ls \<le> 1"
    and env: "e ''VTL_ROBOT_SYNC'' = None"
  shows "bool_word value = Some (cfg_robot_sync (fold (apply_conf_line e) ls' c)) \<and>
    (\<forall>l \<in> set ls. \<not> conf_line_is_key ''robot_sync'' l \<longrightarrow> l \<in> set ls')"
proof -
  obtain b where b: "bool_word value = Some b"
    and ls': "ls' = update_conf_lines ''robot_sync'' (if b then ''true'' else ''false'') ls"
    using set by (auto simp: apply_vtl_conf_set_kv_def split: option.splits)
  define line where "line = ''robot_sync'' @ ''='' @ (if b then ''true'' else ''false'')"
  have "conf_line_kv (''robot_sync'' @ ''='' @ ''true'') = Some (''robot_sync'', ''true'')"
    "conf_line_kv (''robot_sync'' @ ''='' @ ''false'') = Some (''robot_sync'', ''false'')"
    "bool_word ''true'' = Some True" "bool_word ''false'' = Some False" by code_simp+
  then have kv: "conf_line_kv line = Some (''robot_sync'', if b then ''true'' else ''false'')"
    "bool_word (if b then ''true'' else ''false'') = Some b" by (simp_all add: line_def)
  obtain as bs where split: "ls' = as @ line # bs"
    and old: "ls = as \<and> bs = [] \<or> (\<exists>l. conf_line_is_key ''robot_sync'' l \<and> ls = as @ l # bs)"
    using update_conf_lines_split [of "''robot_sync''" "if b then ''true'' else ''false''" ls]
    by (auto simp: ls' line_def)
  have "\<forall>l' \<in> set bs. \<forall>v'. conf_line_kv l' \<noteq> Some (''robot_sync'', v')"
    using old once by (auto simp: count_where_0 dest: conf_line_kv_of_key)
  from conf_lines_robot_sync_last [where e = e and as = as, OF env kv this] have
    "cfg_robot_sync (fold (apply_conf_line e) ls' c) = b" by (simp add: split)
  with b old show ?thesis by (auto simp: split)
qed

theorem config_set_takes_effect_witness:
  "\<exists>ls'. apply_vtl_conf_set_kv ''robot_sync'' ''off'' [''tape_dir=/t''] = Inr ls' \<and>
     \<not> cfg_robot_sync (fold (apply_conf_line (\<lambda>_. None)) ls' default_config) \<and> ''tape_dir=/t'' \<in> set ls'"
proof -
  have w: "bool_word ''off'' = Some False" by code_simp
  obtain ls' where ls': "apply_vtl_conf_set_kv ''robot_sync'' ''off'' [''tape_dir=/t''] = Inr ls'"
    by (simp add: apply_vtl_conf_set_kv_def w)
  have kv: "conf_line_kv ''tape_dir=/t'' = Some (''tape_dir'', ''/t'')" by code_simp
  have "\<not> conf_line_is_key ''robot_sync'' ''tape_dir=/t''" by code_simp
  with config_set_takes_effect [OF ls', of "\<lambda>_. None" default_config] ls' w kv show ?thesis
    by simp
qed

end
