(* ===== verification/Reports.thy ===== *)
theory Reports
  imports Tapes
begin

text \<open>
  The commands of \<^verbatim>\<open>main.rs\<close> that only report: searching and listing tapes, shelves and libraries, the
  inventory, the status and the settings. Each is modelled by the values that it prints; the width
  of columns and the headings are not modelled.
\<close>

section \<open>Searching\<close>

text \<open>The LIKE operator of SQL: any text, any character, and letters without their case.\<close>

fun sql_like :: "string \<Rightarrow> string \<Rightarrow> bool" where
  "sql_like [] s = (s = [])"
| "sql_like (x # p) [] = (x = CHR ''%'' \<and> sql_like p [])"
| "sql_like (x # p) (c # cs) =
     (if x = CHR ''%'' then sql_like p (c # cs) \<or> sql_like (x # p) cs
      else (x = CHR ''_'' \<or> char_lower x = char_lower c) \<and> sql_like p cs)"

record search_filter =
  sf_name :: "string option"
  sf_tag :: "string option"
  sf_min :: "string option"
  sf_max :: "string option"
  sf_free :: "bool option"

definition has_tag :: "db \<Rightarrow> int \<Rightarrow> string \<Rightarrow> bool" where
  "has_tag d t name = (\<exists>g \<in> set (tags d). snd g = name \<and> (t, fst g) \<in> set (tape_tags d))"

text \<open>A size that does not parse is an error before the query runs, the minimum first.\<close>

definition size_bound :: "string option \<Rightarrow> VtlError + nat option" where
  "size_bound x = (case x of None \<Rightarrow> Inr None | Some s \<Rightarrow> andThen (parse_size s) (\<lambda>n. Inr (Some n)))"

definition matches_filter :: "db \<Rightarrow> search_filter \<Rightarrow> nat option \<Rightarrow> nat option \<Rightarrow> tape_row \<Rightarrow> bool" where
  "matches_filter d f mn mx r \<longleftrightarrow>
     (case sf_name f of None \<Rightarrow> True | Some n \<Rightarrow> sql_like (''%'' @ n @ ''%'') (tape_name r)) \<and>
     (case sf_tag f of None \<Rightarrow> True | Some t \<Rightarrow> has_tag d (tape_id r) t) \<and>
     (case mn of None \<Rightarrow> True | Some n \<Rightarrow> n \<le> tape_capacity r) \<and>
     (case mx of None \<Rightarrow> True | Some n \<Rightarrow> tape_capacity r \<le> n) \<and>
     (sf_free f = Some True \<longrightarrow> tape_used r = 0)"

text \<open>The slot of a tape as it is shown; the join with the slot rows tells mail slots apart.\<close>

definition slot_label :: "db \<Rightarrow> int \<Rightarrow> int \<Rightarrow> string" where
  "slot_label d lib s =
     (if (case find_slot d lib s of Some r \<Rightarrow> slot_ie r \<noteq> 0 | None \<Rightarrow> False)
      then ''mail'' @ show_int (s - MAILSLOT_OFFSET) else ''slot'' @ show_int s)"

record search_row =
  sr_name :: string
  sr_code :: string
  sr_slot :: string
  sr_size :: string
  sr_used :: string
  sr_kind :: string

definition search_row_of :: "db \<Rightarrow> int \<Rightarrow> tape_row \<Rightarrow> search_row" where
  "search_row_of d lib r =
     \<lparr>sr_name = tape_name r, sr_code = tape_barcode r,
      sr_slot = (case tape_slot r of None \<Rightarrow> ''-'' | Some s \<Rightarrow> slot_label d lib s),
      sr_size = format_size (tape_capacity r), sr_used = format_size (tape_used r),
      sr_kind = (if tape_slot r = None then ''Shelf/offline'' else ''In robot'')\<rparr>"

definition search_db :: "search_filter \<Rightarrow> int \<Rightarrow> db \<Rightarrow> VtlError + search_row list" where
  "search_db f lib d =
     andThen (size_bound (sf_min f)) (\<lambda>mn.
     andThen (size_bound (sf_max f)) (\<lambda>mx.
       Inr (map (search_row_of d lib)
             (sort_key tape_name (filter (\<lambda>r. tape_lib r = lib \<and> matches_filter d f mn mx r) (tapes d))))))"

definition search_tapes :: "search_filter \<Rightarrow> search_row list cmd" where
  "search_tapes f = thenp init_db (bindp current_library_id (\<lambda>lib. db_read (search_db f lib)))"

section \<open>Listing tapes\<close>

record list_row =
  lt_name :: string
  lt_code :: string
  lt_location :: string
  lt_shelf :: string
  lt_size :: string
  lt_used :: string
  lt_note :: string

text \<open>With an inventory from the kernel its places come first; the catalogue is a hint then.\<close>

definition tape_location :: "db \<Rightarrow> int \<Rightarrow> inventory option \<Rightarrow> tape_row \<Rightarrow> string \<times> string" where
  "tape_location d lib kernel_locs r =
     (case Option.bind kernel_locs (\<lambda>m. map_of m (tape_name r)) of
        Some (Drive k) \<Rightarrow> (''drive'' @ show_int k, ''In drive (kernel)'')
      | Some (DataSlot s) \<Rightarrow> (''slot'' @ show_int s, ''In robot (kernel)'')
      | Some (MailSlot m) \<Rightarrow> (''mail'' @ show_int (m - MAILSLOT_OFFSET), ''In IE (kernel)'')
      | None \<Rightarrow>
          if tape_in_drive d (tape_lib r) (tape_id r) then (''drive'', ''In drive'')
          else case tape_slot r of
              Some s \<Rightarrow> (slot_label d lib s, if kernel_locs = None then ''In robot'' else ''In robot (DB hint)'')
            | None \<Rightarrow> (''-'', ''Catalog only''))"

definition list_row_of :: "db \<Rightarrow> int \<Rightarrow> inventory option \<Rightarrow> tape_row \<Rightarrow> list_row" where
  "list_row_of d lib kernel_locs r =
     \<lparr>lt_name = tape_name r, lt_code = tape_barcode r,
      lt_location = fst (tape_location d lib kernel_locs r),
      lt_shelf = (case Option.bind (tape_shelf r) (\<lambda>i. List.find (\<lambda>s. shelf_id s = i) (shelves d)) of
                    None \<Rightarrow> ''-'' | Some s \<Rightarrow> shelf_name s),
      lt_size = format_size (tape_capacity r), lt_used = format_size (tape_used r),
      lt_note = snd (tape_location d lib kernel_locs r)\<rparr>"

definition list_tapes :: "list_row list cmd" where
  "list_tapes =
     thenp init_db
     (bindp current_library_id (\<lambda>lib.
      bindp (gets robot_on) (\<lambda>on.
      bindp (if on then attempt (kernel_inventory_snapshot lib) else ret (Inl SlotEmpty)) (\<lambda>s.
        gets (\<lambda>w. let d = w_db w;
                      kernel_locs = (case s of Inr snap \<Rightarrow> Some (inv_locations snap) | Inl _ \<Rightarrow> None)
                  in map (list_row_of d lib kernel_locs)
                       (sort_key tape_id (filter (\<lambda>r. tape_lib r = lib) (tapes d))))))))"

section \<open>Inventory, status and settings\<close>

definition show_inventory :: "ChangerInventoryDisplay cmd" where
  "show_inventory = thenp init_db (bindp current_library_id changer_inventory_display)"

record status_report =
  st_tapes :: nat
  st_loaded :: nat
  st_drives :: nat
  st_slots :: nat
  st_mail :: nat

definition status_of :: "db \<Rightarrow> int \<Rightarrow> status_report" where
  "status_of d lib =
     \<lparr>st_tapes = count_where (\<lambda>r. tape_lib r = lib) (tapes d),
      st_loaded = count_where (\<lambda>r. drive_lib r = lib \<and> drive_tape r \<noteq> None) (drives d),
      st_drives = count_where (\<lambda>r. drive_lib r = lib) (drives d),
      st_slots = count_where (\<lambda>r. slot_lib r = lib \<and> slot_ie r = 0) (slots d),
      st_mail = count_where (\<lambda>r. slot_lib r = lib \<and> slot_ie r \<noteq> 0) (slots d)\<rparr>"

definition show_status :: "status_report cmd" where
  "show_status = thenp init_db (bindp current_library_id (\<lambda>lib. gets (\<lambda>w. status_of (w_db w) lib)))"

record config_report =
  cr_library :: string
  cr_config :: VtlConfig
  cr_max_drives :: string
  cr_slots :: string
  cr_mail :: nat

definition config_value :: "db \<Rightarrow> int \<Rightarrow> string \<Rightarrow> string \<Rightarrow> string" where
  "config_value d lib key dflt =
     (case lib_config_get d lib key of
        Some v \<Rightarrow> v
      | None \<Rightarrow> (case config_get d key of Some v \<Rightarrow> v | None \<Rightarrow> dflt))"

definition config_show :: "config_report cmd" where
  "config_show =
     thenp init_db
     (bindp current_library_id (\<lambda>lib. gets (\<lambda>w.
        \<lparr>cr_library = w_lib w, cr_config = w_cfg w,
         cr_max_drives = config_value (w_db w) lib ''max_drives'' ''2'',
         cr_slots = config_value (w_db w) lib ''slots'' ''10'',
         cr_mail = count_where (\<lambda>r. slot_lib r = lib \<and> slot_ie r \<noteq> 0) (slots (w_db w))\<rparr>)))"

section \<open>Libraries and shelves\<close>

definition list_libraries :: "lib_row list cmd" where
  "list_libraries =
     thenp init_db (gets (\<lambda>w.
       filter (\<lambda>r. \<not> is_test_only_library_name (lib_name r)) (sort_key lib_name (libs (w_db w)))))"

text \<open>The default shelf comes first, then the names.\<close>

definition shelves_by_name :: "db \<Rightarrow> int \<Rightarrow> shelf_row list" where
  "shelves_by_name d lib = sort_key shelf_name (filter (\<lambda>s. shelf_lib s = lib) (shelves d))"

definition list_shelves :: "(int \<times> string \<times> bool) list cmd" where
  "list_shelves =
     thenp init_db (bindp current_library_id (\<lambda>lib. gets (\<lambda>w.
       map (\<lambda>s. (shelf_id s, shelf_name s, shelf_default s \<noteq> 0))
         (sort_key (\<lambda>s. - shelf_default s) (shelves_by_name (w_db w) lib)))))"

definition tapes_on_shelf :: "db \<Rightarrow> int \<Rightarrow> int \<Rightarrow> tape_row list" where
  "tapes_on_shelf d lib sh =
     sort_key tape_name (filter (\<lambda>r. tape_lib r = lib \<and> tape_shelf r = Some sh) (tapes d))"

definition list_shelf_tapes :: "string option \<Rightarrow> (string \<times> tape_row list) list cmd" where
  "list_shelf_tapes flt =
     thenp init_db
     (bindp current_library_id (\<lambda>lib. db_read (\<lambda>d.
        case flt of
          Some n \<Rightarrow> andThen (resolve_shelf_id d lib n) (\<lambda>sh. Inr [(n, tapes_on_shelf d lib sh)])
        | None \<Rightarrow> Inr (map (\<lambda>s. (shelf_name s, tapes_on_shelf d lib (shelf_id s))) (shelves_by_name d lib)))))"

section \<open>Lemmas\<close>

text \<open>Without wildcards, a search for a part of a name is a search for a substring, whatever the case.\<close>

lemma sql_like_all [simp]: "sql_like ''%'' s"
  by (induction s) auto

lemma sql_like_prefix:
  assumes "CHR ''%'' \<notin> set n" and "CHR ''_'' \<notin> set n"
  shows "sql_like (n @ ''%'') s \<longleftrightarrow> starts_with (to_lower n) (to_lower s)"
  using assms
proof (induction n arbitrary: s)
  case (Cons x n)
  then show ?case by (cases s) (auto simp: starts_with_def to_lower_def split: option.splits)
qed (simp add: starts_with_def to_lower_def)

lemma sql_like_contains:
  assumes "CHR ''%'' \<notin> set n" and "CHR ''_'' \<notin> set n"
  shows "sql_like (''%'' @ n @ ''%'') s \<longleftrightarrow> contains_sub (to_lower n) (to_lower s)"
proof (induction s)
  case Nil
  show ?case using sql_like_prefix [OF assms, of "[]"]
    by (cases n) (auto simp: to_lower_def starts_with_def)
next
  case (Cons c cs)
  then show ?case using sql_like_prefix [OF assms, of "c # cs"] by (simp add: to_lower_def)
qed

text \<open>The reports are queries: their own part does not change the world.\<close>

lemma search_db_names:
  "search_db f lib d = Inr rows \<Longrightarrow> sorted (map sr_name rows)"
  by (auto simp: search_db_def comp_def search_row_of_def)

lemma search_db_complete:
  assumes "search_db f lib d = Inr rows" and "sf_min f = None" and "sf_max f = None"
  shows "set rows = search_row_of d lib ` {r \<in> set (tapes d). tape_lib r = lib \<and> matches_filter d f None None r}"
  using assms by (auto simp: search_db_def size_bound_def)

text \<open>In a consistent catalogue every occupied drive holds its own tape of the library.\<close>

lemma count_where_mono: "(\<And>r. r \<in> set rs \<Longrightarrow> P r \<Longrightarrow> Q r) \<Longrightarrow> count_where P rs \<le> count_where Q rs"
  by (induction rs) auto

lemma count_where_card: "distinct rs \<Longrightarrow> count_where P rs = card {r \<in> set rs. P r}"
proof (induction rs)
  case (Cons r rs)
  have "{x \<in> set (r # rs). P x} = (if P r then insert r {x \<in> set rs. P x} else {x \<in> set rs. P x})" by auto
  with Cons show ?case by auto
qed simp

lemma status_loaded_le:
  assumes ok: "catalog_ok d"
  shows "st_loaded (status_of d lib) \<le> st_drives (status_of d lib) \<and>
    st_loaded (status_of d lib) \<le> st_tapes (status_of d lib)"
proof
  show "st_loaded (status_of d lib) \<le> st_drives (status_of d lib)"
    using count_where_mono [of "drives d" "\<lambda>r. drive_lib r = lib \<and> drive_tape r \<noteq> None" "\<lambda>r. drive_lib r = lib"]
    by (simp add: status_of_def)
  have keys: "keys_ok d" using ok by (simp add: catalog_ok_def)
  let ?ks = "{k \<in> set (drives d). drive_lib k = lib \<and> drive_tape k \<noteq> None}"
  let ?ts = "{r \<in> set (tapes d). tape_lib r = lib}"
  have dist: "distinct (drives d)" "distinct (tapes d)"
    using keys by (auto simp: keys_ok_def distinct_map)
  have "inj_on drive_tape ?ks"
  proof (rule inj_onI)
    fix k k' assume k: "k \<in> ?ks" "k' \<in> ?ks" "drive_tape k = drive_tape k'"
    then obtain t where "drive_tape k = Some t" "drive_tape k' = Some t" by auto
    with k ok show "k = k'" unfolding catalog_ok_def drives_exclusive_def by blast
  qed
  then have "card ?ks = card (drive_tape ` ?ks)" by (simp add: card_image)
  also have "\<dots> \<le> card ((\<lambda>r. Some (tape_id r)) ` ?ts)"
  proof (rule card_mono)
    show "drive_tape ` ?ks \<subseteq> (\<lambda>r. Some (tape_id r)) ` ?ts"
    proof
      fix x assume "x \<in> drive_tape ` ?ks"
      then obtain k t where k: "k \<in> set (drives d)" "drive_lib k = lib" "drive_tape k = Some t" "x = Some t" by auto
      from catalog_drive_row [OF ok k(1,3)] obtain r where "r \<in> set (tapes d)" "tape_id r = t" "tape_lib r = drive_lib k"
        by blast
      with k show "x \<in> (\<lambda>r. Some (tape_id r)) ` ?ts" by auto
    qed
  qed simp
  also have "\<dots> \<le> card ?ts" by (rule card_image_le) simp
  finally show "st_loaded (status_of d lib) \<le> st_tapes (status_of d lib)"
    by (simp add: status_of_def count_where_card [OF dist(1)] count_where_card [OF dist(2)])
qed

end
