(* ===== verification/Setup.thy ===== *)
theory Setup
  imports GeometryFacts
begin

text \<open>
  The first configuration (\<^verbatim>\<open>main.rs\<close>): the text of a new \<^verbatim>\<open>vtl.conf\<close>, the command \<^verbatim>\<open>init-config\<close>
  that writes one with the default paths, and the wizard of the web interface that writes one with
  the paths of the user, as long as there is none.
\<close>

section \<open>The text\<close>

record InitialVtlConfParams =
  ip_db_path :: string
  ip_tape_dir :: string
  ip_log_dir :: string
  ip_kernel_vtl_reload_script :: "string option"
  ip_vtl_ko :: "string option"
  ip_vtl_reload_scan_delay_ms :: "nat option"

definition NL :: char where "NL = CHR 0x0A"

definition ln :: "string \<Rightarrow> string" where "ln s = s @ [NL]"

text \<open>The characters beyond ASCII in the comments, in UTF-8.\<close>

definition ARROW :: string where "ARROW = [CHR 0xE2, CHR 0x86, CHR 0x92]"
definition EMDASH :: string where "EMDASH = [CHR 0xE2, CHR 0x80, CHR 0x94]"
definition ELLIPSIS :: string where "ELLIPSIS = [CHR 0xE2, CHR 0x80, CHR 0xA6]"
definition SECT :: string where "SECT = [CHR 0xC2, CHR 0xA7]"

definition vtl_conf_template_suffix :: "string list" where
  "vtl_conf_template_suffix =
     [[],
      [],
      ''# Single log file size before rotation (bytes, min 4096)'',
      ''# log_max_bytes=10485760'',
      [],
      ''# Fabric: local | iscsi | fc (see docs/TRANSPORT.md; vtladm does not start iSCSI/FC targets)'',
      ''# transport=local'',
      [],
      ''# Optional when planning iSCSI / FC (informational)'',
      ''# iscsi_iqn=iqn.2003-01.org.linux-iscsi.example:vtl'',
      ''# iscsi_portals=0.0.0.0:3260'',
      ''# fc_wwpn=10:00:00:00:00:00:00:01'',
      [],
      ''# Optional: passed to kernel_vtl_reload_script as VTL_SCAN_DELAY_MS (insmod scan_delay_ms='' @ ELLIPSIS @ ''; default 500 in script)'',
      ''# vtl_reload_scan_delay_ms=500'',
      [],
      ''# Default: kernel_reload_on_db_change=false skips rmmod/insmod hook script on DB changes; ioctl may still apply if kernel_geom_prefer_ioctl=true (see docs/SCSI.md '' @ SECT @ ''1c). Env: VTL_KERNEL_RELOAD_ON_DB_CHANGE=0|1'',
      ''# kernel_reload_on_db_change=false'',
      ''#'',
      ''# If you enable kernel_reload_on_db_change=true: keep kernel_geom_prefer_ioctl=true (default) and use a vtl.ko with /dev/vtl SET_INSTANCES (see docs/SCSI.md '' @ SECT @ ''1e) so ioctl runs first and avoids full rmmod/insmod when possible; still set kernel_vtl_reload_script as fallback.'',
      [],
      ''# Optional: if false, do NOT try /dev/vtl ioctl first to apply vtl_instances (no full module reload); go straight to kernel_vtl_reload_script when set. Env: VTL_KERNEL_GEOM_IOCTL=0'',
      ''# kernel_geom_prefer_ioctl=false'']"

definition settings_block :: "string list" where
  "settings_block =
     [[],
      ''# Default: no rmmod/insmod hook on library DB changes (kernel_reload_on_db_change=false).'',
      ''# With kernel_geom_prefer_ioctl=true (default), vtladm still auto-tries /dev/vtl ioctl after DB changes when supported.'',
      ''# Refused while LIO exports VTL /dev/sg or tape nodes are open '' @ EMDASH @ '' unexport first or vtl-kernelctl reload in maintenance.'',
      ''kernel_reload_on_db_change=false'',
      ''# Plan B: insmod max topology once; idle SCSI hosts keep sysfs geometry (not 1x1). See docs/SCSI.md '' @ SECT @ ''1g.'',
      ''# kernel_geometry_mode=fixed'',
      ''# SCSI INQUIRY for backup software: vtl | ibm | stk | hp (requires vtl-kernelctl reload).'',
      ''personality=ibm'',
      ''# Runtime mechanical hand is always vtl.ko; SQLite is tape catalog only.'',
      ''robot_sync=true'',
      ''auto_reconcile_pull=true'',
      ''# Periodic kernel'' @ ARROW @ ''DB catalog hints (vtl-robot-sync.timer, every 5 min).'',
      ''auto_sync_db_from_kernel=true'']"

definition optional_line :: "string \<Rightarrow> string option \<Rightarrow> string list" where
  "optional_line key v = (case v of None \<Rightarrow> [] | Some x \<Rightarrow> [[], key @ ''='' @ x])"

definition initial_conf_lines :: "InitialVtlConfParams \<Rightarrow> string list" where
  "initial_conf_lines p =
     [''# VTL Configuration File'', ''# Database path'', ''db_path='' @ ip_db_path p, [],
      ''# Tape image directory'', ''tape_dir='' @ ip_tape_dir p, [],
      ''# Log directory'', ''log_dir='' @ ip_log_dir p] @
     optional_line ''kernel_vtl_reload_script'' (ip_kernel_vtl_reload_script p) @
     optional_line ''vtl_ko'' (ip_vtl_ko p) @
     optional_line ''vtl_reload_scan_delay_ms'' (map_option show_nat (ip_vtl_reload_scan_delay_ms p)) @
     settings_block @ vtl_conf_template_suffix"

definition format_initial_vtl_conf :: "InitialVtlConfParams \<Rightarrow> string" where
  "format_initial_vtl_conf p = concat (map ln (initial_conf_lines p))"

section \<open>Writing it\<close>

definition DEFAULT_INIT_KERNEL_RELOAD_SCRIPT :: string where
  "DEFAULT_INIT_KERNEL_RELOAD_SCRIPT = ''/opt/vtladm/scripts/vtl-kernel-reload.sh''"

definition DEFAULT_INIT_VTL_KO :: string where "DEFAULT_INIT_VTL_KO = ''/opt/vtladm/ko/vtl.ko''"

definition primary_vtl_statedir :: "env \<Rightarrow> path" where
  "primary_vtl_statedir e = butlast (path_of (primary_vtl_conf_path e))"

definition setup_gate_active :: "world \<Rightarrow> bool" where
  "setup_gate_active w = (w_env w ''VTL_USE_ENV_ONLY'' \<noteq> Some ''1'' \<and> w_conf_file w = None)"

definition write_initial_vtl_conf :: "InitialVtlConfParams \<Rightarrow> unit cmd" where
  "write_initial_vtl_conf p =
     bindp (gets w_env) (\<lambda>e.
     thenp (fs_try (create_dir_all (primary_vtl_statedir e)))
     (thenp (fs_try (create_dir_all (butlast (path_of (ip_db_path p)))))
     (thenp (fs_try (create_dir_all (path_of (ip_tape_dir p))))
     (thenp (fs_try (create_dir_all (path_of (ip_log_dir p))))
     (bindp (gets (\<lambda>w. w_fault w ''write_conf'')) (\<lambda>bad.
      thenp (checkp (\<not> bad) (IoError (OsError EIO)))
        (modify (\<lambda>w. w\<lparr>w_conf_file := Some (text_lines (format_initial_vtl_conf p))\<rparr>))))))))"

definition init_config :: "unit cmd" where
  "init_config =
     write_initial_vtl_conf
       \<lparr>ip_db_path = DEFAULT_INIT_DB_PATH, ip_tape_dir = DEFAULT_INIT_TAPE_DIR,
        ip_log_dir = DEFAULT_INIT_LOG_DIR,
        ip_kernel_vtl_reload_script = Some DEFAULT_INIT_KERNEL_RELOAD_SCRIPT,
        ip_vtl_ko = Some DEFAULT_INIT_VTL_KO, ip_vtl_reload_scan_delay_ms = None\<rparr>"

text \<open>An error is a text of the wizard, or stands for the text of an error of the program.\<close>

datatype setup_error = SetupText string | SetupError VtlError

definition setup_input :: "string + 'a \<Rightarrow> (site \<Rightarrow> setup_error + 'a)" where
  "setup_input r = (\<lambda>_. case r of Inl m \<Rightarrow> Inl (SetupText m) | Inr x \<Rightarrow> Inr x)"

definition try_complete_primary_vtl_setup_from_web ::
    "outside \<Rightarrow> string \<Rightarrow> string \<Rightarrow> string \<Rightarrow> string \<Rightarrow> string \<Rightarrow> string \<Rightarrow> bool \<Rightarrow>
     (setup_error, KernelGeomSync) site_prog" where
  "try_complete_primary_vtl_setup_from_web out db_path tape_dir log_dir script vtl_ko delay reload_now =
     bindp (gets (\<lambda>s. (w_env (st_world s) ''VTL_USE_ENV_ONLY'' = Some ''1'', w_conf_file (st_world s) \<noteq> None))) (\<lambda>(only, there).
     thenp (checkp (\<not> only) (SetupText ''VTL_USE_ENV_ONLY is set''))
     (thenp (checkp (\<not> there) (SetupText ''the configuration file exists''))
     (bindp (from_result (setup_input (normalize_setup_path db_path DEFAULT_INIT_DB_PATH))) (\<lambda>db.
      bindp (from_result (setup_input (normalize_setup_path tape_dir DEFAULT_INIT_TAPE_DIR))) (\<lambda>tape.
      bindp (from_result (setup_input (normalize_setup_path log_dir DEFAULT_INIT_LOG_DIR))) (\<lambda>logd.
      bindp (from_result (setup_input (optional_abs_path script))) (\<lambda>scr.
      bindp (from_result (setup_input (optional_abs_path vtl_ko))) (\<lambda>ko.
      bindp (from_result (setup_input (optional_scan_delay_ms delay))) (\<lambda>ms.
      thenp (map_err SetupError (on_world (write_initial_vtl_conf
               \<lparr>ip_db_path = db, ip_tape_dir = tape, ip_log_dir = logd,
                ip_kernel_vtl_reload_script = scr, ip_vtl_ko = ko, ip_vtl_reload_scan_delay_ms = ms\<rparr>)))
      (thenp (on_world (modify (\<lambda>w. w\<lparr>w_cfg := get_config_uncached (w_env w) (w_conf_file w)\<rparr>)))
        (if reload_now then maybe_reload_kernel_vtl_after_db_change out
         else ret (status ''skipped'' ''run_kernel_reload_now=false''))))))))))))"

section \<open>Reading it back\<close>

lemma split_on_ln: "NL \<notin> set a \<Longrightarrow> split_on NL (ln a @ s) = a # split_on NL s"
  using split_on_append [of NL a s] by (simp add: ln_def)

lemma text_lines_concat:
  "\<forall>l \<in> set ls. NL \<notin> set l \<and> strip_cr l = l \<Longrightarrow> text_lines (concat (map ln ls)) = ls"
proof -
  assume a: "\<forall>l \<in> set ls. NL \<notin> set l \<and> strip_cr l = l"
  then have "split_on NL (concat (map ln ls)) = ls @ [[]]" by (induction ls) (simp_all add: split_on_ln)
  with a show ?thesis by (simp add: text_lines_def NL_def [symmetric] map_idI)
qed

lemma trim_end_keeps_head: "\<not> is_ws c \<Longrightarrow> \<exists>r. trim_end (c # s) = c # r"
  by (simp add: trim_end_def dropWhile_append) (metis rev_rev_ident)

lemma conf_comment [simp]: "conf_line_kv (CHR ''#'' # s) = None"
proof -
  have ws: "\<not> is_ws CHR ''#''" by code_simp
  then obtain r where "trim_end (CHR ''#'' # s) = CHR ''#'' # r" using trim_end_keeps_head by blast
  with ws have "trim (CHR ''#'' # s) = CHR ''#'' # r" by (simp add: trim_def trim_start_def)
  then show ?thesis by (simp add: conf_line_kv_def starts_with_def)
qed

lemma conf_blank [simp]: "conf_line_kv [] = None"
  by code_simp

lemma trim_id: "trim s = s \<longleftrightarrow> s = [] \<or> \<not> is_ws (hd s) \<and> \<not> is_ws (last s)"
proof (cases s rule: rev_cases)
  case (snoc xs x)
  show ?thesis
  proof (cases xs)
    case Nil
    then show ?thesis using snoc by (auto simp: trim_def trim_start_def trim_end_def)
  next
    case (Cons y ys)
    show ?thesis
    proof (cases "is_ws y")
      case True
      have "length (dropWhile is_ws (ys @ [x])) \<le> length (ys @ [x])" by (rule length_dropWhile_le)
      moreover have "length (trim_end t) \<le> length t" for t
        using length_dropWhile_le [of is_ws "rev t"] by (simp add: trim_end_def)
      ultimately have "length (trim s) < length s" using True Cons snoc
        by (simp add: trim_def trim_start_def) (meson le_imp_less_Suc le_trans)
      then show ?thesis using True Cons snoc by auto
    next
      case False
      then have "trim s = rev (dropWhile is_ws (rev s))" using Cons snoc by (simp add: trim_def trim_start_def trim_end_def)
      also have "\<dots> = (if is_ws x then rev (dropWhile is_ws (rev xs)) else s)" using snoc by simp
      finally have *: "trim s = (if is_ws x then rev (dropWhile is_ws (rev xs)) else s)" .
      have "length (rev (dropWhile is_ws (rev xs))) \<le> length xs"
        using length_dropWhile_le [of is_ws "rev xs"] by simp
      then have "rev (dropWhile is_ws (rev xs)) \<noteq> s" using snoc
        by (metis length_append_singleton Suc_n_not_le_n)
      with * False Cons snoc show ?thesis by auto
    qed
  qed
qed (simp add: trim_def trim_start_def trim_end_def)

lemma conf_line_key_value:
  assumes "k \<noteq> []" "hd k \<noteq> CHR ''#''" "list_all (\<lambda>c. \<not> is_ws c) k" "CHR ''='' \<notin> set k" "trim v = v"
  shows "conf_line_kv (k @ CHR ''='' # v) = Some (k, v)"
proof -
  have e: "\<not> is_ws CHR ''=''" by code_simp
  have "\<not> is_ws (hd k)" using assms(1,3) by (cases k) auto
  moreover have "\<not> is_ws (last (k @ CHR ''='' # v))" using assms(5) e by (auto simp: trim_id)
  ultimately have t: "trim (k @ CHR ''='' # v) = k @ CHR ''='' # v" using assms(1) by (simp add: trim_id)
  have k: "trim k = k" using assms(3) by (rule trim_no_ws)
  have "\<not> starts_with ''#'' (k @ CHR ''='' # v)" using assms(1,2) by (cases k) (auto simp: starts_with_def)
  then show ?thesis
    using split_once_prefix [OF assms(4), of v] by (simp add: conf_line_kv_def t k assms(5))
qed

text \<open>A value that the file can hold on one line as it is.\<close>

definition one_line :: "string \<Rightarrow> bool" where
  "one_line v \<longleftrightarrow> v \<noteq> [] \<and> NL \<notin> set v \<and> trim v = v"

definition plain_params :: "InitialVtlConfParams \<Rightarrow> bool" where
  "plain_params p \<longleftrightarrow> one_line (ip_db_path p) \<and> one_line (ip_tape_dir p) \<and> one_line (ip_log_dir p) \<and>
     (\<forall>v. ip_kernel_vtl_reload_script p = Some v \<longrightarrow> one_line v) \<and>
     (\<forall>v. ip_vtl_ko p = Some v \<longrightarrow> one_line v) \<and>
     (\<forall>n. ip_vtl_reload_scan_delay_ms p = Some n \<longrightarrow> n \<le> 600000)"

abbreviation no_env :: env where "no_env \<equiv> (\<lambda>_. None)"

lemma apply_line_comment [simp]: "apply_conf_line e (CHR ''#'' # s) c = c"
  by (simp add: apply_conf_line_def)

lemma apply_line_blank [simp]: "apply_conf_line e [] c = c"
  by (simp add: apply_conf_line_def)

lemma settings_lines:
  "conf_line_kv ''kernel_reload_on_db_change=false'' = Some (''kernel_reload_on_db_change'', ''false'')"
  "conf_line_kv ''personality=ibm'' = Some (''personality'', ''ibm'')"
  "conf_line_kv ''robot_sync=true'' = Some (''robot_sync'', ''true'')"
  "conf_line_kv ''auto_reconcile_pull=true'' = Some (''auto_reconcile_pull'', ''true'')"
  "conf_line_kv ''auto_sync_db_from_kernel=true'' = Some (''auto_sync_db_from_kernel'', ''true'')"
  "bool_word ''true'' = Some True" "bool_word ''false'' = Some False" "trim ''ibm'' = ''ibm''"
  by code_simp+

lemma fold_suffix: "fold (apply_conf_line e) vtl_conf_template_suffix c = c"
  by (simp add: vtl_conf_template_suffix_def)

lemma fold_settings:
  "fold (apply_conf_line no_env) settings_block c =
     c\<lparr>cfg_kernel_reload_on_db_change := False, cfg_kernel_personality := ''ibm'', cfg_robot_sync := True,
        cfg_auto_reconcile_pull := True, cfg_auto_sync_db_from_kernel := True\<rparr>"
  by (simp add: settings_block_def apply_conf_line_def settings_lines apply_vtl_conf_kv_def unless_env_def
      apply_opt_def)

lemma path_lines:
  assumes "one_line v"
  shows "apply_conf_line no_env (''db_path='' @ v) c = c\<lparr>cfg_db_path := v\<rparr>"
    and "apply_conf_line no_env (''tape_dir='' @ v) c = c\<lparr>cfg_tape_dir := v\<rparr>"
    and "apply_conf_line no_env (''log_dir='' @ v) c = c\<lparr>cfg_log_dir := v\<rparr>"
    and "apply_conf_line no_env (''kernel_vtl_reload_script='' @ v) c = c\<lparr>cfg_kernel_vtl_reload_script := Some v\<rparr>"
    and "apply_conf_line no_env (''vtl_ko='' @ v) c = c\<lparr>cfg_vtl_ko := Some v\<rparr>"
proof -
  have w: "list_all (\<lambda>c. \<not> is_ws c) ''db_path''" "list_all (\<lambda>c. \<not> is_ws c) ''tape_dir''"
    "list_all (\<lambda>c. \<not> is_ws c) ''log_dir''" "list_all (\<lambda>c. \<not> is_ws c) ''kernel_vtl_reload_script''"
    "list_all (\<lambda>c. \<not> is_ws c) ''vtl_ko''" by code_simp+
  have v: "trim v = v" "v \<noteq> []" using assms by (simp_all add: one_line_def)
  note kv = w [THEN conf_line_key_value [OF _ _ _ _ v(1), rotated 2], simplified]
  show "apply_conf_line no_env (''db_path='' @ v) c = c\<lparr>cfg_db_path := v\<rparr>"
    "apply_conf_line no_env (''tape_dir='' @ v) c = c\<lparr>cfg_tape_dir := v\<rparr>"
    "apply_conf_line no_env (''log_dir='' @ v) c = c\<lparr>cfg_log_dir := v\<rparr>"
    "apply_conf_line no_env (''kernel_vtl_reload_script='' @ v) c = c\<lparr>cfg_kernel_vtl_reload_script := Some v\<rparr>"
    "apply_conf_line no_env (''vtl_ko='' @ v) c = c\<lparr>cfg_vtl_ko := Some v\<rparr>"
    using v by (simp_all add: apply_conf_line_def kv apply_vtl_conf_kv_def unless_env_def nonempty_path_def)
qed

lemma show_nat_trim: "trim (show_nat n) = show_nat n"
  using trim_digits [OF show_nat_digits] .

lemma delay_line:
  assumes "n \<le> 600000"
  shows "apply_conf_line no_env (''vtl_reload_scan_delay_ms='' @ show_nat n) c = c\<lparr>cfg_vtl_reload_scan_delay_ms := Some n\<rparr>"
proof -
  have w: "list_all (\<lambda>c. \<not> is_ws c) ''vtl_reload_scan_delay_ms''" by code_simp
  note kv = conf_line_key_value [OF _ _ w _ show_nat_trim, simplified]
  have "parse_unsigned u32_max (show_nat n) = Some n"
    using assms by (intro parse_unsigned_show_nat) (simp add: u32_max_def)
  then show ?thesis using assms
    by (simp add: apply_conf_line_def kv apply_vtl_conf_kv_def unless_env_def apply_opt_def show_nat_trim min_def)
qed

lemma fold_optional:
  "fold (apply_conf_line no_env) (optional_line key v) c =
     (case v of None \<Rightarrow> c | Some x \<Rightarrow> apply_conf_line no_env (key @ ''='' @ x) c)"
  by (simp add: optional_line_def split: option.split)

text \<open>The configuration that the written file gives: the answers, the personality of the template, and the
  defaults.\<close>

definition configured :: "InitialVtlConfParams \<Rightarrow> VtlConfig" where
  "configured p = default_config
     \<lparr>cfg_db_path := ip_db_path p, cfg_tape_dir := ip_tape_dir p, cfg_log_dir := ip_log_dir p,
      cfg_kernel_vtl_reload_script := ip_kernel_vtl_reload_script p, cfg_vtl_ko := ip_vtl_ko p,
      cfg_vtl_reload_scan_delay_ms := ip_vtl_reload_scan_delay_ms p, cfg_kernel_personality := ''ibm''\<rparr>"

lemma fold_initial:
  assumes "plain_params p"
  shows "fold (apply_conf_line no_env) (initial_conf_lines p) default_config = configured p"
proof -
  have one: "one_line (ip_db_path p)" "one_line (ip_tape_dir p)" "one_line (ip_log_dir p)"
    using assms by (simp_all add: plain_params_def)
  have head: "fold (apply_conf_line no_env)
      [''# VTL Configuration File'', ''# Database path'', ''db_path='' @ ip_db_path p, [],
       ''# Tape image directory'', ''tape_dir='' @ ip_tape_dir p, [],
       ''# Log directory'', ''log_dir='' @ ip_log_dir p] c =
      c\<lparr>cfg_db_path := ip_db_path p, cfg_tape_dir := ip_tape_dir p, cfg_log_dir := ip_log_dir p\<rparr>" for c
    using path_lines(1) [OF one(1)] path_lines(2) [OF one(2)] path_lines(3) [OF one(3)] by simp
  have script: "(case ip_kernel_vtl_reload_script p of None \<Rightarrow> c
      | Some x \<Rightarrow> apply_conf_line no_env (''kernel_vtl_reload_script'' @ ''='' @ x) c) =
      (case ip_kernel_vtl_reload_script p of None \<Rightarrow> c
      | Some x \<Rightarrow> c\<lparr>cfg_kernel_vtl_reload_script := Some x\<rparr>)" for c
    using assms path_lines(4) by (simp add: plain_params_def split: option.split)
  have ko: "(case ip_vtl_ko p of None \<Rightarrow> c | Some x \<Rightarrow> apply_conf_line no_env (''vtl_ko'' @ ''='' @ x) c) =
      (case ip_vtl_ko p of None \<Rightarrow> c | Some x \<Rightarrow> c\<lparr>cfg_vtl_ko := Some x\<rparr>)" for c
    using assms path_lines(5) by (simp add: plain_params_def split: option.split)
  have delay: "(case map_option show_nat (ip_vtl_reload_scan_delay_ms p) of None \<Rightarrow> c
      | Some x \<Rightarrow> apply_conf_line no_env (''vtl_reload_scan_delay_ms'' @ ''='' @ x) c) =
      (case ip_vtl_reload_scan_delay_ms p of None \<Rightarrow> c
      | Some n \<Rightarrow> c\<lparr>cfg_vtl_reload_scan_delay_ms := Some n\<rparr>)" for c
    using assms delay_line by (simp add: plain_params_def split: option.split)
  show ?thesis
    unfolding initial_conf_lines_def fold_append o_apply head fold_optional script ko delay fold_settings fold_suffix
    by (simp add: configured_def default_config_def split: option.split)
qed

definition line_ok :: "string \<Rightarrow> bool" where
  "line_ok l \<longleftrightarrow> NL \<notin> set l \<and> strip_cr l = l"

lemma line_ok_key: "one_line v \<Longrightarrow> NL \<notin> set k \<Longrightarrow> line_ok (k @ v)"
proof -
  have "is_ws CHR 0x0D" by code_simp
  then show "one_line v \<Longrightarrow> NL \<notin> set k \<Longrightarrow> line_ok (k @ v)"
    by (auto simp: line_ok_def one_line_def strip_cr_def trim_id)
qed

lemma one_line_show_nat: "one_line (show_nat n)"
  using show_nat_digits [of n] by (auto simp: one_line_def show_nat_trim NL_def list_all_iff is_ascii_digit_def)

lemma fixed_lines:
  "list_all line_ok (settings_block @ vtl_conf_template_suffix)"
  "list_all line_ok [''# VTL Configuration File'', ''# Database path'', [], ''# Tape image directory'', ''# Log directory'']"
  "list_all (\<lambda>k. NL \<notin> set k) [''db_path'', ''tape_dir'', ''log_dir'', ''kernel_vtl_reload_script'', ''vtl_ko'',
     ''vtl_reload_scan_delay_ms'']"
  by code_simp+

lemma line_ok_optional:
  "\<forall>v. x = Some v \<longrightarrow> one_line v \<Longrightarrow> NL \<notin> set key \<Longrightarrow> list_all line_ok (optional_line key x)"
proof -
  have "NL \<noteq> CHR ''=''" "line_ok []" by code_simp+
  then show "\<forall>v. x = Some v \<longrightarrow> one_line v \<Longrightarrow> NL \<notin> set key \<Longrightarrow> list_all line_ok (optional_line key x)"
    using line_ok_key [of _ "key @ ''=''"] by (auto simp: optional_line_def split: option.split)
qed

lemma text_lines_initial:
  assumes "plain_params p"
  shows "text_lines (format_initial_vtl_conf p) = initial_conf_lines p"
proof -
  have eq: "NL \<noteq> CHR ''=''" by code_simp
  have keys: "NL \<notin> set ''db_path''" "NL \<notin> set ''tape_dir''" "NL \<notin> set ''log_dir''"
    "NL \<notin> set ''kernel_vtl_reload_script''" "NL \<notin> set ''vtl_ko''" "NL \<notin> set ''vtl_reload_scan_delay_ms''"
    using fixed_lines(3) by simp_all
  have "list_all line_ok (optional_line ''kernel_vtl_reload_script'' (ip_kernel_vtl_reload_script p))"
    "list_all line_ok (optional_line ''vtl_ko'' (ip_vtl_ko p))"
    using assms keys by (intro line_ok_optional; simp add: plain_params_def)+
  moreover have "list_all line_ok (optional_line ''vtl_reload_scan_delay_ms''
      (map_option show_nat (ip_vtl_reload_scan_delay_ms p)))"
    using keys by (intro line_ok_optional) (auto simp: one_line_show_nat)
  moreover have "line_ok (''db_path='' @ ip_db_path p)" "line_ok (''tape_dir='' @ ip_tape_dir p)"
    "line_ok (''log_dir='' @ ip_log_dir p)"
    using assms keys eq by (intro line_ok_key; simp add: plain_params_def)+
  ultimately have "list_all line_ok (initial_conf_lines p)"
    using fixed_lines(1,2) unfolding initial_conf_lines_def list_all_append by simp
  then show ?thesis unfolding format_initial_vtl_conf_def
    by (intro text_lines_concat) (simp add: list_all_iff line_ok_def)
qed

text \<open>The settings that a new file gives are the ones asked for.\<close>

lemma setup_reads_back:
  assumes "plain_params p"
  shows "get_config_uncached no_env (Some (text_lines (format_initial_vtl_conf p))) = configured p"
proof -
  have start: "merge_env_paths no_env c = c" for c
    by (simp add: merge_env_paths_def apply_opt_def)
  have end_: "merge_env_transport_and_log no_env c = c" for c
    by (simp add: merge_env_transport_and_log_def apply_opt_def)
  have not_tmp: "under_tmp (cfg_db_path default_config) = False"
    by (simp add: default_config_def DEFAULT_INIT_DB_PATH_def under_tmp_def path_of_def)
  have not_only: "(no_env ''VTL_USE_ENV_ONLY'' = Some ''1'') = False" by simp
  show ?thesis
    unfolding get_config_uncached_def Let_def start not_tmp not_only if_False option.case end_
      text_lines_initial [OF assms] fold_initial [OF assms] by (rule refl)
qed

text \<open>The paths of the wizard are absolute; only a line break in one is not refused.\<close>

lemma set_trim: "set (trim s) \<subseteq> set s"
proof -
  have "set (dropWhile is_ws t) \<subseteq> set t" for t using set_dropWhileD by fast
  then show ?thesis unfolding trim_def trim_start_def trim_end_def by (metis set_rev subset_trans)
qed

lemma trim_trim: "trim (trim s) = trim s"
proof (cases "trim s = []")
  case False
  have "\<not> is_ws (hd (dropWhile is_ws s))" if "dropWhile is_ws s \<noteq> []" using hd_dropWhile [OF that] .
  moreover have ne: "dropWhile is_ws s \<noteq> []" 
  proof
    assume none: "dropWhile is_ws s = []"
    have "trim s = []" unfolding trim_def trim_start_def trim_end_def none by simp
    with False show False ..
  qed
  ultimately obtain c t where t: "dropWhile is_ws s = c # t" "\<not> is_ws c" by (cases "dropWhile is_ws s") auto
  then obtain r where r: "trim s = c # r"
    using trim_end_keeps_head [of c t] by (auto simp: trim_def trim_start_def)
  have "rev (trim s) = dropWhile is_ws (rev (c # t))" by (simp add: trim_def trim_start_def trim_end_def t)
  then have "\<not> is_ws (hd (rev (trim s)))" using hd_dropWhile [of is_ws "rev (c # t)"] False t(2) by simp
  then have "\<not> is_ws (last (trim s))" using False by (simp add: hd_rev)
  with r t(2) show ?thesis by (subst trim_id) simp
qed (simp add: trim_id)

lemma setup_inputs_one_line:
  "normalize_setup_path input def = Inr v \<Longrightarrow> NL \<notin> set input \<Longrightarrow> one_line def \<Longrightarrow> one_line v"
  "optional_abs_path input = Inr (Some v) \<Longrightarrow> NL \<notin> set input \<Longrightarrow> one_line v"
  using set_trim [of input]
  by (auto simp: normalize_setup_path_def optional_abs_path_def Let_def one_line_def trim_trim split: if_splits)

lemma setup_delay_bound: "optional_scan_delay_ms input = Inr (Some n) \<Longrightarrow> n \<le> 600000"
  by (auto simp: optional_scan_delay_ms_def Let_def split: if_splits option.splits)

lemma setup_input_Inr [simp]: "setup_input r s = Inr x \<longleftrightarrow> r = Inr x"
  by (simp add: setup_input_def split: sum.split)

lemma fs_try_world: "fs_try g w = (Inr u, w') \<Longrightarrow> w_env w' = w_env w \<and> w_conf_file w' = w_conf_file w"
  by (auto simp: fs_try_def fs_run_def on_part_def split: prod.splits)

lemma write_initial_effect:
  assumes "write_initial_vtl_conf p w = (Inr u, w')"
  shows "w_conf_file w' = Some (text_lines (format_initial_vtl_conf p)) \<and> w_env w' = w_env w"
  using assms by (auto simp: write_initial_vtl_conf_def thenp_def bindp_eq_Inr checkp_run modify_def
      dest!: fs_try_world split: if_splits)

lemma one_line_defaults: "one_line DEFAULT_INIT_DB_PATH" "one_line DEFAULT_INIT_TAPE_DIR" "one_line DEFAULT_INIT_LOG_DIR"
  by code_simp+

text \<open>
  The wizard takes effect at once: it starts without a configuration file, and what it answers goes
  with the configuration of the user's paths being in force and the gate being open.
\<close>

lemma wizard_takes_effect:
  assumes ok: "try_complete_primary_vtl_setup_from_web out db tape logd script ko delay False s = (Inr g, s')"
    and env: "w_env (st_world s) = no_env"
    and lines: "NL \<notin> set (db @ tape @ logd @ script @ ko)"
  obtains p where "plain_params p" "w_cfg (st_world s') = configured p" "\<not> setup_gate_active (st_world s')"
    "w_conf_file (st_world s) = None"
    "w_conf_file (st_world s') = Some (text_lines (format_initial_vtl_conf p))"
    "normalize_setup_path db DEFAULT_INIT_DB_PATH = Inr (ip_db_path p)"
    "normalize_setup_path tape DEFAULT_INIT_TAPE_DIR = Inr (ip_tape_dir p)"
    "normalize_setup_path logd DEFAULT_INIT_LOG_DIR = Inr (ip_log_dir p)"
    "optional_abs_path script = Inr (ip_kernel_vtl_reload_script p)"
    "optional_abs_path ko = Inr (ip_vtl_ko p)"
    "optional_scan_delay_ms delay = Inr (ip_vtl_reload_scan_delay_ms p)"
proof -
  from ok obtain d t l sc k ms w' where
    inputs: "normalize_setup_path db DEFAULT_INIT_DB_PATH = Inr d"
      "normalize_setup_path tape DEFAULT_INIT_TAPE_DIR = Inr t"
      "normalize_setup_path logd DEFAULT_INIT_LOG_DIR = Inr l"
      "optional_abs_path script = Inr sc" "optional_abs_path ko = Inr k" "optional_scan_delay_ms delay = Inr ms"
    and none: "w_conf_file (st_world s) = None"
    and wr: "write_initial_vtl_conf \<lparr>ip_db_path = d, ip_tape_dir = t, ip_log_dir = l,
        ip_kernel_vtl_reload_script = sc, ip_vtl_ko = k, ip_vtl_reload_scan_delay_ms = ms\<rparr> (st_world s) = (Inr (), w')"
    and s': "st_world s' = w'\<lparr>w_cfg := get_config_uncached (w_env w') (w_conf_file w')\<rparr>"
    by (auto simp: try_complete_primary_vtl_setup_from_web_def thenp_def bindp_eq_Inr checkp_run map_err_def
        on_world_def on_part_def modify_def split: if_splits prod.splits sum.splits)
  define p where "p = \<lparr>ip_db_path = d, ip_tape_dir = t, ip_log_dir = l,
        ip_kernel_vtl_reload_script = sc, ip_vtl_ko = k, ip_vtl_reload_scan_delay_ms = ms\<rparr>"
  have plain: "plain_params p"
    using lines inputs setup_inputs_one_line one_line_defaults setup_delay_bound
    by (auto simp: plain_params_def p_def)
  have w': "w_conf_file w' = Some (text_lines (format_initial_vtl_conf p))" "w_env w' = no_env"
    using write_initial_effect [OF wr] env by (simp_all add: p_def)
  have "w_cfg (st_world s') = configured p" using setup_reads_back [OF plain] by (simp add: s' w')
  moreover have "w_conf_file (st_world s') = Some (text_lines (format_initial_vtl_conf p))" by (simp add: s' w')
  moreover have "\<not> setup_gate_active (st_world s')" by (simp add: setup_gate_active_def s' w')
  ultimately show ?thesis using that [OF plain] inputs none by (simp add: p_def)
qed

text \<open>A configuration file that exists is never replaced by the wizard.\<close>

lemma wizard_keeps_file:
  "w_conf_file (st_world s) \<noteq> None \<Longrightarrow>
   snd (try_complete_primary_vtl_setup_from_web out db tape logd script ko delay now s) = s"
  by (auto simp: try_complete_primary_vtl_setup_from_web_def bindp_def thenp_def checkp_run)

end
