(* ===== verification/Stores.thy ===== *)
theory Stores
  imports Effects
begin

text \<open>
  The interface of the keyed stores that the program uses: a table row under its primary key, an
  entry of a hash map. What its clients rely on is that a lookup finds what was put last under the
  key and nothing after a deletion, and that other keys do not notice.
\<close>

locale keyed_store =
  fixes lookup :: "'s \<Rightarrow> 'k \<Rightarrow> 'v option"
    and put :: "'k \<Rightarrow> 'v \<Rightarrow> 's \<Rightarrow> 's"
  assumes lookup_put: "lookup (put k v s) k' = (if k' = k then Some v else lookup s k')"
begin

lemma put_many: "lookup (fold (\<lambda>p. put (fst p) (snd p)) ps s) k = (case map_of (rev ps) k of None \<Rightarrow> lookup s k | Some v \<Rightarrow> Some v)"
  by (induction ps arbitrary: s) (auto simp: lookup_put map_add_def split: option.splits)

lemma put_other: "k' \<noteq> k \<Longrightarrow> lookup (put k v s) k' = lookup s k'"
  by (simp add: lookup_put)

lemma put_commutes: "k \<noteq> k' \<Longrightarrow> lookup (put k v (put k' v' s)) j = lookup (put k' v' (put k v s)) j"
  by (simp add: lookup_put)

end

locale erasable_store = keyed_store +
  fixes del :: "'b \<Rightarrow> 'a \<Rightarrow> 'a"
  assumes lookup_del: "lookup (del k s) k' = (if k' = k then None else lookup s k')"
begin

lemma del_many: "lookup (fold del ks s) k = (if k \<in> set ks then None else lookup s k)"
  by (induction ks arbitrary: s) (auto simp: lookup_del)

lemma put_del: "lookup (del k (put k v s)) j = lookup (del k s) j"
  by (simp add: lookup_put lookup_del)

text \<open>A value can be taken out once: the lookup that removes finds nothing the second time.\<close>

lemma taken_once: "lookup (del k (del k' s)) k = None" "lookup s k = None \<Longrightarrow> lookup (del k' s) k = None"
  by (simp_all add: lookup_del)

end

section \<open>Association lists and row lists as stores\<close>

definition amap_del :: "'k \<Rightarrow> ('k \<times> 'v) list \<Rightarrow> ('k \<times> 'v) list" where
  "amap_del k m = filter (\<lambda>p. fst p \<noteq> k) m"

lemma map_of_amap_del: "map_of (amap_del k m) k' = (if k' = k then None else map_of m k')"
  by (induction m) (auto simp: amap_del_def)

interpretation amap: erasable_store map_of amap_put amap_del
  by unfold_locales (auto simp: map_of_amap_del map_of_amap_put)

text \<open>What \<^verbatim>\<open>HashMap::retain\<close> leaves.\<close>

definition amap_retain :: "('v \<Rightarrow> bool) \<Rightarrow> ('k \<times> 'v) list \<Rightarrow> ('k \<times> 'v) list" where
  "amap_retain P m = filter (\<lambda>p. P (snd p)) m"

lemma map_of_amap_retain:
  "distinct (map fst m) \<Longrightarrow>
   map_of (amap_retain P m) k = (case map_of m k of None \<Rightarrow> None | Some v \<Rightarrow> if P v then Some v else None)"
proof (induction m)
  case (Cons p m)
  have "map_of m (fst p) = None" using Cons.prems by (simp add: map_of_eq_None_iff)
  with Cons show ?case by (auto simp: amap_retain_def split: option.splits)
qed (simp add: amap_retain_def)

lemma distinct_amap_retain [intro]: "distinct (map fst m) \<Longrightarrow> distinct (map fst (amap_retain P m))"
  by (simp add: amap_retain_def distinct_map_filter)

lemma distinct_amap_del [intro]: "distinct (map fst m) \<Longrightarrow> distinct (map fst (amap_del k m))"
  by (simp add: amap_del_def distinct_map_filter)

end
