(* ===== verification/IscsiExport.thy ===== *)
theory IscsiExport
  imports World Stores
begin

text \<open>
  The records of iSCSI exports (\<^verbatim>\<open>iscsi_export.rs\<close>): one row per library, written when a library has
  been exported through LIO and read to undo the export. The two columns in JSON are text; the
  encoder and decoder, which are those of the crate \<^verbatim>\<open>serde_json\<close>, are a parameter.
\<close>

section \<open>Records and rows\<close>

record IscsiLibraryExportRecord =
  iqn :: string
  export_id :: string
  changer_sg :: string
  drive_sg :: "string list"
  lun_map :: "32 word list"
  portal_ip :: string
  portal_port :: "16 word"
  exported_at :: string

record json_codec =
  enc_strings :: "string list \<Rightarrow> string + string"
  dec_strings :: "string \<Rightarrow> string + string list"
  enc_u32s :: "32 word list \<Rightarrow> string + string"
  dec_u32s :: "string \<Rightarrow> string + 32 word list"

text \<open>What the program relies on: what was encoded is decoded to the same value.\<close>

definition codec_ok :: "json_codec \<Rightarrow> bool" where
  "codec_ok c \<longleftrightarrow>
     (\<forall>xs t. enc_strings c xs = Inr t \<longrightarrow> dec_strings c t = Inr xs) \<and>
     (\<forall>xs t. enc_u32s c xs = Inr t \<longrightarrow> dec_u32s c t = Inr xs)"

fun json_error :: "string + 'a \<Rightarrow> VtlError + 'a" where
  "json_error (Inl m) = Inl (InvalidParameter m)"
| "json_error (Inr x) = Inr x"

fun json_column :: "string \<Rightarrow> string + 'a \<Rightarrow> VtlError + 'a" where
  "json_column col (Inl m) = Inl (InvalidParameter (col @ '': '' @ m))"
| "json_column col (Inr x) = Inr x"

definition u16_try_from :: "int \<Rightarrow> 16 word option" where
  "u16_try_from p = (if 0 \<le> p \<and> p < 2 ^ 16 then Some (word_of_int p) else None)"

definition record_of_row :: "json_codec \<Rightarrow> export_row \<Rightarrow> VtlError + IscsiLibraryExportRecord" where
  "record_of_row c x =
     andThen (json_column ''drive_sg_json'' (dec_strings c (export_drive_sg_json x))) (\<lambda>sgs.
     andThen (json_column ''lun_map_json'' (dec_u32s c (export_lun_map_json x))) (\<lambda>luns.
     andThen (ok_or (u16_try_from (export_portal_port x))
                (InvalidParameter (''invalid portal_port in DB: '' @ show_int (export_portal_port x)))) (\<lambda>port.
       Inr \<lparr>iqn = export_iqn x, export_id = export_export_id x, changer_sg = export_changer_sg x,
            drive_sg = sgs, lun_map = luns, portal_ip = export_portal_ip x, portal_port = port,
            exported_at = export_exported_at x\<rparr>)))"

definition row_of_record :: "json_codec \<Rightarrow> int \<Rightarrow> IscsiLibraryExportRecord \<Rightarrow> VtlError + export_row" where
  "row_of_record c lib r =
     andThen (json_error (enc_strings c (drive_sg r))) (\<lambda>sgs.
     andThen (json_error (enc_u32s c (lun_map r))) (\<lambda>luns.
       Inr \<lparr>export_lib = lib, export_iqn = iqn r, export_export_id = export_id r,
            export_changer_sg = changer_sg r, export_drive_sg_json = sgs, export_lun_map_json = luns,
            export_portal_ip = portal_ip r, export_portal_port = uint (portal_port r),
            export_exported_at = exported_at r\<rparr>))"

section \<open>The table\<close>

definition find_export :: "db \<Rightarrow> int \<Rightarrow> export_row option" where
  "find_export d lib = List.find (\<lambda>x. export_lib x = lib) (exports d)"

text \<open>\<^verbatim>\<open>INSERT ... ON CONFLICT(library_id) DO UPDATE\<close> under the foreign key of the library.\<close>

definition put_export :: "int \<Rightarrow> export_row \<Rightarrow> db \<Rightarrow> db" where
  "put_export lib x d =
     d\<lparr>exports :=
         (if find_export d lib = None then exports d @ [x\<lparr>export_lib := lib\<rparr>]
          else update_where (\<lambda>y. export_lib y = lib) (\<lambda>_. x\<lparr>export_lib := lib\<rparr>) (exports d))\<rparr>"

definition save_iscsi_library_export ::
    "json_codec \<Rightarrow> int \<Rightarrow> IscsiLibraryExportRecord \<Rightarrow> db \<Rightarrow> VtlError + db" where
  "save_iscsi_library_export c lib r d =
     andThen (row_of_record c lib r) (\<lambda>x.
     andThen (require (find_export d lib \<noteq> None \<or> (\<exists>l \<in> set (libs d). lib_id l = lib))
                (constraint_failed lib)) (\<lambda>_.
       Inr (put_export lib x d)))"

definition load_iscsi_library_export ::
    "json_codec \<Rightarrow> db \<Rightarrow> int \<Rightarrow> VtlError + IscsiLibraryExportRecord option" where
  "load_iscsi_library_export c d lib =
     (case find_export d lib of
        None \<Rightarrow> Inr None
      | Some x \<Rightarrow> andThen (record_of_row c x) (\<lambda>r. Inr (Some r)))"

definition load_iscsi_library_export_by_name ::
    "json_codec \<Rightarrow> db \<Rightarrow> string \<Rightarrow> VtlError + IscsiLibraryExportRecord option" where
  "load_iscsi_library_export_by_name c d name =
     andThen (resolve_library_id d name) (load_iscsi_library_export c d)"

definition delete_iscsi_library_export :: "int \<Rightarrow> db \<Rightarrow> db" where
  "delete_iscsi_library_export lib d = d\<lparr>exports := delete_where (\<lambda>x. export_lib x = lib) (exports d)\<rparr>"

definition delete_iscsi_library_export_by_name :: "string \<Rightarrow> db \<Rightarrow> VtlError + db" where
  "delete_iscsi_library_export_by_name name d =
     andThen (resolve_library_id d name) (\<lambda>lib. Inr (delete_iscsi_library_export lib d))"

text \<open>The join with the libraries, in the order of their names; the first row that does not decode is the error.\<close>

definition exported_rows :: "db \<Rightarrow> (string \<times> export_row) list" where
  "exported_rows d =
     sort_key fst (concat (map (\<lambda>x. map (\<lambda>l. (lib_name l, x)) (filter (\<lambda>l. lib_id l = export_lib x) (libs d))) (exports d)))"

definition list_iscsi_library_exports ::
    "json_codec \<Rightarrow> db \<Rightarrow> VtlError + (string \<times> IscsiLibraryExportRecord) list" where
  "list_iscsi_library_exports c d =
     fold_ok (\<lambda>p out. andThen (record_of_row c (snd p)) (\<lambda>r. Inr (out @ [(fst p, r)]))) (exported_rows d) []"

definition find_library_name_by_export_credentials :: "db \<Rightarrow> string \<Rightarrow> string \<Rightarrow> string option" where
  "find_library_name_by_export_credentials d eid q =
     Option.bind
       (List.find (\<lambda>x. export_export_id x = eid \<and> export_iqn x = q \<and>
                       (\<exists>l \<in> set (libs d). lib_id l = export_lib x)) (exports d))
       (\<lambda>x. map_option lib_name (List.find (\<lambda>l. lib_id l = export_lib x) (libs d)))"

definition targetcli_stderr_blocks_export_save :: "string \<Rightarrow> bool" where
  "targetcli_stderr_blocks_export_save err =
     (trim err \<noteq> [] \<and>
      (let low = to_lower err
       in contains_sub ''Cannot configure'' err \<or> contains_sub ''Unknown configuration'' err \<or>
          contains_sub ''No such path'' err \<or> contains_sub ''No storage object named'' err \<or>
          contains_sub ''already in use'' low \<or> contains_sub ''wwn not valid'' low \<or>
          contains_sub ''not valid as:'' low))"

definition new_iscsi_export_record ::
    "string \<Rightarrow> string \<Rightarrow> string \<Rightarrow> string list \<Rightarrow> 32 word list \<Rightarrow> string \<Rightarrow> 16 word \<Rightarrow> string \<Rightarrow>
     IscsiLibraryExportRecord" where
  "new_iscsi_export_record q eid changer sgs luns ip port now =
     \<lparr>iqn = q, export_id = eid, changer_sg = changer, drive_sg = sgs, lun_map = luns,
      portal_ip = ip, portal_port = port, exported_at = now\<rparr>"

section \<open>Lookups\<close>

lemma find_updated_same:
  "List.find (\<lambda>x. k x = a) (update_where (\<lambda>x. k x = a) (\<lambda>_. v) xs) =
   (if k v = a then map_option (\<lambda>_. v) (List.find (\<lambda>x. k x = a) xs)
    else List.find (\<lambda>x. k x = a) (update_where (\<lambda>x. k x = a) (\<lambda>_. v) xs))"
  by (induction xs) auto

lemma find_updated_other:
  "k v = a \<Longrightarrow> b \<noteq> a \<Longrightarrow>
   List.find (\<lambda>x. k x = b) (update_where (\<lambda>x. k x = a) (\<lambda>_. v) xs) = List.find (\<lambda>x. k x = b) xs"
  by (induction xs) auto

lemma find_delete_where_key:
  "List.find (\<lambda>x. k x = b) (delete_where (\<lambda>x. k x = a) xs) =
   (if b = a then None else List.find (\<lambda>x. k x = b) xs)"
  by (induction xs) (auto simp: delete_where_def)

lemma find_append: "List.find P (xs @ ys) = (case List.find P xs of None \<Rightarrow> List.find P ys | Some x \<Rightarrow> Some x)"
  by (induction xs) auto

lemma find_put_export:
  "find_export (put_export lib x d) k = (if k = lib then Some (x\<lparr>export_lib := lib\<rparr>) else find_export d k)"
proof (cases "find_export d lib")
  case None
  then show ?thesis by (auto simp: put_export_def find_export_def find_append split: option.split)
next
  case (Some y)
  then show ?thesis
    by (simp add: put_export_def find_export_def find_updated_same find_updated_other)
qed

lemma find_delete_export:
  "find_export (delete_iscsi_library_export lib d) k = (if k = lib then None else find_export d k)"
  by (simp add: find_export_def delete_iscsi_library_export_def find_delete_where_key)

interpretation lib_settings: keyed_store "\<lambda>d k. lib_config_get d (fst k) (snd k)" "\<lambda>k. set_lib_config (fst k) (snd k)"
  by unfold_locales (auto simp: lib_config_get_def set_lib_config_def)

section \<open>Round trips\<close>

lemma u16_try_from_uint: "u16_try_from (uint p) = Some p"
  using uint_lt2p [of p] by (simp add: u16_try_from_def)

lemma u16_try_from_Some: "u16_try_from p = Some w \<Longrightarrow> uint w = p"
  by (auto simp: u16_try_from_def uint_word_of_int_eq take_bit_int_eq_self split: if_splits)

lemma json_columns: "json_error r = Inr t \<Longrightarrow> r = Inr t" "r = Inr x \<Longrightarrow> json_column col r = Inr x"
  by (cases r; simp)+

lemma record_of_row_of_record:
  assumes "codec_ok c" and "row_of_record c lib r = Inr x"
  shows "record_of_row c x = Inr r" "export_lib x = lib"
proof -
  obtain sgs luns where *: "enc_strings c (drive_sg r) = Inr sgs" "enc_u32s c (lun_map r) = Inr luns"
    and x: "x = \<lparr>export_lib = lib, export_iqn = iqn r, export_export_id = export_id r,
            export_changer_sg = changer_sg r, export_drive_sg_json = sgs, export_lun_map_json = luns,
            export_portal_ip = portal_ip r, export_portal_port = uint (portal_port r),
            export_exported_at = exported_at r\<rparr>"
    using assms(2) by (auto simp: row_of_record_def dest!: json_columns(1))
  have "dec_strings c sgs = Inr (drive_sg r)" "dec_u32s c luns = Inr (lun_map r)"
    using * assms(1) by (simp_all add: codec_ok_def)
  then show "record_of_row c x = Inr r" "export_lib x = lib"
    by (simp_all add: x record_of_row_def json_columns(2) u16_try_from_uint ok_or_def)
qed

lemma load_after_save:
  assumes "codec_ok c" and "save_iscsi_library_export c lib r d = Inr d'"
  shows "load_iscsi_library_export c d' k =
    (if k = lib then Inr (Some r) else load_iscsi_library_export c d k)"
proof -
  obtain x where x: "row_of_record c lib r = Inr x" "d' = put_export lib x d"
    using assms(2) by (auto simp: save_iscsi_library_export_def)
  note row = record_of_row_of_record [OF assms(1) x(1)]
  have "x\<lparr>export_lib := lib\<rparr> = x" using row(2) by simp
  then show ?thesis by (simp add: load_iscsi_library_export_def x(2) find_put_export row(1))
qed

lemma load_after_delete:
  "load_iscsi_library_export c (delete_iscsi_library_export lib d) k =
    (if k = lib then Inr None else load_iscsi_library_export c d k)"
  by (simp add: load_iscsi_library_export_def find_delete_export)

text \<open>A library has at most one row, and every row belongs to a library.\<close>

definition exports_ok :: "db \<Rightarrow> bool" where
  "exports_ok d \<longleftrightarrow> distinct (map export_lib (exports d)) \<and>
     (\<forall>x \<in> set (exports d). \<exists>l \<in> set (libs d). lib_id l = export_lib x)"

lemma find_export_None: "find_export d lib = None \<longleftrightarrow> lib \<notin> export_lib ` set (exports d)"
  by (auto simp: find_export_def find_None_iff)

lemma find_key_Some:
  "distinct (map k xs) \<Longrightarrow> List.find (\<lambda>x. k x = a) xs = Some x \<longleftrightarrow> x \<in> set xs \<and> k x = a"
  by (induction xs) auto

lemma find_export_Some:
  "exports_ok d \<Longrightarrow> find_export d lib = Some x \<longleftrightarrow> x \<in> set (exports d) \<and> export_lib x = lib"
  by (simp add: exports_ok_def find_export_def find_key_Some)

lemma exports_ok_save:
  assumes "exports_ok d" and "save_iscsi_library_export c lib r d = Inr d'"
  shows "exports_ok d'"
proof -
  obtain x where x: "d' = put_export lib x d"
    and lib: "find_export d lib \<noteq> None \<or> (\<exists>l \<in> set (libs d). lib_id l = lib)"
    using assms(2) by (auto simp: save_iscsi_library_export_def)
  show ?thesis
  proof (cases "find_export d lib")
    case None
    with assms(1) lib show ?thesis by (auto simp: x put_export_def exports_ok_def find_export_None)
  next
    case (Some y)
    then have "y \<in> set (exports d)" "export_lib y = lib" using find_export_Some [OF assms(1)] by auto
    moreover have "map export_lib (exports d') = map export_lib (exports d)"
      using Some by (simp add: x put_export_def update_where_def)
    moreover have "libs d' = libs d" by (simp add: x put_export_def)
    ultimately show ?thesis using assms(1) Some unfolding exports_ok_def
      by (auto simp: x put_export_def set_update_where)
  qed
qed

lemma exports_ok_delete: "exports_ok d \<Longrightarrow> exports_ok (delete_iscsi_library_export lib d)"
  by (auto simp: exports_ok_def delete_iscsi_library_export_def delete_where_def distinct_map_filter)

lemma catalog_ok_save_export: "save_iscsi_library_export c lib r d = Inr d' \<Longrightarrow> catalog_ok d' = catalog_ok d"
  by (auto simp: save_iscsi_library_export_def put_export_def catalog_ok_def keys_ok_def slots_placed_def
      drives_placed_def drives_exclusive_def shelf_xor_slot_def)

lemma catalog_ok_delete_export [simp]: "catalog_ok (delete_iscsi_library_export lib d) = catalog_ok d"
  by (simp add: delete_iscsi_library_export_def catalog_ok_def keys_ok_def slots_placed_def
      drives_placed_def drives_exclusive_def shelf_xor_slot_def)

section \<open>The listing\<close>

lemma fold_ok_collect:
  "fold_ok (\<lambda>p out. andThen (f (snd p)) (\<lambda>r. Inr (out @ [(fst p, r)]))) ps out = Inr rs \<longleftrightarrow>
   (\<exists>qs. rs = out @ qs \<and> map fst qs = map fst ps \<and> list_all2 (\<lambda>p q. f (snd p) = Inr (snd q)) ps qs)"
proof (induction ps arbitrary: out)
  case (Cons p ps)
  show ?case
  proof (cases "f (snd p)")
    case (Inl e)
    then show ?thesis by (auto simp: list_all2_Cons1)
  next
    case (Inr r)
    have "(\<exists>qs. rs = (out @ [(fst p, r)]) @ qs \<and> map fst qs = map fst ps \<and>
            list_all2 (\<lambda>p q. f (snd p) = Inr (snd q)) ps qs) \<longleftrightarrow>
          (\<exists>qs. rs = out @ qs \<and> map fst qs = map fst (p # ps) \<and>
            list_all2 (\<lambda>p q. f (snd p) = Inr (snd q)) (p # ps) qs)"
      using Inr by (fastforce simp: list_all2_Cons1)
    with Inr Cons.IH [of "out @ [(fst p, r)]"] show ?thesis by simp
  qed
qed auto

lemma set_exported_rows:
  "set (exported_rows d) = {(lib_name l, x) | l x. x \<in> set (exports d) \<and> l \<in> set (libs d) \<and> lib_id l = export_lib x}"
  by (auto simp: exported_rows_def)

text \<open>Every exported library is listed with the record that was saved for it, in the order of the names.\<close>

lemma list_exports_complete:
  assumes "list_iscsi_library_exports c d = Inr rs" "exports_ok d" "keys_ok d"
  shows "sorted (map fst rs)"
    and "(name, r) \<in> set rs \<longleftrightarrow> load_iscsi_library_export_by_name c d name = Inr (Some r)"
proof -
  from assms(1) have names: "map fst rs = map fst (exported_rows d)"
    and rows: "list_all2 (\<lambda>p q. record_of_row c (snd p) = Inr (snd q)) (exported_rows d) rs"
    by (auto simp: list_iscsi_library_exports_def fold_ok_collect)
  show "sorted (map fst rs)" by (simp add: names exported_rows_def)
  have find: "find_library d n = Some l \<longleftrightarrow> l \<in> set (libs d) \<and> lib_name l = n" for n l
    using assms(3) by (simp add: find_library_def keys_ok_def find_key_Some)
  have "(name, r) \<in> set rs \<longleftrightarrow> (\<exists>x. (name, x) \<in> set (exported_rows d) \<and> record_of_row c x = Inr r)"
  proof
    assume "(name, r) \<in> set rs"
    then obtain i where i: "i < length rs" "rs ! i = (name, r)" by (auto simp: in_set_conv_nth)
    with rows have "i < length (exported_rows d)" "record_of_row c (snd (exported_rows d ! i)) = Inr r"
      by (auto simp: list_all2_conv_all_nth)
    moreover have "fst (exported_rows d ! i) = name"
      using i names \<open>i < length (exported_rows d)\<close> by (metis fst_conv nth_map)
    ultimately show "\<exists>x. (name, x) \<in> set (exported_rows d) \<and> record_of_row c x = Inr r"
      by (metis nth_mem prod.collapse)
  next
    assume "\<exists>x. (name, x) \<in> set (exported_rows d) \<and> record_of_row c x = Inr r"
    then obtain x i where i: "i < length (exported_rows d)" "exported_rows d ! i = (name, x)"
      and x: "record_of_row c x = Inr r" by (auto simp: in_set_conv_nth)
    with rows have "i < length rs" "snd (rs ! i) = r" by (auto simp: list_all2_conv_all_nth)
    moreover have "fst (rs ! i) = name" using i names \<open>i < length rs\<close> by (metis fst_conv nth_map)
    ultimately show "(name, r) \<in> set rs" by (metis nth_mem prod.collapse)
  qed
  also have "\<dots> \<longleftrightarrow> (\<exists>l x. find_library d name = Some l \<and> find_export d (lib_id l) = Some x \<and> record_of_row c x = Inr r)"
    unfolding set_exported_rows find find_export_Some [OF assms(2)] mem_Collect_eq prod.inject
    by (intro iffI; elim exE conjE; hypsubst?; intro exI conjI; (rule refl | assumption | erule sym)?; fastforce?)
  also have "\<dots> \<longleftrightarrow> load_iscsi_library_export_by_name c d name = Inr (Some r)"
    by (auto simp: load_iscsi_library_export_by_name_def resolve_library_id_def load_iscsi_library_export_def
        split: option.splits)
  finally show "(name, r) \<in> set rs \<longleftrightarrow> load_iscsi_library_export_by_name c d name = Inr (Some r)" .
qed

end
