(* ===== verification/Patrol.thy ===== *)
theory Patrol
  imports Setup IscsiExport Reconcile
begin

text \<open>
  The patrol (\<^verbatim>\<open>patrol.rs\<close>): eleven checks of the kernel module, the devices, the configuration, the
  database and the exports, one line of output each or more, and the exit code for the monitoring.
  What the host answers is the record \<open>patrol_host\<close>, together with the probes of \<open>ScsiTools\<close>; it is
  one answer for the time of a patrol. A line is its severity with what it is about.
\<close>

section \<open>The report\<close>

datatype severity = OkLine | WarnLine | CritLine

record PatrolRunner =
  warn_count :: nat
  crit_count :: nat
  pr_strict :: bool
  pr_lines :: "(severity \<times> string) list"

definition PATROL_EXIT_OK :: int where "PATROL_EXIT_OK = 0"
definition PATROL_EXIT_WARN :: int where "PATROL_EXIT_WARN = 1"
definition PATROL_EXIT_CRIT :: int where "PATROL_EXIT_CRIT = 2"

definition env_flag :: "env \<Rightarrow> string \<Rightarrow> bool" where
  "env_flag e v =
     (case e v of None \<Rightarrow> False
      | Some s \<Rightarrow> to_lower (trim s) \<in> {''1'', ''true'', ''yes'', ''on''})"

definition new_runner :: "env \<Rightarrow> PatrolRunner" where
  "new_runner e = \<lparr>warn_count = 0, crit_count = 0, pr_strict = env_flag e ''VTL_PATROL_STRICT'', pr_lines = []\<rparr>"

definition pr_ok :: "string \<Rightarrow> PatrolRunner \<Rightarrow> PatrolRunner" where
  "pr_ok m pr = pr\<lparr>pr_lines := pr_lines pr @ [(OkLine, m)]\<rparr>"

definition pr_warn :: "string \<Rightarrow> PatrolRunner \<Rightarrow> PatrolRunner" where
  "pr_warn m pr = pr\<lparr>pr_lines := pr_lines pr @ [(WarnLine, m)], warn_count := warn_count pr + 1\<rparr>"

definition pr_crit :: "string \<Rightarrow> PatrolRunner \<Rightarrow> PatrolRunner" where
  "pr_crit m pr = pr\<lparr>pr_lines := pr_lines pr @ [(CritLine, m)], crit_count := crit_count pr + 1\<rparr>"

definition exit_code :: "PatrolRunner \<Rightarrow> int" where
  "exit_code pr =
     (if 0 < crit_count pr then PATROL_EXIT_CRIT
      else if 0 < warn_count pr \<and> pr_strict pr then PATROL_EXIT_WARN
      else PATROL_EXIT_OK)"

section \<open>The host\<close>

record patrol_host =
  ph_read :: "string \<Rightarrow> string option"
  ph_exists :: "string \<Rightarrow> bool"
  ph_is_file :: "string \<Rightarrow> bool"
  ph_lsmod :: bool
  ph_command :: "string \<Rightarrow> bool"
  ph_lsscsi :: "string option"
  ph_targetcli :: "(bool \<times> string) option"
  ph_iscsi_entries :: "string list option"
  ph_curl :: "bool option"

definition SYSFS_INSTANCES :: string where
  "SYSFS_INSTANCES = ''/sys/module/vtl/parameters/vtl_instances''"

definition vtl_module_loaded :: "patrol_host \<Rightarrow> bool" where
  "vtl_module_loaded h =
     (case ph_read h ''/proc/modules'' of
        Some m \<Rightarrow> list_ex (starts_with ''vtl '') (text_lines m)
      | None \<Rightarrow> ph_lsmod h)"

definition read_or_empty :: "patrol_host \<Rightarrow> string \<Rightarrow> string" where
  "read_or_empty h p = (case ph_read h p of None \<Rightarrow> [] | Some s \<Rightarrow> s)"

definition read_vtl_module_param :: "patrol_host \<Rightarrow> string \<Rightarrow> string option" where
  "read_vtl_module_param h name =
     (let p = ''/sys/module/vtl/parameters/'' @ name
      in if \<not> ph_is_file h p then None else map_option trim (ph_read h p))"

definition hot_geom_allowed :: "string \<Rightarrow> bool" where
  "hot_geom_allowed s = (s \<in> {''Y'', ''y'', ''1''})"

section \<open>Checks of the host\<close>

definition check_kernel_module :: "patrol_host \<Rightarrow> PatrolRunner \<Rightarrow> PatrolRunner" where
  "check_kernel_module h =
     (if vtl_module_loaded h then pr_ok ''vtl.ko loaded'' else pr_crit ''vtl.ko not loaded'')"

definition check_sysfs_and_ioctl :: "patrol_host \<Rightarrow> PatrolRunner \<Rightarrow> PatrolRunner" where
  "check_sysfs_and_ioctl h pr =
     (let pr1 = (if ph_exists h SYSFS_INSTANCES
                 then pr_ok (''sysfs vtl_instances='' @
                        trim (case ph_read h SYSFS_INSTANCES of None \<Rightarrow> ''(unreadable)'' | Some s \<Rightarrow> s)) pr
                 else if vtl_module_loaded h then pr_warn ''sysfs vtl_instances unreadable'' pr else pr)
      in if ph_exists h ''/dev/vtl'' then pr_ok ''/dev/vtl present'' pr1
         else if vtl_module_loaded h then pr_warn ''/dev/vtl missing'' pr1 else pr1)"

definition check_scsi_bus :: "patrol_host \<Rightarrow> PatrolRunner \<Rightarrow> PatrolRunner" where
  "check_scsi_bus h pr =
     (if \<not> ph_command h ''lsscsi'' then pr_warn ''lsscsi not installed'' pr
      else case ph_lsscsi h of
          None \<Rightarrow> pr_warn ''lsscsi execution failed'' pr
        | Some text \<Rightarrow>
            (let ls = filter (contains_sub ''VTL'') (text_lines text)
             in if ls = [] then (if vtl_module_loaded h then pr_crit ''lsscsi: no VTL SCSI rows'' pr else pr)
                else pr_ok (''lsscsi: '' @ show_nat (length ls) @ '' vtl SCSI device line(s)'') pr))"

definition check_userspace_config :: "patrol_host \<Rightarrow> PatrolRunner \<Rightarrow> (site, 'e, PatrolRunner) prog" where
  "check_userspace_config h pr = gets (\<lambda>s.
     let w = st_world s;
         pr1 = (if w_conf_file w \<noteq> None then pr_ok ''vtl.conf present'' pr else pr_warn ''vtl.conf missing'' pr);
         pr2 = (case st_cache s of
                  Some spec \<Rightarrow>
                    (let cached = trim spec;
                         pr' = pr_ok (''last applied spec (vtladm cache): '' @ cached) pr1
                     in if ph_is_file h SYSFS_INSTANCES
                        then (let sys = trim (read_or_empty h SYSFS_INSTANCES)
                              in if sys \<noteq> [] \<and> sys \<noteq> ''(null)'' \<and> sys \<noteq> cached
                                 then pr_warn ''sysfs vtl_instances differs from .last_vtl_instances_spec'' pr' else pr')
                        else pr')
                | None \<Rightarrow> if vtl_module_loaded h then pr_warn ''no .last_vtl_instances_spec'' pr1 else pr1)
     in if ph_is_file h (cfg_db_path (w_cfg w)) then pr_ok ''vtl.db present'' pr2
        else if vtl_module_loaded h then pr_warn ''vtl.db missing'' pr2 else pr2)"

definition check_transport_links :: "patrol_host \<Rightarrow> VtlConfig \<Rightarrow> PatrolRunner \<Rightarrow> PatrolRunner" where
  "check_transport_links h c pr =
     (let pr1 = pr_ok (''vtl.conf transport='' @ as_conf_str (cfg_transport c)) pr
      in case cfg_transport c of
           LocalScsi \<Rightarrow> if vtl_module_loaded h then pr_ok ''local SCSI: vtl.ko provides the nodes'' pr1 else pr1
         | Iscsi \<Rightarrow>
             (let pr2 = (if ph_exists h ''/sys/kernel/config/target'' then pr_ok ''iSCSI: configfs present'' pr1
                         else pr_warn ''transport=iscsi but LIO configfs missing'' pr1)
              in if \<not> ph_command h ''targetcli'' then pr_warn ''transport=iscsi but targetcli not in PATH'' pr2 else pr2)
         | Fc \<Rightarrow>
             (let pr2 = (if ph_exists h ''/sys/class/fc_host'' then pr_ok ''FC: fc_host present'' pr1
                         else pr_warn ''transport=fc but no FC host in sysfs'' pr1)
              in if cfg_fc_wwpn c = None then pr_warn ''transport=fc but fc_wwpn unset in vtl.conf'' pr2 else pr2))"

definition check_web_optional :: "patrol_host \<Rightarrow> env \<Rightarrow> PatrolRunner \<Rightarrow> PatrolRunner" where
  "check_web_optional h e =
     (let host = (case e ''VTLADM_WEB_HOST'' of None \<Rightarrow> ''127.0.0.1'' | Some x \<Rightarrow> x);
          port = (case e ''VTLADM_WEB_PORT'' of None \<Rightarrow> ''8765'' | Some x \<Rightarrow> x);
          at = host @ '':'' @ port
      in case ph_curl h of
           Some True \<Rightarrow> pr_ok (''Web UI responds on '' @ at)
         | Some False \<Rightarrow> pr_warn (''Web UI not reachable on '' @ at)
         | None \<Rightarrow> pr_warn (''Web UI probe skipped on '' @ at))"

section \<open>Checks of the database\<close>

definition check_database_integrity :: "json_codec \<Rightarrow> PatrolRunner \<Rightarrow> (site, 'e, PatrolRunner) prog" where
  "check_database_integrity c pr =
     bindp (attempt (on_world init_db)) (\<lambda>r.
     case r of
       Inl _ \<Rightarrow> ret (pr_crit ''SQLite init_db failed'' pr)
     | Inr _ \<Rightarrow> gets (\<lambda>s.
         let d = w_db (st_world s);
             online = count_exported_online_libraries d;
             n = length (case list_iscsi_library_exports c d of Inl _ \<Rightarrow> [] | Inr xs \<Rightarrow> xs);
             pr1 = pr_ok ''SQLite database opens'' pr;
             pr2 = (if online = 0 then pr_warn ''no online libraries in DB'' pr1
                    else pr_ok (''DB: '' @ show_nat (length (libs d)) @ '' library row(s), '' @ show_nat online @ '' online'') pr1)
         in if n = 0 then pr_ok ''DB: no iscsi_library_exports rows'' pr2
            else pr_ok (''DB: '' @ show_nat n @ '' iSCSI export record(s) persisted'') pr2))"

definition check_db_kernel_geometry :: "patrol_host \<Rightarrow> PatrolRunner \<Rightarrow> (site, 'e, PatrolRunner) prog" where
  "check_db_kernel_geometry h pr =
     (if \<not> vtl_module_loaded h then ret pr
      else bindp (gets (\<lambda>s. cfg_db_path (w_cfg (st_world s)))) (\<lambda>db.
        if \<not> ph_is_file h db then ret pr
        else
          let sysfs = (if ph_is_file h SYSFS_INSTANCES then trim (read_or_empty h SYSFS_INSTANCES) else [])
          in bindp (attempt (on_world build_vtl_instances_kernel_spec)) (\<lambda>r.
             ret (case r of
                    Inr spec \<Rightarrow>
                      if sysfs = [] \<or> sysfs = ''(null)''
                      then pr_warn (''DB expects vtl_instances='' @ spec @ '' but sysfs empty'') pr
                      else if sysfs \<noteq> spec
                      then pr_warn (''kernel vtl_instances='' @ sysfs @ '' != DB spec '' @ spec) pr
                      else pr_ok (''DB/kernel geometry match: '' @ spec) pr
                  | Inl e \<Rightarrow> pr_warn ''cannot build DB vtl_instances spec'' pr))))"

definition check_kernel_geom_safety :: "patrol_host \<Rightarrow> outside \<Rightarrow> PatrolRunner \<Rightarrow> (site, 'e, PatrolRunner) prog" where
  "check_kernel_geom_safety h out pr =
     (if \<not> vtl_module_loaded h then ret pr
      else
        let allow = read_vtl_module_param h ''allow_hot_geom'';
            pr1 = (if hot_geom_allowed (case allow of None \<Rightarrow> [] | Some a \<Rightarrow> a)
                   then pr_warn ''kernel allow_hot_geom=Y'' pr else pr_ok ''kernel allow_hot_geom=N'' pr)
        in bindp (lio_pscsi_references_vtl_sg out) (\<lambda>lio.
           let pr2 = (if lio then pr_warn ''LIO pscsi still references VTL /dev/sg'' pr1 else pr1)
           in bindp (probe_vtl_device_holders out) (\<lambda>v.
              let pr3 = (case v of Busy \<Rightarrow> pr_warn ''VTL st/sg nodes have open handles'' pr2
                         | FuserUnavailable \<Rightarrow> pr_warn ''fuser missing'' pr2 | Clear \<Rightarrow> pr2)
              in gets (\<lambda>s.
                 case cfg_kernel_vtl_reload_script (w_cfg (st_world s)) of
                   Some script \<Rightarrow>
                     if ph_is_file h script then pr_ok (''kernel_vtl_reload_script configured: '' @ script) pr3
                     else pr_warn (''kernel_vtl_reload_script missing: '' @ script) pr3
                 | None \<Rightarrow>
                     if (case allow of None \<Rightarrow> True | Some a \<Rightarrow> \<not> hot_geom_allowed a)
                     then pr_warn ''no kernel_vtl_reload_script'' pr3 else pr3))))"

section \<open>Exports against LIO\<close>

definition probe_lio_tree_text :: "patrol_host \<Rightarrow> string option" where
  "probe_lio_tree_text h =
     (if \<not> ph_exists h ''/sys/kernel/config/target'' then None
      else
        let fallback =
          (let buf = ln ''--- configfs iscsi ---'' @
                     concat (map ln (case ph_iscsi_entries h of None \<Rightarrow> [] | Some es \<Rightarrow> es))
           in if 2 < length (text_lines buf) then Some buf else None)
        in if ph_command h ''targetcli''
           then (case ph_targetcli h of
                   None \<Rightarrow> None
                 | Some (ok, out) \<Rightarrow> if ok \<or> out \<noteq> [] then Some out else fallback)
           else fallback)"

definition check_drive_sgs :: "patrol_host \<Rightarrow> string \<Rightarrow> string \<Rightarrow> string list \<Rightarrow> PatrolRunner \<Rightarrow> PatrolRunner" where
  "check_drive_sgs h lib lsscsi sgs =
     fold (\<lambda>sg pr.
       let pr1 = (if \<not> ph_exists h sg then pr_warn (''library '' @ lib @ '': drive_sg '' @ sg @ '' missing'') pr else pr)
       in if \<not> contains_sub sg lsscsi then pr_warn (''library '' @ lib @ '': drive_sg '' @ sg @ '' not in lsscsi'') pr1
          else pr1) sgs"

definition patrol_validate_iscsi_record ::
    "patrol_host \<Rightarrow> string \<Rightarrow> IscsiLibraryExportRecord \<Rightarrow> string option \<Rightarrow> string \<Rightarrow> db \<Rightarrow> PatrolRunner \<Rightarrow> PatrolRunner" where
  "patrol_validate_iscsi_record h lib r lio lsscsi d pr =
     (case lio of
        None \<Rightarrow> pr_warn (''library '' @ lib @ '': DB has iSCSI export but LIO cannot be probed'') pr
      | Some text \<Rightarrow>
          (let pr1 = (if \<not> contains_sub (iqn r) text
                      then pr_warn (''library '' @ lib @ '': DB IQN '' @ iqn r @ '' not in LIO'') pr
                      else pr_ok (''library '' @ lib @ '': IQN present in LIO'') pr);
               ch_bs = export_id r @ ''_ch'';
               pr2 = (if \<not> contains_sub ch_bs text
                      then pr_warn (''library '' @ lib @ '': pscsi backstore '' @ ch_bs @ '' not in LIO'') pr1 else pr1);
               pr3 = (if \<not> ph_exists h (changer_sg r)
                      then pr_warn (''library '' @ lib @ '': changer_sg not on filesystem'') pr2 else pr2);
               pr4 = check_drive_sgs h lib lsscsi (drive_sg r) pr3
           in case resolve_library_id d lib of
                Inl _ \<Rightarrow> pr4
              | Inr i \<Rightarrow>
                  if length (drive_sg r) \<noteq> drive_count d i
                  then pr_warn (''library '' @ lib @ '': the record and the DB differ in the number of drives'') pr4
                  else pr4))"

text \<open>The row of a record goes when the tree could be read and does not name its IQN.\<close>

definition clear_stale_export :: "bool \<Rightarrow> string option \<Rightarrow> string \<times> IscsiLibraryExportRecord \<Rightarrow>
    PatrolRunner \<times> db \<Rightarrow> PatrolRunner \<times> db" where
  "clear_stale_export clear lio p x =
     (case lio of
        Some text \<Rightarrow>
          if clear \<and> \<not> contains_sub (iqn (snd p)) text
          then (case delete_iscsi_library_export_by_name (fst p) (snd x) of
                  Inr d' \<Rightarrow> (pr_ok (''library '' @ fst p @ '': cleared stale iSCSI DB record'') (fst x), d')
                | Inl _ \<Rightarrow> x)
          else x
      | None \<Rightarrow> x)"

definition align_record :: "patrol_host \<Rightarrow> bool \<Rightarrow> string option \<Rightarrow> string \<Rightarrow> string \<times> IscsiLibraryExportRecord \<Rightarrow>
    PatrolRunner \<times> db \<Rightarrow> PatrolRunner \<times> db" where
  "align_record h clear lio lsscsi p x =
     clear_stale_export clear lio p
       (patrol_validate_iscsi_record h (fst p) (snd p) lio lsscsi (snd x) (fst x), snd x)"

definition align_exports :: "patrol_host \<Rightarrow> json_codec \<Rightarrow> bool \<Rightarrow> PatrolRunner \<Rightarrow> db \<Rightarrow> PatrolRunner \<times> db" where
  "align_exports h c clear pr d =
     (case list_iscsi_library_exports c d of
        Inl _ \<Rightarrow> (pr_warn ''list iscsi_library_exports'' pr, d)
      | Inr xs \<Rightarrow>
          if xs = [] then (pr, d)
          else
            let lio = probe_lio_tree_text h;
                lsscsi = (case ph_lsscsi h of None \<Rightarrow> [] | Some t \<Rightarrow> t);
                (pr1, d1) = fold (align_record h clear lio lsscsi) xs (pr, d)
            in ((case lio of
                   Some text \<Rightarrow>
                     if contains_sub ''pscsi'' text \<and> xs = []
                     then pr_warn ''LIO has pscsi objects but no iscsi_library_exports in DB'' pr1 else pr1
                 | None \<Rightarrow> pr1), d1))"

definition check_iscsi_db_lio_alignment ::
    "patrol_host \<Rightarrow> json_codec \<Rightarrow> env \<Rightarrow> PatrolRunner \<Rightarrow> (site, 'e, PatrolRunner) prog" where
  "check_iscsi_db_lio_alignment h c e pr =
     bindp (attempt (on_world init_db)) (\<lambda>r.
     case r of
       Inl _ \<Rightarrow> ret pr
     | Inr _ \<Rightarrow> on_world (\<lambda>w.
         let (pr', d) = align_exports h c (env_flag e ''VTL_PATROL_CLEAR_STALE_ISCSI_DB'') pr (w_db w)
         in (Inr pr', w\<lparr>w_db := d\<rparr>)))"

definition check_robot_inventory_automation :: "patrol_host \<Rightarrow> PatrolRunner \<Rightarrow> (site, 'e, PatrolRunner) prog" where
  "check_robot_inventory_automation h pr =
     bindp (gets st_world) (\<lambda>w.
     if \<not> robot_on w then ret pr
     else if \<not> ph_exists h ''/dev/vtl'' then ret (pr_warn ''robot_sync enabled but /dev/vtl missing'' pr)
     else if \<not> ph_is_file h (cfg_db_path (w_cfg w)) then ret pr
     else if \<not> auto_sync_db_from_kernel_enabled (w_env w) (w_cfg w)
     then ret (pr_ok ''auto_sync_db_from_kernel=false'' pr)
     else
       bindp (attempt (on_world sync_db_from_kernel_all_libraries)) (\<lambda>r.
       ret (case r of
              Inr rep \<Rightarrow> pr_ok (''sync-db ('' @ show_nat (sync_libraries rep) @ '', '' @ show_nat (sync_updated rep) @ '')'') pr
            | Inl (InvalidParameter m) \<Rightarrow>
                if contains_sub ''truncated'' m then pr_warn (''sync-db skipped: '' @ m) pr
                else pr_warn ''sync-db failed'' pr
            | Inl x \<Rightarrow> pr_warn ''sync-db failed'' pr)))"

section \<open>The patrol\<close>

definition run_patrol_inner :: "patrol_host \<Rightarrow> outside \<Rightarrow> json_codec \<Rightarrow> (site, VtlError, PatrolRunner) prog" where
  "run_patrol_inner h out c =
     bindp (gets (\<lambda>s. w_env (st_world s))) (\<lambda>e.
     bindp (check_userspace_config h (check_scsi_bus h (check_sysfs_and_ioctl h (check_kernel_module h (new_runner e))))) (\<lambda>pr.
     bindp (check_database_integrity c pr) (\<lambda>pr.
     bindp (check_db_kernel_geometry h pr) (\<lambda>pr.
     bindp (check_kernel_geom_safety h out pr) (\<lambda>pr.
     bindp (gets (\<lambda>s. w_cfg (st_world s))) (\<lambda>cfg.
     bindp (check_iscsi_db_lio_alignment h c e (check_transport_links h cfg pr)) (\<lambda>pr.
     bindp (check_robot_inventory_automation h pr) (\<lambda>pr.
       ret (check_web_optional h e pr)))))))))"

definition run_patrol :: "patrol_host \<Rightarrow> outside \<Rightarrow> json_codec \<Rightarrow> site \<Rightarrow> int \<times> site" where
  "run_patrol h out c s =
     (case run_patrol_inner h out c s of
        (Inr pr, s') \<Rightarrow> (exit_code pr, s')
      | (Inl _, s') \<Rightarrow> (PATROL_EXIT_CRIT, s'))"

section \<open>What a report says\<close>

text \<open>A check adds lines and counts them.\<close>

definition extends :: "PatrolRunner \<Rightarrow> PatrolRunner \<Rightarrow> bool" where
  "extends pr pr' \<longleftrightarrow> pr_strict pr' = pr_strict pr \<and>
     (\<exists>ls. pr_lines pr' = pr_lines pr @ ls \<and>
           warn_count pr' = warn_count pr + count_where (\<lambda>l. fst l = WarnLine) ls \<and>
           crit_count pr' = crit_count pr + count_where (\<lambda>l. fst l = CritLine) ls)"

lemma extends_refl [simp]: "extends pr pr"
  by (simp add: extends_def count_where_def)

lemma extends_trans: "extends a b \<Longrightarrow> extends b c \<Longrightarrow> extends a c"
  by (auto simp: extends_def count_where_def)

lemma extends_line [simp]: "extends pr (pr_ok m pr)" "extends pr (pr_warn m pr)" "extends pr (pr_crit m pr)"
  by (simp_all add: extends_def pr_ok_def pr_warn_def pr_crit_def count_where_def)

lemma extends_more:
  "extends a b \<Longrightarrow> extends a (pr_ok m b)" "extends a b \<Longrightarrow> extends a (pr_warn m b)"
  "extends a b \<Longrightarrow> extends a (pr_crit m b)"
  by (auto intro: extends_trans)

lemma extends_check_kernel: "extends pr (check_kernel_module h pr)"
  by (simp add: check_kernel_module_def)

lemma extends_check_sysfs: "extends pr (check_sysfs_and_ioctl h pr)"
  by (simp add: check_sysfs_and_ioctl_def Let_def extends_more)

lemma extends_check_scsi: "extends pr (check_scsi_bus h pr)"
  by (simp add: check_scsi_bus_def Let_def split: option.split)

lemma extends_check_transport: "extends pr (check_transport_links h c pr)"
  by (simp add: check_transport_links_def Let_def extends_more split: FabTransport.split)

lemma extends_check_web: "extends pr (check_web_optional h e pr)"
  by (simp add: check_web_optional_def Let_def split: option.split bool.split)

lemma returns_check_config: "returns (check_userspace_config h pr) (extends pr)"
  unfolding check_userspace_config_def
  by (rule returns_gets) (simp add: Let_def extends_more split: option.split)

lemma returns_check_database: "returns (check_database_integrity c pr) (extends pr)"
  unfolding check_database_integrity_def
  by (intro returns_intros) (simp_all add: Let_def extends_more split: sum.split)

lemma returns_check_geometry: "returns (check_db_kernel_geometry h pr) (extends pr)"
  unfolding check_db_kernel_geometry_def Let_def
  by (intro returns_intros) (simp_all split: sum.split)

lemma returns_emit [returns_intros]: "returns (emit x) (\<lambda>_. True)"
  by (simp add: emit_def returns_modify)

lemma returns_ask [returns_intros]: "returns (ask f) (\<lambda>_. True)"
  unfolding ask_def by (intro returns_intros TrueI)

lemma returns_devices [returns_intros]: "returns (vtl_scsi_device_paths out) (\<lambda>_. True)"
  unfolding vtl_scsi_device_paths_def by (intro returns_intros TrueI)

lemma returns_any_held [returns_intros]: "returns (any_held out ps) (\<lambda>_. True)"
proof (induction ps)
  case Nil
  show ?case unfolding any_held.simps by (intro returns_intros TrueI)
next
  case (Cons p ps)
  then show ?case unfolding any_held.simps by (intro returns_intros TrueI)
qed

lemma returns_holders [returns_intros]: "returns (probe_vtl_device_holders out) (\<lambda>_. True)"
  unfolding probe_vtl_device_holders_def by (intro returns_intros TrueI)

lemma returns_option [returns_intros]:
  "returns a Q \<Longrightarrow> (\<And>v. returns (b v) Q) \<Longrightarrow> returns (case x of None \<Rightarrow> a | Some v \<Rightarrow> b v) Q"
  by (simp split: option.split)

lemma returns_lio [returns_intros]: "returns (lio_pscsi_references_vtl_sg out) (\<lambda>_. True)"
  unfolding lio_pscsi_references_vtl_sg_def Let_def by (intro returns_intros TrueI)

lemma returns_check_safety: "returns (check_kernel_geom_safety h out pr) (extends pr)"
  unfolding check_kernel_geom_safety_def Let_def
  by (intro returns_intros) (simp_all add: extends_more split: option.split VtlHoldersProbe.split)

lemma extends_drive_sgs: "extends pr (check_drive_sgs h lib t sgs pr)"
proof (induction sgs arbitrary: pr)
  case (Cons sg sgs)
  show ?case using Cons.IH unfolding check_drive_sgs_def fold.simps o_apply Let_def
    by (rule extends_trans [rotated]) (simp add: extends_more)
qed (simp add: check_drive_sgs_def)

lemma extends_validate: "extends pr (patrol_validate_iscsi_record h lib r lio t d pr)"
proof (cases lio)
  case (Some tree)
  show ?thesis unfolding patrol_validate_iscsi_record_def Some option.case Let_def
    by (simp add: extends_more extends_trans [OF _ extends_drive_sgs] split: sum.split)
qed (simp add: patrol_validate_iscsi_record_def)

lemma extends_align_record: "extends (fst x) (fst (align_record h b lio t p x))"
  unfolding align_record_def clear_stale_export_def
  by (simp add: extends_validate extends_more split: option.split sum.split)

lemma extends_align_records: "extends (fst x) (fst (fold (align_record h b lio t) ps x))"
proof (induction ps arbitrary: x)
  case (Cons p ps)
  have "extends (fst (align_record h b lio t p x)) (fst (fold (align_record h b lio t) ps (align_record h b lio t p x)))"
    by (rule Cons.IH)
  from extends_trans [OF extends_align_record this] show ?case by simp
qed simp

lemma extends_align: "extends pr (fst (align_exports h c b pr d))"
proof (cases "list_iscsi_library_exports c d")
  case (Inr xs)
  have "extends pr (fst (fold (align_record h b l t) xs (pr, d)))" for l t
    using extends_align_records [of "(pr, d)"] by simp
  then show ?thesis
    by (simp add: align_exports_def Inr Let_def split_beta extends_more split: option.split)
qed (simp add: align_exports_def)

lemma returns_check_exports: "returns (check_iscsi_db_lio_alignment h c e pr) (extends pr)"
  unfolding check_iscsi_db_lio_alignment_def
proof (intro returns_intros)
  show "returns (on_world (\<lambda>w. let (pr', d) = align_exports h c (env_flag e ''VTL_PATROL_CLEAR_STALE_ISCSI_DB'') pr (w_db w)
      in (Inr pr', w\<lparr>w_db := d\<rparr>))) (extends pr)"
    using extends_align
    by (auto simp: returns_def on_world_def on_part_def split_beta)
qed simp_all

lemma returns_check_robot: "returns (check_robot_inventory_automation h pr) (extends pr)"
  unfolding check_robot_inventory_automation_def
  by (intro returns_intros) (simp_all split: sum.split VtlError.split)

text \<open>The patrol always ends with a report, which extends the one of the first check.\<close>

lemma patrol_reports:
  obtains pr s' where "run_patrol_inner h out c s = (Inr pr, s')"
    "extends (check_kernel_module h (new_runner (w_env (st_world s)))) pr"
proof -
  let ?e = "w_env (st_world s)"
  let ?first = "check_kernel_module h (new_runner ?e)"
  let ?host = "check_scsi_bus h (check_sysfs_and_ioctl h ?first)"
  have host: "extends ?first ?host"
    by (rule extends_trans [OF extends_check_sysfs extends_check_scsi])
  let ?rest = "bindp (check_userspace_config h ?host) (\<lambda>pr.
     bindp (check_database_integrity c pr) (\<lambda>pr.
     bindp (check_db_kernel_geometry h pr) (\<lambda>pr.
     bindp (check_kernel_geom_safety h out pr) (\<lambda>pr.
     bindp (gets (\<lambda>s. w_cfg (st_world s))) (\<lambda>cfg.
     bindp (check_iscsi_db_lio_alignment h c ?e (check_transport_links h cfg pr)) (\<lambda>pr.
     bindp (check_robot_inventory_automation h pr) (\<lambda>pr.
       ret (check_web_optional h ?e pr)))))))) :: (site, VtlError, PatrolRunner) prog"
  have "returns ?rest (extends ?first)"
  proof (rule returns_bindp [OF returns_check_config])
    fix a assume "extends ?host a"
    with host have a: "extends ?first a" by (rule extends_trans)
    show "returns (bindp (check_database_integrity c a) (\<lambda>pr.
     bindp (check_db_kernel_geometry h pr) (\<lambda>pr.
     bindp (check_kernel_geom_safety h out pr) (\<lambda>pr.
     bindp (gets (\<lambda>s. w_cfg (st_world s))) (\<lambda>cfg.
     bindp (check_iscsi_db_lio_alignment h c ?e (check_transport_links h cfg pr)) (\<lambda>pr.
     bindp (check_robot_inventory_automation h pr) (\<lambda>pr.
       ret (check_web_optional h ?e pr)))))))) (extends ?first)"
      by (intro returns_bindp [OF returns_check_database] returns_bindp [OF returns_check_geometry]
          returns_bindp [OF returns_check_safety] returns_any returns_bindp [OF returns_check_exports]
          returns_bindp [OF returns_check_robot] returns_ret returns_gets TrueI)
        (meson a extends_trans extends_check_transport extends_check_web)
  qed
  then obtain pr s' where "?rest s = (Inr pr, s')" "extends ?first pr" unfolding returns_def by blast
  then show ?thesis by (intro that [of pr s']) (simp_all add: run_patrol_inner_def)
qed

text \<open>The exit code is that of the worst line.\<close>

lemma extends_new_runner:
  assumes "extends (new_runner e) pr"
  shows "exit_code pr = PATROL_EXIT_CRIT \<longleftrightarrow> (\<exists>m. (CritLine, m) \<in> set (pr_lines pr))"
    and "exit_code pr = PATROL_EXIT_WARN \<longleftrightarrow> (\<nexists>m. (CritLine, m) \<in> set (pr_lines pr)) \<and>
      (\<exists>m. (WarnLine, m) \<in> set (pr_lines pr)) \<and> env_flag e ''VTL_PATROL_STRICT''"
proof -
  from assms have "pr_strict pr = env_flag e ''VTL_PATROL_STRICT''"
    "warn_count pr = count_where (\<lambda>l. fst l = WarnLine) (pr_lines pr)"
    "crit_count pr = count_where (\<lambda>l. fst l = CritLine) (pr_lines pr)"
    by (auto simp: extends_def new_runner_def)
  moreover have "0 < count_where (\<lambda>l. fst l = v) ls \<longleftrightarrow> (\<exists>m. (v, m) \<in> set ls)" for v and ls :: "(severity \<times> string) list"
    by (force simp: count_where_def filter_empty_conv)
  ultimately show "exit_code pr = PATROL_EXIT_CRIT \<longleftrightarrow> (\<exists>m. (CritLine, m) \<in> set (pr_lines pr))"
    "exit_code pr = PATROL_EXIT_WARN \<longleftrightarrow> (\<nexists>m. (CritLine, m) \<in> set (pr_lines pr)) \<and>
      (\<exists>m. (WarnLine, m) \<in> set (pr_lines pr)) \<and> env_flag e ''VTL_PATROL_STRICT''"
    by (auto simp: exit_code_def PATROL_EXIT_CRIT_def PATROL_EXIT_WARN_def PATROL_EXIT_OK_def)
qed

section \<open>Which records a patrol clears\<close>

definition stale :: "string \<Rightarrow> string \<times> IscsiLibraryExportRecord \<Rightarrow> bool" where
  "stale tree p \<longleftrightarrow> \<not> contains_sub (iqn (snd p)) tree"

lemma snd_clear_stale:
  "snd (clear_stale_export True (Some tree) p x) =
     (snd x)\<lparr>exports := filter (\<lambda>r. \<not> (stale tree p \<and> resolve_library_id (snd x) (fst p) = Inr (export_lib r)))
       (exports (snd x))\<rparr>"
proof (cases "resolve_library_id (snd x) (fst p)")
  case (Inr b)
  then show ?thesis
    by (simp add: clear_stale_export_def delete_iscsi_library_export_by_name_def delete_iscsi_library_export_def
        delete_where_def stale_def eq_commute [of b])
qed (simp add: clear_stale_export_def delete_iscsi_library_export_by_name_def)

lemma snd_align_records:
  "snd (fold (align_record h True (Some tree) t) ps (pr, d)) =
     d\<lparr>exports := filter (\<lambda>r. \<forall>p \<in> set ps. \<not> (stale tree p \<and> resolve_library_id d (fst p) = Inr (export_lib r)))
       (exports d)\<rparr>"
proof (induction ps arbitrary: pr d)
  case (Cons p ps)
  obtain pr1 d1 where x: "align_record h True (Some tree) t p (pr, d) = (pr1, d1)" by fastforce
  then have d1: "d1 = d\<lparr>exports := filter (\<lambda>r. \<not> (stale tree p \<and> resolve_library_id d (fst p) = Inr (export_lib r)))
       (exports d)\<rparr>"
    using snd_clear_stale [of tree p "(patrol_validate_iscsi_record h (fst p) (snd p) (Some tree) t d pr, d)"]
    by (simp add: align_record_def)
  have "resolve_library_id d1 n = resolve_library_id d n" for n
    by (simp add: d1 resolve_library_id_def find_library_def)
  then show ?case using Cons.IH [of pr1 d1]
    by (simp add: x) (simp add: d1 conj_commute cong: filter_cong)
qed simp

lemma record_of_row_iqn: "record_of_row c x = Inr r \<Longrightarrow> iqn r = export_iqn x"
  by (auto simp: record_of_row_def)

lemma clear_stale_exact:
  assumes list: "list_iscsi_library_exports c d = Inr xs" and ok: "exports_ok d" "keys_ok d"
    and tree: "probe_lio_tree_text h = Some tree"
  shows "exports (snd (align_exports h c True pr d)) = filter (\<lambda>x. contains_sub (export_iqn x) tree) (exports d)"
proof -
  have rows: "list_all2 (\<lambda>p q. record_of_row c (snd p) = Inr (snd q)) (exported_rows d) xs"
    using list by (auto simp: list_iscsi_library_exports_def fold_ok_collect)
  have stale_iff: "(\<exists>p \<in> set xs. stale tree p \<and> resolve_library_id d (fst p) = Inr (export_lib x)) \<longleftrightarrow>
      \<not> contains_sub (export_iqn x) tree" if x: "x \<in> set (exports d)" for x
  proof -
    from ok(1) x obtain l where l: "l \<in> set (libs d)" "lib_id l = export_lib x" unfolding exports_ok_def by blast
    then have res: "resolve_library_id d (lib_name l) = Inr (export_lib x)"
      using ok(2) find_key_Some [of lib_name "libs d" "lib_name l" l]
      by (simp add: resolve_library_id_def find_library_def keys_ok_def)
    have "(lib_name l, x) \<in> set (exported_rows d)" using x l by (auto simp: set_exported_rows)
    then obtain r where r: "record_of_row c x = Inr r"
      using rows by (auto simp: list_all2_conv_all_nth in_set_conv_nth)
    have found: "find_export d (export_lib x) = Some x" using find_export_Some [OF ok(1)] x by simp
    have mem: "(n, q) \<in> set xs \<longleftrightarrow> load_iscsi_library_export_by_name c d n = Inr (Some q)" for n q
      by (rule list_exports_complete(2) [OF list ok])
    have "q = r" if "(n, q) \<in> set xs" "resolve_library_id d n = Inr (export_lib x)" for n q
      using that r found by (auto simp: mem load_iscsi_library_export_by_name_def load_iscsi_library_export_def)
    moreover have "(lib_name l, r) \<in> set xs"
      using res r found by (simp add: mem load_iscsi_library_export_by_name_def load_iscsi_library_export_def)
    ultimately show ?thesis using res record_of_row_iqn [OF r] unfolding stale_def by (metis fst_conv snd_conv prod.collapse)
  qed
  have "exports (snd (align_exports h c True pr d)) =
      filter (\<lambda>x. \<forall>p \<in> set xs. \<not> (stale tree p \<and> resolve_library_id d (fst p) = Inr (export_lib x))) (exports d)"
    using snd_align_records [of h tree _ xs pr d]
    by (auto simp: align_exports_def list tree Let_def split_beta)
  also have "\<dots> = filter (\<lambda>x. contains_sub (export_iqn x) tree) (exports d)"
    using stale_iff by (intro filter_cong) auto
  finally show ?thesis .
qed

text \<open>Without the switch nothing is cleared.\<close>

lemma no_clear: "snd (align_exports h c False pr d) = d"
proof -
  have "snd (fold (align_record h False lio t) ps x) = snd x" for lio t ps x
    by (induction ps arbitrary: x) (simp_all add: align_record_def clear_stale_export_def split: option.split)
  then show ?thesis by (simp add: align_exports_def Let_def split_beta split: sum.split)
qed

end
