(* ===== verification/WebAuth.thy ===== *)
theory WebAuth
  imports Files Stores "HOL-Library.Word"
begin

text \<open>
  The login of the web interface (\<^verbatim>\<open>web_auth.rs\<close>): the credentials in a JSON file, arithmetic captchas
  that can be answered once, and sessions that end after a day.

  The clock, the random generators, the password hash of the crate \<^verbatim>\<open>bcrypt\<close> and the JSON encoding
  of the credentials are parameters (\<open>auth_env\<close>): the n-th reading of the clock in nanoseconds, the
  n-th draw of each generator. Maps behind a mutex are association lists; a request holds the lock
  from its first access to its end, so requests follow each other.
\<close>

section \<open>State\<close>

datatype LoginFail = BadCredentials | AuthFile

record WebAuthFile =
  username :: string
  password_hash :: string
  allow_iscsi :: bool

record auth_env =
  ae_clock :: "nat \<Rightarrow> nat"
  ae_uuid :: "nat \<Rightarrow> string"
  ae_u8 :: "nat \<Rightarrow> 8 word"
  ae_choice :: "nat \<Rightarrow> nat"
  ae_hash :: "nat \<Rightarrow> string \<Rightarrow> string + string"
  ae_verify :: "string \<Rightarrow> string \<Rightarrow> string + bool"
  ae_json :: "WebAuthFile \<Rightarrow> string + string"
  ae_unjson :: "string \<Rightarrow> string + WebAuthFile"
  ae_io_text :: "io_error \<Rightarrow> string"

record WebState =
  auth_file :: path
  captcha :: "(string \<times> (int \<times> nat)) list"
  sessions :: "(string \<times> (string \<times> nat)) list"
  aw_fs :: fs
  aw_ticks :: nat
  aw_draws :: nat

type_synonym ('e, 'a) auth = "(WebState, 'e, 'a) prog"

definition DEFAULT_WEB_USER :: string where "DEFAULT_WEB_USER = ''admin''"
definition DEFAULT_WEB_PASSWORD :: string where "DEFAULT_WEB_PASSWORD = ''4rfVBNji9''"
definition SESSION_SECS :: nat where "SESSION_SECS = 86400"
definition CAPTCHA_SECS :: nat where "CAPTCHA_SECS = 300"

text \<open>\<^verbatim>\<open>Duration::from_secs\<close> in nanoseconds.\<close>

definition from_secs :: "nat \<Rightarrow> nat" where "from_secs n = n * 1000000000"

text \<open>\<^verbatim>\<open>Instant::now\<close>, and one draw of a generator.\<close>

definition instant_now :: "auth_env \<Rightarrow> ('e, nat) auth" where
  "instant_now e = bindp (gets aw_ticks) (\<lambda>n.
     thenp (modify (\<lambda>w. w\<lparr>aw_ticks := Suc n\<rparr>)) (ret (ae_clock e n)))"

definition draw :: "('e, nat) auth" where
  "draw = bindp (gets aw_draws) (\<lambda>n. thenp (modify (\<lambda>w. w\<lparr>aw_draws := Suc n\<rparr>)) (ret n))"

definition new_web_state :: "path \<Rightarrow> fs \<Rightarrow> WebState" where
  "new_web_state p f =
     \<lparr>auth_file = p, captcha = [], sessions = [], aw_fs = f, aw_ticks = 0, aw_draws = 0\<rparr>"

section \<open>The file of the credentials\<close>

definition auth_fs :: "auth_env \<Rightarrow> (fs \<Rightarrow> io_error + fs) \<Rightarrow> (string, unit) auth" where
  "auth_fs e op w =
     (case op (aw_fs w) of Inl x \<Rightarrow> (Inl (ae_io_text e x), w) | Inr f \<Rightarrow> (Inr (), w\<lparr>aw_fs := f\<rparr>))"

text \<open>\<^verbatim>\<open>Path::with_extension\<close> on the last component: what follows its last dot is replaced.\<close>

definition file_stem :: "string \<Rightarrow> string" where
  "file_stem s =
     (let r = dropWhile (\<lambda>c. c \<noteq> CHR ''.'') (rev s)
      in if r = [] \<or> tl r = [] then s else rev (tl r))"

definition with_extension :: "path \<Rightarrow> string \<Rightarrow> path" where
  "with_extension p ext = butlast p @ [file_stem (last p) @ ''.'' @ ext]"

definition read_auth :: "auth_env \<Rightarrow> (string, WebAuthFile) auth" where
  "read_auth e = from_result (\<lambda>w.
     case read_to_string (auth_file w) (aw_fs w) of
       Inl x \<Rightarrow> Inl (ae_io_text e x)
     | Inr s \<Rightarrow> ae_unjson e s)"

definition write_auth :: "auth_env \<Rightarrow> WebAuthFile \<Rightarrow> (string, unit) auth" where
  "write_auth e cred =
     bindp (gets auth_file) (\<lambda>p.
     let tmp = with_extension p ''tmp.json''
     in bindp (from_result (\<lambda>_. ae_json e cred)) (\<lambda>body.
        thenp (auth_fs e (write_file tmp body)) (auth_fs e (rename tmp p))))"

definition write_default_auth :: "auth_env \<Rightarrow> string \<Rightarrow> (string, unit) auth" where
  "write_default_auth e password =
     bindp (gets auth_file) (\<lambda>p.
     thenp (auth_fs e (create_dir_all (butlast p)))
     (bindp draw (\<lambda>n.
      bindp (from_result (\<lambda>_. ae_hash e n password)) (\<lambda>h.
        write_auth e \<lparr>username = DEFAULT_WEB_USER, password_hash = h, allow_iscsi = False\<rparr>))))"

definition init_auth_file :: "auth_env \<Rightarrow> (io_error, unit) auth" where
  "init_auth_file e =
     bindp (gets (\<lambda>w. path_exists (aw_fs w) (auth_file w))) (\<lambda>there.
       if there then ret ()
       else map_err (KindError KOther) (write_default_auth e DEFAULT_WEB_PASSWORD))"

definition force_reset_auth :: "auth_env \<Rightarrow> string \<Rightarrow> (string, unit) auth" where
  "force_reset_auth e password =
     (if length password < 8 then fail ''password needs at least 8 characters''
      else write_default_auth e password)"

section \<open>Captchas\<close>

definition captcha_answer :: "string \<Rightarrow> nat \<Rightarrow> nat \<Rightarrow> int" where
  "captcha_answer op a b =
     (if op = ''+'' then int a + int b else if op = ''-'' then int a - int b else int a * int b)"

definition captcha_digit :: "8 word \<Rightarrow> nat" where
  "captcha_digit x = unat (x mod 9 + 1)"

definition new_captcha :: "auth_env \<Rightarrow> ('e, string \<times> string) auth" where
  "new_captcha e =
     bindp (instant_now e) (\<lambda>now.
     thenp (modify (\<lambda>w. w\<lparr>captcha := amap_retain (\<lambda>(_, t). now - t < from_secs (CAPTCHA_SECS + 60)) (captcha w)\<rparr>))
     (bindp draw (\<lambda>i.
      bindp draw (\<lambda>x.
      bindp draw (\<lambda>y.
      bindp draw (\<lambda>z.
      let c = captcha_digit (ae_u8 e x); d = captcha_digit (ae_u8 e y);
          a = max c d; b = min c d;
          op = [''+'', ''-'', ''*''] ! (ae_choice e z mod 3)
      in bindp (instant_now e) (\<lambda>t.
         thenp (modify (\<lambda>w. w\<lparr>captcha := amap_put (ae_uuid e i) (captcha_answer op a b, t) (captcha w)\<rparr>))
           (ret (ae_uuid e i, show_nat a @ '' '' @ op @ '' '' @ show_nat b @ '' = ?'')))))))))"

definition verify_captcha :: "auth_env \<Rightarrow> string \<Rightarrow> string \<Rightarrow> ('e, bool) auth" where
  "verify_captcha e i answer_str =
     (case parse_i32 (trim answer_str) of
        None \<Rightarrow> ret False
      | Some ans \<Rightarrow>
          bindp (gets (\<lambda>w. map_of (captcha w) i)) (\<lambda>found.
          case found of
            None \<Rightarrow> ret False
          | Some (expect, t) \<Rightarrow>
              thenp (modify (\<lambda>w. w\<lparr>captcha := amap_del i (captcha w)\<rparr>))
              (bindp (instant_now e) (\<lambda>now.
                if from_secs CAPTCHA_SECS < now - t then ret False else ret (ans = expect)))))"

section \<open>Sessions\<close>

definition verified :: "auth_env \<Rightarrow> string \<Rightarrow> string \<Rightarrow> bool" where
  "verified e pass h = (case ae_verify e pass h of Inl _ \<Rightarrow> False | Inr b \<Rightarrow> b)"

definition login :: "auth_env \<Rightarrow> string \<Rightarrow> string \<Rightarrow> (LoginFail, string) auth" where
  "login e user pass =
     bindp (map_err (\<lambda>_. AuthFile) (read_auth e)) (\<lambda>cred.
     thenp (checkp (user = username cred) BadCredentials)
     (thenp (checkp (verified e pass (password_hash cred)) BadCredentials)
     (bindp draw (\<lambda>i.
      bindp (instant_now e) (\<lambda>now.
      thenp (modify (\<lambda>w. w\<lparr>sessions := amap_retain (\<lambda>(_, t). now - t < from_secs (SESSION_SECS + 3600)) (sessions w)\<rparr>))
      (bindp (instant_now e) (\<lambda>t.
      thenp (modify (\<lambda>w. w\<lparr>sessions := amap_put (ae_uuid e i) (user, t) (sessions w)\<rparr>))
        (ret (ae_uuid e i)))))))))"

definition session_username :: "auth_env \<Rightarrow> string option \<Rightarrow> ('e, string option) auth" where
  "session_username e token =
     (case token of
        None \<Rightarrow> ret None
      | Some tok \<Rightarrow>
          bindp (gets (\<lambda>w. map_of (sessions w) tok)) (\<lambda>found.
          case found of
            None \<Rightarrow> ret None
          | Some (user, t0) \<Rightarrow>
              bindp (instant_now e) (\<lambda>now.
                if from_secs SESSION_SECS < now - t0
                then thenp (modify (\<lambda>w. w\<lparr>sessions := amap_del tok (sessions w)\<rparr>)) (ret None)
                else ret (Some user))))"

definition logout_token :: "string \<Rightarrow> ('e, unit) auth" where
  "logout_token tok = modify (\<lambda>w. w\<lparr>sessions := amap_del tok (sessions w)\<rparr>)"

definition change_password :: "auth_env \<Rightarrow> string \<Rightarrow> string \<Rightarrow> (string, unit) auth" where
  "change_password e old_p new_p =
     (if length new_p < 8 then fail ''new password needs at least 8 characters''
      else
        bindp (read_auth e) (\<lambda>cred.
        thenp (checkp (verified e old_p (password_hash cred)) ''old password is wrong'')
        (bindp draw (\<lambda>n.
         bindp (from_result (\<lambda>_. ae_hash e n new_p)) (\<lambda>h.
           write_auth e (cred\<lparr>password_hash := h\<rparr>))))))"

definition allow_iscsi_exec :: "auth_env \<Rightarrow> WebState \<Rightarrow> bool" where
  "allow_iscsi_exec e w = (case fst (read_auth e w) of Inl _ \<Rightarrow> False | Inr c \<Rightarrow> allow_iscsi c)"

definition set_allow_iscsi_exec :: "auth_env \<Rightarrow> bool \<Rightarrow> (string, unit) auth" where
  "set_allow_iscsi_exec e allow =
     bindp (read_auth e) (\<lambda>cred. write_auth e (cred\<lparr>allow_iscsi := allow\<rparr>))"

section \<open>Facts about captchas\<close>

text \<open>What a person reads from the question, with the arithmetic of the integers: a reference for the
  stored answer.\<close>

definition eval_question :: "string \<Rightarrow> int option" where
  "eval_question q =
     (case split_on CHR '' '' q of
        [a, op, b, eq, mark] \<Rightarrow>
          (case (parse_dec a, parse_dec b,
              map_of [(''+'', \<lambda>x y. x + y), (''-'', \<lambda>x y. x - y), (''*'', \<lambda>x y. x * y)] op) of
             (Some x, Some y, Some f) \<Rightarrow> Some (f (int x) (int y))
           | _ \<Rightarrow> None)
      | _ \<Rightarrow> None)"

lemma captcha_digit_range: "1 \<le> captcha_digit x \<and> captcha_digit x \<le> 9"
proof -
  have *: "unat (x mod 9) \<le> 8" by (simp add: unat_mod)
  then have "unat (x mod 9 + 1) = unat (x mod 9) + 1"
    by (simp add: unat_word_ariths(1))
  with * show ?thesis by (simp add: captcha_digit_def)
qed

text \<open>All the questions that can be asked.\<close>

lemma all_questions:
  "list_all (\<lambda>a. list_all (\<lambda>b. list_all (\<lambda>op.
      eval_question (show_nat a @ '' '' @ op @ '' '' @ show_nat b @ '' = ?'') = Some (captcha_answer op a b) \<and>
      (b \<le> a \<longrightarrow> 0 \<le> captcha_answer op a b \<and> captcha_answer op a b \<le> 81))
    [''+'', ''-'', ''*'']) [1..<10]) [1..<10]"
  by code_simp

lemma all_answers: "list_all (\<lambda>n. parse_i32 (trim (show_int (int n))) = Some (int n)) [0..<82]"
  by code_simp

lemma question_answer:
  assumes "a \<in> {1..9}" "b \<in> {1..9}" "op \<in> {''+'', ''-'', ''*''}"
  shows "eval_question (show_nat a @ '' '' @ op @ '' '' @ show_nat b @ '' = ?'') = Some (captcha_answer op a b)"
    and "b \<le> a \<Longrightarrow> 0 \<le> captcha_answer op a b \<and> captcha_answer op a b \<le> 81"
  using all_questions assms unfolding list_all_iff by auto

lemma answer_parses: "0 \<le> v \<Longrightarrow> v \<le> 81 \<Longrightarrow> parse_i32 (trim (show_int v)) = Some v"
  using all_answers unfolding list_all_iff by (cases v) auto

lemma verify_captcha_run:
  "fst (verify_captcha e i s w) =
     Inr (case map_of (captcha w) i of
            None \<Rightarrow> False
          | Some (v, t) \<Rightarrow> parse_i32 (trim s) = Some v \<and> ae_clock e (aw_ticks w) - t \<le> from_secs CAPTCHA_SECS)"
  by (auto simp: verify_captcha_def instant_now_def bindp_def thenp_def split: option.split)

lemma verify_captcha_takes:
  "parse_i32 (trim s) = Some n \<Longrightarrow> map_of (captcha (snd (verify_captcha e i s w))) i = None"
  by (auto simp: verify_captcha_def instant_now_def bindp_def thenp_def map_of_amap_del split: option.split)

lemma new_captcha_run:
  assumes "new_captcha e w = (Inr (i, q), w')"
  obtains v where "eval_question q = Some v" "0 \<le> v" "v \<le> 81"
    "map_of (captcha w') i = Some (v, ae_clock e (Suc (aw_ticks w)))" "aw_ticks w' = Suc (Suc (aw_ticks w))"
proof -
  define x y z where "x = Suc (aw_draws w)" and "y = Suc (Suc (aw_draws w))" and "z = Suc (Suc (Suc (aw_draws w)))"
  define a b op where "a = max (captcha_digit (ae_u8 e x)) (captcha_digit (ae_u8 e y))"
    and "b = min (captcha_digit (ae_u8 e x)) (captcha_digit (ae_u8 e y))"
    and "op = [''+'', ''-'', ''*''] ! (ae_choice e z mod 3)"
  have a: "a \<in> {1..9}" and b: "b \<in> {1..9}" and ba: "b \<le> a"
    using captcha_digit_range [of "ae_u8 e x"] captcha_digit_range [of "ae_u8 e y"]
    by (auto simp: a_def b_def)
  have op: "op \<in> {''+'', ''-'', ''*''}"
  proof -
    have "op \<in> set [''+'', ''-'', ''*'']" unfolding op_def by (rule nth_mem) simp
    then show ?thesis by simp
  qed
  have q: "q = show_nat a @ '' '' @ op @ '' '' @ show_nat b @ '' = ?''"
    and m: "map_of (captcha w') i = Some (captcha_answer op a b, ae_clock e (Suc (aw_ticks w)))"
    and t: "aw_ticks w' = Suc (Suc (aw_ticks w))"
    using assms
    by (auto simp: new_captcha_def instant_now_def draw_def bindp_def thenp_def Let_def
        a_def b_def op_def x_def y_def z_def)
  show ?thesis
    using question_answer [OF a b op] ba m t by (intro that [of "captcha_answer op a b"]) (auto simp: q)
qed

section \<open>Requests in sequence\<close>

text \<open>
  A run of the server from its start, with what it promised to the clients: a token granted to a
  user at a time, a token given back. The requests that do not touch the sessions are one case.
\<close>

datatype auth_event = Granted string string nat | Ended string

fun standing :: "auth_event list \<Rightarrow> string \<Rightarrow> (string \<times> nat) option" where
  "standing [] tok = None"
| "standing (Granted k u t # h) tok = (if k = tok then Some (u, t) else standing h tok)"
| "standing (Ended k # h) tok = (if k = tok then None else standing h tok)"

inductive auth_run :: "auth_env \<Rightarrow> WebState \<Rightarrow> auth_event list \<Rightarrow> WebState \<Rightarrow> bool" for e w0 where
  start: "auth_run e w0 [] w0"
| logged_in: "auth_run e w0 h w \<Longrightarrow> login e u p w = (Inr tok, w') \<Longrightarrow>
    auth_run e w0 (Granted tok u (ae_clock e (Suc (aw_ticks w))) # h) w'"
| refused: "auth_run e w0 h w \<Longrightarrow> login e u p w = (Inl x, w') \<Longrightarrow> auth_run e w0 h w'"
| looked_up: "auth_run e w0 h w \<Longrightarrow> auth_run e w0 h (snd (session_username e tk w :: (unit + _) \<times> _))"
| logged_out: "auth_run e w0 h w \<Longrightarrow> auth_run e w0 (Ended tok # h) (snd (logout_token tok w :: (unit + _) \<times> _))"
| asked: "auth_run e w0 h w \<Longrightarrow> auth_run e w0 h (snd (new_captcha e w :: (unit + _) \<times> _))"
| answered: "auth_run e w0 h w \<Longrightarrow> auth_run e w0 h (snd (verify_captcha e i s w :: (unit + _) \<times> _))"
| changed: "auth_run e w0 h w \<Longrightarrow> auth_run e w0 h (snd (change_password e p q w))"
| switched: "auth_run e w0 h w \<Longrightarrow> auth_run e w0 h (snd (set_allow_iscsi_exec e b w))"

inductive_cases login_grantE: "auth_run e w0 (Granted tok u t # h) w"

text \<open>
  The table of the sessions is what was promised, less what is older than a day by a reading of the
  clock that has been taken.
\<close>

definition sessions_sound :: "auth_env \<Rightarrow> auth_event list \<Rightarrow> WebState \<Rightarrow> bool" where
  "sessions_sound e h w \<longleftrightarrow>
     distinct (map fst (sessions w)) \<and>
     (\<forall>tok x. map_of (sessions w) tok = Some x \<longrightarrow> standing h tok = Some x) \<and>
     (\<forall>tok u t. standing h tok = Some (u, t) \<longrightarrow> map_of (sessions w) tok = None \<longrightarrow>
        (\<exists>k < aw_ticks w. from_secs SESSION_SECS < ae_clock e k - t))"

lemma sessions_sound_frame:
  "sessions_sound e h w \<Longrightarrow> sessions w' = sessions w \<Longrightarrow> aw_ticks w \<le> aw_ticks w' \<Longrightarrow> sessions_sound e h w'"
  unfolding sessions_sound_def by (metis order_less_le_trans)

lemma distinct_amap_put [intro]: "distinct (map fst m) \<Longrightarrow> distinct (map fst (amap_put k v m))"
  by (auto simp: amap_put_def distinct_map_filter)

lemma login_Inr:
  assumes "login e u p w = (Inr tok, w')"
  obtains cred where "read_auth e w = (Inr cred, w)" "u = username cred" "verified e p (password_hash cred)"
    "tok = ae_uuid e (aw_draws w)" "aw_ticks w' = Suc (Suc (aw_ticks w))"
    "sessions w' = amap_put tok (u, ae_clock e (Suc (aw_ticks w)))
       (amap_retain (\<lambda>(_, t). ae_clock e (aw_ticks w) - t < from_secs (SESSION_SECS + 3600)) (sessions w))"
  using assms
  by (auto simp: login_def read_auth_def map_err_def checkp_run instant_now_def draw_def bindp_def thenp_def
      intro: that split: sum.splits if_splits)

lemma login_Inl: "login e u p w = (Inl x, w') \<Longrightarrow> w' = w"
  by (auto simp: login_def read_auth_def map_err_def checkp_run instant_now_def draw_def bindp_def thenp_def
      split: sum.splits if_splits)

lemma sound_login:
  assumes sound: "sessions_sound e h w" and ok: "login e u p w = (Inr tok, w')"
  shows "sessions_sound e (Granted tok u (ae_clock e (Suc (aw_ticks w))) # h) w'"
proof -
  from ok obtain cred where t: "aw_ticks w' = Suc (Suc (aw_ticks w))"
    and s: "sessions w' = amap_put tok (u, ae_clock e (Suc (aw_ticks w)))
       (amap_retain (\<lambda>(_, t). ae_clock e (aw_ticks w) - t < from_secs (SESSION_SECS + 3600)) (sessions w))"
    by (rule login_Inr)
  have d: "distinct (map fst (sessions w))" using sound by (simp add: sessions_sound_def)
  have m: "map_of (sessions w') k =
      (if k = tok then Some (u, ae_clock e (Suc (aw_ticks w)))
       else case map_of (sessions w) k of None \<Rightarrow> None
         | Some x \<Rightarrow> if ae_clock e (aw_ticks w) - snd x < from_secs (SESSION_SECS + 3600) then Some x else None)" for k
    by (auto simp: s map_of_amap_retain [OF d] split: option.split)
  have old: "from_secs SESSION_SECS < n" if "\<not> n < from_secs (SESSION_SECS + 3600)" for n
    using that by (simp add: from_secs_def)
  show ?thesis unfolding sessions_sound_def
  proof (intro conjI allI impI)
    show "distinct (map fst (sessions w'))" using d by (simp add: s distinct_amap_put distinct_amap_retain)
  next
    fix k x assume "map_of (sessions w') k = Some x"
    then show "standing (Granted tok u (ae_clock e (Suc (aw_ticks w))) # h) k = Some x"
      using sound unfolding m sessions_sound_def by (auto split: if_splits option.splits)
  next
    fix k v t0 assume st: "standing (Granted tok u (ae_clock e (Suc (aw_ticks w))) # h) k = Some (v, t0)"
      and none: "map_of (sessions w') k = None"
    from none have k: "k \<noteq> tok" by (auto simp: m split: if_splits)
    with st have st': "standing h k = Some (v, t0)" by auto
    show "\<exists>j < aw_ticks w'. from_secs SESSION_SECS < ae_clock e j - t0"
    proof (cases "map_of (sessions w) k")
      case None
      with st' sound obtain j where "j < aw_ticks w" "from_secs SESSION_SECS < ae_clock e j - t0"
        unfolding sessions_sound_def by blast
      then show ?thesis by (intro exI [of _ j]) (simp add: t)
    next
      case (Some x)
      with sound st' have "x = (v, t0)" unfolding sessions_sound_def by fastforce
      with Some none k have "\<not> ae_clock e (aw_ticks w) - t0 < from_secs (SESSION_SECS + 3600)"
        by (auto simp: m split: if_splits)
      from old [OF this] show ?thesis by (intro exI [of _ "aw_ticks w"]) (simp add: t)
    qed
  qed
qed

lemma session_lookup:
  "session_username e (Some tok) w =
     (case map_of (sessions w) tok of
        None \<Rightarrow> (Inr None, w)
      | Some (u, t) \<Rightarrow>
          let w1 = w\<lparr>aw_ticks := Suc (aw_ticks w)\<rparr>
          in if from_secs SESSION_SECS < ae_clock e (aw_ticks w) - t
             then (Inr None, w1\<lparr>sessions := amap_del tok (sessions w)\<rparr>) else (Inr (Some u), w1))"
  by (auto simp: session_username_def instant_now_def bindp_def thenp_def Let_def split: option.split)

lemma sound_lookup:
  assumes sound: "sessions_sound e h w"
  shows "sessions_sound e h (snd (session_username e tk w))"
proof (cases tk)
  case None
  then show ?thesis using sound by (simp add: session_username_def)
next
  case (Some tok)
  show ?thesis
  proof (cases "map_of (sessions w) tok")
    case None
    then show ?thesis using sound by (simp add: Some session_lookup)
  next
    case (Some x)
    then obtain u t where x: "map_of (sessions w) tok = Some (u, t)" by (cases x) auto
    show ?thesis
    proof (cases "from_secs SESSION_SECS < ae_clock e (aw_ticks w) - t")
      case False
      then show ?thesis using x \<open>tk = Some tok\<close>
        by (intro sessions_sound_frame [OF sound]) (simp_all add: session_lookup)
    next
      case True
      with x \<open>tk = Some tok\<close> have w': "snd (session_username e tk w) =
          w\<lparr>aw_ticks := Suc (aw_ticks w), sessions := amap_del tok (sessions w)\<rparr>"
        by (simp add: session_lookup)
      have "standing h tok = Some (u, t)" using sound x unfolding sessions_sound_def by blast
      with True sound show ?thesis unfolding w' sessions_sound_def
        by (auto simp: map_of_amap_del split: if_splits) (meson less_SucI)+
    qed
  qed
qed

lemma sound_logout: "sessions_sound e h w \<Longrightarrow> sessions_sound e (Ended tok # h) (snd (logout_token tok w))"
  by (auto simp: sessions_sound_def logout_token_def map_of_amap_del split: if_splits)

lemma other_requests:
  "sessions (snd (new_captcha e w)) = sessions w \<and> aw_ticks w \<le> aw_ticks (snd (new_captcha e w))"
  "sessions (snd (verify_captcha e i s w)) = sessions w \<and> aw_ticks w \<le> aw_ticks (snd (verify_captcha e i s w))"
  by (auto simp: new_captcha_def verify_captcha_def instant_now_def draw_def bindp_def thenp_def Let_def
      split: option.splits)

lemma keeps_write_auth: "keeps (\<lambda>w. sessions w = ss \<and> aw_ticks w = n) (write_auth e c)"
  unfolding write_auth_def Let_def
  by (intro keeps_intros) (auto simp: keeps_def auth_fs_def split: sum.splits)

lemma keeps_read_auth: "keeps P (read_auth e)"
  by (simp add: read_auth_def keeps_from_result)

lemma keeps_draw: "keeps (\<lambda>w. sessions w = ss \<and> aw_ticks w = n) draw"
  by (auto simp: keeps_def draw_def bindp_def thenp_def)

lemma password_requests:
  "keeps (\<lambda>w. sessions w = ss \<and> aw_ticks w = n) (change_password e p q)"
  "keeps (\<lambda>w. sessions w = ss \<and> aw_ticks w = n) (set_allow_iscsi_exec e b)"
  unfolding change_password_def set_allow_iscsi_exec_def
  by (intro keeps_intros keeps_read_auth keeps_write_auth keeps_draw)+

lemma run_sound: "auth_run e w0 h w \<Longrightarrow> sessions w0 = [] \<Longrightarrow> sessions_sound e h w"
proof (induction rule: auth_run.induct)
  case start
  then show ?case by (simp add: sessions_sound_def)
next
  case (changed h w p q)
  then show ?case
    using keepsD [OF password_requests(1) [of "sessions w" "aw_ticks w" e p q]]
    by (intro sessions_sound_frame [OF changed.IH]) auto
next
  case (switched h w b)
  then show ?case
    using keepsD [OF password_requests(2) [of "sessions w" "aw_ticks w" e b]]
    by (intro sessions_sound_frame [OF switched.IH]) auto
qed (auto simp: sound_login sound_lookup sound_logout dest: login_Inl
    intro: sessions_sound_frame other_requests [THEN conjunct1] other_requests [THEN conjunct2])

text \<open>With a clock that does not go back, a token names a user exactly while it stands.\<close>

lemma session_exact:
  assumes "auth_run e w0 h w" "sessions w0 = []" "mono (ae_clock e)"
  shows "fst (session_username e (Some tok) w) = Inr (Some u) \<longleftrightarrow>
    (\<exists>t. standing h tok = Some (u, t) \<and> ae_clock e (aw_ticks w) - t \<le> from_secs SESSION_SECS)"
proof -
  have sound: "sessions_sound e h w" by (rule run_sound [OF assms(1,2)])
  show ?thesis
  proof (cases "map_of (sessions w) tok")
    case None
    have "\<not> ae_clock e (aw_ticks w) - t \<le> from_secs SESSION_SECS" if "standing h tok = Some (v, t)" for v t
    proof -
      from that None sound obtain k where "k < aw_ticks w" "from_secs SESSION_SECS < ae_clock e k - t"
        unfolding sessions_sound_def by blast
      moreover have "ae_clock e k \<le> ae_clock e (aw_ticks w)" using \<open>k < aw_ticks w\<close> assms(3) by (simp add: monoD)
      ultimately show ?thesis by simp
    qed
    with None show ?thesis by (auto simp: session_lookup)
  next
    case (Some x)
    then obtain v t where "map_of (sessions w) tok = Some (v, t)" by (cases x) auto
    moreover with sound have "standing h tok = Some (v, t)" unfolding sessions_sound_def by blast
    ultimately show ?thesis by (auto simp: session_lookup Let_def)
  qed
qed

section \<open>Passwords\<close>

text \<open>What the crates promise: a document reads back, a password matches its own hash.\<close>

definition crates_ok :: "auth_env \<Rightarrow> bool" where
  "crates_ok e \<longleftrightarrow>
     (\<forall>c b. ae_json e c = Inr b \<longrightarrow> ae_unjson e b = Inr c) \<and>
     (\<forall>n p h. ae_hash e n p = Inr h \<longrightarrow> ae_verify e p h = Inr True)"

text \<open>The file can be read, and nothing else lies under the temporary name.\<close>

definition file_ready :: "WebState \<Rightarrow> bool" where
  "file_ready w \<longleftrightarrow> fs_fault (aw_fs w) (OpRead (auth_file w)) = None \<and>
     \<not> is_symlink (aw_fs w) (with_extension (auth_file w) ''tmp.json'')"

lemma file_stem_dots: "s \<noteq> file_stem s @ ''.tmp.json''"
proof
  assume s: "s = file_stem s @ ''.tmp.json''"
  then have r: "rev s = ''nosj.pmt.'' @ rev (file_stem s)" by (metis rev_append rev.simps append.assoc append_Cons append_Nil)
  then have "dropWhile (\<lambda>c. c \<noteq> CHR ''.'') (rev s) = ''.pmt.'' @ rev (file_stem s)"
    unfolding r by simp
  then have "length (file_stem s) = length (file_stem s) + 4"
    by (subst file_stem_def) simp
  then show False by simp
qed

lemma tmp_differs: "with_extension p ''tmp.json'' \<noteq> p"
proof (cases "p = []")
  case False
  then have "p = butlast p @ [last p]" by simp
  then show ?thesis using file_stem_dots [of "last p"] unfolding with_extension_def
    by (metis append_Cons append_Nil last_snoc)
qed (simp add: with_extension_def)

lemma read_after_write:
  assumes "write_auth e c w = (Inr (), w')" "crates_ok e" "file_ready w"
  shows "read_auth e w' = (Inr c, w')" "sessions w' = sessions w"
proof -
  obtain body f1 f2 where body: "ae_json e c = Inr body"
    and f: "write_file (with_extension (auth_file w) ''tmp.json'') body (aw_fs w) = Inr f1"
      "rename (with_extension (auth_file w) ''tmp.json'') (auth_file w) f1 = Inr f2"
    and w': "w' = w\<lparr>aw_fs := f2\<rparr>"
    using assms(1) by (auto simp: write_auth_def auth_fs_def bindp_def thenp_def Let_def split: sum.splits)
  have "read_to_string (auth_file w) f2 = Inr body"
    using read_replaced [OF f] assms(3) tmp_differs by (simp add: file_ready_def)
  moreover have "ae_unjson e body = Inr c" using assms(2) body by (simp add: crates_ok_def)
  ultimately show "read_auth e w' = (Inr c, w')" "sessions w' = sessions w" by (simp_all add: read_auth_def w')
qed

lemma login_succeeds:
  assumes "read_auth e w = (Inr c, w)" "verified e p (password_hash c)"
  shows "fst (login e (username c) p w) = Inr (ae_uuid e (aw_draws w))"
  using assms by (simp add: login_def map_err_def checkp_run instant_now_def draw_def bindp_def thenp_def)

lemma draw_run: "draw w = (Inr (aw_draws w), w\<lparr>aw_draws := Suc (aw_draws w)\<rparr>)"
  by (simp add: draw_def bindp_def thenp_def)

lemma read_auth_state: "snd (read_auth e w) = w"
  by (simp add: read_auth_def)

text \<open>Changing the password needs the old one, and afterwards the same user logs in with the new one.\<close>

lemma change_password_effect:
  assumes "change_password e old new w = (Inr (), w')" "crates_ok e" "file_ready w"
  obtains c h where "read_auth e w = (Inr c, w)" "verified e old (password_hash c)" "8 \<le> length new"
    "read_auth e w' = (Inr (c\<lparr>password_hash := h\<rparr>), w')" "verified e new h" "sessions w' = sessions w"
proof -
  obtain c where c: "fst (read_auth e w) = Inr c" and len: "8 \<le> length new"
    and old: "verified e old (password_hash c)"
    and rest: "bindp (from_result (\<lambda>_. ae_hash e (aw_draws w) new)) (\<lambda>h. write_auth e (c\<lparr>password_hash := h\<rparr>))
      (w\<lparr>aw_draws := Suc (aw_draws w)\<rparr>) = (Inr (), w')"
    using assms(1) read_auth_state [of e w]
    by (cases "read_auth e w")
      (auto simp: change_password_def thenp_def checkp_run draw_run bindp_eq_Inr split: if_splits)
  from rest obtain h where h: "ae_hash e (aw_draws w) new = Inr h"
    and wr: "write_auth e (c\<lparr>password_hash := h\<rparr>) (w\<lparr>aw_draws := Suc (aw_draws w)\<rparr>) = (Inr (), w')"
    by (auto simp: bindp_eq_Inr)
  have "file_ready (w\<lparr>aw_draws := Suc (aw_draws w)\<rparr>)" using assms(3) by (simp add: file_ready_def)
  from read_after_write [OF wr assms(2) this] have
    "read_auth e w' = (Inr (c\<lparr>password_hash := h\<rparr>), w')" "sessions w' = sessions w" by auto
  moreover have "verified e new h" using assms(2) h by (simp add: crates_ok_def verified_def)
  moreover have "read_auth e w = (Inr c, w)" using c read_auth_state [of e w] by (metis prod.collapse)
  ultimately show ?thesis using that old len by blast
qed

lemma init_keeps_file: "path_exists (aw_fs w) (auth_file w) \<Longrightarrow> init_auth_file e w = (Inr (), w)"
  by (simp add: init_auth_file_def)

end
