(* ===== verification/Cli.thy ===== *)
theory Cli
  imports LibraryKeeps Agreement Shelves Reports Patrol WebAuth
begin

text \<open>
  The command line (\<^verbatim>\<open>main\<close> in \<^verbatim>\<open>main.rs\<close>): the subcommands, the choice of the library, the call of
  the operation, and the exit status of the process. What a command prints is dropped here; the
  reports are in \<open>Reports\<close>. Writing to the log files is modelled in \<open>Logs\<close> and left out of the commands.
\<close>

section \<open>Subcommands\<close>

datatype RobotSubcommand = RobotSync | RobotReconcile bool bool | RobotAutoAlign | RobotAutoAlignAll | RobotSyncDb

datatype ConfigSubcommand = ConfigSet "string list" | ConfigShow

datatype LibrarySubcommand = LibraryList | LibraryCreate string int int | LibraryDelete string

datatype ShelfSubcommand =
    ShelfList | ShelfCreate string | ShelfTapes "string option" | ShelfPlace string "string option"
  | ShelfDelete string

datatype QuotaSubcommand = QuotaSet "string option" "int option" | QuotaShow | QuotaCheck

datatype TagSubcommand =
    TagAdd string "string list" | TagRemove string "string list" | TagList "string option" | TagDelete string

datatype TransportSubcommand = TransportShow | TransportCheck | TransportGuide

datatype Commands =
    CreateTape string string "string option" "string list"
  | DeleteTape string
  | InitTape string
  | ListTapes
  | LoadTape string string
  | UnloadTape string
  | EjectTape string
  | Robot RobotSubcommand
  | Config ConfigSubcommand
  | Inventory
  | Status
  | Snapshot string string
  | ImportTape string string
  | ExportTape string string bool
  | CreateLibrary string int int
  | Library LibrarySubcommand
  | Shelf ShelfSubcommand
  | AssignSlot string string
  | InitConfig
  | BatchCreate int string string "string list"
  | BatchImport string int
  | Quota QuotaSubcommand
  | Tag TagSubcommand
  | Search search_filter
  | Transport TransportSubcommand
  | Serve string nat
  | Patrol
  | KernelSpec bool
  | KernelAlign bool
  | ResetWebAuth "string option"

definition command_requires_active_library :: "Commands \<Rightarrow> bool" where
  "command_requires_active_library cmd =
     (case cmd of
        InitConfig \<Rightarrow> False | CreateLibrary _ _ _ \<Rightarrow> False | Library _ \<Rightarrow> False | Transport _ \<Rightarrow> False
      | Serve _ _ \<Rightarrow> False | Patrol \<Rightarrow> False | ResetWebAuth _ \<Rightarrow> False
      | Robot sub \<Rightarrow> sub \<noteq> RobotAutoAlignAll
      | _ \<Rightarrow> True)"

section \<open>Running a command\<close>

text \<open>
  What a process has around it: the answers from outside, the host of the patrol, the codec of the
  export records, the digest of an export, the surroundings of the credentials, and the web server,
  whose operations are in the theories of the web interface.
\<close>

record cli_env =
  ce_out :: outside
  ce_host :: patrol_host
  ce_codec :: json_codec
  ce_sha :: sha_crate
  ce_read :: "nat \<Rightarrow> nat"
  ce_auth :: auth_env
  ce_serve :: "string \<Rightarrow> nat \<Rightarrow> (site, VtlError, unit) prog"

text \<open>A command fails with an error, which \<^verbatim>\<open>main\<close> returns, or leaves the process.\<close>

datatype cli_error = Failed VtlError | ProcessExit int

type_synonym cli_prog = "(site, cli_error, unit) prog"

definition site_command :: "(VtlError, 'a) site_prog \<Rightarrow> cli_prog" where
  "site_command m = bindp (map_err Failed m) (\<lambda>_. ret ())"

definition command :: "'a cmd \<Rightarrow> cli_prog" where
  "command m = site_command (on_world m)"

definition slot_argument :: "string \<Rightarrow> (int \<Rightarrow> cli_prog) \<Rightarrow> cli_prog" where
  "slot_argument s k =
     (case parse_slot s of
        None \<Rightarrow> fail (Failed (InvalidParameter (''Invalid slot: '' @ s)))
      | Some n \<Rightarrow> k n)"

definition drive_argument :: "string \<Rightarrow> (int \<Rightarrow> cli_prog) \<Rightarrow> cli_prog" where
  "drive_argument s k =
     (case parse_drive s of
        None \<Rightarrow> fail (Failed (InvalidParameter (''Invalid drive: '' @ s)))
      | Some n \<Rightarrow> k n)"

definition size_argument :: "string \<Rightarrow> (nat \<Rightarrow> cli_prog) \<Rightarrow> cli_prog" where
  "size_argument s k = (case parse_size s of Inl _ \<Rightarrow> fail (ProcessExit 1) | Inr n \<Rightarrow> k n)"

definition select_library :: "string option \<Rightarrow> Commands \<Rightarrow> unit cmd" where
  "select_library opt cmd =
     (if command_requires_active_library cmd then
        thenp init_db
        (bindp (gets w_lib) (\<lambda>cur.
         bindp (db_read (\<lambda>d. resolve_active_library_name d cur opt)) (\<lambda>name.
           modify (\<lambda>w. w\<lparr>w_lib := name\<rparr>))))
      else case opt of
          None \<Rightarrow> ret ()
        | Some l \<Rightarrow>
            if trim l = [] then ret ()
            else thenp init_db
                 (thenp (db_read (\<lambda>d. resolve_library_id d (trim l)))
                   (modify (\<lambda>w. w\<lparr>w_lib := trim l\<rparr>))))"

text \<open>\<^verbatim>\<open>create-tape\<close>: the tape, then its tags.\<close>

definition create_tagged_tape :: "string \<Rightarrow> nat \<Rightarrow> string option \<Rightarrow> string list \<Rightarrow> unit cmd" where
  "create_tagged_tape name sz shelf names =
     thenp (create_tape name sz shelf)
     (if names = [] then ret ()
      else thenp init_db
        (bindp current_library_id (\<lambda>lib.
         bindp (db_read (\<lambda>d. tape_by_name d lib name)) (\<lambda>r.
           add_tags_to_tape (tape_id r) names))))"

definition here :: "(string \<Rightarrow> 'a cmd) \<Rightarrow> 'a cmd" where
  "here m = bindp (gets w_lib) m"

definition robot_command :: "RobotSubcommand \<Rightarrow> cli_prog" where
  "robot_command sub =
     (case sub of
        RobotSync \<Rightarrow> command robot_sync_library
      | RobotReconcile apply_db pull \<Rightarrow> command (robot_reconcile_library apply_db pull)
      | RobotAutoAlign \<Rightarrow> command robot_auto_align_library
      | RobotAutoAlignAll \<Rightarrow> command auto_align_all_online_libraries
      | RobotSyncDb \<Rightarrow> command sync_db_from_kernel_all_libraries)"

definition library_command :: "cli_env \<Rightarrow> LibrarySubcommand \<Rightarrow> cli_prog" where
  "library_command ce sub =
     (case sub of
        LibraryList \<Rightarrow> command list_libraries
      | LibraryCreate name drv slt \<Rightarrow> site_command (create_named_library (ce_out ce) name drv slt)
      | LibraryDelete name \<Rightarrow> site_command (delete_named_library (ce_out ce) name))"

definition shelf_command :: "ShelfSubcommand \<Rightarrow> cli_prog" where
  "shelf_command sub =
     (case sub of
        ShelfList \<Rightarrow> command list_shelves
      | ShelfCreate name \<Rightarrow> command (create_shelf name)
      | ShelfTapes shelf \<Rightarrow> command (list_shelf_tapes shelf)
      | ShelfPlace tape shelf \<Rightarrow> command (shelf_place_tape tape shelf)
      | ShelfDelete name \<Rightarrow> command (here (\<lambda>l. delete_shelf_in_library l name)))"

definition quota_command :: "QuotaSubcommand \<Rightarrow> cli_prog" where
  "quota_command sub =
     (case sub of
        QuotaSet a b \<Rightarrow> command (quota_set a b)
      | QuotaShow \<Rightarrow> command quota_show
      | QuotaCheck \<Rightarrow> command quota_check)"

definition tag_command :: "TagSubcommand \<Rightarrow> cli_prog" where
  "tag_command sub =
     (case sub of
        TagAdd tape names \<Rightarrow> command (tag_add tape names)
      | TagRemove tape names \<Rightarrow> command (tag_remove tape names)
      | TagList tape \<Rightarrow> command (tag_list tape)
      | TagDelete t \<Rightarrow> command (tag_delete t))"

text \<open>\<^verbatim>\<open>kernel-align\<close>: done or nothing to do, refused for safety, or failed.\<close>

definition kernel_align_exit :: "string \<Rightarrow> int" where
  "kernel_align_exit st =
     (if st \<in> {''ioctl_ok'', ''rescan_only'', ''skipped'', ''ioctl_unavailable'', ''hot_geom_disabled'',
               ''script_ok'', ''reload_ok''} then 0
      else if st \<in> {''lio_exported'', ''holders_busy'', ''script_refused_holders'', ''script_refused_no_fuser''} then 2
      else 1)"

definition leave_with :: "int \<Rightarrow> cli_prog" where
  "leave_with code = (if code = 0 then ret () else fail (ProcessExit code))"

text \<open>\<^verbatim>\<open>reset_web_auth\<close> on the file of the credentials in the log directory.\<close>

definition reset_web_auth :: "auth_env \<Rightarrow> string option \<Rightarrow> unit cmd" where
  "reset_web_auth ae password =
     bindp (gets (\<lambda>w. new_web_state (path_of (cfg_log_dir (w_cfg w)) @ [''web_admin.json'']) (w_fs w))) (\<lambda>st.
     case force_reset_auth ae (case password of None \<Rightarrow> DEFAULT_WEB_PASSWORD | Some p \<Rightarrow> p) st of
       (r, st') \<Rightarrow>
         thenp (modify (\<lambda>w. w\<lparr>w_fs := aw_fs st'\<rparr>))
           (case r of Inl m \<Rightarrow> fail (InvalidParameter m) | Inr _ \<Rightarrow> ret ()))"

definition run_command :: "cli_env \<Rightarrow> Commands \<Rightarrow> cli_prog" where
  "run_command ce cmd =
     (case cmd of
        CreateTape name cap shelf names \<Rightarrow>
          size_argument cap (\<lambda>sz. command (create_tagged_tape name sz shelf names))
      | DeleteTape name \<Rightarrow> command (here (\<lambda>l. delete_tape_in_library l name))
      | InitTape name \<Rightarrow> command (here (\<lambda>l. init_tape_in_library l name))
      | ListTapes \<Rightarrow> command list_tapes
      | LoadTape src dst \<Rightarrow>
          slot_argument src (\<lambda>s. drive_argument dst (\<lambda>k. command (load_tape s k)))
      | UnloadTape drv \<Rightarrow> drive_argument drv (\<lambda>k. command (unload_tape k))
      | EjectTape slt \<Rightarrow> slot_argument slt (\<lambda>s. command (eject_tape s))
      | Robot sub \<Rightarrow> robot_command sub
      | Config (ConfigSet ps) \<Rightarrow> site_command (config_set (ce_out ce) ps)
      | Config ConfigShow \<Rightarrow> command config_show
      | Inventory \<Rightarrow> command show_inventory
      | Status \<Rightarrow> command show_status
      | Snapshot tape snap \<Rightarrow> command (snapshot_tape tape snap)
      | ImportTape p slt \<Rightarrow> slot_argument slt (\<lambda>s. command (import_tape (path_of p) s))
      | ExportTape slt p checksum \<Rightarrow>
          slot_argument slt (\<lambda>s. command (export_tape (ce_sha ce) (ce_read ce) s (path_of p) checksum))
      | CreateLibrary name drv slt \<Rightarrow> site_command (create_named_library (ce_out ce) name drv slt)
      | Library sub \<Rightarrow> library_command ce sub
      | Shelf sub \<Rightarrow> shelf_command sub
      | AssignSlot tape slt \<Rightarrow> slot_argument slt (\<lambda>s. command (assign_tape_to_slot tape s))
      | InitConfig \<Rightarrow> command init_config
      | BatchCreate n cap prefix names \<Rightarrow>
          size_argument cap (\<lambda>sz. command (batch_create_tapes n sz prefix names))
      | BatchImport dir start \<Rightarrow> command (batch_import_tapes (path_of dir) start)
      | Quota sub \<Rightarrow> quota_command sub
      | Tag sub \<Rightarrow> tag_command sub
      | Search f \<Rightarrow> command (search_tapes f)
      | Transport sub \<Rightarrow> ret ()
      | Serve host port \<Rightarrow> site_command (ce_serve ce host port)
      | Patrol \<Rightarrow>
          bindp (\<lambda>s. case run_patrol (ce_host ce) (ce_out ce) (ce_codec ce) s of (code, s') \<Rightarrow> (Inr code, s')) leave_with
      | KernelSpec insmod_max \<Rightarrow>
          if insmod_max then ret () else command build_vtl_instances_kernel_spec
      | KernelAlign quiet \<Rightarrow>
          bindp (maybe_reload_kernel_vtl_after_db_change (ce_out ce)) (\<lambda>geom.
            leave_with (kernel_align_exit (kernel_geom geom)))
      | ResetWebAuth password \<Rightarrow> command (reset_web_auth (ce_auth ce) password))"

text \<open>A process starts without a chosen library and reads the configuration of its environment.\<close>

definition start_process :: "env \<Rightarrow> site \<Rightarrow> site" where
  "start_process e s =
     s\<lparr>st_world := (st_world s)\<lparr>w_env := e, w_lib := [],
         w_cfg := get_config_uncached e (w_conf_file (st_world s))\<rparr>\<rparr>"

definition run_main :: "cli_env \<Rightarrow> env \<Rightarrow> string option \<Rightarrow> Commands \<Rightarrow> site \<Rightarrow> int \<times> site" where
  "run_main ce e opt cmd s =
     (case thenp (command (select_library opt cmd)) (run_command ce cmd) (start_process e s) of
        (Inr _, s') \<Rightarrow> (0, s')
      | (Inl (ProcessExit n), s') \<Rightarrow> (n, s')
      | (Inl (Failed _), s') \<Rightarrow> (1, s'))"

section \<open>The catalogue over the life of an installation\<close>

text \<open>
  The commands that write the place of a tape without looking where it was: imports, and the mirror
  of the kernel's slots (\<^verbatim>\<open>robot sync-db\<close>, also run by the patrol).
\<close>

definition careful :: "Commands \<Rightarrow> bool" where
  "careful cmd =
     (case cmd of ImportTape _ _ \<Rightarrow> False | BatchImport _ _ \<Rightarrow> False | Robot RobotSyncDb \<Rightarrow> False
      | Patrol \<Rightarrow> False | Serve _ _ \<Rightarrow> False | _ \<Rightarrow> True)"

text \<open>
  An installation: an empty database, then processes one after the other, each with any environment
  and arguments, and between them anything that leaves the database alone: files, kernel, devices,
  configuration, clock and faults may all change.
\<close>

inductive installation :: "cli_env \<Rightarrow> site \<Rightarrow> bool" for ce where
  installed: "w_db (st_world s) = create_fresh_v2_schema \<Longrightarrow> installation ce s"
| ran: "installation ce s \<Longrightarrow> careful cmd \<Longrightarrow> installation ce (snd (run_main ce e opt cmd s))"
| elsewhere: "installation ce s \<Longrightarrow> w_db (st_world s') = w_db (st_world s) \<Longrightarrow> installation ce s'"

lemma keeps_site_command: "keeps site_consistent m \<Longrightarrow> keeps site_consistent (site_command m)"
  unfolding site_command_def by (intro keeps_intros)

lemma keeps_command: "keeps catalog.holds m \<Longrightarrow> keeps site_consistent (command m)"
  unfolding command_def by (intro keeps_site_command geometry_catalog.keeps_world)

lemma keeps_arguments:
  "(\<And>n. keeps P (k n)) \<Longrightarrow> keeps P (slot_argument s k)"
  "(\<And>n. keeps P (k n)) \<Longrightarrow> keeps P (drive_argument s k)"
  "(\<And>n. keeps P (j n)) \<Longrightarrow> keeps P (size_argument s j)"
  unfolding slot_argument_def drive_argument_def size_argument_def by (intro keeps_intros; simp)+

lemma keeps_here: "(\<And>l. keeps P (m l)) \<Longrightarrow> keeps P (here m)"
  unfolding here_def by (intro keeps_intros)

lemma keeps_leave: "keeps P (leave_with n)"
  unfolding leave_with_def by (intro keeps_intros)


lemma keeps_select: "keeps catalog.holds (select_library opt cmd)"
  unfolding select_library_def
  by (intro keeps_intros catalog.keeps_init_db catalog.keeps_db_read keeps_modify) simp_all

lemma keeps_create_tagged: "keeps catalog.holds (create_tagged_tape name sz shelf names)"
  unfolding create_tagged_tape_def
  by (intro keeps_intros catalog.keeps_init_db catalog.keeps_db_read catalog.keeps_current_library_id
      tape_catalog.keeps_create_tape tape_catalog.keeps_add_tags)

lemma keeps_tag_delete: "keeps catalog.holds (tag_delete name)"
  unfolding tag_delete_def
  by (intro keeps_intros catalog.keeps_init_db catalog.keeps_db_read catalog.keeps_unit_tx)
    (auto simp: catalog_ok_frames)

lemma keeps_files:
  "keeps catalog.holds (snapshot_tape tape snap)" "keeps catalog.holds (export_tape sh given s p b)"
  "keeps catalog.holds init_config" "keeps catalog.holds (reset_web_auth ae pw)"
  unfolding snapshot_tape_def export_tape_def export_to_def write_checksum_def init_config_def write_initial_vtl_conf_def reset_web_auth_def Let_def
  by (intro keeps_intros catalog.keeps_init_db catalog.keeps_db_read catalog.keeps_current_library_id
      catalog.keeps_fs_try catalog.keeps_fs_run keeps_modify; simp)+

lemma keeps_reports:
  "keeps catalog.holds list_tapes" "keeps catalog.holds config_show" "keeps catalog.holds show_inventory"
  "keeps catalog.holds show_status" "keeps catalog.holds list_libraries" "keeps catalog.holds list_shelves"
  "keeps catalog.holds (list_shelf_tapes sh)" "keeps catalog.holds (search_tapes f)"
  "keeps catalog.holds quota_show" "keeps catalog.holds quota_check" "keeps catalog.holds (tag_list t)"
  "keeps catalog.holds build_vtl_instances_kernel_spec"
  unfolding list_tapes_def config_show_def show_inventory_def show_status_def list_libraries_def list_shelves_def
    list_shelf_tapes_def search_tapes_def quota_show_def quota_check_def tag_list_def
    build_vtl_instances_kernel_spec_def changer_inventory_display_def changer_inventory_from_kernel_def
  by (intro keeps_intros catalog.keeps_init_db catalog.keeps_db_read catalog.keeps_current_library_id
      catalog.keeps_snapshot)+

lemma keeps_run_command:
  assumes "careful cmd"
  shows "keeps site_consistent (run_command ce cmd)"
proof -
  note world = keeps_command
  note robot = catalog.keeps_load_tape catalog.keeps_unload_tape catalog.keeps_eject_tape
    catalog.keeps_assign_tape_to_slot catalog.keeps_shelf_place_tape keeps_robot_commands keeps_align_all
  note store = keeps_create_tagged tape_catalog.keeps_delete_tape tape_catalog.keeps_init_tape
    tape_catalog.keeps_batch_create tape_catalog.keeps_quota_set tape_catalog.keeps_tag_add
    tape_catalog.keeps_tag_remove keeps_tag_delete keeps_files keeps_reports
    keeps_create_shelf keeps_delete_shelf
  note libraries = keeps_create_named_library keeps_delete_named_library keeps_config_set
    geometry_catalog.keeps_maybe_reload
  show ?thesis
    using assms
    by (cases cmd)
      (auto simp: careful_def run_command_def robot_command_def library_command_def shelf_command_def
        quota_command_def tag_command_def
        split: RobotSubcommand.splits ConfigSubcommand.splits LibrarySubcommand.splits ShelfSubcommand.splits
          QuotaSubcommand.splits TagSubcommand.splits
        intro!: keeps_intros keeps_arguments keeps_site_command keeps_here keeps_leave world robot store libraries)
qed

lemma run_main_consistent:
  assumes "careful cmd" "site_consistent s"
  shows "site_consistent (snd (run_main ce e opt cmd s))"
proof -
  have start: "site_consistent (start_process e s)" using assms(2) by (simp add: start_process_def)
  have "keeps site_consistent (thenp (command (select_library opt cmd)) (run_command ce cmd))"
    by (intro keeps_intros keeps_command keeps_select keeps_run_command assms(1))
  from keepsD [OF this start] show ?thesis
    by (auto simp: run_main_def split: prod.splits sum.splits cli_error.splits)
qed

lemma installation_consistent: "installation ce s \<Longrightarrow> site_consistent s"
  by (induction rule: installation.induct) (simp_all add: catalog.fresh run_main_consistent)

text \<open>The status of a process is one of three, and only two commands use the third.\<close>

definition exits_in :: "int set \<Rightarrow> cli_prog \<Rightarrow> bool" where
  "exits_in N m \<longleftrightarrow> (\<forall>s n s'. m s = (Inl (ProcessExit n), s') \<longrightarrow> n \<in> N)"

lemma exits_command: "exits_in N (site_command m)" "exits_in N (command n)"
  by (auto simp: exits_in_def site_command_def command_def bindp_def map_err_def split: prod.splits sum.splits)

lemma exits_rules:
  "exits_in N (ret ())" "exits_in N (fail (Failed e))" "k \<in> N \<Longrightarrow> exits_in N (fail (ProcessExit k))"
  "exits_in N a \<Longrightarrow> exits_in N b \<Longrightarrow> exits_in N (if c then a else b)"
  "(\<And>n. exits_in N (j n)) \<Longrightarrow> exits_in N (slot_argument x j)"
  "(\<And>n. exits_in N (j n)) \<Longrightarrow> exits_in N (drive_argument x j)"
  "1 \<in> N \<Longrightarrow> (\<And>n. exits_in N (l n)) \<Longrightarrow> exits_in N (size_argument x l)"
  by (auto simp: exits_in_def slot_argument_def drive_argument_def size_argument_def split: option.split sum.split)

lemma exits_thenp: "exits_in N a \<Longrightarrow> exits_in N b \<Longrightarrow> exits_in N (thenp a b)"
  unfolding exits_in_def thenp_def bindp_def by (fastforce split: prod.splits sum.splits)

lemma patrol_exit_range: "exit_code pr \<in> {0, 1, 2}" "fst (run_patrol h out c s) \<in> {0, 1, 2}"
  by (auto simp: run_patrol_def exit_code_def PATROL_EXIT_CRIT_def PATROL_EXIT_WARN_def PATROL_EXIT_OK_def
      split: prod.split sum.split)

lemma exits_patrol:
  "exits_in {0, 1, 2} (bindp (\<lambda>s. case run_patrol h out c s of (code, s') \<Rightarrow> (Inr code, s')) leave_with)"
  unfolding exits_in_def
proof (intro allI impI)
  fix s n s' assume "bindp (\<lambda>s. case run_patrol h out c s of (code, s') \<Rightarrow> (Inr code, s')) leave_with s
    = (Inl (ProcessExit n), s')"
  then show "n \<in> {0, 1, 2}" using patrol_exit_range(2) [of h out c s]
    by (auto simp: bindp_def leave_with_def split: prod.splits sum.splits if_splits)
qed

lemma exits_align:
  "exits_in {0, 1, 2} (bindp m (\<lambda>g. leave_with (kernel_align_exit (kernel_geom g))))"
  if "\<And>s x s'. m s = (Inl x, s') \<Longrightarrow> False"
  unfolding exits_in_def using that
  by (fastforce simp: bindp_def leave_with_def kernel_align_exit_def split: prod.splits sum.splits if_splits)

lemma maybe_reload_returns: "maybe_reload_kernel_vtl_after_db_change out s = (Inl x, s') \<Longrightarrow> False"
  by (auto simp: maybe_reload_kernel_vtl_after_db_change_def split: prod.splits sum.splits)

lemma exits_mono: "exits_in M m \<Longrightarrow> M \<subseteq> N \<Longrightarrow> exits_in N m"
  by (auto simp: exits_in_def)

lemma exits_run_command:
  "exits_in (case cmd of Patrol \<Rightarrow> {0, 1, 2} | KernelAlign _ \<Rightarrow> {0, 1, 2} | _ \<Rightarrow> {1}) (run_command ce cmd)"
proof -
  note rules = exits_rules exits_command exits_patrol exits_align [OF maybe_reload_returns]
  show ?thesis
    by (cases cmd)
      (auto simp: run_command_def robot_command_def library_command_def shelf_command_def
        quota_command_def tag_command_def
        split: RobotSubcommand.splits ConfigSubcommand.splits LibrarySubcommand.splits ShelfSubcommand.splits
          QuotaSubcommand.splits TagSubcommand.splits
        intro!: rules)
qed

lemma exit_status:
  "fst (run_main ce e opt cmd s) \<in> (case cmd of Patrol \<Rightarrow> {0, 1, 2} | KernelAlign _ \<Rightarrow> {0, 1, 2} | _ \<Rightarrow> {0, 1})"
proof -
  let ?N = "case cmd of Patrol \<Rightarrow> {0, 1, 2} | KernelAlign _ \<Rightarrow> {0, 1, 2} | _ \<Rightarrow> {1 :: int}"
  have "exits_in ?N (thenp (command (select_library opt cmd)) (run_command ce cmd))"
    by (intro exits_thenp exits_command exits_run_command)
  then show ?thesis unfolding exits_in_def run_main_def
    by (fastforce split: prod.splits sum.splits cli_error.splits Commands.splits)
qed

text \<open>An argument that does not parse stops a command before it touches the database.\<close>

lemma bad_slot_is_refused:
  "parse_slot src = None \<Longrightarrow> run_command ce (LoadTape src dst) s = (Inl (Failed (InvalidParameter (''Invalid slot: '' @ src))), s)"
  by (simp add: run_command_def slot_argument_def)

end
