(* ===== verification/Logs.thy ===== *)
theory Logs
  imports Files Effects Config
begin

text \<open>
  The log files (\<^verbatim>\<open>main.rs\<close>): one line is appended to a file in \<^verbatim>\<open>log_dir\<close>; when it would exceed the
  limit, the file is renamed to \<^verbatim>\<open>name.1\<close> and the older ones up to \<^verbatim>\<open>name.5\<close> move on by one.
\<close>

definition LOG_ROTATE_DEPTH :: nat where "LOG_ROTATE_DEPTH = 5"

definition log_name :: "path \<Rightarrow> string \<Rightarrow> nat \<Rightarrow> path" where
  "log_name dir name i = dir @ [if i = 0 then name else name @ ''.'' @ show_nat i]"

definition saturating_add :: "nat \<Rightarrow> nat \<Rightarrow> nat" where
  "saturating_add a b = min (a + b) u64_max"

definition rotate_one :: "path \<Rightarrow> string \<Rightarrow> nat \<Rightarrow> (fs, io_error, unit) prog" where
  "rotate_one dir name i =
     (let from = log_name dir name i; to = log_name dir name (i + 1)
      in bindp (gets (\<lambda>f. (path_exists f from, path_exists f to))) (\<lambda>(e, t).
           if e then thenp (if t then updating (remove_file to) else ret ()) (updating (rename from to))
           else ret ()))"

definition rotate_logs :: "path \<Rightarrow> string \<Rightarrow> (fs, io_error, unit) prog" where
  "rotate_logs dir name =
     (let path = log_name dir name 0; oldest = log_name dir name LOG_ROTATE_DEPTH; first_rot = log_name dir name 1
      in thenp (bindp (attempt (updating (remove_file oldest))) (\<lambda>_. ret ()))
         (thenp (forp (rotate_one dir name) (rev [1..<LOG_ROTATE_DEPTH]))
         (bindp (gets (\<lambda>f. path_exists f first_rot)) (\<lambda>t.
          thenp (if t then updating (remove_file first_rot) else ret ())
            (updating (rename path first_rot))))))"

definition maybe_rotate_log_file :: "path \<Rightarrow> string \<Rightarrow> nat \<Rightarrow> nat \<Rightarrow> (fs, io_error, unit) prog" where
  "maybe_rotate_log_file dir name line_len max_bytes =
     (let mx = max max_bytes 4096; path = log_name dir name 0
      in bindp (gets (\<lambda>f. path_exists f path)) (\<lambda>there.
         if \<not> there then ret ()
         else bindp (from_result (file_len path)) (\<lambda>len.
           if saturating_add len line_len \<le> mx then ret () else rotate_logs dir name)))"

definition try_append_log_line_in :: "path \<Rightarrow> string \<Rightarrow> string \<Rightarrow> nat \<Rightarrow> (fs, io_error, unit) prog" where
  "try_append_log_line_in dir name line max_bytes =
     thenp (updating (create_dir_all dir))
     (thenp (maybe_rotate_log_file dir name (length line + 1) max_bytes)
       (updating (append_file (log_name dir name 0) (line @ [CHR 0x0A]))))"

text \<open>The two loggers; a line that cannot be written is only reported.\<close>

definition log_message :: "VtlConfig \<Rightarrow> string \<Rightarrow> string \<Rightarrow> (fs, 'e, unit) prog" where
  "log_message cfg timestamp msg =
     bindp (attempt (try_append_log_line_in (path_of (cfg_log_dir cfg)) ''vtladm.log''
              (''['' @ timestamp @ ''] '' @ msg) (cfg_log_max_bytes cfg))) (\<lambda>_. ret ())"

definition log_error :: "VtlConfig \<Rightarrow> string \<Rightarrow> string \<Rightarrow> string \<Rightarrow> (fs, 'e, unit) prog" where
  "log_error cfg timestamp msg err =
     bindp (attempt (try_append_log_line_in (path_of (cfg_log_dir cfg)) ''vtladm_errors.log''
              (''['' @ timestamp @ ''] ERROR: '' @ msg @ '' - '' @ err) (cfg_log_max_bytes cfg))) (\<lambda>_. ret ())"

section \<open>The files keep below the limit\<close>

definition file_size :: "fs \<Rightarrow> path \<Rightarrow> nat" where
  "file_size f p = (case file_content f p of None \<Rightarrow> 0 | Some c \<Rightarrow> clen c)"

lemma updating_Inr: "updating g s = (Inr u, s') \<longleftrightarrow> g s = Inr s'"
  by (auto simp: updating_def split: sum.splits)

lemma append_file_size:
  assumes "append_file p t f = Inr f'"
  shows "file_size f' p = file_size f p + length t"
proof (cases "inode_of f p")
  case (Some i)
  with assms show ?thesis
    by (auto simp: append_file_def file_size_def file_content_def append_content_def)
next
  case None
  with assms obtain f1 i where f1: "create_file p f = Inr f1" "inode_of f1 p = Some i"
    and f': "f' = put_content i (append_content (content_of f1 i) t) f1"
    by (auto simp: append_file_def)
  have "content_of f1 i = empty_content"
  proof -
    from f1(1) obtain q where q: "resolve 40 f p = Some q" by (auto simp: create_file_def split: option.splits)
    with None have "\<nexists>j. node_at f q = Some (Reg j)" by (auto simp: inode_of_def target_def)
    with f1(1) q have f1': "f1 = put_node q (Reg (next_ino f))
        (put_content (next_ino f) empty_content (f\<lparr>next_ino := Suc (next_ino f)\<rparr>))" and n: "node_at f q = None"
      by (auto simp: create_file_def split: option.splits node.splits if_splits)
    have qn: "q \<noteq> []" using n by (cases q) auto
    have "resolve k f r = Some q \<Longrightarrow> resolve k f1 r = Some q" for k r
    proof (induction k arbitrary: r)
      case (Suc k)
      show ?case
      proof (cases "r = q")
        case True
        then show ?thesis using qn by (simp add: f1')
      next
        case False
        with Suc qn show ?thesis by (auto simp: f1' split: option.splits node.splits)
      qed
    qed simp
    then have "resolve 40 f1 p = Some q" using q by blast
    moreover have "node_at f1 q = Some (Reg (next_ino f))" using qn by (simp add: f1')
    ultimately have "inode_of f1 p = Some (next_ino f)" by (simp add: inode_of_def target_def)
    with f1(2) have "i = next_ino f" by simp
    then show ?thesis by (simp add: f1')
  qed
  with f1 None show ?thesis
    by (simp add: f' file_size_def file_content_def append_content_def empty_content_def)
qed

text \<open>
  A line that was written leaves the file within the limit, unless the line alone is longer. (A
  limit of the largest 64 bit number never rotates, because the sum saturates there.)
\<close>

lemma file_len_size: "file_len p f = Inr n \<Longrightarrow> file_size f p = n"
  by (auto simp: file_len_def file_size_def)

lemma no_file_size: "\<not> path_exists f p \<Longrightarrow> file_size f p = 0"
  by (simp add: path_exists_def file_size_def file_content_def inode_of_def)

lemma rename_source_gone:
  assumes "rename a b f = Inr f'" "a \<noteq> b" "node_at f b = None"
  shows "node_at f' a = None" "node_at f' b = node_at f a"
    "\<And>q. q \<noteq> a \<Longrightarrow> q \<noteq> b \<Longrightarrow> node_at f' q = node_at f q"
proof -
  have "node_at f a \<noteq> None" using assms(1) by (cases "node_at f a") (auto simp: rename_def)
  then have "node_at f b \<noteq> node_at f a" using assms(3) by force
  from rename_nodes [OF assms(1) this] assms(2)
  show "node_at f' a = None" "node_at f' b = node_at f a"
    "\<And>q. q \<noteq> a \<Longrightarrow> q \<noteq> b \<Longrightarrow> node_at f' q = node_at f q" by auto
qed

section \<open>Rotation\<close>

text \<open>What the names of the logs are bound to: nothing, or a regular file.\<close>

definition log_nodes :: "path \<Rightarrow> string \<Rightarrow> fs \<Rightarrow> nat \<Rightarrow> node option" where
  "log_nodes dir name f i = node_at f (log_name dir name i)"

definition plain_logs :: "path \<Rightarrow> string \<Rightarrow> fs \<Rightarrow> bool" where
  "plain_logs dir name f \<longleftrightarrow> (\<forall>i \<le> LOG_ROTATE_DEPTH. \<forall>n. log_nodes dir name f i = Some n \<longrightarrow> (\<exists>k. n = Reg k))"

lemma plain_logsD:
  "plain_logs dir name f \<Longrightarrow> i \<le> LOG_ROTATE_DEPTH \<Longrightarrow> \<forall>n. node_at f (log_name dir name i) = Some n \<longrightarrow> (\<exists>k. n = Reg k)"
  by (simp add: plain_logs_def log_nodes_def)

lemma log_name_eq [simp]: "log_name dir name i = log_name dir name j \<longleftrightarrow> i = j"
proof
  assume "log_name dir name i = log_name dir name j"
  then have *: "(if i = 0 then name else name @ ''.'' @ show_nat i) = (if j = 0 then name else name @ ''.'' @ show_nat j)"
    by (simp add: log_name_def)
  show "i = j"
  proof (cases "i = 0 \<or> j = 0")
    case True
    with * show ?thesis by (auto split: if_splits)
  next
    case False
    with * have "show_nat i = show_nat j" by simp
    then show ?thesis by (metis dec_val_show_nat)
  qed
qed simp

lemma plain_exists:
  "\<forall>n. node_at f p = Some n \<longrightarrow> (\<exists>k. n = Reg k) \<Longrightarrow> path_exists f p \<longleftrightarrow> node_at f p \<noteq> None"
proof -
  assume "\<forall>n. node_at f p = Some n \<longrightarrow> (\<exists>k. n = Reg k)"
  then have "\<not> is_symlink f p" by (auto simp: is_symlink_def split: option.splits node.splits)
  then show ?thesis by (simp add: path_exists_def target_def resolve_no_symlink)
qed

lemma rotate_one_moves:
  assumes "rotate_one dir name i f = (Inr (), f')" "plain_logs dir name f" "i < LOG_ROTATE_DEPTH"
    and "log_nodes dir name f (i + 1) = None"
  shows "log_nodes dir name f' = (log_nodes dir name f)(i + 1 := log_nodes dir name f i, i := None)"
    and "content_of f' = content_of f"
proof -
  let ?a = "log_name dir name i" and ?b = "log_name dir name (i + 1)"
  have "path_exists f ?a \<longleftrightarrow> node_at f ?a \<noteq> None"
    using assms(2,3) by (intro plain_exists plain_logsD) simp_all
  moreover have "\<not> path_exists f ?b" using plain_exists [of f ?b] assms(4) by (simp add: log_nodes_def)
  ultimately have ex: "path_exists f ?a \<longleftrightarrow> node_at f ?a \<noteq> None" "\<not> path_exists f ?b" by auto
  have "log_nodes dir name f' = (log_nodes dir name f)(i + 1 := log_nodes dir name f i, i := None) \<and>
    content_of f' = content_of f"
  proof (cases "node_at f ?a")
    case None
    with assms(1,4) ex show ?thesis
      by (auto simp: rotate_one_def bindp_def Let_def log_nodes_def fun_eq_iff split: if_splits)
  next
    case (Some n)
    with assms(1) ex have r: "rename ?a ?b f = Inr f'"
      by (auto simp: rotate_one_def bindp_def thenp_def Let_def updating_def split: sum.splits)
    have "node_at f ?b = None" using assms(4) by (simp add: log_nodes_def)
    note m = rename_source_gone [OF r _ this]
    have "node_at f' ?a = None" "node_at f' ?b = node_at f ?a" using m(1,2) by simp_all
    moreover have "node_at f' (log_name dir name j) = node_at f (log_name dir name j)"
      if "j \<noteq> i" "j \<noteq> i + 1" for j
      using that by (intro m(3)) simp_all
    ultimately show ?thesis using rename_content [OF r] by (auto simp: log_nodes_def fun_eq_iff)
  qed
  then show "log_nodes dir name f' = (log_nodes dir name f)(i + 1 := log_nodes dir name f i, i := None)"
    and "content_of f' = content_of f" by auto
qed

lemma plain_shift:
  assumes "plain_logs dir name f" "i < LOG_ROTATE_DEPTH"
    and "log_nodes dir name f' = (log_nodes dir name f)(i + 1 := log_nodes dir name f i, i := None)"
  shows "plain_logs dir name f'"
proof -
  have "\<forall>n. log_nodes dir name f i = Some n \<longrightarrow> (\<exists>k. n = Reg k)"
    using plain_logsD [OF assms(1), of i] assms(2) by (simp add: log_nodes_def)
  with assms(1) show ?thesis by (simp add: plain_logs_def assms(3))
qed

lemma rotate_down:
  assumes "forp (rotate_one dir name) (rev [1..<Suc m]) f = (Inr (), f')" "plain_logs dir name f"
    and "m < LOG_ROTATE_DEPTH" "log_nodes dir name f (Suc m) = None"
  shows "log_nodes dir name f' = (\<lambda>i. if i = 0 then log_nodes dir name f 0 else if i = 1 then None
      else if i \<le> Suc m then log_nodes dir name f (i - 1) else log_nodes dir name f i) \<and>
    content_of f' = content_of f \<and> plain_logs dir name f'"
  using assms
proof (induction m arbitrary: f)
  case 0
  then show ?case by (auto simp: forp_def fun_eq_iff le_Suc_eq)
next
  case (Suc m)
  have "rev [1..<Suc (Suc m)] = Suc m # rev [1..<Suc m]" by simp
  with Suc.prems(1) obtain f1 where f1: "rotate_one dir name (Suc m) f = (Inr (), f1)"
    and rest: "forp (rotate_one dir name) (rev [1..<Suc m]) f1 = (Inr (), f')"
    by (auto simp: forp_def bindp_eq_Inr)
  have none: "log_nodes dir name f (Suc m + 1) = None" using Suc.prems(4) by simp
  note s = rotate_one_moves [OF f1 Suc.prems(2,3) none]
  have p1: "plain_logs dir name f1" by (rule plain_shift [OF Suc.prems(2,3) s(1)])
  have "log_nodes dir name f1 (Suc m) = None" by (simp add: s(1))
  from Suc.IH [OF rest p1 _ this] Suc.prems(3)
  have ih: "log_nodes dir name f' = (\<lambda>i. if i = 0 then log_nodes dir name f1 0 else if i = 1 then None
      else if i \<le> Suc m then log_nodes dir name f1 (i - 1) else log_nodes dir name f1 i)"
    "content_of f' = content_of f1" "plain_logs dir name f'" by auto
  have "log_nodes dir name f' i = (if i = 0 then log_nodes dir name f 0 else if i = 1 then None
      else if i \<le> Suc (Suc m) then log_nodes dir name f (i - 1) else log_nodes dir name f i)" for i
    by (cases "i = Suc (Suc m)") (auto simp: ih(1) s(1))
  then show ?case using ih(2,3) s(2) by (simp add: fun_eq_iff)
qed

lemma remove_plain:
  assumes "node_at f p = Some (Reg k)" "fs_fault f (OpRemove p) = None"
  shows "remove_file p f = Inr (drop_node p f)"
  using assms by (simp add: remove_file_def with_fault_def)

text \<open>A rotation that succeeds moves every log on by one and drops the fifth.\<close>

lemma rotate_logs_shifts:
  assumes ok: "rotate_logs dir name f = (Inr (), f')" and plain: "plain_logs dir name f"
    and free: "fs_fault f (OpRemove (log_name dir name LOG_ROTATE_DEPTH)) = None"
  shows "(\<forall>i < LOG_ROTATE_DEPTH. log_nodes dir name f' (Suc i) = log_nodes dir name f i) \<and>
    log_nodes dir name f' 0 = None \<and> content_of f' = content_of f"
proof -
  let ?o = "log_name dir name LOG_ROTATE_DEPTH"
  define f0 where "f0 = snd (updating (remove_file ?o) f)"
  have f0: "log_nodes dir name f0 = (log_nodes dir name f)(LOG_ROTATE_DEPTH := None)" "content_of f0 = content_of f"
  proof -
    have "?o \<noteq> []" by (simp add: log_name_def)
    have "log_nodes dir name f0 = (log_nodes dir name f)(LOG_ROTATE_DEPTH := None) \<and> content_of f0 = content_of f"
    proof (cases "node_at f ?o")
      case None
      then have "f0 = f" by (simp add: f0_def updating_def remove_file_def with_fault_def free)
      then show ?thesis using None by (auto simp: log_nodes_def fun_eq_iff)
    next
      case (Some n)
      with plain obtain k where "node_at f ?o = Some (Reg k)" by (auto simp: plain_logs_def log_nodes_def)
      then have "f0 = drop_node ?o f" using remove_plain [OF _ free] by (simp add: f0_def updating_def)
      then show ?thesis using \<open>?o \<noteq> []\<close> by (auto simp: log_nodes_def fun_eq_iff)
    qed
    then show "log_nodes dir name f0 = (log_nodes dir name f)(LOG_ROTATE_DEPTH := None)" "content_of f0 = content_of f"
      by auto
  qed
  have p0: "plain_logs dir name f0" using plain by (auto simp: plain_logs_def f0(1))
  have d: "LOG_ROTATE_DEPTH = Suc 4" by (simp add: LOG_ROTATE_DEPTH_def)
  from ok obtain f1 where loop: "forp (rotate_one dir name) (rev [1..<Suc 4]) f0 = (Inr (), f1)"
    and last: "bindp (gets (\<lambda>f. path_exists f (log_name dir name 1))) (\<lambda>t.
      thenp (if t then updating (remove_file (log_name dir name 1)) else ret ())
        (updating (rename (log_name dir name 0) (log_name dir name 1)))) f1 = (Inr (), f')"
    unfolding rotate_logs_def Let_def d
    by (auto simp: thenp_def attempt_run bindp_eq_Inr f0_def d)
  have "log_nodes dir name f0 (Suc 4) = None" by (simp add: f0(1) d)
  from rotate_down [OF loop p0 _ this] have n1: "log_nodes dir name f1 = (\<lambda>i. if i = 0 then log_nodes dir name f0 0
      else if i = 1 then None else if i \<le> Suc 4 then log_nodes dir name f0 (i - 1) else log_nodes dir name f0 i)"
    and c1: "content_of f1 = content_of f0" and p1: "plain_logs dir name f1" by (auto simp: d)
  have none: "node_at f1 (log_name dir name 1) = None" using fun_cong [OF n1, of 1] by (simp add: log_nodes_def)
  then have "\<not> path_exists f1 (log_name dir name 1)" using plain_exists [of f1] by simp
  with last have r: "rename (log_name dir name 0) (log_name dir name 1) f1 = Inr f'"
    by (simp add: thenp_def updating_Inr)
  note m = rename_source_gone [OF r _ none]
  have "node_at f' (log_name dir name j) = node_at f1 (log_name dir name j)" if "j \<noteq> 0" "j \<noteq> 1" for j
    using that by (intro m(3)) simp_all
  moreover have "node_at f' (log_name dir name 0) = None" "node_at f' (log_name dir name 1) = node_at f1 (log_name dir name 0)"
    using m(1,2) by simp_all
  ultimately have n': "log_nodes dir name f' j = (if j = 0 then None else if j = 1 then log_nodes dir name f1 0
      else log_nodes dir name f1 j)" for j
    by (auto simp: log_nodes_def)
  have "content_of f' = content_of f" using rename_content [OF r] c1 f0(2) by (simp add: fun_eq_iff)
  moreover have "log_nodes dir name f' (Suc i) = log_nodes dir name f i" if "i < LOG_ROTATE_DEPTH" for i
    using that by (auto simp: n' n1 f0(1) d)
  ultimately show ?thesis by (simp add: n')
qed

lemma rename_source_none:
  "rename a b f = Inr f' \<Longrightarrow> a \<noteq> b \<Longrightarrow> node_at f b = None \<or> \<not> path_exists f b \<Longrightarrow> node_at f' a = None"
proof -
  assume r: "rename a b f = Inr f'" and ab: "a \<noteq> b" and b: "node_at f b = None \<or> \<not> path_exists f b"
  have a: "a \<noteq> []" "b \<noteq> []" using r b by (cases a; cases b; auto simp: rename_def split: option.splits node.splits if_splits)+
  have "node_at f b \<noteq> Some (Reg k)" for k using b not_exists_node by auto
  with r ab a show "node_at f' a = None"
    by (auto simp: rename_def is_symlink_def split: option.splits node.splits if_splits)
qed

lemma rotate_leaves_none:
  assumes "rotate_logs dir name f = (Inr (), f')"
  shows "node_at f' (log_name dir name 0) = None"
proof -
  let ?a = "log_name dir name 0" and ?b = "log_name dir name 1"
  from assms obtain f1 where "bindp (gets (\<lambda>f. path_exists f ?b)) (\<lambda>t.
      thenp (if t then updating (remove_file ?b) else ret ()) (updating (rename ?a ?b))) f1 = (Inr (), f')"
    unfolding rotate_logs_def Let_def by (auto simp: thenp_def attempt_run bindp_eq_Inr)
  then obtain f2 where r: "rename ?a ?b f2 = Inr f'"
    and b: "node_at f2 ?b = None \<or> \<not> path_exists f2 ?b"
    by (auto simp: thenp_def bindp_eq_Inr updating_Inr remove_file_def log_name_def
        split: if_splits option.splits node.splits)
  show ?thesis by (rule rename_source_none [OF r _ b]) simp
qed

lemma gone_not_exists: "node_at f p = None \<Longrightarrow> \<not> path_exists f p"
  using plain_exists [of f p] by simp

lemma append_within_limit:
  assumes "try_append_log_line_in dir name line mx f = (Inr (), f')" "mx < u64_max"
  shows "file_size f' (log_name dir name 0) \<le> max (max mx 4096) (length line + 1)"
proof -
  let ?p = "log_name dir name 0"
  from assms(1) obtain f1 f2 where f1: "create_dir_all dir f = Inr f1"
    and rot: "maybe_rotate_log_file dir name (length line + 1) mx f1 = (Inr (), f2)"
    and app: "append_file ?p (line @ [CHR 0x0A]) f2 = Inr f'"
    by (auto simp: try_append_log_line_in_def thenp_def bindp_eq_Inr updating_Inr)
  have size: "file_size f' ?p = file_size f2 ?p + (length line + 1)" using append_file_size [OF app] by simp
  consider "\<not> path_exists f1 ?p" "f2 = f1"
    | n where "file_len ?p f1 = Inr n" "saturating_add n (length line + 1) \<le> max mx 4096" "f2 = f1"
    | "rotate_logs dir name f1 = (Inr (), f2)"
    using rot by (auto simp: maybe_rotate_log_file_def Let_def bindp_eq_Inr split: if_splits)
  then show ?thesis
  proof cases
    case 1
    then show ?thesis using size no_file_size by simp
  next
    case 2
    have "max mx 4096 < u64_max" using assms(2) by (simp add: u64_max_def)
    with 2(2) have "n + (length line + 1) \<le> max mx 4096" by (auto simp: saturating_add_def min_def split: if_splits)
    then show ?thesis using size file_len_size [OF 2(1)] 2(3) by simp
  next
    case 3
    then show ?thesis using size no_file_size [OF gone_not_exists [OF rotate_leaves_none [OF 3]]] by simp
  qed
qed

end
