(* ===== verification/Migration.thy ===== *)
theory Migration
  imports Catalog
begin

text \<open>
  The migration of a database of the first schema, without libraries, to the current one
  (\<^verbatim>\<open>migrate_legacy_to_v2\<close> in \<^verbatim>\<open>main.rs\<close>). The tables of the libraries may already be there; the
  tables of the slots and the drives are migrated only if they have no column \<^verbatim>\<open>library_id\<close> yet.
  The whole migration is one transaction.
\<close>

section \<open>The first schema\<close>

record legacy_tape =
  lg_id :: int
  lg_shelf :: "int option"
  lg_barcode :: string
  lg_name :: string
  lg_slot :: "int option"
  lg_capacity :: nat
  lg_used :: nat
  lg_created :: string
  lg_image :: path

record legacy_slot =
  ls_no :: int
  ls_tape :: "int option"
  ls_ie :: int

record legacy_drive =
  ld_no :: int
  ld_tape :: "int option"

record legacy_db =
  lg_libs :: "lib_row list"
  lg_shelves :: "shelf_row list"
  lg_lib_config :: "((int \<times> string) \<times> string) list"
  lg_tapes :: "legacy_tape list"
  lg_slots :: "legacy_slot list + slot_row list"
  lg_drives :: "legacy_drive list + drive_row list"
  lg_config :: "(string \<times> string) list"
  lg_seq_lib :: int
  lg_seq_shelf :: int
  lg_seq_tape :: int

text \<open>The tables that the migration neither reads nor writes are empty in the first schema.\<close>

definition core_tables :: "legacy_db \<Rightarrow> db" where
  "core_tables g =
     create_fresh_v2_schema\<lparr>libs := lg_libs g, shelves := lg_shelves g, lib_config := lg_lib_config g,
       config := lg_config g, seq_lib := lg_seq_lib g, seq_shelf := lg_seq_shelf g\<rparr>"

section \<open>The steps\<close>

text \<open>The library that receives everything: the first online one, a library \<^verbatim>\<open>default\<close>, or a new \<^verbatim>\<open>default\<close>.\<close>

definition migration_library :: "string \<Rightarrow> db \<Rightarrow> VtlError + (int \<times> db)" where
  "migration_library now d =
     (case online_lib_ids d of
        i # _ \<Rightarrow> Inr (i, d)
      | [] \<Rightarrow>
          (case find_library d LEGACY_DEFAULT_LIBRARY_NAME of
             Some l \<Rightarrow> Inr (lib_id l, d)
           | None \<Rightarrow> insert_library LEGACY_DEFAULT_LIBRARY_NAME now d))"

definition migration_shelf :: "int \<Rightarrow> db \<Rightarrow> VtlError + (int \<times> db)" where
  "migration_shelf lib d =
     andThen (if count_where (\<lambda>r. shelf_lib r = lib \<and> shelf_default r = 1) (shelves d) = 0
              then insert_shelf lib DEFAULT_UNUSED_SHELF_NAME 1 d else Inr d) (\<lambda>d1.
     andThen (default_shelf_id d1 lib) (\<lambda>s. Inr (s, d1)))"

text \<open>
  The new column \<^verbatim>\<open>library_id\<close> is \<^verbatim>\<open>NOT NULL DEFAULT 1\<close>: every tape has 1 there, and the statement
  that sets the library where it is NULL finds no row.
\<close>

definition add_tape_columns :: "legacy_tape \<Rightarrow> tape_row" where
  "add_tape_columns t =
     \<lparr>tape_id = lg_id t, tape_lib = 1, tape_shelf = lg_shelf t, tape_barcode = lg_barcode t,
      tape_name = lg_name t, tape_slot = lg_slot t, tape_capacity = lg_capacity t, tape_used = lg_used t,
      tape_created = lg_created t, tape_image = lg_image t\<rparr>"

definition tapes_in_drives :: "legacy_drive list + drive_row list \<Rightarrow> int list" where
  "tapes_in_drives ds =
     (case ds of Inl xs \<Rightarrow> List.map_filter ld_tape xs | Inr xs \<Rightarrow> List.map_filter drive_tape xs)"

definition shelve_the_rest :: "int \<Rightarrow> int list \<Rightarrow> tape_row list \<Rightarrow> tape_row list" where
  "shelve_the_rest shelf loaded =
     update_where (\<lambda>r. tape_shelf r = None \<and> tape_slot r = None \<and> tape_id r \<notin> set loaded)
       (\<lambda>r. r\<lparr>tape_shelf := Some shelf\<rparr>)"

definition copy_config :: "int \<Rightarrow> (string \<times> string) list \<Rightarrow> ((int \<times> string) \<times> string) list \<Rightarrow> ((int \<times> string) \<times> string) list" where
  "copy_config lib cfg = fold (\<lambda>(k, v). amap_put (lib, k) v) cfg"

definition migrate_slots :: "int \<Rightarrow> legacy_slot list + slot_row list \<Rightarrow> VtlError + slot_row list" where
  "migrate_slots lib ss =
     (case ss of
        Inr rows \<Rightarrow> Inr rows
      | Inl xs \<Rightarrow>
          if distinct (map ls_no xs)
          then Inr (map (\<lambda>x. \<lparr>slot_lib = lib, slot_no = ls_no x, slot_tape = ls_tape x,
                              slot_ie = (if ls_ie x \<noteq> 0 then 1 else 0)\<rparr>) xs)
          else Inl (constraint_failed xs))"

definition migrate_drives :: "int \<Rightarrow> legacy_drive list + drive_row list \<Rightarrow> VtlError + drive_row list" where
  "migrate_drives lib ds =
     (case ds of
        Inr rows \<Rightarrow> Inr rows
      | Inl xs \<Rightarrow>
          if distinct (map ld_no xs)
          then Inr (map (\<lambda>x. \<lparr>drive_lib = lib, drive_no = ld_no x, drive_tape = ld_tape x\<rparr>) xs)
          else Inl (constraint_failed xs))"

definition migrate_legacy_to_v2 :: "string \<Rightarrow> legacy_db \<Rightarrow> VtlError + db" where
  "migrate_legacy_to_v2 now g =
     andThen (migration_library now (core_tables g)) (\<lambda>(lib, d1).
     andThen (migration_shelf lib d1) (\<lambda>(shelf, d2).
       let ts = shelve_the_rest shelf (tapes_in_drives (lg_drives g)) (map add_tape_columns (lg_tapes g))
       in andThen (migrate_slots lib (lg_slots g)) (\<lambda>ss.
          andThen (migrate_drives lib (lg_drives g)) (\<lambda>ds.
          andThen (require (distinct (map (\<lambda>r. (tape_lib r, tape_name r)) ts)) (constraint_failed ts)) (\<lambda>_.
          andThen (require (distinct (map (\<lambda>r. (tape_lib r, tape_barcode r)) ts)) (constraint_failed ts)) (\<lambda>_.
            Inr (d2\<lparr>tapes := ts, slots := ss, drives := ds,
                    lib_config := copy_config lib (lg_config g) (lib_config d2), seq_tape := lg_seq_tape g\<rparr>)))))))"

section \<open>A plain database of the first schema\<close>

text \<open>
  What the first schema and its program kept: no tables of libraries, ids and names once, and a
  tape either in the slot it claims, in a drive, or outside.
\<close>

definition plain_legacy :: "legacy_db \<Rightarrow> bool" where
  "plain_legacy g \<longleftrightarrow>
     lg_libs g = [] \<and> lg_shelves g = [] \<and> lg_seq_lib g = 0 \<and> lg_seq_shelf g = 0 \<and>
     distinct (map lg_id (lg_tapes g)) \<and> distinct (map lg_name (lg_tapes g)) \<and>
     distinct (map lg_barcode (lg_tapes g)) \<and>
     (\<forall>t \<in> set (lg_tapes g). lg_id t \<le> lg_seq_tape g \<and> lg_shelf t = None) \<and>
     (case lg_slots g of
        Inr _ \<Rightarrow> False
      | Inl ss \<Rightarrow> distinct (map ls_no ss) \<and>
          (\<forall>s \<in> set ss. \<forall>i. ls_tape s = Some i \<longrightarrow> (\<exists>t \<in> set (lg_tapes g). lg_id t = i \<and> lg_slot t = Some (ls_no s))) \<and>
          (\<forall>t \<in> set (lg_tapes g). \<forall>n. lg_slot t = Some n \<longrightarrow> (\<exists>s \<in> set ss. ls_no s = n \<and> ls_tape s = Some (lg_id t)))) \<and>
     (case lg_drives g of
        Inr _ \<Rightarrow> False
      | Inl ds \<Rightarrow> distinct (map ld_no ds) \<and>
          (\<forall>k \<in> set ds. \<forall>i. ld_tape k = Some i \<longrightarrow> (\<exists>t \<in> set (lg_tapes g). lg_id t = i \<and> lg_slot t = None)) \<and>
          (\<forall>k \<in> set ds. \<forall>k' \<in> set ds. \<forall>i. ld_tape k = Some i \<longrightarrow> ld_tape k' = Some i \<longrightarrow> k = k'))"

text \<open>What the migration makes of such a database.\<close>

definition migrated :: "string \<Rightarrow> legacy_db \<Rightarrow> legacy_slot list \<Rightarrow> legacy_drive list \<Rightarrow> db" where
  "migrated now g ss ds = create_fresh_v2_schema
    \<lparr>libs := [\<lparr>lib_id = 1, lib_name = LEGACY_DEFAULT_LIBRARY_NAME, lib_created = now\<rparr>], seq_lib := 1,
     shelves := [\<lparr>shelf_id = 1, shelf_lib = 1, shelf_name = DEFAULT_UNUSED_SHELF_NAME, shelf_default = 1\<rparr>],
     seq_shelf := 1, config := lg_config g,
     tapes := shelve_the_rest 1 (tapes_in_drives (Inl ds)) (map add_tape_columns (lg_tapes g)),
     slots := map (\<lambda>x. \<lparr>slot_lib = 1, slot_no = ls_no x, slot_tape = ls_tape x,
                        slot_ie = (if ls_ie x \<noteq> 0 then 1 else 0)\<rparr>) ss,
     drives := map (\<lambda>x. \<lparr>drive_lib = 1, drive_no = ld_no x, drive_tape = ld_tape x\<rparr>) ds,
     lib_config := copy_config 1 (lg_config g) (lg_lib_config g), seq_tape := lg_seq_tape g\<rparr>"

lemma set_tapes_in_drives: "set (tapes_in_drives (Inl ds)) = {i. \<exists>k \<in> set ds. ld_tape k = Some i}"
  by (auto simp: tapes_in_drives_def map_filter_def image_iff) force

lemma migrated_tapes:
  "tapes (migrated now g ss ds) =
    map (\<lambda>t. let r = add_tape_columns t in if lg_shelf t = None \<and> lg_slot t = None \<and> lg_id t \<notin> set (tapes_in_drives (Inl ds))
       then r\<lparr>tape_shelf := Some 1\<rparr> else r) (lg_tapes g)"
  by (simp add: migrated_def shelve_the_rest_def update_where_def add_tape_columns_def Let_def)

lemma migration_runs:
  assumes "plain_legacy g" "lg_slots g = Inl ss" "lg_drives g = Inl ds"
  shows "migrate_legacy_to_v2 now g = Inr (migrated now g ss ds)"
proof -
  note p = assms(1) [unfolded plain_legacy_def assms(2,3) sum.case]
  have keys: "map (\<lambda>r. (tape_lib r, tape_name r)) (shelve_the_rest s L (map add_tape_columns ts)) =
      map (\<lambda>t. (1, lg_name t)) ts"
    "map (\<lambda>r. (tape_lib r, tape_barcode r)) (shelve_the_rest s L (map add_tape_columns ts)) =
      map (\<lambda>t. (1, lg_barcode t)) ts" for s L ts
    by (simp_all add: shelve_the_rest_def map_update_where add_tape_columns_def)
  have d: "distinct (map (\<lambda>t. (1 :: int, lg_name t)) (lg_tapes g))" "distinct (map (\<lambda>t. (1 :: int, lg_barcode t)) (lg_tapes g))"
    using p by (simp_all add: distinct_map inj_on_def)
  have core: "core_tables g = create_fresh_v2_schema\<lparr>lib_config := lg_lib_config g, config := lg_config g\<rparr>"
    using p by (simp add: core_tables_def create_fresh_v2_schema_def)
  have lib: "migration_library now (core_tables g) = Inr (1, (core_tables g)
      \<lparr>libs := [\<lparr>lib_id = 1, lib_name = LEGACY_DEFAULT_LIBRARY_NAME, lib_created = now\<rparr>], seq_lib := 1\<rparr>)"
    by (simp add: core migration_library_def online_lib_ids_def online_libs_def find_library_def insert_library_def
        create_fresh_v2_schema_def)
  have shelf: "migration_shelf 1 ((core_tables g)
      \<lparr>libs := [\<lparr>lib_id = 1, lib_name = LEGACY_DEFAULT_LIBRARY_NAME, lib_created = now\<rparr>], seq_lib := 1\<rparr>) =
    Inr (1, (core_tables g)
      \<lparr>libs := [\<lparr>lib_id = 1, lib_name = LEGACY_DEFAULT_LIBRARY_NAME, lib_created = now\<rparr>], seq_lib := 1,
       shelves := [\<lparr>shelf_id = 1, shelf_lib = 1, shelf_name = DEFAULT_UNUSED_SHELF_NAME, shelf_default = 1\<rparr>],
       seq_shelf := 1\<rparr>)"
    by (simp add: core migration_shelf_def insert_shelf_def default_shelf_id_def count_where_def ok_or_def
        create_fresh_v2_schema_def)
  show ?thesis
    unfolding migrate_legacy_to_v2_def lib andThen.simps prod.case shelf
    using p by (simp add: keys d migrate_slots_def migrate_drives_def assms(2,3) Let_def migrated_def core
        create_fresh_v2_schema_def)
qed

lemma migrated_ok:
  assumes "plain_legacy g" "lg_slots g = Inl ss" "lg_drives g = Inl ds"
  shows "catalog_ok (migrated now g ss ds)" "\<forall>r \<in> set (tapes (migrated now g ss ds)). located (migrated now g ss ds) (tape_id r)"
proof -
  note p = assms(1) [unfolded plain_legacy_def assms(2,3) sum.case]
  let ?d = "migrated now g ss ds"
  have fields: "libs ?d = [\<lparr>lib_id = 1, lib_name = LEGACY_DEFAULT_LIBRARY_NAME, lib_created = now\<rparr>]"
    "shelves ?d = [\<lparr>shelf_id = 1, shelf_lib = 1, shelf_name = DEFAULT_UNUSED_SHELF_NAME, shelf_default = 1\<rparr>]"
    "seq_lib ?d = 1" "seq_shelf ?d = 1" "seq_tape ?d = lg_seq_tape g"
    "slots ?d = map (\<lambda>x. \<lparr>slot_lib = 1, slot_no = ls_no x, slot_tape = ls_tape x,
                        slot_ie = (if ls_ie x \<noteq> 0 then 1 else 0)\<rparr>) ss"
    "drives ?d = map (\<lambda>x. \<lparr>drive_lib = 1, drive_no = ld_no x, drive_tape = ld_tape x\<rparr>) ds"
    by (simp_all add: migrated_def create_fresh_v2_schema_def)
  have keys: "map tape_id (tapes ?d) = map lg_id (lg_tapes g)"
    "map (\<lambda>r. (tape_lib r, tape_name r)) (tapes ?d) = map (\<lambda>t. (1, lg_name t)) (lg_tapes g)"
    "map (\<lambda>r. (tape_lib r, tape_barcode r)) (tapes ?d) = map (\<lambda>t. (1, lg_barcode t)) (lg_tapes g)"
    by (simp_all add: migrated_tapes add_tape_columns_def Let_def)
  have "keys_ok ?d" unfolding keys_ok_def keys fields
  proof (intro conjI)
    show "distinct (map (\<lambda>t. (1 :: int, lg_name t)) (lg_tapes g))" "distinct (map (\<lambda>t. (1 :: int, lg_barcode t)) (lg_tapes g))"
      using p by (simp_all add: distinct_map inj_on_def)
    show "\<forall>r \<in> set (tapes ?d). tape_id r \<le> lg_seq_tape g"
      using p by (auto simp: migrated_tapes Let_def add_tape_columns_def)
  qed (use p in \<open>simp_all add: comp_def distinct_map inj_on_def\<close>)
  moreover have "slots_placed ?d" unfolding slots_placed_def
  proof (intro ballI allI impI)
    fix s t assume "s \<in> set (slots ?d)" and t: "slot_tape s = Some t"
    then obtain x where x: "x \<in> set ss" "slot_lib s = 1" "slot_no s = ls_no x" "ls_tape x = Some t"
      by (auto simp: fields)
    with p obtain q where q: "q \<in> set (lg_tapes g)" "lg_id q = t" "lg_slot q = Some (ls_no x)" by blast
    with p have "lg_shelf q = None" by blast
    with q x show "\<exists>r \<in> set (tapes ?d). tape_id r = t \<and> tape_lib r = slot_lib s \<and>
        tape_slot r = Some (slot_no s) \<and> tape_shelf r = None"
      unfolding migrated_tapes set_map bex_simps
      by (intro bexI [of _ q]) (simp_all add: add_tape_columns_def Let_def)
  qed
  moreover have "drives_placed ?d" unfolding drives_placed_def
  proof (intro ballI allI impI)
    fix s t assume "s \<in> set (drives ?d)" and t: "drive_tape s = Some t"
    then obtain x where x: "x \<in> set ds" "drive_lib s = 1" "ld_tape x = Some t" by (auto simp: fields)
    with p obtain q where q: "q \<in> set (lg_tapes g)" "lg_id q = t" "lg_slot q = None" by blast
    with p have "lg_shelf q = None" by blast
    moreover have "lg_id q \<in> set (tapes_in_drives (Inl ds))" using x q(2) by (auto simp: set_tapes_in_drives)
    ultimately show "\<exists>r \<in> set (tapes ?d). tape_id r = t \<and> tape_lib r = drive_lib s \<and>
        tape_slot r = None \<and> tape_shelf r = None"
      using q x unfolding migrated_tapes set_map bex_simps
      by (intro bexI [of _ q]) (simp_all add: add_tape_columns_def Let_def)
  qed
  moreover have "drives_exclusive ?d" unfolding drives_exclusive_def fields using p by auto
  moreover have "shelf_xor_slot ?d" unfolding shelf_xor_slot_def
    using p by (auto simp: migrated_tapes Let_def add_tape_columns_def)
  ultimately show "catalog_ok ?d" by (simp add: catalog_ok_def)
  show "\<forall>r \<in> set (tapes ?d). located ?d (tape_id r)"
  proof
    fix r assume "r \<in> set (tapes ?d)"
    then obtain q where q: "q \<in> set (lg_tapes g)" and r: "r = (let r = add_tape_columns q in
        if lg_shelf q = None \<and> lg_slot q = None \<and> lg_id q \<notin> set (tapes_in_drives (Inl ds))
        then r\<lparr>tape_shelf := Some 1\<rparr> else r)" by (auto simp: migrated_tapes)
    have i: "tape_id r = lg_id q" by (simp add: r add_tape_columns_def Let_def)
    show "located ?d (tape_id r)"
    proof (cases "lg_slot q")
      case (Some n)
      with q p obtain x where "x \<in> set ss" "ls_tape x = Some (lg_id q)" by blast
      then have "in_slot ?d (tape_id r)" by (auto simp: in_slot_def fields i)
      then show ?thesis by (simp add: located_def)
    next
      case None
      show ?thesis
      proof (cases "lg_id q \<in> set (tapes_in_drives (Inl ds))")
        case True
        then have "in_drive ?d (tape_id r)" by (auto simp: in_drive_def fields i set_tapes_in_drives)
        then show ?thesis by (simp add: located_def)
      next
        case False
        with None q p have "tape_shelf r = Some 1" by (simp add: r add_tape_columns_def Let_def)
        then have "on_shelf ?d (tape_id r)" using \<open>r \<in> set (tapes ?d)\<close> by (auto simp: on_shelf_def)
        then show ?thesis by (simp add: located_def)
      qed
    qed
  qed
qed

text \<open>
  Whichever library receives the slots and the drives, the tapes go to the library with the number 1,
  because the added column has that default.
\<close>

lemma migration_library_of_tapes:
  assumes "migrate_legacy_to_v2 now g = Inr d" "lg_slots g = Inl ss"
    and "migration_library now (core_tables g) = Inr (lib, d1)"
  shows "(\<forall>r \<in> set (tapes d). tape_lib r = 1) \<and> (\<forall>s \<in> set (slots d). slot_lib s = lib)"
  using assms
  by (auto simp: migrate_legacy_to_v2_def Let_def shelve_the_rest_def update_where_def add_tape_columns_def
      migrate_slots_def split: if_splits)

end
