(* ===== verification/SettingsKept.thy ===== *)
theory SettingsKept
  imports LibraryKeeps Setup
begin

text \<open>
  The bridge to the kernel reads the configuration and never writes it: the programs that a change of
  the geometry runs leave the settings, the configuration file and the environment as they are. So the
  wizard's settings are in force whether or not it is asked to align the kernel at once.
\<close>

section \<open>Programs that leave the settings alone\<close>

definition settled :: "VtlConfig \<Rightarrow> string list option \<Rightarrow> env \<Rightarrow> world \<Rightarrow> bool" where
  "settled c f e w \<longleftrightarrow> w_cfg w = c \<and> w_conf_file w = f \<and> w_env w = e"

lemma settled_updates [simp]:
  "settled c f e (w\<lparr>w_db := d\<rparr>) = settled c f e w" "settled c f e (w\<lparr>w_fs := fs\<rparr>) = settled c f e w"
  "settled c f e (w\<lparr>w_kernel := k\<rparr>) = settled c f e w" "settled c f e (w\<lparr>w_tables := b\<rparr>) = settled c f e w"
  by (simp_all add: settled_def)

lemma settled_db:
  "keeps (settled c f e) (db_read r)" "keeps (settled c f e) (db_write x)" "keeps (settled c f e) (db_tx x)"
  by (auto simp: keeps_def db_read_def from_result_def db_write_def db_tx_def split: sum.split prod.split)

lemma settled_parts:
  "keeps (settled c f e) (fs_run m)" "keeps (settled c f e) (fs_try g)"
  "keeps (settled c f e) (on_part w_kernel (\<lambda>k w. w\<lparr>w_kernel := k\<rparr>) n)"
  unfolding fs_try_def fs_run_def by (rule keeps_on_part; simp)+

lemma settled_init: "keeps (settled c f e) ensure_offline_library" "keeps (settled c f e) init_db"
proof -
  show offline: "keeps (settled c f e) ensure_offline_library"
    unfolding ensure_offline_library_def by (intro keeps_intros settled_db settled_parts)
  show "keeps (settled c f e) init_db"
    unfolding init_db_def by (intro keeps_intros offline keeps_modify) simp
qed

lemma settled_snapshot: "keeps (settled c f e) (kernel_inventory_snapshot l)"
  unfolding kernel_inventory_snapshot_def library_instance_i32_def ioctl_vtl_def
    prepare_kernel_tape_dir_for_ioctl_def link_kernel_tapes_def sync_module_tape_dir_def
  by (intro keeps_intros settled_parts keeps_modify) simp_all

lemma settled_pull: "keeps (settled c f e) pull_all_online_libraries_from_kernel"
  unfolding pull_all_online_libraries_from_kernel_def pull_library_inventory_from_kernel_def
  by (intro keeps_intros settled_init settled_db settled_snapshot)

interpretation geometry_settings: geometry_invariant "settled c f e" for c f e
proof unfold_locales
  show "keeps (settled c f e) build_vtl_instances_kernel_spec"
    unfolding build_vtl_instances_kernel_spec_def by (intro keeps_intros settled_init settled_db)
qed (simp_all add: settled_pull)

section \<open>The wizard\<close>

lemma wizard_then_reload:
  assumes "try_complete_primary_vtl_setup_from_web out db tape logd script ko delay now s = (Inr g, s')"
  obtains g0 s0 where "try_complete_primary_vtl_setup_from_web out db tape logd script ko delay False s = (Inr g0, s0)"
    "w_cfg (st_world s') = w_cfg (st_world s0)" "w_conf_file (st_world s') = w_conf_file (st_world s0)"
    "w_env (st_world s') = w_env (st_world s0)"
proof (cases now)
  case False
  with assms that show ?thesis by simp
next
  case True
  obtain g0 s0 where run: "try_complete_primary_vtl_setup_from_web out db tape logd script ko delay False s = (Inr g0, s0)"
    and reload: "maybe_reload_kernel_vtl_after_db_change out s0 = (Inr g :: setup_error + _, s')"
    using assms True
    by (auto simp: try_complete_primary_vtl_setup_from_web_def thenp_def bindp_eq_Inr checkp_run)
  have s': "s' = snd (maybe_reload_kernel_vtl_after_db_change out s0 :: (setup_error + _) \<times> _)" by (simp add: reload)
  have "settled (w_cfg (st_world s0)) (w_conf_file (st_world s0)) (w_env (st_world s0)) (st_world s')"
    unfolding s' by (rule keepsD [OF geometry_settings.keeps_maybe_reload]) (simp add: settled_def)
  with that [OF run] show ?thesis by (simp add: settled_def)
qed

end
