(* ===== verification/ServiceProperties.thy ===== *)
theory ServiceProperties
  imports Samples Cli Logs Migration SettingsKept
begin

text \<open>
  The properties of the processes around the catalogue: the command line over the life of an
  installation, the web login, the export records, the patrol, the logs, the first configuration
  and the migration, each with a concrete instance.
\<close>

section \<open>Surroundings for the examples\<close>

text \<open>A codec: every character is marked, and every text is closed by a full stop.\<close>

fun take_text :: "string \<Rightarrow> string \<Rightarrow> (string \<times> string) option" where
  "take_text acc (CHR ''c'' # x # s) = take_text (acc @ [x]) s"
| "take_text acc (CHR ''.'' # s) = Some (acc, s)"
| "take_text acc s = None"

fun take_texts :: "nat \<Rightarrow> string \<Rightarrow> string list option" where
  "take_texts 0 s = None"
| "take_texts (Suc n) s =
     (if s = [] then Some []
      else case take_text [] s of
          None \<Rightarrow> None
        | Some (x, r) \<Rightarrow> map_option (Cons x) (take_texts n r))"

definition put_texts :: "string list \<Rightarrow> string" where
  "put_texts xs = concat (map (\<lambda>x. concat (map (\<lambda>c. [CHR ''c'', c]) x) @ ''.'') xs)"

definition sample_codec :: json_codec where
  "sample_codec =
     \<lparr>enc_strings = (\<lambda>xs. Inr (put_texts xs)),
      dec_strings = (\<lambda>s. case take_texts (Suc (length s)) s of None \<Rightarrow> Inl ''text'' | Some xs \<Rightarrow> Inr xs),
      enc_u32s = (\<lambda>ns. Inr (put_texts (map (\<lambda>n. show_nat (unat n)) ns))),
      dec_u32s = (\<lambda>s. case take_texts (Suc (length s)) s of None \<Rightarrow> Inl ''text''
                        | Some xs \<Rightarrow> Inr (map (\<lambda>x. of_nat (dec_val x)) xs))\<rparr>"

lemma take_text_put: "take_text acc (concat (map (\<lambda>c. [CHR ''c'', c]) x) @ ''.'' @ s) = Some (acc @ x, s)"
  by (induction x arbitrary: acc) auto

lemma take_texts_put: "length xs < n \<Longrightarrow> take_texts n (put_texts xs) = Some xs"
proof (induction xs arbitrary: n)
  case Nil
  then show ?case by (cases n) (simp_all add: put_texts_def)
next
  case (Cons x xs)
  then obtain m where m: "n = Suc m" "length xs < m" by (cases n) auto
  have "put_texts (x # xs) = concat (map (\<lambda>c. [CHR ''c'', c]) x) @ ''.'' @ put_texts xs"
    by (simp add: put_texts_def)
  with m Cons.IH [OF m(2)] take_text_put [of "[]" x "put_texts xs"] show ?case by simp
qed

lemma length_put_texts: "length xs \<le> length (put_texts xs)"
  by (induction xs) (simp_all add: put_texts_def)

lemma sample_texts: "take_texts (Suc (length (put_texts xs))) (put_texts xs) = Some xs"
  using length_put_texts [of xs] by (intro take_texts_put) simp

lemma sample_codec_ok: "codec_ok sample_codec"
proof -
  have "of_nat (dec_val (show_nat (unat n))) = n" for n :: "32 word" by simp
  then show ?thesis
    by (simp add: codec_ok_def sample_codec_def sample_texts comp_def del: take_texts.simps)
qed

definition sample_auth :: auth_env where
  "sample_auth =
     \<lparr>ae_clock = from_secs, ae_uuid = show_nat, ae_u8 = (\<lambda>_. 0), ae_choice = (\<lambda>_. 0),
      ae_hash = (\<lambda>_ p. Inr p), ae_verify = (\<lambda>p h. Inr (p = h)),
      ae_json = (\<lambda>c. Inr (put_texts [username c, password_hash c, if allow_iscsi c then ''y'' else ''n''])),
      ae_unjson = (\<lambda>s. case take_texts (Suc (length s)) s of
                         Some [u, h, a] \<Rightarrow> Inr \<lparr>username = u, password_hash = h, allow_iscsi = (a = ''y'')\<rparr>
                       | _ \<Rightarrow> Inl ''text''),
      ae_io_text = (\<lambda>_. ''io'')\<rparr>"

lemma sample_crates_ok: "crates_ok sample_auth"
  by (auto simp: crates_ok_def sample_auth_def sample_texts simp del: take_texts.simps)

definition sample_web :: WebState where
  "sample_web =
     (new_web_state [''web_admin.json'']
       \<lparr>nodes = [([''web_admin.json''], Reg 0)],
        inodes = [(0, string_content (put_texts [''admin'', ''4rfVBNji9'', ''n'']))], next_ino = 1, fs_fault = (\<lambda>_. None)\<rparr>)"

definition sample_host :: patrol_host where
  "sample_host =
     \<lparr>ph_read = (\<lambda>p. if p = ''/proc/modules'' then Some ''vtl 1 0'' else None),
      ph_exists = (\<lambda>p. p = ''/sys/kernel/config/target''), ph_is_file = (\<lambda>_. False), ph_lsmod = False,
      ph_command = (\<lambda>_. True), ph_lsscsi = Some ''VTL /dev/sg3'', ph_targetcli = Some (True, ''iqn.a''),
      ph_iscsi_entries = None, ph_curl = Some True\<rparr>"

text \<open>A stand-in for the hash function, which keeps what it is given.\<close>

definition sample_sha :: sha_crate where
  "sample_sha = \<lparr>sh_new = [], sh_update = (\<lambda>h b. h @ b), sh_hex = map char_of\<rparr>"

definition sample_cli :: cli_env where
  "sample_cli =
     \<lparr>ce_out = sample_outside, ce_host = sample_host, ce_codec = sample_codec, ce_sha = sample_sha, ce_read = (\<lambda>_. 3),
      ce_auth = sample_auth, ce_serve = (\<lambda>_ _. ret ())\<rparr>"

definition fresh_site :: site where
  "fresh_site = sample_site\<lparr>st_world := sample_world\<lparr>w_db := create_fresh_v2_schema\<rparr>\<rparr>"

section \<open>An installation\<close>

text \<open>C1: over the life of an installation - any sequence of processes with any arguments and
  environments, except imports, the slot mirror and the patrol and web server that run it, and with
  anything outside the database changing in between - the catalogue is consistent.\<close>

theorem installation_stays_consistent:
  assumes "installation ce s"
  shows "catalog_ok (w_db (st_world s))"
  by (rule installation_consistent [OF assms])

theorem installation_stays_consistent_witness:
  "installation sample_cli (snd (run_main sample_cli no_env None (CreateLibrary ''lib'' 1 2) fresh_site)) \<and>
   catalog_ok (w_db (st_world (snd (run_main sample_cli no_env None (CreateLibrary ''lib'' 1 2) fresh_site))))"
proof -
  have "installation sample_cli (snd (run_main sample_cli no_env None (CreateLibrary ''lib'' 1 2) fresh_site))"
    by (intro installation.ran installation.installed) (simp_all add: fresh_site_def careful_def)
  with installation_stays_consistent [OF this] show ?thesis by blast
qed

text \<open>A process ends with status 0 or 1; the patrol and \<^verbatim>\<open>kernel-align\<close> can also end with 2.\<close>

theorem exit_status_ranges:
  "fst (run_main ce e opt cmd s) \<in> (case cmd of Patrol \<Rightarrow> {0, 1, 2} | KernelAlign _ \<Rightarrow> {0, 1, 2} | _ \<Rightarrow> {0, 1})"
  by (rule exit_status)

section \<open>The web login\<close>

text \<open>C21: with a clock that does not go back, a session token names a user exactly if the last thing
  that happened to it was a login of that user with the password, at most a day ago.\<close>

theorem sessions_are_exact:
  assumes "auth_run e w0 h w" "sessions w0 = []" "mono (ae_clock e)"
  shows "fst (session_username e (Some tok) w) = Inr (Some u) \<longleftrightarrow>
    (\<exists>t. standing h tok = Some (u, t) \<and> ae_clock e (aw_ticks w) - t \<le> from_secs SESSION_SECS)"
  by (rule session_exact [OF assms])

lemma sample_read:
  "read_auth sample_auth sample_web =
     (Inr \<lparr>username = ''admin'', password_hash = ''4rfVBNji9'', allow_iscsi = False\<rparr>, sample_web)"
proof -
  have "read_to_string [''web_admin.json''] (aw_fs sample_web) = Inr (put_texts [''admin'', ''4rfVBNji9'', ''n''])"
    by (subst read_plain [of _ _ 0]) (simp_all add: sample_web_def new_web_state_def node_at_def content_of_def)
  moreover have "auth_file sample_web = [''web_admin.json'']" by (simp add: sample_web_def new_web_state_def)
  moreover have "ae_unjson sample_auth (put_texts [''admin'', ''4rfVBNji9'', ''n'']) =
      Inr \<lparr>username = ''admin'', password_hash = ''4rfVBNji9'', allow_iscsi = False\<rparr>"
    using sample_texts [of "[''admin'', ''4rfVBNji9'', ''n'']"]
    by (simp add: sample_auth_def del: take_texts.simps)
  ultimately show ?thesis by (simp add: read_auth_def)
qed

lemma shown: "show_nat 0 = ''0''" "show_nat 1 = ''1''"
  by code_simp+

lemma sample_login:
  "login sample_auth ''admin'' ''4rfVBNji9'' sample_web =
     (Inr ''0'', snd (login sample_auth ''admin'' ''4rfVBNji9'' sample_web))"
proof -
  have "fst (login sample_auth ''admin'' ''4rfVBNji9'' sample_web) = Inr (ae_uuid sample_auth (aw_draws sample_web))"
    using login_succeeds [OF sample_read, of "''4rfVBNji9''"] by (simp add: verified_def sample_auth_def)
  also have "ae_uuid sample_auth (aw_draws sample_web) = ''0''"
    using shown(1) by (simp add: sample_auth_def sample_web_def new_web_state_def)
  finally show ?thesis by (metis prod.collapse)
qed

lemma mono_sample_clock: "mono (ae_clock sample_auth)"
  by (simp add: sample_auth_def mono_def from_secs_def)

theorem sessions_are_exact_witness:
  "\<exists>w t. auth_run sample_auth sample_web [Granted ''0'' ''admin'' t] w \<and>
     fst (session_username sample_auth (Some ''0'') w) = (Inr (Some ''admin'') :: unit + _)"
proof -
  let ?w = "snd (login sample_auth ''admin'' ''4rfVBNji9'' sample_web)"
  let ?t = "ae_clock sample_auth (Suc (aw_ticks sample_web))"
  have run: "auth_run sample_auth sample_web [Granted ''0'' ''admin'' ?t] ?w"
    by (rule auth_run.logged_in [OF auth_run.start sample_login])
  have "sessions sample_web = []" by (simp add: sample_web_def new_web_state_def)
  note exact = sessions_are_exact [OF run this mono_sample_clock]
  have "aw_ticks ?w = Suc (Suc (aw_ticks sample_web))" using sample_login by (rule login_Inr) simp
  then have "ae_clock sample_auth (aw_ticks ?w) - ?t \<le> from_secs SESSION_SECS"
    by (simp add: sample_auth_def from_secs_def SESSION_SECS_def)
  then have "fst (session_username sample_auth (Some ''0'') ?w) = (Inr (Some ''admin'') :: unit + _)"
    unfolding exact by simp
  with run show ?thesis by blast
qed

text \<open>C22: a captcha is answered by the number that the question asks for, in time, and by nothing else;
  a numeric answer, right or wrong, uses it up.\<close>

theorem captcha_accepted_once:
  assumes "new_captcha e w = (Inr (i, q), w1)" "verify_captcha e i s (w1\<lparr>aw_ticks := n\<rparr>) = (Inr b, w2)"
  shows "(b \<longleftrightarrow> (\<exists>v. eval_question q = Some v \<and> parse_i32 (trim s) = Some v) \<and>
            ae_clock e n - ae_clock e (Suc (aw_ticks w)) \<le> from_secs CAPTCHA_SECS) \<and>
    (parse_i32 (trim s) = None \<or> fst (verify_captcha e i s' w2) = (Inr False :: unit + bool))"
proof -
  from assms(1) obtain v where v: "eval_question q = Some v"
    and m: "map_of (captcha w1) i = Some (v, ae_clock e (Suc (aw_ticks w)))" by (rule new_captcha_run)
  have "b \<longleftrightarrow> parse_i32 (trim s) = Some v \<and> ae_clock e n - ae_clock e (Suc (aw_ticks w)) \<le> from_secs CAPTCHA_SECS"
    using arg_cong [OF assms(2), of fst] m by (simp add: verify_captcha_run)
  moreover have "fst (verify_captcha e i s' w2) = Inr False" if "parse_i32 (trim s) = Some k" for k
  proof -
    have "map_of (captcha w2) i = None"
      unfolding arg_cong [OF assms(2), of snd, simplified snd_conv, symmetric]
      by (rule verify_captcha_takes [OF that])
    then show ?thesis by (simp add: verify_captcha_run)
  qed
  ultimately show ?thesis using v by auto
qed

lemma sample_captcha:
  "\<exists>w1. new_captcha sample_auth sample_web = (Inr (''0'', ''1 + 1 = ?'') :: unit + _, w1) \<and>
     captcha w1 = [(''0'', (2, from_secs 1))]"
proof -
  have "ae_u8 sample_auth = (\<lambda>_. 0)" "ae_choice sample_auth = (\<lambda>_. 0)" "ae_uuid sample_auth 0 = ''0''"
    "ae_clock sample_auth = from_secs" "captcha sample_web = []" "aw_ticks sample_web = 0" "aw_draws sample_web = 0"
    "captcha_digit 0 = 1"
    using shown(1) by (simp_all add: sample_auth_def sample_web_def new_web_state_def captcha_digit_def)
  then show ?thesis using shown(2)
    by (simp add: new_captcha_def instant_now_def draw_def bindp_def thenp_def Let_def
        amap_retain_def amap_put_def captcha_answer_def)
qed

theorem captcha_accepted_once_witness:
  "\<exists>w1 w2. new_captcha sample_auth sample_web = (Inr (''0'', ''1 + 1 = ?'') :: unit + _, w1) \<and>
     verify_captcha sample_auth ''0'' ''2'' (w1\<lparr>aw_ticks := 5\<rparr>) = (Inr True :: unit + _, w2) \<and>
     fst (verify_captcha sample_auth ''0'' ''2'' w2) = (Inr False :: unit + bool)"
proof -
  from sample_captcha obtain w1 where w1: "new_captcha sample_auth sample_web = (Inr (''0'', ''1 + 1 = ?'') :: unit + _, w1)"
    and c: "captcha w1 = [(''0'', (2, from_secs 1))]" by blast
  have two: "parse_i32 (trim ''2'') = Some 2" by code_simp
  have "fst (verify_captcha sample_auth ''0'' ''2'' (w1\<lparr>aw_ticks := 5\<rparr>)) = (Inr True :: unit + bool)"
    by (simp add: verify_captcha_run c two sample_auth_def from_secs_def CAPTCHA_SECS_def)
  then obtain w2 where w2: "verify_captcha sample_auth ''0'' ''2'' (w1\<lparr>aw_ticks := 5\<rparr>) = (Inr True :: unit + bool, w2)"
    by (metis prod.collapse)
  from captcha_accepted_once [OF w1 w2, of "''2''"] two w1 w2 show ?thesis by auto
qed

text \<open>C37: changing the password needs the old one and eight characters; afterwards the same user logs in
  with the new one, and the sessions are as before.\<close>

theorem changed_password_logs_in:
  assumes "change_password e old new w = (Inr (), w')" "crates_ok e" "file_ready w"
  shows "\<exists>c tok. fst (read_auth e w) = Inr c \<and> verified e old (password_hash c) \<and> 8 \<le> length new \<and>
    fst (login e (username c) new w') = Inr tok \<and> sessions w' = sessions w"
proof -
  from assms obtain c h where c: "read_auth e w = (Inr c, w)" "verified e old (password_hash c)" "8 \<le> length new"
    and c': "read_auth e w' = (Inr (c\<lparr>password_hash := h\<rparr>), w')" and h: "verified e new h"
    and s: "sessions w' = sessions w" by (rule change_password_effect)
  have "fst (login e (username c) new w') = Inr (ae_uuid e (aw_draws w'))"
    using login_succeeds [OF c'] h by simp
  with c s show ?thesis by auto
qed

lemma sample_change:
  "\<exists>w'. change_password sample_auth ''4rfVBNji9'' ''new password'' sample_web = (Inr (), w')"
proof -
  have w: "auth_file sample_web = [''web_admin.json'']" "aw_fs sample_web =
      \<lparr>nodes = [([''web_admin.json''], Reg 0)],
        inodes = [(0, string_content (put_texts [''admin'', ''4rfVBNji9'', ''n'']))], next_ino = 1, fs_fault = (\<lambda>_. None)\<rparr>"
    by (simp_all add: sample_web_def new_web_state_def)
  have t: "with_extension [''web_admin.json''] ''tmp.json'' = [''web_admin.tmp.json'']" by code_simp
  have "\<exists>w'. write_auth sample_auth c (sample_web\<lparr>aw_draws := n\<rparr>) = (Inr (), w')" for c n
    by (simp add: write_auth_def bindp_def thenp_def Let_def w t sample_auth_def auth_fs_def write_file_def
      create_file_def resolve_no_symlink is_symlink_def node_at_def is_dir_def target_def with_fault_def rename_def
      inode_of_def put_node_def put_content_def drop_node_def amap_put_def ok_or_def)
  moreover have "verified sample_auth ''4rfVBNji9'' ''4rfVBNji9''" "ae_hash sample_auth n p = Inr p" for n p
    by (simp_all add: verified_def sample_auth_def)
  ultimately show ?thesis
    by (simp add: change_password_def sample_read bindp_def thenp_def checkp_run draw_run)
qed

theorem changed_password_logs_in_witness:
  "\<exists>w' tok. change_password sample_auth ''4rfVBNji9'' ''new password'' sample_web = (Inr (), w') \<and>
     fst (login sample_auth ''admin'' ''new password'' w') = Inr tok"
proof -
  from sample_change obtain w' where w': "change_password sample_auth ''4rfVBNji9'' ''new password'' sample_web = (Inr (), w')" ..
  have "file_ready sample_web"
    by (simp add: file_ready_def sample_web_def new_web_state_def is_symlink_def node_at_def with_extension_def file_stem_def)
  from changed_password_logs_in [OF w' sample_crates_ok this] w' show ?thesis by (auto simp: sample_read)
qed

section \<open>Export records\<close>

text \<open>C31: a record that was saved for a library is loaded again as it was, and the records of the other
  libraries are not touched.\<close>

theorem export_record_round_trip:
  assumes "codec_ok c" "save_iscsi_library_export c lib r d = Inr d'"
  shows "load_iscsi_library_export c d' k =
    (if k = lib then Inr (Some r) else load_iscsi_library_export c d k)"
  by (rule load_after_save [OF assms])

definition sample_export :: IscsiLibraryExportRecord where
  "sample_export =
     \<lparr>iqn = ''iqn.b'', export_id = ''x1'', changer_sg = ''/dev/sg1'', drive_sg = [''/dev/sg3''], lun_map = [0, 1],
      portal_ip = ''0.0.0.0'', portal_port = 3260, exported_at = []\<rparr>"

definition exported_db :: db where
  "exported_db = (case save_iscsi_library_export sample_codec 1 sample_export sample_db of Inl _ \<Rightarrow> sample_db | Inr d \<Rightarrow> d)"

lemma sample_row:
  "\<exists>x. row_of_record sample_codec 1 sample_export = Inr x \<and> export_lib x = 1 \<and> export_iqn x = ''iqn.b''"
  by (simp add: row_of_record_def sample_codec_def sample_export_def)

lemma sample_save: "save_iscsi_library_export sample_codec 1 sample_export sample_db = Inr exported_db"
  by (simp add: exported_db_def save_iscsi_library_export_def row_of_record_def sample_codec_def sample_defs)

theorem export_record_round_trip_witness:
  "load_iscsi_library_export sample_codec exported_db 1 = Inr (Some sample_export)"
  using export_record_round_trip [OF sample_codec_ok sample_save, of 1] by simp

text \<open>The listing has exactly the records that can be loaded by the names of the libraries, in their
  order.\<close>

theorem export_listing_is_complete:
  assumes "list_iscsi_library_exports c d = Inr rs" "exports_ok d" "keys_ok d"
  shows "sorted (map fst rs) \<and> ((name, r) \<in> set rs \<longleftrightarrow> load_iscsi_library_export_by_name c d name = Inr (Some r))"
  using list_exports_complete [OF assms] by blast

lemma exported_db_row:
  obtains x where "row_of_record sample_codec 1 sample_export = Inr x" "exported_db = sample_db\<lparr>exports := [x]\<rparr>"
    "export_lib x = 1" "export_iqn x = ''iqn.b''"
proof -
  obtain x where x: "row_of_record sample_codec 1 sample_export = Inr x" "export_lib x = 1" "export_iqn x = ''iqn.b''"
    using sample_row by blast
  have "x\<lparr>export_lib := 1\<rparr> = x" using x(2) by simp
  then have "put_export 1 x sample_db = sample_db\<lparr>exports := [x]\<rparr>"
    by (simp add: put_export_def find_export_def sample_defs)
  moreover have "save_iscsi_library_export sample_codec 1 sample_export sample_db = Inr (put_export 1 x sample_db)"
    by (simp add: save_iscsi_library_export_def x(1) sample_defs)
  ultimately show ?thesis using that [OF x(1) _ x(2,3)] sample_save by simp
qed

lemma exported_db_ok: "exports_ok exported_db" "keys_ok exported_db"
proof -
  have "exports_ok sample_db" by (simp add: exports_ok_def sample_defs)
  from exports_ok_save [OF this sample_save] show "exports_ok exported_db" .
  show "keys_ok exported_db" using catalog_ok_save_export [OF sample_save] sample_db_ok by (simp add: catalog_ok_def)
qed

lemma sample_by_name:
  "load_iscsi_library_export_by_name sample_codec exported_db ''lib'' = Inr (Some sample_export)"
proof -
  have "load_iscsi_library_export sample_codec exported_db 1 = Inr (Some sample_export)"
    using load_after_save [OF sample_codec_ok sample_save, of 1] by simp
  moreover have "libs exported_db = libs sample_db"
    by (rule exported_db_row) (drule arg_cong [of exported_db _ libs], simp)
  then have "resolve_library_id exported_db ''lib'' = Inr 1"
    by (simp add: resolve_library_id_def find_library_def sample_defs)
  ultimately show ?thesis by (simp add: load_iscsi_library_export_by_name_def)
qed

lemma sample_listing: "\<exists>rs. list_iscsi_library_exports sample_codec exported_db = Inr rs"
proof -
  obtain x where x: "row_of_record sample_codec 1 sample_export = Inr x" "exported_db = sample_db\<lparr>exports := [x]\<rparr>"
    by (rule exported_db_row)
  have "record_of_row sample_codec x = Inr sample_export" "export_lib x = 1"
    by (rule record_of_row_of_record [OF sample_codec_ok x(1)])+
  then show ?thesis
    by (simp add: x(2) list_iscsi_library_exports_def exported_rows_def sample_defs)
qed

theorem export_listing_is_complete_witness:
  "\<exists>rs. list_iscsi_library_exports sample_codec exported_db = Inr rs \<and> (''lib'', sample_export) \<in> set rs"
proof -
  from sample_listing obtain rs where "list_iscsi_library_exports sample_codec exported_db = Inr rs" ..
  with export_listing_is_complete [OF this exported_db_ok] sample_by_name show ?thesis by blast
qed

section \<open>The patrol\<close>

text \<open>C36: the patrol ends with a report whatever the checks meet; its exit code is that of the worst
  line - warnings count only in strict mode - and without the kernel module it is critical.\<close>

theorem patrol_exit_is_worst_line:
  "\<exists>pr s'. run_patrol_inner h out c s = (Inr pr, s') \<and> run_patrol h out c s = (exit_code pr, s') \<and>
     (exit_code pr = PATROL_EXIT_CRIT \<longleftrightarrow> (\<exists>m. (CritLine, m) \<in> set (pr_lines pr))) \<and>
     (exit_code pr = PATROL_EXIT_WARN \<longleftrightarrow> (\<nexists>m. (CritLine, m) \<in> set (pr_lines pr)) \<and>
        (\<exists>m. (WarnLine, m) \<in> set (pr_lines pr)) \<and> env_flag (w_env (st_world s)) ''VTL_PATROL_STRICT'') \<and>
     (vtl_module_loaded h \<or> exit_code pr = PATROL_EXIT_CRIT)"
proof -
  let ?e = "w_env (st_world s)"
  obtain pr s' where run: "run_patrol_inner h out c s = (Inr pr, s')"
    and ext: "extends (check_kernel_module h (new_runner ?e)) pr" by (rule patrol_reports)
  have "extends (new_runner ?e) pr" by (rule extends_trans [OF extends_check_kernel ext])
  note codes = extends_new_runner [OF this]
  have "(CritLine, ''vtl.ko not loaded'') \<in> set (pr_lines pr)" if "\<not> vtl_module_loaded h"
    using ext that by (auto simp: extends_def check_kernel_module_def pr_crit_def)
  then have "vtl_module_loaded h \<or> exit_code pr = PATROL_EXIT_CRIT" using codes(1) by blast
  with run codes show ?thesis by (auto simp: run_patrol_def)
qed

text \<open>C35: with the switch on, a patrol that can read the LIO tree deletes exactly the export records
  whose IQN the tree does not contain.\<close>

theorem patrol_clears_exactly_stale:
  assumes "list_iscsi_library_exports c d = Inr xs" "exports_ok d" "keys_ok d" "probe_lio_tree_text h = Some tree"
  shows "exports (snd (align_exports h c True pr d)) = filter (\<lambda>x. contains_sub (export_iqn x) tree) (exports d)"
  by (rule clear_stale_exact [OF assms])

theorem patrol_clears_exactly_stale_witness:
  "exports (snd (align_exports sample_host sample_codec True (new_runner no_env) exported_db)) = [] \<and>
   exports exported_db \<noteq> []"
proof -
  obtain xs where xs: "list_iscsi_library_exports sample_codec exported_db = Inr xs" using sample_listing by blast
  have tree: "probe_lio_tree_text sample_host = Some ''iqn.a''"
    by (simp add: probe_lio_tree_text_def sample_host_def)
  obtain x where row: "exported_db = sample_db\<lparr>exports := [x]\<rparr>" and i: "export_iqn x = ''iqn.b''"
    by (rule exported_db_row)
  have rows: "exports exported_db = [x]" using arg_cong [OF row, of exports] by simp
  have "\<not> contains_sub ''iqn.b'' ''iqn.a''" by code_simp
  then show ?thesis
    using i patrol_clears_exactly_stale [OF xs exported_db_ok tree, of "new_runner no_env"] by (simp add: rows)
qed

section \<open>Logs\<close>

text \<open>After a line has been appended the log file is within the limit - at least 4096 bytes - unless
  the line alone is longer.\<close>

theorem log_lines_stay_within_limit:
  assumes "try_append_log_line_in dir name line mx f = (Inr (), f')" "mx < u64_max"
  shows "file_size f' (log_name dir name 0) \<le> max (max mx 4096) (length line + 1)"
  by (rule append_within_limit [OF assms])

definition empty_fs :: fs where
  "empty_fs = \<lparr>nodes = [], inodes = [], next_ino = 0, fs_fault = (\<lambda>_. None)\<rparr>"

definition log_fs :: fs where
  "log_fs = empty_fs\<lparr>nodes := [(log_name [] ''a.log'' 0, Reg 0)], next_ino := 1\<rparr>"

lemma log_name_parts [simp]: "butlast (log_name d n i) = d" "log_name d n i \<noteq> []" "[] \<noteq> log_name d n i"
  by (simp_all add: log_name_def)

lemma no_symlinks: "(\<And>q. Sym q \<notin> snd ` set (nodes f)) \<Longrightarrow> \<not> is_symlink f p"
proof -
  assume a: "\<And>q. Sym q \<notin> snd ` set (nodes f)"
  have "node_at f p \<noteq> Some (Sym q)" for q
    using a [of q] imageI [OF map_of_SomeD [of "nodes f" p "Sym q"], of snd] by (auto simp: node_at_def)
  then show ?thesis by (auto simp: is_symlink_def split: option.splits node.splits)
qed

lemma sample_append: "\<exists>f'. try_append_log_line_in [] ''a.log'' ''hello'' 4096 empty_fs = (Inr (), f')"
  by (simp add: try_append_log_line_in_def thenp_def bindp_def updating_def create_dir_all_def prefixes_of_def
      with_fault_def maybe_rotate_log_file_def Let_def path_exists_def target_def resolve_no_symlink no_symlinks
      empty_fs_def append_file_def inode_of_def create_file_def node_at_def is_dir_def put_node_def put_content_def
      amap_put_def ok_or_def)

theorem log_lines_stay_within_limit_witness:
  "\<exists>f'. try_append_log_line_in [] ''a.log'' ''hello'' 4096 empty_fs = (Inr (), f') \<and>
     file_size f' (log_name [] ''a.log'' 0) \<le> 4096"
proof -
  from sample_append obtain f' where f': "try_append_log_line_in [] ''a.log'' ''hello'' 4096 empty_fs = (Inr (), f')" ..
  have "4096 < u64_max" by (simp add: u64_max_def)
  from log_lines_stay_within_limit [OF f' this] f' show ?thesis by auto
qed

text \<open>A rotation moves the log and each of the four rotated files on by one name, drops the fifth,
  leaves the name of the log free, and changes no content.\<close>

theorem rotation_keeps_last_five:
  assumes "rotate_logs dir name f = (Inr (), f')" "plain_logs dir name f"
    and "fs_fault f (OpRemove (log_name dir name LOG_ROTATE_DEPTH)) = None"
  shows "log_nodes dir name f' 0 = None \<and> content_of f' = content_of f \<and>
    map (log_nodes dir name f') [1..<6] = map (log_nodes dir name f) [0..<5]"
  using rotate_logs_shifts [OF assms]
  by (auto simp: LOG_ROTATE_DEPTH_def upt_rec eval_nat_numeral)

lemma sample_rotation: "\<exists>f'. rotate_logs [] ''a.log'' log_fs = (Inr (), f')"
  by (simp add: rotate_logs_def thenp_def bindp_def Let_def attempt_def updating_def remove_file_def with_fault_def
      log_fs_def empty_fs_def node_at_def forp_def rotate_one_def path_exists_def target_def resolve_no_symlink
      no_symlinks rename_def is_dir_def LOG_ROTATE_DEPTH_def upt_rec is_symlink_def)

theorem rotation_keeps_last_five_witness:
  "\<exists>f'. rotate_logs [] ''a.log'' log_fs = (Inr (), f') \<and> log_nodes [] ''a.log'' f' 1 = Some (Reg 0)"
proof -
  from sample_rotation obtain f' where f': "rotate_logs [] ''a.log'' log_fs = (Inr (), f')" ..
  have "plain_logs [] ''a.log'' log_fs"
    by (simp add: plain_logs_def log_nodes_def log_fs_def node_at_def)
  from rotation_keeps_last_five [OF f' this] have "log_nodes [] ''a.log'' f' 1 = log_nodes [] ''a.log'' log_fs 0"
    by (simp add: log_fs_def empty_fs_def upt_rec)
  then show ?thesis using f' by (simp add: log_nodes_def log_fs_def node_at_def)
qed

section \<open>The first configuration\<close>

text \<open>C39: when the wizard succeeds in a process without any of the program's environment variables, and no
  answer has a line break in it, there was no configuration file, the gate is open from then on, and the
  configuration in force, which is also the one that the written file gives to later processes, is the
  one with the paths, the script, the module and the delay that were given, or their defaults, with the
  personality ibm that the file always sets, and with the default for everything else; whether or not
  the kernel is aligned at once. A line break would add a line of its own to the file.\<close>

theorem wizard_settings_take_effect:
  assumes run: "try_complete_primary_vtl_setup_from_web out db tape logd script ko delay now s = (Inr g, s')"
    and "w_env (st_world s) = no_env" and "NL \<notin> set (db @ tape @ logd @ script @ ko)"
  shows "w_conf_file (st_world s) = None \<and> \<not> setup_gate_active (st_world s') \<and>
    (\<exists>p. w_conf_file (st_world s') = Some (text_lines (format_initial_vtl_conf p)) \<and>
       w_cfg (st_world s') = configured p \<and> get_config_uncached no_env (w_conf_file (st_world s')) = configured p \<and>
       normalize_setup_path db DEFAULT_INIT_DB_PATH = Inr (ip_db_path p) \<and>
       normalize_setup_path tape DEFAULT_INIT_TAPE_DIR = Inr (ip_tape_dir p) \<and>
       normalize_setup_path logd DEFAULT_INIT_LOG_DIR = Inr (ip_log_dir p) \<and>
       optional_abs_path script = Inr (ip_kernel_vtl_reload_script p) \<and>
       optional_abs_path ko = Inr (ip_vtl_ko p) \<and>
       optional_scan_delay_ms delay = Inr (ip_vtl_reload_scan_delay_ms p))"
proof -
  obtain g0 s0 where s0: "try_complete_primary_vtl_setup_from_web out db tape logd script ko delay False s = (Inr g0, s0)"
    "w_cfg (st_world s') = w_cfg (st_world s0)" "w_conf_file (st_world s') = w_conf_file (st_world s0)"
    "w_env (st_world s') = w_env (st_world s0)"
    by (rule wizard_then_reload [OF run])
  show ?thesis
    by (rule wizard_takes_effect [OF s0(1) assms(2,3)])
      (use s0(2-4) setup_reads_back in \<open>auto simp: setup_gate_active_def\<close>)
qed

definition only_dirs :: "fs \<Rightarrow> bool" where
  "only_dirs f \<longleftrightarrow> fs_fault f = (\<lambda>_. None) \<and> (\<forall>p n. node_at f p = Some n \<longrightarrow> n = Dir)"

lemma only_dirs_mkdir: "only_dirs f \<Longrightarrow> \<exists>f'. fold_ok mkdir_step ps f = Inr f' \<and> only_dirs f'"
proof (induction ps arbitrary: f)
  case (Cons p ps)
  have "\<not> is_symlink f p" using Cons.prems by (auto simp: only_dirs_def is_symlink_def split: option.splits node.splits)
  then have t: "target f p = node_at f p" by (simp add: target_def resolve_no_symlink)
  have "\<exists>f1. mkdir_step p f = Inr f1 \<and> only_dirs f1"
  proof (cases "node_at f p")
    case None
    then have "only_dirs (put_node p Dir f)" using Cons.prems
      by (auto simp: only_dirs_def put_node_def node_at_def map_of_amap_put split: if_splits)
    with None t show ?thesis by (simp add: mkdir_step_def)
  next
    case (Some n)
    with Cons.prems have "n = Dir" by (simp add: only_dirs_def)
    with Some t Cons.prems show ?thesis by (simp add: mkdir_step_def)
  qed
  with Cons.IH show ?case by auto
qed simp

lemma only_dirs_create: "only_dirs f \<Longrightarrow> \<exists>f'. create_dir_all p f = Inr f' \<and> only_dirs f'"
  using only_dirs_mkdir by (simp add: create_dir_all_def with_fault_def only_dirs_def)

lemma fs_try_dirs:
  "only_dirs (w_fs w) \<Longrightarrow> \<exists>f'. fs_try (create_dir_all p) w = (Inr (), w\<lparr>w_fs := f'\<rparr>) \<and> only_dirs f'"
  using only_dirs_create [of "w_fs w" p]
  by (auto simp: fs_try_def fs_run_def on_part_def map_err_def updating_def)

definition bare_site :: site where
  "bare_site = fresh_site\<lparr>st_world := (st_world fresh_site)\<lparr>w_fs := empty_fs\<rparr>\<rparr>"

lemma sample_write_conf:
  assumes "only_dirs (w_fs w)" "\<not> w_fault w ''write_conf''"
  shows "\<exists>w'. write_initial_vtl_conf p w = (Inr (), w')"
proof -
  have dirs: "\<exists>f'. fs_try (create_dir_all q) (w\<lparr>w_fs := f\<rparr>) = (Inr (), w\<lparr>w_fs := f'\<rparr>) \<and> only_dirs f'" if "only_dirs f" for q f
    using fs_try_dirs [of "w\<lparr>w_fs := f\<rparr>" q] that by simp
  obtain f1 where 1: "fs_try (create_dir_all (primary_vtl_statedir (w_env w))) w = (Inr (), w\<lparr>w_fs := f1\<rparr>)" "only_dirs f1"
    using fs_try_dirs [OF assms(1)] by blast
  obtain f2 where 2: "fs_try (create_dir_all (butlast (path_of (ip_db_path p)))) (w\<lparr>w_fs := f1\<rparr>) = (Inr (), w\<lparr>w_fs := f2\<rparr>)" "only_dirs f2"
    using dirs [OF 1(2)] by blast
  obtain f3 where 3: "fs_try (create_dir_all (path_of (ip_tape_dir p))) (w\<lparr>w_fs := f2\<rparr>) = (Inr (), w\<lparr>w_fs := f3\<rparr>)" "only_dirs f3"
    using dirs [OF 2(2)] by blast
  obtain f4 where 4: "fs_try (create_dir_all (path_of (ip_log_dir p))) (w\<lparr>w_fs := f3\<rparr>) = (Inr (), w\<lparr>w_fs := f4\<rparr>)" "only_dirs f4"
    using dirs [OF 3(2)] by blast
  show ?thesis using 1(1) 2(1) 3(1) 4(1) assms(2)
    by (simp add: write_initial_vtl_conf_def thenp_def bindp_def checkp_run modify_def)
qed

lemma sample_wizard:
  "\<exists>g s'. try_complete_primary_vtl_setup_from_web sample_outside [] [] [] [] [] [] False bare_site = (Inr g, s')"
proof -
  have env: "w_env (st_world bare_site) = no_env" "w_conf_file (st_world bare_site) = None"
    "only_dirs (w_fs (st_world bare_site))" "\<not> w_fault (st_world bare_site) ''write_conf''"
    by (simp_all add: bare_site_def fresh_site_def sample_site_def sample_world_def empty_fs_def only_dirs_def node_at_def)
  have empty: "normalize_setup_path [] def = Inr def" "optional_abs_path [] = Inr None" "optional_scan_delay_ms [] = Inr None" for def
    by (simp_all add: normalize_setup_path_def optional_abs_path_def optional_scan_delay_ms_def trim_id [THEN iffD2])
  show ?thesis
    using sample_write_conf [OF env(3,4), of "\<lparr>ip_db_path = DEFAULT_INIT_DB_PATH, ip_tape_dir = DEFAULT_INIT_TAPE_DIR,
        ip_log_dir = DEFAULT_INIT_LOG_DIR, ip_kernel_vtl_reload_script = None, ip_vtl_ko = None,
        ip_vtl_reload_scan_delay_ms = None\<rparr>"]
    by (auto simp: try_complete_primary_vtl_setup_from_web_def bindp_def thenp_def checkp_run env empty setup_input_def
        map_err_def on_world_def on_part_def modify_def)
qed

theorem wizard_settings_take_effect_witness:
  "\<exists>g s'. try_complete_primary_vtl_setup_from_web sample_outside [] [] [] [] [] [] False bare_site = (Inr g, s') \<and>
     \<not> setup_gate_active (st_world s')"
proof -
  from sample_wizard obtain g s' where r:
    "try_complete_primary_vtl_setup_from_web sample_outside [] [] [] [] [] [] False bare_site = (Inr g, s')" by blast
  have "w_env (st_world bare_site) = no_env"
    by (simp add: bare_site_def fresh_site_def sample_site_def sample_world_def)
  from wizard_settings_take_effect [OF r this] r show ?thesis by auto
qed

section \<open>The migration of the first schema\<close>

text \<open>C38: a plain database of the first schema is migrated without an error; the result is consistent, has
  the same tapes, and every tape has a place.\<close>

theorem plain_legacy_migrates:
  assumes "plain_legacy g"
  shows "\<exists>d. migrate_legacy_to_v2 now g = Inr d \<and> catalog_ok d \<and>
    map (\<lambda>r. (tape_id r, tape_name r)) (tapes d) = map (\<lambda>t. (lg_id t, lg_name t)) (lg_tapes g) \<and>
    list_all (\<lambda>r. located d (tape_id r)) (tapes d)"
proof -
  obtain ss ds where g: "lg_slots g = Inl ss" "lg_drives g = Inl ds"
    using assms by (cases "lg_slots g"; cases "lg_drives g") (simp_all add: plain_legacy_def)
  have "map (\<lambda>r. (tape_id r, tape_name r)) (tapes (migrated now g ss ds)) = map (\<lambda>t. (lg_id t, lg_name t)) (lg_tapes g)"
    by (simp add: migrated_tapes add_tape_columns_def Let_def)
  with migration_runs [OF assms g] migrated_ok [OF assms g] show ?thesis by (auto simp: list_all_iff)
qed

definition sample_legacy :: legacy_db where
  "sample_legacy =
     \<lparr>lg_libs = [], lg_shelves = [], lg_lib_config = [],
      lg_tapes = [\<lparr>lg_id = 1, lg_shelf = None, lg_barcode = ''B1'', lg_name = ''t1'', lg_slot = Some 0,
                   lg_capacity = 1024, lg_used = 0, lg_created = [], lg_image = []\<rparr>],
      lg_slots = Inl [\<lparr>ls_no = 0, ls_tape = Some 1, ls_ie = 0\<rparr>], lg_drives = Inl [\<lparr>ld_no = 0, ld_tape = None\<rparr>],
      lg_config = [], lg_seq_lib = 0, lg_seq_shelf = 0, lg_seq_tape = 1\<rparr>"

theorem plain_legacy_migrates_witness:
  "\<exists>d. migrate_legacy_to_v2 ''now'' sample_legacy = Inr d \<and> catalog_ok d"
proof -
  have "plain_legacy sample_legacy" by (simp add: plain_legacy_def sample_legacy_def)
  from plain_legacy_migrates [OF this, of "''now''"] show ?thesis by blast
qed

text \<open>When the first online library does not have the number 1, the migration gives it the slots but
  puts the tapes into library 1, so a tape in a slot makes the result inconsistent.\<close>

theorem migration_splits_tapes_from_slots:
  assumes "migrate_legacy_to_v2 now g = Inr d" "lg_slots g = Inl (x # ss)" "ls_tape x \<noteq> None"
    and "migration_library now (core_tables g) = Inr (lib, d1)" "lib \<noteq> 1"
  shows "\<not> catalog_ok d"
proof
  assume ok: "catalog_ok d"
  have far: "\<forall>r \<in> set (tapes d). tape_lib r = 1" "\<forall>s \<in> set (slots d). slot_lib s = lib"
    using migration_library_of_tapes [OF assms(1,2,4)] by blast+
  obtain s where s: "s \<in> set (slots d)" "slot_tape s = ls_tape x"
    using assms(1,2,4) by (force simp: migrate_legacy_to_v2_def Let_def migrate_slots_def split: if_splits)
  from assms(3) obtain i where "ls_tape x = Some i" by blast
  with ok s obtain r where "r \<in> set (tapes d)" "tape_lib r = slot_lib s"
    unfolding catalog_ok_def slots_placed_def by force
  with far s assms(5) show False by auto
qed

definition two_schemas :: legacy_db where
  "two_schemas = sample_legacy
     \<lparr>lg_libs := [\<lparr>lib_id = 2, lib_name = ''lib'', lib_created = []\<rparr>],
      lg_shelves := [\<lparr>shelf_id = 1, shelf_lib = 2, shelf_name = ''unused'', shelf_default = 1\<rparr>],
      lg_seq_lib := 2, lg_seq_shelf := 1\<rparr>"

lemma two_schemas_library: "migration_library [] (core_tables two_schemas) = Inr (2, core_tables two_schemas)"
  by (simp add: migration_library_def online_lib_ids_def online_libs_def core_tables_def two_schemas_def
      OFFLINE_LIBRARY_NAME_def LEGACY_DEFAULT_LIBRARY_NAME_def)

lemma two_schemas_migrate: "\<exists>d. migrate_legacy_to_v2 [] two_schemas = Inr d"
  by (simp add: migrate_legacy_to_v2_def two_schemas_library)
    (simp add: migration_shelf_def default_shelf_id_def count_where_def ok_or_def core_tables_def two_schemas_def
      sample_legacy_def shelve_the_rest_def update_where_def add_tape_columns_def Let_def migrate_slots_def
      migrate_drives_def tapes_in_drives_def)

theorem migration_splits_tapes_from_slots_witness:
  "\<exists>d. migrate_legacy_to_v2 [] two_schemas = Inr d \<and> \<not> catalog_ok d"
proof -
  from two_schemas_migrate obtain d where d: "migrate_legacy_to_v2 [] two_schemas = Inr d" ..
  have s: "lg_slots two_schemas = Inl [\<lparr>ls_no = 0, ls_tape = Some 1, ls_ie = 0\<rparr>]"
    by (simp add: two_schemas_def sample_legacy_def)
  from migration_splits_tapes_from_slots [OF d s _ two_schemas_library] d show ?thesis by simp
qed

section \<open>The copy of a tape\<close>

definition sample_image :: path where
  "sample_image = [''opt'', ''vtladm'', ''var'', ''tapes'', ''lib'', ''t1.vtltape'']"

definition sample_copy :: path where
  "sample_copy = [''opt'', ''copy.vtltape'']"

text \<open>C34: \<^verbatim>\<open>export --checksum\<close> to a new file of an existing directory ends and succeeds where the
  file system does not fail, however few bytes each read gives; the new file is then the image byte for
  byte, the image is as it was, and the sidecar holds the digest of the whole content.\<close>

theorem exported_copy_has_its_digest:
  assumes "hasher_ok sh" "inodes_given (w_fs w)" "\<forall>x. fs_fault (w_fs w) x = None"
    and "inode_of (w_fs w) img = Some i" "out \<noteq> []" "node_at (w_fs w) (butlast out) = Some Dir"
    and "node_at (w_fs w) out = None" "node_at (w_fs w) (sidecar_of out) = None"
  defines "c \<equiv> content_of (w_fs w) i"
  shows "\<exists>w' h. export_to sh given img out True w = (Inr (), w') \<and> file_content (w_fs w') out = Some c \<and>
    content_of (w_fs w') i = c \<and> hash_loop sh given c 0 (sh_new sh) = Some h \<and>
    h = sh_update sh (sh_new sh) (content_bytes c 0 (clen c)) \<and>
    file_content (w_fs w') (sidecar_of out) = Some (string_content (sidecar_text sh out h))"
proof -
  obtain f1 where f1: "copy_file img out (w_fs w) = Inr f1" "fs_fault f1 = fs_fault (w_fs w)"
    using copy_file_new [OF assms(3,5,7,6,4)] by blast
  have plain: "\<not> is_symlink (w_fs w) out" by (simp add: is_symlink_def assms(7))
  have other: "node_at (w_fs w) out \<noteq> Some (Reg i)" by (simp add: assms(7))
  obtain j where j: "j \<noteq> i" "node_at f1 out = Some (Reg j)" "content_of f1 j = c" "content_of f1 i = c"
      "\<forall>q. q \<noteq> out \<longrightarrow> node_at f1 q = node_at (w_fs w) q" "inodes_given f1" "i < next_ino f1" "j < next_ino f1"
    using copy_file_plain [OF f1(1) plain assms(4) other assms(2)] unfolding c_def by blast
  define h where "h = sh_update sh (sh_new sh) (content_bytes c 0 (clen c))"
  have loop: "hash_loop sh given c 0 (sh_new sh) = Some h"
    using hash_loop_ends [OF assms(1), of 0 c given] by (simp add: h_def)
  have new: "node_at f1 (sidecar_of out) = None" using j(5) sidecar_other [of out] assms(8) by simp
  obtain f2 where f2: "write_file (sidecar_of out) (sidecar_text sh out h) f1 = Inr f2"
    using write_file_succeeds [of f1 "sidecar_of out" "sidecar_text sh out h"] f1(2) assms(3,6) sidecar_parent [OF assms(5)] new j(5)
      butlast_other [OF assms(5)] by auto
  note f2' = write_file_new [OF f2 new j(6)]
  have "file_content f1 out = Some c" using inode_of_plain [OF j(2)] j(3) by (simp add: file_content_def)
  then have "export_to sh given img out True w = (Inr (), w\<lparr>w_fs := f2\<rparr>)"
    using f1(1) f2 loop
    by (simp add: export_to_def write_checksum_def thenp_def bindp_eq_Inr fs_try_Inr fs_result_Inr ok_or_def)
  moreover have "node_at f2 out = Some (Reg j)" "content_of f2 j = c" "content_of f2 i = c"
    using f2' j sidecar_other [of out] by auto
  moreover have "node_at f2 (sidecar_of out) = Some (Reg (next_ino f1))" using f2' by blast
  ultimately show ?thesis
    using loop f2' inode_of_plain [of f2 out] inode_of_plain [of f2 "sidecar_of out"]
    by (intro exI [of _ "w\<lparr>w_fs := f2\<rparr>"] exI [of _ h]) (simp add: file_content_def h_def)
qed

theorem exported_copy_has_its_digest_witness:
  "\<exists>w'. export_to sample_sha (\<lambda>_. 3) sample_image sample_copy True sample_world = (Inr (), w') \<and>
     file_content (w_fs w') sample_copy = Some (content_of (w_fs sample_world) 1)"
proof -
  have h: "hasher_ok sample_sha" by (simp add: hasher_ok_def sample_sha_def)
  have g: "inodes_given (w_fs sample_world)"
    by (auto simp: inodes_given_def sample_world_def sample_fs_def node_at_def split: if_splits)
  have f: "\<forall>x. fs_fault (w_fs sample_world) x = None" by (simp add: sample_world_def sample_fs_def)
  have "node_at (w_fs sample_world) sample_image = Some (Reg 1)"
    by (simp add: node_at_def sample_world_def sample_fs_def sample_image_def)
  then have i: "inode_of (w_fs sample_world) sample_image = Some 1" by (rule inode_of_plain)
  have p: "sample_copy \<noteq> []"
      "node_at (w_fs sample_world) (butlast sample_copy) = Some Dir" "node_at (w_fs sample_world) sample_copy = None"
      "node_at (w_fs sample_world) (sidecar_of sample_copy) = None"
    by (simp_all add: node_at_def sample_world_def sample_fs_def sample_copy_def sidecar_of_def)
  from exported_copy_has_its_digest [OF h g f i p, of "\<lambda>_. 3"] show ?thesis by blast
qed

end
