(* ===== verification/IscsiTool.thy ===== *)
theory IscsiTool
  imports Setup
begin

text \<open>
  The program \<^verbatim>\<open>vtladm-iscsi\<close> (\<^verbatim>\<open>bin/vtladm_iscsi.rs\<close>), which writes scripts for \<^verbatim>\<open>targetcli\<close> and runs
  it: one LUN for a file, or a library through the SCSI pass-through of its device nodes.

  \<^verbatim>\<open>targetcli\<close> itself is a parameter: a function from a script and the state \<open>'t\<close> of the target
  subsystem to how the process ended and the new state. What the host answers about files,
  and what a user types into the shell, is the record \<open>tool_host\<close>.
\<close>

section \<open>The command line\<close>

datatype IscsiShellPathStyle = Tpg1 | Merged

datatype IscsiCommands =
    Check
  | Ls
  | Save
  | Batch string
  | Shell
  | QuickExport string string string string "16 word"
  | QuickUnexport string string
  | LibraryExport string string string "string list" "string option" string "16 word"
  | LibraryUnexport string string "32 word option" "string option"

record IscsiCli =
  ic_sudo :: bool
  ic_dry_run :: bool
  ic_shell_path :: "string option"
  ic_command :: IscsiCommands

datatype file_kind = CharDevice | RegularFile nat | OtherFile

record tool_host =
  th_shell_path :: "string option"
  th_configfs :: bool
  th_which :: bool
  th_read :: "string \<Rightarrow> string + string"
  th_stat :: "string \<Rightarrow> string + file_kind"
  th_canonical :: "string \<Rightarrow> string option"
  th_typed :: string

text \<open>How a process ended: its exit code, if it was not killed, and what it wrote.\<close>

record process_output =
  po_code :: "int option"
  po_out :: string
  po_err :: string

type_synonym 't targetcli = "bool \<Rightarrow> string \<Rightarrow> 't \<Rightarrow> (string + process_output) \<times> 't"

text \<open>The state of a run: the target subsystem and what the program has written.\<close>

record 't tool_state =
  ts_target :: 't
  ts_out :: string
  ts_err :: string

type_synonym ('t, 'a) tool = "('t tool_state, string, 'a) prog"

definition po_success :: "process_output \<Rightarrow> bool" where
  "po_success o' = (po_code o' = Some 0)"

definition show_code :: "int option \<Rightarrow> string" where
  "show_code c = (case c of None \<Rightarrow> ''None'' | Some n \<Rightarrow> ''Some('' @ show_int n @ '')'')"

definition print_out :: "string \<Rightarrow> ('t, unit) tool" where
  "print_out s = modify (\<lambda>t. t\<lparr>ts_out := ts_out t @ s\<rparr>)"

definition print_err :: "string \<Rightarrow> ('t, unit) tool" where
  "print_err s = modify (\<lambda>t. t\<lparr>ts_err := ts_err t @ s\<rparr>)"

section \<open>Running targetcli\<close>

definition call_targetcli :: "'t targetcli \<Rightarrow> bool \<Rightarrow> string \<Rightarrow> ('t, process_output) tool" where
  "call_targetcli tc sudo script t =
     (case tc sudo script (ts_target t) of (r, x) \<Rightarrow> (r, t\<lparr>ts_target := x\<rparr>))"

definition dry_run_text :: "string \<Rightarrow> string \<Rightarrow> string" where
  "dry_run_text script label = ln (''--- targetcli script ('' @ label @ '') ---'') @ ln script"

definition run_targetcli_batch_captured ::
    "'t targetcli \<Rightarrow> IscsiCli \<Rightarrow> string \<Rightarrow> string \<Rightarrow> (string \<Rightarrow> bool) option \<Rightarrow> ('t, unit) tool" where
  "run_targetcli_batch_captured tc cli script label fatal =
     (if ic_dry_run cli then print_out (dry_run_text script label)
      else
        bindp (call_targetcli tc (ic_sudo cli) script) (\<lambda>p.
        thenp (checkp (po_success p)
                 (''targetcli ('' @ label @ '') exited '' @ show_code (po_code p) @ '' stderr:'' @ [NL] @ po_err p))
          (case fatal of
             None \<Rightarrow> ret ()
           | Some f \<Rightarrow>
               checkp (\<not> f (po_err p))
                 (''targetcli ('' @ label @ '') exited 0 but stderr indicates failure:'' @ [NL] @ po_err p))))"

definition run_targetcli_batch :: "'t targetcli \<Rightarrow> IscsiCli \<Rightarrow> string \<Rightarrow> string \<Rightarrow> ('t, unit) tool" where
  "run_targetcli_batch tc cli script label =
     (if ic_dry_run cli then print_out (dry_run_text script label)
      else
        bindp (call_targetcli tc (ic_sudo cli) script) (\<lambda>p.
        thenp (thenp (print_out (po_out p)) (print_err (po_err p)))
          (checkp (po_success p) (''targetcli ('' @ label @ '') exited '' @ show_code (po_code p)))))"

definition run_targetcli_shell :: "'t targetcli \<Rightarrow> IscsiCli \<Rightarrow> string \<Rightarrow> ('t, unit) tool" where
  "run_targetcli_shell tc cli typed =
     (if ic_dry_run cli then fail ''--dry-run is not compatible with shell''
      else
        bindp (call_targetcli tc (ic_sudo cli) typed) (\<lambda>p.
        thenp (thenp (print_out (po_out p)) (print_err (po_err p)))
          (checkp (po_success p) (''targetcli shell exited '' @ show_code (po_code p)))))"

definition resolve_iscsi_shell_path_style :: "tool_host \<Rightarrow> IscsiCli \<Rightarrow> string + IscsiShellPathStyle" where
  "resolve_iscsi_shell_path_style h cli =
     (let owned = (case ic_shell_path cli of Some s \<Rightarrow> Some s | None \<Rightarrow> th_shell_path h);
          raw = (case owned of None \<Rightarrow> [] | Some s \<Rightarrow> trim s)
      in if raw \<in> {[], ''tpg1'', ''fb''} then Inr Tpg1
         else if raw \<in> {''merged'', ''datera''} then Inr Merged
         else Inl (''invalid --iscsi-shell-path / VTL_ISCSI_SHELL_PATH='' @ raw))"

definition iscsi_export_tpg_base :: "IscsiShellPathStyle \<Rightarrow> string \<Rightarrow> string" where
  "iscsi_export_tpg_base style iqn = ''/iscsi/'' @ iqn @ (if style = Tpg1 then ''/tpg1'' else [])"

definition is_exit_line :: "string \<Rightarrow> bool" where
  "is_exit_line l = (trim l = ''exit'' \<or> starts_with ''exit '' (trim l))"

definition ensure_trailing_exit :: "string \<Rightarrow> string" where
  "ensure_trailing_exit script =
     (let t = trim script; ended = (t \<noteq> [] \<and> last t = NL)
      in if \<not> list_ex is_exit_line (text_lines t)
         then (if ended then t else t @ [NL]) @ ln ''exit''
         else if ended then t else t @ [NL])"

definition library_export_phase1_stderr_fatal :: "string \<Rightarrow> bool" where
  "library_export_phase1_stderr_fatal err =
     (let l = to_lower err
      in contains_sub ''cannot configure storageobject'' l \<or> contains_sub ''already in use'' l)"

definition library_export_phase2_stderr_fatal :: "string \<Rightarrow> bool" where
  "library_export_phase2_stderr_fatal err =
     (let l = to_lower err
      in contains_sub ''cannot configure storageobject'' l \<or> contains_sub ''already in use'' l \<or>
         contains_sub ''unknown configuration group'' l \<or> contains_sub ''no such path'' l \<or>
         contains_sub ''no storage object named'' l \<or> contains_sub ''wwn not valid'' l)"

section \<open>Arguments\<close>

definition is_id_char :: "char \<Rightarrow> bool" where
  "is_id_char c = (is_ascii_alphanumeric c \<or> c = CHR ''_'')"

definition validate_export_id :: "string \<Rightarrow> string + unit" where
  "validate_export_id name =
     (if name = [] then Inl ''export id empty''
      else if \<not> list_all is_id_char name then Inl ''id: use only ASCII letters, digits, underscore''
      else Inr ())"

definition validate_fileio_name :: "string \<Rightarrow> string + unit" where
  "validate_fileio_name name =
     (if name = [] then Inl ''fileio_name empty''
      else if \<not> list_all is_id_char name then Inl ''fileio_name: use only ASCII letters, digits, underscore''
      else Inr ())"

definition validate_iqn :: "string \<Rightarrow> string + unit" where
  "validate_iqn iqn =
     (let i = trim iqn
      in if length i < 10 \<or> \<not> starts_with ''iqn.'' (to_lower i)
         then Inl ''iqn must look like iqn.YYYY-MM.com.vendor:id''
         else if CHR ''_'' \<in> set i then Inl ''iqn must not contain underscore''
         else Inr ())"

definition validate_sg_path :: "tool_host \<Rightarrow> string \<Rightarrow> string + string" where
  "validate_sg_path h p =
     (case th_stat h p of
        Inl e \<Rightarrow> Inl (''stat '' @ p @ '': '' @ e)
      | Inr kind \<Rightarrow>
          if kind \<noteq> CharDevice then Inl (p @ '' is not a character device'')
          else Inr (case th_canonical h p of None \<Rightarrow> p | Some c \<Rightarrow> c))"

definition MAX_LUN :: "32 word" where "MAX_LUN = 255"

fun collect_u32 :: "string list \<Rightarrow> 32 word list option" where
  "collect_u32 [] = Some []"
| "collect_u32 (x # xs) =
     (case parse_unsigned u32_max (trim x) of
        None \<Rightarrow> None
      | Some n \<Rightarrow> map_option (Cons (of_nat n)) (collect_u32 xs))"

definition has_duplicate :: "32 word list \<Rightarrow> bool" where
  "has_duplicate v = (let chk = sort v in list_ex (\<lambda>(a, b). a = b) (zip chk (tl chk)))"

definition check_luns :: "32 word list \<Rightarrow> string + 32 word list" where
  "check_luns v =
     (if list_ex (\<lambda>n. MAX_LUN < n) v then Inl ''lun-map: LUN exceeds max 255''
      else if has_duplicate v then Inl ''lun-map: duplicate LUN''
      else Inr v)"

definition parse_comma_lun_map :: "string \<Rightarrow> nat \<Rightarrow> string + 32 word list" where
  "parse_comma_lun_map s expected =
     (case collect_u32 (split_on CHR '','' s) of
        None \<Rightarrow> Inl ''lun-map: invalid integer''
      | Some parts \<Rightarrow>
          if length parts \<noteq> expected then Inl ''lun-map: wrong number of values''
          else check_luns parts)"

definition lun_map_must_be_consecutive_from_zero :: "32 word list \<Rightarrow> string + unit" where
  "lun_map_must_be_consecutive_from_zero luns =
     (if list_all (\<lambda>(i, v). v = of_nat i) (List.enumerate 0 luns) then Inr ()
      else Inl ''lun-map must be consecutive from 0'')"

section \<open>Scripts\<close>

definition script_of :: "string list \<Rightarrow> string" where
  "script_of ls = concat (map ln ls)"

definition changer_backstore :: "string \<Rightarrow> string" where
  "changer_backstore i = i @ ''_ch''"

definition drive_backstore :: "string \<Rightarrow> nat \<Rightarrow> string" where
  "drive_backstore i n = i @ ''_dr'' @ show_nat n"

definition library_export_phase1_targetcli_script_body :: "string \<Rightarrow> string \<Rightarrow> string list \<Rightarrow> string list" where
  "library_export_phase1_targetcli_script_body i changer drvs =
     [''cd /'', ''/backstores/pscsi create '' @ changer_backstore i @ '' '' @ changer] @
     map (\<lambda>(n, p). ''/backstores/pscsi create '' @ drive_backstore i n @ '' '' @ p) (List.enumerate 0 drvs)"

definition library_export_phase1_targetcli_script_with_exit :: "string \<Rightarrow> string \<Rightarrow> string list \<Rightarrow> string list" where
  "library_export_phase1_targetcli_script_with_exit i changer drvs =
     library_export_phase1_targetcli_script_body i changer drvs @ [''exit'']"

definition set_attributes :: "string \<Rightarrow> string list" where
  "set_attributes base =
     [base @ '' set attribute authentication=0'', base @ '' set attribute demo_mode_write_protect=0'',
      base @ '' set attribute generate_node_acls=1'']"

definition save_and_exit :: "string list" where
  "save_and_exit = [''cd /'', ''saveconfig'', ''exit'']"

definition library_export_phase2_targetcli_script ::
    "string \<Rightarrow> string \<Rightarrow> string list \<Rightarrow> string \<Rightarrow> 16 word \<Rightarrow> IscsiShellPathStyle \<Rightarrow> string list" where
  "library_export_phase2_targetcli_script i iqn drvs ip port style =
     (let base = iscsi_export_tpg_base style iqn
      in [''cd /'', ''/iscsi create '' @ iqn] @ set_attributes base @
         [base @ ''/luns/ create /backstores/pscsi/'' @ changer_backstore i] @
         map (\<lambda>n. base @ ''/luns/ create /backstores/pscsi/'' @ drive_backstore i n) [0..<length drvs] @
         [base @ ''/portals/ create '' @ ip @ '' '' @ show_nat (unat port)] @ save_and_exit)"

definition library_unexport_targetcli_script ::
    "string \<Rightarrow> string \<Rightarrow> 32 word list \<Rightarrow> IscsiShellPathStyle \<Rightarrow> string list" where
  "library_unexport_targetcli_script i iqn luns style =
     (let base = iscsi_export_tpg_base style iqn
      in ''cd /'' # map (\<lambda>n. base @ ''/luns/ delete lun'' @ show_nat (unat n)) (rev (sort luns)) @
         [''/iscsi delete '' @ iqn] @
         map (\<lambda>n. ''/backstores/pscsi delete '' @ drive_backstore i n) (rev [0..<length luns - 1]) @
         [''/backstores/pscsi delete '' @ changer_backstore i] @ save_and_exit)"

definition quick_export_script ::
    "string \<Rightarrow> string \<Rightarrow> nat \<Rightarrow> string \<Rightarrow> string \<Rightarrow> 16 word \<Rightarrow> IscsiShellPathStyle \<Rightarrow> string list" where
  "quick_export_script fileio file_path bytes iqn ip port style =
     (let base = iscsi_export_tpg_base style iqn
      in [''cd /'', ''/backstores/fileio create '' @ fileio @ '' '' @ file_path @ '' '' @ show_nat bytes,
          ''/iscsi create '' @ iqn] @ set_attributes base @
         [base @ ''/luns/ create /backstores/fileio/'' @ fileio,
          base @ ''/portals/ create '' @ ip @ '' '' @ show_nat (unat port)] @ save_and_exit)"

definition quick_unexport_script :: "string \<Rightarrow> string \<Rightarrow> IscsiShellPathStyle \<Rightarrow> string list" where
  "quick_unexport_script iqn fileio style =
     (let base = iscsi_export_tpg_base style iqn
      in [''cd /'', base @ ''/luns/ delete lun0'', ''/iscsi delete '' @ iqn, ''/backstores/fileio delete '' @ fileio] @
         save_and_exit)"

section \<open>Subcommands\<close>

definition PSCSI_NOTE :: string where
  "PSCSI_NOTE = ''Note: pscsi passthrough requires kernel/LIO support for the given /dev/sg nodes. '' @
     ''Close other programs using these sg devices. TPG uses demo_mode_write_protect=0 and '' @
     ''generate_node_acls=1 '' @ EMDASH @ '' tighten for production.''"

definition FILEIO_NOTE :: string where
  "FILEIO_NOTE = ''Note: TPG uses demo_mode_write_protect=0 and generate_node_acls=1 '' @ EMDASH @
     '' any initiator that can reach the portal may access this LUN. Tighten ACLs for production.''"

definition const_result :: "'e + 'a \<Rightarrow> ('s, 'e, 'a) prog" where
  "const_result r = from_result (\<lambda>_. r)"

fun sg_paths :: "tool_host \<Rightarrow> string list \<Rightarrow> string + string list" where
  "sg_paths h [] = Inr []"
| "sg_paths h (p # ps) = andThen (validate_sg_path h p) (\<lambda>x. andThen (sg_paths h ps) (\<lambda>xs. Inr (x # xs)))"

definition cmd_library_export ::
    "tool_host \<Rightarrow> 't targetcli \<Rightarrow> IscsiCli \<Rightarrow> string \<Rightarrow> string \<Rightarrow> string \<Rightarrow> string list \<Rightarrow> string option \<Rightarrow>
     string \<Rightarrow> 16 word \<Rightarrow> ('t, unit) tool" where
  "cmd_library_export h tc cli i iqn changer drvs lun_map ip port =
     thenp (const_result (validate_export_id i))
     (thenp (const_result (validate_iqn iqn))
     (thenp (checkp (drvs \<noteq> []) ''need at least one --drive-sg (tape drives)'')
     (thenp (case lun_map of
               None \<Rightarrow> ret ()
             | Some s \<Rightarrow>
                 bindp (const_result (parse_comma_lun_map s (1 + length drvs))) (\<lambda>v.
                   const_result (lun_map_must_be_consecutive_from_zero v)))
     (bindp (const_result (validate_sg_path h changer)) (\<lambda>ch.
      bindp (const_result (sg_paths h drvs)) (\<lambda>ps.
      thenp (print_err (ln PSCSI_NOTE))
      (bindp (const_result (resolve_iscsi_shell_path_style h cli)) (\<lambda>style.
       thenp (run_targetcli_batch_captured tc cli
                (script_of (library_export_phase1_targetcli_script_with_exit i ch ps))
                ''library-export-pscsi'' (Some library_export_phase1_stderr_fatal))
         (run_targetcli_batch_captured tc cli
            (script_of (library_export_phase2_targetcli_script i iqn ps ip port style))
            ''library-export-iscsi'' (Some library_export_phase2_stderr_fatal))))))))))"

definition unexport_luns :: "32 word option \<Rightarrow> string option \<Rightarrow> string + 32 word list" where
  "unexport_luns drvs lun_map =
     (case lun_map of
        Some s \<Rightarrow>
          (case collect_u32 (split_on CHR '','' s) of
             None \<Rightarrow> Inl ''lun-map: invalid integer''
           | Some v \<Rightarrow> if length v < 1 then Inl ''lun-map: empty'' else check_luns v)
      | None \<Rightarrow>
          (case drvs of
             Some d \<Rightarrow> Inr (map of_nat [0..<Suc (unat d)])
           | None \<Rightarrow> Inl ''library-unexport: specify --drives (with sequential lun0..) or --lun-map''))"

definition cmd_library_unexport ::
    "tool_host \<Rightarrow> 't targetcli \<Rightarrow> IscsiCli \<Rightarrow> string \<Rightarrow> string \<Rightarrow> 32 word option \<Rightarrow> string option \<Rightarrow> ('t, unit) tool" where
  "cmd_library_unexport h tc cli i iqn drvs lun_map =
     thenp (const_result (validate_export_id i))
     (thenp (const_result (validate_iqn iqn))
     (bindp (const_result (unexport_luns drvs lun_map)) (\<lambda>luns.
      bindp (const_result (resolve_iscsi_shell_path_style h cli)) (\<lambda>style.
        run_targetcli_batch tc cli (script_of (library_unexport_targetcli_script i iqn luns style)) ''library-unexport''))))"

definition quick_export_file :: "tool_host \<Rightarrow> string \<Rightarrow> string + nat" where
  "quick_export_file h file =
     (case th_stat h file of
        Inl e \<Rightarrow> Inl (''stat '' @ file @ '': '' @ e)
      | Inr (RegularFile n) \<Rightarrow> if n = 0 then Inl ''backing file is empty'' else Inr n
      | Inr _ \<Rightarrow> Inl (file @ '' is not a regular file''))"

definition cmd_quick_export ::
    "tool_host \<Rightarrow> 't targetcli \<Rightarrow> IscsiCli \<Rightarrow> string \<Rightarrow> string \<Rightarrow> string \<Rightarrow> string \<Rightarrow> 16 word \<Rightarrow> ('t, unit) tool" where
  "cmd_quick_export h tc cli file iqn fileio ip port =
     thenp (const_result (validate_fileio_name fileio))
     (thenp (const_result (validate_iqn iqn))
     (bindp (const_result (quick_export_file h file)) (\<lambda>n.
      let file_path = (case th_canonical h file of None \<Rightarrow> file | Some c \<Rightarrow> c)
      in thenp (print_err (ln FILEIO_NOTE))
         (bindp (const_result (resolve_iscsi_shell_path_style h cli)) (\<lambda>style.
            run_targetcli_batch tc cli (script_of (quick_export_script fileio file_path n iqn ip port style)) ''quick-export'')))))"

definition cmd_quick_unexport :: "tool_host \<Rightarrow> 't targetcli \<Rightarrow> IscsiCli \<Rightarrow> string \<Rightarrow> string \<Rightarrow> ('t, unit) tool" where
  "cmd_quick_unexport h tc cli iqn fileio =
     thenp (const_result (validate_fileio_name fileio))
     (thenp (const_result (validate_iqn iqn))
     (bindp (const_result (resolve_iscsi_shell_path_style h cli)) (\<lambda>style.
        run_targetcli_batch tc cli (script_of (quick_unexport_script iqn fileio style)) ''quick-unexport'')))"

definition CHECK_NOTE :: string where
  "CHECK_NOTE = ''iSCSI: TPG commands use path-prefixed `/iscsi/<iqn>/tpg1/...` (IQN may contain `:`). Use `merged` '' @
     ''/ VTL_ISCSI_SHELL_PATH=merged only if `ls` under the IQN shows no `tpg1` child.''"

definition cmd_check :: "tool_host \<Rightarrow> ('t, unit) tool" where
  "cmd_check h =
     thenp (print_out (ln (''configfs /sys/kernel/config/target: '' @
              (if th_configfs h then ''ok'' else ''missing (load target_core_mod / LIO modules?)'')) @
            ln (''targetcli in PATH: '' @
              (if th_which h then ''yes'' else ''no (install targetcli / python3-rtslib-fb)'')) @
            ln CHECK_NOTE))
       (checkp (th_configfs h \<and> th_which h) ''environment not ready for targetcli'')"

definition batch_body :: "string \<Rightarrow> string" where
  "batch_body raw =
     join_with NL (filter (\<lambda>l. trim l \<noteq> [] \<and> \<not> starts_with ''#'' (trim l)) (text_lines raw))"

definition cmd_batch :: "tool_host \<Rightarrow> 't targetcli \<Rightarrow> IscsiCli \<Rightarrow> string \<Rightarrow> ('t, unit) tool" where
  "cmd_batch h tc cli file =
     (case th_read h file of
        Inl e \<Rightarrow> fail (''read '' @ file @ '': '' @ e)
      | Inr raw \<Rightarrow>
          thenp (checkp (batch_body raw \<noteq> []) ''batch file has no non-comment lines'')
            (run_targetcli_batch tc cli (ensure_trailing_exit (batch_body raw)) ''batch''))"

definition run_tool :: "tool_host \<Rightarrow> 't targetcli \<Rightarrow> IscsiCli \<Rightarrow> ('t, unit) tool" where
  "run_tool h tc cli =
     (case ic_command cli of
        Check \<Rightarrow> cmd_check h
      | Ls \<Rightarrow> run_targetcli_batch tc cli (script_of [''cd /'', ''ls'']) ''ls''
      | Save \<Rightarrow> run_targetcli_batch tc cli (script_of [''cd /'', ''saveconfig'']) ''saveconfig''
      | Batch file \<Rightarrow> cmd_batch h tc cli file
      | Shell \<Rightarrow> run_targetcli_shell tc cli (th_typed h)
      | QuickExport file iqn fileio ip port \<Rightarrow> cmd_quick_export h tc cli file iqn fileio ip port
      | QuickUnexport iqn fileio \<Rightarrow> cmd_quick_unexport h tc cli iqn fileio
      | LibraryExport i iqn changer drvs lun_map ip port \<Rightarrow>
          cmd_library_export h tc cli i iqn changer drvs lun_map ip port
      | LibraryUnexport i iqn drvs lun_map \<Rightarrow> cmd_library_unexport h tc cli i iqn drvs lun_map)"

text \<open>The process: exit code 1 and a line on standard error when it fails.\<close>

definition tool_main :: "tool_host \<Rightarrow> 't targetcli \<Rightarrow> IscsiCli \<Rightarrow> 't \<Rightarrow> process_output \<times> 't" where
  "tool_main h tc cli x =
     (case run_tool h tc cli \<lparr>ts_target = x, ts_out = [], ts_err = []\<rparr> of
        (Inr _, t) \<Rightarrow> (\<lparr>po_code = Some 0, po_out = ts_out t, po_err = ts_err t\<rparr>, ts_target t)
      | (Inl e, t) \<Rightarrow> (\<lparr>po_code = Some 1, po_out = ts_out t, po_err = ts_err t @ ln (''Error: '' @ e)\<rparr>, ts_target t))"

end
