(* ===== verification/IscsiToolFacts.thy ===== *)
theory IscsiToolFacts
  imports IscsiTool
begin

text \<open>
  Facts about \<open>IscsiTool\<close>: what the scripts create and delete, which arguments are accepted, and
  what a run does to the target subsystem.
\<close>

section \<open>LUN lists\<close>

lemma sorted_zip_distinct:
  fixes v :: "'a :: linorder list"
  shows "sorted v \<Longrightarrow> list_ex (\<lambda>(a, b). a = b) (zip v (tl v)) \<longleftrightarrow> \<not> distinct v"
proof (induction v)
  case (Cons x xs)
  show ?case
  proof (cases xs)
    case (Cons y ys)
    have "x \<notin> set xs" if "x \<noteq> y"
      using Cons.prems that Cons by (auto simp: not_less_iff_gr_or_eq dest: order.antisym)
    then show ?thesis using Cons.IH Cons.prems Cons by auto
  qed simp
qed simp

lemma has_duplicate_iff [simp]: "has_duplicate v \<longleftrightarrow> \<not> distinct v"
  by (simp add: has_duplicate_def sorted_zip_distinct)

lemma check_luns_Inr: "check_luns v = Inr w \<longleftrightarrow> w = v \<and> distinct v \<and> (\<forall>n \<in> set v. n \<le> MAX_LUN)"
  by (auto simp: check_luns_def list_ex_iff not_less not_le [symmetric])

lemma unat_u32: "unat (n :: 32 word) \<le> u32_max"
  using unsigned_less [of n, where 'a = nat] by (simp add: u32_max_def)

definition show_lun :: "32 word \<Rightarrow> string" where
  "show_lun n = show_nat (unat n)"

lemma collect_shown: "collect_u32 (map show_lun ns) = Some ns"
  by (induction ns) (simp_all add: show_lun_def show_nat_trim unat_u32)

lemma split_shown_luns: "ns \<noteq> [] \<Longrightarrow> split_on CHR '','' (join_with CHR '','' (map show_lun ns)) = map show_lun ns"
proof -
  have "CHR '','' \<notin> set (show_nat n)" for n
    using show_nat_digits [of n] by (auto simp: list_all_iff is_ascii_digit_def)
  then show "ns \<noteq> [] \<Longrightarrow> split_on CHR '','' (join_with CHR '','' (map show_lun ns)) = map show_lun ns"
    by (intro split_on_join) (auto simp: show_lun_def)
qed

lemma parse_shown_luns:
  "ns \<noteq> [] \<Longrightarrow> parse_comma_lun_map (join_with CHR '','' (map show_lun ns)) (length ns) = check_luns ns"
  by (simp add: parse_comma_lun_map_def split_shown_luns collect_shown)

lemma unexport_shown_luns:
  "ns \<noteq> [] \<Longrightarrow> unexport_luns k (Some (join_with CHR '','' (map show_lun ns))) = check_luns ns"
  by (simp add: unexport_luns_def split_shown_luns collect_shown Suc_le_eq)

definition first_luns :: "nat \<Rightarrow> 32 word list" where
  "first_luns n = map of_nat [0..<n]"

lemma length_first_luns [simp]: "length (first_luns n) = n"
  by (simp add: first_luns_def)

lemma enumerate_all: "list_all (\<lambda>(i, v). v = f i) (List.enumerate k vs) \<longleftrightarrow> vs = map f [k..<k + length vs]"
  by (induction vs arbitrary: k) (auto simp: upt_conv_Cons simp del: upt_Suc)

lemma consecutive_iff:
  "lun_map_must_be_consecutive_from_zero luns = Inr () \<longleftrightarrow> luns = first_luns (length luns)"
  using enumerate_all [of of_nat 0 luns] by (simp add: lun_map_must_be_consecutive_from_zero_def first_luns_def)

lemma unat_first: "i < n \<Longrightarrow> n \<le> 256 \<Longrightarrow> unat (of_nat i :: 32 word) = i"
  by (simp add: unat_of_nat)

lemma first_luns_ok:
  assumes "n \<le> 256"
  shows "check_luns (first_luns n) = Inr (first_luns n)"
proof -
  have "inj_on (of_nat :: nat \<Rightarrow> 32 word) {0..<n}"
    by (rule inj_onI) (metis assms atLeastLessThan_iff unat_first)
  moreover have "(of_nat i :: 32 word) \<le> 255" if "i < n" for i
    using that assms by (simp add: word_le_nat_alt unat_first)
  ultimately show ?thesis by (auto simp: check_luns_Inr first_luns_def distinct_map MAX_LUN_def)
qed

lemma sorted_first_luns: "n \<le> 256 \<Longrightarrow> sort (first_luns n) = first_luns n"
proof -
  assume n: "n \<le> 256"
  have "sorted (first_luns n)"
    unfolding first_luns_def sorted_map sorted_wrt_upt
    by (rule sorted_wrt_mono_rel [OF _ sorted_wrt_upt])
      (use n in \<open>simp add: word_le_nat_alt unat_first\<close>)
  then show ?thesis by (rule sorted_sort_id)
qed

section \<open>What scripts create and delete\<close>

text \<open>The first word after a prefix, in the lines that have it.\<close>

definition names_after :: "string \<Rightarrow> string list \<Rightarrow> string list" where
  "names_after p = List.map_filter (\<lambda>l. map_option (\<lambda>r. hd (split_on CHR '' '' r)) (strip_prefix p l))"

lemma names_after_append [simp]: "names_after p (xs @ ys) = names_after p xs @ names_after p ys"
  by (simp add: names_after_def List.map_filter_def)

lemma names_after_Nil [simp]: "names_after p [] = []"
  by (simp add: names_after_def)

lemma names_after_Cons:
  "names_after p (l # ls) = (case strip_prefix p l of None \<Rightarrow> [] | Some r \<Rightarrow> [hd (split_on CHR '' '' r)]) @ names_after p ls"
  by (simp add: names_after_def split: option.split)

lemma names_after_map_None: "(\<And>x. x \<in> set xs \<Longrightarrow> strip_prefix p (f x) = None) \<Longrightarrow> names_after p (map f xs) = []"
  by (induction xs) (simp_all add: names_after_Cons)

lemma names_after_map_Some:
  "(\<And>x. x \<in> set xs \<Longrightarrow> strip_prefix p (f x) = Some (g x)) \<Longrightarrow>
   names_after p (map f xs) = map (\<lambda>x. hd (split_on CHR '' '' (g x))) xs"
  by (induction xs) (simp_all add: names_after_Cons)

lemma hd_split_word: "CHR '' '' \<notin> set w \<Longrightarrow> hd (split_on CHR '' '' (w @ CHR '' '' # s)) = w"
  "CHR '' '' \<notin> set w \<Longrightarrow> hd (split_on CHR '' '' w) = w"
  by (simp_all add: split_on_append split_on_absent)

lemma id_no_space: "list_all is_id_char i \<Longrightarrow> CHR '' '' \<notin> set i"
  by (auto simp: list_all_iff is_id_char_def is_ascii_alphanumeric_def is_ascii_alpha_def is_ascii_digit_def)

lemma id_no_newline: "list_all is_id_char i \<Longrightarrow> NL \<notin> set i"
  by (auto simp: list_all_iff is_id_char_def is_ascii_alphanumeric_def is_ascii_alpha_def is_ascii_digit_def NL_def)

lemma shown_no_space: "CHR '' '' \<notin> set (show_nat n)"
  using show_nat_digits [of n] by (auto simp: list_all_iff is_ascii_digit_def)

definition backstores_of :: "string \<Rightarrow> nat \<Rightarrow> string list" where
  "backstores_of i n = changer_backstore i # map (drive_backstore i) [0..<n]"

lemma backstore_words:
  assumes "list_all is_id_char i"
  shows "CHR '' '' \<notin> set (changer_backstore i)" "CHR '' '' \<notin> set (drive_backstore i n)"
  using id_no_space [OF assms] shown_no_space [of n] by (auto simp: changer_backstore_def drive_backstore_def)

lemma map_enumerate: "map (\<lambda>(n, p). f n) (List.enumerate k ps) = map f [k..<k + length ps]"
  by (induction ps arbitrary: k) (auto simp: upt_conv_Cons simp del: upt_Suc)

lemma names_after_enumerate:
  "(\<And>n p. strip_prefix q (f n p) = Some (g n p)) \<Longrightarrow>
   names_after q (map (\<lambda>(n, p). f n p) (List.enumerate k ps)) =
   map (\<lambda>(n, p). hd (split_on CHR '' '' (g n p))) (List.enumerate k ps)"
  by (induction ps arbitrary: k) (simp_all add: names_after_Cons)

lemma strip_prefix_twice [simp]: "strip_prefix (p @ q) (p @ r) = strip_prefix q r"
  by (induction p) simp_all

lemma phase1_creates:
  assumes "list_all is_id_char i"
  shows "names_after ''/backstores/pscsi create '' (library_export_phase1_targetcli_script_body i ch ps) =
    backstores_of i (length ps)"
proof -
  have "names_after ''/backstores/pscsi create ''
      (map (\<lambda>(n, p). ''/backstores/pscsi create '' @ drive_backstore i n @ '' '' @ p) (List.enumerate 0 ps)) =
    map (\<lambda>(n, p). hd (split_on CHR '' '' (drive_backstore i n @ '' '' @ p))) (List.enumerate 0 ps)"
    by (rule names_after_enumerate) (rule strip_prefix_append)
  also have "\<dots> = map (drive_backstore i) [0..<length ps]"
    using map_enumerate [of "drive_backstore i" 0 ps] hd_split_word(1) [OF backstore_words(2) [OF assms]] by simp
  finally show ?thesis
    using hd_split_word(1) [OF backstore_words(1) [OF assms]]
    unfolding library_export_phase1_targetcli_script_body_def
    by (simp add: names_after_Cons backstores_of_def)
qed

text \<open>The lines of the target start with its path; the other lines do not.\<close>

lemma other_lines:
  "strip_prefix ''/iscsi create '' (iscsi_export_tpg_base style iqn @ x) = None"
  "strip_prefix ''/iscsi delete '' (iscsi_export_tpg_base style iqn @ x) = None"
  "strip_prefix ''/backstores/pscsi delete '' (iscsi_export_tpg_base style iqn @ x) = None"
  "strip_prefix (iscsi_export_tpg_base style iqn @ q) (''/iscsi create '' @ r) = None"
  "strip_prefix (iscsi_export_tpg_base style iqn @ q) (''/iscsi delete '' @ r) = None"
  "strip_prefix (iscsi_export_tpg_base style iqn @ q) (''/backstores/pscsi delete '' @ r) = None"
  "strip_prefix (iscsi_export_tpg_base style iqn @ q) ''cd /'' = None"
  "strip_prefix (iscsi_export_tpg_base style iqn @ q) ''saveconfig'' = None"
  "strip_prefix (iscsi_export_tpg_base style iqn @ q) ''exit'' = None"
  "strip_prefix ''/iscsi create '' ''cd /'' = None" "strip_prefix ''/iscsi create '' ''saveconfig'' = None"
  "strip_prefix ''/iscsi create '' ''exit'' = None" "strip_prefix ''/iscsi delete '' ''cd /'' = None"
  "strip_prefix ''/iscsi delete '' ''saveconfig'' = None" "strip_prefix ''/iscsi delete '' ''exit'' = None"
  "strip_prefix ''/backstores/pscsi delete '' ''cd /'' = None"
  "strip_prefix ''/backstores/pscsi delete '' ''saveconfig'' = None"
  "strip_prefix ''/backstores/pscsi delete '' ''exit'' = None"
  "strip_prefix ''/iscsi delete '' (''/backstores/pscsi delete '' @ r) = None"
  "strip_prefix ''/backstores/pscsi delete '' (''/iscsi delete '' @ r) = None"
  "strip_prefix ''/luns/ create /backstores/pscsi/'' ('' set attribute authentication=0'') = None"
  "strip_prefix ''/luns/ create /backstores/pscsi/'' ('' set attribute demo_mode_write_protect=0'') = None"
  "strip_prefix ''/luns/ create /backstores/pscsi/'' ('' set attribute generate_node_acls=1'') = None"
  "strip_prefix ''/luns/ create /backstores/pscsi/'' (''/portals/ create '' @ r) = None"
  by (simp_all add: iscsi_export_tpg_base_def)

lemma phase2_names:
  assumes "list_all is_id_char i" "CHR '' '' \<notin> set iqn"
  shows "names_after ''/iscsi create '' (library_export_phase2_targetcli_script i iqn ps ip port style) = [iqn]"
    and "names_after (iscsi_export_tpg_base style iqn @ ''/luns/ create /backstores/pscsi/'')
      (library_export_phase2_targetcli_script i iqn ps ip port style) = backstores_of i (length ps)"
proof -
  let ?base = "iscsi_export_tpg_base style iqn" and ?p = "''/luns/ create /backstores/pscsi/''"
  note defs = library_export_phase2_targetcli_script_def Let_def set_attributes_def save_and_exit_def
  show "names_after ''/iscsi create '' (library_export_phase2_targetcli_script i iqn ps ip port style) = [iqn]"
    using hd_split_word(2) [OF assms(2)] unfolding defs names_after_append
    by (simp add: names_after_Cons names_after_map_None other_lines del: append_Cons append_Nil)
  have "names_after (?base @ ?p) (map (\<lambda>n. ?base @ ?p @ drive_backstore i n) [0..<length ps]) =
      map (\<lambda>n. hd (split_on CHR '' '' (drive_backstore i n))) [0..<length ps]"
    by (rule names_after_map_Some) (simp del: append_Cons append_Nil)
  then have e: "names_after (?base @ ?p) (map (\<lambda>n. ?base @ ?p @ drive_backstore i n) [0..<length ps]) =
      map (drive_backstore i) [0..<length ps]"
    using hd_split_word(2) [OF backstore_words(2) [OF assms(1)]] by simp
  show "names_after (?base @ ?p) (library_export_phase2_targetcli_script i iqn ps ip port style) =
      backstores_of i (length ps)"
    using hd_split_word(2) [OF backstore_words(1) [OF assms(1)]] unfolding defs names_after_append e
    by (simp add: names_after_Cons other_lines backstores_of_def del: append_Cons append_Nil)
qed

lemma unexport_names:
  assumes "list_all is_id_char i" "CHR '' '' \<notin> set iqn"
  shows "names_after ''/iscsi delete '' (library_unexport_targetcli_script i iqn luns style) = [iqn]"
    and "names_after ''/backstores/pscsi delete '' (library_unexport_targetcli_script i iqn luns style) =
      rev (backstores_of i (length luns - 1))"
    and "names_after (iscsi_export_tpg_base style iqn @ ''/luns/ delete lun'')
      (library_unexport_targetcli_script i iqn luns style) = map show_lun (rev (sort luns))"
proof -
  let ?base = "iscsi_export_tpg_base style iqn" and ?p = "''/luns/ delete lun''" and ?q = "''/backstores/pscsi delete ''"
  note defs = library_unexport_targetcli_script_def Let_def save_and_exit_def
  note lines = names_after_Cons names_after_map_None other_lines
  show "names_after ''/iscsi delete '' (library_unexport_targetcli_script i iqn luns style) = [iqn]"
    using hd_split_word(2) [OF assms(2)] unfolding defs names_after_append names_after_Cons
    by (simp add: lines del: append_Cons append_Nil)
  have d: "names_after ?q (map (\<lambda>n. ?q @ drive_backstore i n) ns) = map (drive_backstore i) ns" for ns
  proof -
    have "names_after ?q (map (\<lambda>n. ?q @ drive_backstore i n) ns) =
        map (\<lambda>n. hd (split_on CHR '' '' (drive_backstore i n))) ns"
      by (rule names_after_map_Some) (rule strip_prefix_append)
    then show ?thesis using hd_split_word(2) [OF backstore_words(2) [OF assms(1)]] by simp
  qed
  show "names_after ?q (library_unexport_targetcli_script i iqn luns style) = rev (backstores_of i (length luns - 1))"
    using hd_split_word(2) [OF backstore_words(1) [OF assms(1)]] unfolding defs names_after_append names_after_Cons d
    by (simp add: lines backstores_of_def rev_map del: append_Cons append_Nil)
  have e: "names_after (?base @ ?p) (map (\<lambda>n. ?base @ ?p @ show_nat (unat n)) ns) = map show_lun ns" for ns :: "32 word list"
  proof -
    have "names_after (?base @ ?p) (map (\<lambda>n. ?base @ ?p @ show_nat (unat n)) ns) =
        map (\<lambda>n. hd (split_on CHR '' '' (show_lun n))) ns"
      by (rule names_after_map_Some) (simp add: show_lun_def del: append_Cons append_Nil)
    then show ?thesis using hd_split_word(2) [OF shown_no_space] by (simp add: show_lun_def)
  qed
  show "names_after (?base @ ?p) (library_unexport_targetcli_script i iqn luns style) = map show_lun (rev (sort luns))"
    unfolding defs names_after_append names_after_Cons e
    by (simp add: lines del: append_Cons append_Nil)
qed

section \<open>One command per line\<close>

definition one_command :: "string \<Rightarrow> bool" where
  "one_command l \<longleftrightarrow> NL \<notin> set l \<and> strip_cr l = l"

lemma script_lines: "list_all one_command ls \<Longrightarrow> text_lines (script_of ls) = ls"
  unfolding script_of_def by (rule text_lines_concat) (simp add: list_all_iff one_command_def)

text \<open>An argument without control characters makes no line of its own.\<close>

definition plain_argument :: "string \<Rightarrow> bool" where
  "plain_argument s \<longleftrightarrow> NL \<notin> set s \<and> CHR 0x0D \<notin> set s"

lemma plain_one_command: "plain_argument l \<Longrightarrow> one_command l"
  by (auto simp: plain_argument_def one_command_def strip_cr_def dest: last_in_set)

lemma plain_append [simp]: "plain_argument (a @ b) \<longleftrightarrow> plain_argument a \<and> plain_argument b"
  by (auto simp: plain_argument_def)

lemma plain_digits [simp]: "plain_argument (show_nat n)"
  using show_nat_digits [of n] by (auto simp: plain_argument_def NL_def list_all_iff is_ascii_digit_def)

lemma plain_id: "list_all is_id_char i \<Longrightarrow> plain_argument i"
  by (auto simp: plain_argument_def NL_def list_all_iff is_id_char_def is_ascii_alphanumeric_def is_ascii_alpha_def
      is_ascii_digit_def)

lemma plain_base: "plain_argument (iscsi_export_tpg_base style iqn) \<longleftrightarrow> plain_argument iqn"
  by (auto simp: iscsi_export_tpg_base_def plain_argument_def NL_def)

lemma plain_backstores: "list_all is_id_char i \<Longrightarrow> plain_argument (changer_backstore i) \<and> plain_argument (drive_backstore i n)"
proof -
  have "plain_argument ''_ch''" "plain_argument ''_dr''" by (simp_all add: plain_argument_def NL_def)
  then show "list_all is_id_char i \<Longrightarrow> plain_argument (changer_backstore i) \<and> plain_argument (drive_backstore i n)"
    using plain_id [of i] by (simp add: changer_backstore_def drive_backstore_def del: append_Cons append_Nil)
qed

lemma plain_words:
  "plain_argument ''cd /''" "plain_argument ''exit''" "plain_argument ''saveconfig''" "plain_argument '' ''"
  "plain_argument ''/backstores/pscsi create ''" "plain_argument ''/iscsi create ''"
  "plain_argument '' set attribute authentication=0''" "plain_argument '' set attribute demo_mode_write_protect=0''"
  "plain_argument '' set attribute generate_node_acls=1''" "plain_argument ''/luns/ create /backstores/pscsi/''"
  "plain_argument ''/portals/ create ''"
  by (simp_all add: plain_argument_def NL_def)

lemma plain_script: "list_all plain_argument ls \<Longrightarrow> text_lines (script_of ls) = ls"
  by (intro script_lines) (auto simp: list_all_iff intro: plain_one_command)

lemma phase1_lines:
  assumes "list_all is_id_char i" "plain_argument ch" "list_all plain_argument ps"
  shows "text_lines (script_of (library_export_phase1_targetcli_script_with_exit i ch ps)) =
    library_export_phase1_targetcli_script_with_exit i ch ps"
proof (rule plain_script)
  have "list_all (\<lambda>(n, p). plain_argument p) (List.enumerate 0 ps)"
    using assms(3) by (auto simp: list_all_iff enumerate_eq_zip dest: set_zip_rightD)
  then have "list_all plain_argument (map (\<lambda>(n, p). ''/backstores/pscsi create '' @ drive_backstore i n @ '' '' @ p)
      (List.enumerate 0 ps))"
    using plain_backstores [OF assms(1)] by (auto simp: list_all_iff plain_words simp del: append_Cons append_Nil)
  then show "list_all plain_argument (library_export_phase1_targetcli_script_with_exit i ch ps)"
    using assms plain_backstores [OF assms(1)]
    unfolding library_export_phase1_targetcli_script_with_exit_def library_export_phase1_targetcli_script_body_def
      list_all_append
    by (simp add: plain_words del: append_Cons append_Nil)
qed

lemma phase2_lines:
  assumes "list_all is_id_char i" "plain_argument iqn" "plain_argument ip"
  shows "text_lines (script_of (library_export_phase2_targetcli_script i iqn ps ip port style)) =
    library_export_phase2_targetcli_script i iqn ps ip port style"
proof (rule plain_script)
  show "list_all plain_argument (library_export_phase2_targetcli_script i iqn ps ip port style)"
    using assms plain_backstores [OF assms(1)] plain_base [of style iqn]
    unfolding library_export_phase2_targetcli_script_def Let_def set_attributes_def save_and_exit_def list_all_append
    by (simp add: plain_words list_all_iff del: append_Cons append_Nil)
qed

text \<open>
  The program looks only at the trimmed name of a target for its checks, and does not look for line
  breaks: what follows one is a command of its own.
\<close>

lemma iqn_line_break:
  assumes "NL \<notin> set cmd" "CHR ''_'' \<notin> set cmd" "cmd \<noteq> []" "\<not> is_ws (last cmd)"
  shows "validate_iqn (''iqn.2026-05.a:b'' @ [NL] @ cmd) = Inr ()"
    and "cmd \<in> set (text_lines (script_of (library_export_phase2_targetcli_script i (''iqn.2026-05.a:b'' @ [NL] @ cmd) ps ip port style)))"
proof -
  have w: "\<not> is_ws CHR ''i''" by code_simp
  have "trim (''iqn.2026-05.a:b'' @ [NL] @ cmd) = ''iqn.2026-05.a:b'' @ [NL] @ cmd"
    using assms(3,4) w by (subst trim_id) simp
  moreover have "CHR ''_'' \<noteq> NL" by code_simp
  moreover have "starts_with ''iqn.'' (to_lower (''iqn.2026-05.a:b'' @ [NL] @ cmd))"
  proof -
    have "to_lower ''iqn.2026-05.a:b'' = ''iqn.2026-05.a:b''" by code_simp
    then have "to_lower (''iqn.2026-05.a:b'' @ [NL] @ cmd) = ''iqn.2026-05.a:b'' @ to_lower ([NL] @ cmd)"
      by (simp only: to_lower_def map_append)
    then show ?thesis by (simp add: starts_with_def)
  qed
  ultimately show "validate_iqn (''iqn.2026-05.a:b'' @ [NL] @ cmd) = Inr ()"
    using assms(2) by (simp add: validate_iqn_def)
  let ?rest = "concat (map ln (drop 2 (library_export_phase2_targetcli_script i (''iqn.2026-05.a:b'' @ [NL] @ cmd) ps ip port style)))"
  have sc: "script_of (library_export_phase2_targetcli_script i (''iqn.2026-05.a:b'' @ [NL] @ cmd) ps ip port style) =
      ln ''cd /'' @ ln ''/iscsi create iqn.2026-05.a:b'' @ ln cmd @ ?rest"
    by (simp add: script_of_def library_export_phase2_targetcli_script_def Let_def ln_def)
  have n: "NL \<notin> set ''cd /''" "NL \<notin> set ''/iscsi create iqn.2026-05.a:b''" by (simp_all add: NL_def)
  have cr: "strip_cr cmd = cmd"
  proof -
    have "is_ws CHR 0x0D" by code_simp
    with assms(3,4) show ?thesis by (auto simp: strip_cr_def)
  qed
  have "text_lines (ln a @ ln b @ ln cmd @ r) = strip_cr a # strip_cr b # cmd # text_lines r"
    if "NL \<notin> set a" "NL \<notin> set b" for a b r
    using that assms(1) by (simp add: text_lines_def NL_def [symmetric] split_on_ln Let_def cr)
  from this [OF n] show "cmd \<in> set (text_lines (script_of (library_export_phase2_targetcli_script i
      (''iqn.2026-05.a:b'' @ [NL] @ cmd) ps ip port style)))"
    unfolding sc by simp
qed

section \<open>Runs\<close>

lemma const_result_run [simp]: "const_result r t = (r, t)"
  by (simp add: const_result_def)

lemma keeps_const [keeps_intros]: "keeps P (const_result r)"
  by (simp add: keeps_def)

lemma keeps_prints:
  "keeps (\<lambda>t. ts_target t = x) (print_out s)" "keeps (\<lambda>t. ts_target t = x) (print_err s)"
  unfolding print_out_def print_err_def by (rule keeps_modify; simp)+

lemma keeps_dry_run:
  "ic_dry_run cli \<Longrightarrow> keeps (\<lambda>t. ts_target t = x) (run_targetcli_batch tc cli s l)"
  "ic_dry_run cli \<Longrightarrow> keeps (\<lambda>t. ts_target t = x) (run_targetcli_batch_captured tc cli s l f)"
  "ic_dry_run cli \<Longrightarrow> keeps (\<lambda>t. ts_target t = x) (run_targetcli_shell tc cli s)"
  by (simp_all add: run_targetcli_batch_def run_targetcli_batch_captured_def run_targetcli_shell_def
      keeps_prints keeps_fail)

lemma keeps_dry_tool: "ic_dry_run cli \<Longrightarrow> keeps (\<lambda>t. ts_target t = x) (run_tool h tc cli)"
proof -
  assume d: "ic_dry_run cli"
  note parts = cmd_check_def cmd_batch_def cmd_quick_export_def cmd_quick_unexport_def cmd_library_export_def
    cmd_library_unexport_def Let_def
  note rules = keeps_intros keeps_prints keeps_dry_run [OF d]
  show ?thesis unfolding run_tool_def parts
    by (cases "ic_command cli"; simp only: IscsiCommands.case; intro rules)
qed

lemma dry_run_leaves_target: "ic_dry_run cli \<Longrightarrow> snd (tool_main h tc cli x) = x"
proof -
  assume "ic_dry_run cli"
  from keepsD [OF keeps_dry_tool [OF this, of x h tc], of "\<lparr>ts_target = x, ts_out = [], ts_err = []\<rparr>"]
  show ?thesis by (auto simp: tool_main_def split: prod.splits sum.splits)
qed

text \<open>A library is exported only if both parts of the script ran and complained about nothing.\<close>

lemma captured_Inr:
  "run_targetcli_batch_captured tc cli script l (Some f) t = (Inr u, t') \<Longrightarrow> \<not> ic_dry_run cli \<Longrightarrow>
   \<exists>p x. tc (ic_sudo cli) script (ts_target t) = (Inr p, x) \<and> po_success p \<and> \<not> f (po_err p) \<and> t' = t\<lparr>ts_target := x\<rparr>"
  by (auto simp: run_targetcli_batch_captured_def call_targetcli_def bindp_def thenp_def checkp_run
      split: prod.splits sum.splits if_splits)

lemma export_runs:
  assumes "cmd_library_export h tc cli i iqn changer drvs lun_map ip port t = (Inr u, t')" "\<not> ic_dry_run cli"
  obtains ch ps style p1 x1 p2 x2 where
    "validate_export_id i = Inr ()" "validate_iqn iqn = Inr ()" "drvs \<noteq> []"
    "validate_sg_path h changer = Inr ch" "sg_paths h drvs = Inr ps"
    "resolve_iscsi_shell_path_style h cli = Inr style"
    "tc (ic_sudo cli) (script_of (library_export_phase1_targetcli_script_with_exit i ch ps)) (ts_target t) = (Inr p1, x1)"
    "po_success p1" "\<not> library_export_phase1_stderr_fatal (po_err p1)"
    "tc (ic_sudo cli) (script_of (library_export_phase2_targetcli_script i iqn ps ip port style)) x1 = (Inr p2, x2)"
    "po_success p2" "\<not> library_export_phase2_stderr_fatal (po_err p2)"
    "t' = t\<lparr>ts_target := x2, ts_err := ts_err t @ ln PSCSI_NOTE\<rparr>"
proof -
  from assms(1) obtain ch ps style t1 t2 where
    v: "validate_export_id i = Inr ()" "validate_iqn iqn = Inr ()" "drvs \<noteq> []"
      "validate_sg_path h changer = Inr ch" "sg_paths h drvs = Inr ps"
      "resolve_iscsi_shell_path_style h cli = Inr style"
    and t1: "print_err (ln PSCSI_NOTE) t = (Inr (), t1)"
    and r1: "run_targetcli_batch_captured tc cli
        (script_of (library_export_phase1_targetcli_script_with_exit i ch ps)) ''library-export-pscsi''
        (Some library_export_phase1_stderr_fatal) t1 = (Inr (), t2)"
    and r2: "run_targetcli_batch_captured tc cli
        (script_of (library_export_phase2_targetcli_script i iqn ps ip port style)) ''library-export-iscsi''
        (Some library_export_phase2_stderr_fatal) t2 = (Inr (), t')"
    unfolding cmd_library_export_def
    by (auto simp: thenp_def bindp_eq_Inr checkp_run split: if_splits option.splits)
  from t1 have "t1 = t\<lparr>ts_err := ts_err t @ ln PSCSI_NOTE\<rparr>" by (simp add: print_err_def)
  with captured_Inr [OF r1 assms(2)] captured_Inr [OF r2 assms(2)] show ?thesis
    by (auto intro!: that [OF v])
qed

end
