(* ===== verification/ToolProperties.thy ===== *)
theory ToolProperties
  imports IscsiToolFacts
begin

text \<open>
  The properties of \<^verbatim>\<open>vtladm-iscsi\<close>: what one subcommand creates the other deletes, and success is
  reported only after \<^verbatim>\<open>targetcli\<close> has accepted both scripts.
\<close>

lemma plain_delete:
  "plain_argument ''/backstores/pscsi delete ''" "plain_argument ''/iscsi delete ''" "plain_argument ''/luns/ delete lun''"
  by (simp_all add: plain_argument_def NL_def)

lemma unexport_lines:
  assumes "list_all is_id_char i" "plain_argument iqn"
  shows "text_lines (script_of (library_unexport_targetcli_script i iqn luns style)) =
    library_unexport_targetcli_script i iqn luns style"
proof (rule plain_script)
  show "list_all plain_argument (library_unexport_targetcli_script i iqn luns style)"
    using assms plain_backstores [OF assms(1)] plain_base [of style iqn]
    unfolding library_unexport_targetcli_script_def Let_def save_and_exit_def list_all_append
    by (auto simp: plain_words plain_delete list_all_iff simp del: append_Cons append_Nil)
qed

lemma sg_paths_length: "sg_paths h ps = Inr xs \<Longrightarrow> length xs = length ps"
  by (induction ps arbitrary: xs) auto

lemma valid_id: "validate_export_id i = Inr () \<longleftrightarrow> i \<noteq> [] \<and> list_all is_id_char i"
  by (simp add: validate_export_id_def)

lemma unexport_luns_of_export:
  assumes "n < 256"
  shows "unexport_luns (Some (of_nat n)) None = Inr (first_luns (Suc n))"
    and "unexport_luns d (Some (join_with CHR '','' (map show_lun (first_luns (Suc n))))) = Inr (first_luns (Suc n))"
proof -
  have "unat (of_nat n :: 32 word) = n" by (rule unat_first [where n = 256]) (use assms in simp_all)
  then show "unexport_luns (Some (of_nat n)) None = Inr (first_luns (Suc n))"
    by (simp add: unexport_luns_def first_luns_def)
  have "first_luns (Suc n) \<noteq> []" by (simp add: first_luns_def)
  from unexport_shown_luns [OF this, of d] first_luns_ok [of "Suc n"] assms
  show "unexport_luns d (Some (join_with CHR '','' (map show_lun (first_luns (Suc n))))) = Inr (first_luns (Suc n))"
    by simp
qed

text \<open>What a run of the lines creates and deletes, as the shell reads the script.\<close>

definition created_backstores :: "string \<Rightarrow> string list" where
  "created_backstores s = names_after ''/backstores/pscsi create '' (text_lines s)"

definition deleted_backstores :: "string \<Rightarrow> string list" where
  "deleted_backstores s = names_after ''/backstores/pscsi delete '' (text_lines s)"

definition created_targets :: "string \<Rightarrow> string list" where
  "created_targets s = names_after ''/iscsi create '' (text_lines s)"

definition deleted_targets :: "string \<Rightarrow> string list" where
  "deleted_targets s = names_after ''/iscsi delete '' (text_lines s)"

definition created_luns :: "string \<Rightarrow> string \<Rightarrow> string list" where
  "created_luns base s = names_after (base @ ''/luns/ create /backstores/pscsi/'') (text_lines s)"

definition deleted_luns :: "string \<Rightarrow> string \<Rightarrow> string list" where
  "deleted_luns base s = names_after (base @ ''/luns/ delete lun'') (text_lines s)"

lemma export_undone:
  fixes style :: IscsiShellPathStyle and port :: "16 word"
  assumes i: "list_all is_id_char i" and q: "plain_argument iqn" "CHR '' '' \<notin> set iqn" and ip: "plain_argument ip"
    and nodes: "list_all plain_argument (ch # ps)" "length ps < 256"
  defines "s1 \<equiv> script_of (library_export_phase1_targetcli_script_with_exit i ch ps)"
    and "s2 \<equiv> script_of (library_export_phase2_targetcli_script i iqn ps ip port style)"
    and "u \<equiv> script_of (library_unexport_targetcli_script i iqn (first_luns (Suc (length ps))) style)"
    and "base \<equiv> iscsi_export_tpg_base style iqn"
  shows "deleted_backstores u = rev (created_backstores s1) \<and> created_luns base s2 = created_backstores s1 \<and>
    deleted_targets u = [iqn] \<and> created_targets s2 = [iqn] \<and>
    deleted_luns base u = map show_nat (rev [0..<length (created_luns base s2)])"
proof -
  let ?luns = "first_luns (Suc (length ps))"
  have shown: "map show_lun (rev (sort ?luns)) = map show_nat (rev [0..<Suc (length ps)])"
  proof -
    have "sort ?luns = ?luns" by (rule sorted_first_luns) (use nodes(2) in simp)
    moreover have "map show_lun ?luns = map show_nat [0..<Suc (length ps)]"
      using nodes(2) unat_first [of _ 256] by (auto simp: first_luns_def show_lun_def simp del: upt_Suc)
    ultimately show ?thesis by (metis rev_map)
  qed
  have "text_lines s1 = library_export_phase1_targetcli_script_with_exit i ch ps"
    unfolding s1_def using phase1_lines [OF i] nodes(1) by simp
  moreover have "text_lines s2 = library_export_phase2_targetcli_script i iqn ps ip port style"
    unfolding s2_def by (rule phase2_lines [OF i q(1) ip])
  moreover have "text_lines u = library_unexport_targetcli_script i iqn ?luns style"
    unfolding u_def by (rule unexport_lines [OF i q(1)])
  moreover have "names_after ''/backstores/pscsi create '' [''exit''] = []" by code_simp
  ultimately show ?thesis
    using phase1_creates [OF i, where ch = ch and ps = ps]
      phase2_names [OF i q(2), where style = style and ps = ps and ip = ip and port = port]
      unexport_names [OF i q(2), where luns = ?luns and style = style] shown
    by (simp add: deleted_backstores_def created_backstores_def created_luns_def deleted_targets_def created_targets_def
        deleted_luns_def base_def library_export_phase1_targetcli_script_with_exit_def)
      (simp add: backstores_of_def)
qed

text \<open>Undoing.\<close>

theorem unexport_undoes_export:
  assumes "validate_export_id i = Inr ()" "plain_argument iqn" "CHR '' '' \<notin> set iqn" "plain_argument ip"
    and "list_all plain_argument (ch # ps)" "length ps < 256"
    and "unexport_luns (Some (of_nat (length ps))) None = Inr luns \<or>
      unexport_luns d (Some (join_with CHR '','' (map show_lun (first_luns (Suc (length ps)))))) = Inr luns"
    and "s1 = script_of (library_export_phase1_targetcli_script_with_exit i ch ps)"
    and "s2 = script_of (library_export_phase2_targetcli_script i iqn ps ip port style)"
    and "u = script_of (library_unexport_targetcli_script i iqn luns style)"
    and "base = iscsi_export_tpg_base style iqn"
  shows "deleted_backstores u = rev (created_backstores s1) \<and> created_luns base s2 = created_backstores s1 \<and>
    deleted_targets u = [iqn] \<and> created_targets s2 = [iqn] \<and>
    deleted_luns base u = map show_nat (rev [0..<length (created_luns base s2)])"
proof -
  have "list_all is_id_char i" using assms(1) by (simp add: valid_id)
  moreover have "luns = first_luns (Suc (length ps))"
    using assms(7) unexport_luns_of_export(1) [OF assms(6)]
      unexport_luns_of_export(2) [OF assms(6), of d] by auto
  ultimately show ?thesis using export_undone [OF _ assms(2-6)] unfolding assms(8-11) by blast
qed

theorem unexport_undoes_export_witness:
  "deleted_backstores (script_of (library_unexport_targetcli_script ''e'' ''iqn.2026-05.a:b'' [0, 1] Tpg1)) = [''e_dr0'', ''e_ch'']"
proof -
  have id: "validate_export_id ''e'' = Inr ()" and "plain_argument ''iqn.2026-05.a:b''" "plain_argument ''::''"
    "list_all plain_argument [''/dev/sg1'', ''/dev/sg2'']" "unexport_luns (Some 1) None = Inr [0, 1]"
    "rev (created_backstores (script_of (library_export_phase1_targetcli_script_with_exit ''e'' ''/dev/sg1'' [''/dev/sg2'']))) = [''e_dr0'', ''e_ch'']"
    by code_simp+
  then show ?thesis
    using unexport_undoes_export [OF id, where iqn = "''iqn.2026-05.a:b''" and ip = "''::''" and ch = "''/dev/sg1''"
        and ps = "[''/dev/sg2'']" and luns = "[0, 1]" and style = Tpg1 and port = 3260, OF _ _ _ _ _ _ refl refl refl refl]
    by simp
qed

lemma tool_export_accepted:
  assumes "tool_main h tc cli x = (p, y)" "po_success p" "\<not> ic_dry_run cli"
    and "ic_command cli = LibraryExport i iqn changer drvs lun_map ip port"
  obtains ch ps style p1 x1 p2 where
    "validate_export_id i = Inr ()" "validate_iqn iqn = Inr ()" "drvs \<noteq> []"
    "validate_sg_path h changer = Inr ch" "sg_paths h drvs = Inr ps"
    "resolve_iscsi_shell_path_style h cli = Inr style"
    "tc (ic_sudo cli) (script_of (library_export_phase1_targetcli_script_with_exit i ch ps)) x = (Inr p1, x1)"
    "po_success p1" "\<not> library_export_phase1_stderr_fatal (po_err p1)"
    "tc (ic_sudo cli) (script_of (library_export_phase2_targetcli_script i iqn ps ip port style)) x1 = (Inr p2, y)"
    "po_success p2" "\<not> library_export_phase2_stderr_fatal (po_err p2)"
proof -
  obtain t' where t': "cmd_library_export h tc cli i iqn changer drvs lun_map ip port \<lparr>ts_target = x, ts_out = [], ts_err = []\<rparr> = (Inr (), t')"
    and y: "y = ts_target t'"
    using assms by (auto simp: tool_main_def run_tool_def po_success_def split: prod.splits sum.splits)
  from t' assms(3) show ?thesis
    by (elim export_runs) (auto simp: y intro: that)
qed

text \<open>C33: success.\<close>

theorem library_export_is_all_or_failure:
  assumes "tool_main h tc cli x = (p, y)" and "po_code p = Some 0"
    and "ic_command cli = LibraryExport i iqn changer drvs lun_map ip port"
  shows "if ic_dry_run cli then y = x
    else \<exists>ch ps style p1 x1 p2.
      validate_sg_path h changer = Inr ch \<and> sg_paths h drvs = Inr ps \<and> length ps = length drvs \<and> ps \<noteq> [] \<and>
      tc (ic_sudo cli) (script_of (library_export_phase1_targetcli_script_with_exit i ch ps)) x = (Inr p1, x1) \<and>
      po_success p1 \<and> \<not> library_export_phase1_stderr_fatal (po_err p1) \<and>
      tc (ic_sudo cli) (script_of (library_export_phase2_targetcli_script i iqn ps ip port style)) x1 = (Inr p2, y) \<and>
      po_success p2 \<and> \<not> library_export_phase2_stderr_fatal (po_err p2)"
proof (cases "ic_dry_run cli")
  case True
  with dry_run_leaves_target [OF this, of h tc x] assms(1) show ?thesis by simp
next
  case False
  have "po_success p" using assms(2) by (simp add: po_success_def)
  then obtain ch ps style p1 x1 p2 where
    "validate_sg_path h changer = Inr ch" and ps: "sg_paths h drvs = Inr ps" and "drvs \<noteq> []" and
    "tc (ic_sudo cli) (script_of (library_export_phase1_targetcli_script_with_exit i ch ps)) x = (Inr p1, x1)"
    "po_success p1" "\<not> library_export_phase1_stderr_fatal (po_err p1)"
    "tc (ic_sudo cli) (script_of (library_export_phase2_targetcli_script i iqn ps ip port style)) x1 = (Inr p2, y)"
    "po_success p2" "\<not> library_export_phase2_stderr_fatal (po_err p2)"
    by (rule tool_export_accepted [OF assms(1) _ False assms(3)])
  moreover from sg_paths_length [OF ps] \<open>drvs \<noteq> []\<close> have "length ps = length drvs" "ps \<noteq> []" by auto
  ultimately show ?thesis using False by auto
qed


text \<open>A host with two character devices, and a shell that remembers its scripts.\<close>

definition sample_tool_host :: tool_host where
  "sample_tool_host =
     \<lparr>th_shell_path = None, th_configfs = True, th_which = True, th_read = (\<lambda>_. Inl ''none''),
      th_stat = (\<lambda>p. if p \<in> {''/dev/sg1'', ''/dev/sg2''} then Inr CharDevice else Inl ''none''),
      th_canonical = (\<lambda>_. None), th_typed = []\<rparr>"

definition sample_targetcli :: "string list targetcli" where
  "sample_targetcli sudo s x = (Inr \<lparr>po_code = Some 0, po_out = [], po_err = []\<rparr>, x @ [s])"

definition sample_export_cli :: IscsiCli where
  "sample_export_cli =
     \<lparr>ic_sudo = False, ic_dry_run = False, ic_shell_path = None,
      ic_command = LibraryExport ''e'' ''iqn.2026-05.a:b'' ''/dev/sg1'' [''/dev/sg2''] None ''::'' 3260\<rparr>"

theorem library_export_is_all_or_failure_witness:
  "\<exists>p y. tool_main sample_tool_host sample_targetcli sample_export_cli [] = (p, y) \<and> length y = 2 \<and>
    (\<exists>p1 x1. sample_targetcli False (hd y) [] = (Inr p1, x1))"
proof -
  obtain p y where r: "tool_main sample_tool_host sample_targetcli sample_export_cli [] = (p, y)" by fastforce
  have "po_code (fst (tool_main sample_tool_host sample_targetcli sample_export_cli [])) = Some 0" by code_simp
  with r have code: "po_code p = Some 0" by simp
  have cmd: "ic_command sample_export_cli = LibraryExport ''e'' ''iqn.2026-05.a:b'' ''/dev/sg1'' [''/dev/sg2''] None ''::'' 3260"
    and "\<not> ic_dry_run sample_export_cli" and "\<not> ic_sudo sample_export_cli"
    by (simp_all add: sample_export_cli_def)
  with library_export_is_all_or_failure [OF r code cmd] obtain s1 s2 p1 x1 p2 where
    "sample_targetcli False s1 [] = (Inr p1, x1)" "sample_targetcli False s2 x1 = (Inr p2, y)"
    by auto
  with r show ?thesis by (auto simp: sample_targetcli_def)
qed

end
