(* ===== verification/Lsscsi.thy ===== *)
theory Lsscsi
  imports Geometry
begin

text \<open>
  The search for the device nodes of a library in the listing of \<^verbatim>\<open>lsscsi -g\<close> (\<^verbatim>\<open>web.rs\<close>): the lines
  of the kernel module grouped by SCSI host, the choice of the host of a library, and the scan that
  asks for a rescan of the host once when there are too few drives.

  Errors are a datatype of their own here; where the program looks for a part of a message to tell
  errors apart, the model looks at the constructor.
\<close>

section \<open>Lines\<close>

text \<open>The fields of \<open>[host:channel:target:lun]\<close> at the start of a line.\<close>

definition bracket_fields :: "string \<Rightarrow> string list option" where
  "bracket_fields line =
     (let t = trim_start line
      in if t = [] \<or> hd t \<noteq> CHR ''['' \<or> CHR '']'' \<notin> set t then None
         else Some (split_on CHR '':'' (takeWhile (\<lambda>c. c \<noteq> CHR '']'') (tl t))))"

definition scsi_host_from_lsscsi_line :: "string \<Rightarrow> nat option" where
  "scsi_host_from_lsscsi_line line =
     Option.bind (bracket_fields line) (\<lambda>fs. parse_unsigned u32_max (hd fs))"

definition scsi_lun_from_lsscsi_line :: "string \<Rightarrow> nat option" where
  "scsi_lun_from_lsscsi_line line =
     Option.bind (bracket_fields line) (\<lambda>fs. if 3 < length fs then parse_unsigned u32_max (fs ! 3) else None)"

definition lsscsi_line_is_vtl :: "string \<Rightarrow> bool" where
  "lsscsi_line_is_vtl line = contains_sub ''VTL'' line"

definition second_word :: "string \<Rightarrow> string option" where
  "second_word line = (case split_whitespace line of _ # w # _ \<Rightarrow> Some w | _ \<Rightarrow> None)"

definition lsscsi_line_is_changer :: "string \<Rightarrow> bool" where
  "lsscsi_line_is_changer line = (lsscsi_line_is_vtl line \<and> second_word line = Some ''mediumx'')"

definition lsscsi_line_is_tape_drive :: "string \<Rightarrow> bool" where
  "lsscsi_line_is_tape_drive line = (lsscsi_line_is_vtl line \<and> second_word line = Some ''tape'')"

definition last_sg :: "string \<Rightarrow> string option" where
  "last_sg line =
     (case filter (starts_with ''/dev/sg'') (split_whitespace line) of [] \<Rightarrow> None | sgs \<Rightarrow> Some (last sgs))"

section \<open>Groups\<close>

record VtlHostSg =
  hs_changer :: "(nat \<times> string) option"
  hs_drives :: "(nat \<times> string) list"

definition no_devices :: VtlHostSg where
  "no_devices = \<lparr>hs_changer = None, hs_drives = []\<rparr>"

text \<open>\<^verbatim>\<open>BTreeMap::entry(h).or_default()\<close> and an update of the value: a list ordered by its keys.\<close>

fun entry_update :: "nat \<Rightarrow> (VtlHostSg \<Rightarrow> VtlHostSg) \<Rightarrow> (nat \<times> VtlHostSg) list \<Rightarrow> (nat \<times> VtlHostSg) list" where
  "entry_update h f [] = [(h, f no_devices)]"
| "entry_update h f ((k, g) # m) =
     (if h < k then (h, f no_devices) # (k, g) # m
      else if h = k then (k, f g) # m
      else (k, g) # entry_update h f m)"

definition add_changer :: "nat \<Rightarrow> string \<Rightarrow> VtlHostSg \<Rightarrow> VtlHostSg" where
  "add_changer lun sg g =
     (case hs_changer g of
        None \<Rightarrow> g\<lparr>hs_changer := Some (lun, sg)\<rparr>
      | Some (ol, _) \<Rightarrow> if lun < ol then g\<lparr>hs_changer := Some (lun, sg)\<rparr> else g)"

definition add_line :: "string \<Rightarrow> nat \<Rightarrow> string \<Rightarrow> VtlHostSg \<Rightarrow> VtlHostSg" where
  "add_line line lun sg g =
     (if lsscsi_line_is_changer line then add_changer lun sg g
      else if lsscsi_line_is_tape_drive line then g\<lparr>hs_drives := hs_drives g @ [(lun, sg)]\<rparr>
      else g)"

text \<open>What a line adds, if it names a host and a generic device.\<close>

definition line_device :: "string \<Rightarrow> (nat \<times> nat \<times> string) option" where
  "line_device line =
     (if \<not> lsscsi_line_is_vtl line then None
      else case scsi_host_from_lsscsi_line line of
          None \<Rightarrow> None
        | Some h \<Rightarrow>
            (case last_sg line of
               None \<Rightarrow> None
             | Some sg \<Rightarrow> Some (h, (case scsi_lun_from_lsscsi_line line of None \<Rightarrow> 999 | Some n \<Rightarrow> n), sg)))"

definition group_line :: "string \<Rightarrow> (nat \<times> VtlHostSg) list \<Rightarrow> (nat \<times> VtlHostSg) list" where
  "group_line line m =
     (case line_device line of
        None \<Rightarrow> m
      | Some (h, lun, sg) \<Rightarrow> entry_update h (add_line line lun sg) m)"

definition order_drives :: "VtlHostSg \<Rightarrow> VtlHostSg" where
  "order_drives g = g\<lparr>hs_drives := dedup_by snd (sort_key fst (hs_drives g))\<rparr>"

definition parse_lsscsi_vtl_grouped :: "string \<Rightarrow> (nat \<times> VtlHostSg) list" where
  "parse_lsscsi_vtl_grouped stdout =
     map (\<lambda>(h, g). (h, order_drives g)) (fold group_line (text_lines stdout) [])"

section \<open>Choosing a host\<close>

datatype scan_error =
    NoVtlDevices
  | NoCompleteHost
  | LibraryWithoutDrives
  | TooFewDrives nat "(nat \<times> nat \<times> bool) list"
  | TooFewAfterRescan nat "(nat \<times> nat \<times> bool) list"
  | PreferredHostUnfit nat nat "nat list"
  | SeveralHosts nat "nat list"
  | LsscsiFailed
  | NoExportedLibrary VtlError
  | ScanLibraryNotFound string
  | ScanFailed VtlError

definition fits :: "nat \<Rightarrow> VtlHostSg \<Rightarrow> bool" where
  "fits n g = (hs_changer g \<noteq> None \<and> n \<le> length (hs_drives g))"

definition group_summary :: "(nat \<times> VtlHostSg) list \<Rightarrow> (nat \<times> nat \<times> bool) list" where
  "group_summary groups = map (\<lambda>(h, g). (h, length (hs_drives g), hs_changer g \<noteq> None)) groups"

definition host_devices :: "nat option \<Rightarrow> nat \<times> VtlHostSg \<Rightarrow> nat \<times> string \<times> string list" where
  "host_devices n p =
     (fst p, snd (the (hs_changer (snd p))),
      map snd (case n of None \<Rightarrow> hs_drives (snd p) | Some k \<Rightarrow> take k (hs_drives (snd p))))"

definition pick_vtl_host_for_scan ::
    "(nat \<times> VtlHostSg) list \<Rightarrow> int option \<Rightarrow> nat option \<Rightarrow> scan_error + (nat \<times> string \<times> string list)" where
  "pick_vtl_host_for_scan groups expected wanted =
     (if groups = [] then Inl NoVtlDevices
      else case expected of
          None \<Rightarrow>
            (case List.find (\<lambda>(h, g). hs_changer g \<noteq> None \<and> hs_drives g \<noteq> []) groups of
               Some p \<Rightarrow> Inr (host_devices None p)
             | None \<Rightarrow> Inl NoCompleteHost)
        | Some e \<Rightarrow>
            if e = 0 then Inl LibraryWithoutDrives
            else let n = nat e; hits = filter (\<lambda>(h, g). fits n g) groups
              in if hits = [] then Inl (TooFewDrives n (group_summary groups))
                 else case wanted of
                     Some want \<Rightarrow>
                       (case filter (\<lambda>(h, g). h = want) hits of
                          [] \<Rightarrow> Inl (PreferredHostUnfit want n (map fst hits))
                        | hit # _ \<Rightarrow> Inr (host_devices (Some n) hit))
                   | None \<Rightarrow>
                       if 1 < length hits then Inl (SeveralHosts n (map fst hits))
                       else Inr (host_devices (Some n) (hd hits)))"

definition infer_prefer_scsi_host ::
    "(nat \<times> VtlHostSg) list \<Rightarrow> nat option \<Rightarrow> nat option \<Rightarrow> nat option" where
  "infer_prefer_scsi_host groups ordinal wanted =
     (case wanted of
        Some h \<Rightarrow> Some h
      | None \<Rightarrow>
          (case ordinal of
             None \<Rightarrow> None
           | Some i \<Rightarrow>
               let hosts = sort (map fst groups) in if i < length hosts then Some (hosts ! i) else None))"

definition pick_vtl_scan_from_stdout ::
    "string \<Rightarrow> int \<Rightarrow> nat option \<Rightarrow> nat option \<Rightarrow> scan_error + (nat \<times> string \<times> string list)" where
  "pick_vtl_scan_from_stdout stdout drvs wanted ordinal =
     (let groups = parse_lsscsi_vtl_grouped stdout
      in pick_vtl_host_for_scan groups (Some drvs) (infer_prefer_scsi_host groups ordinal wanted))"

text \<open>The tape device and the changer device on the line of a generic device.\<close>

definition first_path_on_line :: "string \<Rightarrow> string \<Rightarrow> string \<Rightarrow> string option" where
  "first_path_on_line prefix stdout sg =
     (case List.find (\<lambda>l. contains_sub sg l \<and> lsscsi_line_is_vtl l) (text_lines stdout) of
        None \<Rightarrow> None
      | Some l \<Rightarrow> List.find (starts_with prefix) (split_whitespace l))"

definition st_path_for_sg_in_lsscsi :: "string \<Rightarrow> string \<Rightarrow> string option" where
  "st_path_for_sg_in_lsscsi = first_path_on_line ''/dev/st''"

definition sch_path_for_sg_in_lsscsi :: "string \<Rightarrow> string \<Rightarrow> string option" where
  "sch_path_for_sg_in_lsscsi = first_path_on_line ''/dev/sch''"

section \<open>The scan\<close>

definition lsscsi_g_stdout :: "outside \<Rightarrow> (scan_error, string) site_prog" where
  "lsscsi_g_stdout out =
     bindp (ask (o_lsscsi out)) (\<lambda>t. case t of None \<Rightarrow> fail LsscsiFailed | Some s \<Rightarrow> ret s)"

text \<open>The position of the host in the listing; without a scan file or of another driver it is left alone.\<close>

definition host_position :: "nat \<Rightarrow> scsi_host list \<Rightarrow> nat option" where
  "host_position host hs =
     (case List.find (\<lambda>(i, h). host_name h = ''host'' @ show_nat host) (List.enumerate 0 hs) of
        Some (i, h) \<Rightarrow>
          if host_scan h \<and> trim (case host_proc h of None \<Rightarrow> [] | Some s \<Rightarrow> s) = ''vtl'' then Some i else None
      | None \<Rightarrow> None)"

definition scsi_rescan_scsi_host :: "outside \<Rightarrow> nat \<Rightarrow> ('e, bool) site_prog" where
  "scsi_rescan_scsi_host out host =
     bindp (ask (o_scsi_hosts out)) (\<lambda>hs.
       case Option.bind hs (host_position host) of
         None \<Rightarrow> ret False
       | Some i \<Rightarrow> write_scans out [i])"

definition rescan_vtl_for_library_scan :: "outside \<Rightarrow> string \<Rightarrow> nat option \<Rightarrow> ('e, unit) site_prog" where
  "rescan_vtl_for_library_scan out stdout ordinal =
     (case infer_prefer_scsi_host (parse_lsscsi_vtl_grouped stdout) ordinal None of
        Some h \<Rightarrow> bindp (scsi_rescan_scsi_host out h) (\<lambda>_. ret ())
      | None \<Rightarrow> bindp (scsi_rescan_vtl_hosts out) (\<lambda>_. ret ()))"

definition library_ordinal :: "db \<Rightarrow> int \<Rightarrow> nat option" where
  "library_ordinal d lib =
     (case online_library_export_index d lib of
        Inl _ \<Rightarrow> None
      | Inr i \<Rightarrow> Some (if VTL_KERNEL_MAX_ONLINE_LIBRARIES \<le> i then VTL_KERNEL_MAX_ONLINE_LIBRARIES - 1 else i))"

definition scan_library :: "string \<Rightarrow> (scan_error, nat \<times> nat option) site_prog" where
  "scan_library name =
     thenp (map_err ScanFailed (on_world init_db))
     (thenp (map_err NoExportedLibrary (on_world build_vtl_instances_kernel_spec))
     (bindp (map_err (\<lambda>e. case e of LibraryNotFound _ \<Rightarrow> ScanLibraryNotFound name | _ \<Rightarrow> ScanFailed e)
               (on_world (db_read (\<lambda>d. resolve_library_id d name)))) (\<lambda>lib.
        gets (\<lambda>s. (drive_count (w_db (st_world s)) lib, library_ordinal (w_db (st_world s)) lib)))))"

definition scan_vtl_library_blocking ::
    "outside \<Rightarrow> string \<Rightarrow> nat option \<Rightarrow> (scan_error, string \<times> nat \<times> string \<times> string list) site_prog" where
  "scan_vtl_library_blocking out name wanted =
     bindp (scan_library name) (\<lambda>(n, ordinal).
     bindp (lsscsi_g_stdout out) (\<lambda>stdout.
       case pick_vtl_scan_from_stdout stdout (int n) wanted ordinal of
         Inr found \<Rightarrow> ret (stdout, found)
       | Inl (TooFewDrives k s) \<Rightarrow>
           if n = 0 then fail (TooFewDrives k s)
           else
             thenp (rescan_vtl_for_library_scan out stdout ordinal)
             (bindp (lsscsi_g_stdout out) (\<lambda>again.
               case pick_vtl_scan_from_stdout again (int n) wanted ordinal of
                 Inr found \<Rightarrow> ret (again, found)
               | Inl (TooFewDrives k' s') \<Rightarrow> fail (TooFewAfterRescan k' s')
               | Inl e \<Rightarrow> fail e))
       | Inl e \<Rightarrow> fail e))"

section \<open>What the groups contain\<close>

lemma keys_entry_update:
  "set (map fst (entry_update h f m)) = insert h (set (map fst m))"
  by (induction h f m rule: entry_update.induct) auto

lemma sorted_entry_update:
  "sorted_wrt (<) (map fst m) \<Longrightarrow> sorted_wrt (<) (map fst (entry_update h f m))"
proof (induction h f m rule: entry_update.induct)
  case (2 h f k g m)
  then show ?case using keys_entry_update [of h f m] by (fastforce simp: image_iff)
qed simp

lemma map_of_entry_update:
  "sorted_wrt (<) (map fst m) \<Longrightarrow>
   map_of (entry_update h f m) k =
     (if k = h then Some (f (case map_of m h of None \<Rightarrow> no_devices | Some g \<Rightarrow> g)) else map_of m k)"
proof (induction h f m rule: entry_update.induct)
  case (2 h f a g m)
  have "map_of m h = None" if "h < a"
    using "2.prems" that by (fastforce simp: map_of_eq_None_iff)
  with 2 show ?case by (auto split: option.splits)
qed simp

text \<open>The devices of one host, in the order of the lines: the reference for the grouping.\<close>

definition devices_of :: "(string \<Rightarrow> bool) \<Rightarrow> nat \<Rightarrow> string list \<Rightarrow> (nat \<times> string) list" where
  "devices_of kind h ls =
     List.map_filter (\<lambda>l. case line_device l of
        Some (k, d) \<Rightarrow> if k = h \<and> kind l then Some d else None | None \<Rightarrow> None) ls"

definition drive_line :: "string \<Rightarrow> bool" where
  "drive_line l = (lsscsi_line_is_tape_drive l \<and> \<not> lsscsi_line_is_changer l)"

fun first_least :: "(nat \<times> string) list \<Rightarrow> (nat \<times> string) option" where
  "first_least [] = None"
| "first_least (d # ds) =
     (case first_least ds of None \<Rightarrow> Some d | Some e \<Rightarrow> if fst e < fst d then Some e else Some d)"

lemma first_least_snoc:
  "first_least (ds @ [d]) =
     (case first_least ds of None \<Rightarrow> Some d | Some e \<Rightarrow> if fst d < fst e then Some d else Some e)"
  by (induction ds) (auto split: option.splits)

lemma first_least_None [simp]: "first_least ds = None \<longleftrightarrow> ds = []"
  by (cases ds) (auto split: option.splits)

lemma first_least_min: "first_least ds = Some d \<Longrightarrow> d \<in> set ds \<and> (\<forall>e \<in> set ds. fst d \<le> fst e)"
proof (induction ds arbitrary: d)
  case (Cons x ds)
  then show ?case by (cases "first_least ds") (auto split: if_splits)
qed simp

lemma devices_of_snoc:
  "devices_of kind h (ls @ [l]) = devices_of kind h ls @
     (case line_device l of Some (k, d) \<Rightarrow> if k = h \<and> kind l then [d] else [] | None \<Rightarrow> [])"
  by (auto simp: devices_of_def List.map_filter_def split: option.splits)

lemma add_line_devices:
  assumes "hs_changer g = first_least (devices_of lsscsi_line_is_changer h ls) \<and> hs_drives g = devices_of drive_line h ls"
    and "line_device l = Some (h, lun, sg)"
  shows "hs_changer (add_line l lun sg g) = first_least (devices_of lsscsi_line_is_changer h (ls @ [l])) \<and>
    hs_drives (add_line l lun sg g) = devices_of drive_line h (ls @ [l])"
proof (cases "lsscsi_line_is_changer l")
  case True
  with assms show ?thesis
    by (simp add: add_line_def add_changer_def devices_of_snoc first_least_snoc drive_line_def split: option.split)
next
  case False
  with assms show ?thesis
    by (simp add: add_line_def devices_of_snoc drive_line_def)
qed

lemma group_fold:
  "sorted_wrt (<) (map fst (fold group_line ls [])) \<and>
   (case map_of (fold group_line ls []) h of
      None \<Rightarrow> devices_of lsscsi_line_is_changer h ls = [] \<and> devices_of drive_line h ls = []
    | Some g \<Rightarrow> hs_changer g = first_least (devices_of lsscsi_line_is_changer h ls) \<and>
        hs_drives g = devices_of drive_line h ls)"
proof (induction ls rule: rev_induct)
  case Nil
  show ?case by (simp add: devices_of_def List.map_filter_def)
next
  case (snoc l ls)
  show ?case
  proof (cases "line_device l")
    case None
    then have "group_line l m = m" for m by (simp add: group_line_def)
    with None snoc show ?thesis by (simp add: devices_of_snoc cong: option.case_cong)
  next
    case (Some p)
    obtain k lun sg where p: "p = (k, lun, sg)" by (cases p) auto
    let ?m = "fold group_line ls []"
    have m: "fold group_line (ls @ [l]) [] = entry_update k (add_line l lun sg) ?m"
      using Some by (simp add: group_line_def [of l] p)
    have sorted: "sorted_wrt (<) (map fst ?m)" using snoc by simp
    show ?thesis
    proof (cases "k = h")
      case False
      then have "map_of (entry_update k (add_line l lun sg) ?m) h = map_of ?m h"
        by (simp add: map_of_entry_update [OF sorted])
      moreover have "devices_of kind h (ls @ [l]) = devices_of kind h ls" for kind
        using False Some by (simp add: devices_of_snoc p)
      ultimately show ?thesis using snoc sorted_entry_update [OF sorted] unfolding m
        by (cases "map_of ?m h") simp_all
    next
      case True
      let ?g = "case map_of ?m h of None \<Rightarrow> no_devices | Some g \<Rightarrow> g"
      have g: "hs_changer ?g = first_least (devices_of lsscsi_line_is_changer h ls) \<and>
          hs_drives ?g = devices_of drive_line h ls"
        using snoc by (auto simp: no_devices_def split: option.splits)
      have "hs_changer (add_line l lun sg ?g) = first_least (devices_of lsscsi_line_is_changer h (ls @ [l])) \<and>
          hs_drives (add_line l lun sg ?g) = devices_of drive_line h (ls @ [l])"
        using add_line_devices [OF g Some [unfolded p True]] .
      moreover have "map_of (entry_update k (add_line l lun sg) ?m) h = Some (add_line l lun sg ?g)"
        using True by (simp add: map_of_entry_update [OF sorted])
      ultimately show ?thesis using sorted_entry_update [OF sorted] unfolding m by simp
    qed
  qed
qed

text \<open>A group: the changer with the least number, and the drives by their numbers, once each in a row.\<close>

lemma grouped_host:
  assumes "map_of (parse_lsscsi_vtl_grouped t) h = Some g"
  shows "hs_changer g = first_least (devices_of lsscsi_line_is_changer h (text_lines t)) \<and>
    hs_drives g = dedup_by snd (sort_key fst (devices_of drive_line h (text_lines t)))"
proof -
  obtain g0 where "map_of (fold group_line (text_lines t) []) h = Some g0" "g = order_drives g0"
    using assms by (auto simp: parse_lsscsi_vtl_grouped_def map_of_map)
  with group_fold [of "text_lines t" h] show ?thesis by (simp add: order_drives_def)
qed

lemma grouped_keys: "sorted_wrt (<) (map fst (parse_lsscsi_vtl_grouped t))"
  using group_fold [of "text_lines t"] by (simp add: parse_lsscsi_vtl_grouped_def case_prod_unfold comp_def)

lemma grouped_distinct: "distinct (map fst (parse_lsscsi_vtl_grouped t))"
  using grouped_keys by (simp add: strict_sorted_iff)

lemma devices_of_line:
  "d \<in> set (devices_of kind h ls) \<Longrightarrow> \<exists>l \<in> set ls. kind l \<and> line_device l = Some (h, d)"
  by (auto simp: devices_of_def List.map_filter_def split: option.splits if_splits)

lemma sorted_dedup: "sorted (map fst xs) \<Longrightarrow> sorted (map fst (dedup_by f xs))"
proof (induction f xs rule: dedup_by.induct)
  case (3 f x y xs)
  have "set (dedup_by f (y # xs)) \<subseteq> set (y # xs)" by (rule set_dedup_by)
  with 3 show ?case by (cases "f x = f y") force+
qed simp_all

text \<open>A successful choice, whatever the preference.\<close>

lemma pick_cases:
  assumes "pick_vtl_host_for_scan groups (Some e) wanted = Inr (h, ch, dr)" "0 \<le> e" "distinct (map fst groups)"
  obtains g where "map_of groups h = Some g" "0 < e" "fits (nat e) g" "ch = snd (the (hs_changer g))"
    "dr = map snd (take (nat e) (hs_drives g))" "wanted \<noteq> None \<longrightarrow> wanted = Some h"
    "wanted = None \<longrightarrow> (\<forall>k g'. map_of groups k = Some g' \<longrightarrow> fits (nat e) g' \<longrightarrow> k = h)"
proof -
  let ?hits = "filter (\<lambda>(h, g). fits (nat e) g) groups"
  have pos: "0 < e" using assms by (auto simp: pick_vtl_host_for_scan_def split: if_splits)
  obtain p where p: "p \<in> set ?hits" "(h, ch, dr) = host_devices (Some (nat e)) p"
    and pref: "wanted \<noteq> None \<longrightarrow> wanted = Some (fst p)" and only: "wanted = None \<longrightarrow> ?hits = [p]"
  proof (cases wanted)
    case None
    with assms(1) pos have "\<not> 1 < length ?hits" "?hits \<noteq> []" "Inr (h, ch, dr) = (Inr (host_devices (Some (nat e)) (hd ?hits)) :: scan_error + _)"
      by (auto simp: pick_vtl_host_for_scan_def Let_def split: if_splits)
    then show ?thesis using None by (intro that [of "hd ?hits"]) (cases ?hits; auto)+
  next
    case (Some want)
    with assms(1) pos obtain hit rest where hit: "filter (\<lambda>(h, g). h = want) ?hits = hit # rest"
      and dev: "(h, ch, dr) = host_devices (Some (nat e)) hit"
      by (auto simp: pick_vtl_host_for_scan_def Let_def split: if_splits list.splits)
    from hit have "hit \<in> set (filter (\<lambda>(h, g). h = want) ?hits)" by simp
    then show ?thesis using Some dev by (intro that [of hit]) auto
  qed
  from p(1) have mem: "p \<in> set groups \<and> fits (nat e) (snd p)" by (simp add: case_prod_unfold)
  from p(2) have h: "fst p = h" by (simp add: host_devices_def)
  obtain g where g: "p = (h, g)" "(h, g) \<in> set groups" "fits (nat e) g"
    using mem h by (cases p) simp
  moreover have "map_of groups h = Some g" using g assms(3) by simp
  moreover have "k = h" if "wanted = None" "map_of groups k = Some g'" "fits (nat e) g'" for k g'
  proof -
    from that have "(k, g') \<in> set ?hits" by (auto dest: map_of_SomeD)
    with only that(1) g(1) show ?thesis by simp
  qed
  ultimately show ?thesis using p pos pref by (intro that [of g]) (auto simp: host_devices_def)
qed

end
