(* ===== verification/WebBase.thy ===== *)
theory WebBase
  imports Cli Lsscsi IscsiTool
begin

text \<open>
  What the handlers of the web interface (\<^verbatim>\<open>web.rs\<close>) share: JSON values, requests and responses, the
  state of the server, the cookie of the session, the gate that every request passes, and the check
  of the session that the handlers make themselves.

  The HTTP library is outside: a request is what it has parsed, with the query as pairs and the body
  as a JSON value or the status with which its extractor refuses it; \<open>we_jar\<close> is its cookie jar. The
  texts of pages are names. The order of the steps of one handler is kept; the requests that change
  something follow each other.
\<close>

section \<open>JSON\<close>

datatype json =
    JNull
  | JBool bool
  | JNum int
  | JReal string
  | JStr string
  | JArr "json list"
  | JObj "(string \<times> json) list"

text \<open>
  Decoding into the fields of a structure: a field is found once, or it is missing; twice is an
  error. A missing optional field and \<open>null\<close> are the same. A body may also be an array of the fields
  in their order; such bodies are left out.
\<close>

definition field :: "string \<Rightarrow> (json \<Rightarrow> 'a option) \<Rightarrow> 'a option \<Rightarrow> json \<Rightarrow> 'a option" where
  "field k dec missing j =
     (case j of
        JObj fs \<Rightarrow> (case filter (\<lambda>f. fst f = k) fs of [] \<Rightarrow> missing | [f] \<Rightarrow> dec (snd f) | _ \<Rightarrow> None)
      | _ \<Rightarrow> None)"

definition as_str :: "json \<Rightarrow> string option" where
  "as_str j = (case j of JStr s \<Rightarrow> Some s | _ \<Rightarrow> None)"

definition as_bool :: "json \<Rightarrow> bool option" where
  "as_bool j = (case j of JBool b \<Rightarrow> Some b | _ \<Rightarrow> None)"

definition as_int :: "int \<Rightarrow> int \<Rightarrow> json \<Rightarrow> int option" where
  "as_int a b j = (case j of JNum n \<Rightarrow> if a \<le> n \<and> n \<le> b then Some n else None | _ \<Rightarrow> None)"

fun all_some :: "'a option list \<Rightarrow> 'a list option" where
  "all_some [] = Some []"
| "all_some (x # xs) = Option.bind x (\<lambda>v. map_option (Cons v) (all_some xs))"

definition as_list :: "(json \<Rightarrow> 'a option) \<Rightarrow> json \<Rightarrow> 'a list option" where
  "as_list dec j = (case j of JArr js \<Rightarrow> all_some (map dec js) | _ \<Rightarrow> None)"

definition as_option :: "(json \<Rightarrow> 'a option) \<Rightarrow> json \<Rightarrow> 'a option option" where
  "as_option dec j = (if j = JNull then Some None else map_option Some (dec j))"

definition str_field :: "string \<Rightarrow> json \<Rightarrow> string option" where
  "str_field k = field k as_str None"

definition i32_field :: "string \<Rightarrow> json \<Rightarrow> int option" where
  "i32_field k = field k (as_int (- (2 ^ 31)) (2 ^ 31 - 1)) None"

definition u32_dec :: "json \<Rightarrow> 32 word option" where
  "u32_dec j = map_option word_of_int (as_int 0 (2 ^ 32 - 1) j)"

definition flag_field :: "string \<Rightarrow> json \<Rightarrow> bool option" where
  "flag_field k = field k as_bool (Some False)"

definition option_field :: "string \<Rightarrow> (json \<Rightarrow> 'a option) \<Rightarrow> json \<Rightarrow> 'a option option" where
  "option_field k dec = field k (as_option dec) (Some None)"

definition jopt :: "('a \<Rightarrow> json) \<Rightarrow> 'a option \<Rightarrow> json" where
  "jopt f x = (case x of None \<Rightarrow> JNull | Some v \<Rightarrow> f v)"

definition jnat :: "nat \<Rightarrow> json" where
  "jnat n = JNum (int n)"

section \<open>Requests and responses\<close>

datatype http_method = GET | HEAD | POST | OtherMethod

text \<open>A cookie header is \<open>None\<close> when it is not visible ASCII.\<close>

record request =
  rq_method :: http_method
  rq_path :: string
  rq_cookies :: "string option list"
  rq_query :: "(string \<times> string) list"
  rq_body :: "nat + json"

datatype reply = NoBody | Page string | JsonBody json

record response =
  rs_status :: nat
  rs_cookie :: "string option"
  rs_location :: "string option"
  rs_reply :: reply

definition json_response :: "nat \<Rightarrow> json \<Rightarrow> response" where
  "json_response n j = \<lparr>rs_status = n, rs_cookie = None, rs_location = None, rs_reply = JsonBody j\<rparr>"

definition json_error_response :: "nat \<Rightarrow> string \<Rightarrow> response" where
  "json_error_response n m = json_response n (JObj [(''error'', JStr m)])"

definition plain_response :: "nat \<Rightarrow> response" where
  "plain_response n = \<lparr>rs_status = n, rs_cookie = None, rs_location = None, rs_reply = NoBody\<rparr>"

definition redirect_to :: "string \<Rightarrow> response" where
  "redirect_to p = \<lparr>rs_status = 303, rs_cookie = None, rs_location = Some p, rs_reply = NoBody\<rparr>"

definition html_page :: "string \<Rightarrow> response" where
  "html_page name = \<lparr>rs_status = 200, rs_cookie = None, rs_location = None, rs_reply = Page name\<rparr>"

definition json_cookie_response :: "nat \<Rightarrow> json \<Rightarrow> string option \<Rightarrow> response" where
  "json_cookie_response n j c = (json_response n j)\<lparr>rs_cookie := c\<rparr>"

section \<open>The server\<close>

text \<open>
  The state: what the commands work on, the table of the sessions, the target subsystem of LIO, and
  the calendar (year, month, and a stamp with the seconds) that default names are made of.
\<close>

record 't server =
  sv_site :: site
  sv_auth :: WebState
  sv_target :: 't
  sv_calendar :: "nat \<times> nat \<times> string"

text \<open>
  What is around the server: the answers for the commands, the credentials, the cookie jar, the
  environment of child processes and what they write, the host and the shell of \<^verbatim>\<open>vtladm-iscsi\<close> and
  how the crate \<^verbatim>\<open>clap\<close> reads its arguments, and whether a child process cannot be started.
\<close>

record 't web_env =
  we_cli :: cli_env
  we_jar :: "string option list \<Rightarrow> string option"
  we_patrol_text :: "site \<Rightarrow> string \<times> string"
  we_tool_host :: tool_host
  we_targetcli :: "'t targetcli"
  we_clap :: "string list \<Rightarrow> string + IscsiCli"
  we_no_child :: "string option"
  we_tool_path :: string

type_synonym ('t, 'a) page = "('t server, response, 'a) prog"

definition on_site :: "(site, 'e, 'a) prog \<Rightarrow> ('t server, 'e, 'a) prog" where
  "on_site = on_part sv_site (\<lambda>x s. s\<lparr>sv_site := x\<rparr>)"

text \<open>The credentials are in a file of the same store as the images.\<close>

definition auth_of :: "'t server \<Rightarrow> WebState" where
  "auth_of s = (sv_auth s)\<lparr>aw_fs := w_fs (st_world (sv_site s))\<rparr>"

definition put_auth :: "WebState \<Rightarrow> 't server \<Rightarrow> 't server" where
  "put_auth a s =
     s\<lparr>sv_auth := a, sv_site := (sv_site s)\<lparr>st_world := (st_world (sv_site s))\<lparr>w_fs := aw_fs a\<rparr>\<rparr>\<rparr>"

definition on_auth :: "(WebState, 'e, 'a) prog \<Rightarrow> ('t server, 'e, 'a) prog" where
  "on_auth = on_part auth_of put_auth"

definition env_auth :: "'t web_env \<Rightarrow> auth_env" where
  "env_auth we = ce_auth (we_cli we)"

definition env_out :: "'t web_env \<Rightarrow> outside" where
  "env_out we = ce_out (we_cli we)"

text \<open>The texts of the errors.\<close>

fun error_text :: "(io_error \<Rightarrow> string) \<Rightarrow> VtlError \<Rightarrow> string" where
  "error_text io (DatabaseError m) = ''database error: '' @ m"
| "error_text io (IoError e) = ''IO error: '' @ io e"
| "error_text io (InvalidSize m) = ''invalid size: '' @ m"
| "error_text io (TapeNotFound m) = ''tape not found: '' @ m"
| "error_text io SlotOccupied = ''the slot is occupied''"
| "error_text io SlotEmpty = ''the slot is empty''"
| "error_text io DriveEmpty = ''the drive is empty''"
| "error_text io DriveBusy = ''the drive is busy''"
| "error_text io (InvalidParameter m) = ''invalid parameter: '' @ m"
| "error_text io (PermissionDenied m) = ''permission denied: '' @ m"
| "error_text io NoAvailableSlots = ''no slot available''"
| "error_text io (InvalidTapeName m) = ''invalid tape name: '' @ m"
| "error_text io (QuotaExceeded m) = ''quota exceeded: '' @ m"
| "error_text io (TagNotFound m) = ''tag not found: '' @ m"
| "error_text io (LibraryNotFound m) = ''library not found: '' @ m"
| "error_text io (ShelfNotFound m) = ''shelf not found: '' @ m"
| "error_text io (LibraryExists m) = ''the library exists: '' @ m"
| "error_text io TapeInDrive = ''the tape is in a drive''"
| "error_text io TapeNotOnShelf = ''the tape must be on a shelf''"

definition text_of :: "'t web_env \<Rightarrow> VtlError \<Rightarrow> string" where
  "text_of we = error_text (ae_io_text (env_auth we))"

text \<open>
  The work of a handler: a result is turned into the response, an error into one with the text and
  the given status. An early return of a handler is the error of its program.
\<close>

definition work :: "'t web_env \<Rightarrow> nat \<Rightarrow> (VtlError, 'a) site_prog \<Rightarrow> ('t, 'a) page" where
  "work we n m = map_err (\<lambda>e. json_error_response n (text_of we e)) (on_site m)"

definition answered :: "('t, response) page \<Rightarrow> 't server \<Rightarrow> response \<times> 't server" where
  "answered m s = (case m s of (Inl r, s') \<Rightarrow> (r, s') | (Inr r, s') \<Rightarrow> (r, s'))"

text \<open>The body, which the extractor has decoded or refused before the handler runs.\<close>

definition with_body :: "request \<Rightarrow> (json \<Rightarrow> 'b option) \<Rightarrow> ('b \<Rightarrow> ('t, response) page) \<Rightarrow> ('t, response) page" where
  "with_body rq dec k =
     (case rq_body rq of
        Inl n \<Rightarrow> fail (plain_response n)
      | Inr j \<Rightarrow> (case dec j of None \<Rightarrow> fail (plain_response 422) | Some b \<Rightarrow> k b))"

text \<open>The parameters of the query: a parameter that is there twice or does not parse is refused.\<close>

definition query_field :: "request \<Rightarrow> string \<Rightarrow> (string \<Rightarrow> 'a option) \<Rightarrow> 'a \<Rightarrow> 'a option" where
  "query_field rq k dec missing =
     (case filter (\<lambda>p. fst p = k) (rq_query rq) of [] \<Rightarrow> Some missing | [p] \<Rightarrow> dec (snd p) | _ \<Rightarrow> None)"

definition library_query :: "request \<Rightarrow> string option option" where
  "library_query rq = query_field rq ''library'' (\<lambda>s. Some (Some s)) None"

definition with_query :: "'q option \<Rightarrow> ('q \<Rightarrow> ('t, response) page) \<Rightarrow> ('t, response) page" where
  "with_query q k = (case q of None \<Rightarrow> fail (plain_response 400) | Some v \<Rightarrow> k v)"

definition resolve_library_from_query :: "string option \<Rightarrow> (VtlError, string) site_prog" where
  "resolve_library_from_query q =
     on_world (thenp init_db (bindp (gets w_lib) (\<lambda>cur. db_read (\<lambda>d. resolve_active_library_name d cur q))))"

section \<open>Sessions\<close>

definition session_token :: "'t web_env \<Rightarrow> request \<Rightarrow> string option" where
  "session_token we rq =
     (case we_jar we (rq_cookies rq) of
        None \<Rightarrow> None
      | Some v \<Rightarrow> if trim v = [] then None else Some (trim v))"

definition cookie_part :: "string \<Rightarrow> string option" where
  "cookie_part part =
     (case strip_prefix ''vtl_session='' (trim part) of
        None \<Rightarrow> None
      | Some rest \<Rightarrow> if trim rest = [] then None else Some (trim rest))"

definition session_token_from_cookie_header :: "request \<Rightarrow> string option" where
  "session_token_from_cookie_header rq =
     (case rq_cookies rq of
        Some hv # _ \<Rightarrow>
          (case List.map_filter cookie_part (split_on CHR '';'' hv) of [] \<Rightarrow> None | t # _ \<Rightarrow> Some t)
      | _ \<Rightarrow> None)"

definition session_authenticated :: "'t web_env \<Rightarrow> request \<Rightarrow> ('t server, 'e, bool) prog" where
  "session_authenticated we rq =
     (case session_token_from_cookie_header rq of
        None \<Rightarrow> ret False
      | Some tok \<Rightarrow> bindp (on_auth (session_username (env_auth we) (Some tok))) (\<lambda>u. ret (u \<noteq> None)))"

definition NOT_LOGGED_IN :: string where "NOT_LOGGED_IN = ''not logged in''"

definition require_session :: "'t web_env \<Rightarrow> request \<Rightarrow> ('t, unit) page" where
  "require_session we rq =
     (case session_token we rq of
        None \<Rightarrow> fail (json_error_response 401 NOT_LOGGED_IN)
      | Some tok \<Rightarrow>
          bindp (on_auth (session_username (env_auth we) (Some tok))) (\<lambda>u.
            checkp (u \<noteq> None) (json_error_response 401 ''the session is invalid or has expired'')))"

section \<open>The gate\<close>

definition path_allowed_during_setup :: "http_method \<Rightarrow> string \<Rightarrow> bool" where
  "path_allowed_during_setup m p =
     ((m, p) \<in> {(GET, ''/admin/setup-init''), (GET, ''/api/setup/status''), (POST, ''/api/setup/complete'')})"

definition is_public_route :: "http_method \<Rightarrow> string \<Rightarrow> bool" where
  "is_public_route m p =
     ((m, p) \<in> {(GET, ''/login''), (GET, ''/api/captcha''), (POST, ''/api/login''), (POST, ''/api/logout'')})"

definition is_api :: "request \<Rightarrow> bool" where
  "is_api rq = starts_with ''/api/'' (rq_path rq)"

definition require_authenticated ::
    "'t web_env \<Rightarrow> (request \<Rightarrow> ('t, response) page) \<Rightarrow> request \<Rightarrow> ('t, response) page" where
  "require_authenticated we next_layer rq =
     (if is_public_route (rq_method rq) (rq_path rq) then
        bindp (if rq_path rq = ''/login'' then session_authenticated we rq else ret False) (\<lambda>known.
          if known then ret (redirect_to ''/'') else next_layer rq)
      else
        bindp (session_authenticated we rq) (\<lambda>known.
          if known then
            bindp (gets (\<lambda>s. setup_gate_active (st_world (sv_site s)))) (\<lambda>setup.
              if setup \<and> \<not> path_allowed_during_setup (rq_method rq) (rq_path rq) then
                (if is_api rq
                 then ret (json_response 403 (JObj [(''error'', JStr ''finish the initial configuration first''),
                        (''code'', JStr ''setup_required'')]))
                 else ret (redirect_to ''/admin/setup-init''))
              else next_layer rq)
          else if is_api rq then ret (json_error_response 401 NOT_LOGGED_IN)
          else ret (redirect_to ''/login'')))"

end
