(* ===== verification/WebPages.thy ===== *)
theory WebPages
  imports WebBase
begin

text \<open>
  The part of the web interface (\<^verbatim>\<open>web.rs\<close>) that reports: libraries, tapes, shelves, free slots, the
  details of one library, the configuration, the patrol, and the search for device nodes.
\<close>

section \<open>Shared\<close>

definition product_limits_json :: json where
  "product_limits_json =
     JObj [(''max_online_libraries'', jnat VTL_KERNEL_MAX_ONLINE_LIBRARIES),
           (''max_drives_per_library'', JNum VTL_KERNEL_MAX_DRIVES_PER_LIB),
           (''max_data_slots_per_library'', JNum VTL_KERNEL_MAX_DATA_SLOTS_PER_LIB)]"

definition db_path_json :: "site \<Rightarrow> json" where
  "db_path_json s = JStr (cfg_db_path (w_cfg (st_world s)))"

definition open_db :: "(VtlError, db) site_prog" where
  "open_db = on_world (thenp init_db (gets w_db))"

definition library_db :: "string \<Rightarrow> (VtlError, db \<times> int) site_prog" where
  "library_db lib =
     bindp open_db (\<lambda>d. bindp (on_world (db_read (\<lambda>d. resolve_library_id d lib))) (\<lambda>i. ret (d, i)))"

text \<open>A report on the library of the query: \<open>n\<close> is the status for errors of the report.\<close>

definition library_report ::
    "'t web_env \<Rightarrow> request \<Rightarrow> nat \<Rightarrow> (string \<Rightarrow> db \<Rightarrow> int \<Rightarrow> json) \<Rightarrow> ('t, response) page" where
  "library_report we rq n f =
     with_query (library_query rq) (\<lambda>q.
     bindp (work we 400 (resolve_library_from_query q)) (\<lambda>lib.
     bindp (work we n (library_db lib)) (\<lambda>(d, i). ret (json_response 200 (f lib d i)))))"

section \<open>Libraries\<close>

definition count_lsscsi_vtl_lines :: "outside \<Rightarrow> ('e, nat) site_prog" where
  "count_lsscsi_vtl_lines out =
     bindp (ask (o_lsscsi out)) (\<lambda>t. ret (case t of
        None \<Rightarrow> 0 | Some s \<Rightarrow> length (filter (contains_sub ''VTL'') (text_lines s))))"

definition shown_libraries :: "db \<Rightarrow> lib_row list" where
  "shown_libraries d =
     filter (\<lambda>r. \<not> is_test_only_library_name (lib_name r)) (sort_key lib_name (libs d))"

definition library_json :: "lib_row \<Rightarrow> json" where
  "library_json r =
     JObj [(''id'', JNum (lib_id r)), (''name'', JStr (lib_name r)), (''created_at'', JStr (lib_created r)),
           (''is_offline_storage'', JBool (lib_name r = OFFLINE_LIBRARY_NAME))]"

definition libraries_hint :: "nat \<Rightarrow> nat \<Rightarrow> json" where
  "libraries_hint online lines =
     (if online \<noteq> 0 then JNull
      else if 0 < lines then JStr ''no online library in the database, but the kernel module shows devices: create the library''
      else JStr ''no online library in the database and no devices: load the kernel module, then create the library'')"

definition api_libraries :: "'t web_env \<Rightarrow> request \<Rightarrow> ('t, response) page" where
  "api_libraries we rq =
     bindp (gets (\<lambda>s. db_path_json (sv_site s))) (\<lambda>path.
     bindp (attempt (on_site (bindp open_db (\<lambda>d. bindp (count_lsscsi_vtl_lines (env_out we)) (\<lambda>n. ret (d, n)))))) (\<lambda>r.
       ret (case r of
          Inl e \<Rightarrow> json_response 500 (JObj [(''error'', JStr (text_of we e)), (''db_path'', path)])
        | Inr (d, n) \<Rightarrow>
            let shown = shown_libraries d;
                online = length (filter (\<lambda>l. lib_name l \<noteq> OFFLINE_LIBRARY_NAME) shown)
            in json_response 200 (JObj
                 [(''libraries'', JArr (map library_json shown)), (''db_path'', path),
                  (''online_count'', jnat online), (''vtl_scsi_lines'', jnat n),
                  (''hint'', libraries_hint online n), (''product_limits'', product_limits_json)]))))"

text \<open>The counts of one library, as in the report of the command line.\<close>

definition status_fields :: "string \<Rightarrow> db \<Rightarrow> int \<Rightarrow> (string \<times> json) list" where
  "status_fields name d i =
     [(''library'', JStr name), (''tape_count'', jnat (st_tapes (status_of d i))),
      (''loaded_in_drives'', jnat (st_loaded (status_of d i))), (''drives'', jnat (st_drives (status_of d i))),
      (''data_slots'', jnat (st_slots (status_of d i)))]"

definition api_status :: "'t web_env \<Rightarrow> request \<Rightarrow> ('t, response) page" where
  "api_status we rq = library_report we rq 500 (\<lambda>lib d i. JObj (status_fields lib d i))"

definition export_fields :: "json_codec \<Rightarrow> (VtlError \<Rightarrow> string) \<Rightarrow> db \<Rightarrow> string \<Rightarrow> (string \<times> json) list" where
  "export_fields c txt d name =
     (case load_iscsi_library_export_by_name c d name of
        Inr (Some r) \<Rightarrow>
          [(''iscsi_exported'', JBool True), (''iscsi_iqn'', JStr (iqn r)),
           (''iscsi_export_id'', JStr (export_id r)), (''iscsi_exported_at'', JStr (exported_at r))]
      | Inr None \<Rightarrow> [(''iscsi_exported'', JBool False)]
      | Inl e \<Rightarrow> [(''iscsi_exported'', JNull), (''iscsi_export_error'', JStr (txt e))])"

definition api_libraries_status :: "'t web_env \<Rightarrow> request \<Rightarrow> ('t, response) page" where
  "api_libraries_status we rq =
     bindp (work we 500 open_db) (\<lambda>d.
       ret (json_response 200 (JObj [(''libraries'', JArr (map (\<lambda>l.
          JObj (status_fields (lib_name l) d (lib_id l) @
                export_fields (ce_codec (we_cli we)) (text_of we) d (lib_name l))) (shown_libraries d)))])))"

section \<open>Tapes, shelves and slots\<close>

definition shelf_name_of :: "db \<Rightarrow> tape_row \<Rightarrow> string option" where
  "shelf_name_of d r =
     Option.bind (tape_shelf r) (\<lambda>i. map_option shelf_name (List.find (\<lambda>s. shelf_id s = i) (shelves d)))"

definition tape_fields :: "db \<Rightarrow> tape_row \<Rightarrow> (string \<times> json) list" where
  "tape_fields d r =
     [(''name'', JStr (tape_name r)), (''barcode'', JStr (tape_barcode r)),
      (''capacity_bytes'', jnat (tape_capacity r)), (''used_bytes'', jnat (tape_used r)),
      (''slot'', jopt JNum (tape_slot r))]"

definition in_drive_field :: "db \<Rightarrow> tape_row \<Rightarrow> (string \<times> json) list" where
  "in_drive_field d r = [(''in_drive'', JBool (tape_in_drive d (tape_lib r) (tape_id r)))]"

definition tapes_by_name :: "db \<Rightarrow> int \<Rightarrow> tape_row list" where
  "tapes_by_name d i = sort_key tape_name (filter (\<lambda>r. tape_lib r = i) (tapes d))"

definition api_tapes :: "'t web_env \<Rightarrow> request \<Rightarrow> ('t, response) page" where
  "api_tapes we rq =
     library_report we rq 500 (\<lambda>lib d i.
       JObj [(''library'', JStr lib), (''tapes'', JArr (map (\<lambda>r. JObj (tape_fields d r @
          (case shelf_name_of d r of None \<Rightarrow> [] | Some n \<Rightarrow> [(''shelf_name'', JStr n)]) @ in_drive_field d r))
          (tapes_by_name d i)))])"

definition shelf_json :: "shelf_row \<Rightarrow> json" where
  "shelf_json s = JObj [(''id'', JNum (shelf_id s)), (''name'', JStr (shelf_name s)),
     (''is_default_unused'', JNum (shelf_default s))]"

definition api_shelves :: "'t web_env \<Rightarrow> request \<Rightarrow> ('t, response) page" where
  "api_shelves we rq =
     library_report we rq 400 (\<lambda>lib d i.
       JObj [(''library'', JStr lib),
             (''shelves'', JArr (map shelf_json (sort_key (\<lambda>s. - shelf_default s) (shelves_by_name d i))))])"

definition api_offline_shelves :: "'t web_env \<Rightarrow> request \<Rightarrow> ('t, response) page" where
  "api_offline_shelves we rq =
     bindp (work we 500 (on_world (thenp init_db (bindp ensure_offline_library (\<lambda>i. bindp (gets w_db) (\<lambda>d. ret (d, i)))))))
       (\<lambda>(d, i). ret (json_response 200 (JObj [(''shelves'',
          JArr (map shelf_json (filter (\<lambda>s. shelf_default s = 0) (shelves_by_name d i))))])))"

definition empty_slots :: "db \<Rightarrow> int \<Rightarrow> int list" where
  "empty_slots d i =
     sort (map slot_no (filter (\<lambda>r. slot_lib r = i \<and> slot_tape r = None \<and> slot_ie r = 0) (slots d)))"

definition api_empty_slots :: "'t web_env \<Rightarrow> request \<Rightarrow> ('t, response) page" where
  "api_empty_slots we rq =
     library_report we rq 400 (\<lambda>lib d i.
       JObj [(''library'', JStr lib), (''empty_slots'', JArr (map JNum (empty_slots d i))),
             (''empty_slot_count'', jnat (length (empty_slots d i)))])"

section \<open>The details of a library\<close>

definition changer_rows_json :: "ChangerRow list \<Rightarrow> json" where
  "changer_rows_json rows = JArr (map (\<lambda>r. JObj [(''label'', JStr (row_label r)),
     (''tape_name'', jopt JStr (row_tape r)), (''barcode'', jopt JStr (row_code r))]) rows)"

definition drive_json :: "db \<Rightarrow> drive_row \<Rightarrow> json" where
  "drive_json d k =
     (let t = Option.bind (drive_tape k) (tape_by_id d)
      in JObj [(''drive_id'', JNum (drive_no k)), (''tape_name'', jopt JStr (map_option tape_name t)),
               (''tape_barcode'', jopt JStr (map_option tape_barcode t))])"

definition loaded_shown :: "db \<Rightarrow> int \<Rightarrow> ChangerInventoryDisplay \<Rightarrow> nat" where
  "loaded_shown d i x =
     (if disp_source x = ''kernel'' then length (filter (\<lambda>r. row_tape r \<noteq> None) (disp_drives x))
      else st_loaded (status_of d i))"

definition setting :: "db \<Rightarrow> int \<Rightarrow> string \<Rightarrow> string \<Rightarrow> json" where
  "setting d i key dflt = JStr (case lib_config_get d i key of None \<Rightarrow> dflt | Some v \<Rightarrow> v)"

definition can_delete_online :: "db \<Rightarrow> string \<Rightarrow> bool" where
  "can_delete_online d name =
     (name \<noteq> OFFLINE_LIBRARY_NAME \<and> is_kernel_exported_library_name name \<and> 1 < count_exported_online_libraries d)"

definition library_summary :: "db \<Rightarrow> lib_row \<Rightarrow> ChangerInventoryDisplay \<Rightarrow> json" where
  "library_summary d l x =
     (let i = lib_id l; st = status_of d i
      in JObj
        [(''id'', JNum i), (''name'', JStr (lib_name l)), (''created_at'', JStr (lib_created l)),
         (''is_offline_storage'', JBool (lib_name l = OFFLINE_LIBRARY_NAME)),
         (''tape_count'', jnat (st_tapes st)), (''loaded_in_drives'', jnat (loaded_shown d i x)),
         (''drive_count'', jnat (st_drives st)), (''data_slots'', jnat (st_slots st)),
         (''mail_slots'', jnat (st_mail st)), (''max_drives'', setting d i ''max_drives'' ''2''),
         (''slots'', setting d i ''slots'' ''10''), (''can_delete_online'', JBool (can_delete_online d (lib_name l))),
         (''inventory_source'', JStr (disp_source x))])"

definition library_details :: "db \<Rightarrow> lib_row \<Rightarrow> ChangerInventoryDisplay \<Rightarrow> json" where
  "library_details d l x =
     JObj [(''library'', library_summary d l x),
           (''drives'', JArr (map (drive_json d) (drive_rows d (lib_id l)))),
           (''tapes'', JArr (map (\<lambda>r. JObj (tape_fields d r @ [(''shelf_name'', jopt JStr (shelf_name_of d r))] @
              in_drive_field d r)) (tapes_by_name d (lib_id l)))),
           (''changer'', JObj [(''source'', JStr (disp_source x)), (''data_slots'', changer_rows_json (disp_slots x)),
              (''drives'', changer_rows_json (disp_drives x)), (''mailslots'', changer_rows_json (disp_mail x))])]"

text \<open>The status of an error tells a missing library from the rest.\<close>

definition detail_error :: "'t web_env \<Rightarrow> VtlError \<Rightarrow> response" where
  "detail_error we e =
     (case e of
        LibraryNotFound n \<Rightarrow> json_error_response 404 (''library not found: '' @ n)
      | _ \<Rightarrow> json_error_response 500 (text_of we e))"

definition api_library_detail :: "'t web_env \<Rightarrow> request \<Rightarrow> ('t, response) page" where
  "api_library_detail we rq =
     with_query (library_query rq) (\<lambda>q.
     bindp (work we 400 (resolve_library_from_query q)) (\<lambda>lib.
     thenp (checkp (\<not> is_test_only_library_name lib) (json_error_response 404 ''library not found''))
     (bindp (work we 500 open_db) (\<lambda>_.
      bindp (map_err (detail_error we) (on_site (on_world (db_read (\<lambda>d. resolve_library_id d lib))))) (\<lambda>i.
      bindp (work we 500 (on_world (db_read (\<lambda>d.
               ok_or (List.find (\<lambda>l. lib_id l = i) (libs d)) (DatabaseError ''no row''))))) (\<lambda>l.
      bindp (work we 500 (on_world (changer_inventory_display i))) (\<lambda>x.
      bindp (gets (\<lambda>s. w_db (st_world (sv_site s)))) (\<lambda>d.
        ret (json_response 200 (library_details d l x)))))))))) "

section \<open>The configuration and the patrol\<close>

definition export_json :: "string \<times> IscsiLibraryExportRecord \<Rightarrow> json" where
  "export_json p =
     JObj [(''library'', JStr (fst p)), (''iqn'', JStr (iqn (snd p))), (''export_id'', JStr (export_id (snd p))),
           (''portal'', JStr (portal_ip (snd p) @ '':'' @ show_nat (unat (portal_port (snd p))))),
           (''exported_at'', JStr (exported_at (snd p)))]"

definition fabric_json :: "VtlConfig \<Rightarrow> (string \<times> IscsiLibraryExportRecord) list \<Rightarrow> json" where
  "fabric_json c xs =
     JObj [(''transport'', JStr (as_conf_str (cfg_transport c))), (''iscsi_iqn'', jopt JStr (cfg_iscsi_iqn c)),
           (''iscsi_portals'', jopt JStr (cfg_iscsi_portals c)), (''fc_wwpn'', jopt JStr (cfg_fc_wwpn c)),
           (''db_path'', JStr (cfg_db_path c)), (''tape_dir'', JStr (cfg_tape_dir c)), (''log_dir'', JStr (cfg_log_dir c)),
           (''kernel_vtl_reload_script'', jopt JStr (cfg_kernel_vtl_reload_script c)),
           (''kernel_reload_on_db_change'', JBool (cfg_kernel_reload_on_db_change c)),
           (''kernel_geom_prefer_ioctl'', JBool (cfg_kernel_geom_prefer_ioctl c)), (''vtl_ko'', jopt JStr (cfg_vtl_ko c)),
           (''vtl_reload_scan_delay_ms'', jopt jnat (cfg_vtl_reload_scan_delay_ms c)),
           (''log_max_bytes'', jnat (cfg_log_max_bytes c)), (''iscsi_exports_in_db'', JArr (map export_json xs)),
           (''patrol_hint'', JStr ''run: vtladm patrol  (or GET /api/patrol with session)''),
           (''product_limits'', product_limits_json)]"

definition api_fabric :: "'t web_env \<Rightarrow> request \<Rightarrow> ('t, response) page" where
  "api_fabric we rq =
     bindp (gets (\<lambda>s. w_cfg (st_world (sv_site s)))) (\<lambda>c.
     bindp (attempt (on_site open_db)) (\<lambda>r.
       ret (json_response 200 (fabric_json c
         (case r of
            Inl _ \<Rightarrow> []
          | Inr d \<Rightarrow> (case list_iscsi_library_exports (ce_codec (we_cli we)) d of Inl _ \<Rightarrow> [] | Inr xs \<Rightarrow> xs))))))"

text \<open>
  A child process of the same program: what it changes outside of its memory stays, the
  configuration, the environment and the chosen library of the server are its own.
\<close>

definition child_process :: "cli_env \<Rightarrow> Commands \<Rightarrow> (site, 'e, int) prog" where
  "child_process ce cmd s =
     (case run_main ce (w_env (st_world s)) None cmd s of
        (code, s') \<Rightarrow>
          (Inr code, s'\<lparr>st_world := (st_world s')\<lparr>w_env := w_env (st_world s), w_cfg := w_cfg (st_world s),
             w_lib := w_lib (st_world s)\<rparr>\<rparr>))"

definition patrol_json :: "int \<Rightarrow> string \<times> string \<Rightarrow> json" where
  "patrol_json code txt =
     JObj [(''exit_code'', JNum code), (''stdout'', JStr (fst txt)), (''stderr'', JStr (snd txt)),
           (''ok'', JBool (code = PATROL_EXIT_OK)), (''warn'', JBool (code = PATROL_EXIT_WARN)),
           (''crit'', JBool (code = PATROL_EXIT_CRIT))]"

definition api_patrol_run :: "'t web_env \<Rightarrow> request \<Rightarrow> ('t, response) page" where
  "api_patrol_run we rq =
     thenp (require_session we rq)
     (case we_no_child we of
        Some e \<Rightarrow> ret (json_error_response 500 e)
      | None \<Rightarrow>
          bindp (gets (\<lambda>s. we_patrol_text we (sv_site s))) (\<lambda>txt.
          bindp (on_site (child_process (we_cli we) Patrol)) (\<lambda>code.
            ret (json_response 200 (patrol_json code txt)))))"

section \<open>Device nodes\<close>

fun scan_error_text :: "'t web_env \<Rightarrow> scan_error \<Rightarrow> string" where
  "scan_error_text we NoVtlDevices = ''no VTL device in the output of lsscsi''"
| "scan_error_text we NoCompleteHost = ''no host with a changer and a drive''"
| "scan_error_text we LibraryWithoutDrives = ''the library has no drives''"
| "scan_error_text we (TooFewDrives n hs) = ''no host with at least '' @ show_nat n @ '' drives''"
| "scan_error_text we (TooFewAfterRescan n hs) = ''no host with at least '' @ show_nat n @ '' drives, also after a scan''"
| "scan_error_text we (PreferredHostUnfit h n hs) = ''prefer_scsi_host='' @ show_nat h @ '' does not have the drives''"
| "scan_error_text we (SeveralHosts n hs) = ''several hosts have at least '' @ show_nat n @ '' drives: give prefer_scsi_host''"
| "scan_error_text we LsscsiFailed = ''lsscsi failed''"
| "scan_error_text we (NoExportedLibrary e) = ''no exported library: '' @ text_of we e"
| "scan_error_text we (ScanLibraryNotFound n) = ''library not found: '' @ n"
| "scan_error_text we (ScanFailed e) = text_of we e"

definition scan_error_response :: "'t web_env \<Rightarrow> scan_error \<Rightarrow> response" where
  "scan_error_response we e =
     json_error_response (case e of ScanLibraryNotFound _ \<Rightarrow> 404 | _ \<Rightarrow> 400) (scan_error_text we e)"

definition transport_scan_hint :: "string option \<Rightarrow> string" where
  "transport_scan_hint t =
     (case map_option (\<lambda>s. to_lower (trim s)) t of
        Some k \<Rightarrow>
          if k = ''fc'' then ''FC: the nodes that an FC target has to map''
          else if k = ''iscsi'' then ''iSCSI: the nodes that an export through LIO uses''
          else if k = ''local'' \<or> k = ''scsi'' then ''local SCSI: the nodes for a program on this host''
          else ''the first nodes, as many as the library has drives''
      | None \<Rightarrow> ''the first nodes, as many as the library has drives'')"

definition build_transport_scan_response ::
    "string \<Rightarrow> string \<Rightarrow> nat \<Rightarrow> string \<Rightarrow> string list \<Rightarrow> string option \<Rightarrow> json" where
  "build_transport_scan_response lib stdout host ch sgs transport =
     JObj [(''library'', JStr lib), (''picked_scsi_host'', jnat host), (''changer_sg'', JStr ch),
           (''drive_sg'', JArr (map JStr sgs)),
           (''devices'', JArr
              (JObj [(''role'', JStr ''changer''), (''lun'', jnat 0), (''sg'', JStr ch),
                     (''sch'', jopt JStr (sch_path_for_sg_in_lsscsi stdout ch))] #
               map (\<lambda>(i, sg). JObj [(''role'', JStr ''drive''), (''index'', jnat i), (''lun'', jnat (i + 1)),
                     (''sg'', JStr sg), (''st'', jopt JStr (st_path_for_sg_in_lsscsi stdout sg))])
                 (List.enumerate 0 sgs))),
           (''drive_count'', jnat (length sgs)), (''note'', JStr (transport_scan_hint transport)),
           (''product_limits'', product_limits_json),
           (''raw_tail'', JStr (join_with NL (take 40 (filter lsscsi_line_is_vtl (text_lines stdout)))))]"

definition scan_query :: "request \<Rightarrow> (string option \<times> nat option \<times> string option) option" where
  "scan_query rq =
     Option.bind (library_query rq) (\<lambda>lib.
     Option.bind (query_field rq ''prefer_scsi_host'' (\<lambda>s. map_option Some (parse_unsigned u32_max s)) None) (\<lambda>h.
     Option.bind (query_field rq ''transport'' (\<lambda>s. Some (Some s)) None) (\<lambda>t. Some (lib, h, t))))"

definition api_manage_transport_scan_sg :: "'t web_env \<Rightarrow> request \<Rightarrow> ('t, response) page" where
  "api_manage_transport_scan_sg we rq =
     with_query (scan_query rq) (\<lambda>(lib, host, transport).
     thenp (require_session we rq)
     (let name = (case lib of None \<Rightarrow> [] | Some s \<Rightarrow> trim s)
      in if name = [] then ret (json_error_response 400 ''the parameter library is missing'')
         else if name = OFFLINE_LIBRARY_NAME then ret (json_error_response 400 ''not for the offline library'')
         else if name = LEGACY_DEFAULT_LIBRARY_NAME then ret (json_error_response 400 ''not for the test library'')
         else bindp (map_err (scan_error_response we) (on_site (scan_vtl_library_blocking (env_out we) name host)))
                (\<lambda>(stdout, h, ch, sgs).
                   ret (json_response 200 (build_transport_scan_response name stdout h ch sgs transport)))))"

definition api_manage_iscsi_scan_sg :: "'t web_env \<Rightarrow> request \<Rightarrow> ('t, response) page" where
  "api_manage_iscsi_scan_sg = api_manage_transport_scan_sg"

end
