(* ===== verification/WebManage.thy ===== *)
theory WebManage
  imports WebPages
begin

text \<open>
  The part of the web interface (\<^verbatim>\<open>web.rs\<close>) that changes something: the login, the password, the
  wizard of the first configuration, and the handlers that manage libraries, tapes and shelves. Each
  of these checks the session again, decodes its body, runs one command, and answers with its result
  or with the text of its error.
\<close>

section \<open>Login\<close>

definition api_captcha :: "'t web_env \<Rightarrow> request \<Rightarrow> ('t, response) page" where
  "api_captcha we rq =
     bindp (on_auth (new_captcha (env_auth we))) (\<lambda>(i, q).
       ret (json_response 200 (JObj [(''captcha_id'', JStr i), (''question'', JStr q)])))"

definition session_cookie :: "string \<Rightarrow> string" where
  "session_cookie tok =
     ''vtl_session='' @ tok @ ''; Path=/; HttpOnly; SameSite=Lax; Max-Age='' @ show_nat SESSION_SECS"

definition login_body :: "json \<Rightarrow> (string \<times> string \<times> string \<times> string) option" where
  "login_body j =
     Option.bind (str_field ''username'' j) (\<lambda>u.
     Option.bind (str_field ''password'' j) (\<lambda>p.
     Option.bind (str_field ''captcha_id'' j) (\<lambda>i.
     Option.bind (str_field ''captcha_answer'' j) (\<lambda>a. Some (u, p, i, a)))))"

definition login_response :: "LoginFail + string \<Rightarrow> response" where
  "login_response r =
     (case r of
        Inr tok \<Rightarrow> json_cookie_response 200 (JObj [(''ok'', JBool True)]) (Some (session_cookie tok))
      | Inl AuthFile \<Rightarrow> json_error_response 500 ''the file web_admin.json cannot be read: run vtladm reset-web-auth''
      | Inl BadCredentials \<Rightarrow>
          json_response 401 (JObj [(''error'', JStr ''wrong user or password''),
            (''hint'', JStr (''the default user is '' @ DEFAULT_WEB_USER @ ''; if lost run vtladm reset-web-auth''))]))"

definition api_login :: "'t web_env \<Rightarrow> request \<Rightarrow> ('t, response) page" where
  "api_login we rq =
     with_body rq login_body (\<lambda>(u, p, i, a).
     bindp (on_auth (verify_captcha (env_auth we) i (trim a))) (\<lambda>ok.
       if \<not> ok then ret (json_error_response 401 ''the captcha is wrong or has expired'')
       else bindp (attempt (on_auth (login (env_auth we) (trim u) (trim p)))) (\<lambda>r. ret (login_response r))))"

definition api_logout :: "'t web_env \<Rightarrow> request \<Rightarrow> ('t, response) page" where
  "api_logout we rq =
     thenp (case session_token we rq of None \<Rightarrow> ret () | Some t \<Rightarrow> on_auth (logout_token t))
       (ret (json_cookie_response 200 (JObj [(''ok'', JBool True)])
          (Some ''vtl_session=; Path=/; HttpOnly; SameSite=Lax; Max-Age=0'')))"

definition api_change_password :: "'t web_env \<Rightarrow> request \<Rightarrow> ('t, response) page" where
  "api_change_password we rq =
     with_body rq (\<lambda>j. Option.bind (str_field ''old_password'' j) (\<lambda>a.
                        map_option (Pair a) (str_field ''new_password'' j))) (\<lambda>(a, b).
     thenp (require_session we rq)
     (bindp (map_err (json_error_response 400) (on_auth (change_password (env_auth we) a b)))
        (\<lambda>_. ret (json_response 200 (JObj [(''ok'', JBool True)])))))"

section \<open>The first configuration\<close>

definition api_setup_status :: "'t web_env \<Rightarrow> request \<Rightarrow> ('t, response) page" where
  "api_setup_status we rq =
     gets (\<lambda>s. json_response 200 (JObj
       [(''setup_required'', JBool (setup_gate_active (st_world (sv_site s)))),
        (''defaults'', JObj
           [(''db_path'', JStr DEFAULT_INIT_DB_PATH), (''tape_dir'', JStr DEFAULT_INIT_TAPE_DIR),
            (''log_dir'', JStr DEFAULT_INIT_LOG_DIR),
            (''kernel_vtl_reload_script'', JStr DEFAULT_INIT_KERNEL_RELOAD_SCRIPT),
            (''vtl_ko'', JStr DEFAULT_INIT_VTL_KO), (''vtl_reload_scan_delay_ms'', JStr [])])]))"

record setup_body =
  sb_db_path :: string
  sb_tape_dir :: string
  sb_log_dir :: string
  sb_script :: string
  sb_vtl_ko :: string
  sb_delay :: string
  sb_reload_now :: bool

definition setup_body_of :: "json \<Rightarrow> setup_body option" where
  "setup_body_of j =
     Option.bind (str_field ''db_path'' j) (\<lambda>a.
     Option.bind (str_field ''tape_dir'' j) (\<lambda>b.
     Option.bind (str_field ''log_dir'' j) (\<lambda>c.
     Option.bind (str_field ''kernel_vtl_reload_script'' j) (\<lambda>d.
     Option.bind (str_field ''vtl_ko'' j) (\<lambda>e.
     Option.bind (field ''vtl_reload_scan_delay_ms'' as_str (Some []) j) (\<lambda>f.
     map_option (\<lambda>g. \<lparr>sb_db_path = a, sb_tape_dir = b, sb_log_dir = c, sb_script = d, sb_vtl_ko = e,
         sb_delay = f, sb_reload_now = g\<rparr>) (flag_field ''run_kernel_reload_now'' j)))))))"

definition geom_fields :: "KernelGeomSync \<Rightarrow> (string \<times> json) list" where
  "geom_fields g = [(''kernel_geom'', JStr (kernel_geom g)), (''kernel_geom_detail'', JStr (kernel_geom_detail g))]"

definition rescan_field :: "KernelGeomSync \<Rightarrow> (string \<times> json) list" where
  "rescan_field g = [(''scsi_rescan'', jopt JStr (scsi_rescan g))]"

definition setup_error_text :: "'t web_env \<Rightarrow> setup_error \<Rightarrow> string" where
  "setup_error_text we e = (case e of SetupText m \<Rightarrow> m | SetupError v \<Rightarrow> text_of we v)"

definition api_setup_complete :: "'t web_env \<Rightarrow> request \<Rightarrow> ('t, response) page" where
  "api_setup_complete we rq =
     with_body rq setup_body_of (\<lambda>b.
     bindp (map_err (\<lambda>e. json_error_response 400 (setup_error_text we e))
              (on_site (try_complete_primary_vtl_setup_from_web (env_out we) (sb_db_path b) (sb_tape_dir b)
                 (sb_log_dir b) (sb_script b) (sb_vtl_ko b) (sb_delay b) (sb_reload_now b)))) (\<lambda>g.
       ret (json_response 200 (JObj ((''ok'', JBool True) # geom_fields g @ rescan_field g)))))"

section \<open>Managing\<close>

text \<open>The pattern of the handlers: body, session, one command, and what of its result is shown.\<close>

definition manage ::
    "'t web_env \<Rightarrow> request \<Rightarrow> (json \<Rightarrow> 'b option) \<Rightarrow> ('b \<Rightarrow> (VtlError, 'a) site_prog) \<Rightarrow>
     ('a \<Rightarrow> (string \<times> json) list) \<Rightarrow> ('t, response) page" where
  "manage we rq dec cmd shown =
     with_body rq dec (\<lambda>b.
     thenp (require_session we rq)
     (bindp (work we 400 (cmd b)) (\<lambda>x. ret (json_response 200 (JObj ((''ok'', JBool True) # shown x))))))"

definition nothing :: "'a \<Rightarrow> (string \<times> json) list" where
  "nothing x = []"

definition two_strs :: "string \<Rightarrow> string \<Rightarrow> json \<Rightarrow> (string \<times> string) option" where
  "two_strs a b j = Option.bind (str_field a j) (\<lambda>x. map_option (Pair x) (str_field b j))"

definition library_and_name :: "json \<Rightarrow> (string \<times> string) option" where
  "library_and_name = two_strs ''library'' ''name''"

definition tape_create_body :: "json \<Rightarrow> (string \<times> string \<times> string \<times> string option) option" where
  "tape_create_body j =
     Option.bind (library_and_name j) (\<lambda>(l, n).
     Option.bind (str_field ''size'' j) (\<lambda>z.
     map_option (\<lambda>sh. (l, n, z, sh)) (option_field ''shelf'' as_str j)))"

definition api_manage_tape_create :: "'t web_env \<Rightarrow> request \<Rightarrow> ('t, response) page" where
  "api_manage_tape_create we rq =
     manage we rq tape_create_body (\<lambda>(l, n, z, sh).
       bindp (from_result (\<lambda>_. parse_size z)) (\<lambda>sz. on_world (in_library l (create_tape n sz sh)))) nothing"

definition library_create_body :: "json \<Rightarrow> (string \<times> int \<times> int) option" where
  "library_create_body j =
     Option.bind (str_field ''name'' j) (\<lambda>n.
     Option.bind (i32_field ''drives'' j) (\<lambda>a. map_option (\<lambda>b. (n, a, b)) (i32_field ''slots'' j)))"

definition api_manage_library_create :: "'t web_env \<Rightarrow> request \<Rightarrow> ('t, response) page" where
  "api_manage_library_create we rq =
     manage we rq library_create_body (\<lambda>(n, a, b). create_named_library (env_out we) n a b)
       (\<lambda>g. geom_fields g @ rescan_field g)"

definition path_text :: "path \<Rightarrow> string" where
  "path_text p = concat (map (\<lambda>c. ''/'' @ c) p)"

definition api_manage_library_delete :: "'t web_env \<Rightarrow> request \<Rightarrow> ('t, response) page" where
  "api_manage_library_delete we rq =
     manage we rq (str_field ''name'') (delete_named_library (env_out we))
       (\<lambda>(ws, g). (''file_warnings'', JArr (map (JStr \<circ> path_text) ws)) # geom_fields g)"

definition api_manage_shelf_delete :: "'t web_env \<Rightarrow> request \<Rightarrow> ('t, response) page" where
  "api_manage_shelf_delete we rq =
     manage we rq library_and_name (\<lambda>(l, n). on_world (delete_shelf_in_library l n)) nothing"

definition api_manage_tape_delete :: "'t web_env \<Rightarrow> request \<Rightarrow> ('t, response) page" where
  "api_manage_tape_delete we rq =
     manage we rq library_and_name (\<lambda>(l, n). on_world (delete_tape_in_library l n)) nothing"

definition api_manage_tape_init :: "'t web_env \<Rightarrow> request \<Rightarrow> ('t, response) page" where
  "api_manage_tape_init we rq =
     manage we rq library_and_name (\<lambda>(l, n). on_world (init_tape_in_library l n)) nothing"

definition api_manage_shelf_create :: "'t web_env \<Rightarrow> request \<Rightarrow> ('t, response) page" where
  "api_manage_shelf_create we rq =
     manage we rq library_and_name (\<lambda>(l, n). on_world (in_library l (create_shelf n))) nothing"

definition assign_body :: "json \<Rightarrow> (string \<times> int \<times> bool) option" where
  "assign_body j =
     Option.bind (str_field ''tape'' j) (\<lambda>t.
     Option.bind (i32_field ''slot'' j) (\<lambda>s. map_option (\<lambda>f. (t, s, f)) (flag_field ''from_offline'' j)))"

definition api_manage_assign :: "'t web_env \<Rightarrow> request \<Rightarrow> ('t, response) page" where
  "api_manage_assign we rq =
     manage we rq (\<lambda>j. Option.bind (str_field ''library'' j) (\<lambda>l. map_option (Pair l) (assign_body j)))
       (\<lambda>(l, p). on_world (assign_tapes_to_slots_batch l [p])) nothing"

definition api_manage_changer_load :: "'t web_env \<Rightarrow> request \<Rightarrow> ('t, response) page" where
  "api_manage_changer_load we rq =
     manage we rq (\<lambda>j. Option.bind (str_field ''library'' j) (\<lambda>l. Option.bind (i32_field ''slot'' j) (\<lambda>s.
          map_option (\<lambda>k. (l, s, k)) (i32_field ''drive'' j))))
       (\<lambda>(l, s, k). on_world (load_tape_in_library l s k)) nothing"

definition api_manage_changer_unload :: "'t web_env \<Rightarrow> request \<Rightarrow> ('t, response) page" where
  "api_manage_changer_unload we rq =
     manage we rq (\<lambda>j. Option.bind (str_field ''library'' j) (\<lambda>l. map_option (Pair l) (i32_field ''drive'' j)))
       (\<lambda>(l, k). on_world (unload_tape_in_library l k)) (\<lambda>s. [(''slot'', JNum s)])"

definition api_manage_changer_eject :: "'t web_env \<Rightarrow> request \<Rightarrow> ('t, response) page" where
  "api_manage_changer_eject we rq =
     manage we rq (\<lambda>j. Option.bind (str_field ''library'' j) (\<lambda>l. map_option (Pair l) (i32_field ''slot'' j)))
       (\<lambda>(l, s). on_world (eject_tape_in_library l s)) (\<lambda>m. [(''mailslot'', JNum m)])"

section \<open>The robot\<close>

fun location_text :: "MediumLocation \<Rightarrow> string" where
  "location_text (DataSlot s) = ''DataSlot('' @ show_int s @ '')''"
| "location_text (Drive k) = ''Drive('' @ show_int k @ '')''"
| "location_text (MailSlot m) = ''MailSlot('' @ show_int m @ '')''"

definition option_text :: "MediumLocation option \<Rightarrow> string" where
  "option_text x = (case x of None \<Rightarrow> ''None'' | Some l \<Rightarrow> ''Some('' @ location_text l @ '')'')"

definition drift_json :: "DriftItem \<Rightarrow> json" where
  "drift_json x = JObj [(''tape'', JStr (drift_tape x)), (''db'', JStr (option_text (drift_db x))),
     (''kernel'', JStr (option_text (drift_kernel x)))]"

definition library_cmd :: "string \<Rightarrow> (int \<Rightarrow> 'a cmd) \<Rightarrow> (VtlError, 'a) site_prog" where
  "library_cmd l m = on_world (thenp init_db (bindp (db_read (\<lambda>d. resolve_library_id d l)) m))"

definition reconcile_body :: "json \<Rightarrow> (string \<times> bool \<times> bool) option" where
  "reconcile_body j =
     Option.bind (str_field ''library'' j) (\<lambda>l.
     Option.bind (flag_field ''apply'' j) (\<lambda>a. map_option (\<lambda>p. (l, a, p)) (flag_field ''pull'' j)))"

definition reconcile_shown :: "ReconcileReport \<Rightarrow> (string \<times> json) list" where
  "reconcile_shown r =
     [(''drift_count'', jnat (length (rep_drifts r))), (''fixes_applied'', jnat (rep_fixes r)),
      (''pull_updates'', jnat (rep_pulls r)), (''inventory_truncated'', JBool (rep_truncated r)),
      (''drifts'', JArr (map drift_json (rep_drifts r)))]"

definition WEB_RECONCILE_APPLY_FORBIDDEN :: string where
  "WEB_RECONCILE_APPLY_FORBIDDEN = ''reconcile --apply is not available here: use --pull''"

definition api_manage_robot_reconcile :: "'t web_env \<Rightarrow> request \<Rightarrow> ('t, response) page" where
  "api_manage_robot_reconcile we rq =
     with_body rq reconcile_body (\<lambda>(l, apply_db, pull).
     thenp (require_session we rq)
     (thenp (checkp (\<not> apply_db) (json_error_response 400 WEB_RECONCILE_APPLY_FORBIDDEN))
     (bindp (work we 400 (library_cmd l (\<lambda>i. reconcile_library i apply_db pull))) (\<lambda>r.
        ret (json_response 200 (JObj ((''ok'', JBool True) # reconcile_shown r)))))))"

definition align_shown :: "AutoAlignReport \<Rightarrow> (string \<times> json) list" where
  "align_shown r =
     [(''evacuated'', jnat (al_evacuated r)), (''fixes_applied'', jnat (al_fixes r)),
      (''pull_updates'', jnat (al_pulls r)), (''drifts_remaining'', jnat (al_remaining r))]"

definition api_manage_robot_auto_align :: "'t web_env \<Rightarrow> request \<Rightarrow> ('t, response) page" where
  "api_manage_robot_auto_align we rq =
     manage we rq (str_field ''library'') (\<lambda>l. library_cmd l auto_align_library) align_shown"

definition api_manage_robot_sync :: "'t web_env \<Rightarrow> request \<Rightarrow> ('t, response) page" where
  "api_manage_robot_sync we rq =
     manage we rq (str_field ''library'') (\<lambda>l. on_world (sync_db_from_kernel_library l))
       (\<lambda>n. [(''tapes_updated'', jnat n)])"

section \<open>Shelves and batches\<close>

definition api_manage_shelf_place :: "'t web_env \<Rightarrow> request \<Rightarrow> ('t, response) page" where
  "api_manage_shelf_place we rq =
     manage we rq (\<lambda>j. Option.bind (two_strs ''library'' ''tape'' j) (\<lambda>(l, t).
          map_option (\<lambda>sh. (l, t, sh)) (option_field ''shelf'' as_str j)))
       (\<lambda>(l, t, sh). on_world (in_library l (shelf_place_tape t sh))) nothing"

definition api_manage_shelf_create_offline :: "'t web_env \<Rightarrow> request \<Rightarrow> ('t, response) page" where
  "api_manage_shelf_create_offline we rq =
     manage we rq (str_field ''name'') (\<lambda>n. on_world (create_offline_shelf n)) nothing"

definition strs_field :: "string \<Rightarrow> json \<Rightarrow> string list option" where
  "strs_field k = field k (as_list as_str) None"

definition api_manage_shelf_place_batch :: "'t web_env \<Rightarrow> request \<Rightarrow> ('t, response) page" where
  "api_manage_shelf_place_batch we rq =
     manage we rq (\<lambda>j. Option.bind (two_strs ''library'' ''shelf'' j) (\<lambda>(l, sh).
          map_option (\<lambda>ts. (l, ts, sh)) (strs_field ''tapes'' j)))
       (\<lambda>(l, ts, sh). on_world (move_tapes_to_offline_shelf l ts sh)) nothing"

definition api_manage_assign_batch :: "'t web_env \<Rightarrow> request \<Rightarrow> ('t, response) page" where
  "api_manage_assign_batch we rq =
     manage we rq (\<lambda>j. Option.bind (str_field ''library'' j) (\<lambda>l.
          map_option (Pair l) (field ''pairs'' (as_list assign_body) None j)))
       (\<lambda>(l, ps). on_world (assign_tapes_to_slots_batch l ps)) nothing"

definition shelf_option :: "json \<Rightarrow> (string \<times> string option) option" where
  "shelf_option j =
     Option.bind (str_field ''library'' j) (\<lambda>l. map_option (Pair l) (option_field ''shelf'' as_str j))"

definition api_manage_tape_create_batch :: "'t web_env \<Rightarrow> request \<Rightarrow> ('t, response) page" where
  "api_manage_tape_create_batch we rq =
     manage we rq (\<lambda>j. Option.bind (shelf_option j) (\<lambda>(l, sh).
          map_option (\<lambda>xs. (l, sh, xs)) (field ''items'' (as_list (two_strs ''name'' ''size'')) None j)))
       (\<lambda>(l, sh, xs). on_world (create_tapes_batch l sh xs)) nothing"

definition api_manage_tape_create_auto_batch :: "'t web_env \<Rightarrow> request \<Rightarrow> ('t, response) page" where
  "api_manage_tape_create_auto_batch we rq =
     manage we rq (\<lambda>j. Option.bind (shelf_option j) (\<lambda>(l, sh). Option.bind (str_field ''size'' j) (\<lambda>z.
          map_option (\<lambda>n. (l, sh, unat n, z)) (field ''count'' u32_dec None j))))
       (\<lambda>(l, sh, n, z).
          bindp (from_result (\<lambda>_. parse_size z)) (\<lambda>sz. on_world (create_auto_named_tapes_batch l sh n sz)))
       (\<lambda>names. [(''names'', JArr (map JStr names)), (''count'', jnat (length names))])"

definition api_manage_tape_migrate_shelves_batch :: "'t web_env \<Rightarrow> request \<Rightarrow> ('t, response) page" where
  "api_manage_tape_migrate_shelves_batch we rq =
     manage we rq (\<lambda>j. Option.bind (str_field ''library'' j) (\<lambda>l. Option.bind (two_strs ''from_shelf'' ''to_shelf'' j) (\<lambda>(a, b).
          map_option (\<lambda>ts. (l, a, b, ts)) (strs_field ''tapes'' j))))
       (\<lambda>(l, a, b, ts). on_world (migrate_tapes_between_shelves l a b ts)) nothing"

end
