(* ===== verification/WebIscsi.thy ===== *)
theory WebIscsi
  imports WebManage
begin

text \<open>
  The export of devices through the web interface (\<^verbatim>\<open>web.rs\<close>): the checks of the arguments, the
  default names, and the handlers that run \<^verbatim>\<open>vtladm-iscsi\<close> as a child process and keep the record of
  what was exported in the database.
\<close>

section \<open>Checks\<close>

definition ascii_control :: "char \<Rightarrow> bool" where
  "ascii_control c = ((of_char c :: nat) < 0x20 \<or> c = CHR 0x7F)"

text \<open>Control characters in the bytes of UTF-8: those of ASCII, and U+0080 to U+009F after 0xC2.\<close>

fun has_control :: "string \<Rightarrow> bool" where
  "has_control [] = False"
| "has_control [c] = ascii_control c"
| "has_control (c # x # s) =
     (ascii_control c \<or> (c = CHR 0xC2 \<and> (0x80 :: nat) \<le> of_char x \<and> (of_char x :: nat) \<le> 0x9F) \<or> has_control (x # s))"

definition is_meta :: "char \<Rightarrow> bool" where
  "is_meta c = (c \<in> set [CHR '';'', CHR ''|'', CHR ''&'', CHR 0x60, CHR ''$'', CHR ''<'', CHR ''>'', CHR 0x27,
     CHR 0x22, CHR 0x5C])"

definition web_validate_iqn :: "string \<Rightarrow> string + unit" where
  "web_validate_iqn s =
     (if length s < 10 \<or> 223 < length s then Inl ''the length of the IQN is invalid''
      else if \<not> starts_with ''iqn.'' s then Inl ''the IQN must start with iqn.''
      else if CHR ''_'' \<in> set s then Inl ''the IQN must not contain an underscore''
      else if has_control s \<or> list_ex is_meta s then Inl ''the IQN contains a character that is not allowed''
      else Inr ())"

definition host_char :: "char \<Rightarrow> bool" where
  "host_char c = (is_ascii_alphanumeric c \<or> c = CHR ''.'' \<or> c = CHR ''-'')"

definition validate_iscsi_portal_host :: "string \<Rightarrow> string + unit" where
  "validate_iscsi_portal_host host =
     (let t = trim host
      in if t = [] then Inl ''the address of the portal is empty''
         else if t \<noteq> host then Inl ''the address of the portal has outer spaces''
         else if CHR '':'' \<in> set t then Inl ''the address of the portal must not contain a colon''
         else if list_ex is_ws t \<or> has_control t \<or> list_ex is_meta t
         then Inl ''the address of the portal contains a character that is not allowed''
         else if \<not> list_all host_char t then Inl ''the address of the portal may only have letters, digits, dots and hyphens''
         else Inr ())"

definition ISCSI_LUN_MAX :: "32 word" where "ISCSI_LUN_MAX = 255"

definition validate_lun_map_values :: "32 word list \<Rightarrow> string + unit" where
  "validate_lun_map_values luns =
     (case List.find (\<lambda>n. ISCSI_LUN_MAX < n) luns of
        Some n \<Rightarrow> Inl (''LUN '' @ show_nat (unat n) @ '' is above the limit'')
      | None \<Rightarrow> Inr ())"

definition validate_lun_map_consecutive_from_zero :: "32 word list \<Rightarrow> string + unit" where
  "validate_lun_map_consecutive_from_zero luns =
     (if list_all (\<lambda>(i, v). v = of_nat i) (List.enumerate 0 luns) then Inr ()
      else Inl ''lun_map must be consecutive from 0'')"

definition iscsi_library_exec_hint :: "bool \<Rightarrow> bool \<Rightarrow> string \<Rightarrow> bool \<Rightarrow> string option" where
  "iscsi_library_exec_hint dry ok err export =
     (if dry then Some ''dry_run: the script was only printed''
      else if ok \<and> export \<and>
        (contains_sub ''Cannot configure'' err \<or> contains_sub ''Unknown configuration'' err \<or>
         contains_sub ''No such path'' err \<or> contains_sub ''No storage object named'' err)
      then Some ''the exit code is 0 but stderr has errors''
      else if \<not> ok then
        (let low = to_lower err
         in if contains_sub ''already in use'' low then Some ''the device is in use: run library-unexport first''
            else if contains_sub ''wwn not valid'' low \<or> contains_sub ''not valid as:'' low then Some ''the IQN is not valid''
            else Some ''vtladm-iscsi failed: read stdout and stderr'')
      else None)"

definition web_validate_fileio_name :: "string \<Rightarrow> string + unit" where
  "web_validate_fileio_name s =
     (if s = [] \<or> 64 < length s then Inl ''the length of fileio_name is invalid''
      else if \<not> list_all is_id_char s then Inl ''fileio_name may only have letters, digits and underscores''
      else Inr ())"

definition validate_export_id_for_iscsi :: "string \<Rightarrow> string + unit" where
  "validate_export_id_for_iscsi s =
     (if s = [] then Inl ''export_id is empty''
      else if 48 < length s then Inl ''export_id is too long''
      else if \<not> list_all is_id_char s then Inl ''export_id may only have letters, digits and underscores''
      else Inr ())"

section \<open>Default names\<close>

definition zero_padded :: "nat \<Rightarrow> nat \<Rightarrow> string" where
  "zero_padded n k = (let s = show_nat k in replicate (n - length s) CHR ''0'' @ s)"

definition id_char_of :: "char \<Rightarrow> char option" where
  "id_char_of c =
     (if is_ascii_alphanumeric c then Some c
      else if c = CHR ''_'' \<or> c = CHR ''-'' then Some CHR ''_'' else None)"

text \<open>The loop over the characters of the library ends when there are 26.\<close>

fun push_id_chars :: "string \<Rightarrow> string \<Rightarrow> string" where
  "push_id_chars acc [] = acc"
| "push_id_chars acc (c # cs) =
     (let a = acc @ (case id_char_of c of None \<Rightarrow> [] | Some x \<Rightarrow> [x])
      in if 26 \<le> length a then a else push_id_chars a cs)"

definition iscsi_default_iqn_and_export_id :: "nat \<times> nat \<times> string \<Rightarrow> string \<Rightarrow> string \<times> string" where
  "iscsi_default_iqn_and_export_id cal lib =
     (case cal of (y, m, ts) \<Rightarrow>
        let slug0 = take 40 (filter is_ascii_alphanumeric lib);
            slug = (if slug0 = [] then ''lib'' else slug0);
            e0 = push_id_chars ''m'' lib;
            e1 = (if e0 = ''m'' then ''mlib'' else e0)
        in (''iqn.'' @ zero_padded 4 y @ ''-'' @ zero_padded 2 m @ ''.com.marstor:'' @ slug @ ''-'' @ ts,
            take 48 (e1 @ ''_'' @ ts)))"

text \<open>\<^verbatim>\<open>rsplit_once\<close>: the parts before and after the last occurrence.\<close>

definition rsplit_once :: "char \<Rightarrow> string \<Rightarrow> (string \<times> string) option" where
  "rsplit_once d s = map_option (\<lambda>(a, b). (rev b, rev a)) (split_once d (rev s))"

definition parse_first_iscsi_portal :: "string \<Rightarrow> (string \<times> 16 word) option" where
  "parse_first_iscsi_portal portals =
     (let first = trim (hd (split_on CHR '','' portals))
      in if first = [] then None
         else Option.bind (rsplit_once CHR '':'' first) (\<lambda>(h, p).
                map_option (\<lambda>n. (h, of_nat n)) (parse_unsigned 65535 p)))"

definition suggested_portal :: "VtlConfig \<Rightarrow> string \<times> 16 word" where
  "suggested_portal c =
     (case Option.bind (cfg_iscsi_portals c) parse_first_iscsi_portal of
        None \<Rightarrow> (''0.0.0.0'', 3260) | Some p \<Rightarrow> p)"

section \<open>Files\<close>

text \<open>The components of a path one after the other; directories are followed, \<open>..\<close> goes to the parent.\<close>

fun walk :: "fs \<Rightarrow> path \<Rightarrow> path \<Rightarrow> path option" where
  "walk f acc [] = Some acc"
| "walk f acc (c # cs) =
     (case resolve 40 f acc of
        None \<Rightarrow> None
      | Some q \<Rightarrow>
          if node_at f q \<noteq> Some Dir then None
          else walk f (if c = ''..'' then butlast q else q @ [c]) cs)"

definition canonical :: "fs \<Rightarrow> string \<Rightarrow> path option" where
  "canonical f s = Option.bind (walk f [] (path_of s)) (canonicalize f)"

definition ensure_tape_file_under_tape_dir :: "string \<Rightarrow> world \<Rightarrow> string + path" where
  "ensure_tape_file_under_tape_dir s w =
     (if \<not> is_absolute s then Inl ''the file must be an absolute path''
      else case canonical (w_fs w) s of
          None \<Rightarrow> Inl ''no such file''
        | Some p \<Rightarrow>
            if \<not> is_file (w_fs w) p then Inl ''not a regular file''
            else case canonical (w_fs w) (cfg_tape_dir (w_cfg w)) of
                None \<Rightarrow> Inl ''the tape directory has no canonical path''
              | Some root \<Rightarrow>
                  if take (length root) p = root then Inr p
                  else Inl ''the file must be below the tape directory'')"

section \<open>The child process\<close>

definition flag_args :: "bool \<Rightarrow> bool \<Rightarrow> string list" where
  "flag_args sudo dry = (if sudo then [''--sudo''] else []) @ (if dry then [''--dry-run''] else [])"

definition run_iscsi_tool :: "'t web_env \<Rightarrow> string list \<Rightarrow> ('t server, string, process_output) prog" where
  "run_iscsi_tool we args =
     (case we_no_child we of
        Some e \<Rightarrow> fail e
      | None \<Rightarrow>
          (case we_clap we args of
             Inl usage \<Rightarrow> ret \<lparr>po_code = Some 2, po_out = [], po_err = usage\<rparr>
           | Inr cli \<Rightarrow> (\<lambda>s.
               case tool_main (we_tool_host we) (we_targetcli we) cli (sv_target s) of
                 (p, x) \<Rightarrow> (Inr p, s\<lparr>sv_target := x\<rparr>))))"

definition tool_status :: "process_output \<Rightarrow> nat" where
  "tool_status p = (if po_success p then 200 else 502)"

definition tool_fields :: "process_output \<Rightarrow> (string \<times> json) list" where
  "tool_fields p = [(''ok'', JBool (po_success p)), (''stdout'', JStr (po_out p)), (''stderr'', JStr (po_err p))]"

definition no_permission :: response where
  "no_permission = json_error_response 403 ''running vtladm-iscsi is not allowed''"

definition check_text :: "string + unit \<Rightarrow> ('t, unit) page" where
  "check_text r = (case r of Inl m \<Rightarrow> fail (json_error_response 400 m) | Inr _ \<Rightarrow> ret ())"

definition may_execute :: "'t web_env \<Rightarrow> bool \<Rightarrow> ('t, unit) page" where
  "may_execute we dry =
     bindp (gets (\<lambda>s. allow_iscsi_exec (env_auth we) (auth_of s))) (\<lambda>allowed.
       checkp (dry \<or> allowed) no_permission)"

definition api_manage_iscsi_config :: "'t web_env \<Rightarrow> request \<Rightarrow> ('t, response) page" where
  "api_manage_iscsi_config we rq =
     thenp (require_session we rq)
     (gets (\<lambda>s.
        let c = w_cfg (st_world (sv_site s)); (ip, port) = suggested_portal c
        in json_response 200 (JObj
             [(''tape_dir'', JStr (cfg_tape_dir c)), (''transport'', JStr (as_conf_str (cfg_transport c))),
              (''iscsi_iqn'', jopt JStr (cfg_iscsi_iqn c)), (''iscsi_portals'', jopt JStr (cfg_iscsi_portals c)),
              (''portal_ip_suggested'', JStr ip), (''portal_port_suggested'', jnat (unat port)),
              (''vtladm_iscsi_path'', JStr (we_tool_path we)),
              (''allow_iscsi_exec'', JBool (allow_iscsi_exec (env_auth we) (auth_of s))),
              (''non_unix_build'', JBool False),
              (''kernel_reload_on_db_change'', JBool (cfg_kernel_reload_on_db_change c)),
              (''kernel_geom_prefer_ioctl'', JBool (cfg_kernel_geom_prefer_ioctl c))])))"

definition sudo_of :: "json \<Rightarrow> bool" where
  "sudo_of j =
     (case j of
        JObj fs \<Rightarrow> (case map_of (rev fs) ''sudo'' of Some (JBool b) \<Rightarrow> b | _ \<Rightarrow> False)
      | _ \<Rightarrow> False)"

definition api_manage_iscsi_check :: "'t web_env \<Rightarrow> request \<Rightarrow> ('t, response) page" where
  "api_manage_iscsi_check we rq =
     with_body rq Some (\<lambda>j.
     thenp (require_session we rq)
     (bindp (map_err (json_error_response 500) (run_iscsi_tool we (flag_args (sudo_of j) False @ [''check'']))) (\<lambda>p.
        ret (json_response (tool_status p) (JObj (tool_fields p))))))"

definition api_manage_iscsi_allow_exec :: "'t web_env \<Rightarrow> request \<Rightarrow> ('t, response) page" where
  "api_manage_iscsi_allow_exec we rq =
     with_body rq (field ''allow'' as_bool None) (\<lambda>b.
     thenp (require_session we rq)
     (bindp (map_err (json_error_response 500) (on_auth (set_allow_iscsi_exec (env_auth we) b)))
        (\<lambda>_. ret (json_response 200 (JObj [(''ok'', JBool True), (''allow_iscsi_exec'', JBool b)])))))"

section \<open>One file\<close>

definition port_dec :: "json \<Rightarrow> 16 word option" where
  "port_dec j = map_option word_of_int (as_int 0 65535 j)"

definition default_fileio :: string where "default_fileio = ''vtl_fileio0''"
definition default_portal_ip :: string where "default_portal_ip = ''0.0.0.0''"
definition default_portal_port :: "16 word" where "default_portal_port = 3260"

record quick_export_body =
  qe_file :: string
  qe_iqn :: string
  qe_fileio_name :: string
  qe_portal_ip :: string
  qe_portal_port :: "16 word"
  qe_dry_run :: bool
  qe_sudo :: bool

definition quick_export_body_of :: "json \<Rightarrow> quick_export_body option" where
  "quick_export_body_of j =
     Option.bind (str_field ''file'' j) (\<lambda>a.
     Option.bind (str_field ''iqn'' j) (\<lambda>b.
     Option.bind (field ''fileio_name'' as_str (Some default_fileio) j) (\<lambda>c.
     Option.bind (field ''portal_ip'' as_str (Some default_portal_ip) j) (\<lambda>d.
     Option.bind (field ''portal_port'' port_dec (Some default_portal_port) j) (\<lambda>e.
     Option.bind (flag_field ''dry_run'' j) (\<lambda>f.
     map_option (\<lambda>g. \<lparr>qe_file = a, qe_iqn = b, qe_fileio_name = c, qe_portal_ip = d, qe_portal_port = e,
         qe_dry_run = f, qe_sudo = g\<rparr>) (flag_field ''sudo'' j)))))))"

definition quick_export_args :: "quick_export_body \<Rightarrow> string \<Rightarrow> string list" where
  "quick_export_args b file =
     flag_args (qe_sudo b) (qe_dry_run b) @
     [''quick-export'', ''--file'', file, ''--iqn'', qe_iqn b, ''--fileio-name'', qe_fileio_name b,
      ''--portal-ip'', qe_portal_ip b, ''--portal-port'', show_nat (unat (qe_portal_port b))]"

definition api_manage_iscsi_quick_export :: "'t web_env \<Rightarrow> request \<Rightarrow> ('t, response) page" where
  "api_manage_iscsi_quick_export we rq =
     with_body rq quick_export_body_of (\<lambda>b.
     thenp (require_session we rq)
     (thenp (check_text (web_validate_iqn (qe_iqn b)))
     (thenp (check_text (web_validate_fileio_name (qe_fileio_name b)))
     (thenp (check_text (validate_iscsi_portal_host (qe_portal_ip b)))
     (thenp (checkp (qe_portal_port b \<noteq> 0) (json_error_response 400 ''the port must be 1 to 65535''))
     (bindp (map_err (json_error_response 400)
               (from_result (\<lambda>s. ensure_tape_file_under_tape_dir (qe_file b) (st_world (sv_site s))))) (\<lambda>canon.
      thenp (may_execute we (qe_dry_run b))
      (bindp (map_err (json_error_response 500) (run_iscsi_tool we (quick_export_args b (path_text canon)))) (\<lambda>p.
         ret (json_response (tool_status p) (JObj (tool_fields p @ [(''dry_run'', JBool (qe_dry_run b))]))))))))))))"

record quick_unexport_body =
  qu_iqn :: string
  qu_fileio_name :: string
  qu_dry_run :: bool
  qu_sudo :: bool

definition quick_unexport_body_of :: "json \<Rightarrow> quick_unexport_body option" where
  "quick_unexport_body_of j =
     Option.bind (str_field ''iqn'' j) (\<lambda>a.
     Option.bind (field ''fileio_name'' as_str (Some default_fileio) j) (\<lambda>b.
     Option.bind (flag_field ''dry_run'' j) (\<lambda>c.
     map_option (\<lambda>d. \<lparr>qu_iqn = a, qu_fileio_name = b, qu_dry_run = c, qu_sudo = d\<rparr>) (flag_field ''sudo'' j))))"

definition api_manage_iscsi_quick_unexport :: "'t web_env \<Rightarrow> request \<Rightarrow> ('t, response) page" where
  "api_manage_iscsi_quick_unexport we rq =
     with_body rq quick_unexport_body_of (\<lambda>b.
     thenp (require_session we rq)
     (thenp (check_text (web_validate_iqn (qu_iqn b)))
     (thenp (check_text (web_validate_fileio_name (qu_fileio_name b)))
     (thenp (may_execute we (qu_dry_run b))
     (bindp (map_err (json_error_response 500)
               (run_iscsi_tool we (flag_args (qu_sudo b) (qu_dry_run b) @
                  [''quick-unexport'', ''--iqn'', qu_iqn b, ''--fileio-name'', qu_fileio_name b]))) (\<lambda>p.
        ret (json_response (tool_status p) (JObj (tool_fields p @ [(''dry_run'', JBool (qu_dry_run b))])))))))))"

section \<open>Exporting a library\<close>

record library_export_body =
  le_library :: string
  le_iqn :: "string option"
  le_export_id :: "string option"
  le_changer_sg :: string
  le_drive_sg :: "string list"
  le_lun_map :: "32 word list option"
  le_portal_ip :: string
  le_portal_port :: "16 word"
  le_dry_run :: bool
  le_sudo :: bool

definition library_export_body_of :: "json \<Rightarrow> library_export_body option" where
  "library_export_body_of j =
     Option.bind (str_field ''library'' j) (\<lambda>a.
     Option.bind (option_field ''iqn'' as_str j) (\<lambda>b.
     Option.bind (option_field ''export_id'' as_str j) (\<lambda>c.
     Option.bind (str_field ''changer_sg'' j) (\<lambda>d.
     Option.bind (strs_field ''drive_sg'' j) (\<lambda>e.
     Option.bind (option_field ''lun_map'' (as_list u32_dec) j) (\<lambda>f.
     Option.bind (field ''portal_ip'' as_str (Some default_portal_ip) j) (\<lambda>g.
     Option.bind (field ''portal_port'' port_dec (Some default_portal_port) j) (\<lambda>h.
     Option.bind (flag_field ''dry_run'' j) (\<lambda>i.
     map_option (\<lambda>k. \<lparr>le_library = a, le_iqn = b, le_export_id = c, le_changer_sg = d, le_drive_sg = e,
         le_lun_map = f, le_portal_ip = g, le_portal_port = h, le_dry_run = i, le_sudo = k\<rparr>)
       (flag_field ''sudo'' j))))))))))"

definition filled :: "string option \<Rightarrow> string option" where
  "filled x = (case x of None \<Rightarrow> None | Some s \<Rightarrow> if trim s = [] then None else Some (trim s))"

definition or_default :: "'a option \<Rightarrow> 'a \<Rightarrow> 'a" where
  "or_default x y = (case x of None \<Rightarrow> y | Some v \<Rightarrow> v)"

definition lun_text :: "32 word list \<Rightarrow> string" where
  "lun_text luns = join_with CHR '','' (map (\<lambda>n. show_nat (unat n)) luns)"

text \<open>The library must have as many drives as there are nodes.\<close>

definition check_drive_number :: "string \<Rightarrow> nat \<Rightarrow> (string + VtlError, unit) site_prog" where
  "check_drive_number lib n =
     thenp (map_err Inr (on_world init_db))
     (bindp (map_err Inr (on_world (db_read (\<lambda>d. resolve_library_id d lib)))) (\<lambda>i.
      bindp (gets (\<lambda>s. drive_count (w_db (st_world s)) i)) (\<lambda>k.
      thenp (checkp (0 < k) (Inl ''the library has no drives''))
        (checkp (n = k) (Inl ''the number of drive_sg is not the number of drives'')))))"

definition check_lun_map :: "32 word list option \<Rightarrow> nat \<Rightarrow> ('t, unit) page" where
  "check_lun_map m n =
     (case m of
        None \<Rightarrow> ret ()
      | Some luns \<Rightarrow>
          thenp (checkp (length (split_on CHR '','' (lun_text luns)) = n)
                   (json_error_response 400 (''lun_map needs '' @ show_nat n @ '' numbers'')))
          (thenp (check_text (validate_lun_map_values luns))
            (check_text (validate_lun_map_consecutive_from_zero luns))))"

definition library_export_args :: "library_export_body \<Rightarrow> string \<Rightarrow> string \<Rightarrow> string list" where
  "library_export_args b q eid =
     flag_args (le_sudo b) (le_dry_run b) @
     [''library-export'', ''--id'', eid, ''--iqn'', q, ''--changer-sg'', le_changer_sg b] @
     concat (map (\<lambda>p. [''--drive-sg'', p]) (le_drive_sg b)) @
     (case le_lun_map b of None \<Rightarrow> [] | Some luns \<Rightarrow> [''--lun-map'', lun_text luns]) @
     [''--portal-ip'', le_portal_ip b, ''--portal-port'', show_nat (unat (le_portal_port b))]"

definition export_record :: "library_export_body \<Rightarrow> string \<Rightarrow> string \<Rightarrow> string \<Rightarrow> IscsiLibraryExportRecord" where
  "export_record b q eid now =
     new_iscsi_export_record q eid (le_changer_sg b) (le_drive_sg b)
       (or_default (le_lun_map b) (map of_nat [0..<Suc (length (le_drive_sg b))])) (le_portal_ip b) (le_portal_port b) now"

definition save_export :: "json_codec \<Rightarrow> library_export_body \<Rightarrow> string \<Rightarrow> string \<Rightarrow> unit cmd" where
  "save_export c b q eid =
     thenp init_db
     (bindp (db_read (\<lambda>d. resolve_library_id d (le_library b))) (\<lambda>i.
      bindp (gets w_now) (\<lambda>now.
        db_write (\<lambda>d. andThen (save_iscsi_library_export c i (export_record b q eid now) d) (\<lambda>d'. Inr ((), d'))))))"

definition run_library_export ::
    "'t web_env \<Rightarrow> library_export_body \<Rightarrow> string \<Rightarrow> string \<Rightarrow> ('t, process_output \<times> bool) page" where
  "run_library_export we b q eid =
     bindp (map_err (json_error_response 500) (run_iscsi_tool we (library_export_args b q eid))) (\<lambda>p.
     let blocks_db = targetcli_stderr_blocks_export_save (po_err p)
     in thenp (if po_success p \<and> \<not> le_dry_run b \<and> \<not> blocks_db
               then work we 500 (on_world (save_export (ce_codec (we_cli we)) b q eid)) else ret ())
          (ret (p, blocks_db)))"

definition library_export_json :: "library_export_body \<Rightarrow> string \<Rightarrow> string \<Rightarrow> process_output \<Rightarrow> bool \<Rightarrow> json" where
  "library_export_json b q eid p blocks_db =
     JObj (tool_fields p @
       [(''dry_run'', JBool (le_dry_run b)), (''iqn'', JStr q), (''export_id'', JStr eid),
        (''saved_to_db'', JBool (po_success p \<and> \<not> le_dry_run b \<and> \<not> blocks_db))] @
       (if blocks_db then [(''save_blocked_reason'', JStr ''stderr of targetcli: the export is not complete'')] else []) @
       (case iscsi_library_exec_hint (le_dry_run b) (po_success p) (po_err p) True of
          None \<Rightarrow> [] | Some h \<Rightarrow> [(''hint'', JStr h)]))"

definition drive_number_response :: "'t web_env \<Rightarrow> string + VtlError \<Rightarrow> response" where
  "drive_number_response we e =
     json_error_response 400 (case e of Inl m \<Rightarrow> m | Inr v \<Rightarrow> text_of we v)"

definition api_manage_iscsi_library_export :: "'t web_env \<Rightarrow> request \<Rightarrow> ('t, response) page" where
  "api_manage_iscsi_library_export we rq =
     with_body rq library_export_body_of (\<lambda>b.
     thenp (require_session we rq)
     (thenp (checkp (le_drive_sg b \<noteq> []) (json_error_response 400 ''drive_sg needs an entry''))
     (thenp (checkp (int (length (le_drive_sg b)) \<le> VTL_KERNEL_MAX_DRIVES_PER_LIB)
               (json_error_response 400 ''drive_sg has too many entries''))
     (thenp (map_err (drive_number_response we) (on_site (check_drive_number (le_library b) (length (le_drive_sg b)))))
     (bindp (gets sv_calendar) (\<lambda>cal.
      let (dq, did) = iscsi_default_iqn_and_export_id cal (le_library b);
          q = or_default (filled (le_iqn b)) dq; eid = or_default (filled (le_export_id b)) did
      in thenp (check_text (web_validate_iqn q))
         (thenp (check_text (validate_export_id_for_iscsi eid))
         (thenp (check_text (validate_iscsi_portal_host (le_portal_ip b)))
         (thenp (checkp (le_portal_port b \<noteq> 0) (json_error_response 400 ''the port must be 1 to 65535''))
         (thenp (may_execute we (le_dry_run b))
         (thenp (check_lun_map (le_lun_map b) (1 + length (le_drive_sg b)))
         (bindp (run_library_export we b q eid) (\<lambda>(p, blocks_db).
            ret (json_response (tool_status p) (library_export_json b q eid p blocks_db)))))))))))))))"

section \<open>Undoing an export\<close>

record library_unexport_body =
  lu_library :: "string option"
  lu_iqn :: "string option"
  lu_export_id :: "string option"
  lu_drives :: "32 word option"
  lu_lun_map :: "32 word list option"
  lu_dry_run :: bool
  lu_sudo :: bool

definition library_unexport_body_of :: "json \<Rightarrow> library_unexport_body option" where
  "library_unexport_body_of j =
     Option.bind (option_field ''library'' as_str j) (\<lambda>a.
     Option.bind (option_field ''iqn'' as_str j) (\<lambda>b.
     Option.bind (option_field ''export_id'' as_str j) (\<lambda>c.
     Option.bind (option_field ''drives'' u32_dec j) (\<lambda>d.
     Option.bind (option_field ''lun_map'' (as_list u32_dec) j) (\<lambda>e.
     Option.bind (flag_field ''dry_run'' j) (\<lambda>f.
     map_option (\<lambda>g. \<lparr>lu_library = a, lu_iqn = b, lu_export_id = c, lu_drives = d, lu_lun_map = e,
         lu_dry_run = f, lu_sudo = g\<rparr>) (flag_field ''sudo'' j)))))))"

record unexport_params =
  up_iqn :: string
  up_export_id :: string
  up_lun_map :: "32 word list option"
  up_drives :: "32 word option"
  up_library :: "string option"

definition saved_params :: "library_unexport_body \<Rightarrow> string \<Rightarrow> IscsiLibraryExportRecord \<Rightarrow> unexport_params" where
  "saved_params b lib r =
     \<lparr>up_iqn = or_default (filled (lu_iqn b)) (iqn r),
      up_export_id = or_default (filled (lu_export_id b)) (export_id r),
      up_lun_map = Some (or_default (lu_lun_map b) (lun_map r)),
      up_drives = (case lu_drives b of
         Some d \<Rightarrow> Some d
       | None \<Rightarrow> if 0 < length (drive_sg r) then Some (of_nat (length (drive_sg r))) else None),
      up_library = Some lib\<rparr>"

definition resolve_iscsi_unexport_params ::
    "json_codec \<Rightarrow> library_unexport_body \<Rightarrow> (string + VtlError, unexport_params) site_prog" where
  "resolve_iscsi_unexport_params c b =
     (case filled (lu_library b) of
        Some lib \<Rightarrow>
          thenp (checkp (lib \<noteq> OFFLINE_LIBRARY_NAME) (Inl ''not for the offline library''))
          (thenp (checkp (lib \<noteq> LEGACY_DEFAULT_LIBRARY_NAME) (Inl ''not for the test library''))
          (thenp (map_err Inr (on_world init_db))
          (bindp (map_err Inr (on_world (db_read (\<lambda>d. load_iscsi_library_export_by_name c d lib)))) (\<lambda>r.
             case r of
               None \<Rightarrow> fail (Inl ''the library has no record of an export'')
             | Some x \<Rightarrow> ret (saved_params b lib x)))))
      | None \<Rightarrow>
          (case filled (lu_iqn b) of
             None \<Rightarrow> fail (Inl ''give library or iqn'')
           | Some q \<Rightarrow>
               (case filled (lu_export_id b) of
                  None \<Rightarrow> fail (Inl ''give library or export_id'')
                | Some eid \<Rightarrow>
                    if lu_lun_map b = None \<and> lu_drives b = None
                    then fail (Inl ''give lun_map or drives'')
                    else ret \<lparr>up_iqn = q, up_export_id = eid, up_lun_map = lu_lun_map b,
                           up_drives = lu_drives b, up_library = None\<rparr>)))"

definition library_unexport_args :: "library_unexport_body \<Rightarrow> unexport_params \<Rightarrow> string list" where
  "library_unexport_args b u =
     flag_args (lu_sudo b) (lu_dry_run b) @
     [''library-unexport'', ''--id'', up_export_id u, ''--iqn'', up_iqn u] @
     (case up_lun_map u of
        Some luns \<Rightarrow> [''--lun-map'', lun_text luns]
      | None \<Rightarrow> (case up_drives u of Some d \<Rightarrow> [''--drives'', show_nat (unat d)] | None \<Rightarrow> []))"

text \<open>The record that goes: that of the library, or the one that matches the names.\<close>

definition library_to_clear :: "unexport_params \<Rightarrow> bool \<Rightarrow> string option cmd" where
  "library_to_clear u done =
     (if done \<and> up_library u = None then
        thenp init_db (gets (\<lambda>w. find_library_name_by_export_credentials (w_db w) (up_export_id u) (up_iqn u)))
      else ret (up_library u))"

definition clear_export :: "string option \<Rightarrow> bool \<Rightarrow> unit cmd" where
  "clear_export lib done =
     (case lib of
        None \<Rightarrow> ret ()
      | Some l \<Rightarrow>
          if done then thenp init_db
            (db_write (\<lambda>d. andThen (delete_iscsi_library_export_by_name l d) (\<lambda>d'. Inr ((), d'))))
          else ret ())"

definition run_library_unexport ::
    "'t web_env \<Rightarrow> library_unexport_body \<Rightarrow> unexport_params \<Rightarrow> ('t, process_output \<times> string option) page" where
  "run_library_unexport we b u =
     bindp (map_err (json_error_response 500) (run_iscsi_tool we (library_unexport_args b u))) (\<lambda>p.
     let done = (po_success p \<and> \<not> lu_dry_run b)
     in bindp (work we 500 (on_world (library_to_clear u done))) (\<lambda>lib.
        thenp (work we 500 (on_world (clear_export lib done))) (ret (p, lib))))"

definition library_unexport_json ::
    "library_unexport_body \<Rightarrow> unexport_params \<Rightarrow> process_output \<Rightarrow> string option \<Rightarrow> json" where
  "library_unexport_json b u p lib =
     JObj (tool_fields p @
       [(''dry_run'', JBool (lu_dry_run b)), (''iqn'', JStr (up_iqn u)), (''export_id'', JStr (up_export_id u)),
        (''removed_from_db'', JBool (po_success p \<and> \<not> lu_dry_run b \<and> lib \<noteq> None))] @
       (case lib of None \<Rightarrow> [] | Some l \<Rightarrow> [(''library'', JStr l)]) @
       (case iscsi_library_exec_hint (lu_dry_run b) (po_success p) (po_err p) False of
          None \<Rightarrow> [] | Some h \<Rightarrow> [(''hint'', JStr h)]))"

definition api_manage_iscsi_library_unexport :: "'t web_env \<Rightarrow> request \<Rightarrow> ('t, response) page" where
  "api_manage_iscsi_library_unexport we rq =
     with_body rq library_unexport_body_of (\<lambda>b.
     thenp (require_session we rq)
     (bindp (map_err (drive_number_response we) (on_site (resolve_iscsi_unexport_params (ce_codec (we_cli we)) b))) (\<lambda>u.
      thenp (check_text (web_validate_iqn (up_iqn u)))
      (thenp (check_text (validate_export_id_for_iscsi (up_export_id u)))
      (thenp (checkp (up_lun_map u \<noteq> None \<or> up_drives u \<noteq> None) (json_error_response 400 ''give drives or lun_map''))
      (thenp (case up_lun_map u of None \<Rightarrow> ret () | Some luns \<Rightarrow> check_text (validate_lun_map_values luns))
      (thenp (may_execute we (lu_dry_run b))
      (bindp (run_library_unexport we b u) (\<lambda>(p, lib).
         ret (json_response (tool_status p) (library_unexport_json b u p lib)))))))))))"

section \<open>What the form shows first\<close>

record export_defaults =
  ed_iqn :: string
  ed_export_id :: string
  ed_portal_ip :: string
  ed_portal_port :: "16 word"
  ed_lun_map :: "32 word list"
  ed_changer_sg :: "string option"
  ed_drive_sg :: "string list option"
  ed_exported_at :: "string option"
  ed_mismatch :: bool

definition fresh_defaults :: "nat \<times> nat \<times> string \<Rightarrow> VtlConfig \<Rightarrow> string \<Rightarrow> nat \<Rightarrow> export_defaults" where
  "fresh_defaults cal c lib n =
     (let (q, eid) = iscsi_default_iqn_and_export_id cal lib; (ip, port) = suggested_portal c
      in \<lparr>ed_iqn = q, ed_export_id = eid, ed_portal_ip = ip, ed_portal_port = port,
          ed_lun_map = map of_nat [0..<Suc n], ed_changer_sg = None, ed_drive_sg = None,
          ed_exported_at = None, ed_mismatch = False\<rparr>)"

definition saved_defaults ::
    "nat \<times> nat \<times> string \<Rightarrow> string \<Rightarrow> nat \<Rightarrow> IscsiLibraryExportRecord \<Rightarrow> export_defaults" where
  "saved_defaults cal lib n r =
     (let (q, eid) = iscsi_default_iqn_and_export_id cal lib
      in \<lparr>ed_iqn = (if trim (iqn r) = [] then q else iqn r),
          ed_export_id = (if trim (export_id r) = [] then eid else export_id r),
          ed_portal_ip = portal_ip r, ed_portal_port = portal_port r, ed_lun_map = lun_map r,
          ed_changer_sg = Some (changer_sg r), ed_drive_sg = Some (take n (drive_sg r)),
          ed_exported_at = Some (exported_at r), ed_mismatch = (length (drive_sg r) \<noteq> n)\<rparr>)"

definition defaults_json :: "string \<Rightarrow> nat \<Rightarrow> export_defaults \<Rightarrow> json" where
  "defaults_json lib n x =
     JObj [(''library'', JStr lib), (''iqn'', JStr (ed_iqn x)), (''export_id'', JStr (ed_export_id x)),
           (''backend_ch'', JStr (changer_backstore (ed_export_id x))),
           (''backend_drives'', JArr (map (\<lambda>i. JStr (drive_backstore (ed_export_id x) i)) [0..<n])),
           (''portal_ip'', JStr (ed_portal_ip x)), (''portal_port'', jnat (unat (ed_portal_port x))),
           (''drive_count'', jnat n), (''default_lun_map'', JArr (map (\<lambda>l. jnat (unat l)) (ed_lun_map x))),
           (''changer_sg'', jopt JStr (ed_changer_sg x)),
           (''drive_sg'', jopt (\<lambda>sgs. JArr (map JStr sgs)) (ed_drive_sg x)),
           (''has_saved_export'', JBool (ed_exported_at x \<noteq> None)), (''exported_at'', jopt JStr (ed_exported_at x)),
           (''saved_drive_mismatch'', JBool (ed_mismatch x)), (''can_export'', JBool (0 < n)),
           (''export_blocked_reason'', if 0 < n then JNull else JStr ''the library has no drives''),
           (''product_limits'', product_limits_json)]"

definition defaults_query :: "request \<Rightarrow> (string option \<times> bool) option" where
  "defaults_query rq =
     Option.bind (library_query rq) (\<lambda>l.
     map_option (Pair l) (query_field rq ''regenerate''
       (\<lambda>s. if s = ''true'' then Some True else if s = ''false'' then Some False else None) False))"

definition defaults_error :: "'t web_env \<Rightarrow> VtlError \<Rightarrow> response" where
  "defaults_error we e =
     (case e of
        LibraryNotFound n \<Rightarrow> json_error_response 404 (''library not found: '' @ n)
      | _ \<Rightarrow> json_error_response 400 (text_of we e))"

definition api_manage_iscsi_library_export_defaults :: "'t web_env \<Rightarrow> request \<Rightarrow> ('t, response) page" where
  "api_manage_iscsi_library_export_defaults we rq =
     with_query (defaults_query rq) (\<lambda>(lq, regenerate).
     thenp (require_session we rq)
     (bindp (work we 400 (resolve_library_from_query lq)) (\<lambda>lib.
      thenp (checkp (lib \<noteq> OFFLINE_LIBRARY_NAME) (json_error_response 400 ''not for the offline library''))
      (thenp (checkp (lib \<noteq> LEGACY_DEFAULT_LIBRARY_NAME) (json_error_response 400 ''not for the test library''))
      (thenp (work we 400 open_db)
      (bindp (map_err (defaults_error we) (on_site (on_world (db_read (\<lambda>d. resolve_library_id d lib))))) (\<lambda>i.
       bindp (work we 400 (on_world (db_read (\<lambda>d. load_iscsi_library_export (ce_codec (we_cli we)) d i)))) (\<lambda>saved.
       gets (\<lambda>s.
         let w = st_world (sv_site s); n = drive_count (w_db w) i
         in json_response 200 (defaults_json lib n
              (case if regenerate then None else saved of
                 None \<Rightarrow> fresh_defaults (sv_calendar s) (w_cfg w) lib n
               | Some r \<Rightarrow> saved_defaults (sv_calendar s) lib n r)))))))))))"

end
