(* ===== verification/WebRouter.thy ===== *)
theory WebRouter
  imports WebIscsi
begin

text \<open>
  The router of the web interface (\<^verbatim>\<open>web.rs\<close>): the table of the routes, the answer to one request
  behind the gate, and the server as the requests that it gets one after the other.
\<close>

section \<open>Routes\<close>

definition page :: "string \<Rightarrow> 't web_env \<Rightarrow> request \<Rightarrow> ('t, response) page" where
  "page name we rq = ret (html_page name)"

definition redirect :: "string \<Rightarrow> 't web_env \<Rightarrow> request \<Rightarrow> ('t, response) page" where
  "redirect p we rq = ret (redirect_to p)"

type_synonym 't route = "string \<times> http_method \<times> ('t web_env \<Rightarrow> request \<Rightarrow> ('t, response) page)"

definition page_routes :: "'t route list" where
  "page_routes =
     [(''/'', GET, page ''HOME_HTML''),
      (''/browse/tapes'', GET, page ''BROWSE_TAPES_HTML''),
      (''/browse/status'', GET, page ''BROWSE_STATUS_HTML''),
      (''/browse/fabric'', GET, page ''BROWSE_FABRIC_HTML''),
      (''/login'', GET, page ''LOGIN_HTML''),
      (''/admin/setup-init'', GET, page ''ADMIN_SETUP_INIT_HTML''),
      (''/admin'', GET, redirect ''/admin/overview''),
      (''/admin/overview'', GET, page ''ADMIN_OVERVIEW_HTML''),
      (''/admin/account'', GET, page ''ADMIN_ACCOUNT_HTML''),
      (''/admin/tapes'', GET, page ''ADMIN_TAPES_HTML''),
      (''/admin/libraries'', GET, redirect ''/admin/library''),
      (''/admin/slots'', GET, redirect ''/admin/tapes?tab=create''),
      (''/admin/library'', GET, page ''ADMIN_LIBRARY_HTML''),
      (''/admin/shelf'', GET, page ''ADMIN_SHELF_HTML''),
      (''/admin/assign-slot'', GET, page ''ADMIN_ASSIGN_SLOT_HTML''),
      (''/admin/changer'', GET, page ''ADMIN_CHANGER_HTML''),
      (''/admin/shelf-place'', GET, page ''ADMIN_SHELF_PLACE_HTML''),
      (''/admin/iscsi'', GET, page ''ADMIN_ISCSI_HTML''),
      (''/admin/transport'', GET, page ''ADMIN_TRANSPORT_HTML'')]"

definition read_routes :: "'t route list" where
  "read_routes =
     [(''/api/libraries'', GET, api_libraries),
      (''/api/libraries-status'', GET, api_libraries_status),
      (''/api/library/detail'', GET, api_library_detail),
      (''/api/shelves'', GET, api_shelves),
      (''/api/offline-shelves'', GET, api_offline_shelves),
      (''/api/empty-slots'', GET, api_empty_slots),
      (''/api/tapes'', GET, api_tapes),
      (''/api/status'', GET, api_status),
      (''/api/fabric'', GET, api_fabric),
      (''/api/setup/status'', GET, api_setup_status),
      (''/api/manage/transport/scan-sg'', GET, api_manage_transport_scan_sg),
      (''/api/manage/iscsi/scan-sg'', GET, api_manage_iscsi_scan_sg),
      (''/api/manage/iscsi/library-export-defaults'', GET, api_manage_iscsi_library_export_defaults),
      (''/api/manage/iscsi/config'', GET, api_manage_iscsi_config)]"

definition account_routes :: "'t route list" where
  "account_routes =
     [(''/api/captcha'', GET, api_captcha),
      (''/api/login'', POST, api_login),
      (''/api/logout'', POST, api_logout),
      (''/api/change-password'', POST, api_change_password),
      (''/api/setup/complete'', POST, api_setup_complete)]"

definition manage_routes :: "'t route list" where
  "manage_routes =
     [(''/api/manage/tape/create'', POST, api_manage_tape_create),
      (''/api/manage/library/create'', POST, api_manage_library_create),
      (''/api/manage/library/delete'', POST, api_manage_library_delete),
      (''/api/manage/shelf/create'', POST, api_manage_shelf_create),
      (''/api/manage/shelf/delete'', POST, api_manage_shelf_delete),
      (''/api/manage/tape/assign-slot'', POST, api_manage_assign),
      (''/api/manage/tape/load'', POST, api_manage_changer_load),
      (''/api/manage/tape/unload'', POST, api_manage_changer_unload),
      (''/api/manage/tape/eject'', POST, api_manage_changer_eject),
      (''/api/manage/robot/auto-align'', POST, api_manage_robot_auto_align),
      (''/api/manage/robot/reconcile'', POST, api_manage_robot_reconcile),
      (''/api/manage/tape/shelf-place'', POST, api_manage_shelf_place),
      (''/api/manage/tape/shelf-place-batch'', POST, api_manage_shelf_place_batch),
      (''/api/manage/shelf/create-offline'', POST, api_manage_shelf_create_offline),
      (''/api/manage/tape/assign-slot-batch'', POST, api_manage_assign_batch),
      (''/api/manage/tape/create-batch'', POST, api_manage_tape_create_batch),
      (''/api/manage/tape/create-auto-batch'', POST, api_manage_tape_create_auto_batch),
      (''/api/manage/tape/delete'', POST, api_manage_tape_delete),
      (''/api/manage/tape/init'', POST, api_manage_tape_init),
      (''/api/manage/tape/migrate-shelves-batch'', POST, api_manage_tape_migrate_shelves_batch)]"

definition iscsi_routes :: "'t route list" where
  "iscsi_routes =
     [(''/api/manage/iscsi/quick-export'', POST, api_manage_iscsi_quick_export),
      (''/api/manage/iscsi/quick-unexport'', POST, api_manage_iscsi_quick_unexport),
      (''/api/manage/iscsi/library-export'', POST, api_manage_iscsi_library_export),
      (''/api/manage/iscsi/library-unexport'', POST, api_manage_iscsi_library_unexport),
      (''/api/manage/iscsi/check'', POST, api_manage_iscsi_check),
      (''/api/manage/iscsi/allow-exec'', POST, api_manage_iscsi_allow_exec)]"

text \<open>The two routes that may write what the kernel reports without looking where a tape was.\<close>

definition mirror_routes :: "'t route list" where
  "mirror_routes =
     [(''/api/patrol'', GET, api_patrol_run),
      (''/api/manage/robot/sync'', POST, api_manage_robot_sync)]"

definition web_routes :: "'t route list" where
  "web_routes = page_routes @ read_routes @ account_routes @ manage_routes @ iscsi_routes @ mirror_routes"

text \<open>A route of GET also answers HEAD; another method is refused, and so is another path.\<close>

definition method_matches :: "http_method \<Rightarrow> http_method \<Rightarrow> bool" where
  "method_matches route m = (m = route \<or> (route = GET \<and> m = HEAD))"

definition dispatch :: "'t web_env \<Rightarrow> request \<Rightarrow> ('t, response) page" where
  "dispatch we rq =
     (case List.find (\<lambda>(p, m, h). p = rq_path rq) web_routes of
        None \<Rightarrow> ret (plain_response 404)
      | Some (p, m, h) \<Rightarrow>
          if method_matches m (rq_method rq) then h we rq else ret (plain_response 405))"

definition handle :: "'t web_env \<Rightarrow> request \<Rightarrow> 't server \<Rightarrow> response \<times> 't server" where
  "handle we rq = answered (require_authenticated we (dispatch we) rq)"

section \<open>The server\<close>

text \<open>The requests until the server is stopped, with the responses.\<close>

fun serve_requests :: "'t web_env \<Rightarrow> request list \<Rightarrow> 't server \<Rightarrow> response list \<times> 't server" where
  "serve_requests we [] s = ([], s)"
| "serve_requests we (rq # rqs) s =
     (case handle we rq s of (r, s1) \<Rightarrow> (case serve_requests we rqs s1 of (rs, s2) \<Rightarrow> (r # rs, s2)))"

text \<open>
  The address must parse and bind (\<open>parse_addr\<close>, \<open>bind\<close>); the file of the credentials is made if it
  is missing.
\<close>

definition run_web_ui ::
    "'t web_env \<Rightarrow> (string \<Rightarrow> bool) \<Rightarrow> (string \<Rightarrow> io_error option) \<Rightarrow> request list \<Rightarrow> string \<Rightarrow> nat \<Rightarrow>
     ('t server, VtlError, response list) prog" where
  "run_web_ui we parse_addr bind rqs host port =
     (let addr = host @ '':'' @ show_nat port
      in thenp (checkp (parse_addr addr) (InvalidParameter (''Invalid web bind address '' @ addr)))
         (thenp (modify (\<lambda>s. s\<lparr>sv_auth :=
                   new_web_state (path_of (cfg_log_dir (w_cfg (st_world (sv_site s)))) @ [''web_admin.json''])
                     (w_fs (st_world (sv_site s)))\<rparr>))
         (thenp (map_err IoError (on_auth (init_auth_file (env_auth we))))
         (case bind addr of
            Some e \<Rightarrow> fail (IoError e)
          | None \<Rightarrow> (\<lambda>s. case serve_requests we rqs s of (rs, s') \<Rightarrow> (Inr rs, s'))))))"

section \<open>What requests keep\<close>

text \<open>The catalogue of the server.\<close>

abbreviation served :: "'t server \<Rightarrow> bool" where
  "served s \<equiv> site_consistent (sv_site s)"

lemma keeps_on_site: "keeps site_consistent m \<Longrightarrow> keeps served (on_site m)"
  by (auto simp: keeps_def on_site_def on_part_def split: prod.split)

lemma keeps_on_auth: "keeps served (on_auth m)"
  unfolding on_auth_def by (rule keeps_on_part) (simp add: put_auth_def)

lemma keeps_work: "keeps site_consistent m \<Longrightarrow> keeps served (work we n m)"
  unfolding work_def by (intro keeps_map_err keeps_on_site)

lemma keeps_work_world: "keeps catalog.holds m \<Longrightarrow> keeps served (work we n (on_world m))"
  by (intro keeps_work geometry_catalog.keeps_world)

lemma keeps_with_body: "(\<And>b. keeps P (k b)) \<Longrightarrow> keeps P (with_body rq dec k)"
  unfolding with_body_def by (intro keeps_intros)

lemma keeps_with_query: "(\<And>v. keeps P (k v)) \<Longrightarrow> keeps P (with_query q k)"
  unfolding with_query_def by (intro keeps_intros)

lemma keeps_require_session: "keeps served (require_session we rq)"
  unfolding require_session_def by (intro keeps_intros keeps_on_auth)

lemma keeps_manage: "(\<And>b. keeps site_consistent (cmd b)) \<Longrightarrow> keeps served (manage we rq dec cmd shown)"
  unfolding manage_def by (intro keeps_intros keeps_with_body keeps_require_session keeps_work)

lemmas web_keeps = keeps_with_body keeps_with_query keeps_require_session keeps_on_auth keeps_manage keeps_work
  keeps_on_site geometry_catalog.keeps_world catalog.keeps_init_db catalog.keeps_db_read catalog.keeps_current_library_id

lemma keeps_open_db: "keeps site_consistent open_db"
  unfolding open_db_def by (intro keeps_intros web_keeps)

lemma keeps_resolve_query: "keeps site_consistent (resolve_library_from_query q)"
  unfolding resolve_library_from_query_def by (intro keeps_intros web_keeps)

lemma keeps_library_report: "keeps served (library_report we rq n f)"
  unfolding library_report_def library_db_def
  by (intro keeps_intros web_keeps keeps_open_db keeps_resolve_query)

lemma keeps_lsscsi: "keeps site_consistent (lsscsi_g_stdout out)" "keeps site_consistent (count_lsscsi_vtl_lines out)"
  "keeps site_consistent (scsi_rescan_scsi_host out h)"
  unfolding lsscsi_g_stdout_def count_lsscsi_vtl_lines_def scsi_rescan_scsi_host_def
  by (intro keeps_intros geometry_catalog.keeps_ask geometry_catalog.keeps_write_scans)+

lemma keeps_spec: "keeps catalog.holds build_vtl_instances_kernel_spec"
  by (rule geometry_catalog.spec_keeps)

lemma keeps_scan_error [keeps_intros]:
  "keeps P a \<Longrightarrow> (\<And>k s. keeps P (b k s)) \<Longrightarrow> keeps P (case e of TooFewDrives k s \<Rightarrow> b k s | _ \<Rightarrow> a)"
  by (simp split: scan_error.split)

lemma keeps_pick:
  "(\<And>v. keeps P (f v)) \<Longrightarrow> (\<And>k s. keeps P (g k s)) \<Longrightarrow> (\<And>e. keeps P (h e)) \<Longrightarrow>
   keeps P (case r of Inr v \<Rightarrow> f v | Inl (TooFewDrives k s) \<Rightarrow> g k s | Inl e \<Rightarrow> h e)"
  by (simp split: sum.split scan_error.split)

lemma keeps_scan: "keeps site_consistent (scan_vtl_library_blocking out name host)"
  unfolding scan_vtl_library_blocking_def scan_library_def rescan_vtl_for_library_scan_def
  by (intro keeps_intros keeps_pick keeps_lsscsi geometry_catalog.keeps_rescan web_keeps keeps_spec)

lemma keeps_display: "keeps catalog.holds (changer_inventory_display i)"
  unfolding changer_inventory_display_def changer_inventory_from_kernel_def
  by (intro keeps_intros catalog.keeps_snapshot)

lemma keeps_setup: "keeps site_consistent (try_complete_primary_vtl_setup_from_web out a b c d e f g)"
  unfolding try_complete_primary_vtl_setup_from_web_def write_initial_vtl_conf_def
  by (intro keeps_intros web_keeps catalog.keeps_fs_try geometry_catalog.keeps_maybe_reload keeps_modify) simp_all

lemma keeps_tool: "keeps served (run_iscsi_tool we args)"
proof -
  have "keeps served (\<lambda>s. case tool_main h tc cli (sv_target s) of (p, x) \<Rightarrow> (Inr p, s\<lparr>sv_target := x\<rparr>))" for h tc cli
    by (auto simp: keeps_def split: prod.split)
  then show ?thesis unfolding run_iscsi_tool_def by (intro keeps_intros)
qed

lemma keeps_web_checks: "keeps served (check_text r)" "keeps served (may_execute we b)" "keeps served (check_lun_map m n)"
  unfolding check_text_def may_execute_def check_lun_map_def by (intro keeps_intros)+

lemma catalog_ok_exports [simp]: "catalog_ok (d\<lparr>exports := xs\<rparr>) = catalog_ok d"
  by (simp add: catalog_ok_def keys_ok_def slots_placed_def drives_placed_def drives_exclusive_def shelf_xor_slot_def)

lemma keeps_save_export: "keeps catalog.holds (save_export c b q eid)"
  unfolding save_export_def
  by (intro keeps_intros web_keeps catalog.keeps_db_write)
    (auto simp: save_iscsi_library_export_def put_export_def)

lemma keeps_clear_export: "keeps catalog.holds (library_to_clear u b)" "keeps catalog.holds (clear_export l b)"
  unfolding library_to_clear_def clear_export_def
  by (intro keeps_intros web_keeps catalog.keeps_db_write;
      auto simp: delete_iscsi_library_export_by_name_def delete_iscsi_library_export_def)+

lemma keeps_params: "keeps site_consistent (resolve_iscsi_unexport_params c b)"
  "keeps site_consistent (check_drive_number l n)"
  unfolding resolve_iscsi_unexport_params_def check_drive_number_def by (intro keeps_intros web_keeps)+

section \<open>What the handlers keep\<close>

text \<open>A route keeps a property when its handler does, whatever the request.\<close>

definition route_keeps :: "('t server \<Rightarrow> bool) \<Rightarrow> 't web_env \<Rightarrow> 't route \<Rightarrow> bool" where
  "route_keeps P we r \<longleftrightarrow> (\<forall>rq. keeps P (snd (snd r) we rq))"

lemma route_keepsI: "(\<And>rq. keeps P (h we rq)) \<Longrightarrow> route_keeps P we (p, m, h)"
  by (simp add: route_keeps_def)

lemma pages_keep: "list_all (route_keeps P we) page_routes"
  by (simp add: page_routes_def route_keeps_def page_def redirect_def keeps_ret)

lemma reads_keep: "list_all (route_keeps served we) read_routes"
proof -
  have "keeps served (api_libraries we rq)" "keeps served (api_libraries_status we rq)"
    "keeps served (api_library_detail we rq)" "keeps served (api_shelves we rq)"
    "keeps served (api_offline_shelves we rq)" "keeps served (api_empty_slots we rq)"
    "keeps served (api_tapes we rq)" "keeps served (api_status we rq)" "keeps served (api_fabric we rq)"
    "keeps served (api_setup_status we rq)" "keeps served (api_manage_transport_scan_sg we rq)"
    "keeps served (api_manage_iscsi_library_export_defaults we rq)"
    "keeps served (api_manage_iscsi_config we rq)" for rq
    unfolding api_libraries_def api_libraries_status_def api_library_detail_def api_shelves_def
      api_offline_shelves_def api_empty_slots_def api_tapes_def api_status_def api_fabric_def api_setup_status_def
      api_manage_transport_scan_sg_def api_manage_iscsi_library_export_defaults_def api_manage_iscsi_config_def
    by (intro keeps_intros web_keeps keeps_open_db keeps_resolve_query keeps_library_report keeps_lsscsi keeps_scan
        keeps_display catalog.keeps_ensure_offline_library)+
  then show ?thesis by (simp add: read_routes_def route_keeps_def api_manage_iscsi_scan_sg_def)
qed

lemma accounts_keep: "list_all (route_keeps served we) account_routes"
proof -
  have "keeps served (api_captcha we rq)" "keeps served (api_login we rq)" "keeps served (api_logout we rq)"
    "keeps served (api_change_password we rq)" "keeps served (api_setup_complete we rq)" for rq
    unfolding api_captcha_def api_login_def api_logout_def api_change_password_def api_setup_complete_def
    by (intro keeps_intros web_keeps keeps_setup)+
  then show ?thesis by (simp add: account_routes_def route_keeps_def)
qed

lemma manages_keep: "list_all (route_keeps served we) manage_routes"
proof -
  note cmds = catalog.keeps_load_tape catalog.keeps_unload_tape catalog.keeps_eject_tape catalog.keeps_shelf_place_tape
    catalog.keeps_in_library tape_catalog.keeps_create_tape tape_catalog.keeps_create_tapes_batch
    tape_catalog.keeps_create_auto_named tape_catalog.keeps_delete_tape tape_catalog.keeps_init_tape
    keeps_create_shelf keeps_delete_shelf keeps_migrate keeps_assign_tapes_to_slots_batch
    keeps_move_tapes_to_offline_shelf keeps_reconcile_library
    keeps_create_named_library keeps_delete_named_library
  have align: "keeps catalog.holds (auto_align_library i)" for i
    unfolding auto_align_library_def by (intro keeps_intros keeps_auto_align)
  have "keeps served (api_manage_tape_create we rq)" "keeps served (api_manage_library_create we rq)"
    "keeps served (api_manage_library_delete we rq)" "keeps served (api_manage_shelf_create we rq)"
    "keeps served (api_manage_shelf_delete we rq)" "keeps served (api_manage_assign we rq)"
    "keeps served (api_manage_changer_load we rq)" "keeps served (api_manage_changer_unload we rq)"
    "keeps served (api_manage_changer_eject we rq)" "keeps served (api_manage_robot_auto_align we rq)"
    "keeps served (api_manage_robot_reconcile we rq)" "keeps served (api_manage_shelf_place we rq)"
    "keeps served (api_manage_shelf_place_batch we rq)" "keeps served (api_manage_shelf_create_offline we rq)"
    "keeps served (api_manage_assign_batch we rq)" "keeps served (api_manage_tape_create_batch we rq)"
    "keeps served (api_manage_tape_create_auto_batch we rq)" "keeps served (api_manage_tape_delete we rq)"
    "keeps served (api_manage_tape_init we rq)" "keeps served (api_manage_tape_migrate_shelves_batch we rq)" for rq
    unfolding api_manage_tape_create_def api_manage_library_create_def api_manage_library_delete_def
      api_manage_shelf_create_def api_manage_shelf_delete_def api_manage_assign_def api_manage_changer_load_def
      api_manage_changer_unload_def api_manage_changer_eject_def api_manage_robot_auto_align_def
      api_manage_robot_reconcile_def api_manage_shelf_place_def api_manage_shelf_place_batch_def
      api_manage_shelf_create_offline_def api_manage_assign_batch_def api_manage_tape_create_batch_def
      api_manage_tape_create_auto_batch_def api_manage_tape_delete_def api_manage_tape_init_def
      api_manage_tape_migrate_shelves_batch_def load_tape_in_library_def unload_tape_in_library_def
      eject_tape_in_library_def library_cmd_def
    by (intro keeps_intros web_keeps align cmds)+
  then show ?thesis by (simp add: manage_routes_def route_keeps_def)
qed

lemma iscsi_keep: "list_all (route_keeps served we) iscsi_routes"
proof -
  have "keeps served (api_manage_iscsi_quick_export we rq)" "keeps served (api_manage_iscsi_quick_unexport we rq)"
    "keeps served (api_manage_iscsi_library_export we rq)" "keeps served (api_manage_iscsi_library_unexport we rq)"
    "keeps served (api_manage_iscsi_check we rq)" "keeps served (api_manage_iscsi_allow_exec we rq)" for rq
    unfolding api_manage_iscsi_quick_export_def api_manage_iscsi_quick_unexport_def api_manage_iscsi_library_export_def
      api_manage_iscsi_library_unexport_def api_manage_iscsi_check_def api_manage_iscsi_allow_exec_def
      run_library_export_def run_library_unexport_def
    by (intro keeps_intros web_keeps keeps_tool keeps_web_checks keeps_save_export keeps_clear_export keeps_params)+
  then show ?thesis by (simp add: iscsi_routes_def route_keeps_def)
qed

end
