(* ===== verification/WebSafety.thy ===== *)
theory WebSafety
  imports WebRouter
begin

text \<open>
  What the gate of the web interface guarantees: a request without a session that is alive leaves
  everything but the sessions and captchas as it was, before the first configuration only the wizard
  does anything, and requests keep the catalogue consistent.
\<close>

section \<open>Sessions that are alive\<close>

definition session_alive :: "auth_env \<Rightarrow> WebState \<Rightarrow> string \<Rightarrow> bool" where
  "session_alive e w tok \<longleftrightarrow>
     (\<exists>u t0. map_of (sessions w) tok = Some (u, t0) \<and> ae_clock e (aw_ticks w) - t0 \<le> from_secs SESSION_SECS)"

definition authenticated :: "'t web_env \<Rightarrow> request \<Rightarrow> 't server \<Rightarrow> bool" where
  "authenticated we rq s \<longleftrightarrow>
     (\<exists>tok. session_token_from_cookie_header rq = Some tok \<and> session_alive (env_auth we) (sv_auth s) tok)"

lemma session_username_alive:
  "fst (session_username e (Some tok) w) = Inr u \<Longrightarrow> u \<noteq> None \<longleftrightarrow> session_alive e w tok"
  by (auto simp: session_username_def session_alive_def instant_now_def bindp_def thenp_def not_less
      split: option.splits if_splits)

lemma session_username_returns: "\<exists>u. fst (session_username e tok w) = Inr u"
  by (auto simp: session_username_def instant_now_def bindp_def thenp_def split: option.split)

lemma session_authenticated_run:
  "fst (session_authenticated we rq s :: ('e + bool) \<times> 't server) = Inr (authenticated we rq s)"
proof (cases "session_token_from_cookie_header rq")
  case None
  then show ?thesis by (simp add: session_authenticated_def authenticated_def)
next
  case (Some tok)
  obtain u where u: "(fst (session_username (env_auth we) (Some tok) (auth_of s)) :: 'e + string option) = Inr u"
    using session_username_returns by blast
  have "session_alive (env_auth we) (auth_of s) tok = session_alive (env_auth we) (sv_auth s) tok"
    by (simp add: session_alive_def auth_of_def)
  with session_username_alive [OF u] Some u show ?thesis
    by (auto simp: session_authenticated_def authenticated_def on_auth_def on_part_def bindp_def split: prod.splits)
qed

section \<open>What is left alone\<close>

definition same_site :: "site \<Rightarrow> 't \<Rightarrow> 't server \<Rightarrow> bool" where
  "same_site x y s \<longleftrightarrow> sv_site s = x \<and> sv_target s = y"

definition same_files :: "fs \<Rightarrow> WebState \<Rightarrow> bool" where
  "same_files f w \<longleftrightarrow> aw_fs w = f"

lemma keeps_same_on_auth:
  fixes y :: 't
  assumes "\<And>f. keeps (same_files f) m"
  shows "keeps (same_site x y) (on_auth m)"
proof -
  have "aw_fs (snd (m (auth_of s))) = w_fs (st_world (sv_site s))" for s :: "'t server"
    using keepsD [OF assms, of "w_fs (st_world (sv_site s))" "auth_of s"] by (simp add: same_files_def auth_of_def)
  then have "sv_site (put_auth (snd (m (auth_of s))) s) = sv_site s" for s :: "'t server"
    by (simp add: put_auth_def)
  then show ?thesis
    by (simp add: keeps_def on_auth_def on_part_def same_site_def case_prod_unfold) (auto simp: put_auth_def)
qed

lemma keeps_instant: "keeps (same_files f) (instant_now e)" "keeps (same_files f) draw"
  unfolding instant_now_def draw_def by (intro keeps_intros keeps_modify; simp add: same_files_def)+

lemma keeps_sessions_files:
  "keeps (same_files f) (session_username e tok)" "keeps (same_files f) (logout_token t)"
  "keeps (same_files f) (new_captcha e)" "keeps (same_files f) (verify_captcha e i a)"
  "keeps (same_files f) (login e u p)"
  unfolding session_username_def logout_token_def new_captcha_def verify_captcha_def login_def read_auth_def
  by (intro keeps_intros keeps_instant keeps_modify; simp add: same_files_def)+

lemmas keeps_same = keeps_intros keeps_same_on_auth keeps_sessions_files

lemma keeps_same_session:
  "keeps (same_site x y) (session_authenticated we rq)" "keeps (same_site x y) (require_session we rq)"
  unfolding session_authenticated_def require_session_def by (intro keeps_same)+

lemma keeps_same_public:
  "keeps (same_site x y) (api_captcha we rq)" "keeps (same_site x y) (api_login we rq)"
  "keeps (same_site x y) (api_logout we rq)" "keeps (same_site x y) (page n we rq)"
  unfolding api_captcha_def api_login_def api_logout_def page_def
  by (intro keeps_same keeps_with_body)+

text \<open>The handlers of the public routes.\<close>

lemma dispatch_find:
  assumes "List.find (\<lambda>(p, m, h). p = rq_path rq) web_routes = Some (p, m, h)" "method_matches m (rq_method rq)"
  shows "dispatch we rq = h we rq"
  using assms by (simp add: dispatch_def)

lemma public_handlers:
  assumes "is_public_route (rq_method rq) (rq_path rq)"
  shows "dispatch we rq \<in> {page ''LOGIN_HTML'' we rq, api_captcha we rq, api_login we rq, api_logout we rq}"
proof -
  have find:
    "List.find (\<lambda>(p, m, h). p = ''/login'') web_routes = Some (''/login'', GET, page ''LOGIN_HTML'')"
    "List.find (\<lambda>(p, m, h). p = ''/api/captcha'') web_routes = Some (''/api/captcha'', GET, api_captcha)"
    "List.find (\<lambda>(p, m, h). p = ''/api/login'') web_routes = Some (''/api/login'', POST, api_login)"
    "List.find (\<lambda>(p, m, h). p = ''/api/logout'') web_routes = Some (''/api/logout'', POST, api_logout)"
    by (simp_all add: web_routes_def page_routes_def read_routes_def account_routes_def)
  have cases: "rq_method rq = GET \<and> rq_path rq = ''/login'' \<or> rq_method rq = GET \<and> rq_path rq = ''/api/captcha'' \<or>
      rq_method rq = POST \<and> rq_path rq = ''/api/login'' \<or> rq_method rq = POST \<and> rq_path rq = ''/api/logout''"
    using assms by (simp add: is_public_route_def)
  show ?thesis using cases
    by (elim disjE conjE; simp add: dispatch_def find method_matches_def)
qed

lemma keeps_same_dispatch:
  "is_public_route (rq_method rq) (rq_path rq) \<Longrightarrow> keeps (same_site x y) (dispatch we rq)"
  using public_handlers [of rq we] keeps_same_public [of x y] by fastforce

section \<open>Refused requests\<close>

definition refused_before_setup :: "request \<Rightarrow> 't server \<Rightarrow> bool" where
  "refused_before_setup rq s \<longleftrightarrow>
     setup_gate_active (st_world (sv_site s)) \<and> \<not> path_allowed_during_setup (rq_method rq) (rq_path rq)"

definition refusal :: "'t web_env \<Rightarrow> request \<Rightarrow> 't server \<Rightarrow> response" where
  "refusal we rq s =
     (if authenticated we rq s then
        (if is_api rq
         then json_response 403 (JObj [(''error'', JStr ''finish the initial configuration first''), (''code'', JStr ''setup_required'')])
         else redirect_to ''/admin/setup-init'')
      else if is_api rq then json_error_response 401 NOT_LOGGED_IN else redirect_to ''/login'')"

lemma session_authenticated_eq:
  fixes s :: "'t server"
  obtains s1 where "(session_authenticated we rq s :: ('e + bool) \<times> _) = (Inr (authenticated we rq s), s1)"
    "sv_site s1 = sv_site s" "sv_target s1 = sv_target s"
proof -
  let ?m = "session_authenticated we rq :: ('t server, 'e, bool) prog"
  have "same_site (sv_site s) (sv_target s) (snd (?m s))"
    by (rule keepsD [OF keeps_same_session(1)]) (simp add: same_site_def)
  then show ?thesis using session_authenticated_run [of we rq s]
    by (intro that [of "snd (?m s)"]) (auto simp: same_site_def prod_eq_iff)
qed

lemma answered_snd: "snd (answered m s) = snd (m s)"
  by (simp add: answered_def split: prod.split sum.split)

lemma public_request_same:
  assumes "is_public_route (rq_method rq) (rq_path rq)"
  shows "same_site (sv_site s) (sv_target s) (snd (handle we rq s))"
proof -
  have "keeps (same_site (sv_site s) (sv_target s)) (require_authenticated we (dispatch we) rq)"
    unfolding require_authenticated_def using assms
    by (simp only: if_True) (intro keeps_intros keeps_same_session keeps_same_dispatch assms)
  from keepsD [OF this, of s] show ?thesis by (simp add: handle_def answered_snd same_site_def)
qed

lemma refused_request:
  assumes "\<not> is_public_route (rq_method rq) (rq_path rq)"
    and "\<not> authenticated we rq s \<or> refused_before_setup rq s"
  shows "fst (handle we rq s) = refusal we rq s"
    and "same_site (sv_site s) (sv_target s) (snd (handle we rq s))"
proof -
  obtain s1 where s1: "(session_authenticated we rq s :: (response + bool) \<times> _) = (Inr (authenticated we rq s), s1)"
    "sv_site s1 = sv_site s" "sv_target s1 = sv_target s"
    by (rule session_authenticated_eq)
  have "handle we rq s = (refusal we rq s, s1)"
    using assms s1 unfolding handle_def require_authenticated_def answered_def refusal_def refused_before_setup_def
    by (auto simp: bindp_def)
  then show "fst (handle we rq s) = refusal we rq s" "same_site (sv_site s) (sv_target s) (snd (handle we rq s))"
    using s1 by (simp_all add: same_site_def)
qed

section \<open>The catalogue\<close>

definition careful_request :: "request \<Rightarrow> bool" where
  "careful_request rq \<longleftrightarrow> rq_path rq \<notin> {''/api/patrol'', ''/api/manage/robot/sync''}"

lemma routes_keep:
  "list_all (route_keeps served we) (page_routes @ read_routes @ account_routes @ manage_routes @ iscsi_routes)"
  by (simp add: pages_keep reads_keep accounts_keep manages_keep iscsi_keep)

lemma keeps_dispatch:
  fixes we :: "'t web_env"
  shows "careful_request rq \<Longrightarrow> keeps served (dispatch we rq)"
proof -
  assume careful: "careful_request rq"
  show ?thesis
  proof (cases "List.find (\<lambda>(p, m, h). p = rq_path rq) (web_routes :: 't route list)")
    case None
    then show ?thesis by (simp add: dispatch_def keeps_ret)
  next
    case (Some r)
    obtain p m h where r: "r = (p, m, h)" by (cases r) auto
    from Some have "(p, m, h) \<in> set web_routes" "p = rq_path rq"
      by (auto simp: r find_Some_iff in_set_conv_nth)
    with careful have "(p, m, h) \<in> set (page_routes @ read_routes @ account_routes @ manage_routes @ iscsi_routes)"
      by (auto simp: web_routes_def mirror_routes_def careful_request_def)
    with routes_keep [of we] have "route_keeps served we (p, m, h)" by (meson list_all_iff)
    with Some show ?thesis by (simp add: dispatch_def r route_keeps_def keeps_ret)
  qed
qed

lemma keeps_request:
  assumes "careful_request rq" "served s"
  shows "served (snd (handle we rq s))"
proof -
  have "keeps served (session_authenticated we rq)"
    unfolding session_authenticated_def by (intro keeps_intros keeps_on_auth)
  then have "keeps served (require_authenticated we (dispatch we) rq)"
    unfolding require_authenticated_def by (intro keeps_intros keeps_dispatch assms(1))
  from keepsD [OF this assms(2)] show ?thesis by (simp add: handle_def answered_snd)
qed

text \<open>
  A server over its life: started on any installation, with requests, other processes on the same
  machine, and changes from outside that leave the database alone.
\<close>

inductive web_life :: "'t web_env \<Rightarrow> 't server \<Rightarrow> bool" for we where
  started: "installation (we_cli we) (sv_site s) \<Longrightarrow> web_life we s"
| requested: "web_life we s \<Longrightarrow> careful_request rq \<Longrightarrow> web_life we (snd (handle we rq s))"
| ran_beside: "web_life we s \<Longrightarrow> careful cmd \<Longrightarrow>
    web_life we (s\<lparr>sv_site := snd (run_main (we_cli we) e opt cmd (sv_site s))\<rparr>)"
| changed_outside: "web_life we s \<Longrightarrow> w_db (st_world (sv_site s')) = w_db (st_world (sv_site s)) \<Longrightarrow> web_life we s'"

lemma web_life_consistent: "web_life we s \<Longrightarrow> served s"
  by (induction rule: web_life.induct) (simp_all add: installation_consistent keeps_request run_main_consistent)

end
