(* ===== verification/WebProperties.thy ===== *)
theory WebProperties
  imports WebSafety ToolProperties ServiceProperties
begin

text \<open>
  The properties of the web interface: who may change something, what a login gives, what requests
  keep, and which device nodes a scan chooses, each with a concrete instance.
\<close>

section \<open>Surroundings for the examples\<close>

text \<open>
  A server with one session, on the sample site with a file of credentials that allows exports; the
  cookie jar takes the first pair of a cookie header.
\<close>

definition sample_files :: fs where
  "sample_files =
     \<lparr>nodes = ([''web_admin.json''], Reg 0) #
        ([''opt'', ''vtladm'', ''var'', ''tapes'', ''__offline__''], Dir) # nodes sample_fs,
      inodes = [(0, string_content (put_texts [''admin'', ''4rfVBNji9'', ''y'']))], next_ino = 3, fs_fault = (\<lambda>_. None)\<rparr>"

definition sample_server :: "string list server" where
  "sample_server =
     \<lparr>sv_site = sample_site\<lparr>st_world := sample_world\<lparr>w_fs := sample_files\<rparr>\<rparr>,
      sv_auth = (new_web_state [''web_admin.json''] sample_files)\<lparr>sessions := [(''tok'', (''admin'', 0))]\<rparr>,
      sv_target = [], sv_calendar = (2026, 5, ''20260501120000'')\<rparr>"

definition sample_jar :: "string option list \<Rightarrow> string option" where
  "sample_jar cs = (case cs of Some h # _ \<Rightarrow> cookie_part h | _ \<Rightarrow> None)"

definition sample_web_env :: "(string list \<Rightarrow> string + IscsiCli) \<Rightarrow> string list web_env" where
  "sample_web_env clap =
     \<lparr>we_cli = sample_cli, we_jar = sample_jar, we_patrol_text = (\<lambda>_. ([], [])), we_tool_host = sample_tool_host,
      we_targetcli = sample_targetcli, we_clap = clap, we_no_child = None, we_tool_path = ''vtladm-iscsi''\<rparr>"

abbreviation sample_we :: "string list web_env" where
  "sample_we \<equiv> sample_web_env (\<lambda>_. Inl ''usage'')"

definition request_of :: "http_method \<Rightarrow> string \<Rightarrow> string option \<Rightarrow> json \<Rightarrow> request" where
  "request_of m p c j =
     \<lparr>rq_method = m, rq_path = p, rq_cookies = (case c of None \<Rightarrow> [] | Some h \<Rightarrow> [Some h]), rq_query = [], rq_body = Inr j\<rparr>"

section \<open>The gate\<close>

text \<open>C23: only a request with a session that is alive, and after the first configuration unless it belongs
  to the wizard, changes anything but sessions and captchas; every other request but the four public ones
  is refused with 401, 403 or a redirect.\<close>

theorem only_sessions_change_anything:
  assumes "handle we rq s = (r, s')"
    and "is_public_route (rq_method rq) (rq_path rq) \<or> \<not> authenticated we rq s \<or> refused_before_setup rq s"
  shows "sv_site s' = sv_site s \<and> sv_target s' = sv_target s \<and>
    (is_public_route (rq_method rq) (rq_path rq) \<or> r = refusal we rq s)"
proof (cases "is_public_route (rq_method rq) (rq_path rq)")
  case True
  with public_request_same [OF True, of s we] assms(1) show ?thesis by (simp add: same_site_def)
next
  case False
  with assms(2) have "\<not> authenticated we rq s \<or> refused_before_setup rq s" by simp
  from refused_request [OF False this] assms(1) show ?thesis by (simp add: same_site_def)
qed

definition delete_request :: request where
  "delete_request = request_of POST ''/api/manage/tape/delete'' (Some ''vtl_session=guess'')
     (JObj [(''library'', JStr ''lib''), (''name'', JStr ''t1'')])"

theorem only_sessions_change_anything_witness:
  "\<exists>s'. handle sample_we delete_request sample_server = (json_error_response 401 NOT_LOGGED_IN, s') \<and>
     sv_site s' = sv_site sample_server"
proof -
  obtain r s' where h: "handle sample_we delete_request sample_server = (r, s')" by fastforce
  have tok: "session_token_from_cookie_header delete_request = Some ''guess''" by code_simp
  have not: "\<not> authenticated sample_we delete_request sample_server"
    by (simp add: authenticated_def tok session_alive_def sample_server_def)
  have public: "\<not> is_public_route (rq_method delete_request) (rq_path delete_request)" and api: "is_api delete_request"
    by code_simp+
  from only_sessions_change_anything [OF h] not public have "r = refusal sample_we delete_request sample_server"
    "sv_site s' = sv_site sample_server" by auto
  with h not api show ?thesis by (simp add: refusal_def)
qed

section \<open>Logging in\<close>

definition at_tick :: "nat \<Rightarrow> 't server \<Rightarrow> 't server" where
  "at_tick n s = s\<lparr>sv_auth := (sv_auth s)\<lparr>aw_ticks := n\<rparr>\<rparr>"

text \<open>A token as the crate \<^verbatim>\<open>uuid\<close> makes it: no outer spaces and no semicolon.\<close>

definition cookie_text :: "string \<Rightarrow> bool" where
  "cookie_text t \<longleftrightarrow> t \<noteq> [] \<and> trim t = t \<and> CHR '';'' \<notin> set t"

lemma login_route:
  assumes "rq_method rq = POST" "rq_path rq = ''/api/login''"
  shows "handle we rq s = answered (api_login we rq) s"
  using assms unfolding handle_def require_authenticated_def
  by (simp add: is_public_route_def dispatch_def web_routes_def page_routes_def read_routes_def account_routes_def
      method_matches_def)

lemma login_handled:
  assumes "handle we rq s = (r, s1)" "rq_method rq = POST" "rq_path rq = ''/api/login''"
    and "rq_body rq = Inr j" "login_body j = Some (u, p, i, a)" "rs_status r = 200"
  obtains w1 w2 tok where "verify_captcha (env_auth we) i (trim a) (auth_of s) = ((Inr True :: response + bool), w1)"
    "login (env_auth we) (trim u) (trim p) (auth_of (put_auth w1 s)) = (Inr tok, w2)"
    "r = json_cookie_response 200 (JObj [(''ok'', JBool True)]) (Some (session_cookie tok))"
    "s1 = put_auth w2 (put_auth w1 s)"
proof -
  note login_route [OF assms(2,3), of we s]
  moreover have "verify_captcha (env_auth we) i (trim a) w \<noteq> (Inl x, w')" for x :: response and w w'
    using verify_captcha_run [of "env_auth we" i "trim a" w] by (metis fst_conv sum.distinct(1))
  ultimately show ?thesis using assms(1,4-6)
    by (auto simp: answered_def api_login_def with_body_def on_auth_def on_part_def bindp_def attempt_def
        json_error_response_def json_response_def login_response_def json_cookie_response_def
        intro: that split: prod.splits sum.splits if_splits LoginFail.splits)
qed

lemma verify_captcha_frame:
  "auth_file (snd (verify_captcha e i a w)) = auth_file w \<and> aw_fs (snd (verify_captcha e i a w)) = aw_fs w \<and>
   aw_draws (snd (verify_captcha e i a w)) = aw_draws w"
  by (auto simp: verify_captcha_def instant_now_def bindp_def thenp_def split: option.split)

lemma session_cookie_pair: "CHR '';'' \<notin> set tok \<Longrightarrow> takeWhile (\<lambda>c. c \<noteq> CHR '';'') (session_cookie tok) = ''vtl_session='' @ tok"
  by (simp add: session_cookie_def takeWhile_append)

lemma cookie_pair_read:
  assumes "cookie_text tok" "rq_cookies rq = [Some (''vtl_session='' @ tok)]"
  shows "session_token_from_cookie_header rq = Some tok"
proof -
  have "CHR '';'' \<notin> set (''vtl_session='' @ tok)" using assms(1) by (auto simp: cookie_text_def)
  then have "split_on CHR '';'' (''vtl_session='' @ tok) = [''vtl_session='' @ tok]" by (rule split_on_absent)
  moreover have "trim (''vtl_session='' @ tok) = ''vtl_session='' @ tok"
  proof -
    have "tok \<noteq> []" "\<not> is_ws (last tok)" using assms(1) trim_id [of tok] by (auto simp: cookie_text_def)
    moreover have "\<not> is_ws CHR ''v''" by code_simp
    ultimately show ?thesis by (subst trim_id) simp
  qed
  ultimately show ?thesis using assms strip_prefix_append [of "''vtl_session=''" tok]
    by (simp add: session_token_from_cookie_header_def cookie_part_def cookie_text_def List.map_filter_def
        del: append_Cons append_Nil strip_prefix.simps)
qed

text \<open>C24: a login that succeeds has answered a captcha and given the stored user and password, and the
  cookie that it sets opens the gate for a day and not longer.\<close>

theorem login_opens_a_session:
  assumes "handle we rq s = (r, s1)" "rq_method rq = POST" "rq_path rq = ''/api/login''"
    and "rq_body rq = Inr j" "login_body j = Some (u, p, i, a)" "rs_status r = 200"
    and "\<And>n. cookie_text (ae_uuid (env_auth we) n)"
    and "rq_cookies rq2 = [Some (takeWhile (\<lambda>c. c \<noteq> CHR '';'') (the (rs_cookie r)))]"
  shows "(\<exists>v t. map_of (captcha (sv_auth s)) i = Some (v, t) \<and> parse_i32 (trim (trim a)) = Some v) \<and>
    (\<exists>cred. fst (read_auth (env_auth we) (auth_of s)) = Inr cred \<and> trim u = username cred \<and>
       verified (env_auth we) (trim p) (password_hash cred)) \<and>
    authenticated we rq2 (at_tick n s1) =
      (ae_clock (env_auth we) n - ae_clock (env_auth we) (aw_ticks (sv_auth s1) - 1) \<le> from_secs SESSION_SECS)"
proof -
  let ?e = "env_auth we"
  obtain w1 w2 tok where v: "verify_captcha ?e i (trim a) (auth_of s) = ((Inr True :: response + bool), w1)"
    and l: "login ?e (trim u) (trim p) (auth_of (put_auth w1 s)) = (Inr tok, w2)"
    and r: "r = json_cookie_response 200 (JObj [(''ok'', JBool True)]) (Some (session_cookie tok))"
    and s1: "s1 = put_auth w2 (put_auth w1 s)"
    by (rule login_handled [OF assms(1-6)])
  have w1: "auth_of (put_auth w1 s) = w1" by (simp add: auth_of_def put_auth_def)
  obtain cred where cred: "read_auth ?e w1 = (Inr cred, w1)" "trim u = username cred"
      "verified ?e (trim p) (password_hash cred)"
    and tok: "tok = ae_uuid ?e (aw_draws w1)" and ticks: "aw_ticks w2 = Suc (Suc (aw_ticks w1))"
    and ses: "sessions w2 = amap_put tok (trim u, ae_clock ?e (Suc (aw_ticks w1)))
       (amap_retain (\<lambda>(_, t). ae_clock ?e (aw_ticks w1) - t < from_secs (SESSION_SECS + 3600)) (sessions w1))"
    using login_Inr [OF l] unfolding w1 by blast
  have frame: "auth_file w1 = auth_file (auth_of s) \<and> aw_fs w1 = aw_fs (auth_of s)"
    using verify_captcha_frame [of ?e i "trim a" "auth_of s"] by (metis snd_conv v)
  have "fst (read_auth ?e (auth_of s)) = Inr cred"
    using cred(1) frame by (simp add: read_auth_def)
  moreover have "\<exists>v t. map_of (captcha (sv_auth s)) i = Some (v, t) \<and> parse_i32 (trim (trim a)) = Some v"
    using arg_cong [OF v, of fst]
    by (auto simp: verify_captcha_run auth_of_def split: option.splits)
  moreover have "session_token_from_cookie_header rq2 = Some tok"
    using assms(7) [of "aw_draws w1"] assms(8)
    by (intro cookie_pair_read) (auto simp: tok r json_cookie_response_def session_cookie_pair cookie_text_def)
  then have "authenticated we rq2 (at_tick n s1) =
      (ae_clock ?e n - ae_clock ?e (aw_ticks (sv_auth s1) - 1) \<le> from_secs SESSION_SECS)"
    by (simp add: authenticated_def session_alive_def at_tick_def s1 put_auth_def ses ticks map_of_amap_put)
  ultimately show ?thesis using cred by blast
qed

definition asked_server :: "string list server" where
  "asked_server = sample_server\<lparr>sv_auth := (sv_auth sample_server)\<lparr>captcha := [(''c'', (2, 0))]\<rparr>\<rparr>"

definition login_request :: request where
  "login_request = request_of POST ''/api/login'' None
     (JObj [(''username'', JStr ''admin''), (''password'', JStr ''4rfVBNji9''), (''captcha_id'', JStr ''c''),
            (''captcha_answer'', JStr ''2'')])"

lemma sample_files_read:
  assumes "auth_file w = [''web_admin.json'']" "aw_fs w = sample_files"
  shows "read_auth sample_auth w = (Inr \<lparr>username = ''admin'', password_hash = ''4rfVBNji9'', allow_iscsi = True\<rparr>, w)"
proof -
  have "read_to_string [''web_admin.json''] (aw_fs w) = Inr (put_texts [''admin'', ''4rfVBNji9'', ''y''])"
    by (subst read_plain [of _ _ 0]) (simp_all add: assms(2) sample_files_def node_at_def content_of_def)
  moreover have "ae_unjson sample_auth (put_texts [''admin'', ''4rfVBNji9'', ''y'']) =
      Inr \<lparr>username = ''admin'', password_hash = ''4rfVBNji9'', allow_iscsi = True\<rparr>"
    using sample_texts [of "[''admin'', ''4rfVBNji9'', ''y'']"]
    by (simp add: sample_auth_def del: take_texts.simps)
  ultimately show ?thesis by (simp add: read_auth_def assms(1))
qed

lemma asked_login:
  obtains s1 where "handle sample_we login_request asked_server =
    (json_cookie_response 200 (JObj [(''ok'', JBool True)]) (Some (session_cookie ''0'')), s1)"
proof -
  let ?w = "auth_of asked_server"
  have e: "env_auth sample_we = sample_auth" by (simp add: env_auth_def sample_web_env_def sample_cli_def)
  have two: "parse_i32 (trim (trim ''2'')) = Some 2" "trim ''2'' = ''2''" "trim ''admin'' = ''admin''"
    "trim ''4rfVBNji9'' = ''4rfVBNji9''" by code_simp+
  obtain w1 where w1: "verify_captcha sample_auth ''c'' (trim ''2'') ?w = ((Inr True :: response + bool), w1)"
    using verify_captcha_run [of sample_auth "''c''" "trim ''2''" ?w] two
    by (auto simp: auth_of_def asked_server_def sample_server_def new_web_state_def sample_auth_def from_secs_def
        CAPTCHA_SECS_def prod_eq_iff)
  have frame: "auth_file w1 = [''web_admin.json'']" "aw_fs w1 = sample_files" "aw_draws w1 = 0"
    unfolding arg_cong [OF w1, of snd, unfolded snd_conv, symmetric]
    by (simp_all only: verify_captcha_frame)
      (simp_all add: auth_of_def asked_server_def sample_server_def new_web_state_def sample_site_def)
  have "fst (login sample_auth ''admin'' ''4rfVBNji9'' w1) = Inr ''0''"
    using login_succeeds [OF sample_files_read [OF frame(1,2)], of "''4rfVBNji9''"] shown(1) frame(3)
    by (simp add: verified_def sample_auth_def)
  then obtain w2 where w2: "login sample_auth ''admin'' ''4rfVBNji9'' w1 = (Inr ''0'', w2)" by (metis prod.collapse)
  have body: "login_body (JObj [(''username'', JStr ''admin''), (''password'', JStr ''4rfVBNji9''),
      (''captcha_id'', JStr ''c''), (''captcha_answer'', JStr ''2'')]) = Some (''admin'', ''4rfVBNji9'', ''c'', ''2'')"
    by code_simp
  have "auth_of (put_auth w1 asked_server) = w1" by (simp add: auth_of_def put_auth_def)
  with w1 w2 body two that show ?thesis
    by (simp add: login_route login_request_def request_of_def answered_def api_login_def with_body_def on_auth_def
        on_part_def bindp_def attempt_def login_response_def e)
qed

theorem login_opens_a_session_witness:
  "\<exists>s1. authenticated sample_we (request_of GET ''/'' (Some ''vtl_session=0'') JNull) (at_tick 9 s1)"
proof -
  obtain s1 where h: "handle sample_we login_request asked_server =
      (json_cookie_response 200 (JObj [(''ok'', JBool True)]) (Some (session_cookie ''0'')), s1)" by (rule asked_login)
  have e: "env_auth sample_we = sample_auth" by (simp add: env_auth_def sample_web_env_def sample_cli_def)
  have rq: "rq_method login_request = POST" "rq_path login_request = ''/api/login''"
    "rq_body login_request = Inr (JObj [(''username'', JStr ''admin''), (''password'', JStr ''4rfVBNji9''),
      (''captcha_id'', JStr ''c''), (''captcha_answer'', JStr ''2'')])"
    by (simp_all add: login_request_def request_of_def)
  have body: "login_body (JObj [(''username'', JStr ''admin''), (''password'', JStr ''4rfVBNji9''),
      (''captcha_id'', JStr ''c''), (''captcha_answer'', JStr ''2'')]) = Some (''admin'', ''4rfVBNji9'', ''c'', ''2'')"
    by code_simp
  have uuid: "cookie_text (ae_uuid (env_auth sample_we) n)" for n
    using show_nat_trim [of n] show_nat_digits [of n] by (auto simp: e sample_auth_def cookie_text_def list_all_iff is_ascii_digit_def)
  have pair: "takeWhile (\<lambda>c. c \<noteq> CHR '';'') (session_cookie ''0'') = ''vtl_session=0''"
    using session_cookie_pair [of "''0''"] by simp
  from login_opens_a_session [OF h rq body _ uuid, where ?rq2.0 = "request_of GET ''/'' (Some ''vtl_session=0'') JNull" and n = 9]
  have "authenticated sample_we (request_of GET ''/'' (Some ''vtl_session=0'') JNull) (at_tick 9 s1)"
    by (simp add: json_cookie_response_def json_response_def request_of_def pair e sample_auth_def from_secs_def SESSION_SECS_def)
  then show ?thesis ..
qed

section \<open>The catalogue\<close>

text \<open>C25: over the life of a server, started on any installation, the catalogue is consistent: after any
  requests but those for /api/patrol and /api/manage/robot/sync, with any careful commands of other
  processes on the same machine in between, and with changes from outside that leave the database alone.
  The two routes run the mirror of slot hints, which can break the invariant
  (\<^verbatim>\<open>mirror_forgets_mail_slots\<close> in KernelProperties).\<close>

theorem web_keeps_catalogue:
  assumes "web_life we s"
  shows "catalog_ok (w_db (st_world (sv_site s)))"
  using web_life_consistent [OF assms] by simp

theorem web_keeps_catalogue_witness:
  "catalog_ok (w_db (st_world (sv_site (snd (handle sample_we delete_request
     (sample_server\<lparr>sv_site := fresh_site\<rparr>))))))"
proof (rule web_keeps_catalogue)
  have "web_life sample_we (sample_server\<lparr>sv_site := fresh_site\<rparr>)"
    by (rule web_life.started) (simp add: installation.installed fresh_site_def)
  moreover have "careful_request delete_request" by (simp add: careful_request_def delete_request_def request_of_def)
  ultimately show "web_life sample_we (snd (handle sample_we delete_request (sample_server\<lparr>sv_site := fresh_site\<rparr>)))"
    by (rule web_life.requested)
qed

section \<open>Scanning\<close>




lemma small_numbers: "map (parse_unsigned u32_max) [''0'', ''1'', ''2'', ''3''] = [Some 0, Some 1, Some 2, Some 3]"
  by (simp add: parse_unsigned_def strip_plus_def parse_dec_def dec_val_def digit_val_def u32_max_def is_ascii_digit_def less_eq_char_def)




text \<open>
  The listing of the test \<^verbatim>\<open>pick_matches_drive_count_one\<close>. The comment of the function asks for a host with
  exactly as many drives as the library has, and the test expects host 33; the code refuses, because
  host 34 has enough drives too.
\<close>

definition two_host_lines :: "string list" where
  "two_host_lines =
     [''[33:0:0:0]   mediumx    VTL      VTL CHANGER  1.00  /dev/sch0  /dev/sg2'',
      ''[33:0:0:1]   tape       VTL      VTL TAPE DRV 1.00  /dev/st0    /dev/sg3'',
      ''[34:0:0:0]   mediumx    VTL      VTL CHANGER  1.00  /dev/sch1  /dev/sg4'',
      ''[34:0:0:1]   tape       VTL      VTL TAPE DRV 1.00  /dev/st1    /dev/sg5'',
      ''[34:0:0:2]   tape       VTL      VTL TAPE DRV 1.00  /dev/st2    /dev/sg6'']"

lemma two_host_lines_read:
  "map bracket_fields two_host_lines =
     [Some [''33'', ''0'', ''0'', ''0''], Some [''33'', ''0'', ''0'', ''1''], Some [''34'', ''0'', ''0'', ''0''],
      Some [''34'', ''0'', ''0'', ''1''], Some [''34'', ''0'', ''0'', ''2'']]"
  "map last_sg two_host_lines = [Some ''/dev/sg2'', Some ''/dev/sg3'', Some ''/dev/sg4'', Some ''/dev/sg5'', Some ''/dev/sg6'']"
  "map lsscsi_line_is_changer two_host_lines = [True, False, True, False, False]"
  "map lsscsi_line_is_tape_drive two_host_lines = [False, True, False, True, True]"
  "map lsscsi_line_is_vtl two_host_lines = [True, True, True, True, True]"
  "text_lines (concat (map ln two_host_lines)) = two_host_lines"
  by code_simp+

lemma host_numbers: "map (parse_unsigned u32_max) [''33'', ''34''] = [Some 33, Some 34]"
  by (simp add: parse_unsigned_def strip_plus_def parse_dec_def dec_val_def digit_val_def u32_max_def is_ascii_digit_def less_eq_char_def)

lemma two_host_devices:
  "map line_device two_host_lines =
     [Some (33, 0, ''/dev/sg2''), Some (33, 1, ''/dev/sg3''), Some (34, 0, ''/dev/sg4''), Some (34, 1, ''/dev/sg5''),
      Some (34, 2, ''/dev/sg6'')]"
  using two_host_lines_read small_numbers host_numbers
  by (simp add: two_host_lines_def line_device_def scsi_host_from_lsscsi_line_def scsi_lun_from_lsscsi_line_def)

lemma exact_host_refused:
  "pick_vtl_scan_from_stdout (concat (map ln two_host_lines)) 1 None None = Inl (SeveralHosts 1 [33, 34])"
  using two_host_lines_read(3,4) two_host_devices
  by (simp add: pick_vtl_scan_from_stdout_def parse_lsscsi_vtl_grouped_def two_host_lines_read(6) pick_vtl_host_for_scan_def
      infer_prefer_scsi_host_def Let_def)
   (simp add: two_host_lines_def group_line_def add_line_def add_changer_def no_devices_def order_drives_def fits_def)

end
