(* ===== verification/WebExport.thy ===== *)
theory WebExport
  imports WebSafety ToolProperties
begin

text \<open>
  The export of a library through the web interface, and its way back: what the handlers hand to
  \<^verbatim>\<open>vtladm-iscsi\<close>, what it runs, and the record in the database by which the export is undone later.
\<close>

section \<open>Arguments of the child process\<close>

text \<open>
  How the crate \<^verbatim>\<open>clap\<close> reads the arguments of the two subcommands: each option by its name, as long
  as no value looks like an option.
\<close>

definition plain_value :: "string \<Rightarrow> bool" where
  "plain_value v \<longleftrightarrow> v = [] \<or> hd v \<noteq> CHR ''-''"

definition export_cli :: "library_export_body \<Rightarrow> string \<Rightarrow> string \<Rightarrow> IscsiCli" where
  "export_cli b q eid =
     \<lparr>ic_sudo = le_sudo b, ic_dry_run = le_dry_run b, ic_shell_path = None,
      ic_command = LibraryExport eid q (le_changer_sg b) (le_drive_sg b) (map_option lun_text (le_lun_map b))
        (le_portal_ip b) (le_portal_port b)\<rparr>"

definition unexport_cli :: "library_unexport_body \<Rightarrow> unexport_params \<Rightarrow> IscsiCli" where
  "unexport_cli b u =
     \<lparr>ic_sudo = lu_sudo b, ic_dry_run = lu_dry_run b, ic_shell_path = None,
      ic_command = LibraryUnexport (up_export_id u) (up_iqn u)
        (if up_lun_map u = None then up_drives u else None) (map_option lun_text (up_lun_map u))\<rparr>"

definition reads_arguments :: "(string list \<Rightarrow> string + IscsiCli) \<Rightarrow> bool" where
  "reads_arguments clap \<longleftrightarrow>
     (\<forall>b q eid. list_all plain_value (eid # q # le_portal_ip b # le_changer_sg b # le_drive_sg b) \<longrightarrow>
        clap (library_export_args b q eid) = Inr (export_cli b q eid)) \<and>
     (\<forall>b u. list_all plain_value [up_export_id u, up_iqn u] \<longrightarrow>
        clap (library_unexport_args b u) = Inr (unexport_cli b u))"

section \<open>What the checks of the handlers give\<close>

lemma no_control_plain: "\<not> has_control s \<Longrightarrow> plain_argument s"
proof -
  assume "\<not> has_control s"
  then have "\<not> ascii_control c" if "c \<in> set s" for c
    using that by (induction s rule: has_control.induct) auto
  moreover have "ascii_control NL" "ascii_control CHR 0x0D" by code_simp+
  ultimately show ?thesis by (auto simp: plain_argument_def)
qed

lemma web_iqn:
  assumes "web_validate_iqn q = Inr ()"
  shows "plain_argument q" "plain_value q"
proof -
  from assms have "\<not> has_control q" "starts_with ''iqn.'' q"
    by (simp_all add: web_validate_iqn_def split: if_splits)
  then show "plain_argument q" "plain_value q"
    by (auto simp: no_control_plain starts_with_def plain_value_def dest!: strip_prefix_SomeD)
qed

lemma web_export_id:
  assumes "validate_export_id_for_iscsi eid = Inr ()"
  shows "validate_export_id eid = Inr ()" "plain_value eid"
proof -
  from assms have eid: "eid \<noteq> []" "list_all is_id_char eid"
    by (simp_all add: validate_export_id_for_iscsi_def split: if_splits)
  then show "validate_export_id eid = Inr ()" by (simp add: valid_id)
  have "is_id_char (hd eid)" using eid by (simp add: list_all_iff)
  moreover have "\<not> is_id_char CHR ''-''" by code_simp
  ultimately show "plain_value eid" by (auto simp: plain_value_def)
qed

lemma web_portal: "validate_iscsi_portal_host ip = Inr () \<Longrightarrow> plain_argument ip"
  by (auto simp: validate_iscsi_portal_host_def Let_def no_control_plain split: if_splits)

lemma check_text_run: "check_text r s = (case r of Inl m \<Rightarrow> Inl (json_error_response 400 m) | Inr _ \<Rightarrow> Inr (), s)"
  by (simp add: check_text_def split: sum.split)

lemma web_lun_map:
  assumes "check_lun_map m (Suc n) s = (Inr (), s')" "0 < n"
  shows "m = None \<or> m = Some (first_luns (Suc n))" "s' = s"
proof -
  have "m = Some (first_luns (Suc n)) \<and> s' = s" if m: "m = Some luns" for luns
  proof -
    from assms(1) have len: "length (split_on CHR '','' (lun_text luns)) = Suc n"
      and cons: "validate_lun_map_consecutive_from_zero luns = Inr ()" and "s' = s"
      by (auto simp: m check_lun_map_def thenp_def bindp_def checkp_run check_text_run split: if_splits sum.splits)
    from len \<open>0 < n\<close> have "luns \<noteq> []" by (auto simp: lun_text_def)
    then have "length luns = Suc n" using len split_shown_luns [of luns] by (simp add: lun_text_def show_lun_def [abs_def])
    then have "luns = first_luns (Suc n)"
      using cons enumerate_all [of of_nat 0 luns]
      by (simp add: validate_lun_map_consecutive_from_zero_def first_luns_def split: if_splits)
    with m \<open>s' = s\<close> show ?thesis by simp
  qed
  moreover have "s' = s" if "m = None" using assms(1) that by (simp add: check_lun_map_def)
  ultimately show "m = None \<or> m = Some (first_luns (Suc n))" "s' = s" by (cases m; simp)+
qed

lemma lun_text_shown: "lun_text luns = join_with CHR '','' (map show_lun luns)"
  by (simp add: lun_text_def show_lun_def [abs_def])

section \<open>The record\<close>

definition saved :: "json_codec \<Rightarrow> string \<Rightarrow> IscsiLibraryExportRecord \<Rightarrow> world \<Rightarrow> bool" where
  "saved c name r w \<longleftrightarrow> w_tables w \<and> load_iscsi_library_export_by_name c (w_db w) name = Inr (Some r)"

lemma load_by_name_frame:
  assumes "exports d' = exports d" "libs d' = libs d \<or> libs d' = libs d @ [l]"
    and "load_iscsi_library_export_by_name c d name = Inr (Some r)"
  shows "load_iscsi_library_export_by_name c d' name = Inr (Some r)"
proof -
  have "find_export d' k = find_export d k" for k using assms(1) by (simp add: find_export_def)
  moreover have "find_library d' name = find_library d name" if "find_library d name \<noteq> None"
    using that assms(2) by (auto simp: find_library_def find_append)
  ultimately show ?thesis using assms(3)
    by (auto simp: load_iscsi_library_export_by_name_def load_iscsi_library_export_def resolve_library_id_def
        ok_or_def split: option.splits)
qed

lemma insert_rows_keep_exports:
  "insert_library n now d = Inr (x, d') \<Longrightarrow> exports d' = exports d \<and> (\<exists>l. libs d' = libs d @ [l])"
  "insert_shelf i n k d = Inr d' \<Longrightarrow> exports d' = exports d \<and> libs d' = libs d"
  by (auto simp: insert_library_def insert_shelf_def Let_def split: if_splits)

lemma keeps_saved_write:
  assumes "\<And>d x d'. f d = Inr (x, d') \<Longrightarrow> exports d' = exports d \<and> (libs d' = libs d \<or> (\<exists>l. libs d' = libs d @ [l]))"
  shows "keeps (saved c name r) (db_write f)"
  using load_by_name_frame [where c = c and name = name and r = r] assms
  by (fastforce simp: keeps_def db_write_def saved_def split: sum.split prod.split)

lemma keeps_saved_inserts:
  "keeps (saved c name r) (db_write (insert_library n now))"
  "keeps (saved c name r) (db_write (\<lambda>d. andThen (insert_shelf i n k d) (\<lambda>d'. Inr ((), d'))))"
  by (rule keeps_saved_write, use insert_rows_keep_exports(1) in blast)
    (rule keeps_saved_write, use insert_rows_keep_exports(2) in auto)

lemma db_write_Inr: "db_write f w = (Inr x, w') \<longleftrightarrow> (\<exists>d. f (w_db w) = Inr (x, d) \<and> w' = w\<lparr>w_db := d\<rparr>)"
  by (auto simp: db_write_def split: sum.split)

lemma keeps_saved_fs: "keeps (saved c name r) (fs_try f)"
  by (auto simp: keeps_def fs_try_def fs_run_def on_part_def saved_def split: prod.split)

lemma keeps_saved_init: "keeps (saved c name r) init_db"
proof -
  have off: "keeps (saved c name r) ensure_offline_library"
    unfolding ensure_offline_library_def
    by (intro keeps_intros keeps_saved_inserts keeps_saved_fs)
  let ?opened = "\<lambda>bad. thenp (checkp (\<not> bad) (DatabaseError ''unable to open database file''))
    (thenp (bindp (attempt ensure_offline_library) (\<lambda>_. ret ())) (bindp ensure_offline_library (\<lambda>_. ret ())))"
  have "init_db w = ?opened (w_fault w ''init_db'') w" if "saved c name r w" for w
    using that by (simp add: init_db_def saved_def)
  moreover have "keeps (saved c name r) (?opened bad)" for bad by (intro keeps_intros off)
  ultimately show ?thesis by (simp add: keeps_def)
qed

lemma init_db_tables: "init_db w = (Inr u, w') \<Longrightarrow> w_tables w'"
proof -
  have off: "keeps w_tables ensure_offline_library"
    unfolding ensure_offline_library_def db_write_def fs_try_def fs_run_def
    by (intro keeps_intros keeps_on_part) (auto simp: keeps_def split: sum.split prod.split)
  have kept: "ensure_offline_library w = (y, w') \<Longrightarrow> w_tables w \<Longrightarrow> w_tables w'" for w y w'
    using keepsD [OF off, of w] by simp
  show "init_db w = (Inr u, w') \<Longrightarrow> w_tables w'"
    by (auto simp: init_db_def thenp_def bindp_eq_Inr checkp_run attempt_run split: if_splits
        dest: kept intro: kept [OF surjective_pairing])
qed

lemma save_export_saves:
  assumes "save_export c b q eid w = (Inr u, w')" "codec_ok c"
  obtains now where "saved c (le_library b) (export_record b q eid now) w'"
proof -
  obtain w1 i d' where w1: "init_db w = (Inr (), w1)" and i: "resolve_library_id (w_db w1) (le_library b) = Inr i"
    and s: "save_iscsi_library_export c i (export_record b q eid (w_now w1)) (w_db w1) = Inr d'" and w': "w' = w1\<lparr>w_db := d'\<rparr>"
    using assms(1) by (auto simp: save_export_def thenp_def bindp_eq_Inr db_read_def db_write_Inr)
  have "libs d' = libs (w_db w1)"
    using s by (auto simp: save_iscsi_library_export_def put_export_def split: sum.splits)
  then have "resolve_library_id d' (le_library b) = Inr i" using i by (simp add: resolve_library_id_def find_library_def)
  with load_after_save [OF assms(2) s, of i] init_db_tables [OF w1] show ?thesis
    by (intro that [of "w_now w1"]) (simp add: saved_def w' load_iscsi_library_export_by_name_def)
qed

section \<open>The handlers\<close>

lemma on_site_target [simp]: "sv_target (snd (on_site m s)) = sv_target s"
  by (simp add: on_site_def on_part_def split: prod.split)

lemma on_site_run: "on_site m s = (fst (m (sv_site s)), s\<lparr>sv_site := snd (m (sv_site s))\<rparr>)"
  by (simp add: on_site_def on_part_def split: prod.split)

lemma require_session_target: "require_session we rq s = (Inr u, s') \<Longrightarrow> sv_target s' = sv_target s"
  using keepsD [OF keeps_same_session(2), of "sv_site s" "sv_target s" s we rq] by (simp add: same_site_def)

lemma may_execute_run: "may_execute we dry s = (Inr u, s') \<Longrightarrow> s' = s"
  by (simp add: may_execute_def checkp_run split: if_splits)

lemma export_answered:
  assumes "api_manage_iscsi_library_export we rq s = (Inr r, s1)"
    and "rq_body rq = Inr jb" "library_export_body_of jb = Some b"
  obtains q eid p blocks t where "web_validate_iqn q = Inr ()" "validate_export_id_for_iscsi eid = Inr ()"
    "validate_iscsi_portal_host (le_portal_ip b) = Inr ()" "le_drive_sg b \<noteq> []"
    "int (length (le_drive_sg b)) \<le> VTL_KERNEL_MAX_DRIVES_PER_LIB"
    "le_lun_map b = None \<or> le_lun_map b = Some (first_luns (Suc (length (le_drive_sg b))))"
    "sv_target t = sv_target s" "run_library_export we b q eid t = (Inr (p, blocks), s1)"
    "r = json_response (tool_status p) (library_export_json b q eid p blocks)"
proof -
  obtain sa sb q eid where sa: "require_session we rq s = (Inr (), sa)"
    and sb: "map_err (drive_number_response we) (on_site (check_drive_number (le_library b) (length (le_drive_sg b)))) sa = (Inr (), sb)"
    and n: "le_drive_sg b \<noteq> []" "int (length (le_drive_sg b)) \<le> VTL_KERNEL_MAX_DRIVES_PER_LIB"
    and rest: "thenp (check_text (web_validate_iqn q))
         (thenp (check_text (validate_export_id_for_iscsi eid))
         (thenp (check_text (validate_iscsi_portal_host (le_portal_ip b)))
         (thenp (checkp (le_portal_port b \<noteq> 0) (json_error_response 400 ''the port must be 1 to 65535''))
         (thenp (may_execute we (le_dry_run b))
         (thenp (check_lun_map (le_lun_map b) (1 + length (le_drive_sg b)))
         (bindp (run_library_export we b q eid) (\<lambda>(p, blocks_db).
            ret (json_response (tool_status p) (library_export_json b q eid p blocks_db))))))))) sb = (Inr r, s1)"
    using assms
    by (auto simp: api_manage_iscsi_library_export_def with_body_def thenp_def [of "require_session we rq"]
        thenp_def [of "checkp _ _"] thenp_def [of "map_err _ _"] bindp_eq_Inr checkp_run Let_def case_prod_unfold
        simp del: bindp_gets_run split: if_splits)
  have "sv_target sb = sv_target sa" using on_site_target [of _ sa] sb
    by (metis (no_types, lifting) map_err_def on_site_run prod.inject prod.simps(2) select_convs(3) snd_conv)
  then have t: "sv_target sb = sv_target s" using require_session_target [OF sa] by simp
  obtain p blocks sc where c: "web_validate_iqn q = Inr ()" "validate_export_id_for_iscsi eid = Inr ()"
    "validate_iscsi_portal_host (le_portal_ip b) = Inr ()" and
    m: "check_lun_map (le_lun_map b) (Suc (length (le_drive_sg b))) sb = (Inr (), sc)" and
    run: "run_library_export we b q eid sc = (Inr (p, blocks), s1)" and
    r: "r = json_response (tool_status p) (library_export_json b q eid p blocks)"
    using rest
    by (auto simp: thenp_def bindp_eq_Inr checkp_run check_text_run dest!: may_execute_run split: if_splits sum.splits)
  from n(1) have "0 < length (le_drive_sg b)" by simp
  note luns = web_lun_map [OF m this]
  show ?thesis using that [OF c n luns(1) _ run r] t luns(2) by simp
qed

lemma export_ran:
  assumes "run_library_export we b q eid t = (Inr (p, blocks), s1)" "po_success p \<and> \<not> le_dry_run b \<and> \<not> blocks"
    and "we_clap we (library_export_args b q eid) = Inr cli" "codec_ok (ce_codec (we_cli we))"
  obtains now where "tool_main (we_tool_host we) (we_targetcli we) cli (sv_target t) = (p, sv_target s1)"
    "saved (ce_codec (we_cli we)) (le_library b) (export_record b q eid now) (st_world (sv_site s1))"
proof -
  obtain x where run: "tool_main (we_tool_host we) (we_targetcli we) cli (sv_target t) = (p, x)"
    and save: "work we 500 (on_world (save_export (ce_codec (we_cli we)) b q eid)) (t\<lparr>sv_target := x\<rparr>) = (Inr (), s1)"
    using assms(1-3)
    by (auto simp: run_library_export_def bindp_eq_Inr thenp_def map_err_def run_iscsi_tool_def Let_def
        split: option.splits prod.splits sum.splits if_splits)
  from save obtain w' where w': "save_export (ce_codec (we_cli we)) b q eid (st_world (sv_site t)) = (Inr (), w')"
    and s1: "st_world (sv_site s1) = w'" "sv_target s1 = x"
    by (auto simp: work_def map_err_def on_site_run on_world_def on_part_def split: prod.splits sum.splits)
  from save_export_saves [OF w' assms(4)] show ?thesis using run s1 that by metis
qed

lemma saved_to_db: "field ''saved_to_db'' as_bool None (library_export_json b q eid p blocks) =
    Some (po_success p \<and> \<not> le_dry_run b \<and> \<not> blocks)"
  by (auto simp: field_def library_export_json_def tool_fields_def as_bool_def split: option.splits)

lemma iqn_shown: "field ''iqn'' as_str None (library_export_json b q eid p blocks) = Some q"
  by (auto simp: field_def library_export_json_def tool_fields_def as_str_def split: option.splits)

section \<open>Undoing\<close>

definition undo_body :: "string \<Rightarrow> bool \<Rightarrow> library_unexport_body" where
  "undo_body lib sudo =
     \<lparr>lu_library = Some lib, lu_iqn = None, lu_export_id = None, lu_drives = None, lu_lun_map = None,
      lu_dry_run = False, lu_sudo = sudo\<rparr>"

lemma undo_params:
  "saved_params (undo_body lib sudo) lib r =
     \<lparr>up_iqn = iqn r, up_export_id = export_id r, up_lun_map = Some (lun_map r),
      up_drives = (if 0 < length (drive_sg r) then Some (of_nat (length (drive_sg r))) else None), up_library = Some lib\<rparr>"
  by (simp add: saved_params_def undo_body_def filled_def or_default_def)

lemma undo_fields [simp]:
  "up_library (saved_params (undo_body lib sudo) lib r) = Some lib" "lu_dry_run (undo_body lib sudo) = False"
  "lu_sudo (undo_body lib sudo) = sudo"
  by (simp_all add: saved_params_def undo_body_def)

lemma work_ret: "work we n (on_world (ret x)) s = (Inr x, s)"
  by (simp add: work_def map_err_def on_site_run on_world_def on_part_def)

lemma undo_resolved:
  assumes "resolve_iscsi_unexport_params c (undo_body lib sudo) st = (Inr u, st')"
    and "saved c lib r (st_world st)" "trim lib = lib" "lib \<noteq> []"
  shows "u = saved_params (undo_body lib sudo) lib r" "saved c lib r (st_world st')"
proof -
  have kept: "init_db w = (y, w') \<Longrightarrow> saved c lib r w \<Longrightarrow> saved c lib r w'" for w y w'
    using keepsD [OF keeps_saved_init, of c lib r w] by simp
  have "filled (lu_library (undo_body lib sudo)) = Some lib"
    using assms(3,4) by (simp add: filled_def undo_body_def)
  with assms(1) obtain w' x where w': "init_db (st_world st) = (Inr (), w')"
    and x: "load_iscsi_library_export_by_name c (w_db w') lib = Inr (Some x)"
    and u: "u = saved_params (undo_body lib sudo) lib x" "st_world st' = w'"
    by (auto simp: resolve_iscsi_unexport_params_def thenp_def bindp_eq_Inr checkp_run map_err_def on_world_def on_part_def
        db_read_def split: if_splits prod.splits sum.splits option.splits)
  with kept [OF w' assms(2)] show "u = saved_params (undo_body lib sudo) lib r" "saved c lib r (st_world st')"
    by (simp_all add: saved_def)
qed

lemma unexport_answered:
  assumes "api_manage_iscsi_library_unexport we rq s = (Inr r, s2)" "rq_body rq = Inr jb"
    and "library_unexport_body_of jb = Some (undo_body lib sudo)"
    and "saved (ce_codec (we_cli we)) lib x (st_world (sv_site s))" "trim lib = lib" "lib \<noteq> []"
  obtains p l t where "run_library_unexport we (undo_body lib sudo) (saved_params (undo_body lib sudo) lib x) t = (Inr (p, l), s2)"
    "sv_target t = sv_target s" "saved (ce_codec (we_cli we)) lib x (st_world (sv_site t))"
    "r = json_response (tool_status p) (library_unexport_json (undo_body lib sudo) (saved_params (undo_body lib sudo) lib x) p l)"
proof -
  obtain sa t u p l where sa: "require_session we rq s = (Inr (), sa)"
    and t: "map_err (drive_number_response we) (on_site (resolve_iscsi_unexport_params (ce_codec (we_cli we)) (undo_body lib sudo))) sa = (Inr u, t)"
    and run: "run_library_unexport we (undo_body lib sudo) u t = (Inr (p, l), s2)"
    and r: "r = json_response (tool_status p) (library_unexport_json (undo_body lib sudo) u p l)"
    using assms(1-3)
    by (auto simp: api_manage_iscsi_library_unexport_def with_body_def thenp_def bindp_eq_Inr checkp_run check_text_run
        split: if_splits sum.splits option.splits dest!: may_execute_run)
  have sa': "sv_site sa = sv_site s" "sv_target sa = sv_target s"
    using keepsD [OF keeps_same_session(2), of "sv_site s" "sv_target s" s we rq] sa by (simp_all add: same_site_def)
  obtain st where st: "resolve_iscsi_unexport_params (ce_codec (we_cli we)) (undo_body lib sudo) (sv_site sa) = (Inr u, st)"
    and "t = sa\<lparr>sv_site := st\<rparr>"
    using t by (auto simp: map_err_def on_site_run prod_eq_iff split: prod.splits sum.splits)
  then show ?thesis
    using undo_resolved [OF st _ assms(5,6)] assms(4) run r sa' by (intro that [of t p l]) auto
qed

lemma unexport_ran:
  assumes "run_library_unexport we (undo_body lib sudo) (saved_params (undo_body lib sudo) lib x) t = (Inr (p, l), s2)"
    and "we_clap we (library_unexport_args (undo_body lib sudo) (saved_params (undo_body lib sudo) lib x)) = Inr cli"
    and "saved (ce_codec (we_cli we)) lib x (st_world (sv_site t))"
  shows "tool_main (we_tool_host we) (we_targetcli we) cli (sv_target t) = (p, sv_target s2)"
    and "po_success p \<Longrightarrow> load_iscsi_library_export_by_name (ce_codec (we_cli we)) (w_db (st_world (sv_site s2))) lib = Inr None"
proof -
  let ?u = "saved_params (undo_body lib sudo) lib x" let ?c = "ce_codec (we_cli we)"
  obtain y where run: "tool_main (we_tool_host we) (we_targetcli we) cli (sv_target t) = (p, y)"
    and clear: "work we 500 (on_world (clear_export (Some lib) (po_success p))) (t\<lparr>sv_target := y\<rparr>) = (Inr (), s2)"
    using assms(1,2)
    by (auto simp: run_library_unexport_def bindp_eq_Inr thenp_def map_err_def run_iscsi_tool_def Let_def
        library_to_clear_def work_ret split: option.splits prod.splits sum.splits if_splits)
  have "sv_target s2 = y" using clear by (auto simp: work_def map_err_def on_site_run split: sum.splits)
  with run show "tool_main (we_tool_host we) (we_targetcli we) cli (sv_target t) = (p, sv_target s2)" by simp
  assume "po_success p"
  with clear obtain w1 d where "init_db (st_world (sv_site t)) = (Inr (), w1)"
    and d: "delete_iscsi_library_export_by_name lib (w_db w1) = Inr d" "w_db (st_world (sv_site s2)) = d"
    by (auto simp: clear_export_def work_def map_err_def on_site_run on_world_def on_part_def thenp_def bindp_eq_Inr db_write_Inr
        split: prod.splits sum.splits)
  then obtain i where "resolve_library_id (w_db w1) lib = Inr i" "d = delete_iscsi_library_export i (w_db w1)"
    by (auto simp: delete_iscsi_library_export_by_name_def)
  moreover from this have "resolve_library_id d lib = Inr i"
    by (simp add: resolve_library_id_def find_library_def delete_iscsi_library_export_def)
  ultimately show "load_iscsi_library_export_by_name ?c (w_db (st_world (sv_site s2))) lib = Inr None"
    unfolding d(2) load_iscsi_library_export_by_name_def by (simp add: load_after_delete)
qed

lemma tool_unexport_run:
  assumes "ic_command cli = LibraryUnexport i q d m" "\<not> ic_dry_run cli" "validate_export_id i = Inr ()"
    "validate_iqn q = Inr ()" "unexport_luns d m = Inr luns" "resolve_iscsi_shell_path_style h cli = Inr style"
    "tc (ic_sudo cli) (script_of (library_unexport_targetcli_script i q luns style)) x = (res, y)"
  shows "snd (tool_main h tc cli x) = y"
    and "po_success (fst (tool_main h tc cli x)) \<longleftrightarrow> (\<exists>p. res = Inr p \<and> po_success p)"
  using assms
  by (auto simp: tool_main_def run_tool_def cmd_library_unexport_def thenp_def bindp_def run_targetcli_batch_def
      call_targetcli_def checkp_run print_out_def print_err_def po_success_def split: prod.split sum.split)

lemma sg_paths_from: "sg_paths h ps = Inr xs \<Longrightarrow> x \<in> set xs \<Longrightarrow> \<exists>p. validate_sg_path h p = Inr x"
  by (induction ps arbitrary: xs) auto

section \<open>Handlers that succeed\<close>

text \<open>The handlers forwards, for the examples: what they answer when every check passes.\<close>

lemma require_session_alive:
  assumes "session_token we rq = Some tok" "map_of (sessions (sv_auth s)) tok = Some (u, t0)"
    and "ae_clock (env_auth we) (aw_ticks (sv_auth s)) - t0 \<le> from_secs SESSION_SECS"
  shows "require_session we rq s = (Inr (), s\<lparr>sv_auth := (auth_of s)\<lparr>aw_ticks := Suc (aw_ticks (sv_auth s))\<rparr>\<rparr>)"
  using assms
  by (auto simp: require_session_def on_auth_def on_part_def session_username_def instant_now_def bindp_def thenp_def
      checkp_run auth_of_def put_auth_def not_less [symmetric] split: prod.splits)

lemma init_db_settled:
  assumes "\<not> w_fault w ''init_db''" "w_tables w" "find_library (w_db w) OFFLINE_LIBRARY_NAME = Some l"
    and "count_where (\<lambda>r. shelf_lib r = lib_id l \<and> shelf_default r = 1) (shelves (w_db w)) \<noteq> 0"
    and "create_dir_all (get_tape_dir w @ [sanitize_lib_dir_component OFFLINE_LIBRARY_NAME]) (w_fs w) = Inr (w_fs w)"
  shows "init_db w = (Inr (), w)"
proof -
  have "ensure_offline_library w = (Inr (lib_id l), w)"
    using assms(3-5) by (simp add: ensure_offline_library_def thenp_def bindp_def fs_try_def fs_run_def on_part_def
        map_err_def updating_def)
  then show ?thesis using assms(1,2) by (simp add: init_db_def thenp_def bindp_def attempt_run checkp_run)
qed

lemma export_forward:
  assumes "rq_body rq = Inr jb" "library_export_body_of jb = Some b" "require_session we rq s = (Inr (), sa)"
    and "le_drive_sg b \<noteq> []" "int (length (le_drive_sg b)) \<le> VTL_KERNEL_MAX_DRIVES_PER_LIB"
    and "check_drive_number (le_library b) (length (le_drive_sg b)) (sv_site sa) = (Inr (), sv_site sa)"
    and "filled (le_iqn b) = Some q" "filled (le_export_id b) = Some eid" "web_validate_iqn q = Inr ()"
    and "validate_export_id_for_iscsi eid = Inr ()" "validate_iscsi_portal_host (le_portal_ip b) = Inr ()"
    and "le_portal_port b \<noteq> 0" "allow_iscsi_exec (env_auth we) (auth_of sa)" "le_lun_map b = None"
    and "run_library_export we b q eid sa = (Inr (p, blocks), s1)"
  shows "api_manage_iscsi_library_export we rq s =
    (Inr (json_response (tool_status p) (library_export_json b q eid p blocks)), s1)"
  using assms
  by (simp add: api_manage_iscsi_library_export_def with_body_def thenp_def bindp_def map_err_def on_site_run checkp_run
      check_text_run may_execute_def check_lun_map_def or_default_def case_prod_unfold Let_def)

lemma unexport_forward:
  assumes "rq_body rq = Inr jb" "library_unexport_body_of jb = Some b" "require_session we rq s = (Inr (), sa)"
    and "resolve_iscsi_unexport_params (ce_codec (we_cli we)) b (sv_site sa) = (Inr u, sv_site sa)"
    and "web_validate_iqn (up_iqn u) = Inr ()" "validate_export_id_for_iscsi (up_export_id u) = Inr ()"
    and "up_lun_map u = Some luns" "validate_lun_map_values luns = Inr ()" "allow_iscsi_exec (env_auth we) (auth_of sa)"
    and "run_library_unexport we b u sa = (Inr (p, l), s2)"
  shows "api_manage_iscsi_library_unexport we rq s =
    (Inr (json_response (tool_status p) (library_unexport_json b u p l)), s2)"
  using assms
  by (simp add: api_manage_iscsi_library_unexport_def with_body_def thenp_def bindp_def map_err_def on_site_run checkp_run
      check_text_run may_execute_def)

end
