(* ===== verification/WebUndo.thy ===== *)
theory WebUndo
  imports WebExport WebProperties
begin

text \<open>
  The export of a library from the form of the web interface to the target subsystem and back.
\<close>

text \<open>C32: when the handler that exports a library answers that it saved the export, the handler that
  undoes it, given only the name of the library, runs a script that deletes what the two scripts of the export
  made - the backstores in reverse, the LUNs, the target - and, where it answers 200, has removed the record.\<close>

theorem saved_export_can_be_undone:
  assumes "codec_ok (ce_codec (we_cli we))" "reads_arguments (we_clap we)"
    and "\<forall>v x. validate_sg_path (we_tool_host we) v = Inr x \<longrightarrow> plain_argument x"
    and "api_manage_iscsi_library_export we rq s = (Inr r, s1)" "rq_body rq = Inr jb"
    and "library_export_body_of jb = Some b" "list_all plain_value (le_portal_ip b # le_changer_sg b # le_drive_sg b)"
    and "rs_reply r = JsonBody j" "field ''saved_to_db'' as_bool None j = Some True"
    and "field ''iqn'' as_str None j = Some q" "CHR '' '' \<notin> set q"
    and "api_manage_iscsi_library_unexport we rq2 s1 = (Inr r2, s2)" "rq_body rq2 = Inr jb2"
    and "library_unexport_body_of jb2 = Some (undo_body (le_library b) sudo)"
    and "trim (le_library b) = le_library b" "le_library b \<noteq> []"
  shows "\<exists>sc1 sc2 u x1 p1 p2 base.
    we_targetcli we (le_sudo b) sc1 (sv_target s) = (Inr p1, x1) \<and>
    we_targetcli we (le_sudo b) sc2 x1 = (Inr p2, sv_target s1) \<and>
    sv_target s2 = snd (we_targetcli we sudo u (sv_target s1)) \<and>
    deleted_backstores u = rev (created_backstores sc1) \<and> created_luns base sc2 = created_backstores sc1 \<and>
    deleted_targets u = [q] \<and> created_targets sc2 = [q] \<and>
    deleted_luns base u = map show_nat (rev [0..<length (created_luns base sc2)]) \<and>
    (rs_status r2 = 200 \<longrightarrow>
       load_iscsi_library_export_by_name (ce_codec (we_cli we)) (w_db (st_world (sv_site s2))) (le_library b) = Inr None)"
proof -
  let ?c = "ce_codec (we_cli we)" and ?h = "we_tool_host we" and ?tc = "we_targetcli we" and ?lib = "le_library b"
  obtain q' eid p blocks t where v: "web_validate_iqn q' = Inr ()" "validate_export_id_for_iscsi eid = Inr ()"
    "validate_iscsi_portal_host (le_portal_ip b) = Inr ()" "le_drive_sg b \<noteq> []"
    and n: "int (length (le_drive_sg b)) \<le> VTL_KERNEL_MAX_DRIVES_PER_LIB"
    and luns: "le_lun_map b = None \<or> le_lun_map b = Some (first_luns (Suc (length (le_drive_sg b))))"
    and t: "sv_target t = sv_target s" and run: "run_library_export we b q' eid t = (Inr (p, blocks), s1)"
    and r: "r = json_response (tool_status p) (library_export_json b q' eid p blocks)"
    by (rule export_answered [OF assms(4,5,6)])
  have j: "j = library_export_json b q' eid p blocks" using assms(8) by (simp add: r json_response_def)
  then have q: "q' = q" and ok: "po_success p \<and> \<not> le_dry_run b \<and> \<not> blocks"
    using assms(9,10) by (simp_all add: saved_to_db iqn_shown)
  have cli: "we_clap we (library_export_args b q eid) = Inr (export_cli b q eid)"
    using assms(2,7) web_iqn(2) [OF v(1)] web_export_id(2) [OF v(2)] by (simp add: reads_arguments_def q)
  obtain now where tool: "tool_main ?h ?tc (export_cli b q eid) (sv_target s) = (p, sv_target s1)"
    and saved: "saved ?c ?lib (export_record b q eid now) (st_world (sv_site s1))"
    using export_ran [OF run ok, unfolded q, OF cli assms(1)] t by metis
  obtain ch ps style p1 x1 p2 where valid: "validate_export_id eid = Inr ()" "validate_iqn q = Inr ()"
    and nodes: "validate_sg_path ?h (le_changer_sg b) = Inr ch" "sg_paths ?h (le_drive_sg b) = Inr ps"
    and style: "resolve_iscsi_shell_path_style ?h (export_cli b q eid) = Inr style"
    and run1: "?tc (le_sudo b) (script_of (library_export_phase1_targetcli_script_with_exit eid ch ps)) (sv_target s) = (Inr p1, x1)"
    and run2: "?tc (le_sudo b) (script_of (library_export_phase2_targetcli_script eid q ps (le_portal_ip b) (le_portal_port b) style)) x1
      = (Inr p2, sv_target s1)"
    using tool ok by (elim tool_export_accepted) (auto simp: export_cli_def)
  let ?x = "export_record b q eid now" let ?u = "saved_params (undo_body ?lib sudo) ?lib ?x"
  obtain p' l t' where run': "run_library_unexport we (undo_body ?lib sudo) ?u t' = (Inr (p', l), s2)"
    and t': "sv_target t' = sv_target s1" and saved': "saved ?c ?lib ?x (st_world (sv_site t'))"
    and r2: "r2 = json_response (tool_status p') (library_unexport_json (undo_body ?lib sudo) ?u p' l)"
    by (rule unexport_answered [OF assms(12-14) saved assms(15,16)])
  let ?luns = "first_luns (Suc (length (le_drive_sg b)))"
  have x: "iqn ?x = q" "export_id ?x = eid" "lun_map ?x = ?luns"
    using luns by (auto simp: export_record_def new_iscsi_export_record_def or_default_def first_luns_def simp del: upt_Suc)
  have cli': "we_clap we (library_unexport_args (undo_body ?lib sudo) ?u) = Inr (unexport_cli (undo_body ?lib sudo) ?u)"
    using assms(2) web_iqn(2) [OF v(1)] web_export_id(2) [OF v(2)] by (simp add: reads_arguments_def undo_params x q)
  note ran = unexport_ran [OF run' cli' saved']
  have "unexport_luns None (Some (lun_text ?luns)) = Inr ?luns"
    unfolding lun_text_shown using n by (intro unexport_luns_of_export(2)) (simp add: VTL_KERNEL_MAX_DRIVES_PER_LIB_def)
  moreover have "resolve_iscsi_shell_path_style ?h (unexport_cli (undo_body ?lib sudo) ?u) = Inr style"
    using style by (simp add: resolve_iscsi_shell_path_style_def export_cli_def unexport_cli_def)
  moreover have "ic_command (unexport_cli (undo_body ?lib sudo) ?u) = LibraryUnexport eid q None (Some (lun_text ?luns))"
    "\<not> ic_dry_run (unexport_cli (undo_body ?lib sudo) ?u)" "ic_sudo (unexport_cli (undo_body ?lib sudo) ?u) = sudo"
    by (simp_all add: unexport_cli_def undo_params x)
  ultimately have undo: "sv_target s2 = snd (?tc sudo (script_of (library_unexport_targetcli_script eid q ?luns style)) (sv_target s1))"
    using ran(1) valid tool_unexport_run(1) [of "unexport_cli (undo_body ?lib sudo) ?u" eid q None "Some (lun_text ?luns)" ?luns ?h style ?tc "sv_target s1"]
    by (simp add: t') (metis surjective_pairing)
  have len: "length ps = length (le_drive_sg b)" by (rule sg_paths_length [OF nodes(2)])
  have id: "list_all is_id_char eid" using valid(1) by (simp add: valid_id)
  have plain: "list_all plain_argument (ch # ps)"
  proof -
    have "plain_argument x" if "x \<in> set ps" for x using sg_paths_from [OF nodes(2) that] assms(3) by blast
    with assms(3) nodes(1) show ?thesis by (simp add: list_all_iff)
  qed
  have few: "length ps < 256" using n len by (simp add: VTL_KERNEL_MAX_DRIVES_PER_LIB_def)
  note undone = export_undone [OF id web_iqn(1) [OF v(1), unfolded q] assms(11) web_portal [OF v(3)] plain few,
      where style = style and port = "le_portal_port b", unfolded len]
  have "load_iscsi_library_export_by_name ?c (w_db (st_world (sv_site s2))) ?lib = Inr None" if "rs_status r2 = 200"
    using ran(2) that by (simp add: r2 json_response_def tool_status_def split: if_splits)
  with run1 run2 undo undone show ?thesis by blast
qed

section \<open>An instance\<close>

text \<open>A reader of the arguments: the flags, the subcommand, then options by their names.\<close>

fun drop_flag :: "string \<Rightarrow> string list \<Rightarrow> bool \<times> string list" where
  "drop_flag f [] = (False, [])"
| "drop_flag f (a # as) = (if a = f then (True, as) else (False, a # as))"

fun pairs_of :: "string list \<Rightarrow> (string \<times> string) list" where
  "pairs_of (a # b # r) = (a, b) # pairs_of r"
| "pairs_of _ = []"

definition opts :: "string \<Rightarrow> (string \<times> string) list \<Rightarrow> string list" where
  "opts k ps = map snd (filter (\<lambda>p. fst p = k) ps)"

definition opt :: "string \<Rightarrow> (string \<times> string) list \<Rightarrow> string option" where
  "opt k ps = (case opts k ps of [] \<Rightarrow> None | v # _ \<Rightarrow> Some v)"

definition opt_text :: "string \<Rightarrow> (string \<times> string) list \<Rightarrow> string" where
  "opt_text k ps = or_default (opt k ps) []"

definition sample_command :: "string \<Rightarrow> (string \<times> string) list \<Rightarrow> IscsiCommands" where
  "sample_command c ps =
     (if c = ''library-export'' then
        LibraryExport (opt_text ''--id'' ps) (opt_text ''--iqn'' ps) (opt_text ''--changer-sg'' ps) (opts ''--drive-sg'' ps)
          (opt ''--lun-map'' ps) (opt_text ''--portal-ip'' ps) (of_nat (dec_val (opt_text ''--portal-port'' ps)))
      else if c = ''library-unexport'' then
        LibraryUnexport (opt_text ''--id'' ps) (opt_text ''--iqn'' ps)
          (map_option (\<lambda>s. of_nat (dec_val s)) (opt ''--drives'' ps)) (opt ''--lun-map'' ps)
      else Check)"

definition sample_clap :: "string list \<Rightarrow> string + IscsiCli" where
  "sample_clap args =
     (let (sudo, a1) = drop_flag ''--sudo'' args; (dry, a2) = drop_flag ''--dry-run'' a1
      in Inr \<lparr>ic_sudo = sudo, ic_dry_run = dry, ic_shell_path = None,
              ic_command = (case a2 of [] \<Rightarrow> Check | c # r \<Rightarrow> sample_command c (pairs_of r))\<rparr>)"

lemma pairs_of_options: "pairs_of (concat (map (\<lambda>p. [k, p]) ps) @ r) = map (Pair k) ps @ pairs_of r"
  by (induction ps) simp_all

lemma opts_simps [simp]:
  "opts k [] = []" "opts k ((a, b) # ps) = (if a = k then b # opts k ps else opts k ps)"
  "opts k (map (Pair a) vs @ ps) = (if a = k then vs @ opts k ps else opts k ps)"
  by (simp_all add: opts_def comp_def)

lemma sample_reads: "reads_arguments sample_clap"
proof -
  have num: "of_nat (dec_val (show_nat (unat n))) = n" for n :: "'a::len word" by simp
  have flags: "drop_flag ''--sudo'' (flag_args a d @ c # r) = (a, flag_args False d @ c # r)"
    "drop_flag ''--dry-run'' (flag_args False d @ c # r) = (d, c # r)"
    if "c = ''library-export'' \<or> c = ''library-unexport''" for a d c r
    using that by (auto simp: flag_args_def)
  have "sample_clap (library_export_args b q eid) = Inr (export_cli b q eid)" for b q eid
    by (cases "le_lun_map b")
      (simp_all add: sample_clap_def library_export_args_def flags pairs_of_options sample_command_def opt_text_def opt_def
        or_default_def export_cli_def num)
  moreover have "sample_clap (library_unexport_args b u) = Inr (unexport_cli b u)" for b u
    by (cases "up_lun_map u"; cases "up_drives u")
      (simp_all add: sample_clap_def library_unexport_args_def flags sample_command_def opt_text_def opt_def
        or_default_def unexport_cli_def num)
  ultimately show ?thesis by (simp add: reads_arguments_def)
qed

definition export_request :: request where
  "export_request = request_of POST ''/api/manage/iscsi/library-export'' (Some ''vtl_session=tok'')
     (JObj [(''library'', JStr ''lib''), (''iqn'', JStr ''iqn.2026-05.a:b''), (''export_id'', JStr ''e''),
            (''changer_sg'', JStr ''/dev/sg1''), (''drive_sg'', JArr [JStr ''/dev/sg2''])])"

definition undo_request :: request where
  "undo_request = request_of POST ''/api/manage/iscsi/library-unexport'' (Some ''vtl_session=tok'')
     (JObj [(''library'', JStr ''lib'')])"

definition export_body :: library_export_body where
  "export_body =
     \<lparr>le_library = ''lib'', le_iqn = Some ''iqn.2026-05.a:b'', le_export_id = Some ''e'', le_changer_sg = ''/dev/sg1'',
      le_drive_sg = [''/dev/sg2''], le_lun_map = None, le_portal_ip = ''0.0.0.0'', le_portal_port = 3260,
      le_dry_run = False, le_sudo = False\<rparr>"

lemma sample_bodies:
  "(case rq_body export_request of Inr j \<Rightarrow> library_export_body_of j | _ \<Rightarrow> None) = Some export_body"
  "(case rq_body undo_request of Inr j \<Rightarrow> library_unexport_body_of j | _ \<Rightarrow> None) = Some (undo_body ''lib'' False)"
  by code_simp+

lemma sample_tapes_dir:
  "create_dir_all [''opt'', ''vtladm'', ''var'', ''tapes'', ''__offline__''] sample_files = Inr sample_files"
proof -
  have "prefixes_of [''opt'', ''vtladm'', ''var'', ''tapes'', ''__offline__''] =
      [[''opt''], [''opt'', ''vtladm''], [''opt'', ''vtladm'', ''var''], [''opt'', ''vtladm'', ''var'', ''tapes''],
       [''opt'', ''vtladm'', ''var'', ''tapes'', ''__offline__'']]" by code_simp
  moreover have "map (target sample_files)
      [[''opt''], [''opt'', ''vtladm''], [''opt'', ''vtladm'', ''var''], [''opt'', ''vtladm'', ''var'', ''tapes''],
       [''opt'', ''vtladm'', ''var'', ''tapes'', ''__offline__'']] = [Some Dir, Some Dir, Some Dir, Some Dir, Some Dir]" by code_simp
  moreover have "fs_fault sample_files = (\<lambda>_. None)" by (simp add: sample_files_def)
  ultimately show ?thesis by (simp add: create_dir_all_def with_fault_def mkdir_step_def)
qed

lemma sample_init:
  assumes "w_tables w" "w_fs w = sample_files" "w_cfg w = default_config" "w_fault w = (\<lambda>_. False)"
    and "libs (w_db w) = libs sample_db" "shelves (w_db w) = shelves sample_db"
  shows "init_db w = (Inr (), w)"
proof -
  have dir: "path_of (cfg_tape_dir default_config) @ [sanitize_lib_dir_component OFFLINE_LIBRARY_NAME] =
      [''opt'', ''vtladm'', ''var'', ''tapes'', ''__offline__'']"
    unfolding default_config_def VtlConfig.simps by code_simp
  show ?thesis
    by (rule init_db_settled [where l = "\<lparr>lib_id = 2, lib_name = ''__offline__'', lib_created = []\<rparr>"])
      (simp_all add: assms find_library_def sample_db_def count_where_def get_tape_dir_def OFFLINE_LIBRARY_NAME_def
        dir [unfolded OFFLINE_LIBRARY_NAME_def] sample_tapes_dir)
qed

abbreviation undo_we :: "string list web_env" where "undo_we \<equiv> sample_web_env sample_clap"

lemma undo_env [simp]:
  "env_auth undo_we = sample_auth" "we_cli undo_we = sample_cli" "ce_codec sample_cli = sample_codec"
  "we_clap undo_we = sample_clap" "we_targetcli undo_we = sample_targetcli" "we_tool_host undo_we = sample_tool_host"
  "we_no_child undo_we = None"
  by (simp_all add: env_auth_def sample_web_env_def sample_cli_def)

lemma sample_cookie: "cookie_part ''vtl_session=tok'' = Some ''tok''" "trim ''tok'' = ''tok''"
  by code_simp+

lemma sample_session:
  assumes "rq_cookies rq = [Some ''vtl_session=tok'']" "sessions (sv_auth s) = [(''tok'', (''admin'', 0))]"
    and "aw_ticks (sv_auth s) < 9"
  shows "require_session undo_we rq s = (Inr (), s\<lparr>sv_auth := (auth_of s)\<lparr>aw_ticks := Suc (aw_ticks (sv_auth s))\<rparr>\<rparr>)"
proof (rule require_session_alive)
  show "session_token undo_we rq = Some ''tok''"
    using assms(1) sample_cookie by (simp add: session_token_def sample_web_env_def sample_jar_def)
  show "map_of (sessions (sv_auth s)) ''tok'' = Some (''admin'', 0)" by (simp add: assms)
  show "ae_clock (env_auth undo_we) (aw_ticks (sv_auth s)) - 0 \<le> from_secs SESSION_SECS"
    using assms(3) by (simp add: sample_auth_def from_secs_def SESSION_SECS_def)
qed

lemma export_drives:
  assumes "init_db (st_world st) = (Inr (), st_world st)" "libs (w_db (st_world st)) = libs sample_db"
    "drives (w_db (st_world st)) = drives sample_db"
  shows "check_drive_number ''lib'' 1 st = (Inr (), st)"
  using assms
  by (simp add: check_drive_number_def thenp_def bindp_def map_err_def on_world_def on_part_def db_read_def
      resolve_library_id_def find_library_def sample_db_def drive_count_def count_where_def checkp_run ok_or_def)

lemma sample_exported:
  "po_code (fst (tool_main sample_tool_host sample_targetcli (export_cli export_body ''iqn.2026-05.a:b'' ''e'') [])) = Some 0"
  "targetcli_stderr_blocks_export_save
     (po_err (fst (tool_main sample_tool_host sample_targetcli (export_cli export_body ''iqn.2026-05.a:b'' ''e'') []))) = False"
  by code_simp+

lemma sample_saved:
  assumes "w_now w = []" "exports (w_db w) = []" "libs (w_db w) = libs sample_db" "init_db w = (Inr (), w)"
  obtains d where "save_export sample_codec export_body ''iqn.2026-05.a:b'' ''e'' w = (Inr (), w\<lparr>w_db := d\<rparr>)"
    "libs d = libs sample_db" "shelves d = shelves (w_db w)" "drives d = drives (w_db w)"
  using assms
  by (auto simp: save_export_def thenp_def bindp_def db_read_def db_write_def resolve_library_id_def find_library_def
      sample_db_def export_body_def ok_or_def save_iscsi_library_export_def row_of_record_def sample_codec_def
      find_export_def put_export_def require_def intro: that)

lemma sample_checks:
  "filled (Some ''iqn.2026-05.a:b'') = Some ''iqn.2026-05.a:b''" "filled (Some ''e'') = Some ''e''"
  "web_validate_iqn ''iqn.2026-05.a:b'' = Inr ()" "validate_export_id_for_iscsi ''e'' = Inr ()"
  "validate_iscsi_portal_host ''0.0.0.0'' = Inr ()"
  by code_simp+

abbreviation sample_w :: "db \<Rightarrow> world" where
  "sample_w d \<equiv> sample_world\<lparr>w_fs := sample_files, w_db := d\<rparr>"

definition like_sample :: "db \<Rightarrow> bool" where
  "like_sample d \<longleftrightarrow> libs d = libs sample_db \<and> shelves d = shelves sample_db \<and> drives d = drives sample_db"

lemma sample_w_init: "like_sample d \<Longrightarrow> init_db (sample_w d) = (Inr (), sample_w d)"
  by (rule sample_init) (simp_all add: sample_world_def like_sample_def)

lemma sample_plain:
  "list_all plain_value (''e'' # ''iqn.2026-05.a:b'' # le_portal_ip export_body # le_changer_sg export_body # le_drive_sg export_body)"
  "list_all plain_value [''e'', ''iqn.2026-05.a:b'']"
  "list_all plain_value (le_portal_ip export_body # le_changer_sg export_body # le_drive_sg export_body)"
  by code_simp+

lemma sample_requests:
  obtains j k where "rq_body export_request = Inr j" "library_export_body_of j = Some export_body"
    "rq_body undo_request = Inr k" "library_unexport_body_of k = Some (undo_body ''lib'' False)"
  using sample_bodies by (simp add: export_request_def undo_request_def request_of_def)

lemma export_answer:
  obtains s1 d p now where "api_manage_iscsi_library_export undo_we export_request sample_server =
      (Inr (json_response 200 (library_export_json export_body ''iqn.2026-05.a:b'' ''e'' p False)), s1)" "po_success p"
    "st_world (sv_site s1) = sample_w d" "like_sample d" "sessions (sv_auth s1) = [(''tok'', (''admin'', 0))]"
    "aw_ticks (sv_auth s1) = 1" "auth_file (sv_auth s1) = [''web_admin.json'']"
    "saved sample_codec ''lib'' (export_record export_body ''iqn.2026-05.a:b'' ''e'' now) (sample_w d)"
proof -
  let ?q = "''iqn.2026-05.a:b''"
  define sa where "sa = sample_server\<lparr>sv_auth := (auth_of sample_server)\<lparr>aw_ticks := 1\<rparr>\<rparr>"
  have ses: "require_session undo_we export_request sample_server = (Inr (), sa)"
    by (subst sample_session) (simp_all add: sa_def export_request_def request_of_def sample_server_def new_web_state_def)
  have w: "st_world (sv_site sa) = sample_w sample_db" "sv_target sa = []"
    by (simp_all add: sa_def sample_server_def sample_site_def sample_world_def)
  have like: "like_sample sample_db" by (simp add: like_sample_def)
  obtain p x where tool: "tool_main sample_tool_host sample_targetcli (export_cli export_body ?q ''e'') [] = (p, x)" by fastforce
  then have p: "po_success p" "targetcli_stderr_blocks_export_save (po_err p) = False"
    using sample_exported by (simp_all add: po_success_def)
  obtain d where d: "save_export sample_codec export_body ?q ''e'' (sample_w sample_db) = (Inr (), sample_w d)" "like_sample d"
    by (rule sample_saved [of "sample_w sample_db"])
      (simp_all add: sample_w_init [OF like], simp_all add: sample_world_def sample_db_def like_sample_def)
  let ?s1 = "sa\<lparr>sv_target := x, sv_site := (sv_site sa)\<lparr>st_world := sample_w d\<rparr>\<rparr>"
  have clap: "sample_clap (library_export_args export_body ?q ''e'') = Inr (export_cli export_body ?q ''e'')"
    using sample_reads sample_plain by (simp add: reads_arguments_def)
  have run: "run_library_export undo_we export_body ?q ''e'' sa = (Inr (p, False), ?s1)"
    using p d tool w clap
    by (simp add: run_library_export_def run_iscsi_tool_def bindp_def thenp_def map_err_def work_def on_site_run on_world_def
        on_part_def export_body_def [THEN arg_cong [where f = le_dry_run]])
  obtain j where body: "rq_body export_request = Inr j" "library_export_body_of j = Some export_body"
    by (rule sample_requests)
  have auth: "read_auth sample_auth (auth_of sa) = (Inr \<lparr>username = ''admin'', password_hash = ''4rfVBNji9'', allow_iscsi = True\<rparr>, auth_of sa)"
    by (rule sample_files_read) (simp_all add: sa_def auth_of_def sample_server_def new_web_state_def sample_site_def)
  have drives: "check_drive_number (le_library export_body) (length (le_drive_sg export_body)) (sv_site sa) = (Inr (), sv_site sa)"
    using export_drives [of "sv_site sa"] sample_w_init [OF like] by (simp add: w export_body_def)
  have "api_manage_iscsi_library_export undo_we export_request sample_server =
      (Inr (json_response (tool_status p) (library_export_json export_body ?q ''e'' p False)), ?s1)"
    by (rule export_forward [OF body ses _ _ drives _ _ sample_checks(3,4) _ _ _ _ run])
      (simp_all add: export_body_def sample_checks VTL_KERNEL_MAX_DRIVES_PER_LIB_def allow_iscsi_exec_def auth)
  moreover obtain now where "saved sample_codec (le_library export_body) (export_record export_body ?q ''e'' now) (sample_w d)"
    by (rule save_export_saves [OF d(1) sample_codec_ok])
  ultimately show ?thesis using p(1) d(2)
    by (intro that [of p ?s1 d now]) (simp_all add: tool_status_def sa_def auth_of_def sample_server_def new_web_state_def export_body_def)
qed

lemma undo_answer:
  assumes "st_world (sv_site s) = sample_w d" "like_sample d" "sessions (sv_auth s) = [(''tok'', (''admin'', 0))]"
    and "aw_ticks (sv_auth s) = 1" "auth_file (sv_auth s) = [''web_admin.json'']"
    and "saved sample_codec ''lib'' (export_record export_body ''iqn.2026-05.a:b'' ''e'' now) (sample_w d)"
  obtains r s2 where "api_manage_iscsi_library_unexport undo_we undo_request s = (Inr r, s2)"
proof -
  let ?q = "''iqn.2026-05.a:b''" and ?b = "undo_body ''lib'' False"
  let ?x = "export_record export_body ?q ''e'' now" let ?u = "saved_params ?b ''lib'' ?x"
  define sa where "sa = s\<lparr>sv_auth := (auth_of s)\<lparr>aw_ticks := 2\<rparr>\<rparr>"
  have ses: "require_session undo_we undo_request s = (Inr (), sa)"
    by (subst sample_session) (simp_all add: sa_def undo_request_def request_of_def assms)
  obtain k where body: "rq_body undo_request = Inr k" "library_unexport_body_of k = Some ?b" by (rule sample_requests)
  have auth: "read_auth sample_auth (auth_of sa) = (Inr \<lparr>username = ''admin'', password_hash = ''4rfVBNji9'', allow_iscsi = True\<rparr>, auth_of sa)"
    by (rule sample_files_read) (simp_all add: sa_def auth_of_def assms)
  have u: "up_iqn ?u = ?q" "up_export_id ?u = ''e''" "up_lun_map ?u = Some [0, 1]" "up_drives ?u = Some 1" "up_library ?u = Some ''lib''"
    by (simp_all add: undo_params export_record_def new_iscsi_export_record_def or_default_def export_body_def)
  have "filled (Some ''lib'') = Some ''lib''" by code_simp
  then have resolved: "resolve_iscsi_unexport_params (ce_codec (we_cli undo_we)) ?b (sv_site sa) = (Inr ?u, sv_site sa)"
    using sample_w_init [OF assms(2)] assms(1,6)
    by (simp add: resolve_iscsi_unexport_params_def undo_body_def OFFLINE_LIBRARY_NAME_def LEGACY_DEFAULT_LIBRARY_NAME_def
        thenp_def bindp_def map_err_def on_world_def on_part_def db_read_def checkp_run sa_def saved_def)
  have clap: "sample_clap (library_unexport_args ?b ?u) = Inr (unexport_cli ?b ?u)"
    using sample_reads sample_plain(2) by (simp add: reads_arguments_def u)
  obtain p x where tool: "tool_main sample_tool_host sample_targetcli (unexport_cli ?b ?u) (sv_target sa) = (p, x)" by fastforce
  obtain i where i: "resolve_library_id d ''lib'' = Inr i"
    using assms(2) by (simp add: resolve_library_id_def find_library_def like_sample_def sample_db_def ok_or_def)
  obtain l s2 where run: "run_library_unexport undo_we ?b ?u sa = (Inr (p, l), s2)"
    using clap tool sample_w_init [OF assms(2)] i assms(1)
    by (cases "po_success p")
      (simp_all add: run_library_unexport_def run_iscsi_tool_def bindp_def thenp_def map_err_def work_def on_site_run on_world_def
        on_part_def library_to_clear_def clear_export_def u sa_def delete_iscsi_library_export_by_name_def db_write_def)
  have "api_manage_iscsi_library_unexport undo_we undo_request s =
      (Inr (json_response (tool_status p) (library_unexport_json ?b ?u p l)), s2)"
    by (rule unexport_forward [OF body ses resolved _ _ u(3) _ _ run])
      (simp_all add: u sample_checks allow_iscsi_exec_def auth validate_lun_map_values_def ISCSI_LUN_MAX_def)
  then show ?thesis by (rule that)
qed

theorem saved_export_can_be_undone_witness:
  "\<exists>r s1 r2 s2 u. api_manage_iscsi_library_export undo_we export_request sample_server = (Inr r, s1) \<and>
     api_manage_iscsi_library_unexport undo_we undo_request s1 = (Inr r2, s2) \<and>
     sv_target s2 = sv_target s1 @ [u] \<and> deleted_targets u = [''iqn.2026-05.a:b'']"
proof -
  let ?q = "''iqn.2026-05.a:b''"
  obtain s1 d p now where out: "api_manage_iscsi_library_export undo_we export_request sample_server =
      (Inr (json_response 200 (library_export_json export_body ?q ''e'' p False)), s1)" "po_success p"
    and s1: "st_world (sv_site s1) = sample_w d" "like_sample d" "sessions (sv_auth s1) = [(''tok'', (''admin'', 0))]"
    "aw_ticks (sv_auth s1) = 1" "auth_file (sv_auth s1) = [''web_admin.json'']"
    "saved sample_codec ''lib'' (export_record export_body ?q ''e'' now) (sample_w d)"
    by (rule export_answer)
  obtain r s2 where again: "api_manage_iscsi_library_unexport undo_we undo_request s1 = (Inr r, s2)"
    by (rule undo_answer [OF s1])
  obtain j k where body: "rq_body export_request = Inr j" "library_export_body_of j = Some export_body"
    "rq_body undo_request = Inr k" "library_unexport_body_of k = Some (undo_body ''lib'' False)" by (rule sample_requests)
  have b: "le_library export_body = ''lib''" "le_dry_run export_body = False" "trim ''lib'' = ''lib''" by code_simp+
  have nodes: "plain_argument ''/dev/sg1''" "plain_argument ''/dev/sg2''" by code_simp+
  have paths: "\<forall>v x. validate_sg_path (we_tool_host undo_we) v = Inr x \<longrightarrow> plain_argument x"
    using nodes by (auto simp: validate_sg_path_def sample_tool_host_def split: if_splits)
  have shown: "rs_reply (json_response 200 (library_export_json export_body ?q ''e'' p False)) =
      JsonBody (library_export_json export_body ?q ''e'' p False)"
    "field ''saved_to_db'' as_bool None (library_export_json export_body ?q ''e'' p False) = Some True"
    "field ''iqn'' as_str None (library_export_json export_body ?q ''e'' p False) = Some ?q"
    by (simp add: json_response_def) (simp_all add: saved_to_db iqn_shown out(2) b)
  have "\<exists>u. sv_target s2 = snd (we_targetcli undo_we False u (sv_target s1)) \<and> deleted_targets u = [?q]"
    using saved_export_can_be_undone [OF _ _ paths out(1) body(1,2) sample_plain(3) shown _ again body(3), where sudo = False]
      body(4) sample_reads sample_codec_ok b by simp blast
  then obtain u where "sv_target s2 = sv_target s1 @ [u]" "deleted_targets u = [?q]"
    by (auto simp: sample_targetcli_def)
  with out(1) again show ?thesis by blast
qed

end
