(* ===== verification/KernelHot.thy ===== *)
theory KernelHot
  imports KernelGeom
begin

text \<open>
  \<^verbatim>\<open>SET_INSTANCES\<close>, which replaces all hosts of the module while it runs
  (\<^verbatim>\<open>vtl_apply_instances_spec\<close> in \<^verbatim>\<open>vtl_main.c\<close>). The hosts are removed and added again with the new
  geometry, or, where that fails, with the former one; what they held is not put back. Waiting for
  work in progress has no effect here. What the rest of the kernel answers - the SCSI devices that
  are in use, and whether the platform devices can be added, at the first and at the second attempt -
  is a parameter, with the settings of the module.
\<close>

record hot_state =
  hs_unloading :: bool
  hs_allow_hot_geom :: bool
  hs_require_no_sdevs :: bool
  hs_sdevs :: nat
  hs_register :: "nat \<Rightarrow> errno option"

definition VTL_MAX_MAILSLOTS :: nat where "VTL_MAX_MAILSLOTS = 4"

definition changer_alloc :: "int \<times> int \<Rightarrow> changer" where
  "changer_alloc g =
     \<lparr>ch_slots = replicate (nat (clamp 1 (int VTL_MAX_SLOTS) (snd g))) None,
      ch_drives = replicate (nat (clamp 1 VTL_MAX_DRIVES (fst g))) None,
      ch_mail = replicate VTL_MAX_MAILSLOTS None\<rparr>"

definition register_all_pdevs :: "errno option \<Rightarrow> (int \<times> int) list \<Rightarrow> errno option \<times> changer list" where
  "register_all_pdevs failed gs =
     (if gs = [] \<or> VTL_MAX_SCSI_INSTANCES < length gs then (Some EINVAL, [])
      else case failed of Some e \<Rightarrow> (Some e, []) | None \<Rightarrow> (None, map changer_alloc gs))"

definition rebuild_hosts :: "hot_state \<Rightarrow> (int \<times> int) list \<Rightarrow> changer list \<Rightarrow> errno option \<times> changer list" where
  "rebuild_hosts h gs prev =
     (case register_all_pdevs (hs_register h 0) gs of
        (None, hosts) \<Rightarrow> (None, hosts)
      | (Some _, _) \<Rightarrow>
          if prev = [] then (Some ENODEV, [])
          else case register_all_pdevs (hs_register h (Suc 0)) (map geometry prev) of
              (None, hosts) \<Rightarrow> (Some EIO, hosts)
            | (Some _, hosts) \<Rightarrow> (Some ENODEV, hosts))"

definition vtl_apply_instances_spec :: "hot_state \<Rightarrow> string \<Rightarrow> kernel \<Rightarrow> errno option \<times> kernel" where
  "vtl_apply_instances_spec h spec k =
     (if spec = [] then (Some EINVAL, k)
      else if hs_unloading h then (Some ENODEV, k)
      else if \<not> hs_allow_hot_geom h then (Some EBUSY, k)
      else case vtl_parse_spec_tokens spec of
          Inl e \<Rightarrow> (Some e, k)
        | Inr gs \<Rightarrow>
            if gs = map geometry (k_hosts k) then (None, k)
            else if hs_require_no_sdevs h \<and> 0 < hs_sdevs h then (Some EBUSY, k)
            else let (r, hosts) = rebuild_hosts h gs (k_hosts k) in (r, k\<lparr>k_hosts := hosts\<rparr>))"

definition ioctl_set_instances :: "hot_state \<Rightarrow> string \<Rightarrow> kernel \<Rightarrow> errno option \<times> kernel" where
  "ioctl_set_instances h spec k =
     (if \<not> k_admin k then (Some EPERM, k) else vtl_apply_instances_spec h spec k)"

section \<open>Lemmas\<close>

lemma changer_alloc_empty [simp]: "media (changer_alloc g) = []"
  by (simp add: media_def changer_alloc_def list_all_iff)

lemma changer_alloc_geometry: "geometry_valid g \<Longrightarrow> geometry (changer_alloc g) = g"
  using clamp_of_valid [of g] by (cases g) (simp add: geometry_def changer_alloc_def geometry_valid_def)

lemma register_all_pdevs_hosts:
  assumes "register_all_pdevs f gs = (r, hosts)" "list_all geometry_valid gs"
  shows "concat (map media hosts) = [] \<and> (if r = None then map geometry hosts = gs else hosts = [])"
proof -
  from assms(1) have "hosts = map changer_alloc gs \<and> r = None \<or> hosts = [] \<and> r \<noteq> None"
    by (auto simp: register_all_pdevs_def split: if_splits option.splits)
  with assms(2) show ?thesis
    by (auto simp: comp_def changer_alloc_geometry list_all_iff cong: map_cong)
qed

lemma rebuild_hosts_outcome:
  assumes "rebuild_hosts h gs prev = (r, hosts)" "list_all geometry_valid gs" "list_all geometry_valid (map geometry prev)"
  shows "concat (map media hosts) = [] \<and>
    (case r of None \<Rightarrow> map geometry hosts = gs
     | Some e \<Rightarrow> (e = EIO \<and> map geometry hosts = map geometry prev) \<or> (e = ENODEV \<and> hosts = []))"
proof -
  obtain r1 hosts1 r2 hosts2 where first: "register_all_pdevs (hs_register h 0) gs = (r1, hosts1)"
    and second: "register_all_pdevs (hs_register h (Suc 0)) (map geometry prev) = (r2, hosts2)" by fastforce
  show ?thesis
    using assms(1) register_all_pdevs_hosts [OF first assms(2)] register_all_pdevs_hosts [OF second assms(3)]
    by (cases r1; cases r2; cases "prev = []") (auto simp: rebuild_hosts_def first second)
qed

lemma parse_tokens_error: "parse_tokens toks out = Inl e \<Longrightarrow> e = EINVAL"
  by (induction toks arbitrary: out)
    (auto simp: Let_def simp del: dropWhile_eq_Nil_conv split: if_splits option.splits)

lemma parse_spec_error: "vtl_parse_spec_tokens spec = Inl e \<Longrightarrow> e = EINVAL"
  by (auto simp: vtl_parse_spec_tokens_def dest: parse_tokens_error split: if_splits sum.splits)

text \<open>
  The outcomes: the request is refused and nothing changes, or the hosts have that geometry already; or
  they are new and empty, with the geometry that was asked for, or the former one (\<open>EIO\<close>); or there
  are none (\<open>ENODEV\<close>).
\<close>

lemma set_instances_outcome:
  assumes "ioctl_set_instances h spec k = (r, k')"
    and "list_all (\<lambda>c. geometry_valid (geometry c)) (k_hosts k)"
  shows "k' = k \<and> r \<noteq> Some EIO \<and> (r = None \<longrightarrow> vtl_parse_spec_tokens spec = Inr (map geometry (k_hosts k))) \<or>
    concat (map media (k_hosts k')) = [] \<and> k_tapes k' = k_tapes k \<and>
    (case r of None \<Rightarrow> vtl_parse_spec_tokens spec = Inr (map geometry (k_hosts k'))
     | Some e \<Rightarrow> (e = EIO \<and> map geometry (k_hosts k') = map geometry (k_hosts k)) \<or> (e = ENODEV \<and> k_hosts k' = []))"
proof -
  have "k' = k \<and> r \<noteq> Some EIO \<and> (r = None \<longrightarrow> vtl_parse_spec_tokens spec = Inr (map geometry (k_hosts k))) \<or>
    (\<exists>gs. vtl_parse_spec_tokens spec = Inr gs \<and> rebuild_hosts h gs (k_hosts k) = (r, k_hosts k') \<and> k_tapes k' = k_tapes k)"
    using assms(1)
    by (auto simp: ioctl_set_instances_def vtl_apply_instances_spec_def
        dest: parse_spec_error split: if_splits sum.splits prod.splits)
  then show ?thesis
  proof
    assume "\<exists>gs. vtl_parse_spec_tokens spec = Inr gs \<and> rebuild_hosts h gs (k_hosts k) = (r, k_hosts k') \<and> k_tapes k' = k_tapes k"
    then obtain gs where gs: "vtl_parse_spec_tokens spec = Inr gs"
      and built: "rebuild_hosts h gs (k_hosts k) = (r, k_hosts k')" and "k_tapes k' = k_tapes k" by blast
    moreover have "list_all geometry_valid (map geometry (k_hosts k))" using assms(2) by (simp add: list_all_iff)
    ultimately show ?thesis
      using rebuild_hosts_outcome [OF built] vtl_parse_spec_tokens_valid [OF gs]
      by (auto split: option.splits)
  qed simp
qed

end
