(* ===== verification/IoctlAbi.thy ===== *)
theory IoctlAbi
  imports RobotSync Geometry KernelHot
begin

text \<open>
  The requests to \<^verbatim>\<open>/dev/vtl\<close> as they cross the boundary of the kernel: the request numbers and the
  \<^verbatim>\<open>repr(C)\<close> structs of \<^verbatim>\<open>robot_sync.rs\<close> and \<^verbatim>\<open>kernel_geom_ioctl.rs\<close> as bytes, and the dispatcher of
  \<^verbatim>\<open>vtl_misc.c\<close>, which reads them back. No struct has padding: the numbers come before the byte arrays.
  Numbers have 32 bits and are little endian, as on the machines the program is built for.
\<close>

unbundle bit_operations_syntax

section \<open>Bytes\<close>

definition le32 :: "32 word \<Rightarrow> string" where
  "le32 w = map (\<lambda>i. char_of (unat (drop_bit (8 * i) w))) [0..<4]"

definition un_le32 :: "string \<Rightarrow> 32 word" where
  "un_le32 bs = of_nat (horner_sum of_char 256 (take 4 bs))"

definition i32_bytes :: "int \<Rightarrow> string" where
  "i32_bytes i = le32 (word_of_int i)"

definition int_at :: "nat \<Rightarrow> string \<Rightarrow> int" where
  "int_at o' bs = sint (un_le32 (drop o' bs))"

definition chars_at :: "nat \<Rightarrow> nat \<Rightarrow> string \<Rightarrow> string" where
  "chars_at o' n bs = take n (drop o' bs)"

definition is_i32 :: "int \<Rightarrow> bool" where
  "is_i32 i \<longleftrightarrow> - (2 ^ 31) \<le> i \<and> i < 2 ^ 31"

section \<open>Request numbers\<close>

text \<open>The macro of \<^verbatim>\<open>linux/ioctl.h\<close>; 1 stands for writing to the kernel, 2 for reading from it.\<close>

definition IOC :: "32 word \<Rightarrow> 32 word \<Rightarrow> 32 word \<Rightarrow> 32 word" where
  "IOC dir nr sz = push_bit 30 dir OR push_bit 16 sz OR push_bit 8 (of_char (CHR ''V'')) OR nr"

definition VTL_IOCTL_LOAD_TAPE :: "32 word" where "VTL_IOCTL_LOAD_TAPE = 0x405C5602"
definition VTL_IOCTL_UNLOAD_TAPE :: "32 word" where "VTL_IOCTL_UNLOAD_TAPE = 0x404C5603"
definition VTL_IOCTL_SLOT_PLACE :: "32 word" where "VTL_IOCTL_SLOT_PLACE = 0x40585606"
definition VTL_IOCTL_MOVE_MEDIUM :: "32 word" where "VTL_IOCTL_MOVE_MEDIUM = 0x400C5607"
definition VTL_IOCTL_ELEM_REMOVE :: "32 word" where "VTL_IOCTL_ELEM_REMOVE = 0x40085609"
definition VTL_IOCTL_SET_INSTANCES :: "32 word" where "VTL_IOCTL_SET_INSTANCES = 0x41805605"
definition VTL_IOCTL_RESIZE_GEOMETRY :: "32 word" where "VTL_IOCTL_RESIZE_GEOMETRY = 0x4180560a"

definition INV_ITEM_SIZE :: nat where "INV_ITEM_SIZE = 68"
definition VTL_INV_IOCTL_SZ :: nat where "VTL_INV_IOCTL_SZ = 24 + VTL_INV_MAX_ITEMS * INV_ITEM_SIZE"
definition VTL_IOCTL_GET_INVENTORY :: "32 word" where
  "VTL_IOCTL_GET_INVENTORY =
     push_bit 30 3 OR push_bit 16 (of_nat VTL_INV_IOCTL_SZ) OR push_bit 8 (of_char (CHR ''V'')) OR 8"

section \<open>What the program sends\<close>

definition VtlLoadReq :: "int \<Rightarrow> int \<Rightarrow> int \<Rightarrow> string \<Rightarrow> string \<Rightarrow> string" where
  "VtlLoadReq inst s d name code = i32_bytes inst @ i32_bytes s @ i32_bytes d @ name @ code"

definition VtlUnloadReq :: "int \<Rightarrow> int \<Rightarrow> int \<Rightarrow> string" where
  "VtlUnloadReq inst d s = i32_bytes inst @ i32_bytes d @ i32_bytes s @ replicate 64 NUL"

definition VtlSlotPlaceReq :: "int \<Rightarrow> int \<Rightarrow> string \<Rightarrow> string \<Rightarrow> string" where
  "VtlSlotPlaceReq inst s name code = i32_bytes inst @ i32_bytes s @ name @ code"

definition VtlMoveReq :: "int \<Rightarrow> int \<Rightarrow> int \<Rightarrow> string" where
  "VtlMoveReq inst src dst = i32_bytes inst @ i32_bytes src @ i32_bytes dst"

definition VtlElemRemoveReq :: "int \<Rightarrow> int \<Rightarrow> string" where
  "VtlElemRemoveReq inst e = i32_bytes inst @ i32_bytes e"

definition VtlInventoryIoctl :: "int \<Rightarrow> string" where
  "VtlInventoryIoctl inst =
     i32_bytes inst @ concat (replicate 5 (i32_bytes 0)) @
     concat (replicate VTL_INV_MAX_ITEMS (i32_bytes (- 1) @ replicate 64 NUL))"

definition VtlSetInstancesIoctl :: "string \<Rightarrow> string" where
  "VtlSetInstancesIoctl spec = spec @ replicate (VTL_INST_SPEC_MAX - length spec) NUL"

text \<open>The loop of \<open>kernel_inventory_snapshot\<close> over the items that came back.\<close>

definition read_inventory :: "string \<Rightarrow> (int \<times> string) list \<times> bool" where
  "read_inventory bs =
     (map (\<lambda>i. let o' = 24 + i * INV_ITEM_SIZE in (int_at o' bs, cstr_to_string (chars_at (o' + 4) 64 bs)))
        [0..<min (nat (max (int_at 16 bs) 0)) VTL_INV_MAX_ITEMS],
      int_at 20 bs \<noteq> 0)"

section \<open>What the module does with it\<close>

text \<open>\<^verbatim>\<open>copy_from_user\<close> faults when the program has given fewer bytes.\<close>

definition from_user :: "nat \<Rightarrow> string \<Rightarrow> (string \<Rightarrow> kernel \<Rightarrow> (errno + 'a) \<times> kernel) \<Rightarrow> kernel \<Rightarrow> (errno + 'a) \<times> kernel" where
  "from_user n bs f k = (if length bs < n then (Inl EFAULT, k) else f (take n bs) k)"

definition capable :: "(kernel \<Rightarrow> (errno + 'a) \<times> kernel) \<Rightarrow> kernel \<Rightarrow> (errno + 'a) \<times> kernel" where
  "capable f k = (if \<not> k_admin k then (Inl EPERM, k) else f k)"

definition terminated :: "string \<Rightarrow> string" where
  "terminated field = butlast field @ [NUL]"

definition c_string :: "nat \<Rightarrow> nat \<Rightarrow> string \<Rightarrow> string" where
  "c_string o' n bs = cstr_to_string (terminated (chars_at o' n bs))"

definition no_data :: "(errno + unit) \<times> kernel \<Rightarrow> (errno + string) \<times> kernel" where
  "no_data p = (case fst p of Inl e \<Rightarrow> Inl e | Inr _ \<Rightarrow> Inr [], snd p)"

definition vtl_ioctl_load_tape :: "fs \<Rightarrow> string \<Rightarrow> kernel \<Rightarrow> (errno + string) \<times> kernel" where
  "vtl_ioctl_load_tape f arg =
     capable (from_user 92 arg (\<lambda>r k. no_data
       (ioctl_load_tape f (int_at 0 r) (int_at 4 r) (int_at 8 r) (c_string 12 64 r) k)))"

definition vtl_ioctl_unload_tape :: "string \<Rightarrow> kernel \<Rightarrow> (errno + string) \<times> kernel" where
  "vtl_ioctl_unload_tape arg =
     capable (from_user 76 arg (\<lambda>r k. no_data (ioctl_unload_tape (int_at 0 r) (int_at 4 r) (int_at 8 r) k)))"

definition vtl_ioctl_slot_place :: "fs \<Rightarrow> string \<Rightarrow> kernel \<Rightarrow> (errno + string) \<times> kernel" where
  "vtl_ioctl_slot_place f arg =
     capable (from_user 88 arg (\<lambda>r k. no_data
       (ioctl_slot_place f (int_at 0 r) (int_at 4 r) (c_string 8 64 r) k)))"

definition vtl_ioctl_move_medium :: "string \<Rightarrow> kernel \<Rightarrow> (errno + string) \<times> kernel" where
  "vtl_ioctl_move_medium arg =
     capable (from_user 12 arg (\<lambda>r k. no_data (ioctl_move_medium (int_at 0 r) (int_at 4 r) (int_at 8 r) k)))"

definition vtl_ioctl_elem_remove :: "string \<Rightarrow> kernel \<Rightarrow> (errno + string) \<times> kernel" where
  "vtl_ioctl_elem_remove arg =
     capable (from_user 8 arg (\<lambda>r k. no_data (ioctl_elem_remove (int_at 0 r) (int_at 4 r) k)))"

text \<open>\<^verbatim>\<open>strscpy\<close> leaves what follows the end of the string in the field.\<close>

definition strscpy :: "string \<Rightarrow> string \<Rightarrow> string" where
  "strscpy field s = (let t = take (length field - 1) s in t @ NUL # drop (Suc (length t)) field)"

definition inventory_item :: "string \<Rightarrow> nat \<Rightarrow> int \<times> string \<Rightarrow> string" where
  "inventory_item r i p =
     i32_bytes (fst p) @ strscpy (chars_at (24 + i * INV_ITEM_SIZE + 4) 64 r) (snd p)"

definition inventory_reply :: "string \<Rightarrow> changer \<Rightarrow> string" where
  "inventory_reply r c =
     (let (items, truncated) = collect_inventory c; n = length items
      in take 4 r @ i32_bytes (int (length (ch_drives c))) @ i32_bytes (int (length (ch_slots c))) @
         i32_bytes (int (length (ch_mail c))) @ i32_bytes (int n) @ i32_bytes (if truncated then 1 else 0) @
         concat (map2 (inventory_item r) [0..<n] items) @ drop (24 + n * INV_ITEM_SIZE) r)"

definition vtl_ioctl_get_inventory :: "string \<Rightarrow> kernel \<Rightarrow> (errno + string) \<times> kernel" where
  "vtl_ioctl_get_inventory arg =
     capable (from_user VTL_INV_IOCTL_SZ arg (\<lambda>r.
       with_changer (int_at 0 r) (\<lambda>i c k. (Inr (inventory_reply r c), k))))"

definition vtl_ioctl_instances :: "(string \<Rightarrow> kernel \<Rightarrow> errno option \<times> kernel) \<Rightarrow> string \<Rightarrow> kernel \<Rightarrow> (errno + string) \<times> kernel" where
  "vtl_ioctl_instances apply_spec arg =
     capable (from_user VTL_INST_SPEC_MAX arg (\<lambda>r k.
       case apply_spec (c_string 0 VTL_INST_SPEC_MAX r) k of (e, k') \<Rightarrow> no_data (errno_result e, k')))"

text \<open>
  The dispatcher. \<open>create\<close> stands for \<^verbatim>\<open>vtl_tape_create\<close>, which belongs to the data path; the module
  calls it without asking for a capability.
\<close>

definition vtl_ioctl ::
    "hot_state \<Rightarrow> (string \<Rightarrow> kernel \<Rightarrow> (errno + unit) \<times> kernel) \<Rightarrow> fs \<Rightarrow> 32 word \<Rightarrow> string \<Rightarrow> kernel
      \<Rightarrow> (errno + string) \<times> kernel" where
  "vtl_ioctl h create f cmd arg k =
     (if cmd = IOC 1 1 72 then from_user 72 arg (\<lambda>r k. no_data (create r k)) k
      else if cmd = IOC 1 2 92 then vtl_ioctl_load_tape f arg k
      else if cmd = IOC 1 3 76 then vtl_ioctl_unload_tape arg k
      else if cmd = IOC 1 6 88 then vtl_ioctl_slot_place f arg k
      else if cmd = IOC 1 7 12 then vtl_ioctl_move_medium arg k
      else if cmd = IOC 1 9 8 then vtl_ioctl_elem_remove arg k
      else if cmd = IOC 3 8 (of_nat VTL_INV_IOCTL_SZ) then vtl_ioctl_get_inventory arg k
      else if cmd = IOC 2 4 12 then (Inl EOPNOTSUPP, k)
      else if cmd = IOC 1 5 (of_nat VTL_INST_SPEC_MAX) then vtl_ioctl_instances (vtl_apply_instances_spec h) arg k
      else if cmd = IOC 1 10 (of_nat VTL_INST_SPEC_MAX) then vtl_ioctl_instances vtl_apply_geom_resize_only arg k
      else (Inl ENOTTY, k))"

section \<open>Lemmas\<close>

lemma length_le32 [simp]: "length (le32 w) = 4" "length (i32_bytes i) = 4"
  by (simp_all add: le32_def i32_bytes_def)

lemma bytes_of_nat:
  assumes "n < 2 ^ 32"
  shows "n mod 256 + 256 * (n div 256 mod 256 + 256 * (n div 65536 mod 256 + 256 * (n div 16777216 mod 256))) = (n::nat)"
proof -
  have "n div 16777216 mod 256 = n div 256 div 256 div 256"
    using assms by (simp add: div_mult2_eq [symmetric] less_mult_imp_div_less)
  moreover have "n div 65536 = n div 256 div 256" by (simp add: div_mult2_eq [symmetric])
  ultimately show ?thesis by (metis mod_mult_div_eq)
qed

lemma le32_back [simp]: "un_le32 (le32 w @ bs) = w"
proof -
  have "unat w < 2 ^ 32" using unsigned_less [of w] by simp
  then have top: "unat w div 16777216 mod 256 = unat w div 16777216" by (simp add: less_mult_imp_div_less)
  note split = bytes_of_nat [OF \<open>unat w < 2 ^ 32\<close>, unfolded top]
  have "[0..<4] = [0, 1, 2, 3 :: nat]" by code_simp
  then have "horner_sum of_char 256 (take 4 (le32 w @ bs)) = unat w"
    using split by (simp add: le32_def drop_bit_eq_div unat_div top)
  then show ?thesis by (simp add: un_le32_def)
qed

lemma i32_back: "is_i32 i \<Longrightarrow> sint (un_le32 (i32_bytes i @ bs)) = i"
  using signed_take_bit_int_eq_self [of 31 i] by (simp add: i32_bytes_def is_i32_def sint_sbintrunc')

lemma request_numbers:
  "VTL_IOCTL_LOAD_TAPE = IOC 1 2 92" "VTL_IOCTL_UNLOAD_TAPE = IOC 1 3 76" "VTL_IOCTL_SLOT_PLACE = IOC 1 6 88"
  "VTL_IOCTL_MOVE_MEDIUM = IOC 1 7 12" "VTL_IOCTL_ELEM_REMOVE = IOC 1 9 8"
  "VTL_IOCTL_GET_INVENTORY = IOC 3 8 (of_nat VTL_INV_IOCTL_SZ)"
  "VTL_IOCTL_SET_INSTANCES = IOC 1 5 (of_nat VTL_INST_SPEC_MAX)"
  "VTL_IOCTL_RESIZE_GEOMETRY = IOC 1 10 (of_nat VTL_INST_SPEC_MAX)"
  by (simp_all add: IOC_def VTL_IOCTL_LOAD_TAPE_def VTL_IOCTL_UNLOAD_TAPE_def VTL_IOCTL_SLOT_PLACE_def
      VTL_IOCTL_MOVE_MEDIUM_def VTL_IOCTL_ELEM_REMOVE_def VTL_IOCTL_GET_INVENTORY_def VTL_IOCTL_SET_INSTANCES_def
      VTL_IOCTL_RESIZE_GEOMETRY_def VTL_INST_SPEC_MAX_def)

lemma int_at_simps:
  "is_i32 i \<Longrightarrow> int_at 0 (i32_bytes i @ bs) = i"
  "4 \<le> n \<Longrightarrow> int_at n (i32_bytes i @ bs) = int_at (n - 4) bs"
  by (simp_all add: int_at_def i32_back)

lemma int_at_last: "is_i32 i \<Longrightarrow> int_at 0 (i32_bytes i) = i"
  using int_at_simps(1) [of i "[]"] by simp

lemma chars_at_simps:
  "4 \<le> n \<Longrightarrow> chars_at n m (i32_bytes i @ bs) = chars_at (n - 4) m bs"
  "length xs = m \<Longrightarrow> chars_at 0 m (xs @ bs) = xs"
  by (simp_all add: chars_at_def)

lemma name_field:
  assumes "copy_name_field name = Inr nf"
  shows "length nf = 64" "terminated nf = nf"
proof -
  from assms have nf: "nf = name @ replicate (64 - length name) NUL" and "length name < 64"
    by (auto simp: copy_name_field_def split: if_splits)
  then show "length nf = 64" by simp
  from \<open>length name < 64\<close> obtain n where "64 - length name = Suc n" by (metis Suc_diff_Suc)
  then have "nf = (name @ replicate n NUL) @ [NUL]" by (simp add: nf replicate_append_same)
  then show "terminated nf = nf" by (simp only: terminated_def butlast_snoc)
qed

lemma barcode_field: "copy_barcode_field code = Inr cf \<Longrightarrow> length cf = 16"
  by (auto simp: copy_barcode_field_def split: option.splits if_splits)

lemma from_user_all: "length bs = n \<Longrightarrow> from_user n bs f = f bs"
  by (simp add: from_user_def fun_eq_iff)

lemma capable_ioctl:
  "capable (\<lambda>k. no_data (ioctl_load_tape f i s d t k)) = (\<lambda>k. no_data (ioctl_load_tape f i s d t k))"
  "capable (\<lambda>k. no_data (ioctl_slot_place f i s t k)) = (\<lambda>k. no_data (ioctl_slot_place f i s t k))"
  "capable (\<lambda>k. no_data (ioctl_unload_tape i d s k)) = (\<lambda>k. no_data (ioctl_unload_tape i d s k))"
  "capable (\<lambda>k. no_data (ioctl_move_medium i s d k)) = (\<lambda>k. no_data (ioctl_move_medium i s d k))"
  "capable (\<lambda>k. no_data (ioctl_elem_remove i s k)) = (\<lambda>k. no_data (ioctl_elem_remove i s k))"
  by (simp_all add: fun_eq_iff capable_def with_changer_def no_data_def ioctl_load_tape_def ioctl_unload_tape_def
      ioctl_slot_place_def ioctl_move_medium_def ioctl_elem_remove_def)

text \<open>The numbers of two requests differ, so each reaches its own handler.\<close>

lemma dispatched:
  "vtl_ioctl h create f VTL_IOCTL_LOAD_TAPE = vtl_ioctl_load_tape f"
  "vtl_ioctl h create f VTL_IOCTL_UNLOAD_TAPE = vtl_ioctl_unload_tape"
  "vtl_ioctl h create f VTL_IOCTL_SLOT_PLACE = vtl_ioctl_slot_place f"
  "vtl_ioctl h create f VTL_IOCTL_MOVE_MEDIUM = vtl_ioctl_move_medium"
  "vtl_ioctl h create f VTL_IOCTL_ELEM_REMOVE = vtl_ioctl_elem_remove"
  "vtl_ioctl h create f VTL_IOCTL_GET_INVENTORY = vtl_ioctl_get_inventory"
  "vtl_ioctl h create f VTL_IOCTL_SET_INSTANCES = vtl_ioctl_instances (vtl_apply_instances_spec h)"
  "vtl_ioctl h create f VTL_IOCTL_RESIZE_GEOMETRY = vtl_ioctl_instances vtl_apply_geom_resize_only"
  by (simp_all add: fun_eq_iff vtl_ioctl_def IOC_def VTL_IOCTL_LOAD_TAPE_def VTL_IOCTL_UNLOAD_TAPE_def VTL_IOCTL_SLOT_PLACE_def
      VTL_IOCTL_MOVE_MEDIUM_def VTL_IOCTL_ELEM_REMOVE_def VTL_IOCTL_GET_INVENTORY_def VTL_IOCTL_SET_INSTANCES_def
      VTL_IOCTL_RESIZE_GEOMETRY_def VTL_INST_SPEC_MAX_def VTL_INV_IOCTL_SZ_def VTL_INV_MAX_ITEMS_def INV_ITEM_SIZE_def)

lemma requests_with_names:
  assumes "is_i32 inst" "is_i32 s" "is_i32 d" "copy_name_field name = Inr nf" "copy_barcode_field code = Inr cf"
  shows "vtl_ioctl h create f VTL_IOCTL_LOAD_TAPE (VtlLoadReq inst s d nf cf) k =
      no_data (ioctl_load_tape f inst s d (cstr_to_string nf) k)"
    and "vtl_ioctl h create f VTL_IOCTL_SLOT_PLACE (VtlSlotPlaceReq inst s nf cf) k =
      no_data (ioctl_slot_place f inst s (cstr_to_string nf) k)"
  using assms(1-3) name_field [OF assms(4)] barcode_field [OF assms(5)]
  by (simp_all add: dispatched vtl_ioctl_load_tape_def vtl_ioctl_slot_place_def VtlLoadReq_def VtlSlotPlaceReq_def
      from_user_all int_at_simps c_string_def chars_at_simps capable_ioctl)

lemma requests_without_names:
  assumes "is_i32 inst" "is_i32 s" "is_i32 d"
  shows "vtl_ioctl h create f VTL_IOCTL_UNLOAD_TAPE (VtlUnloadReq inst d s) k = no_data (ioctl_unload_tape inst d s k)"
    and "vtl_ioctl h create f VTL_IOCTL_MOVE_MEDIUM (VtlMoveReq inst s d) k = no_data (ioctl_move_medium inst s d k)"
    and "vtl_ioctl h create f VTL_IOCTL_ELEM_REMOVE (VtlElemRemoveReq inst s) k = no_data (ioctl_elem_remove inst s k)"
  using assms
  by (simp_all add: dispatched vtl_ioctl_unload_tape_def vtl_ioctl_move_medium_def vtl_ioctl_elem_remove_def VtlUnloadReq_def
      VtlMoveReq_def VtlElemRemoveReq_def from_user_all int_at_simps int_at_last capable_ioctl)

lemma cstr_of_terminated: "NUL \<notin> set s \<Longrightarrow> cstr_to_string (s @ NUL # xs) = s"
  by (auto simp: cstr_to_string_def takeWhile_append)

lemma requests_with_spec:
  assumes "length spec < VTL_INST_SPEC_MAX" "NUL \<notin> set spec"
  shows "vtl_ioctl h create f VTL_IOCTL_SET_INSTANCES (VtlSetInstancesIoctl spec) k =
      (case ioctl_set_instances h spec k of (e, k') \<Rightarrow> no_data (errno_result e, k'))"
    and "vtl_ioctl h create f VTL_IOCTL_RESIZE_GEOMETRY (VtlSetInstancesIoctl spec) k =
      (case ioctl_resize_geometry spec k of (e, k') \<Rightarrow> no_data (errno_result e, k'))"
proof -
  obtain n where n: "VTL_INST_SPEC_MAX - length spec = Suc n" using assms(1) by (metis Suc_diff_Suc)
  then have bytes: "VtlSetInstancesIoctl spec = (spec @ replicate n NUL) @ [NUL]"
    by (simp add: VtlSetInstancesIoctl_def replicate_append_same)
  have len: "length (VtlSetInstancesIoctl spec) = VTL_INST_SPEC_MAX"
    using assms(1) by (simp add: VtlSetInstancesIoctl_def)
  have "c_string 0 VTL_INST_SPEC_MAX (VtlSetInstancesIoctl spec) = cstr_to_string (terminated (VtlSetInstancesIoctl spec))"
    by (simp add: c_string_def chars_at_def len)
  also have "\<dots> = spec"
    using cstr_of_terminated [OF assms(2)] by (cases n) (simp_all add: bytes terminated_def butlast_append)
  finally have c: "c_string 0 VTL_INST_SPEC_MAX (VtlSetInstancesIoctl spec) = spec" .
  show "vtl_ioctl h create f VTL_IOCTL_SET_INSTANCES (VtlSetInstancesIoctl spec) k =
      (case ioctl_set_instances h spec k of (e, k') \<Rightarrow> no_data (errno_result e, k'))"
    "vtl_ioctl h create f VTL_IOCTL_RESIZE_GEOMETRY (VtlSetInstancesIoctl spec) k =
      (case ioctl_resize_geometry spec k of (e, k') \<Rightarrow> no_data (errno_result e, k'))"
    by (simp_all add: dispatched vtl_ioctl_instances_def from_user_all len c capable_def ioctl_set_instances_def
        ioctl_resize_geometry_def no_data_def errno_result_def)
qed

text \<open>The blocks of a concatenation of blocks of the same length.\<close>

lemma drop_blocks:
  assumes "\<forall>x \<in> set xs. length x = m" "i \<le> length xs"
  shows "drop (i * m) (concat xs @ ys) = concat (drop i xs) @ ys"
  using assms
proof (induction xs arbitrary: i)
  case (Cons x xs)
  then show ?case by (cases i) simp_all
qed simp

text \<open>
  The answer about a changer whose names fit their fields - as those do that came through a request -
  is read back as what the module collected.
\<close>

definition names_fit :: "changer \<Rightarrow> bool" where
  "names_fit c \<longleftrightarrow> list_all (\<lambda>(e, t). is_i32 e \<and> length t < 64 \<and> NUL \<notin> set t) (all_items c)"

lemma strscpy_field:
  assumes "length field = 64" "length t < 64"
  shows "length (strscpy field t) = 64" "NUL \<notin> set t \<Longrightarrow> cstr_to_string (strscpy field t) = t"
  using assms cstr_of_terminated by (simp_all add: strscpy_def Let_def)

lemma chars_of_drop: "drop o' bs = xs @ ys \<Longrightarrow> length xs = n \<Longrightarrow> chars_at o' n bs = xs"
  by (simp add: chars_at_def)

lemma inventory_is_read:
  assumes "names_fit c" "length r = VTL_INV_IOCTL_SZ"
  shows "read_inventory (inventory_reply r c) = collect_inventory c"
proof -
  obtain items tr where col: "collect_inventory c = (items, tr)" by fastforce
  let ?n = "length items"
  have n: "?n \<le> VTL_INV_MAX_ITEMS" and fit: "\<And>i. i < ?n \<Longrightarrow> is_i32 (fst (items ! i)) \<and> length (snd (items ! i)) < 64 \<and> NUL \<notin> set (snd (items ! i))"
    using col assms(1) by (auto simp: collect_inventory_def names_fit_def list_all_length case_prod_unfold)
  define blocks where "blocks = map2 (inventory_item r) [0..<?n] items"
  define rest where "rest = drop (24 + ?n * INV_ITEM_SIZE) r"
  have field: "length (chars_at (24 + i * INV_ITEM_SIZE + 4) 64 r) = 64" if "i < ?n" for i
    using that n assms(2) by (simp add: chars_at_def VTL_INV_IOCTL_SZ_def INV_ITEM_SIZE_def)
  have lens: "\<forall>x \<in> set blocks. length x = INV_ITEM_SIZE"
    using fit field strscpy_field(1) by (fastforce simp: blocks_def in_set_zip inventory_item_def INV_ITEM_SIZE_def)
  have reply: "inventory_reply r c = take 4 r @ i32_bytes (int (length (ch_drives c))) @ i32_bytes (int (length (ch_slots c))) @
      i32_bytes (int (length (ch_mail c))) @ i32_bytes (int ?n) @ i32_bytes (if tr then 1 else 0) @ concat blocks @ rest"
    by (simp add: inventory_reply_def col blocks_def rest_def Let_def)
  have t4: "length (take 4 r) = 4" using assms(2) by (simp add: VTL_INV_IOCTL_SZ_def)
  have count: "int_at 16 (inventory_reply r c) = int ?n" "int_at 20 (inventory_reply r c) = (if tr then 1 else 0)"
    using n t4 unfolding reply by (simp_all add: int_at_def i32_back is_i32_def VTL_INV_MAX_ITEMS_def)
  have block: "drop (24 + i * INV_ITEM_SIZE) (inventory_reply r c) = inventory_item r i (items ! i) @ concat (drop (Suc i) blocks) @ rest"
    if "i < ?n" for i
  proof -
    have "drop (24 + i * INV_ITEM_SIZE) (inventory_reply r c) = drop (i * INV_ITEM_SIZE) (concat blocks @ rest)"
      using t4 unfolding reply by simp
    also have "\<dots> = concat (drop i blocks) @ rest"
      using that by (intro drop_blocks [OF lens]) (simp add: blocks_def)
    also have "drop i blocks = inventory_item r i (items ! i) # drop (Suc i) blocks"
      using that by (subst Cons_nth_drop_Suc [symmetric]) (simp_all add: blocks_def)
    finally show ?thesis by simp
  qed
  have item: "(let o' = 24 + i * INV_ITEM_SIZE in (int_at o' (inventory_reply r c),
      cstr_to_string (chars_at (o' + 4) 64 (inventory_reply r c)))) = items ! i" if "i < ?n" for i
  proof -
    let ?o = "24 + i * INV_ITEM_SIZE"
    have "drop (?o + 4) (inventory_reply r c) = drop 4 (drop ?o (inventory_reply r c))"
      by (simp add: add.commute)
    also have "\<dots> = strscpy (chars_at (?o + 4) 64 r) (snd (items ! i)) @ concat (drop (Suc i) blocks) @ rest"
      by (simp add: block [OF that] inventory_item_def del: drop_drop)
    finally have name: "chars_at (?o + 4) 64 (inventory_reply r c) = strscpy (chars_at (?o + 4) 64 r) (snd (items ! i))"
      by (rule chars_of_drop) (use strscpy_field(1) [OF field [OF that]] fit [OF that] in blast)
    have "int_at ?o (inventory_reply r c) = fst (items ! i)"
      using block [OF that] fit [OF that] by (simp add: int_at_def inventory_item_def i32_back)
    with name fit [OF that] field [OF that] show ?thesis by (simp add: Let_def strscpy_field(2))
  qed
  have "map (\<lambda>i. let o' = 24 + i * INV_ITEM_SIZE in (int_at o' (inventory_reply r c),
      cstr_to_string (chars_at (o' + 4) 64 (inventory_reply r c)))) [0..<?n] = items"
    by (rule nth_equalityI) (simp_all only: length_map length_upt diff_zero nth_map nth_upt plus_nat.add_0 item)
  then show ?thesis using n by (simp add: read_inventory_def count col min_def)
qed

lemma inventory_request:
  assumes "is_i32 inst" "\<forall>c \<in> set (k_hosts k). names_fit c"
  shows "case vtl_ioctl h create f VTL_IOCTL_GET_INVENTORY (VtlInventoryIoctl inst) k of (r, k') \<Rightarrow>
    (case r of Inl e \<Rightarrow> Inl e | Inr bs \<Rightarrow> Inr (read_inventory bs), k') = ioctl_get_inventory inst k"
proof -
  have len: "length (VtlInventoryIoctl inst) = VTL_INV_IOCTL_SZ"
    by (simp add: VtlInventoryIoctl_def VTL_INV_IOCTL_SZ_def INV_ITEM_SIZE_def length_concat sum_list_replicate comp_def)
  have inst: "int_at 0 (VtlInventoryIoctl inst) = inst"
    unfolding VtlInventoryIoctl_def by (rule int_at_simps(1) [OF assms(1)])
  have "read_inventory (inventory_reply (VtlInventoryIoctl inst) (k_hosts k ! i)) = collect_inventory (k_hosts k ! i)"
    if "changer_get_instance k inst = Some i" for i
  proof (rule inventory_is_read [OF _ len])
    from that have "i < length (k_hosts k)" by (auto simp: changer_get_instance_def split: if_splits)
    with assms(2) show "names_fit (k_hosts k ! i)" by simp
  qed
  then show ?thesis
    by (auto simp: dispatched vtl_ioctl_get_inventory_def from_user_all len inst capable_def ioctl_get_inventory_def
        with_changer_def split: option.split)
qed

end
