(* ===== verification/ModuleProperties.thy ===== *)
theory ModuleProperties
  imports IoctlAbi KernelProperties
begin

text \<open>
  The boundary between the program and the module: requests reach the operation that the program
  means, and a geometry that the module accepts is that of the catalogue.
\<close>

section \<open>Requests\<close>

text \<open>C9: each request that the robot commands build is understood: the dispatcher of the module finds the
  handler by the number that the program has for it, reads from the bytes of the struct the numbers and the
  name that the program meant, and the inventory that it writes into the program's buffer is read back as
  what it collected.\<close>

theorem requests_reach_their_handlers:
  fixes h :: hot_state and create :: "string \<Rightarrow> kernel \<Rightarrow> (errno + unit) \<times> kernel" and f :: fs
  assumes "list_all is_i32 [inst, s, d]" "copy_name_field name = Inr nf" "copy_barcode_field code = Inr cf"
    and "\<forall>c \<in> set (k_hosts k). names_fit c"
  defines "ioctl \<equiv> vtl_ioctl h create f" and "t \<equiv> cstr_to_string nf"
  shows "ioctl VTL_IOCTL_LOAD_TAPE (VtlLoadReq inst s d nf cf) k = no_data (ioctl_load_tape f inst s d t k) \<and>
    ioctl VTL_IOCTL_SLOT_PLACE (VtlSlotPlaceReq inst s nf cf) k = no_data (ioctl_slot_place f inst s t k) \<and>
    ioctl VTL_IOCTL_UNLOAD_TAPE (VtlUnloadReq inst d s) k = no_data (ioctl_unload_tape inst d s k) \<and>
    ioctl VTL_IOCTL_MOVE_MEDIUM (VtlMoveReq inst s d) k = no_data (ioctl_move_medium inst s d k) \<and>
    ioctl VTL_IOCTL_ELEM_REMOVE (VtlElemRemoveReq inst s) k = no_data (ioctl_elem_remove inst s k) \<and>
    (case ioctl VTL_IOCTL_GET_INVENTORY (VtlInventoryIoctl inst) k of (r, k') \<Rightarrow>
       (case r of Inl e \<Rightarrow> Inl e | Inr bs \<Rightarrow> Inr (read_inventory bs), k') = ioctl_get_inventory inst k)"
proof -
  have i: "is_i32 inst" "is_i32 s" "is_i32 d" using assms(1) by simp_all
  show ?thesis
    unfolding ioctl_def t_def
    by (intro conjI requests_with_names [OF i assms(2,3)] requests_without_names [OF i] inventory_request [OF i(1) assms(4)])
qed

definition sample_hot :: hot_state where
  "sample_hot =
     \<lparr>hs_unloading = False, hs_allow_hot_geom = True, hs_require_no_sdevs = True, hs_sdevs = 0, hs_register = (\<lambda>_. None)\<rparr>"

theorem requests_reach_their_handlers_witness:
  "snd (vtl_ioctl sample_hot (\<lambda>_ k. (Inl EIO, k)) sample_fs VTL_IOCTL_MOVE_MEDIUM (VtlMoveReq 0 0 1) (sample_kernel [sample_changer])) =
   sample_kernel [sample_changer\<lparr>ch_slots := [None, Some ''t1'']\<rparr>]"
proof -
  have i32: "list_all is_i32 [0, 0, 1]" by (simp add: is_i32_def)
  have fields: "copy_name_field [] = Inr (replicate 64 NUL)" "copy_barcode_field None = Inr (replicate 16 NUL)"
    by (simp_all add: copy_name_field_def copy_barcode_field_def)
  have "\<forall>c \<in> set (k_hosts (sample_kernel [sample_changer])). names_fit c" by code_simp
  note reach = requests_reach_their_handlers [OF i32 fields this]
  moreover have "snd (no_data (ioctl_move_medium 0 0 1 (sample_kernel [sample_changer]))) =
      sample_kernel [sample_changer\<lparr>ch_slots := [None, Some ''t1'']\<rparr>]"
    by code_simp
  ultimately show ?thesis by simp
qed

section \<open>Geometry\<close>

text \<open>C12: when the module accepts the geometry string of a catalogue, by either ioctl, its hosts have exactly
  the geometry of the exported libraries, in their order, and the host of the index that the robot commands
  send for a library has the drives and slots of that library. A resize moves no medium; a rebuild leaves
  the kernel as it was or the hosts empty.\<close>

theorem catalogue_geometry_reaches_kernel:
  assumes "instances_spec d = Inr spec" and "apply_spec_ioctl resize out spec s = (Inr (), s')"
    and "\<And>h. o_set_instances out h = ioctl_set_instances hot"
    and "list_all (\<lambda>c. geometry_valid (geometry c)) (k_hosts (w_kernel (st_world s)))"
  defines "k \<equiv> w_kernel (st_world s)" and "k' \<equiv> w_kernel (st_world s')"
  shows "map geometry (k_hosts k') = map (library_segment d) (exported_ids d) \<and>
    (if resize then map media (k_hosts k') = map media (k_hosts k) else k' = k \<or> concat (map media (k_hosts k')) = []) \<and>
    (library_kernel_instance_index d lib = Inr i \<longrightarrow> lib \<in> set (take VTL_KERNEL_MAX_ONLINE_LIBRARIES (online_lib_ids d)) \<longrightarrow>
       changer_get_instance k' (int i) = Some i \<and> geometry (k_hosts k' ! i) = library_segment d lib)"
proof -
  let ?gs = "map (library_segment d) (exported_ids d)"
  have ne: "?gs \<noteq> []" and spec: "spec = show_segments ?gs" using assms(1) by (simp_all add: instances_spec_Inr)
  have valid: "list_all geometry_valid ?gs" by (simp add: list_all_iff library_segment_valid)
  have parsed: "vtl_parse_spec_tokens spec = Inr ?gs"
    unfolding spec by (rule kernel_parse_show_segments [OF ne valid]) (use exported_ids_le [of d] in \<open>simp add: VTL_MAX_SCSI_INSTANCES_def\<close>)
  have run: "(if resize then ioctl_resize_geometry spec k else ioctl_set_instances hot spec k) = (None, k')"
    using assms(2) unfolding k_def k'_def
    by (auto simp: apply_spec_ioctl_def thenp_def bindp_eq_Inr checkp_run emit_def on_kernel_def on_world_def on_part_def
        assms(3) split: option.splits prod.splits if_splits)
  have "map geometry (k_hosts k') = ?gs \<and>
    (if resize then map media (k_hosts k') = map media (k_hosts k) else k' = k \<or> concat (map media (k_hosts k')) = [])"
  proof (cases resize)
    case True
    with run have "vtl_apply_geom_resize_only spec k = (None, k')" by (simp add: ioctl_resize_geometry_def split: if_splits)
    from geom_resize_only_spec [OF this] assms(4) parsed True show ?thesis by (simp add: k_def)
  next
    case False
    with run have "ioctl_set_instances hot spec k = (None, k')" by simp
    from set_instances_outcome [OF this] assms(4) parsed False show ?thesis by (auto simp: k_def)
  qed
  moreover have "changer_get_instance k' (int i) = Some i \<and> geometry (k_hosts k' ! i) = library_segment d lib"
    if "library_kernel_instance_index d lib = Inr i" "lib \<in> set (take VTL_KERNEL_MAX_ONLINE_LIBRARIES (online_lib_ids d))"
      and gs: "map geometry (k_hosts k') = ?gs"
  proof -
    from instance_index_is_segment [OF that(1) assms(1) that(2)] parsed
    have i: "i < length ?gs" "?gs ! i = library_segment d lib" by auto
    with gs have "i < length (k_hosts k')" by (metis length_map)
    moreover from this i(2) gs have "geometry (k_hosts k' ! i) = library_segment d lib" by (metis nth_map)
    ultimately show ?thesis by (simp add: changer_get_instance_def)
  qed
  ultimately show ?thesis by blast
qed

theorem catalogue_geometry_reaches_kernel_witness:
  "\<exists>s'. apply_spec_ioctl False (sample_outside\<lparr>o_set_instances := (\<lambda>_. ioctl_set_instances sample_hot)\<rparr>) ''1x2''
        (sample_site\<lparr>st_world := sample_world\<lparr>w_kernel := sample_kernel []\<rparr>\<rparr>) = (Inr (), s') \<and>
     geometry (k_hosts (w_kernel (st_world s')) ! 0) = library_segment sample_db 1"
proof -
  let ?out = "sample_outside\<lparr>o_set_instances := (\<lambda>_. ioctl_set_instances sample_hot)\<rparr>"
    and ?s = "sample_site\<lparr>st_world := sample_world\<lparr>w_kernel := sample_kernel []\<rparr>\<rparr>"
  have spec: "instances_spec sample_db = Inr ''1x2''" by code_simp
  have "fst (ioctl_set_instances sample_hot ''1x2'' (sample_kernel [])) = None" by code_simp
  then obtain k where set: "ioctl_set_instances sample_hot ''1x2'' (sample_kernel []) = (None, k)" by (metis prod.collapse)
  then obtain s' where run: "apply_spec_ioctl False ?out ''1x2'' ?s = (Inr (), s')"
    by (simp add: apply_spec_ioctl_def thenp_def bindp_def checkp_run emit_def on_kernel_def on_world_def on_part_def
        VTL_INST_SPEC_MAX_def sample_kernel_def modify_def)
  have index: "library_kernel_instance_index sample_db 1 = Inr 0"
    "1 \<in> set (take VTL_KERNEL_MAX_ONLINE_LIBRARIES (online_lib_ids sample_db))" by code_simp+
  from catalogue_geometry_reaches_kernel [OF spec run, of sample_hot 1 0] index run show ?thesis
    by (simp add: sample_kernel_def)
qed

end
