(* ===== verification/TapeDrive.thy ===== *)
theory TapeDrive
  imports KernelGeom
begin

text \<open>
  The data path of the kernel module (\<^verbatim>\<open>vtl_tape.c\<close>): a tape is a file with a capacity and a
  position, a drive is its flags and the sense data of its last error. The operations act on a drive
  and the tape in it. Locks are not modelled: each operation runs as a whole. Time stamps are left
  out. What the file system does is a parameter: a read or a write may fail, and a write may take
  fewer bytes than it is given.
\<close>

section \<open>State\<close>

record sense_data =
  s_key :: nat
  s_asc :: nat
  s_ascq :: nat

definition no_sense :: sense_data where
  "no_sense = \<lparr>s_key = 0, s_asc = 0, s_ascq = 0\<rparr>"

record vtl_tape =
  tp_content :: content
  tp_position :: int
  tp_protected :: bool
  tp_barcode :: string
  tp_capacity :: nat
  tp_used :: nat
  tp_read :: nat
  tp_written :: nat
  tp_mounts :: nat

record vtl_drive =
  dr_block :: nat
  dr_filemark :: bool
  dr_end :: bool
  dr_bot :: bool
  dr_sense :: sense_data

definition VTL_MIN_BLOCK_SIZE :: nat where "VTL_MIN_BLOCK_SIZE = 512"
definition VTL_MAX_BLOCK_SIZE :: nat where "VTL_MAX_BLOCK_SIZE = 1048576"
definition VTL_DEFAULT_BLOCK_SIZE :: nat where "VTL_DEFAULT_BLOCK_SIZE = 32768"

text \<open>C's conversions between \<open>loff_t\<close>, \<open>u64\<close> and \<open>u32\<close>.\<close>

definition u64 :: "int \<Rightarrow> nat" where
  "u64 i = nat (i mod 2 ^ 64)"

definition u32 :: "int \<Rightarrow> nat" where
  "u32 i = nat (i mod 2 ^ 32)"

section \<open>The file\<close>

record vfs =
  vf_read :: "nat \<Rightarrow> nat \<Rightarrow> errno option"
  vf_write :: "nat \<Rightarrow> nat \<Rightarrow> errno + nat"

definition kernel_read :: "vfs \<Rightarrow> content \<Rightarrow> nat \<Rightarrow> nat \<Rightarrow> errno + nat list" where
  "kernel_read v c pos n =
     (case vf_read v pos n of Some e \<Rightarrow> Inl e | None \<Rightarrow> Inr (map (cbyte c) [pos..<min (pos + n) (clen c)]))"

definition overwrite :: "nat \<Rightarrow> nat list \<Rightarrow> content \<Rightarrow> content" where
  "overwrite pos bs c =
     (if bs = [] then c
      else \<lparr>clen = max (clen c) (pos + length bs),
            cbyte = (\<lambda>i. if pos \<le> i \<and> i < pos + length bs then bs ! (i - pos) else if i < clen c then cbyte c i else 0)\<rparr>)"

definition kernel_write :: "vfs \<Rightarrow> content \<Rightarrow> nat \<Rightarrow> nat list \<Rightarrow> errno + nat \<times> content" where
  "kernel_write v c pos bs =
     (case vf_write v pos (length bs) of
        Inl e \<Rightarrow> Inl e
      | Inr n \<Rightarrow> let m = min n (length bs) in Inr (m, overwrite pos (take m bs) c))"

section \<open>The operations on a loaded tape\<close>

type_synonym loaded = "vtl_drive \<times> vtl_tape"

text \<open>\<open>vtl_tape_read\<close>: the bytes that it puts into the buffer; \<open>actual\<close> is their number.\<close>

definition vtl_tape_read :: "vfs \<Rightarrow> nat \<Rightarrow> loaded \<Rightarrow> (errno + nat list) \<times> loaded" where
  "vtl_tape_read v n dt =
     (let (d, t) = dt; pos = tp_position t
      in if dr_filemark d then (Inr [], d\<lparr>dr_filemark := False\<rparr>, t)
         else if tp_capacity t \<le> u64 pos then (Inr [], d\<lparr>dr_end := True\<rparr>, t)
         else let n1 = (if tp_capacity t < u64 (pos + int n) then u32 (int (tp_capacity t) - pos) else n)
         in case kernel_read v (tp_content t) (nat pos) n1 of
              Inl e \<Rightarrow> (Inl EIO, d, t)
            | Inr bs \<Rightarrow>
                let pos1 = pos + int (length bs)
                in (Inr bs, d\<lparr>dr_bot := (pos1 = 0), dr_end := (tp_capacity t \<le> u64 pos1)\<rparr>,
                    t\<lparr>tp_position := pos1, tp_read := (tp_read t + length bs) mod 2 ^ 64\<rparr>))"

definition vtl_tape_write :: "vfs \<Rightarrow> nat list \<Rightarrow> loaded \<Rightarrow> (errno + unit) \<times> loaded" where
  "vtl_tape_write v bs dt =
     (let (d, t) = dt; pos = tp_position t
      in if tp_protected t then (Inl EROFS, d, t)
         else let n = (if tp_capacity t < u64 (pos + int (length bs)) then u32 (int (tp_capacity t) - pos) else length bs)
         in case kernel_write v (tp_content t) (nat pos) (take n bs) of
              Inl e \<Rightarrow> (Inl EIO, d, t)
            | Inr (m, c) \<Rightarrow>
                let pos1 = pos + int m
                in (Inr (), d\<lparr>dr_bot := (pos1 = 0), dr_end := False, dr_filemark := False\<rparr>,
                    t\<lparr>tp_content := c, tp_position := pos1, tp_used := (if tp_used t < u64 pos1 then u64 pos1 else tp_used t),
                      tp_written := (tp_written t + m) mod 2 ^ 64\<rparr>))"

text \<open>The product of the count and the block size has 32 bits without a sign.\<close>

definition space_to :: "int \<Rightarrow> int \<Rightarrow> loaded \<Rightarrow> vtl_drive \<times> int" where
  "space_to code cnt dt =
     (let (d, t) = dt; step = int (u32 (cnt * int (dr_block d)))
      in if code = 0 then (d, tp_position t + step)
         else if code = 1 then (d, tp_position t - step)
         else if code = 2 then (d\<lparr>dr_end := True\<rparr>, int (tp_capacity t))
         else if code = 3 then (d\<lparr>dr_bot := True\<rparr>, 0)
         else if code = 4 then (d\<lparr>dr_filemark := True\<rparr>, tp_position t)
         else (d, tp_position t))"

definition vtl_tape_space :: "int \<Rightarrow> int \<Rightarrow> loaded \<Rightarrow> loaded" where
  "vtl_tape_space code cnt dt =
     (let (d, pos) = space_to code cnt dt; t = snd dt;
          pos1 = (if pos < 0 then 0 else pos);
          pos2 = (if tp_capacity t < u64 pos1 then int (tp_capacity t) else pos1)
      in (d, t\<lparr>tp_position := pos2\<rparr>))"

definition vtl_tape_write_filemarks :: "loaded \<Rightarrow> (errno + unit) \<times> loaded" where
  "vtl_tape_write_filemarks dt =
     (let (d, t) = dt in if tp_protected t then (Inl EROFS, d, t) else (Inr (), d\<lparr>dr_filemark := True\<rparr>, t))"

definition vtl_tape_rewind :: "loaded \<Rightarrow> loaded" where
  "vtl_tape_rewind dt =
     (let (d, t) = dt in (d\<lparr>dr_bot := True, dr_end := False, dr_filemark := False\<rparr>, t\<lparr>tp_position := 0\<rparr>))"

section \<open>Where the tape is\<close>

text \<open>A tape that the position does not leave; \<open>VTL_MAX_TAPE_SIZE\<close> is the largest capacity.\<close>

definition VTL_MAX_TAPE_SIZE :: nat where "VTL_MAX_TAPE_SIZE = 10995116277760"

definition tape_ok :: "vtl_tape \<Rightarrow> bool" where
  "tape_ok t \<longleftrightarrow> tp_capacity t \<le> VTL_MAX_TAPE_SIZE \<and> 0 \<le> tp_position t \<and> tp_position t \<le> int (tp_capacity t) \<and>
     tp_used t \<le> tp_capacity t"

lemma u64_small [simp]: "u64 (int n) = n mod 2 ^ 64"
  by (simp add: u64_def nat_mod_distrib)

lemma u64_id: "0 \<le> i \<Longrightarrow> i < 2 ^ 64 \<Longrightarrow> u64 i = nat i"
  by (simp add: u64_def)

lemma u32_id: "0 \<le> i \<Longrightarrow> i < 2 ^ 32 \<Longrightarrow> u32 i = nat i"
  by (simp add: u32_def)

lemma u32_less: "u32 i < 2 ^ 32"
proof -
  have "i mod 2 ^ 32 < 2 ^ 32" by simp
  then show ?thesis by (simp add: u32_def nat_less_iff)
qed

text \<open>The part of a transfer that transfer_fits on the tape.\<close>

lemma transfer_fits:
  assumes "tape_ok t" "n < 2 ^ 32"
  shows "(if tp_capacity t < u64 (tp_position t + int n) then u32 (int (tp_capacity t) - tp_position t) else n) =
    min n (tp_capacity t - nat (tp_position t))"
proof -
  have "tp_position t + int n < 2 ^ 64" using assms by (simp add: tape_ok_def VTL_MAX_TAPE_SIZE_def)
  then have u: "u64 (tp_position t + int n) = nat (tp_position t) + n"
    using assms(1) by (simp add: u64_id tape_ok_def nat_add_distrib)
  show ?thesis
  proof (cases "tp_capacity t < nat (tp_position t) + n")
    case True
    have "int (tp_capacity t) - tp_position t < int n" using True assms(1) by (auto simp: tape_ok_def)
    moreover have "int n < 2 ^ 32" using assms(2) by simp
    ultimately have "int (tp_capacity t) - tp_position t < 2 ^ 32" by (rule less_trans)
    then have "u32 (int (tp_capacity t) - tp_position t) = tp_capacity t - nat (tp_position t)"
      using assms(1) by (simp add: u32_id tape_ok_def nat_diff_distrib)
    with True u show ?thesis by simp
  qed (use u in auto)
qed

lemma at_capacity:
  assumes "tape_ok t" "0 \<le> i" "i \<le> int (tp_capacity t)"
  shows "u64 i = nat i"
  using assms by (intro u64_id) (auto simp: tape_ok_def VTL_MAX_TAPE_SIZE_def)

lemma length_kernel_read: "kernel_read v c pos n = Inr bs \<Longrightarrow> length bs \<le> n"
  by (auto simp: kernel_read_def split: option.splits)

lemma kernel_write_count: "kernel_write v c pos bs = Inr (m, c') \<Longrightarrow> m \<le> length bs \<and> c' = overwrite pos (take m bs) c"
  by (auto simp: kernel_write_def Let_def split: sum.splits)

lemma read_ok:
  assumes "vtl_tape_read v n (d, t) = (r, d', t')" "tape_ok t" "n < 2 ^ 32"
  shows "tape_ok t' \<and> tp_content t' = tp_content t"
proof -
  note small = transfer_fits [OF assms(2,3)]
  show ?thesis
    using assms(1,2) unfolding vtl_tape_read_def Let_def prod.case small
    by (auto simp: tape_ok_def split: if_splits sum.splits dest!: sym [of "Inr _"] length_kernel_read)
qed

lemma write_ok:
  assumes "vtl_tape_write v bs (d, t) = (r, d', t')" "tape_ok t" "length bs < 2 ^ 32"
  shows "tape_ok t'"
proof (cases r)
  case (Inr u)
  note small = transfer_fits [OF assms(2,3)]
  let ?n = "min (length bs) (tp_capacity t - nat (tp_position t))"
  from assms(1) Inr obtain m c where w: "kernel_write v (tp_content t) (nat (tp_position t)) (take ?n bs) = Inr (m, c)"
    and t': "t' = t\<lparr>tp_content := c, tp_position := tp_position t + int m,
      tp_used := (if tp_used t < u64 (tp_position t + int m) then u64 (tp_position t + int m) else tp_used t),
      tp_written := (tp_written t + m) mod 2 ^ 64\<rparr>"
    unfolding vtl_tape_write_def Let_def prod.case small by (auto split: if_splits sum.splits)
  from kernel_write_count [OF w] have "m \<le> tp_capacity t - nat (tp_position t)" by simp
  then have p: "0 \<le> tp_position t + int m \<and> tp_position t + int m \<le> int (tp_capacity t)"
    using assms(2) by (auto simp: tape_ok_def)
  with at_capacity [OF assms(2), of "tp_position t + int m"] have "u64 (tp_position t + int m) \<le> tp_capacity t" by auto
  with p t' assms(2) show ?thesis by (simp add: tape_ok_def)
next
  case (Inl e)
  with assms(1,2) show ?thesis
    by (auto simp: vtl_tape_write_def Let_def split: if_splits sum.splits)
qed

lemma space_ok:
  assumes "tape_ok t"
  shows "tape_ok (snd (vtl_tape_space code cnt (d, t)))"
proof -
  obtain d1 p where p: "space_to code cnt (d, t) = (d1, p)" by fastforce
  have "int (u32 (cnt * int (dr_block d))) < 4294967296" using u32_less [of "cnt * int (dr_block d)"] by simp
  moreover have "tp_position t \<le> 10995116277760" "int (tp_capacity t) \<le> 10995116277760"
    using assms by (auto simp: tape_ok_def VTL_MAX_TAPE_SIZE_def)
  ultimately have "p < 2 ^ 64"
    using p by (auto simp: space_to_def Let_def split: if_splits)
  then show ?thesis
    using assms u64_id [of p] p by (auto simp: vtl_tape_space_def tape_ok_def)
qed

lemma filemarks_ok: "tape_ok t \<Longrightarrow> tape_ok (snd (snd (vtl_tape_write_filemarks (d, t))))"
  by (simp add: vtl_tape_write_filemarks_def)

lemma rewind_ok: "tape_ok t \<Longrightarrow> tape_ok (snd (vtl_tape_rewind (d, t)))"
  by (simp add: vtl_tape_rewind_def tape_ok_def)

section \<open>The contract of a sequential medium\<close>

text \<open>
  What the readers and writers of a tape rely on: a position that a write and a read move by what they
  transfer, a write that changes exactly the bytes under it, and a way back to the start. Every step
  gives an answer.
\<close>

fun runs :: "('a \<Rightarrow> 's \<Rightarrow> 'r \<times> 's) \<Rightarrow> 'a list \<Rightarrow> 's \<Rightarrow> 'r list \<times> 's" where
  "runs f [] s = ([], s)"
| "runs f (x # xs) s = (case f x s of (r, s1) \<Rightarrow> case runs f xs s1 of (rs, s2) \<Rightarrow> (r # rs, s2))"

lemma overwrite_append: "overwrite (p + length a) b (overwrite p a c) = overwrite p (a @ b) c"
  by (auto simp: overwrite_def fun_eq_iff nth_append not_less less_diff_conv2 add.assoc)

lemma overwrite_read: "map (cbyte (overwrite p bs c)) [p..<p + length bs] = bs"
  by (rule nth_equalityI) (auto simp: overwrite_def)

lemma overwrite_length: "length bs \<le> clen (overwrite 0 bs c)"
  by (simp add: overwrite_def)

lemma overwrite_Nil [simp]: "overwrite p [] c = c"
  by (simp add: overwrite_def)

locale sequential_medium =
  fixes at :: "nat \<Rightarrow> content \<Rightarrow> 's \<Rightarrow> bool"
    and put :: "nat list \<Rightarrow> 's \<Rightarrow> 'r \<times> 's"
    and get :: "nat list \<Rightarrow> 's \<Rightarrow> 'r \<times> 's"
    and rewind :: "'s \<Rightarrow> 'r \<times> 's"
    and result :: "nat list \<Rightarrow> 'r"
    and ok :: "nat list \<Rightarrow> bool"
    and cap :: nat
  assumes rewind_at: "at p c s \<Longrightarrow> \<exists>s'. rewind s = (result [], s') \<and> at 0 c s'"
    and put_at: "at p c s \<Longrightarrow> ok w \<Longrightarrow> p + length w \<le> cap \<Longrightarrow>
      \<exists>s'. put w s = (result [], s') \<and> at (p + length w) (overwrite p w c) s'"
    and get_at: "at p c s \<Longrightarrow> ok w \<Longrightarrow> p + length w \<le> cap \<Longrightarrow> p + length w \<le> clen c \<Longrightarrow>
      \<exists>s'. get w s = (result (map (cbyte c) [p..<p + length w]), s') \<and> at (p + length w) c s'"
begin

lemma puts:
  assumes "at p c s" "\<forall>w \<in> set ws. ok w" "p + length (concat ws) \<le> cap"
  shows "\<exists>s'. runs put ws s = (map (\<lambda>_. result []) ws, s') \<and> at (p + length (concat ws)) (overwrite p (concat ws) c) s'"
  using assms
proof (induction ws arbitrary: p c s)
  case (Cons w ws)
  obtain s1 where s1: "put w s = (result [], s1)" "at (p + length w) (overwrite p w c) s1"
    using put_at [of p c s w] Cons.prems by auto
  from Cons.IH [OF s1(2)] Cons.prems
  obtain s2 where "runs put ws s1 = (map (\<lambda>_. result []) ws, s2)"
      "at (p + length w + length (concat ws)) (overwrite (p + length w) (concat ws) (overwrite p w c)) s2"
    by (auto simp: add.assoc)
  with s1 show ?case by (simp add: overwrite_append add.assoc)
qed simp

lemma gets:
  assumes "at p c s" "\<forall>w \<in> set ws. ok w" "p + length (concat ws) \<le> cap" "p + length (concat ws) \<le> clen c"
    and "map (cbyte c) [p..<p + length (concat ws)] = concat ws"
  shows "\<exists>s'. runs get ws s = (map result ws, s') \<and> at (p + length (concat ws)) c s'"
  using assms
proof (induction ws arbitrary: p s)
  case (Cons w ws)
  have "map (cbyte c) [p..<p + length w] @ map (cbyte c) [p + length w..<p + length w + length (concat ws)] = w @ concat ws"
    using Cons.prems(5) upt_add_eq_append [of p "p + length w" "length (concat ws)"]
    by (simp add: add.assoc flip: map_append)
  then have parts: "map (cbyte c) [p..<p + length w] = w" "map (cbyte c) [p + length w..<p + length w + length (concat ws)] = concat ws"
    by (simp_all add: append_eq_append_conv)
  obtain s1 where s1: "get w s = (result w, s1)" "at (p + length w) c s1"
    using get_at [of p c s w] Cons.prems parts(1) by auto
  from Cons.IH [OF s1(2)] Cons.prems parts(2)
  obtain s2 where "runs get ws s1 = (map result ws, s2)" "at (p + length w + length (concat ws)) c s2"
    by (auto simp: add.assoc)
  with s1 show ?case by (simp add: add.assoc)
qed simp

lemma written_is_read:
  assumes "at p c s" "\<forall>w \<in> set ws. ok w" "length (concat ws) \<le> cap"
  obtains s1 s2 s3 s4 where "rewind s = (result [], s1)" "runs put ws s1 = (map (\<lambda>_. result []) ws, s2)"
    "rewind s2 = (result [], s3)" "runs get ws s3 = (map result ws, s4)"
proof -
  let ?c = "overwrite 0 (concat ws) c"
  obtain s1 where s1: "rewind s = (result [], s1)" "at 0 c s1" using rewind_at [OF assms(1)] by blast
  obtain s2 where s2: "runs put ws s1 = (map (\<lambda>_. result []) ws, s2)" "at (length (concat ws)) ?c s2"
    using puts [OF s1(2) assms(2)] assms(3) by auto
  obtain s3 where s3: "rewind s2 = (result [], s3)" "at 0 ?c s3" using rewind_at [OF s2(2)] by blast
  have "length (concat ws) \<le> clen ?c" by (rule overwrite_length)
  then obtain s4 where "runs get ws s3 = (map result ws, s4)"
    using gets [OF s3(2) assms(2)] assms(3) overwrite_read [of 0 "concat ws" c] by auto
  with s1(1) s2(1) s3(1) show ?thesis by (rule that)
qed

end

end
