(* ===== verification/ElementStatus.thy ===== *)
theory ElementStatus
  imports TapeDrive
begin

text \<open>
  READ ELEMENT STATUS (\<^verbatim>\<open>vtl_changer_read_element_status\<close> in \<^verbatim>\<open>vtl_tape.c\<close>): the answer is built in a
  buffer of the kernel, which is modelled as memory that goes on behind the buffer, so that a write
  outside of it shows. A specification says which list of bytes the answer is; the lemmas show that
  the routine puts exactly this list there, that its second pass over the buffer counts the
  descriptors, and how far behind the answer it writes: a volume tag has 36 bytes in the standard and
  the routine writes 32 bytes of it from byte 12 of a descriptor of 32 bytes, so the last 12 of them lie
  behind the descriptor.
\<close>

section \<open>Memory\<close>

type_synonym memory = "nat \<Rightarrow> nat"

definition poke :: "nat \<Rightarrow> nat list \<Rightarrow> memory \<Rightarrow> memory" where
  "poke a bs m = (\<lambda>i. if a \<le> i \<and> i < a + length bs then bs ! (i - a) else m i)"

definition peek :: "memory \<Rightarrow> nat \<Rightarrow> nat \<Rightarrow> nat list" where
  "peek m a n = map m [a..<a + n]"

definition be16 :: "nat \<Rightarrow> nat list" where
  "be16 v = [v div 256 mod 256, v mod 256]"

definition be32 :: "nat \<Rightarrow> nat list" where
  "be32 v = [v div 16777216 mod 256, v div 65536 mod 256, v div 256 mod 256, v mod 256]"

definition be16_at :: "memory \<Rightarrow> nat \<Rightarrow> nat" where
  "be16_at m a = 256 * m a + m (a + 1)"

definition be32_at :: "memory \<Rightarrow> nat \<Rightarrow> nat" where
  "be32_at m a = 16777216 * m a + 65536 * m (a + 1) + 256 * m (a + 2) + m (a + 3)"

section \<open>The routine\<close>

definition VTL_SMC_ELEM_ST :: nat where "VTL_SMC_ELEM_ST = 2"
definition VTL_SMC_ELEM_IE :: nat where "VTL_SMC_ELEM_IE = 3"
definition VTL_SMC_ELEM_DT :: nat where "VTL_SMC_ELEM_DT = 4"

lemmas smc_types = VTL_SMC_ELEM_ST_def VTL_SMC_ELEM_IE_def VTL_SMC_ELEM_DT_def

definition vtl_elem_type_wanted :: "nat \<Rightarrow> nat \<Rightarrow> bool" where
  "vtl_elem_type_wanted flt ty = (if flt = 0 \<or> 4 < flt then True else flt = ty)"

definition vtl_elem_in_range :: "nat \<Rightarrow> nat \<Rightarrow> nat \<Rightarrow> bool" where
  "vtl_elem_in_range addr start num = (if num = 0 then True else start \<le> addr \<and> addr < start + num)"

definition desc_len :: "bool \<Rightarrow> nat" where
  "desc_len voltag = (if voltag then 32 else 12)"

definition volume_tag :: "string \<Rightarrow> nat list" where
  "volume_tag b = map of_char (take 32 b) @ replicate (32 - length b) 32"

definition vtl_elem_status_desc ::
    "nat \<Rightarrow> nat \<Rightarrow> nat \<Rightarrow> nat \<Rightarrow> bool \<Rightarrow> string \<Rightarrow> bool \<Rightarrow> memory \<Rightarrow> nat \<times> memory" where
  "vtl_elem_status_desc p buf_left ty addr full bc voltag m =
     (let dlen = desc_len voltag
      in if buf_left < dlen then (0, m)
         else let m1 = poke p (be16 addr @ [if full then 1 else 0, 32 * (ty mod 8)] @ replicate (dlen - 4) 0) m
         in (dlen, if voltag \<and> full \<and> bc \<noteq> [] then poke (p + 12) (volume_tag bc) m1 else m1))"

text \<open>The loop over the elements of one type, with the address of each and the tape in it.\<close>

definition elements_of :: "changer \<Rightarrow> nat \<Rightarrow> (nat \<times> string option) list" where
  "elements_of ch ty =
     (if ty = VTL_SMC_ELEM_ST then enumerate 0 (ch_slots ch)
      else if ty = VTL_SMC_ELEM_DT then enumerate (nat VTL_ELEM_DRIVE_BASE) (ch_drives ch)
      else if ty = VTL_SMC_ELEM_IE then enumerate (nat VTL_ELEM_IE_BASE) (ch_mail ch)
      else [])"

definition barcode_in :: "(string \<Rightarrow> string) \<Rightarrow> string option \<Rightarrow> string" where
  "barcode_in bc x = (case x of None \<Rightarrow> [] | Some t \<Rightarrow> bc t)"

fun desc_loop ::
    "(string \<Rightarrow> string) \<Rightarrow> nat \<Rightarrow> nat \<Rightarrow> nat \<Rightarrow> bool \<Rightarrow> nat \<Rightarrow> nat \<Rightarrow> (nat \<times> string option) list \<Rightarrow> nat \<Rightarrow> memory
      \<Rightarrow> nat \<times> memory" where
  "desc_loop bc desc left ty voltag start num [] db m = (db, m)"
| "desc_loop bc desc left ty voltag start num ((addr, x) # es) db m =
     (if \<not> vtl_elem_in_range addr start num then desc_loop bc desc left ty voltag start num es db m
      else if left < 8 + db + desc_len voltag then (db, m)
      else let (n, m1) = vtl_elem_status_desc (desc + db) (left - 8 - db) ty addr (x \<noteq> None) (barcode_in bc x) voltag m
      in if n = 0 then (db, m1) else desc_loop bc desc left ty voltag start num es (db + n) m1)"

definition page_header :: "nat \<Rightarrow> bool \<Rightarrow> nat \<Rightarrow> nat list" where
  "page_header ty voltag db = [ty mod 8, if voltag then 128 else 0] @ be16 (desc_len voltag) @ be32 db"

definition vtl_append_elem_status_page ::
    "changer \<Rightarrow> (string \<Rightarrow> string) \<Rightarrow> nat \<Rightarrow> nat \<Rightarrow> nat \<Rightarrow> bool \<Rightarrow> nat \<Rightarrow> nat \<Rightarrow> nat \<Rightarrow> memory \<Rightarrow> nat \<times> memory" where
  "vtl_append_elem_status_page ch bc p left ty voltag start num flt m =
     (if \<not> vtl_elem_type_wanted flt ty then (0, m)
      else if left < 8 then (0, m)
      else let (db, m1) = desc_loop bc (p + 8) left ty voltag start num (elements_of ch ty) 0 m
      in (8 + db, poke p (page_header ty voltag db) m1))"

text \<open>The second pass, which counts the descriptors that the first has written.\<close>

function count_descs :: "memory \<Rightarrow> nat \<Rightarrow> nat \<Rightarrow> nat \<Rightarrow> nat \<Rightarrow> nat \<Rightarrow> nat \<Rightarrow> nat \<times> nat \<times> nat" where
  "count_descs pages dlen dend plen off first cnt =
     (if 0 < dlen \<and> off + dlen \<le> dend \<and> off + dlen \<le> plen
      then count_descs pages dlen dend plen (off + dlen)
             (if first = 65535 then be16_at pages off else first) ((cnt + 1) mod 65536)
      else (off, first, cnt))"
  by pat_completeness auto
termination by (relation "measure (\<lambda>(pages, dlen, dend, plen, off, first, cnt). plen - off)") auto

declare count_descs.simps [simp del]

lemma count_descs_forward: "off \<le> fst (count_descs pages dlen dend plen off first cnt)"
proof (induction pages dlen dend plen off first cnt rule: count_descs.induct)
  case (1 pages dlen dend plen off first cnt)
  then show ?case
    by (subst count_descs.simps) (auto intro: order_trans [OF le_add1])
qed

function count_pages :: "memory \<Rightarrow> nat \<Rightarrow> nat \<Rightarrow> nat \<Rightarrow> nat \<Rightarrow> nat \<times> nat" where
  "count_pages pages plen off first cnt =
     (if off + 8 \<le> plen then
        (let dbytes = be32_at pages (off + 4); dlen = be16_at pages (off + 2)
         in if dlen = 0 then count_pages pages plen (off + 8 + dbytes) first cnt
            else let r = count_descs pages dlen (off + 8 + dbytes) plen (off + 8) first cnt
                 in count_pages pages plen (fst r) (fst (snd r)) (snd (snd r)))
      else (first, cnt))"
  by pat_completeness auto
termination
proof (relation "measure (\<lambda>(pages, plen, off, first, cnt). plen - off)", goal_cases)
  case (3 pages plen off first cnt x xa xb)
  then show ?case
    using count_descs_forward [of "off + 8" pages xa "off + 8 + x" plen first cnt]
    by (simp add: case_prod_beta)
qed auto

declare count_pages.simps [simp del]

definition vtl_res_count_descriptors :: "memory \<Rightarrow> nat \<Rightarrow> nat \<times> nat" where
  "vtl_res_count_descriptors pages plen =
     (let (first, cnt) = count_pages pages plen 0 65535 0 in (if first = 65535 then 0 else first, cnt))"

definition data_header :: "nat \<Rightarrow> nat \<Rightarrow> nat \<Rightarrow> nat list" where
  "data_header plen first cnt = be16 first @ be16 cnt @ [0, plen div 65536 mod 256, plen div 256 mod 256, plen mod 256]"

text \<open>The memory starts with the buffer; the result is the number of bytes of the answer.\<close>

definition vtl_changer_read_element_status ::
    "changer \<Rightarrow> (string \<Rightarrow> string) \<Rightarrow> nat \<Rightarrow> bool \<Rightarrow> nat \<Rightarrow> nat \<Rightarrow> nat \<Rightarrow> memory \<Rightarrow> (errno + nat) \<times> memory" where
  "vtl_changer_read_element_status ch bc len voltag flt start num m =
     (if len < 8 then (Inl EINVAL, m)
      else let (n1, m1) = vtl_append_elem_status_page ch bc 8 (len - 8) VTL_SMC_ELEM_ST voltag start num flt m;
               (n2, m2) = vtl_append_elem_status_page ch bc (8 + n1) (len - 8 - n1) VTL_SMC_ELEM_DT voltag start num flt m1;
               (n3, m3) = vtl_append_elem_status_page ch bc (8 + n1 + n2) (len - 8 - (n1 + n2)) VTL_SMC_ELEM_IE voltag start num flt m2;
               plen = n1 + n2 + n3;
               (first, cnt) = vtl_res_count_descriptors (\<lambda>i. m3 (8 + i)) plen
           in (Inr (min (8 + plen) len), poke 0 (data_header plen first cnt) m3))"

section \<open>The answer as a list\<close>

definition descriptor :: "(string \<Rightarrow> string) \<Rightarrow> nat \<Rightarrow> bool \<Rightarrow> nat \<times> string option \<Rightarrow> nat list" where
  "descriptor bc ty voltag e =
     (let (addr, x) = e; b = barcode_in bc x
      in be16 addr @ [if x \<noteq> None then 1 else 0, 32 * (ty mod 8)] @ replicate 8 0 @
         (if voltag then (if x \<noteq> None \<and> b \<noteq> [] then take 20 (volume_tag b) else replicate 20 0) else []))"

text \<open>The elements that are asked for and for which there is room.\<close>

definition reported :: "changer \<Rightarrow> nat \<Rightarrow> bool \<Rightarrow> nat \<Rightarrow> nat \<Rightarrow> nat \<Rightarrow> (nat \<times> string option) list" where
  "reported ch ty voltag start num left =
     take ((left - 8) div desc_len voltag) (filter (\<lambda>(addr, x). vtl_elem_in_range addr start num) (elements_of ch ty))"

definition status_page :: "(string \<Rightarrow> string) \<Rightarrow> nat \<Rightarrow> bool \<Rightarrow> (nat \<times> string option) list \<Rightarrow> nat list" where
  "status_page bc ty voltag es =
     page_header ty voltag (desc_len voltag * length es) @ concat (map (descriptor bc ty voltag) es)"

section \<open>Memory lemmas\<close>

lemma length_peek [simp]: "length (peek m a n) = n"
  by (simp add: peek_def)

lemma length_be [simp]: "length (be16 v) = 2" "length (be32 v) = 4"
  by (simp_all add: be16_def be32_def)

lemma length_volume_tag [simp]: "length (volume_tag b) = 32"
  by (simp add: volume_tag_def)

lemma length_page_header [simp]: "length (page_header ty voltag db) = 8"
  by (simp add: page_header_def)

lemma length_data_header [simp]: "length (data_header plen first cnt) = 8"
  by (simp add: data_header_def)

lemma length_descriptor [simp]: "length (descriptor bc ty voltag e) = desc_len voltag"
  by (auto simp: descriptor_def desc_len_def Let_def split: prod.splits)

lemma desc_len_pos [simp]: "0 < desc_len voltag"
  by (simp add: desc_len_def)

lemma desc_len_nonzero [simp]: "desc_len voltag \<noteq> 0"
  by (simp add: desc_len_def)

lemma poke_outside: "i < a \<or> a + length bs \<le> i \<Longrightarrow> poke a bs m i = m i"
  by (auto simp: poke_def)

lemma poke_inside: "i < length bs \<Longrightarrow> poke a bs m (a + i) = bs ! i"
  by (simp add: poke_def)

lemma peek_eqI: "length bs = n \<Longrightarrow> (\<And>i. i < n \<Longrightarrow> m (a + i) = bs ! i) \<Longrightarrow> peek m a n = bs"
  by (intro nth_equalityI) (simp_all add: peek_def)

lemma peek_append: "peek m a (n + k) = peek m a n @ peek m (a + n) k"
  using upt_add_eq_append [of a "a + n" k] by (simp add: peek_def add.assoc flip: map_append)

lemma peek_cong: "(\<And>i. a \<le> i \<Longrightarrow> i < a + n \<Longrightarrow> m i = m' i) \<Longrightarrow> peek m a n = peek m' a n"
  by (simp add: peek_def)

lemma peek_poke_same [simp]: "peek (poke a bs m) a (length bs) = bs"
  by (rule peek_eqI) (simp_all add: poke_inside)

lemma peek_poke_other: "a + n \<le> b \<or> b + length bs \<le> a \<Longrightarrow> peek (poke b bs m) a n = peek m a n"
  by (rule peek_cong) (auto intro!: poke_outside)

section \<open>One descriptor\<close>

lemma status_desc_writes:
  assumes "desc_len voltag \<le> buf_left"
    and r_def: "r = vtl_elem_status_desc p buf_left ty addr (x \<noteq> None) (barcode_in bc x) voltag m"
  shows "fst r = desc_len voltag \<and> peek (snd r) p (desc_len voltag) = descriptor bc ty voltag (addr, x) \<and>
    (\<forall>i. i < p \<or> p + desc_len voltag + (if voltag then 12 else 0) \<le> i \<longrightarrow> snd r i = m i)"
proof -
  define hdr where "hdr = be16 addr @ [if x \<noteq> None then 1 else 0, 32 * (ty mod 8)] @ replicate (desc_len voltag - 4) 0"
  let ?b = "barcode_in bc x"
  have h: "length hdr = desc_len voltag" by (simp add: hdr_def desc_len_def)
  show ?thesis
  proof (cases "voltag \<and> x \<noteq> None \<and> ?b \<noteq> []")
    case True
    then have len: "length hdr = 32" "length (take 12 hdr) = 12" using h by (simp_all add: desc_len_def)
    have r: "r = (32, poke (p + 12) (volume_tag ?b) (poke p hdr m))"
      using True assms(1) by (simp add: r_def vtl_elem_status_desc_def desc_len_def Let_def hdr_def)
    have "peek (snd r) p (12 + 20) = take 12 hdr @ take 20 (volume_tag ?b)"
    proof (rule peek_eqI)
      show "length (take 12 hdr @ take 20 (volume_tag ?b)) = 12 + 20" using len by simp
    next
      fix i assume i: "i < (12 + 20 :: nat)"
      show "snd r (p + i) = (take 12 hdr @ take 20 (volume_tag ?b)) ! i"
      proof (cases "i < 12")
        case True
        then have "snd r (p + i) = poke p hdr m (p + i)" unfolding r by (simp add: poke_outside)
        also have "\<dots> = hdr ! i" using True len by (intro poke_inside) simp
        finally show ?thesis using True len by (simp add: nth_append)
      next
        case False
        then have "snd r (p + i) = volume_tag ?b ! (i - 12)"
          unfolding r using i poke_inside [of "i - 12" "volume_tag ?b" "p + 12" "poke p hdr m"] by simp
        with False i len show ?thesis by (simp add: nth_append)
      qed
    qed
    moreover have "take 12 hdr @ take 20 (volume_tag ?b) = descriptor bc ty voltag (addr, x)"
      using True by (simp add: hdr_def descriptor_def desc_len_def)
    ultimately show ?thesis
      using True len by (auto simp: r desc_len_def poke_outside)
  next
    case False
    then have r: "r = (desc_len voltag, poke p hdr m)"
      using assms(1) by (auto simp: r_def vtl_elem_status_desc_def Let_def hdr_def)
    have "hdr = descriptor bc ty voltag (addr, x)"
      using False by (auto simp: hdr_def descriptor_def desc_len_def Let_def simp flip: replicate_add)
    then show ?thesis
      using peek_poke_same [of p hdr m] h by (auto simp: r poke_outside)
  qed
qed

section \<open>One page\<close>

definition spill :: "bool \<Rightarrow> nat" where
  "spill voltag = (if voltag then 12 else 0)"

lemma room_step: "\<not> left < 8 + db + dl \<Longrightarrow> 0 < dl \<Longrightarrow> (left - 8 - db) div dl = Suc ((left - 8 - (db + dl)) div (dl::nat))"
  using le_div_geq [of dl "left - 8 - db"] by (simp add: add.assoc)

lemma desc_loop_writes:
  assumes "r = desc_loop bc desc left ty voltag start num es db m"
    and "ds = take ((left - 8 - db) div desc_len voltag) (filter (\<lambda>(addr, x). vtl_elem_in_range addr start num) es)"
  shows "fst r = db + desc_len voltag * length ds \<and>
    peek (snd r) (desc + db) (desc_len voltag * length ds) = concat (map (descriptor bc ty voltag) ds) \<and>
    (\<forall>i. i < desc + db \<or> desc + fst r + spill voltag \<le> i \<longrightarrow> snd r i = m i)"
  using assms
proof (induction es arbitrary: db m ds r)
  case Nil
  then show ?case by (simp add: peek_def)
next
  case (Cons e es)
  obtain addr x where e: "e = (addr, x)" by fastforce
  let ?dl = "desc_len voltag"
  show ?case
  proof (cases "vtl_elem_in_range addr start num")
    case False
    with Cons.prems e Cons.IH [OF refl refl, of db m] show ?thesis by simp
  next
    case ranged: True
    show ?thesis
    proof (cases "left < 8 + db + ?dl")
      case True
      then have "left - 8 - db < ?dl" using desc_len_pos [of voltag] by arith
      then have "(left - 8 - db) div ?dl = 0" by (rule div_less)
      with Cons.prems e ranged True show ?thesis by (simp add: peek_def)
    next
      case False
      then have room: "?dl \<le> left - 8 - db" by simp
      obtain n m1 where w: "vtl_elem_status_desc (desc + db) (left - 8 - db) ty addr (x \<noteq> None) (barcode_in bc x) voltag m = (n, m1)"
        by fastforce
      from status_desc_writes [OF room refl, of "desc + db" ty addr x bc m] w
      have n: "n = ?dl" and d: "peek m1 (desc + db) ?dl = descriptor bc ty voltag (addr, x)"
        and o: "\<forall>i. i < desc + db \<or> desc + db + ?dl + spill voltag \<le> i \<longrightarrow> m1 i = m i"
        by (simp_all add: spill_def)
      let ?ds = "take ((left - 8 - (db + ?dl)) div ?dl) (filter (\<lambda>(addr, x). vtl_elem_in_range addr start num) es)"
      let ?r = "desc_loop bc desc left ty voltag start num es (db + ?dl) m1"
      have r: "r = ?r" using Cons.prems(1) e ranged False w n by simp
      have ds: "ds = (addr, x) # ?ds"
        using Cons.prems(2) e ranged room_step [OF False desc_len_pos] by simp
      note IH = Cons.IH [OF refl refl, of "db + ?dl" m1]
      have "peek (snd r) (desc + db) ?dl = peek m1 (desc + db) ?dl"
        using IH r by (intro peek_cong) (simp add: add.assoc)
      then have "peek (snd r) (desc + db) (?dl + ?dl * length ?ds) = concat (map (descriptor bc ty voltag) ds)"
        using IH r d ds by (simp add: peek_append add.assoc)
      moreover have "snd r i = m i" if "i < desc + db \<or> desc + fst r + spill voltag \<le> i" for i
        using IH o that r by (auto simp: add.assoc)
      ultimately show ?thesis using IH r ds by (simp add: add.assoc)
    qed
  qed
qed

lemma append_page_writes:
  assumes "r = vtl_append_elem_status_page ch bc p left ty voltag start num flt m"
    and "b = (if vtl_elem_type_wanted flt ty \<and> 8 \<le> left then status_page bc ty voltag (reported ch ty voltag start num left) else [])"
  shows "fst r = length b \<and> peek (snd r) p (length b) = b \<and> length b \<le> left \<and>
    (\<forall>i. i < p \<or> p + length b + spill voltag \<le> i \<longrightarrow> snd r i = m i)"
proof (cases "vtl_elem_type_wanted flt ty \<and> 8 \<le> left")
  case True
  let ?es = "reported ch ty voltag start num left"
  let ?dl = "desc_len voltag"
  obtain db m1 where l: "desc_loop bc (p + 8) left ty voltag start num (elements_of ch ty) 0 m = (db, m1)" by fastforce
  have es: "?es = take ((left - 8 - 0) div ?dl) (filter (\<lambda>(addr, x). vtl_elem_in_range addr start num) (elements_of ch ty))"
    by (simp add: reported_def)
  note loop = desc_loop_writes [OF refl es, of bc "p + 8" ty m, unfolded l, simplified]
  have r: "r = (8 + db, poke p (page_header ty voltag db) m1)"
    using assms(1) True l by (simp add: vtl_append_elem_status_page_def)
  have b: "b = page_header ty voltag db @ concat (map (descriptor bc ty voltag) ?es)"
    using assms(2) True loop by (simp add: status_page_def)
  have len: "length b = 8 + db" using b loop by (simp add: length_concat comp_def sum_list_triv)
  have "db \<le> left - 8"
  proof -
    have "db \<le> ?dl * ((left - 8) div ?dl)" using loop by (simp add: reported_def)
    also have "\<dots> \<le> left - 8" by simp
    finally show ?thesis .
  qed
  moreover have "peek (snd r) p (8 + db) = b"
    using loop b unfolding r
    by (simp add: peek_append peek_poke_other) (metis length_page_header peek_poke_same)
  ultimately show ?thesis
    using loop r len True by (auto simp: poke_outside add.assoc)
next
  case False
  then show ?thesis using assms by (auto simp: vtl_append_elem_status_page_def peek_def)
qed

section \<open>The second pass\<close>

definition first_of :: "nat \<Rightarrow> nat list \<Rightarrow> nat" where
  "first_of first as = (if first = 65535 \<and> as \<noteq> [] then hd as else first)"

lemma first_of_append: "\<forall>a \<in> set as. a \<noteq> 65535 \<Longrightarrow> first_of (first_of f as) bs = first_of f (as @ bs)"
  by (cases as) (auto simp: first_of_def)

lemma be16_back: "v < 65536 \<Longrightarrow> peek m a 2 = be16 v \<Longrightarrow> be16_at m a = v"
  by (simp add: peek_def be16_def be16_at_def upt_conv_Cons)

lemma be32_back:
  assumes "v < 2 ^ 32" "peek m a 4 = be32 v"
  shows "be32_at m a = v"
proof -
  have "[a..<a + 4] = [a, a + 1, a + 2, a + 3]" by (simp add: upt_conv_Cons numeral_eq_Suc)
  then have m: "m a = v div 16777216 mod 256" "m (a + 1) = v div 65536 mod 256" "m (a + 2) = v div 256 mod 256" "m (a + 3) = v mod 256"
    using assms(2) by (simp_all add: peek_def be32_def)
  have "v div 16777216 mod 256 = v div 256 div 256 div 256"
    using assms(1) by (simp add: div_mult2_eq [symmetric] less_mult_imp_div_less)
  moreover have "v div 65536 = v div 256 div 256" by (simp add: div_mult2_eq [symmetric])
  ultimately have "256 * (256 * (256 * (v div 16777216 mod 256) + v div 65536 mod 256) + v div 256 mod 256) + v mod 256 = v"
    by simp
  then show ?thesis using m by (simp add: be32_at_def algebra_simps)
qed

lemma peek_take: "peek m a n = bs \<Longrightarrow> k \<le> n \<Longrightarrow> peek m a k = take k bs"
  by (auto simp: peek_def take_map)

lemma peek_drop: "peek m a n = bs \<Longrightarrow> k \<le> n \<Longrightarrow> peek m (a + k) (n - k) = drop k bs"
  by (auto simp: peek_def drop_map)

lemma count_descs_all:
  assumes "peek pages off (desc_len voltag * length es) = concat (map (descriptor bc ty voltag) es)"
    and "\<forall>e \<in> set es. fst e < 65535" "off + desc_len voltag * length es \<le> plen" "cnt < 65536"
  shows "count_descs pages (desc_len voltag) (off + desc_len voltag * length es) plen off first cnt =
    (off + desc_len voltag * length es, first_of first (map fst es), (cnt + length es) mod 65536)"
  using assms
proof (induction es arbitrary: off first cnt)
  case Nil
  then show ?case by (subst count_descs.simps) (simp add: first_of_def)
next
  case (Cons e es)
  let ?dl = "desc_len voltag"
  obtain addr x where e: "e = (addr, x)" by fastforce
  have two: "take 2 (descriptor bc ty voltag e) = be16 addr" by (simp add: descriptor_def e Let_def)
  have "peek pages off 2 = take 2 (concat (map (descriptor bc ty voltag) (e # es)))"
    using Cons.prems(1) by (rule peek_take) (simp add: desc_len_def)
  also have "\<dots> = be16 addr" using two by (simp add: desc_len_def)
  finally have a: "be16_at pages off = addr" using Cons.prems(2) e by (intro be16_back) simp_all
  have rest: "peek pages (off + ?dl) (?dl * length es) = concat (map (descriptor bc ty voltag) es)"
    using peek_drop [OF Cons.prems(1), of ?dl] by simp
  have "count_descs pages ?dl (off + ?dl * length (e # es)) plen off first cnt =
      count_descs pages ?dl (off + ?dl + ?dl * length es) plen (off + ?dl) (if first = 65535 then addr else first) ((cnt + 1) mod 65536)"
    using Cons.prems(3) a by (subst count_descs.simps) (simp add: add.assoc)
  also have "\<dots> = (off + ?dl + ?dl * length es, first_of (if first = 65535 then addr else first) (map fst es),
      ((cnt + 1) mod 65536 + length es) mod 65536)"
    using Cons.prems rest by (intro Cons.IH) simp_all
  also have "first_of (if first = 65535 then addr else first) (map fst es) = first_of first (map fst (e # es))"
    using Cons.prems(2) e by (auto simp: first_of_def)
  finally show ?case by (simp add: mod_add_left_eq add.assoc)
qed

definition page_bytes :: "(string \<Rightarrow> string) \<Rightarrow> bool \<Rightarrow> (nat \<times> (nat \<times> string option) list) list \<Rightarrow> nat list" where
  "page_bytes bc voltag sel = concat (map (\<lambda>(ty, es). status_page bc ty voltag es) sel)"

lemma length_page: "length (status_page bc ty voltag es) = 8 + desc_len voltag * length es"
  by (simp add: status_page_def length_concat comp_def sum_list_triv)

lemma count_pages_all:
  assumes "peek pages off (length (page_bytes bc voltag sel)) = page_bytes bc voltag sel"
    and "\<forall>(ty, es) \<in> set sel. length es < 65536 \<and> (\<forall>e \<in> set es. fst e < 65535)" "cnt < 65536"
    and "plen = off + length (page_bytes bc voltag sel)"
  shows "count_pages pages plen off first cnt =
    (first_of first (map fst (concat (map snd sel))), (cnt + length (concat (map snd sel))) mod 65536)"
  using assms
proof (induction sel arbitrary: off first cnt)
  case Nil
  then show ?case by (subst count_pages.simps) (simp add: page_bytes_def first_of_def)
next
  case (Cons p sel)
  let ?dl = "desc_len voltag"
  obtain ty es where p: "p = (ty, es)" by fastforce
  let ?db = "?dl * length es"
  have es: "length es < 65536" "\<forall>e \<in> set es. fst e < 65535" using Cons.prems(2) p by auto
  have split: "page_bytes bc voltag (p # sel) = status_page bc ty voltag es @ page_bytes bc voltag sel"
    by (simp add: page_bytes_def p)
  have head: "peek pages off (8 + ?db) = status_page bc ty voltag es"
    using peek_take [OF Cons.prems(1), of "8 + ?db"] split length_page [of bc ty voltag es] by simp
  have tail: "peek pages (off + 8 + ?db) (length (page_bytes bc voltag sel)) = page_bytes bc voltag sel"
    using peek_drop [OF Cons.prems(1), of "8 + ?db"] split length_page [of bc ty voltag es] by (simp add: add.assoc)
  have hdr: "peek pages off 8 = page_header ty voltag ?db"
    using peek_take [OF head, of 8] by (simp add: status_page_def)
  have descs: "peek pages (off + 8) ?db = concat (map (descriptor bc ty voltag) es)"
    using peek_drop [OF head, of 8] by (simp add: status_page_def)
  have "peek pages (off + 2) (6) = be16 ?dl @ be32 ?db"
    using peek_drop [OF hdr, of 2] by (simp add: page_header_def)
  then have "peek pages (off + 2) 2 = be16 ?dl"
    using peek_take [of pages "off + 2" 6 _ 2] by simp
  moreover have "peek pages (off + 4) 4 = be32 ?db"
    using peek_drop [OF hdr, of 4] by (simp add: page_header_def)
  moreover have "?db < 2 ^ 32" using es(1) by (simp add: desc_len_def)
  ultimately have dl: "be16_at pages (off + 2) = ?dl" and db: "be32_at pages (off + 4) = ?db"
    by (simp_all add: be16_back be32_back desc_len_def)
  have plen: "off + 8 + ?db + length (page_bytes bc voltag sel) = plen"
    using Cons.prems(4) split by (simp add: length_page)
  have c: "count_descs pages ?dl (off + 8 + ?db) plen (off + 8) first cnt =
      (off + 8 + ?db, first_of first (map fst es), (cnt + length es) mod 65536)"
    using descs es(2) plen Cons.prems(3) by (intro count_descs_all) simp_all
  have "count_pages pages plen off first cnt =
      count_pages pages plen (off + 8 + ?db) (first_of first (map fst es)) ((cnt + length es) mod 65536)"
    using plen dl db c by (subst count_pages.simps) (simp add: Let_def)
  also have "\<dots> = (first_of (first_of first (map fst es)) (map fst (concat (map snd sel))),
      ((cnt + length es) mod 65536 + length (concat (map snd sel))) mod 65536)"
    using tail Cons.prems(2) plen by (intro Cons.IH) simp_all
  finally show ?case using es(2) p by (subst (asm) first_of_append) (auto simp: mod_add_left_eq add.assoc)
qed

section \<open>The answer\<close>

text \<open>The pages of an answer: each type that is wanted, as far as there is room.\<close>

fun selected ::
    "changer \<Rightarrow> bool \<Rightarrow> nat \<Rightarrow> nat \<Rightarrow> nat \<Rightarrow> nat \<Rightarrow> nat list \<Rightarrow> (nat \<times> (nat \<times> string option) list) list" where
  "selected ch voltag start num flt left [] = []"
| "selected ch voltag start num flt left (ty # tys) =
     (if vtl_elem_type_wanted flt ty \<and> 8 \<le> left
      then let es = reported ch ty voltag start num left
           in (ty, es) # selected ch voltag start num flt (left - (8 + desc_len voltag * length es)) tys
      else selected ch voltag start num flt left tys)"

definition smc_type_order :: "nat list" where
  "smc_type_order = [VTL_SMC_ELEM_ST, VTL_SMC_ELEM_DT, VTL_SMC_ELEM_IE]"

definition element_status_data :: "(string \<Rightarrow> string) \<Rightarrow> bool \<Rightarrow> (nat \<times> (nat \<times> string option) list) list \<Rightarrow> nat list" where
  "element_status_data bc voltag sel =
     (let es = concat (map snd sel)
      in data_header (length (page_bytes bc voltag sel)) (case es of [] \<Rightarrow> 0 | e # _ \<Rightarrow> fst e) (length es) @ page_bytes bc voltag sel)"

text \<open>Addresses of a changer that the module can have.\<close>

definition changer_small :: "changer \<Rightarrow> bool" where
  "changer_small ch \<longleftrightarrow> length (ch_slots ch) \<le> 256 \<and> length (ch_drives ch) \<le> 8 \<and> length (ch_mail ch) \<le> 4"

lemma set_enumerate_fst: "e \<in> set (enumerate n xs) \<Longrightarrow> fst e < n + length xs"
  by (auto simp: set_zip enumerate_eq_zip)

lemma elements_small:
  "changer_small ch \<Longrightarrow> length (elements_of ch ty) \<le> 256 \<and> (\<forall>e \<in> set (elements_of ch ty). fst e < 65535)"
  by (auto simp: elements_of_def changer_small_def element_bases dest!: set_enumerate_fst)

lemma reported_small:
  assumes "changer_small ch"
  shows "length (reported ch ty voltag start num left) \<le> 256 \<and> (\<forall>e \<in> set (reported ch ty voltag start num left). fst e < 65535)"
proof -
  let ?f = "filter (\<lambda>(addr, x). vtl_elem_in_range addr start num) (elements_of ch ty)"
  have "set (reported ch ty voltag start num left) \<subseteq> set (elements_of ch ty)"
    unfolding reported_def by (rule subset_trans [OF set_take_subset filter_is_subset])
  moreover have "length (reported ch ty voltag start num left) \<le> length (elements_of ch ty)"
    unfolding reported_def by (simp add: le_trans [OF min.cobounded1 length_filter_le])
  ultimately show ?thesis using elements_small [OF assms, of ty] by auto
qed

lemma selected_small:
  assumes "changer_small ch"
  shows "length (selected ch voltag start num flt left tys) \<le> length tys \<and>
    (\<forall>(ty, es) \<in> set (selected ch voltag start num flt left tys). length es \<le> 256 \<and> (\<forall>e \<in> set es. fst e < 65535))"
  using reported_small [OF assms]
  by (induction tys arbitrary: left) (auto simp: Let_def le_SucI)

lemma status_pages:
  assumes "vtl_append_elem_status_page ch bc p left ty voltag start num flt m = (n, m')"
  shows "page_bytes bc voltag (selected ch voltag start num flt left (ty # tys)) =
      peek m' p n @ page_bytes bc voltag (selected ch voltag start num flt (left - n) tys) \<and> n \<le> left \<and>
    (\<forall>i. i < p \<or> p + n + spill voltag \<le> i \<longrightarrow> m' i = m i)"
  using append_page_writes [OF refl refl, of ch bc p left ty voltag start num flt m] assms
  by (auto simp: page_bytes_def Let_def length_page peek_def split: if_splits)

lemma count_result:
  assumes "count_pages pages n 0 65535 0 = (first_of 65535 (map fst es), length es)" "\<forall>e \<in> set es. fst e < 65535"
  shows "vtl_res_count_descriptors pages n = (case es of [] \<Rightarrow> 0 | e # _ \<Rightarrow> fst e, length es)"
  using assms by (cases es) (auto simp: vtl_res_count_descriptors_def first_of_def)

lemma element_status_answer:
  assumes "changer_small ch" "8 \<le> len"
    and "sel = selected ch voltag start num flt (len - 8) smc_type_order" "data = element_status_data bc voltag sel"
  shows "\<exists>m'. vtl_changer_read_element_status ch bc len voltag flt start num m = (Inr (length data), m') \<and>
    length data \<le> len \<and> peek m' 0 (length data) = data \<and> (\<forall>i. length data + spill voltag \<le> i \<longrightarrow> m' i = m i)"
proof -
  obtain n1 m1 where 1: "vtl_append_elem_status_page ch bc 8 (len - 8) VTL_SMC_ELEM_ST voltag start num flt m = (n1, m1)" by fastforce
  obtain n2 m2 where 2: "vtl_append_elem_status_page ch bc (8 + n1) (len - 8 - n1) VTL_SMC_ELEM_DT voltag start num flt m1 = (n2, m2)"
    by fastforce
  obtain n3 m3 where 3: "vtl_append_elem_status_page ch bc (8 + n1 + n2) (len - 8 - (n1 + n2)) VTL_SMC_ELEM_IE voltag start num flt m2 = (n3, m3)"
    by fastforce
  let ?ps = "page_bytes bc voltag sel" and ?es = "concat (map snd sel)"
  let ?n = "n1 + n2 + n3"
  have nopage: "page_bytes bc voltag (selected ch voltag start num flt left []) = []" for left
    by (simp add: page_bytes_def)
  have "len - 8 - (n1 + n2) = len - 8 - n1 - n2" by (rule diff_diff_left [symmetric])
  note three = 3 [unfolded this]
  have ps: "?ps = peek m1 8 n1 @ peek m2 (8 + n1) n2 @ peek m3 (8 + n1 + n2) n3"
    unfolding assms(3) smc_type_order_def
    by (simp only: conjunct1 [OF status_pages [OF 1]] conjunct1 [OF status_pages [OF 2]] conjunct1 [OF status_pages [OF three]] nopage append_Nil2)
  note frames = conjunct2 [OF status_pages [OF 1]] conjunct2 [OF status_pages [OF 2]] conjunct2 [OF status_pages [OF three]]
  then have "n1 \<le> len - 8" "n2 \<le> len - 8 - n1" "n3 \<le> len - 8 - n1 - n2" by blast+
  then have le: "?n \<le> len - 8" by arith
  have "peek m1 8 n1 = peek m3 8 n1" "peek m2 (8 + n1) n2 = peek m3 (8 + n1) n2"
    using frames by (auto intro!: peek_cong)
  with ps have mem: "peek m3 8 ?n = ?ps" by (simp add: peek_append add.assoc)
  then have len: "length ?ps = ?n" by (metis length_peek)
  have small: "length sel \<le> 3" "\<forall>(ty, es) \<in> set sel. length es \<le> 256 \<and> (\<forall>e \<in> set es. fst e < 65535)"
    using selected_small [OF assms(1), of voltag start num flt "len - 8" smc_type_order] assms(3) by (auto simp: smc_type_order_def)
  have "sum_list (map (length \<circ> snd) sel) \<le> sum_list (map (\<lambda>_. 256) sel)"
    using small(2) by (intro sum_list_mono) auto
  then have few: "length ?es < 65536" using small(1) by (simp add: length_concat sum_list_triv)
  have "m3 (8 + i) = ?ps ! i" if "i < ?n" for i using that by (subst mem [symmetric]) (simp add: peek_def)
  then have whole: "peek (\<lambda>i. m3 (8 + i)) 0 (length ?ps) = ?ps" using len by (intro peek_eqI) simp_all
  have sizes: "\<forall>(ty, es) \<in> set sel. length es < 65536 \<and> (\<forall>e \<in> set es. fst e < 65535)"
    using small(2) by fastforce
  have "count_pages (\<lambda>i. m3 (8 + i)) ?n 0 65535 0 = (first_of 65535 (map fst ?es), (0 + length ?es) mod 65536)"
    by (rule count_pages_all [OF whole sizes]) (simp_all add: len)
  then have pages: "count_pages (\<lambda>i. m3 (8 + i)) ?n 0 65535 0 = (first_of 65535 (map fst ?es), length ?es)"
    using few by simp
  have "\<forall>e \<in> set ?es. fst e < 65535" using small(2) by fastforce
  note count = count_result [OF pages this]
  let ?h = "data_header ?n (case ?es of [] \<Rightarrow> 0 | e # _ \<Rightarrow> fst e) (length ?es)"
  have run: "vtl_changer_read_element_status ch bc len voltag flt start num m = (Inr (8 + ?n), poke 0 ?h m3)"
    using assms(2) 1 2 3 count le by (simp add: vtl_changer_read_element_status_def Let_def)
  have data: "data = ?h @ ?ps" using assms(4) len by (simp add: element_status_data_def Let_def)
  moreover have "peek (poke 0 ?h m3) 0 (8 + ?n) = ?h @ ?ps"
    using mem peek_poke_same [of 0 ?h m3] by (simp add: peek_append peek_poke_other)
  moreover have "poke 0 ?h m3 i = m i" if "8 + ?n + spill voltag \<le> i" for i
    using that frames by (auto simp: poke_outside)
  ultimately show ?thesis using run len le assms(2) by (intro exI [of _ "poke 0 ?h m3"]) simp
qed

section \<open>With room for everything\<close>

text \<open>The elements of an answer to a request for all of them, in a buffer that is large enough.\<close>

definition all_elements :: "changer \<Rightarrow> (nat \<times> (nat \<times> string option) list) list" where
  "all_elements ch = map (\<lambda>ty. (ty, elements_of ch ty)) smc_type_order"

definition element_count :: "changer \<Rightarrow> nat" where
  "element_count ch = length (ch_slots ch) + length (ch_drives ch) + length (ch_mail ch)"

lemma reported_all: "desc_len voltag * length (elements_of ch ty) \<le> left - 8 \<Longrightarrow> reported ch ty voltag start 0 left = elements_of ch ty"
  by (simp add: reported_def vtl_elem_in_range_def less_eq_div_iff_mult_less_eq mult.commute)

lemma selected_all:
  assumes "24 + desc_len voltag * element_count ch \<le> left"
  shows "selected ch voltag start 0 0 left smc_type_order = all_elements ch"
proof -
  let ?n = "\<lambda>ty. desc_len voltag * length (elements_of ch ty)"
  have "?n VTL_SMC_ELEM_ST + ?n VTL_SMC_ELEM_DT + ?n VTL_SMC_ELEM_IE + 24 \<le> left"
    using assms by (simp add: element_count_def elements_of_def smc_types add_mult_distrib2)
  then have "8 \<le> left \<and> ?n VTL_SMC_ELEM_ST \<le> left - 8 \<and> 8 \<le> left - (8 + ?n VTL_SMC_ELEM_ST) \<and>
      ?n VTL_SMC_ELEM_DT \<le> left - (8 + ?n VTL_SMC_ELEM_ST) - 8 \<and>
      8 \<le> left - (8 + ?n VTL_SMC_ELEM_ST) - (8 + ?n VTL_SMC_ELEM_DT) \<and>
      ?n VTL_SMC_ELEM_IE \<le> left - (8 + ?n VTL_SMC_ELEM_ST) - (8 + ?n VTL_SMC_ELEM_DT) - 8"
    by arith
  then show ?thesis
    by (simp only: all_elements_def smc_type_order_def vtl_elem_type_wanted_def selected.simps reported_all Let_def list.map
        simp_thms if_True)
qed

lemma map_filter_Nil: "List.map_filter f [] = []"
  by (simp add: List.map_filter_def)

lemma occupied_from_enumerate:
  "occupied_from (int n) xs = List.map_filter (\<lambda>(a, x). map_option (Pair (int a)) x) (enumerate n xs)"
proof (induction xs rule: rev_induct)
  case (snoc x xs)
  have "List.map_filter (\<lambda>i. map_option (Pair (int n + int i)) ((xs @ [x]) ! i)) [0..<length xs] =
      List.map_filter (\<lambda>i. map_option (Pair (int n + int i)) (xs ! i)) [0..<length xs]"
    by (auto simp: List.map_filter_def nth_append intro!: map_cong filter_cong)
  with snoc show ?case
    by (simp add: occupied_from_def enumerate_append_eq map_filter_append map_filter_Nil split: option.splits)
qed (simp add: occupied_from_def)

text \<open>The full elements of the answer are the items of the inventory ioctl.\<close>

lemma all_elements_items:
  "List.map_filter (\<lambda>(a, x). map_option (Pair (int a)) x) (concat (map snd (all_elements ch))) = all_items ch"
  using occupied_from_enumerate [of 0 "ch_slots ch"] occupied_from_enumerate [of 1000 "ch_drives ch"]
    occupied_from_enumerate [of 2000 "ch_mail ch"]
  by (simp add: all_elements_def smc_type_order_def elements_of_def smc_types all_items_def element_bases map_filter_append)

section \<open>Behind the buffer\<close>

definition VTL_ELEMENT_STATUS_BUFLEN :: nat where "VTL_ELEMENT_STATUS_BUFLEN = 8192"

lemma desc_loop_append:
  assumes "8 + db + desc_len voltag * length es \<le> left"
  shows "desc_loop bc desc left ty voltag start 0 (es @ fs) db m =
    (case desc_loop bc desc left ty voltag start 0 es db m of (db1, m1) \<Rightarrow> desc_loop bc desc left ty voltag start 0 fs db1 m1)"
  using assms
proof (induction es arbitrary: db m)
  case (Cons e es)
  obtain addr x where e: "e = (addr, x)" by fastforce
  have "\<not> left < 8 + db + desc_len voltag" "\<not> left - 8 - db < desc_len voltag"
    using Cons.prems by simp_all
  then show ?case
    using Cons.prems Cons.IH e
    by (simp add: vtl_elem_in_range_def vtl_elem_status_desc_def Let_def add.assoc)
qed simp

lemma status_desc_spills:
  assumes "32 \<le> buf_left" "b \<noteq> []" "j < 12"
  shows "snd (vtl_elem_status_desc p buf_left ty addr True b True m) (p + 32 + j) = volume_tag b ! (20 + j)"
proof -
  have "snd (vtl_elem_status_desc p buf_left ty addr True b True m) =
      poke (p + 12) (volume_tag b) (poke p (be16 addr @ [1, 32 * (ty mod 8)] @ replicate 28 0) m)"
    using assms(1,2) by (simp add: vtl_elem_status_desc_def desc_len_def)
  moreover have "poke (p + 12) (volume_tag b) m' (p + 12 + (20 + j)) = volume_tag b ! (20 + j)" for m'
    using assms(3) by (intro poke_inside) simp
  moreover have "p + 32 + j = p + 12 + (20 + j)" by simp
  ultimately show ?thesis by (simp only:)
qed

lemma last_descriptor_spills:
  assumes "8 + 32 * Suc (length es) \<le> left" "bc t \<noteq> []" "j < 12"
  shows "snd (desc_loop bc desc left ty True start 0 (es @ [(addr, Some t)]) 0 m) (desc + 32 * Suc (length es) + j) =
    volume_tag (bc t) ! (20 + j)"
proof -
  obtain db m1 where l: "desc_loop bc desc left ty True start 0 es 0 m = (db, m1)" by fastforce
  have "length es \<le> (left - 8 - 0) div desc_len True"
    using assms(1) by (simp add: desc_len_def less_eq_div_iff_mult_less_eq)
  with desc_loop_writes [OF refl refl, of bc desc left ty True start 0 es 0 m] l
  have db: "db = 32 * length es" by (simp add: vtl_elem_in_range_def desc_len_def)
  have "desc_loop bc desc left ty True start 0 (es @ [(addr, Some t)]) 0 m = desc_loop bc desc left ty True start 0 [(addr, Some t)] db m1"
    using assms(1) l by (subst desc_loop_append) (simp_all add: desc_len_def)
  also have "\<dots> = (db + 32, snd (vtl_elem_status_desc (desc + db) (left - 8 - db) ty addr True (bc t) True m1))"
  proof -
    let ?d = "vtl_elem_status_desc (desc + db) (left - 8 - db) ty addr True (bc t) True m1"
    have room: "\<not> left < 8 + db + desc_len True" "32 \<le> left - 8 - db" using assms(1) db by (simp_all add: desc_len_def)
    then have "fst ?d = 32" by (simp add: vtl_elem_status_desc_def desc_len_def Let_def)
    then obtain m2 where "?d = (32, m2)" by (cases ?d) simp
    then show ?thesis using room(1) by (simp add: vtl_elem_in_range_def barcode_in_def)
  qed
  finally have run: "snd (desc_loop bc desc left ty True start 0 (es @ [(addr, Some t)]) 0 m) =
      snd (vtl_elem_status_desc (desc + db) (left - 8 - db) ty addr True (bc t) True m1)" by simp
  have "snd (vtl_elem_status_desc (desc + db) (left - 8 - db) ty addr True (bc t) True m1) (desc + db + 32 + j) = volume_tag (bc t) ! (20 + j)"
    using assms db by (intro status_desc_spills) simp_all
  moreover have "desc + 32 * Suc (length es) + j = desc + db + 32 + j" using db by simp
  ultimately show ?thesis unfolding run by (simp only:)
qed

text \<open>
  A library with as many elements as the buffer has room for, and a labelled tape in its last drive:
  the tag of the last descriptor goes on behind the buffer.
\<close>

lemma answer_overruns_buffer:
  assumes "length (ch_slots ch) + length (ch_drives ch) = 255" "ch_mail ch = []" "length (ch_slots ch) \<le> 256"
    and "ch_drives ch = ds @ [Some t]" "bc t \<noteq> []" "j < 4"
  shows "snd (vtl_changer_read_element_status ch bc VTL_ELEMENT_STATUS_BUFLEN True 0 0 0 m) (VTL_ELEMENT_STATUS_BUFLEN + j) =
    volume_tag (bc t) ! (28 + j)"
proof -
  let ?ns = "length (ch_slots ch)" and ?nd = "length (ch_drives ch)"
  obtain n1 m1 where 1: "vtl_append_elem_status_page ch bc 8 8184 VTL_SMC_ELEM_ST True 0 0 0 m = (n1, m1)" by fastforce
  have n1: "n1 = 8 + 32 * ?ns"
    using append_page_writes [OF refl refl, of ch bc 8 8184 VTL_SMC_ELEM_ST True 0 0 0 m] 1 assms(1)
    by (simp add: vtl_elem_type_wanted_def length_page reported_all desc_len_def elements_of_def)
  obtain n2 m2 where 2: "vtl_append_elem_status_page ch bc (8 + n1) (8184 - n1) VTL_SMC_ELEM_DT True 0 0 0 m1 = (n2, m2)" by fastforce
  have n2: "n2 = 8 + 32 * ?nd"
    using append_page_writes [OF refl refl, of ch bc "8 + n1" "8184 - n1" VTL_SMC_ELEM_DT True 0 0 0 m1] 2 assms(1) n1
    by (simp add: vtl_elem_type_wanted_def length_page reported_all desc_len_def elements_of_def smc_types)
  let ?m3 = "poke 8184 (page_header VTL_SMC_ELEM_IE True 0) m2"
  have 3: "vtl_append_elem_status_page ch bc 8184 8 VTL_SMC_ELEM_IE True 0 0 0 m2 = (8, ?m3)"
    using assms(2) by (simp add: vtl_append_elem_status_page_def vtl_elem_type_wanted_def elements_of_def smc_types)
  have sum: "8184 - (n1 + n2) = 8" "8 + n1 + n2 = 8184" "min (8 + (n1 + n2 + 8)) 8192 = 8192" "n1 + n2 + 8 = 8184"
    using n1 n2 assms(1) by simp_all
  have "vtl_append_elem_status_page ch bc (8 + n1 + n2) (8184 - (n1 + n2)) VTL_SMC_ELEM_IE True 0 0 0 m2 = (8, ?m3)"
    unfolding sum by (rule 3)
  with 1 2 sum(3,4) obtain first cnt where run: "vtl_changer_read_element_status ch bc 8192 True 0 0 0 m =
      (Inr 8192, poke 0 (data_header 8184 first cnt) ?m3)"
    by (cases "vtl_res_count_descriptors (\<lambda>i. ?m3 (8 + i)) 8184") (simp add: vtl_changer_read_element_status_def Let_def)
  have tapes: "elements_of ch VTL_SMC_ELEM_DT = enumerate 1000 ds @ [(1000 + length ds, Some t)]"
    using assms(4) by (simp add: elements_of_def smc_types element_bases enumerate_append_eq)
  let ?l = "desc_loop bc (8 + n1 + 8) (8184 - n1) VTL_SMC_ELEM_DT True 0 0 (enumerate 1000 ds @ [(1000 + length ds, Some t)]) 0 m1"
  have "\<not> 8184 - n1 < 8" using n1 assms(1,4) by simp
  with 2 tapes have "m2 = poke (8 + n1) (page_header VTL_SMC_ELEM_DT True (fst ?l)) (snd ?l)"
    by (auto simp: vtl_append_elem_status_page_def vtl_elem_type_wanted_def case_prod_beta Let_def)
  then have "m2 (8192 + j) = snd ?l (8192 + j)" using n1 assms(1,4) by (simp add: poke_outside)
  also have "\<dots> = volume_tag (bc t) ! (20 + (8 + j))"
  proof -
    have "8192 + j = 8 + n1 + 8 + 32 * Suc (length (enumerate 1000 ds)) + (8 + j)" using n1 assms(1,4) by simp
    then show ?thesis
      using n1 assms by (simp only:) (intro last_descriptor_spills, simp_all)
  qed
  finally have "m2 (8192 + j) = volume_tag (bc t) ! (28 + j)" by simp
  then show ?thesis using run by (simp add: VTL_ELEMENT_STATUS_BUFLEN_def poke_outside)
qed

end
