(* ===== verification/ScsiCommands.thy ===== *)
theory ScsiCommands
  imports ElementStatus
begin

text \<open>
  The SCSI commands that the kernel module answers (\<^verbatim>\<open>vtl_scsi.c\<close>, with the strings of
  \<^verbatim>\<open>vtl_personality.c\<close>): the dispatcher \<open>vtl_scsi_queuecommand\<close> and its handlers, for the medium changer
  on LUN 0 and the drives on the following LUNs. A command comes with its CDB, the data of the
  initiator and the size of the buffer that the initiator gives for the answer. The mid layer's
  \<open>scsi_sg_copy_from_buffer\<close> and \<open>scsi_sg_copy_to_buffer\<close> copy as much as both sides have; bytes of a CDB behind its
  length are zero. Whether memory can be allocated, what the file system does and what fresh memory
  holds are parameters.
\<close>

section \<open>Commands, hosts and answers\<close>

record scsi_cmnd =
  sc_channel :: nat
  sc_id :: nat
  sc_lun :: nat
  sc_cdb :: "8 word list"
  sc_out :: "nat list"
  sc_room :: nat

definition cdb :: "scsi_cmnd \<Rightarrow> nat \<Rightarrow> nat" where
  "cdb c i = (if i < length (sc_cdb c) then unat (sc_cdb c ! i) else 0)"

definition cdb_bit :: "scsi_cmnd \<Rightarrow> nat \<Rightarrow> nat \<Rightarrow> bool" where
  "cdb_bit c i k = odd (cdb c i div 2 ^ k)"

definition cdb16 :: "scsi_cmnd \<Rightarrow> nat \<Rightarrow> nat" where
  "cdb16 c i = 256 * cdb c i + cdb c (i + 1)"

definition cdb24 :: "scsi_cmnd \<Rightarrow> nat \<Rightarrow> nat" where
  "cdb24 c i = 65536 * cdb c i + 256 * cdb c (i + 1) + cdb c (i + 2)"

definition cdb32 :: "scsi_cmnd \<Rightarrow> nat \<Rightarrow> nat" where
  "cdb32 c i = 16777216 * cdb c i + 65536 * cdb c (i + 1) + 256 * cdb c (i + 2) + cdb c (i + 3)"

abbreviation cmd_len :: "scsi_cmnd \<Rightarrow> nat" where
  "cmd_len c \<equiv> length (sc_cdb c)"

record vtl_host =
  sh_changer :: changer
  sh_drives :: "vtl_drive list"
  sh_tapes :: "string \<Rightarrow> vtl_tape"
  sh_sense :: sense_data

record scsi_env =
  se_alloc :: "nat \<Rightarrow> bool"
  se_vfs :: vfs
  se_heap :: nat
  se_host_no :: nat
  se_personality :: int
  se_reconfig :: bool

record answer =
  an_check :: bool
  an_data :: "nat list"
  an_resid :: nat
  an_sense :: "sense_data option"

abbreviation num_drives :: "vtl_host \<Rightarrow> nat" where
  "num_drives h \<equiv> length (ch_drives (sh_changer h))"

section \<open>Sense data\<close>

definition NOT_READY :: nat where "NOT_READY = 2"
definition MEDIUM_ERROR :: nat where "MEDIUM_ERROR = 3"
definition HARDWARE_ERROR :: nat where "HARDWARE_ERROR = 4"
definition ILLEGAL_REQUEST :: nat where "ILLEGAL_REQUEST = 5"
definition DATA_PROTECT :: nat where "DATA_PROTECT = 7"
definition ABORTED_COMMAND :: nat where "ABORTED_COMMAND = 11"

definition sense :: "nat \<Rightarrow> nat \<Rightarrow> sense_data" where
  "sense key asc = \<lparr>s_key = key, s_asc = asc, s_ascq = 0\<rparr>"

definition vtl_sense_of :: "nat \<Rightarrow> vtl_host \<Rightarrow> sense_data" where
  "vtl_sense_of lun h = (if lun = 0 \<or> num_drives h < lun then sh_sense h else dr_sense (sh_drives h ! (lun - 1)))"

definition put_sense :: "nat \<Rightarrow> sense_data \<Rightarrow> vtl_host \<Rightarrow> vtl_host" where
  "put_sense lun s h =
     (if lun = 0 \<or> num_drives h < lun then h\<lparr>sh_sense := s\<rparr>
      else h\<lparr>sh_drives := (sh_drives h)[lun - 1 := (sh_drives h ! (lun - 1))\<lparr>dr_sense := s\<rparr>]\<rparr>)"

text \<open>CHECK CONDITION, with the sense data kept in the unit and sent along.\<close>

definition check :: "nat \<Rightarrow> sense_data \<Rightarrow> vtl_host \<Rightarrow> answer \<times> vtl_host" where
  "check lun s h = (\<lparr>an_check = True, an_data = [], an_resid = 0, an_sense = Some s\<rparr>, put_sense lun s h)"

definition good :: "vtl_host \<Rightarrow> answer \<times> vtl_host" where
  "good h = (\<lparr>an_check = False, an_data = [], an_resid = 0, an_sense = None\<rparr>, h)"

definition vtl_scsi_copy_to_sg :: "scsi_cmnd \<Rightarrow> nat list \<Rightarrow> vtl_host \<Rightarrow> answer \<times> vtl_host" where
  "vtl_scsi_copy_to_sg c buf h =
     (\<lparr>an_check = False, an_data = take (sc_room c) buf, an_resid = length buf - sc_room c, an_sense = None\<rparr>, h)"

definition vtl_cmd_illegal :: "nat \<Rightarrow> vtl_host \<Rightarrow> answer \<times> vtl_host" where
  "vtl_cmd_illegal lun = check lun (sense ILLEGAL_REQUEST 0x20)"

definition vtl_cmd_lun_not_supported :: "vtl_host \<Rightarrow> answer \<times> vtl_host" where
  "vtl_cmd_lun_not_supported = check 0 (sense ILLEGAL_REQUEST 0x25)"

definition vtl_scsi_staging_oom :: "nat \<Rightarrow> vtl_host \<Rightarrow> answer \<times> vtl_host" where
  "vtl_scsi_staging_oom lun = check lun (sense HARDWARE_ERROR 0)"

text \<open>\<open>vtl_set_cmd_result\<close>: \<open>DID_OK\<close> is 0 and \<open>SAM_STAT_CHECK_CONDITION\<close> is 2.\<close>

definition DRIVER_SENSE :: nat where "DRIVER_SENSE = 8"
definition SAM_STAT_CHECK_CONDITION :: nat where "SAM_STAT_CHECK_CONDITION = 2"

definition vtl_set_cmd_result :: "bool \<Rightarrow> nat" where
  "vtl_set_cmd_result chk = (if chk then DRIVER_SENSE * 256 + SAM_STAT_CHECK_CONDITION * 2 else 0)"

section \<open>Buffers\<close>

definition VTL_XFER_BUF_MAX :: nat where "VTL_XFER_BUF_MAX = 67108864"

definition vtl_xfer_buf_alloc :: "scsi_env \<Rightarrow> nat \<Rightarrow> bool" where
  "vtl_xfer_buf_alloc e n = (if n = 0 \<or> VTL_XFER_BUF_MAX < n then False else se_alloc e n)"

definition with_buffer :: "scsi_env \<Rightarrow> nat \<Rightarrow> nat \<Rightarrow> (vtl_host \<Rightarrow> answer \<times> vtl_host) \<Rightarrow> vtl_host \<Rightarrow> answer \<times> vtl_host" where
  "with_buffer e lun n k h = (if vtl_xfer_buf_alloc e n then k h else vtl_scsi_staging_oom lun h)"

definition zeros_to :: "nat \<Rightarrow> nat list \<Rightarrow> nat list" where
  "zeros_to n bs = take n bs @ replicate (n - length bs) 0"

section \<open>INQUIRY\<close>

record vtl_personality =
  vp_vendor :: string
  vp_changer :: string
  vp_tape :: string
  vp_revision :: string

definition vtl_personality_table :: "vtl_personality list" where
  "vtl_personality_table =
     [\<lparr>vp_vendor = ''VTL     '', vp_changer = ''VTL CHANGER     '', vp_tape = ''VTL TAPE DRV    '', vp_revision = ''1.00''\<rparr>,
      \<lparr>vp_vendor = ''IBM     '', vp_changer = ''03584L32 A00    '', vp_tape = ''ULT3580-TD8     '', vp_revision = ''0106''\<rparr>,
      \<lparr>vp_vendor = ''STK     '', vp_changer = ''L700            '', vp_tape = ''T10000B         '', vp_revision = ''0105''\<rparr>,
      \<lparr>vp_vendor = ''HP      '', vp_changer = ''MSL6480         '', vp_tape = ''Ultrium 5-SCSI  '', vp_revision = ''0105''\<rparr>]"

definition vtl_personality_lookup :: "int \<Rightarrow> vtl_personality" where
  "vtl_personality_lookup i = vtl_personality_table ! (if i < 0 \<or> 4 \<le> i then 0 else nat i)"

definition bytes_of :: "string \<Rightarrow> nat list" where
  "bytes_of s = map of_char s"

definition vtl_inquiry_alloc_len :: "scsi_cmnd \<Rightarrow> nat" where
  "vtl_inquiry_alloc_len c = (if 10 \<le> cmd_len c then cdb16 c 3 else cdb c 4)"

definition evpd_page :: "scsi_env \<Rightarrow> nat \<Rightarrow> nat \<Rightarrow> nat list option" where
  "evpd_page e lun pg =
     (let ptype = (if lun = 0 then 8 else 1)
      in if pg = 0 then Some [ptype, 0, 0, 3, 0, 0x80, 0x83]
         else if pg = 0x80 then
           (let serial = take 20 (''VTL'' @ pad_zero 5 (show_nat (se_host_no e)) @ ''L'' @ pad_zero 2 (show_nat lun))
            in Some ([ptype, 0x80, 0, length serial] @ bytes_of serial))
         else if pg = 0x83 then
           Some ([ptype, 0x83, 0, 12, 1, 0, 0, 8] @ bytes_of (take 8 (''VTL'' @ pad_zero 5 (show_nat lun))))
         else None)"

definition vtl_handle_inquiry_evpd :: "scsi_env \<Rightarrow> scsi_cmnd \<Rightarrow> vtl_host \<Rightarrow> answer \<times> vtl_host" where
  "vtl_handle_inquiry_evpd e c =
     with_buffer e (sc_lun c) 512 (\<lambda>h.
       case evpd_page e (sc_lun c) (cdb c 2) of
         None \<Rightarrow> vtl_cmd_illegal (sc_lun c) h
       | Some buf \<Rightarrow> vtl_scsi_copy_to_sg c (take (min (vtl_inquiry_alloc_len c) 512) buf) h)"

definition inquiry_data :: "vtl_personality \<Rightarrow> nat \<Rightarrow> nat list" where
  "inquiry_data p lun =
     zeros_to 252 ([if lun = 0 then 8 else 1, 0x80, 2, 2, 31, 0, 0, 0] @ bytes_of (vp_vendor p) @
       bytes_of (if lun = 0 then vp_changer p else vp_tape p) @ bytes_of (vp_revision p))"

definition vtl_handle_inquiry :: "scsi_env \<Rightarrow> scsi_cmnd \<Rightarrow> vtl_host \<Rightarrow> answer \<times> vtl_host" where
  "vtl_handle_inquiry e c h =
     (if cdb_bit c 1 1 then vtl_cmd_illegal (sc_lun c) h
      else if cdb_bit c 1 0 then vtl_handle_inquiry_evpd e c h
      else with_buffer e (sc_lun c) 252
        (vtl_scsi_copy_to_sg c (take (min (vtl_inquiry_alloc_len c) 252)
           (inquiry_data (vtl_personality_lookup (se_personality e)) (sc_lun c)))) h)"

section \<open>The small handlers\<close>

definition vtl_handle_test_unit_ready :: "scsi_cmnd \<Rightarrow> vtl_host \<Rightarrow> answer \<times> vtl_host" where
  "vtl_handle_test_unit_ready c h =
     (if sc_lun c = 0 then good h
      else if num_drives h < sc_lun c then vtl_cmd_lun_not_supported h
      else good h)"

text \<open>The first 14 of the 96 bytes of a sense buffer; the others are zero.\<close>

definition vtl_build_sense_buffer :: "sense_data \<Rightarrow> nat list" where
  "vtl_build_sense_buffer s = zeros_to 96 [0x70, 0, s_key s, 0, 0, 0, 0, 10, 0, 0, 0, 0, s_asc s, s_ascq s]"

definition vtl_handle_request_sense :: "scsi_env \<Rightarrow> scsi_cmnd \<Rightarrow> vtl_host \<Rightarrow> answer \<times> vtl_host" where
  "vtl_handle_request_sense e c =
     with_buffer e (sc_lun c) 252 (\<lambda>h.
       let n = min (min (if cdb c 4 \<noteq> 0 then cdb c 4 else 252) 252) 96
       in vtl_scsi_copy_to_sg c (take n (vtl_build_sense_buffer (vtl_sense_of (sc_lun c) h))) h)"

text \<open>The last of the six bytes is not written.\<close>

definition vtl_handle_read_block_limits :: "scsi_env \<Rightarrow> scsi_cmnd \<Rightarrow> vtl_host \<Rightarrow> answer \<times> vtl_host" where
  "vtl_handle_read_block_limits e c =
     with_buffer e (sc_lun c) 6
       (vtl_scsi_copy_to_sg c
         [VTL_MAX_BLOCK_SIZE div 65536 mod 256, VTL_MAX_BLOCK_SIZE div 256 mod 256, VTL_MAX_BLOCK_SIZE mod 256,
          VTL_MIN_BLOCK_SIZE div 256 mod 256, VTL_MIN_BLOCK_SIZE mod 256, se_heap e])"

definition element_address_page :: "changer \<Rightarrow> nat list" where
  "element_address_page ch =
     [0x1d, 16] @ be16 0 @ be16 0 @ be16 0 @ be16 (length (ch_slots ch)) @ be16 (nat VTL_ELEM_IE_BASE) @
     be16 (length (ch_mail ch)) @ be16 (nat VTL_ELEM_DRIVE_BASE) @ be16 (length (ch_drives ch))"

definition transport_geometry_page :: "nat list" where
  "transport_geometry_page = [0x1e, 6, 1, 0, 0, 0, 0, 0]"

text \<open>The buffer has 255 bytes, so every page fits.\<close>

definition vtl_changer_mode_sense_fill :: "changer \<Rightarrow> nat \<Rightarrow> bool \<Rightarrow> nat list" where
  "vtl_changer_mode_sense_fill ch pg sense10 =
     (let hdr = (if sense10 then 8 else 4);
          body = (if pg = 0 then [0, 4, 0, 1, 0x1d, 0x1e]
                  else if pg = 0x1d then element_address_page ch
                  else if pg = 0x1e then transport_geometry_page
                  else if pg = 0x3f then element_address_page ch @ transport_geometry_page
                  else []);
          off = hdr + length body
      in (if sense10 then be16 (off - 2) else [(off - 1) mod 256, 0]) @ replicate (hdr - 2) 0 @ body)"

definition vtl_handle_mode_sense :: "scsi_env \<Rightarrow> scsi_cmnd \<Rightarrow> vtl_host \<Rightarrow> answer \<times> vtl_host" where
  "vtl_handle_mode_sense e c =
     with_buffer e (sc_lun c) 255 (\<lambda>h.
       let lun = sc_lun c; six = (cdb c 0 = 0x1a);
           alloc = min (if six then cdb c 4 else cdb16 c 7) 255;
           here = (1 \<le> lun \<and> lun \<le> num_drives h);
           block = (if here then dr_block (sh_drives h ! (lun - 1)) else VTL_DEFAULT_BLOCK_SIZE);
           wp = (if here then (case ch_drives (sh_changer h) ! (lun - 1) of
                                 Some t \<Rightarrow> if tp_protected (sh_tapes h t) then 0x80 else 0 | None \<Rightarrow> 0) else 0);
           size3 = [block div 65536 mod 256, block div 256 mod 256, block mod 256];
           buf = (if lun = 0 then vtl_changer_mode_sense_fill (sh_changer h) (cdb c 2 mod 64) (cdb c 0 = 0x5a)
                  else if six then [11, 0, wp, 8, 0, 0, 0, 0, 0] @ size3
                  else [0, 14, 0, wp, 0, 0, 8, 0, 0, 0, 0, 0, 0] @ size3)
       in vtl_scsi_copy_to_sg c (take alloc buf) h)"

section \<open>Reading and writing\<close>

abbreviation "READ_6 \<equiv> 0x08"
abbreviation "WRITE_6 \<equiv> 0x0a"
abbreviation "READ_10 \<equiv> 0x28"
abbreviation "WRITE_10 \<equiv> 0x2a"
abbreviation "READ_12 \<equiv> 0xa8"
abbreviation "WRITE_12 \<equiv> 0xaa"

definition vtl_parse_rw_blocks :: "scsi_cmnd \<Rightarrow> nat \<Rightarrow> vtl_drive \<Rightarrow> nat \<times> nat" where
  "vtl_parse_rw_blocks c op d =
     (if op = READ_6 \<or> op = WRITE_6 then (if cdb c 5 \<noteq> 0 then cdb c 5 else 256, dr_block d)
      else if op = READ_10 \<or> op = WRITE_10 then
        (if cdb_bit c 1 1 then (1, cdb24 c 6) else (cdb16 c 7, dr_block d))
      else if op = READ_12 \<or> op = WRITE_12 then
        (if cdb_bit c 1 1 then (1, cdb32 c 6) else (cdb32 c 6, dr_block d))
      else (0, dr_block d))"

definition vtl_rw_prepare_xfer :: "nat \<Rightarrow> nat \<Rightarrow> sense_data option" where
  "vtl_rw_prepare_xfer blocks block_len =
     (if blocks = 0 \<or> block_len = 0 then Some (sense ILLEGAL_REQUEST 0x24)
      else if VTL_MAX_BLOCK_SIZE < block_len \<or> block_len < VTL_MIN_BLOCK_SIZE then Some (sense ILLEGAL_REQUEST 0x24)
      else if VTL_XFER_BUF_MAX < blocks * block_len then Some (sense ILLEGAL_REQUEST 0x24)
      else None)"

text \<open>The tape in the drive of a LUN, and the state after an operation on the two.\<close>

definition loaded_in :: "nat \<Rightarrow> vtl_host \<Rightarrow> string option" where
  "loaded_in lun h = ch_drives (sh_changer h) ! (lun - 1)"

definition loaded_pair :: "nat \<Rightarrow> string \<Rightarrow> vtl_host \<Rightarrow> loaded" where
  "loaded_pair lun t h = (sh_drives h ! (lun - 1), sh_tapes h t)"

definition put_loaded :: "nat \<Rightarrow> string \<Rightarrow> loaded \<Rightarrow> vtl_host \<Rightarrow> vtl_host" where
  "put_loaded lun t dt h = h\<lparr>sh_drives := (sh_drives h)[lun - 1 := fst dt], sh_tapes := (sh_tapes h)(t := snd dt)\<rparr>"

definition with_medium :: "nat \<Rightarrow> (string \<Rightarrow> vtl_host \<Rightarrow> answer \<times> vtl_host) \<Rightarrow> vtl_host \<Rightarrow> answer \<times> vtl_host" where
  "with_medium lun k h =
     (case loaded_in lun h of None \<Rightarrow> check lun (sense NOT_READY 0x3a) h | Some t \<Rightarrow> k t h)"

definition vtl_handle_read :: "scsi_env \<Rightarrow> scsi_cmnd \<Rightarrow> nat \<Rightarrow> vtl_host \<Rightarrow> answer \<times> vtl_host" where
  "vtl_handle_read e c op =
     (let lun = sc_lun c in with_medium lun (\<lambda>t h.
        let (blocks, block_len) = vtl_parse_rw_blocks c op (sh_drives h ! (lun - 1))
        in case vtl_rw_prepare_xfer blocks block_len of
             Some s \<Rightarrow> check lun s h
           | None \<Rightarrow> with_buffer e lun (blocks * block_len) (\<lambda>h.
               let (r, dt) = vtl_tape_read (se_vfs e) (blocks * block_len) (loaded_pair lun t h); h1 = put_loaded lun t dt h
               in case r of
                    Inl x \<Rightarrow> check lun (sense MEDIUM_ERROR 0x11) h1
                  | Inr bs \<Rightarrow> vtl_scsi_copy_to_sg c bs h1) h))"

definition vtl_handle_write :: "scsi_env \<Rightarrow> scsi_cmnd \<Rightarrow> nat \<Rightarrow> vtl_host \<Rightarrow> answer \<times> vtl_host" where
  "vtl_handle_write e c op =
     (let lun = sc_lun c in with_medium lun (\<lambda>t h.
        if tp_protected (sh_tapes h t) then check lun (sense DATA_PROTECT 0x27) h
        else let (blocks, block_len) = vtl_parse_rw_blocks c op (sh_drives h ! (lun - 1)); n = blocks * block_len
        in case vtl_rw_prepare_xfer blocks block_len of
             Some s \<Rightarrow> check lun s h
           | None \<Rightarrow> with_buffer e lun n (\<lambda>h.
               if length (sc_out c) < n then check lun (sense ABORTED_COMMAND 0) h
               else let (r, dt) = vtl_tape_write (se_vfs e) (take n (sc_out c)) (loaded_pair lun t h); h1 = put_loaded lun t dt h
               in case r of
                    Inl x \<Rightarrow> check lun (sense MEDIUM_ERROR 3) h1
                  | Inr u \<Rightarrow> good h1) h))"

definition vtl_handle_rewind :: "scsi_cmnd \<Rightarrow> vtl_host \<Rightarrow> answer \<times> vtl_host" where
  "vtl_handle_rewind c =
     (let lun = sc_lun c in with_medium lun (\<lambda>t h. good (put_loaded lun t (vtl_tape_rewind (loaded_pair lun t h)) h)))"

definition vtl_handle_space :: "scsi_cmnd \<Rightarrow> vtl_host \<Rightarrow> answer \<times> vtl_host" where
  "vtl_handle_space c =
     (let lun = sc_lun c in with_medium lun (\<lambda>t h.
        good (put_loaded lun t (vtl_tape_space (int (cdb c 1 mod 8)) (wrap_i32 (int (cdb32 c 2))) (loaded_pair lun t h)) h)))"

definition vtl_handle_write_filemarks :: "scsi_cmnd \<Rightarrow> vtl_host \<Rightarrow> answer \<times> vtl_host" where
  "vtl_handle_write_filemarks c =
     (let lun = sc_lun c in with_medium lun (\<lambda>t h.
        good (put_loaded lun t (snd (vtl_tape_write_filemarks (loaded_pair lun t h))) h)))"

text \<open>\<open>vtl_tape_unload\<close>: the drive forgets the tape, which is put nowhere else.\<close>

definition vtl_tape_unload :: "nat \<Rightarrow> vtl_host \<Rightarrow> vtl_host" where
  "vtl_tape_unload lun h = h\<lparr>sh_changer := elem_put (EDrive (lun - 1)) None (sh_changer h)\<rparr>"

definition vtl_handle_load_unload :: "scsi_cmnd \<Rightarrow> vtl_host \<Rightarrow> answer \<times> vtl_host" where
  "vtl_handle_load_unload c h =
     (let lun = sc_lun c
      in if cdb_bit c 4 0 then with_medium lun (\<lambda>t. good) h
         else good (if loaded_in lun h \<noteq> None then vtl_tape_unload lun h else h))"

definition be64 :: "nat \<Rightarrow> nat list" where
  "be64 v = be32 (v div 4294967296) @ be32 v"

definition vtl_log_sense_alloc_len :: "scsi_cmnd \<Rightarrow> nat" where
  "vtl_log_sense_alloc_len c = (if 10 \<le> cmd_len c then cdb16 c 7 else if 6 \<le> cmd_len c then cdb c 4 else 0)"

text \<open>
  The pages are written into a buffer of at most as many bytes as are asked for; only as many are
  sent. (A page that is longer than the buffer is written over its end.)
\<close>

definition vtl_handle_log_sense :: "scsi_env \<Rightarrow> scsi_cmnd \<Rightarrow> vtl_host \<Rightarrow> answer \<times> vtl_host" where
  "vtl_handle_log_sense e c h =
     (let lun = sc_lun c; pg = cdb c 2 mod 64; alloc = vtl_log_sense_alloc_len c; z = min alloc 512
      in if alloc = 0 then good h
         else if pg = 0x11 \<and> loaded_in lun h = None then check lun (sense NOT_READY 0x3a) h
         else with_buffer e lun z (\<lambda>h.
           if pg = 0 then vtl_scsi_copy_to_sg c (take z [0, 0, 0, 2, 0, 0x11]) h
           else if pg = 0x11 then
             (let t = sh_tapes h (the (loaded_in lun h))
              in vtl_scsi_copy_to_sg c (take z ([0x11, 0, 0, 16] @ be64 (tp_read t) @ be64 (tp_written t))) h)
           else check lun (sense ILLEGAL_REQUEST 0x24) h) h)"

definition vtl_handle_read_position :: "scsi_env \<Rightarrow> scsi_cmnd \<Rightarrow> vtl_host \<Rightarrow> answer \<times> vtl_host" where
  "vtl_handle_read_position e c h =
     (let lun = sc_lun c; alloc = (if 10 \<le> cmd_len c then cdb16 c 7 else cdb c 4)
      in if cdb c 1 mod 32 \<notin> {0, 1} then check lun (sense ILLEGAL_REQUEST 0x24) h
         else if alloc < 20 then check lun (sense ILLEGAL_REQUEST 0x24) h
         else with_buffer e lun 20 (\<lambda>h.
           vtl_scsi_copy_to_sg c
             (case loaded_in lun h of
                None \<Rightarrow> [0x80, 0x10] @ replicate 18 0
              | Some t \<Rightarrow>
                  (let d = sh_drives h ! (lun - 1)
                   in [0x80, (if dr_bot d then 0x80 else 0) + (if dr_end d then 0x40 else 0) + (if dr_filemark d then 0x20 else 0), 0, 0] @
                      be64 (u64 (tp_position (sh_tapes h t))) @ replicate 8 0)) h) h)"

section \<open>The changer's handlers\<close>

definition vtl_handle_move_medium :: "scsi_cmnd \<Rightarrow> vtl_host \<Rightarrow> answer \<times> vtl_host" where
  "vtl_handle_move_medium c h =
     (case move_medium (int (cdb16 c 2)) (int (cdb16 c 4)) (sh_changer h) of
        (Some x, ch) \<Rightarrow> check 0 (sense ILLEGAL_REQUEST 0x21) (h\<lparr>sh_changer := ch\<rparr>)
      | (None, ch) \<Rightarrow> good (h\<lparr>sh_changer := ch\<rparr>))"

definition vtl_res_alloc_len :: "scsi_cmnd \<Rightarrow> nat" where
  "vtl_res_alloc_len c =
     (if 12 \<le> cmd_len c then cdb24 c 7 else if 10 \<le> cmd_len c then cdb16 c 7 else if 6 \<le> cmd_len c then cdb c 5 else 0)"

definition vtl_res_element_range :: "scsi_cmnd \<Rightarrow> nat \<times> nat" where
  "vtl_res_element_range c = (cdb16 c 2, if 10 \<le> cmd_len c then cdb16 c 4 else if 6 \<le> cmd_len c then cdb c 4 else 0)"

text \<open>How much of the buffer is used, and whether volume tags are given: more often than asked for.\<close>

definition res_voltag :: "scsi_cmnd \<Rightarrow> bool" where
  "res_voltag c = (cdb_bit c 1 4 \<or> 32 \<le> vtl_res_alloc_len c)"

definition res_work_len :: "scsi_cmnd \<Rightarrow> nat" where
  "res_work_len c =
     (let req = vtl_res_alloc_len c;
          w = (if req \<noteq> 0 then min req VTL_ELEMENT_STATUS_BUFLEN else VTL_ELEMENT_STATUS_BUFLEN);
          w1 = (if res_voltag c \<and> w < 4096 then 4096 else w);
          w2 = (if 10 \<le> cmd_len c \<and> w1 < 4096 then 4096 else w1)
      in if w2 < 8 then 8 else w2)"

text \<open>
  The buffer is fresh memory. An answer that does not fit into the buffer of the initiator is an
  error; what lies behind the kernel's buffer after the call is not part of the host's state.
\<close>

definition vtl_handle_read_element_status :: "scsi_env \<Rightarrow> scsi_cmnd \<Rightarrow> vtl_host \<Rightarrow> answer \<times> vtl_host" where
  "vtl_handle_read_element_status e c =
     with_buffer e 0 VTL_ELEMENT_STATUS_BUFLEN (\<lambda>h.
       let req = vtl_res_alloc_len c; (start, num) = vtl_res_element_range c;
           (r, m) = vtl_changer_read_element_status (sh_changer h) (\<lambda>t. tp_barcode (sh_tapes h t)) (res_work_len c) (res_voltag c)
                      (cdb c 1 mod 16) start num (\<lambda>_. se_heap e)
       in case r of
            Inl x \<Rightarrow> check 0 (sense HARDWARE_ERROR 0) h
          | Inr n \<Rightarrow>
              if sc_room c < n then check 0 (sense ABORTED_COMMAND 0) h
              else (\<lparr>an_check = False, an_data = peek m 0 n, an_resid = req - n, an_sense = None\<rparr>, h))"

definition vtl_handle_report_luns :: "scsi_env \<Rightarrow> scsi_cmnd \<Rightarrow> vtl_host \<Rightarrow> answer \<times> vtl_host" where
  "vtl_handle_report_luns e c h =
     (let nluns = num_drives h + 1; need = 8 + 8 * nluns; alloc = cdb32 c 6; xfer = min alloc need
      in if cmd_len c < 10 then vtl_cmd_illegal 0 h
         else if alloc = 0 then good h
         else if VTL_XFER_BUF_MAX < need then vtl_cmd_illegal 0 h
         else with_buffer e 0 need
           (vtl_scsi_copy_to_sg c
             (if xfer < 8 then replicate xfer 0
              else zeros_to xfer (be32 (8 * nluns) @ replicate 4 0 @
                     concat (map (\<lambda>i. be16 i @ replicate 6 0) [0..<min nluns ((xfer - 8) div 8)])))) h)"

section \<open>The dispatcher\<close>

definition vtl_changer_scsi :: "scsi_env \<Rightarrow> scsi_cmnd \<Rightarrow> vtl_host \<Rightarrow> answer \<times> vtl_host" where
  "vtl_changer_scsi e c h =
     (let op = cdb c 0
      in if op = 0x12 then vtl_handle_inquiry e c h
         else if op = 0x00 then vtl_handle_test_unit_ready c h
         else if op = 0x03 then vtl_handle_request_sense e c h
         else if op = 0x1a \<or> op = 0x5a then vtl_handle_mode_sense e c h
         else if op = 0x15 \<or> op = 0x55 then good h
         else if op = 0x07 then good h
         else if op = 0x1e then good h
         else if op = 0xa5 then vtl_handle_move_medium c h
         else if op = 0xb4 \<or> op = 0xb8 then vtl_handle_read_element_status e c h
         else if op = 0xa0 then vtl_handle_report_luns e c h
         else vtl_cmd_illegal 0 h)"

definition vtl_tape_scsi :: "scsi_env \<Rightarrow> scsi_cmnd \<Rightarrow> vtl_host \<Rightarrow> answer \<times> vtl_host" where
  "vtl_tape_scsi e c h =
     (let op = cdb c 0
      in if num_drives h \<le> sc_lun c - 1 then vtl_cmd_lun_not_supported h
         else if op = 0x12 then vtl_handle_inquiry e c h
         else if op = 0x00 then vtl_handle_test_unit_ready c h
         else if op = 0x03 then vtl_handle_request_sense e c h
         else if op = 0x05 then vtl_handle_read_block_limits e c h
         else if op = 0x1a \<or> op = 0x5a then vtl_handle_mode_sense e c h
         else if op = 0x15 \<or> op = 0x55 then good h
         else if op = READ_6 \<or> op = READ_10 \<or> op = READ_12 then vtl_handle_read e c op h
         else if op = WRITE_6 \<or> op = WRITE_10 \<or> op = WRITE_12 then vtl_handle_write e c op h
         else if op = 0x01 then vtl_handle_rewind c h
         else if op = 0x11 then vtl_handle_space c h
         else if op = 0x10 then vtl_handle_write_filemarks c h
         else if op = 0x1b then vtl_handle_load_unload c h
         else if op = 0x4d then vtl_handle_log_sense e c h
         else if op = 0x34 then vtl_handle_read_position e c h
         else if op = 0x1e then good h
         else vtl_cmd_illegal (sc_lun c) h)"

text \<open>What the mid layer gets: a host code, or the answer with its result word.\<close>

datatype completion = NoConnect | BadTarget | Completed nat answer

definition vtl_scsi_queuecommand :: "scsi_env \<Rightarrow> scsi_cmnd \<Rightarrow> vtl_host \<Rightarrow> completion \<times> vtl_host" where
  "vtl_scsi_queuecommand e c h =
     (if se_reconfig e then (NoConnect, h)
      else if sc_channel c \<noteq> 0 \<or> sc_id c \<noteq> 0 then (BadTarget, h)
      else let (a, h1) = (if num_drives h < sc_lun c then vtl_cmd_lun_not_supported h
                          else if sc_lun c = 0 then vtl_changer_scsi e c h
                          else vtl_tape_scsi e c h)
           in (Completed (vtl_set_cmd_result (an_check a)) a, h1))"

section \<open>Opening a tape\<close>

text \<open>
  The objects that the module makes for an image: \<open>vtl_tape_open_existing\<close>, which the load and place
  requests use and which clears the metadata, and \<open>vtl_tape_create\<close>. The barcode that the second draws
  is a parameter.
\<close>

definition opened_tape :: "string \<Rightarrow> content \<Rightarrow> vtl_tape" where
  "opened_tape name c =
     \<lparr>tp_content = c, tp_position = 0, tp_protected = False, tp_barcode = take 8 name, tp_capacity = 0, tp_used = 0,
      tp_read = 0, tp_written = 0, tp_mounts = 0\<rparr>"

definition VTL_MIN_TAPE_SIZE :: nat where "VTL_MIN_TAPE_SIZE = 10485760"

definition created_tape :: "string \<Rightarrow> nat \<Rightarrow> vtl_tape" where
  "created_tape barcode n =
     (let z = (if n < VTL_MIN_TAPE_SIZE then VTL_MIN_TAPE_SIZE else if VTL_MAX_TAPE_SIZE < n then VTL_MAX_TAPE_SIZE else n)
      in \<lparr>tp_content = resize_content z empty_content, tp_position = 0, tp_protected = False, tp_barcode = barcode,
          tp_capacity = z, tp_used = 0, tp_read = 0, tp_written = 0, tp_mounts = 0\<rparr>)"

end
