(* ===== verification/ScsiProperties.thy ===== *)
theory ScsiProperties
  imports ScsiCommands Samples
begin

text \<open>
  The properties of the SCSI side of the module: what is written is read back, a tape's position stays on
  the tape and only writing changes its data, no command but LOAD UNLOAD loses a medium, and READ ELEMENT
  STATUS reports the inventory. The lemmas at the end show the behaviours that the findings name.
\<close>

section \<open>Sequences of commands\<close>

fun run_commands :: "scsi_env \<Rightarrow> scsi_cmnd list \<Rightarrow> vtl_host \<Rightarrow> completion list \<times> vtl_host" where
  "run_commands e [] h = ([], h)"
| "run_commands e (c # cs) h =
     (case vtl_scsi_queuecommand e c h of (r, h1) \<Rightarrow> case run_commands e cs h1 of (rs, h2) \<Rightarrow> (r # rs, h2))"

lemma run_commands_append:
  "run_commands e (cs @ ds) h =
     (case run_commands e cs h of (rs, h1) \<Rightarrow> case run_commands e ds h1 of (ss, h2) \<Rightarrow> (rs @ ss, h2))"
  by (induction cs arbitrary: h) (auto split: prod.splits)

definition command_on :: "nat \<Rightarrow> nat list \<Rightarrow> nat list \<Rightarrow> nat \<Rightarrow> scsi_cmnd" where
  "command_on lun bs out room =
     \<lparr>sc_channel = 0, sc_id = 0, sc_lun = lun, sc_cdb = map word_of_nat bs, sc_out = out, sc_room = room\<rparr>"

definition rewind_command :: "nat \<Rightarrow> scsi_cmnd" where
  "rewind_command lun = command_on lun [0x01, 0, 0, 0, 0, 0] [] 0"

definition write_command :: "nat \<Rightarrow> nat \<Rightarrow> nat list \<Rightarrow> scsi_cmnd" where
  "write_command lun b w = command_on lun ([WRITE_10, 0, 0, 0, 0, 0, 0] @ be16 (length w div b) @ [0]) w 0"

definition read_command :: "nat \<Rightarrow> nat \<Rightarrow> nat list \<Rightarrow> scsi_cmnd" where
  "read_command lun b w = command_on lun ([READ_10, 0, 0, 0, 0, 0, 0] @ be16 (length w div b) @ [0]) [] (length w)"

text \<open>READ ELEMENT STATUS for all elements with volume tags, into a buffer of 8192 bytes.\<close>

definition inventory_command :: scsi_cmnd where
  "inventory_command = command_on 0 [0xb8, 0x10, 0, 0, 0, 0, 0, 0, 0x20, 0, 0, 0] [] 8192"

definition completed :: "nat list \<Rightarrow> completion" where
  "completed bs = Completed 0 \<lparr>an_check = False, an_data = bs, an_resid = 0, an_sense = None\<rparr>"

section \<open>A drive with a tape\<close>

text \<open>A file system and a kernel without faults.\<close>

definition faultless :: "scsi_env \<Rightarrow> bool" where
  "faultless e \<longleftrightarrow> \<not> se_reconfig e \<and> (\<forall>n. se_alloc e n) \<and> (\<forall>p n. vf_read (se_vfs e) p n = None) \<and>
     (\<forall>p n. vf_write (se_vfs e) p n = Inr n)"

definition drive_at :: "nat \<Rightarrow> string \<Rightarrow> nat \<Rightarrow> nat \<Rightarrow> nat \<Rightarrow> content \<Rightarrow> vtl_host \<Rightarrow> bool" where
  "drive_at i t b cap p c h \<longleftrightarrow>
     i < num_drives h \<and> length (sh_drives h) = num_drives h \<and> loaded_in (Suc i) h = Some t \<and>
     dr_block (sh_drives h ! i) = b \<and> \<not> dr_filemark (sh_drives h ! i) \<and>
     tape_ok (sh_tapes h t) \<and> \<not> tp_protected (sh_tapes h t) \<and> tp_capacity (sh_tapes h t) = cap \<and>
     tp_position (sh_tapes h t) = int p \<and> tp_content (sh_tapes h t) = c"

definition transfer :: "nat \<Rightarrow> nat list \<Rightarrow> bool" where
  "transfer b w \<longleftrightarrow> w \<noteq> [] \<and> b dvd length w \<and> length w div b < 65536 \<and> length w \<le> VTL_XFER_BUF_MAX"

definition block_ok :: "nat \<Rightarrow> bool" where
  "block_ok b \<longleftrightarrow> VTL_MIN_BLOCK_SIZE \<le> b \<and> b \<le> VTL_MAX_BLOCK_SIZE"

lemma cdb_command [simp]: "cdb (command_on lun bs out room) i = (if i < length bs then bs ! i mod 256 else 0)"
  by (simp add: cdb_def command_on_def unsigned_of_nat take_bit_eq_mod)

lemma command_fields [simp]:
  "sc_lun (command_on lun bs out room) = lun" "sc_channel (command_on lun bs out room) = 0"
  "sc_id (command_on lun bs out room) = 0" "sc_out (command_on lun bs out room) = out"
  "sc_room (command_on lun bs out room) = room" "length (sc_cdb (command_on lun bs out room)) = length bs"
  by (simp_all add: command_on_def)

lemma put_loaded_frames [simp]:
  "sh_changer (put_loaded lun t dt h) = sh_changer h" "loaded_in l (put_loaded lun t dt h) = loaded_in l h"
  "length (sh_drives (put_loaded lun t dt h)) = length (sh_drives h)"
  by (simp_all add: put_loaded_def loaded_in_def)

lemma put_loaded_tape [simp]: "sh_tapes (put_loaded lun t dt h) t = snd dt"
  by (simp add: put_loaded_def)

lemma put_loaded_drive [simp]:
  "i < num_drives h \<Longrightarrow> length (sh_drives h) = num_drives h \<Longrightarrow> sh_drives (put_loaded (Suc i) t dt h) ! i = fst dt"
  by (simp add: put_loaded_def)

lemma parse_rw10:
  assumes "transfer b w" "dr_block d = b" "block_ok b"
  shows "vtl_parse_rw_blocks (write_command lun b w) WRITE_10 d = (length w div b, b)"
    "vtl_parse_rw_blocks (read_command lun b w) READ_10 d = (length w div b, b)"
    "vtl_rw_prepare_xfer (length w div b) b = None" "length w div b * b = length w" "0 < length w div b"
proof -
  have b: "0 < b" using assms(3) by (simp add: block_ok_def VTL_MIN_BLOCK_SIZE_def)
  show len: "length w div b * b = length w" using assms(1) by (simp add: transfer_def)
  then show pos: "0 < length w div b" using assms(1) by (metis gr0I length_0_conv mult_is_0 transfer_def)
  have "length w div b div 256 mod 256 * 256 + length w div b mod 256 = length w div b"
    using assms(1) by (simp add: transfer_def less_mult_imp_div_less)
  then show "vtl_parse_rw_blocks (write_command lun b w) WRITE_10 d = (length w div b, b)"
      "vtl_parse_rw_blocks (read_command lun b w) READ_10 d = (length w div b, b)"
    using assms(2) by (simp_all add: vtl_parse_rw_blocks_def write_command_def read_command_def cdb_bit_def cdb16_def be16_def mult.commute)
  show "vtl_rw_prepare_xfer (length w div b) b = None"
    using assms(1,3) b pos len by (auto simp: vtl_rw_prepare_xfer_def block_ok_def transfer_def)
qed

section \<open>One command\<close>

lemma rewind_step:
  assumes "faultless e" "i < num_drives h" "loaded_in (Suc i) h = Some t"
  shows "vtl_scsi_queuecommand e (rewind_command (Suc i)) h =
    (completed [], put_loaded (Suc i) t (vtl_tape_rewind (loaded_pair (Suc i) t h)) h)"
  using assms
  by (simp add: vtl_scsi_queuecommand_def faultless_def rewind_command_def vtl_tape_scsi_def vtl_handle_rewind_def with_medium_def
      good_def completed_def vtl_set_cmd_result_def)

lemma rewind_at:
  assumes "drive_at i t b cap p c h"
  shows "drive_at i t b cap 0 c (put_loaded (Suc i) t (vtl_tape_rewind (loaded_pair (Suc i) t h)) h)"
  using assms
  by (auto simp: drive_at_def vtl_tape_rewind_def loaded_pair_def tape_ok_def)

lemma write_step:
  assumes "faultless e" "drive_at i t b cap p c h" "block_ok b" "transfer b w" "p + length w \<le> cap"
  shows "\<exists>h'. vtl_scsi_queuecommand e (write_command (Suc i) b w) h = (completed [], h') \<and>
    drive_at i t b cap (p + length w) (overwrite p w c) h'"
proof -
  let ?dt = "loaded_pair (Suc i) t h"
  obtain d tp where dt: "?dt = (d, tp)" by fastforce
  have d: "sh_drives h ! i = d" "sh_tapes h t = tp" using dt by (simp_all add: loaded_pair_def)
  note at = assms(2) [unfolded drive_at_def d]
  note parse = parse_rw10 [OF assms(4) _ assms(3), of d]
  have small: "length w < 2 ^ 32" using assms(4) by (simp add: transfer_def VTL_XFER_BUF_MAX_def)
  have fit: "min (length w) (tp_capacity tp - nat (tp_position tp)) = length w" using at assms(5) by simp
  have "kernel_write (se_vfs e) (tp_content tp) p w = Inr (length w, overwrite p w c)"
    using assms(1) at by (simp add: kernel_write_def faultless_def)
  then have w: "vtl_tape_write (se_vfs e) w ?dt =
      (Inr (), d\<lparr>dr_bot := (int p + int (length w) = 0), dr_end := False, dr_filemark := False\<rparr>,
       tp\<lparr>tp_content := overwrite p w c, tp_position := int p + int (length w),
          tp_used := (if tp_used tp < u64 (int p + int (length w)) then u64 (int p + int (length w)) else tp_used tp),
          tp_written := (tp_written tp + length w) mod 2 ^ 64\<rparr>)"
    using at fit transfer_fits [OF _ small, of tp] unfolding dt by (simp add: vtl_tape_write_def Let_def)
  from w have ok: "tape_ok (snd (snd (vtl_tape_write (se_vfs e) w ?dt)))"
    using write_ok [OF _ _ small, of "se_vfs e" d tp] at unfolding dt by (metis prod.collapse)
  have op: "cdb (write_command (Suc i) b w) 0 = WRITE_10" "sc_lun (write_command (Suc i) b w) = Suc i" "sc_out (write_command (Suc i) b w) = w"
      "sc_channel (write_command (Suc i) b w) = 0" "sc_id (write_command (Suc i) b w) = 0"
    by (simp_all add: write_command_def)
  have alloc: "vtl_xfer_buf_alloc e (length w)"
    using assms(1,4) by (simp add: vtl_xfer_buf_alloc_def faultless_def transfer_def)
  have "vtl_handle_write e (write_command (Suc i) b w) WRITE_10 h =
      good (put_loaded (Suc i) t (snd (vtl_tape_write (se_vfs e) w ?dt)) h)"
    using at parse d alloc w
    by (simp add: vtl_handle_write_def op with_medium_def with_buffer_def Let_def)
  then have "vtl_scsi_queuecommand e (write_command (Suc i) b w) h =
      (completed [], put_loaded (Suc i) t (snd (vtl_tape_write (se_vfs e) w ?dt)) h)"
    using assms(1) at
    by (simp add: vtl_scsi_queuecommand_def faultless_def op vtl_tape_scsi_def good_def completed_def vtl_set_cmd_result_def)
  moreover have "drive_at i t b cap (p + length w) (overwrite p w c)
      (put_loaded (Suc i) t (snd (vtl_tape_write (se_vfs e) w ?dt)) h)"
    using at ok w d by (simp add: drive_at_def)
  ultimately show ?thesis by blast
qed

lemma read_step:
  assumes "faultless e" "drive_at i t b cap p c h" "block_ok b" "transfer b w" "p + length w \<le> cap" "p + length w \<le> clen c"
  shows "\<exists>h'. vtl_scsi_queuecommand e (read_command (Suc i) b w) h = (completed (map (cbyte c) [p..<p + length w]), h') \<and>
    drive_at i t b cap (p + length w) c h'"
proof -
  let ?dt = "loaded_pair (Suc i) t h"
  obtain d tp where dt: "?dt = (d, tp)" by fastforce
  have d: "sh_drives h ! i = d" "sh_tapes h t = tp" using dt by (simp_all add: loaded_pair_def)
  note at = assms(2) [unfolded drive_at_def d]
  note parse = parse_rw10 [OF assms(4) _ assms(3), of d]
  let ?bs = "map (cbyte c) [p..<p + length w]"
  have small: "length w < 2 ^ 32" using assms(4) by (simp add: transfer_def VTL_XFER_BUF_MAX_def)
  have fit: "min (length w) (tp_capacity tp - nat (tp_position tp)) = length w" using at assms(5) by simp
  have "kernel_read (se_vfs e) (tp_content tp) p (length w) = Inr ?bs"
    using assms(1,6) at by (simp add: kernel_read_def faultless_def)
  moreover have "p < cap" using assms(4,5) by (cases w) (auto simp: transfer_def)
  then have "\<not> tp_capacity tp \<le> u64 (tp_position tp)" using at at_capacity [of tp "int p"] by auto
  ultimately have r: "vtl_tape_read (se_vfs e) (length w) ?dt =
      (Inr ?bs, d\<lparr>dr_bot := (int p + int (length w) = 0), dr_end := (tp_capacity tp \<le> u64 (int p + int (length w)))\<rparr>,
       tp\<lparr>tp_position := int p + int (length w), tp_read := (tp_read tp + length w) mod 2 ^ 64\<rparr>)"
    using at fit transfer_fits [OF _ small, of tp] unfolding dt by (simp add: vtl_tape_read_def Let_def)
  from r have ok: "tape_ok (snd (snd (vtl_tape_read (se_vfs e) (length w) ?dt)))"
    using read_ok [OF _ _ small, of "se_vfs e" d tp] at unfolding dt by (metis prod.collapse)
  have op: "cdb (read_command (Suc i) b w) 0 = READ_10" "sc_lun (read_command (Suc i) b w) = Suc i" "sc_room (read_command (Suc i) b w) = length w"
      "sc_channel (read_command (Suc i) b w) = 0" "sc_id (read_command (Suc i) b w) = 0"
    by (simp_all add: read_command_def)
  have alloc: "vtl_xfer_buf_alloc e (length w)"
    using assms(1,4) by (simp add: vtl_xfer_buf_alloc_def faultless_def transfer_def)
  have "vtl_handle_read e (read_command (Suc i) b w) READ_10 h =
      vtl_scsi_copy_to_sg (read_command (Suc i) b w) ?bs (put_loaded (Suc i) t (snd (vtl_tape_read (se_vfs e) (length w) ?dt)) h)"
    using at parse d alloc r
    by (simp add: vtl_handle_read_def op with_medium_def with_buffer_def Let_def)
  then have "vtl_scsi_queuecommand e (read_command (Suc i) b w) h =
      (completed ?bs, put_loaded (Suc i) t (snd (vtl_tape_read (se_vfs e) (length w) ?dt)) h)"
    using assms(1) at
    by (simp add: vtl_scsi_queuecommand_def faultless_def op vtl_tape_scsi_def vtl_scsi_copy_to_sg_def completed_def vtl_set_cmd_result_def)
  moreover have "drive_at i t b cap (p + length w) c (put_loaded (Suc i) t (snd (vtl_tape_read (se_vfs e) (length w) ?dt)) h)"
    using at ok r d by (simp add: drive_at_def)
  ultimately show ?thesis by blast
qed

section \<open>A sample host\<close>

definition sample_scsi_env :: scsi_env where
  "sample_scsi_env =
     \<lparr>se_alloc = (\<lambda>_. True), se_vfs = \<lparr>vf_read = (\<lambda>_ _. None), vf_write = (\<lambda>_ n. Inr n)\<rparr>, se_heap = 170,
      se_host_no = 3, se_personality = 0, se_reconfig = False\<rparr>"

definition sample_vtl_host :: vtl_host where
  "sample_vtl_host =
     \<lparr>sh_changer = \<lparr>ch_slots = [None, Some ''t2''], ch_drives = [Some ''t1''], ch_mail = [None]\<rparr>,
      sh_drives = [\<lparr>dr_block = 512, dr_filemark = False, dr_end = False, dr_bot = True, dr_sense = no_sense\<rparr>],
      sh_tapes = (\<lambda>_. created_tape ''VTL000001'' 0), sh_sense = no_sense\<rparr>"

lemma created_tape_ok: "tape_ok (created_tape b n)"
  by (simp add: tape_ok_def created_tape_def Let_def VTL_MAX_TAPE_SIZE_def VTL_MIN_TAPE_SIZE_def)

lemma sample_faultless: "faultless sample_scsi_env"
  by (simp add: faultless_def sample_scsi_env_def)

lemma sample_drive_at:
  "drive_at 0 ''t1'' 512 10485760 0 (resize_content 10485760 empty_content) sample_vtl_host"
  using created_tape_ok [of "''VTL000001''" 0]
  by (simp add: drive_at_def sample_vtl_host_def loaded_in_def) (simp add: created_tape_def VTL_MIN_TAPE_SIZE_def)

lemma block_512: "block_ok 512"
  by (simp add: block_ok_def VTL_MIN_BLOCK_SIZE_def VTL_MAX_BLOCK_SIZE_def)

lemma sample_transfer: "transfer 512 (replicate 512 x)" "transfer 512 (replicate 1024 x)"
  by (simp_all add: transfer_def VTL_XFER_BUF_MAX_def)

section \<open>What is written is read back\<close>

text \<open>A drive whose commands meet no faults is a sequential medium.\<close>

interpretation drive: sequential_medium
  "\<lambda>p c h. faultless e \<and> block_ok b \<and> drive_at i t b cap p c h"
  "\<lambda>w. vtl_scsi_queuecommand e (write_command (Suc i) b w)" "\<lambda>w. vtl_scsi_queuecommand e (read_command (Suc i) b w)"
  "vtl_scsi_queuecommand e (rewind_command (Suc i))" completed "transfer b" cap for e i t b cap
proof unfold_locales
  fix p c h
  assume at: "faultless e \<and> block_ok b \<and> drive_at i t b cap p c h"
  then show "\<exists>h'. vtl_scsi_queuecommand e (rewind_command (Suc i)) h = (completed [], h') \<and>
      (faultless e \<and> block_ok b \<and> drive_at i t b cap 0 c h')"
    using rewind_step [of e i h t] rewind_at [of i t b cap p c h] by (auto simp: drive_at_def)
  fix w
  assume w: "transfer b w" "p + length w \<le> cap"
  then show "\<exists>h'. vtl_scsi_queuecommand e (write_command (Suc i) b w) h = (completed [], h') \<and>
      (faultless e \<and> block_ok b \<and> drive_at i t b cap (p + length w) (overwrite p w c) h')"
    using at write_step [of e i t b cap p c h w] by blast
  assume "p + length w \<le> clen c"
  then show "\<exists>h'. vtl_scsi_queuecommand e (read_command (Suc i) b w) h = (completed (map (cbyte c) [p..<p + length w]), h') \<and>
      (faultless e \<and> block_ok b \<and> drive_at i t b cap (p + length w) c h')"
    using at w read_step [of e i t b cap p c h w] by blast
qed

lemma run_commands_map: "run_commands e (map f xs) = runs (\<lambda>x. vtl_scsi_queuecommand e (f x)) xs"
proof
  show "run_commands e (map f xs) h = runs (\<lambda>x. vtl_scsi_queuecommand e (f x)) xs h" for h
    by (induction xs arbitrary: h) (auto split: prod.splits)
qed

text \<open>C14: what is written to a tape is read back: after a rewind, any sequence of WRITE (10) commands of whole
  blocks that fit on the tape, another rewind and READ (10) commands of the same lengths, every command
  has succeeded and the reads have given the data that was written, block for block.\<close>

theorem written_data_is_read_back:
  assumes "faultless e" "drive_at i t b cap p c h" "block_ok b"
    and "\<forall>w \<in> set ws. transfer b w" "length (concat ws) \<le> cap"
  shows "fst (run_commands e ([rewind_command (Suc i)] @ map (write_command (Suc i) b) ws @
      [rewind_command (Suc i)] @ map (read_command (Suc i) b) ws) h) =
    [completed []] @ map (\<lambda>_. completed []) ws @ [completed []] @ map completed ws"
proof -
  have "faultless e \<and> block_ok b \<and> drive_at i t b cap p c h" using assms(1-3) by blast
  then show ?thesis
    by (rule drive.written_is_read [OF _ assms(4,5)]) (simp add: run_commands_append run_commands_map)
qed

theorem written_data_is_read_back_witness:
  "fst (run_commands sample_scsi_env ([rewind_command (Suc 0)] @ map (write_command (Suc 0) 512) [replicate 512 7, replicate 1024 9] @
      [rewind_command (Suc 0)] @ map (read_command (Suc 0) 512) [replicate 512 7, replicate 1024 9]) sample_vtl_host) =
    [completed [], completed [], completed [], completed [], completed (replicate 512 7), completed (replicate 1024 9)]"
proof -
  have "\<forall>w \<in> set [replicate 512 7, replicate 1024 9]. transfer 512 w" using sample_transfer by simp
  moreover have "length (concat [replicate 512 7, replicate 1024 (9 :: nat)]) \<le> 10485760" by simp
  ultimately show ?thesis
    using written_data_is_read_back [OF sample_faultless sample_drive_at block_512, of "[replicate 512 7, replicate 1024 9]"] by simp
qed

section \<open>What commands change\<close>

text \<open>A handler that answers from the state and at most records sense data.\<close>

definition media_same :: "vtl_host \<Rightarrow> vtl_host \<Rightarrow> bool" where
  "media_same h h' \<longleftrightarrow> sh_changer h' = sh_changer h \<and> sh_tapes h' = sh_tapes h"

definition only_reads :: "(vtl_host \<Rightarrow> answer \<times> vtl_host) \<Rightarrow> bool" where
  "only_reads f \<longleftrightarrow> (\<forall>h. media_same h (snd (f h)))"

lemma media_same_refl [simp]: "media_same h h"
  by (simp add: media_same_def)

lemma put_sense_frames [simp]: "sh_changer (put_sense lun s h) = sh_changer h" "sh_tapes (put_sense lun s h) = sh_tapes h"
  by (simp_all add: put_sense_def)

lemma media_same_answers [simp]:
  "media_same h (snd (check lun s h))" "media_same h (snd (good h))" "media_same h (snd (vtl_cmd_illegal lun h))"
  "media_same h (snd (vtl_cmd_lun_not_supported h))" "media_same h (snd (vtl_scsi_staging_oom lun h))"
  "media_same h (snd (vtl_scsi_copy_to_sg c buf h))"
  by (simp_all add: media_same_def check_def good_def vtl_cmd_illegal_def vtl_cmd_lun_not_supported_def vtl_scsi_staging_oom_def
      vtl_scsi_copy_to_sg_def)

lemma only_reads_with_buffer: "(\<And>h. media_same h (snd (k h))) \<Longrightarrow> media_same h (snd (with_buffer e lun n k h))"
  by (simp add: with_buffer_def)

lemma reading_handlers [simp]:
  "media_same h (snd (vtl_handle_inquiry e c h))" "media_same h (snd (vtl_handle_test_unit_ready c h))"
  "media_same h (snd (vtl_handle_request_sense e c h))" "media_same h (snd (vtl_handle_read_block_limits e c h))"
  "media_same h (snd (vtl_handle_mode_sense e c h))" "media_same h (snd (vtl_handle_log_sense e c h))"
  "media_same h (snd (vtl_handle_read_position e c h))" "media_same h (snd (vtl_handle_read_element_status e c h))"
  "media_same h (snd (vtl_handle_report_luns e c h))"
  unfolding vtl_handle_inquiry_def vtl_handle_inquiry_evpd_def vtl_handle_test_unit_ready_def vtl_handle_request_sense_def
    vtl_handle_read_block_limits_def vtl_handle_mode_sense_def vtl_handle_log_sense_def vtl_handle_read_position_def
    vtl_handle_read_element_status_def vtl_handle_report_luns_def
  by (auto simp: Let_def split: option.splits prod.splits sum.splits intro!: only_reads_with_buffer)

text \<open>A handler that works on the tape in the drive: what it may do to the tape.\<close>

definition tape_changes :: "(vtl_tape \<Rightarrow> vtl_tape \<Rightarrow> bool) \<Rightarrow> nat \<Rightarrow> vtl_host \<Rightarrow> vtl_host \<Rightarrow> bool" where
  "tape_changes P lun h h' \<longleftrightarrow> sh_changer h' = sh_changer h \<and>
     (\<forall>t. sh_tapes h' t = sh_tapes h t \<or> loaded_in lun h = Some t \<and> P (sh_tapes h t) (sh_tapes h' t))"

lemma tape_changes_same: "media_same h h' \<Longrightarrow> tape_changes P lun h h'"
  by (simp add: tape_changes_def media_same_def)

lemma tape_changes_check:
  "tape_changes P lun h h' \<Longrightarrow> tape_changes P lun h (snd (check l s h'))"
  "tape_changes P lun h h' \<Longrightarrow> tape_changes P lun h (snd (good h'))"
  "tape_changes P lun h h' \<Longrightarrow> tape_changes P lun h (snd (vtl_scsi_copy_to_sg c buf h'))"
  by (simp_all add: tape_changes_def check_def good_def vtl_scsi_copy_to_sg_def)

lemma tape_changes_put:
  "loaded_in lun h = Some t \<Longrightarrow> P (sh_tapes h t) (snd dt) \<Longrightarrow> tape_changes P lun h (put_loaded lun t dt h)"
  by (simp add: tape_changes_def put_loaded_def)

lemma tape_changes_medium:
  "(\<And>t. loaded_in lun h = Some t \<Longrightarrow> tape_changes P lun h (snd (k t h))) \<Longrightarrow> tape_changes P lun h (snd (with_medium lun k h))"
  by (auto simp: with_medium_def tape_changes_same split: option.splits)

lemma tape_changes_buffer:
  "(vtl_xfer_buf_alloc e n \<Longrightarrow> tape_changes P lun h (snd (k h))) \<Longrightarrow> tape_changes P lun h (snd (with_buffer e l n k h))"
  by (auto simp: with_buffer_def tape_changes_same)

text \<open>Reading and positioning keep the data; writing needs a tape that is not protected.\<close>

definition keeps_data :: "vtl_tape \<Rightarrow> vtl_tape \<Rightarrow> bool" where
  "keeps_data t t' \<longleftrightarrow> (tape_ok t \<longrightarrow> tape_ok t') \<and> tp_content t' = tp_content t"

definition may_write :: "vtl_tape \<Rightarrow> vtl_tape \<Rightarrow> bool" where
  "may_write t t' \<longleftrightarrow> (tape_ok t \<longrightarrow> tape_ok t') \<and> \<not> tp_protected t"

lemma buffer_small: "vtl_xfer_buf_alloc e n \<Longrightarrow> n < 2 ^ 32"
  by (auto simp: vtl_xfer_buf_alloc_def VTL_XFER_BUF_MAX_def split: if_splits)

lemma vtl_tape_read_content: "vtl_tape_read v n (d, t) = (r, d', t') \<Longrightarrow> tp_content t' = tp_content t"
  by (auto simp: vtl_tape_read_def Let_def split: if_splits sum.splits)

lemma read_keeps: "vtl_tape_read v n (loaded_pair lun t h) = (r, d, t') \<Longrightarrow> n < 4294967296 \<Longrightarrow> keeps_data (sh_tapes h t) t'"
  unfolding keeps_data_def loaded_pair_def using read_ok [of v n] vtl_tape_read_content by fastforce

lemma write_writes:
  "vtl_tape_write v bs (loaded_pair lun t h) = (r, d, t') \<Longrightarrow> length bs < 4294967296 \<Longrightarrow> \<not> tp_protected (sh_tapes h t) \<Longrightarrow>
   may_write (sh_tapes h t) t'"
  unfolding may_write_def loaded_pair_def using write_ok [of v bs] by fastforce

lemma read_changes: "tape_changes keeps_data (sc_lun c) h (snd (vtl_handle_read e c op h))"
  unfolding vtl_handle_read_def Let_def
  by (intro tape_changes_medium)
    (auto split: option.splits prod.splits sum.splits simp: tape_changes_same
      intro!: tape_changes_buffer tape_changes_check tape_changes_put dest!: buffer_small, (erule read_keeps; simp)+)

lemma write_changes: "tape_changes may_write (sc_lun c) h (snd (vtl_handle_write e c op h))"
  unfolding vtl_handle_write_def Let_def
  by (intro tape_changes_medium)
    (auto split: option.splits prod.splits sum.splits simp: tape_changes_same
      intro!: tape_changes_buffer tape_changes_check tape_changes_put dest!: buffer_small, (erule write_writes; simp)+)

lemma space_content: "tp_content (snd (vtl_tape_space code cnt dt)) = tp_content (snd dt)"
  by (simp add: vtl_tape_space_def Let_def case_prod_beta)

lemma moving_changes:
  "tape_changes keeps_data (sc_lun c) h (snd (vtl_handle_rewind c h))"
  "tape_changes keeps_data (sc_lun c) h (snd (vtl_handle_space c h))"
  "tape_changes keeps_data (sc_lun c) h (snd (vtl_handle_write_filemarks c h))"
  unfolding vtl_handle_rewind_def vtl_handle_space_def vtl_handle_write_filemarks_def Let_def
  by (auto intro!: tape_changes_medium tape_changes_check tape_changes_put
      simp: keeps_data_def loaded_pair_def rewind_ok space_ok filemarks_ok space_content)
    (simp_all add: vtl_tape_rewind_def vtl_tape_write_filemarks_def)

lemma load_unload_tapes: "sh_tapes (snd (vtl_handle_load_unload c h)) = sh_tapes h"
  by (auto simp: vtl_handle_load_unload_def with_medium_def good_def check_def vtl_tape_unload_def Let_def split: option.splits)

lemma move_medium_tapes:
  "sh_tapes (snd (vtl_handle_move_medium c h)) = sh_tapes h"
  "sh_changer (snd (vtl_handle_move_medium c h)) = snd (move_medium (int (cdb16 c 2)) (int (cdb16 c 4)) (sh_changer h))"
  by (auto simp: vtl_handle_move_medium_def good_def check_def split: prod.splits option.splits)

definition write_op :: "scsi_cmnd \<Rightarrow> bool" where
  "write_op c \<longleftrightarrow> cdb c 0 \<in> {WRITE_6, WRITE_10, WRITE_12}"

definition unload_op :: "scsi_cmnd \<Rightarrow> bool" where
  "unload_op c \<longleftrightarrow> cdb c 0 = 0x1b"

lemma command_changes:
  assumes "vtl_scsi_queuecommand e c h = (r, h')"
  shows "(sh_tapes h' = sh_tapes h \<and>
      (sh_changer h' = sh_changer h \<or> unload_op c \<or> sh_changer h' = snd (move_medium (int (cdb16 c 2)) (int (cdb16 c 4)) (sh_changer h)))) \<or>
    tape_changes keeps_data (sc_lun c) h h' \<or> write_op c \<and> tape_changes may_write (sc_lun c) h h'"
proof -
  have changer: "media_same h (snd (vtl_changer_scsi e c h)) \<or> snd (vtl_changer_scsi e c h) = snd (vtl_handle_move_medium c h)"
    by (simp add: vtl_changer_scsi_def Let_def)
  have tape: "media_same h (snd (vtl_tape_scsi e c h)) \<or> unload_op c \<and> snd (vtl_tape_scsi e c h) = snd (vtl_handle_load_unload c h) \<or>
      tape_changes keeps_data (sc_lun c) h (snd (vtl_tape_scsi e c h)) \<or>
      write_op c \<and> tape_changes may_write (sc_lun c) h (snd (vtl_tape_scsi e c h))"
    using read_changes [of c h e] write_changes [of c h e] moving_changes [of c h]
    by (simp add: vtl_tape_scsi_def Let_def write_op_def unload_op_def)
  have "h' = h \<or> h' = snd (vtl_cmd_lun_not_supported h) \<or> h' = snd (vtl_changer_scsi e c h) \<or> h' = snd (vtl_tape_scsi e c h)"
    using assms by (auto simp: vtl_scsi_queuecommand_def Let_def split: if_splits prod.splits)
  then show ?thesis
    using changer tape move_medium_tapes [of c h] load_unload_tapes [of c h] media_same_answers(4) [of h]
    unfolding media_same_def by metis
qed

text \<open>C18: whatever commands the initiators send, valid or not, every tape keeps its position between its start
  and its capacity, and does not use more than its capacity.\<close>

theorem tapes_stay_in_bounds:
  assumes "\<forall>t. tape_ok (sh_tapes h t)"
  shows "\<forall>t. tape_ok (sh_tapes (snd (run_commands e cs h)) t)"
  using assms
proof (induction cs arbitrary: h)
  case (Cons c cs)
  obtain r h1 where h1: "vtl_scsi_queuecommand e c h = (r, h1)" by fastforce
  have "\<forall>t. tape_ok (sh_tapes h1 t)"
    using command_changes [OF h1] Cons.prems
    unfolding tape_changes_def keeps_data_def may_write_def by metis
  with Cons.IH [of h1] h1 show ?case by (simp add: case_prod_beta)
qed simp

theorem tapes_stay_in_bounds_witness:
  "tape_ok (sh_tapes (snd (run_commands sample_scsi_env [command_on 1 [0x11, 2, 0, 0, 0, 0] [] 0, read_command 1 512 (replicate 512 0),
     command_on 1 [0x11, 0, 255, 255, 255, 255] [] 0] sample_vtl_host)) ''t1'')"
proof -
  have "\<forall>t. tape_ok (sh_tapes sample_vtl_host t)" using created_tape_ok by (simp add: sample_vtl_host_def)
  from tapes_stay_in_bounds [OF this] show ?thesis by blast
qed

text \<open>C17: the data of a tape changes only by a WRITE command to the drive that the tape is in, and never when
  the tape is write protected.\<close>

theorem only_writing_changes_data:
  assumes "vtl_scsi_queuecommand e c h = (r, h')" "tp_content (sh_tapes h' t) \<noteq> tp_content (sh_tapes h t)"
  shows "write_op c \<and> loaded_in (sc_lun c) h = Some t \<and> \<not> tp_protected (sh_tapes h t)"
  using command_changes [OF assms(1)] assms(2)
  unfolding tape_changes_def keeps_data_def may_write_def by metis

theorem only_writing_changes_data_witness:
  "write_op (write_command (Suc 0) 512 (replicate 512 7)) \<and> loaded_in (Suc 0) sample_vtl_host = Some ''t1''"
proof -
  obtain h' where h': "vtl_scsi_queuecommand sample_scsi_env (write_command (Suc 0) 512 (replicate 512 7)) sample_vtl_host = (completed [], h')"
      "drive_at 0 ''t1'' 512 10485760 (0 + length (replicate 512 (7 :: nat))) (overwrite 0 (replicate 512 7) (resize_content 10485760 empty_content)) h'"
    using write_step [OF sample_faultless sample_drive_at block_512 sample_transfer(1) [of 7]] by auto
  have "cbyte (tp_content (sh_tapes h' ''t1'')) 0 = 7" using h'(2) by (simp add: drive_at_def overwrite_def)
  moreover have "cbyte (tp_content (sh_tapes sample_vtl_host ''t1'')) 0 = 0"
    by (simp add: sample_vtl_host_def created_tape_def resize_content_def empty_content_def)
  ultimately have "tp_content (sh_tapes h' ''t1'') \<noteq> tp_content (sh_tapes sample_vtl_host ''t1'')" by auto
  from only_writing_changes_data [OF h'(1) this] show ?thesis by (simp add: write_command_def)
qed

text \<open>C15: no sequence of SCSI commands without LOAD UNLOAD, whether they succeed or not, takes a medium out of
  the library or brings a new one. (UNLOAD does; see below.)\<close>

theorem scsi_commands_lose_no_medium:
  assumes "list_all (\<lambda>c. \<not> unload_op c) cs"
  shows "ran (changer_at (sh_changer (snd (run_commands e cs h)))) = ran (changer_at (sh_changer h))"
  using assms
proof (induction cs arbitrary: h)
  case (Cons c cs)
  obtain r h1 where h1: "vtl_scsi_queuecommand e c h = (r, h1)" by fastforce
  have "sh_changer h1 = sh_changer h \<or> sh_changer h1 = snd (move_medium (int (cdb16 c 2)) (int (cdb16 c 4)) (sh_changer h))"
    using command_changes [OF h1] Cons.prems unfolding tape_changes_def by auto
  then have "ran (changer_at (sh_changer h1)) = ran (changer_at (sh_changer h))"
    using kc.ran_move by metis
  with Cons h1 show ?case by (simp add: case_prod_beta)
qed simp

theorem scsi_commands_lose_no_medium_witness:
  "ran (changer_at (sh_changer (snd (run_commands sample_scsi_env [command_on 0 [0xa5, 0, 3, 232, 0, 0, 0, 0, 0, 0, 0, 0] [] 0,
     inventory_command, rewind_command 1] sample_vtl_host)))) = ran (changer_at (sh_changer sample_vtl_host))"
proof -
  have "list_all (\<lambda>c. \<not> unload_op c) [command_on 0 [0xa5, 0, 3, 232, 0, 0, 0, 0, 0, 0, 0, 0] [] 0, inventory_command, rewind_command 1]"
    by (simp add: unload_op_def inventory_command_def rewind_command_def)
  from scsi_commands_lose_no_medium [OF this] show ?thesis by blast
qed

section \<open>The inventory\<close>

lemma inventory_fields:
  "res_work_len inventory_command = 8192" "res_voltag inventory_command" "vtl_res_alloc_len inventory_command = 8192"
  "vtl_res_element_range inventory_command = (0, 0)" "cdb inventory_command (Suc 0) mod 16 = 0" "cdb inventory_command 0 = 0xb8"
  "sc_lun inventory_command = 0" "sc_channel inventory_command = 0" "sc_id inventory_command = 0" "sc_room inventory_command = 8192"
  by (simp_all add: inventory_command_def res_work_len_def res_voltag_def vtl_res_alloc_len_def vtl_res_element_range_def
      cdb_bit_def cdb16_def cdb24_def VTL_ELEMENT_STATUS_BUFLEN_def)

text \<open>C16: READ ELEMENT STATUS for all elements, with a buffer that is large enough, gives the standard's list of
  bytes for every element in order, with the count that the second pass finds; the full elements among
  them are exactly the items of the inventory ioctl; and with at most 254 elements nothing behind the
  kernel's buffer is changed.\<close>

theorem element_status_is_the_inventory:
  assumes "\<not> se_reconfig e" "se_alloc e 8192" "changer_small (sh_changer h)" "element_count (sh_changer h) \<le> 254"
  defines "bc \<equiv> \<lambda>t. tp_barcode (sh_tapes h t)" and "els \<equiv> all_elements (sh_changer h)"
  shows "vtl_scsi_queuecommand e inventory_command h =
      (Completed 0 \<lparr>an_check = False, an_data = element_status_data bc True els,
         an_resid = 8192 - length (element_status_data bc True els), an_sense = None\<rparr>, h) \<and>
    List.map_filter (\<lambda>(a, x). map_option (Pair (int a)) x) (concat (map snd els)) = all_items (sh_changer h) \<and>
    (\<forall>i m. VTL_ELEMENT_STATUS_BUFLEN \<le> i \<longrightarrow>
       snd (vtl_changer_read_element_status (sh_changer h) bc VTL_ELEMENT_STATUS_BUFLEN True 0 0 0 m) i = m i)"
proof -
  let ?data = "element_status_data bc True els"
  have sel: "els = selected (sh_changer h) True 0 0 0 (8192 - 8) smc_type_order"
    using assms(4) unfolding els_def by (intro selected_all [symmetric]) (simp add: desc_len_def)
  note answer = element_status_answer [OF assms(3) _ sel refl, of bc]
  have "length (page_bytes bc True els) = 24 + 32 * element_count (sh_changer h)"
    by (simp add: els_def page_bytes_def all_elements_def smc_type_order_def length_page desc_len_def element_count_def
        elements_of_def smc_types)
  then have small: "length ?data \<le> 8160" using assms(4) by (simp add: element_status_data_def Let_def)
  obtain m' where m': "vtl_changer_read_element_status (sh_changer h) bc 8192 True 0 0 0 (\<lambda>_. se_heap e) = (Inr (length ?data), m')"
      "peek m' 0 (length ?data) = ?data"
    using answer [of "\<lambda>_. se_heap e"] by auto
  have "vtl_xfer_buf_alloc e VTL_ELEMENT_STATUS_BUFLEN"
    using assms(2) by (simp add: vtl_xfer_buf_alloc_def VTL_ELEMENT_STATUS_BUFLEN_def VTL_XFER_BUF_MAX_def)
  then have "vtl_handle_read_element_status e inventory_command h =
      (\<lparr>an_check = False, an_data = ?data, an_resid = 8192 - length ?data, an_sense = None\<rparr>, h)"
    using m' small
    by (simp add: vtl_handle_read_element_status_def with_buffer_def inventory_fields bc_def del: add_2_eq_Suc')
  then have "vtl_scsi_queuecommand e inventory_command h =
      (Completed 0 \<lparr>an_check = False, an_data = ?data, an_resid = 8192 - length ?data, an_sense = None\<rparr>, h)"
    using assms(1)
    by (simp add: vtl_scsi_queuecommand_def inventory_fields vtl_changer_scsi_def vtl_set_cmd_result_def)
  moreover have "snd (vtl_changer_read_element_status (sh_changer h) bc VTL_ELEMENT_STATUS_BUFLEN True 0 0 0 m) i = m i"
    if "VTL_ELEMENT_STATUS_BUFLEN \<le> i" for i m
    using answer [of m] small that by (auto simp: VTL_ELEMENT_STATUS_BUFLEN_def spill_def)
  ultimately show ?thesis using all_elements_items [of "sh_changer h"] by (simp add: els_def)
qed

theorem element_status_is_the_inventory_witness:
  "\<exists>n. vtl_scsi_queuecommand sample_scsi_env inventory_command sample_vtl_host =
      (Completed 0 \<lparr>an_check = False, an_data = element_status_data (\<lambda>_. ''VTL000001'') True (all_elements (sh_changer sample_vtl_host)),
         an_resid = n, an_sense = None\<rparr>, sample_vtl_host)"
proof -
  have "\<not> se_reconfig sample_scsi_env" "se_alloc sample_scsi_env 8192" "changer_small (sh_changer sample_vtl_host)"
      "element_count (sh_changer sample_vtl_host) \<le> 254"
    by (simp_all add: sample_scsi_env_def sample_vtl_host_def changer_small_def element_count_def)
  moreover have "tp_barcode (sh_tapes sample_vtl_host t) = ''VTL000001''" for t
    by (simp add: sample_vtl_host_def created_tape_def)
  ultimately show ?thesis using element_status_is_the_inventory [of sample_scsi_env sample_vtl_host] by simp
qed

section \<open>What goes wrong\<close>

text \<open>
  The object that the module makes for an image which exists has capacity 0: what is written to it is
  dropped with a good status, and nothing can be read from it.
\<close>

lemma opened_tape_keeps_nothing:
  assumes "0 < length bs" "length bs < 2 ^ 32" "\<forall>p n. vf_write v p n = Inr n" "\<not> dr_filemark d"
  shows "fst (vtl_tape_write v bs (d, opened_tape nm c)) = Inr () \<and>
    tp_content (snd (snd (vtl_tape_write v bs (d, opened_tape nm c)))) = c \<and>
    fst (vtl_tape_read v n (d, opened_tape nm c)) = Inr []"
proof -
  have "u64 (int (length bs)) = length bs" using assms(2) by simp
  then show ?thesis
    using assms
    by (simp add: vtl_tape_write_def vtl_tape_read_def opened_tape_def kernel_write_def overwrite_def u32_def u64_def)
qed

text \<open>UNLOAD takes the tape out of the drive and puts it nowhere.\<close>

lemma unload_loses_the_medium:
  assumes "kc.one_place (sh_changer h)" "i < num_drives h" "i < 1000" "loaded_in (Suc i) h = Some t"
  shows "t \<notin> ran (changer_at (sh_changer (vtl_tape_unload (Suc i) h)))"
proof
  let ?ch = "sh_changer h" and ?a = "1000 + int i"
  assume "t \<in> ran (changer_at (sh_changer (vtl_tape_unload (Suc i) h)))"
  then obtain x where x: "changer_at (elem_put (EDrive i) None ?ch) x = Some t" by (auto simp: ran_def vtl_tape_unload_def)
  have a: "element ?ch ?a = Some (EDrive i)" using assms(2,3) by (simp add: element_def element_bases)
  have "changer_at ?ch ?a = Some t" using a assms(4) by (simp add: changer_at_def loaded_in_def)
  moreover have "x \<noteq> ?a \<and> changer_at ?ch x = Some t"
    using x a assms(2) by (auto simp: changer_at_def element_def element_bases Let_def nth_list_update split: if_splits)
  ultimately show False using assms(1) by (auto simp: kc.one_place_def)
qed

text \<open>The status byte of a check condition is 4, which stands for CONDITION MET.\<close>

lemma check_condition_status: "vtl_set_cmd_result True mod 256 = 4"
  by (simp add: vtl_set_cmd_result_def DRIVER_SENSE_def SAM_STAT_CHECK_CONDITION_def)

text \<open>The six byte commands take the control byte for the number of blocks.\<close>

lemma six_byte_commands_move_256_blocks: "cdb c 5 = 0 \<Longrightarrow> vtl_parse_rw_blocks c WRITE_6 d = (256, dr_block d)"
  by (simp add: vtl_parse_rw_blocks_def)

text \<open>Spacing one block back goes forward by 2 to the power of 32 less a block.\<close>

lemma space_back_goes_forward:
  assumes "dr_block d = 32768" "tp_position t = 65536" "tp_capacity t = 10995116277760"
  shows "tp_position (snd (vtl_tape_space 0 (-1) (d, t))) = 65536 + (2 ^ 32 - 32768)"
  using assms by (simp add: vtl_tape_space_def space_to_def u32_def u64_def)

text \<open>The short form of READ POSITION has no allocation length, and is refused.\<close>

lemma short_read_position_refused:
  "vtl_handle_read_position e (command_on lun [0x34, 0, 0, 0, 0, 0, 0, 0, 0, 0] [] 20) h = check lun (sense ILLEGAL_REQUEST 0x24) h"
  by (simp add: vtl_handle_read_position_def cdb16_def)

end
