(* ===== verification/Transport.thy ===== *)
theory Transport
  imports Robot ReconcileFacts
begin

text \<open>
  What two groups of commands print, as lists of lines: the transport commands (\<^verbatim>\<open>fab_transport.rs\<close>)
  and the report of \<^verbatim>\<open>robot reconcile\<close> (\<^verbatim>\<open>print_reconcile_report\<close> and \<^verbatim>\<open>drift_error_message\<close> in
  \<^verbatim>\<open>reconcile.rs\<close>). The Chinese sentences are kept as ASCII glosses. The text of the guide, what \<^verbatim>\<open>which\<close>
  answers and which directories exist are parameters.
\<close>

section \<open>The transport commands\<close>

fun describe :: "FabTransport \<Rightarrow> string" where
  "describe LocalScsi = ''local SCSI: /dev/st* and /dev/sg* after vtl.ko is loaded''"
| "describe Iscsi = ''iSCSI: vtladm keeps metadata and images; deploy a target on the system''"
| "describe Fc = ''FC: vtladm does not configure the target mode of an HBA''"

definition labelled_line :: "string \<Rightarrow> string option \<Rightarrow> string list" where
  "labelled_line label x = (case x of None \<Rightarrow> [] | Some v \<Rightarrow> [label @ v])"

definition transport_show_lines :: "VtlConfig \<Rightarrow> string list" where
  "transport_show_lines c =
     [''Fabric transport (configured): '' @ as_conf_str (cfg_transport c),
      describe (cfg_transport c),
      ''  db_path:    '' @ cfg_db_path c,
      ''  tape_dir:   '' @ cfg_tape_dir c,
      ''  log_dir:    '' @ cfg_log_dir c,
      ''  log_rotate: max '' @ show_nat (cfg_log_max_bytes c) @ '' bytes per file''] @
     labelled_line ''  iscsi_iqn:  '' (cfg_iscsi_iqn c) @
     labelled_line ''  iscsi_portals: '' (cfg_iscsi_portals c) @
     labelled_line ''  fc_wwpn:    '' (cfg_fc_wwpn c) @
     [[], ''more: vtladm transport guide'']"

definition transport_show :: "string list cmd" where
  "transport_show = gets (\<lambda>w. transport_show_lines (w_cfg w))"

definition transport_guide :: "string \<Rightarrow> string cmd" where
  "transport_guide md = ret md"

text \<open>\<open>which\<close>: whether the command could be started, and whether it succeeded.\<close>

definition command_in_path :: "(string \<Rightarrow> bool option) \<Rightarrow> string \<Rightarrow> bool" where
  "command_in_path which c = (case which c of None \<Rightarrow> False | Some b \<Rightarrow> b)"

definition transport_check_lines :: "FabTransport \<Rightarrow> bool \<Rightarrow> (string \<Rightarrow> bool option) \<Rightarrow> bool \<Rightarrow> string list" where
  "transport_check_lines t configfs which sysfs =
     [''Transport check (configured: '' @ as_conf_str t @ '')'', [],
      ''  Linux-IO configfs target dir: '' @
        (if configfs then ''present (/sys/kernel/config/target)''
         else ''not mounted (load target modules / start target service if using LIO)''),
      ''  targetcli in PATH: '' @
        (if command_in_path which ''targetcli'' then ''yes''
         else ''no (install targetcli-fb / python3-rtslib on RHEL family, etc.)''),
      ''  /sys/kernel/vtl: '' @
        (if sysfs then ''present (kernel vtl may be loaded)'' else ''absent (kernel module may not be loaded)''),
      [], ''this tool has no iSCSI or FC target process; the above are hints'']"

definition transport_check :: "bool \<Rightarrow> (string \<Rightarrow> bool option) \<Rightarrow> bool \<Rightarrow> string list cmd" where
  "transport_check configfs which sysfs = gets (\<lambda>w. transport_check_lines (cfg_transport (w_cfg w)) configfs which sysfs)"

text \<open>The transport commands always succeed and change nothing.\<close>

lemma transport_commands_only_report:
  "\<exists>l. transport_show w = (Inr l, w)" "\<exists>l. transport_check c f s w = (Inr l, w)" "transport_guide md w = (Inr md, w)"
  by (simp_all add: transport_show_def transport_check_def transport_guide_def gets_def ret_def)

text \<open>The word in the first line is read back as the transport that is configured.\<close>

lemma shown_transport_is_read_back: "parse_fab_transport (as_conf_str t) = Some t"
  by (induct t) code_simp+

section \<open>The report of a reconciliation\<close>

text \<open>The debug format of a place.\<close>

fun debug_place :: "MediumLocation option \<Rightarrow> string" where
  "debug_place None = ''None''"
| "debug_place (Some (DataSlot i)) = ''Some(DataSlot('' @ show_int i @ ''))''"
| "debug_place (Some (Drive i)) = ''Some(Drive('' @ show_int i @ ''))''"
| "debug_place (Some (MailSlot i)) = ''Some(MailSlot('' @ show_int i @ ''))''"

definition drift_line :: "DriftItem \<Rightarrow> string" where
  "drift_line x =
     ''  tape '' @ [CHR 0x27] @ drift_tape x @ [CHR 0x27] @ '': DB '' @ debug_place (drift_db x) @ ''  kernel '' @ debug_place (drift_kernel x)"

definition dry_run_line :: string where
  "dry_run_line = ''Dry-run only. Use: vtladm -L <lib> robot reconcile --apply | --pull''"

definition print_reconcile_report :: "string \<Rightarrow> ReconcileReport \<Rightarrow> string list" where
  "print_reconcile_report lib r =
     (if rep_truncated r then [''Warning: kernel GET_INVENTORY was truncated; results may be incomplete.''] else []) @
     (if rep_drifts r = []
      then [''Library '' @ [CHR 0x27] @ lib @ [CHR 0x27] @ '': DB and kernel inventory match.'']
      else [''Library '' @ [CHR 0x27] @ lib @ [CHR 0x27] @ '': '' @ show_nat (length (rep_drifts r)) @ '' drift(s) between DB and kernel:''] @
        map drift_line (rep_drifts r) @
        (if 0 < rep_fixes r then [''Applied '' @ show_nat (rep_fixes r) @ '' fix(es) (DB -> kernel).''] else []) @
        (if 0 < rep_pulls r then [''Updated '' @ show_nat (rep_pulls r) @ '' tape row(s) (kernel -> DB).''] else []) @
        (if rep_fixes r = 0 \<and> rep_pulls r = 0 then [dry_run_line] else []))"

definition drift_error_message :: "ReconcileReport \<Rightarrow> string" where
  "drift_error_message r =
     ''RECONCILE_DRIFT: '' @ show_nat (length (rep_drifts r)) @
     '' inventory drift(s); use robot reconcile --pull or robot auto-align''"

definition reconcile_current_library :: "bool \<Rightarrow> bool \<Rightarrow> ReconcileReport cmd" where
  "reconcile_current_library apply_db pull =
     thenp init_db (bindp current_library_id (\<lambda>lib. reconcile_library lib apply_db pull))"

text \<open>The line that says that all is well appears exactly when the two inventories agree.\<close>

lemma match_is_reported:
  assumes "rep_drifts r = find_drifts d k" "\<not> rep_truncated r"
  shows "length (print_reconcile_report lib r) = 1 \<longleftrightarrow> (\<forall>t. map_of d t = map_of k t)"
proof -
  have "length (print_reconcile_report lib r) = 1 \<longleftrightarrow> rep_drifts r = []"
    using assms(2) by (cases "rep_drifts r") (auto simp: print_reconcile_report_def)
  then show ?thesis using assms(1) by (simp add: find_drifts_Nil)
qed

text \<open>
  A pull that takes tapes out of the catalogue's places updates no row that the report counts, and
  is reported as a dry run.
\<close>

lemma pull_reported_as_dry_run:
  assumes "rep_drifts r \<noteq> []" "rep_fixes r = 0"
  shows "fst (apply_kernel_to_db lib [] d) = 0 \<and>
    dry_run_line \<in> set (print_reconcile_report name (r\<lparr>rep_pulls := fst (apply_kernel_to_db lib [] d)\<rparr>))"
proof -
  have n: "fst (apply_kernel_to_db lib [] d) = 0" by (simp add: apply_kernel_to_db_def Let_def)
  with assms show ?thesis by (simp add: print_reconcile_report_def)
qed

end
