(* ===== verification/Spec2Isabelle.thy ===== *)
theory Spec2Isabelle
  imports KernelProperties TextProperties Reports ServiceProperties ToolProperties WebProperties WebUndo ModuleProperties ScsiProperties Transport
begin

text \<open>
  A development for \<^verbatim>\<open>vtladm\<close>, the user space of a virtual tape library: a catalogue of tapes,
  libraries, slots and drives in SQLite, tape images in the file system, a kernel module that shows
  them as a SCSI medium changer with tape drives, a command line and a web interface over both, and
  \<^verbatim>\<open>vtladm-iscsi\<close>, which exports the devices of a library through LIO. All paths below are under
  \<^verbatim>\<open>vtladm-rc/userspace/src\<close>, those of the module under \<^verbatim>\<open>vtladm-rc/kernel/src\<close>.

  How the parts interact. A command runs one transaction on the catalogue, changes image files, and
  then tells the kernel: a move is one ioctl on the changer (theory World, \<open>kernel\<close>), a change of the
  number of slots and drives is a new geometry string (Geometry) that the module parses (KernelGeom).
  A failing ioctl does not undo the transaction; what then differs is found and repaired by the
  reconciliation (Reconcile). The web interface calls the same commands; the patrol only reads,
  apart from stale export records. Backup programs reach the module by SCSI commands (ScsiCommands),
  which read and write the tapes in the drives and can move them, too.

  Conventions. A string is the list of its bytes. Fallible code returns \<open>error + value\<close>; the
  propagation of errors is \<open>andThen\<close> for pure code and \<open>bindp\<close> for programs with state (Effects),
  which keep the effects that precede an error. A transaction is a pure function from the catalogue
  to an error or a new catalogue, so that an error undoes it. Tables are lists of rows with their
  keys, checks and references written out in \<open>catalog_ok\<close>. Fixed-width integers are words where the
  width matters (ioctl requests, kernel quantities), and bounded naturals with the checks of the
  source where it parses text.

  Theories, in the order of their layers.

  \<^item> Prelude, Effects, Stores: errors, the string functions of Rust, lemmas on row lists; programs with
    effects and their rules; the interface of keyed stores (a locale, interpreted by the export
    records, the sessions and the captchas).
  \<^item> Names, Config (\<^verbatim>\<open>main.rs\<close>, \<^verbatim>\<open>fab_transport.rs\<close>): validation and sanitising of names, addresses,
    sizes, barcodes; \<open>VtlConfig\<close>, the lines of \<^verbatim>\<open>vtl.conf\<close>, the environment.
  \<^item> Catalog, Placement, Places (\<^verbatim>\<open>main.rs\<close>): the schema and the shared statements; the transactions
    that move a tape; the map from tapes to places that they refine.
  \<^item> Files, Links: \<^verbatim>\<open>std::fs\<close> over inodes, and the flat directory of hard links for the kernel. Symbolic
    links are followed at most 40 times, as the kernel does.
  \<^item> Changer, KernelGeom, KernelHot (\<^verbatim>\<open>vtl_tape.c\<close>, \<^verbatim>\<open>vtl_main.c\<close>): the medium changer with its moves, the
    parser of \<^verbatim>\<open>vtl_instances\<close>, the resizing of a changer and the rebuild of all hosts.
  \<^item> TapeDrive, ElementStatus, ScsiCommands (\<^verbatim>\<open>vtl_tape.c\<close>, \<^verbatim>\<open>vtl_scsi.c\<close>, \<^verbatim>\<open>vtl_personality.c\<close>): the data path of
    a drive over the bytes of an image, with the contract of a sequential medium (a locale) that the
    commands of a drive satisfy; READ ELEMENT STATUS as writes to the memory of the kernel, with
    the list of bytes that it should be; every SCSI command with the dispatcher.
  \<^item> IoctlAbi (\<^verbatim>\<open>robot_sync.rs\<close>, \<^verbatim>\<open>kernel_geom_ioctl.rs\<close>, \<^verbatim>\<open>vtl_misc.c\<close>): request numbers, the structs of the
    requests as bytes, and the dispatcher of the module that reads them back.
  \<^item> World, Samples: the state of a command (catalogue, files, kernel, configuration, faults), opening
    the database; a concrete site for the witnesses.
  \<^item> RobotSync, Robot, Reconcile (\<^verbatim>\<open>robot_sync.rs\<close>, \<^verbatim>\<open>main.rs\<close>, \<^verbatim>\<open>reconcile.rs\<close>): element addresses and the
    ioctl fields, the robot commands, drifts, pull, push and mirror.
  \<^item> ScsiTools, Geometry, GeometryFacts, GeometrySafety (\<^verbatim>\<open>scsi_tape_holders.rs\<close>, \<^verbatim>\<open>lio_hold.rs\<close>,
    \<^verbatim>\<open>kernel_geom_ioctl.rs\<close>, \<^verbatim>\<open>scsi_rescan_vtl.rs\<close>, \<^verbatim>\<open>main.rs\<close>): the probes, the geometry string and its
    application, and the order of events in a run.
  \<^item> Digest, Tapes, Shelves, Libraries, Reports, Transport (\<^verbatim>\<open>main.rs\<close>, \<^verbatim>\<open>fab_transport.rs\<close>) with TapeFacts,
    LibraryFacts, LibraryKeeps: the checksum of an exported tape, the commands on tapes, shelves, the
    offline storage and libraries, and those that only report.
  \<^item> IscsiExport, WebAuth, Logs, Setup, Migration, Patrol (\<^verbatim>\<open>iscsi_export.rs\<close>, \<^verbatim>\<open>web_auth.rs\<close>, \<^verbatim>\<open>main.rs\<close>,
    \<^verbatim>\<open>patrol.rs\<close>): export records, the web login, log files, the first configuration, the migration of
    databases of the first schema, the patrol. SettingsKept: the runs of the geometry leave the settings as
    they are.
  \<^item> Cli (\<^verbatim>\<open>main.rs\<close>): every subcommand, the choice of the library and the exit status.
  \<^item> IscsiTool, IscsiToolFacts (\<^verbatim>\<open>bin/vtladm_iscsi.rs\<close>): the whole of \<^verbatim>\<open>vtladm-iscsi\<close>.
  \<^item> Lsscsi, WebBase, WebPages, WebManage, WebIscsi, WebRouter (\<^verbatim>\<open>web.rs\<close>): the choice of devices from the
    listing of \<^verbatim>\<open>lsscsi\<close>; requests, sessions and the gate; the handlers that report, that manage and
    that export; every route, and the server as a sequence of requests.
  \<^item> ReconcileFacts, Agreement, Alignment, WebSafety, WebExport and the theories with Properties in their
    names, WebUndo and this theory: the lemmas on several parts, and the properties.

  What is shown. \<open>catalog_ok\<close> (keys, references, checks, a tape in at most one place) is kept by
  every careful command, over the life of an installation and of a server; not careful are the imports
  and the mirror of slot hints (sync-db, the patrol, serve), which write what is reported without looking
  where a tape was. Each robot transaction refines one update of the map from tapes to places. Load and
  eject from a data slot and unload simulate the ioctl of the kernel with which the command pairs them, so
  that catalogue and changer stay in agreement; from a mail slot, which the commands also accept, load and
  eject break it, and this is proved too. The geometry string is parsed back to the segments it
  was made of by the code that the module has, and nothing that would disturb an open device happens
  before the probes allow it. The drifts are exactly the differences; a pull leaves in each slot row
  the last tape that is reported there. A request to the module arrives as the bytes that the handler takes, and the geometry of the
  catalogue is the one that the module then has. What is written to a tape by SCSI is read back, its
  position stays on the tape, and only UNLOAD takes a medium out of a library; READ ELEMENT STATUS is
  the inventory. Through the web interface nothing changes without a session, a login needs the captcha
  and the password, the catalogue stays consistent, and an export that was saved can be undone by the
  request that the page sends. The loop of the checksum ends for every size of read. Sessions, captchas, passwords, quotas, logs, export records, the wizard and the migration have
  a property each that states what they are for.

  Parameters. The clock, random generators, bcrypt, serde_json, the answers of other processes
  (lsscsi, fuser, targetcli, systemctl) and the faults of the database and the file system are parameters
  of the definitions; hypotheses on them (such as \<open>codec_ok\<close>: what was encoded is decoded again)
  are named, and the witnesses instantiate them.

  Bounds and fuel. No definition needs fuel except the resolution of symbolic links, with the 40 steps of
  the kernel; the loops of the sources are structural recursions, functions with a measure, or the
  partial function of the checksum, which is shown to return.

  Not modelled. The locks and time stamps of the module, its sysfs files (\<^verbatim>\<open>vtl_sysfs.c\<close>) and the
  registration of devices; what commands print on the console apart from the theories Reports and
  Transport; the pages of \<^verbatim>\<open>web.rs\<close> (HTML, style sheets, JavaScript, all constants) and the HTTP library;
  the tests; the installation scripts and the packaging. Error texts that the sources have in Chinese are
  given in English; no property depends on them.
\<close>

section \<open>Reports\<close>

text \<open>Without the wildcards of SQL a search for a part of a name finds exactly the tapes of the
  library whose name contains it, whatever the case of the letters, in the order of their names.\<close>

theorem search_finds_substrings:
  assumes "search_db \<lparr>sf_name = Some n, sf_tag = None, sf_min = None, sf_max = None, sf_free = None\<rparr> lib d = Inr rows"
    and "CHR ''%'' \<notin> set n" and "CHR ''_'' \<notin> set n"
  shows "set rows = search_row_of d lib `
      {r \<in> set (tapes d). tape_lib r = lib \<and> contains_sub (to_lower n) (to_lower (tape_name r))} \<and>
    sorted (map sr_name rows)"
  using search_db_complete [OF assms(1)] search_db_names [OF assms(1)] sql_like_contains [OF assms(2,3)]
  by (simp add: matches_filter_def)

theorem search_finds_substrings_witness:
  "\<exists>rows. search_db \<lparr>sf_name = Some ''T2'', sf_tag = None, sf_min = None, sf_max = None, sf_free = None\<rparr> 1 sample_db
      = Inr rows \<and> map sr_name rows = [''t2''] \<and> sorted (map sr_name rows)"
proof -
  let ?f = "\<lparr>sf_name = Some ''T2'', sf_tag = None, sf_min = None, sf_max = None, sf_free = None\<rparr>"
  obtain rows where rows: "search_db ?f 1 sample_db = Inr rows" by (simp add: search_db_def size_bound_def)
  have "matches_filter sample_db ?f None None (sample_tape 1 ''t1'' None (Some 0)) = False"
    "matches_filter sample_db ?f None None (sample_tape 2 ''t2'' (Some 1) None) = True" by code_simp+
  with rows have "map sr_name rows = [''t2'']"
    by (auto simp: search_db_def size_bound_def search_row_of_def sample_db_def) (simp_all add: sample_tape_def)
  with search_finds_substrings [OF rows] rows show ?thesis by simp
qed

text \<open>In a consistent catalogue the status never shows more loaded tapes than drives or tapes.\<close>

theorem status_is_plausible:
  assumes "catalog_ok d"
  shows "st_loaded (status_of d lib) \<le> st_drives (status_of d lib) \<and>
    st_loaded (status_of d lib) \<le> st_tapes (status_of d lib)"
  by (rule status_loaded_le [OF assms])

theorem status_is_plausible_witness:
  "st_loaded (status_of sample_loaded 1) = 1 \<and> st_loaded (status_of sample_loaded 1) \<le> st_tapes (status_of sample_loaded 1)"
proof -
  have "st_loaded (status_of sample_loaded 1) = 1" by code_simp
  with status_is_plausible [OF sample_loaded_ok, of 1] show ?thesis by blast
qed

end
